(* ===== verification/Prelude.thy ===== *)
theory Prelude
  imports Complex_Main "HOL-Library.Word"
begin

text \<open>
  Shared vocabulary of the development: Rust's unsigned integers with their overflow
  behaviour, results and error propagation (\<open>?\<close> and \<open>and_then\<close>), and the list lemmas the
  components share.

  The workspace is compiled with \<open>overflow-checks = true\<close> (\<open>src/Cargo.toml\<close>), so a plain
  \<open>+\<close>, \<open>-\<close> or \<open>*\<close> on \<open>u64\<close> that leaves the range aborts the instruction. Unsigned
  integers are natural numbers; every arithmetic operation of the source is translated to the
  operation below that has its overflow rule (aborting, checked, saturating).
\<close>

named_theorems result_simps \<open>unfolding rules for results, guards and checked arithmetic\<close>

section \<open>Results\<close>

text \<open>A result is a sum: \<open>Inl\<close> carries the error, \<open>Inr\<close> the value. \<open>and_then\<close> is Rust's
  \<open>Result::and_then\<close>, and the translation of the \<open>?\<close> operator.\<close>

definition and_then :: "'e + 'a \<Rightarrow> ('a \<Rightarrow> 'e + 'b) \<Rightarrow> 'e + 'b" where
  "and_then m f = (case m of Inl e \<Rightarrow> Inl e | Inr x \<Rightarrow> f x)"

lemma and_then_Inr [simp]: "and_then (Inr x) f = f x"
  by (simp add: and_then_def)

lemma and_then_Inl [simp]: "and_then (Inl e) f = Inl e"
  by (simp add: and_then_def)

lemma and_then_eq_Inr [result_simps]:
  "and_then m f = Inr y \<longleftrightarrow> (\<exists>x. m = Inr x \<and> f x = Inr y)"
  by (cases m) (auto simp: and_then_def)

lemma and_then_eq_Inl:
  "and_then m f = Inl e \<longleftrightarrow> m = Inl e \<or> (\<exists>x. m = Inr x \<and> f x = Inl e)"
  by (cases m) (auto simp: and_then_def)

lemma and_then_assoc: "and_then (and_then m f) g = and_then m (\<lambda>x. and_then (f x) g)"
  by (cases m) simp_all

lemma and_then_cong [fundef_cong]:
  "m = m' \<Longrightarrow> (\<And>x. m' = Inr x \<Longrightarrow> f x = f' x) \<Longrightarrow> and_then m f = and_then m' f'"
  by (cases m') simp_all

text \<open>\<open>if !b { return Err(e) }\<close>\<close>

definition guard :: "bool \<Rightarrow> 'e \<Rightarrow> 'e + unit" where
  "guard b e = (if b then Inr () else Inl e)"

lemma guard_eq_Inr [result_simps]: "guard b e = Inr u \<longleftrightarrow> b"
  by (simp add: guard_def)

lemma guard_True [simp]: "guard True e = Inr ()"
  by (simp add: guard_def)

lemma guard_False [simp]: "guard False e = Inl e"
  by (simp add: guard_def)

text \<open>\<open>Option::ok_or\<close>\<close>

definition ok_or :: "'a option \<Rightarrow> 'e \<Rightarrow> 'e + 'a" where
  "ok_or x e = (case x of None \<Rightarrow> Inl e | Some y \<Rightarrow> Inr y)"

lemma ok_or_simps [simp]: "ok_or (Some y) e = Inr y" "ok_or None e = Inl e"
  by (simp_all add: ok_or_def)

lemma ok_or_eq_Inr [result_simps]: "ok_or x e = Inr y \<longleftrightarrow> x = Some y"
  by (cases x) simp_all

section \<open>Unsigned integers\<close>

type_synonym u64 = nat
type_synonym u128 = nat
type_synonym i64 = int

abbreviation u64_max :: u64 where "u64_max \<equiv> 18446744073709551615"
abbreviation u128_max :: u128 where "u128_max \<equiv> 340282366920938463463374607431768211455"
abbreviation i64_max :: i64 where "i64_max \<equiv> 9223372036854775807"
abbreviation i64_min :: i64 where "i64_min \<equiv> - 9223372036854775808"

lemma u64_max_eq: "u64_max = 2 ^ 64 - 1"
  by simp

lemma u128_max_eq: "u128_max = 2 ^ 128 - 1"
  by simp

text \<open>\<open>checked_add\<close>, \<open>checked_sub\<close>, \<open>checked_mul\<close>\<close>

definition checked_add :: "u64 \<Rightarrow> u64 \<Rightarrow> u64 option" where
  "checked_add a b = (if a + b \<le> u64_max then Some (a + b) else None)"

definition checked_sub :: "u64 \<Rightarrow> u64 \<Rightarrow> u64 option" where
  "checked_sub a b = (if b \<le> a then Some (a - b) else None)"

definition checked_mul :: "u64 \<Rightarrow> u64 \<Rightarrow> u64 option" where
  "checked_mul a b = (if a * b \<le> u64_max then Some (a * b) else None)"

definition saturating_add :: "u64 \<Rightarrow> u64 \<Rightarrow> u64" where
  "saturating_add a b = min u64_max (a + b)"

definition saturating_sub :: "u64 \<Rightarrow> u64 \<Rightarrow> u64" where
  "saturating_sub a b = a - b"

text \<open>\<open>as u64\<close> of a wider unsigned value keeps the low 64 bits.\<close>

definition as_u64 :: "u128 \<Rightarrow> u64" where
  "as_u64 n = n mod (u64_max + 1)"

lemma as_u64_id [simp]: "n \<le> u64_max \<Longrightarrow> as_u64 n = n"
  by (simp add: as_u64_def)

lemma as_u64_le: "as_u64 n \<le> u64_max"
proof -
  have "n mod (u64_max + 1) < u64_max + 1" by (rule mod_less_divisor) simp
  then show ?thesis by (simp add: as_u64_def)
qed

lemma checked_add_eq_Some [result_simps]:
  "checked_add a b = Some c \<longleftrightarrow> a + b \<le> u64_max \<and> c = a + b"
  by (auto simp: checked_add_def)

lemma checked_sub_eq_Some [result_simps]:
  "checked_sub a b = Some c \<longleftrightarrow> b \<le> a \<and> c = a - b"
  by (auto simp: checked_sub_def)

lemma checked_mul_eq_Some [result_simps]:
  "checked_mul a b = Some c \<longleftrightarrow> a * b \<le> u64_max \<and> c = a * b"
  by (auto simp: checked_mul_def)

lemma saturating_add_ge: "a \<le> u64_max \<Longrightarrow> a \<le> saturating_add a b"
  by (simp add: saturating_add_def)

lemma saturating_add_le [simp]: "saturating_add a b \<le> u64_max"
  by (simp add: saturating_add_def)

lemma saturating_add_exact [simp]: "a + b \<le> u64_max \<Longrightarrow> saturating_add a b = a + b"
  by (simp add: saturating_add_def)

text \<open>Signed saturating addition (used on timestamps).\<close>

definition saturating_add_i64 :: "i64 \<Rightarrow> i64 \<Rightarrow> i64" where
  "saturating_add_i64 a b = max i64_min (min i64_max (a + b))"

section \<open>Lists\<close>

text \<open>Sums over a list when one element changes: the bookkeeping lemma behind every ledger
  invariant of the development.\<close>

lemma sum_list_update_add:
  fixes f :: "'a \<Rightarrow> 'b::ab_group_add"
  assumes "i < length xs"
  shows "sum_list (map f (xs[i := y])) = sum_list (map f xs) - f (xs ! i) + f y"
  using assms
proof (induction xs arbitrary: i)
  case Nil
  then show ?case by simp
next
  case (Cons x xs)
  then show ?case by (cases i) (simp_all add: algebra_simps)
qed

lemma sum_list_update_nat:
  fixes f :: "'a \<Rightarrow> nat"
  assumes "i < length xs"
  shows "sum_list (map f (xs[i := y])) + f (xs ! i) = sum_list (map f xs) + f y"
  using assms
proof (induction xs arbitrary: i)
  case Nil
  then show ?case by simp
next
  case (Cons x xs)
  then show ?case by (cases i) (simp_all add: algebra_simps)
qed

lemma elem_le_sum_list_map:
  fixes f :: "'a \<Rightarrow> nat"
  shows "i < length xs \<Longrightarrow> f (xs ! i) \<le> sum_list (map f xs)"
  by (metis elem_le_sum_list length_map nth_map)

text \<open>Pro-rata shares that are rounded down never add up to more than the pot.\<close>

lemma sum_list_div_le:
  fixes f :: "'a \<Rightarrow> nat"
  shows "sum_list (map (\<lambda>x. f x div d) xs) \<le> sum_list (map f xs) div d"
proof (induction xs)
  case (Cons x xs)
  have "f x div d + sum_list (map f xs) div d \<le> (f x + sum_list (map f xs)) div d"
    by (simp add: div_add1_eq [of "f x"])
  with Cons.IH show ?case by simp
qed simp

lemma pro_rata_sum_le:
  fixes f :: "'a \<Rightarrow> nat"
  assumes "sum_list (map f xs) \<le> tot"
  shows "sum_list (map (\<lambda>x. pot * f x div tot) xs) \<le> pot"
proof (cases "tot = 0")
  case False
  have "sum_list (map (\<lambda>x. pot * f x div tot) xs) \<le> sum_list (map (\<lambda>x. pot * f x) xs) div tot"
    by (rule sum_list_div_le)
  also have "sum_list (map (\<lambda>x. pot * f x) xs) = pot * sum_list (map f xs)"
    by (simp add: sum_list_const_mult)
  also have "pot * sum_list (map f xs) div tot \<le> pot * tot div tot"
    using assms by (intro div_le_mono mult_le_mono2)
  also have "\<dots> = pot" using False by simp
  finally show ?thesis .
qed (simp add: sum_list_0)

section \<open>Taking a handler apart\<close>

text \<open>One step of a successful chain, and a match on an account list of fixed length.\<close>

lemma and_thenE: "and_then x f = Inr y \<Longrightarrow> (\<And>a. x = Inr a \<Longrightarrow> f a = Inr y \<Longrightarrow> P) \<Longrightarrow> P"
  by (auto simp: and_then_eq_Inr)

lemma list1E:
  "(case xs of [a] \<Rightarrow> g a | _ \<Rightarrow> Inl x) = Inr y \<Longrightarrow> (\<And>a. xs = [a] \<Longrightarrow> g a = Inr y \<Longrightarrow> P) \<Longrightarrow> P"
  by (auto split: list.splits)

lemma list6E:
  "(case xs of [a, b, c, d, e, f] \<Rightarrow> g a b c d e f | _ \<Rightarrow> Inl x) = Inr y \<Longrightarrow>
    (\<And>a b c d e f. xs = [a, b, c, d, e, f] \<Longrightarrow> g a b c d e f = Inr y \<Longrightarrow> P) \<Longrightarrow> P"
  by (auto split: list.splits)

lemma list8E:
  "(case xs of [a, b, c, d, e, f, i, j] \<Rightarrow> g a b c d e f i j | _ \<Rightarrow> Inl x) = Inr y \<Longrightarrow>
    (\<And>a b c d e f i j. xs = [a, b, c, d, e, f, i, j] \<Longrightarrow> g a b c d e f i j = Inr y \<Longrightarrow> P) \<Longrightarrow> P"
  by (auto split: list.splits)

lemma list10E:
  "(case xs of [a, b, c, d, e, f, i, j, k, l] \<Rightarrow> g a b c d e f i j k l | _ \<Rightarrow> Inl x) = Inr y \<Longrightarrow>
    (\<And>a b c d e f i j k l. xs = [a, b, c, d, e, f, i, j, k, l] \<Longrightarrow> g a b c d e f i j k l = Inr y \<Longrightarrow> P) \<Longrightarrow> P"
  by (auto split: list.splits)

lemma list16E:
  "(case xs of [a, b, c, d, e, f, i, j, k, l, m, n, z, p, q, r] \<Rightarrow> g a b c d e f i j k l m n z p q r | _ \<Rightarrow> Inl x) = Inr y \<Longrightarrow>
    (\<And>a b c d e f i j k l m n z p q r. xs = [a, b, c, d, e, f, i, j, k, l, m, n, z, p, q, r] \<Longrightarrow>
      g a b c d e f i j k l m n z p q r = Inr y \<Longrightarrow> P) \<Longrightarrow> P"
  by (auto split: list.splits)

end
