(* ===== verification/Consts.thy ===== *)
theory Consts
  imports Prelude
begin

text \<open>
  Program constants (\<open>src/api/src/consts.rs\<close>), program errors (\<open>src/api/src/error.rs\<close>) and
  the address type. An address (\<open>Pubkey\<close>, 32 bytes) is the number its bytes spell in
  big-endian order; \<open>pubkey!("...")\<close> literals are base-58 numerals.
\<close>

section \<open>Addresses\<close>

type_synonym pubkey = nat
type_synonym byte = "8 word"

definition base58_digit :: "char \<Rightarrow> nat" where
  "base58_digit c = (let n = of_char c in
     if n \<le> 57 then n - 49
     else if n \<le> 72 then n - 56
     else if n \<le> 78 then n - 57
     else if n \<le> 90 then n - 58
     else if n \<le> 107 then n - 64
     else n - 65)"

definition base58 :: "string \<Rightarrow> pubkey" where
  "base58 s = foldl (\<lambda>acc c. 58 * acc + base58_digit c) 0 s"

text \<open>\<open>Pubkey::default()\<close> is 32 zero bytes.\<close>

definition pubkey_default :: pubkey where
  "pubkey_default = 0"

definition REFERRER_LOCKED_SENTINEL :: pubkey where
  "REFERRER_LOCKED_SENTINEL = 2 ^ 256 - 1"

definition DEPLOYER_ADDRESS :: pubkey where
  "DEPLOYER_ADDRESS = base58 ''devwFHLkNQ4bBpBLfshAiyfr3Pie5ZNrChpKM7dZ4kF''"

definition MINT_ADDRESS :: pubkey where
  "MINT_ADDRESS = base58 ''GodL6KZ9uuUoQwELggtVzQkKmU1LfqmDokPibPeDKkhF''"

definition SOL_MINT :: pubkey where
  "SOL_MINT = base58 ''So11111111111111111111111111111111111111112''"

definition SPLIT_ADDRESS :: pubkey where
  "SPLIT_ADDRESS = base58 ''SpLiT11111111111111111111111111111111111112''"

definition POOL_ADDRESS :: pubkey where
  "POOL_ADDRESS = base58 ''PooL111111111111111111111111111111111111111''"

definition CHEST_ADDRESS :: pubkey where
  "CHEST_ADDRESS = base58 ''CHESThUvZPLLSYGa6YKD1LBDe5ktz9KEKnDGDdTiEcmU''"

definition CRANK_BOT :: pubkey where
  "CRANK_BOT = base58 ''CrAnKBPND9W77vpPQioULYrbZeTJDnaLTRZ8WNr6AWPz''"

definition ADMIN_GODL_FEE :: pubkey where
  "ADMIN_GODL_FEE = base58 ''24vRA7Wh97HPRYiwD5WgiNGYeKdtG9Ajz73cJdg2ZGhR''"

definition NFT_BOOST_COLLECTION :: pubkey where
  "NFT_BOOST_COLLECTION = base58 ''DTzRfkhPq73e1m3Fwu7AMPie5aNWwMGQMMxgdBhGATgY''"

definition MPL_CORE_PROGRAM :: pubkey where
  "MPL_CORE_PROGRAM = base58 ''CoREENxT6tW1HoK8ypY1SxRMZTcVPm7R94rH4PZNhX7d''"

definition OTC_ORACLE_SIGNER :: pubkey where
  "OTC_ORACLE_SIGNER = base58 ''otcSPJAKfmCgMmFkKUGk2kjwSQLSCHw5MJrJyouNFKt''"

definition RUSH_SOL_VAULT :: pubkey where
  "RUSH_SOL_VAULT = base58 ''SoLt2Jgpqyt5memkregKW6daYFJ7xG2DAJTLSveeidY''"

definition XAUT_MINT :: pubkey where
  "XAUT_MINT = base58 ''AymATz4TCL9sWNEEV9Kvyz45CHVhDZ6kUgjTJPzLpU9P''"

lemma special_addresses_distinct:
  "SPLIT_ADDRESS \<noteq> POOL_ADDRESS" "SPLIT_ADDRESS \<noteq> pubkey_default"
  "POOL_ADDRESS \<noteq> pubkey_default" "REFERRER_LOCKED_SENTINEL \<noteq> pubkey_default"
  by (simp_all add: SPLIT_ADDRESS_def POOL_ADDRESS_def pubkey_default_def
      REFERRER_LOCKED_SENTINEL_def base58_def base58_digit_def)

section \<open>Amounts, durations and shares\<close>

definition TOKEN_DECIMALS :: nat where "TOKEN_DECIMALS = 11"

definition ONE_GODL :: u64 where "ONE_GODL = 10 ^ TOKEN_DECIMALS"

definition MAX_SUPPLY :: u64 where "MAX_SUPPLY = ONE_GODL * 2100000"

definition MAX_GODL_PER_ROUND :: u64 where "MAX_GODL_PER_ROUND = ONE_GODL * 40"

definition ONE_MINUTE :: i64 where "ONE_MINUTE = 60"
definition ONE_HOUR :: i64 where "ONE_HOUR = 60 * ONE_MINUTE"
definition ONE_DAY :: i64 where "ONE_DAY = 24 * ONE_HOUR"
definition ONE_MONTH :: i64 where "ONE_MONTH = 30 * ONE_DAY"

definition ONE_MINUTE_SLOTS :: u64 where "ONE_MINUTE_SLOTS = 150"
definition ONE_HOUR_SLOTS :: u64 where "ONE_HOUR_SLOTS = 60 * ONE_MINUTE_SLOTS"
definition TWELVE_HOURS_SLOTS :: u64 where "TWELVE_HOURS_SLOTS = 12 * ONE_HOUR_SLOTS"
definition ONE_DAY_SLOTS :: u64 where "ONE_DAY_SLOTS = 24 * ONE_HOUR_SLOTS"

definition ROUND_SLOTS :: u64 where "ROUND_SLOTS = ONE_MINUTE_SLOTS"
definition INTERMISSION_SLOTS :: u64 where "INTERMISSION_SLOTS = 25"

definition ADMIN_FEE_BPS :: u64 where "ADMIN_FEE_BPS = 50"
definition SOL_MOTHERLODE_BPS :: u64 where "SOL_MOTHERLODE_BPS = 100"
definition RUSH_SOL_MOTHERLODE_BPS :: u64 where "RUSH_SOL_MOTHERLODE_BPS = 1000"
definition REFERRAL_BPS :: u64 where "REFERRAL_BPS = 50"
definition STAKERS_BPS :: u64 where "STAKERS_BPS = 300"
definition ADMIN_BPS :: u64 where "ADMIN_BPS = 0"
definition DENOMINATOR_BPS :: u64 where "DENOMINATOR_BPS = 10000"
definition CHECKPOINT_FEE :: u64 where "CHECKPOINT_FEE = 10000"

definition NFT_BOOST_NUMERATOR :: u128 where "NFT_BOOST_NUMERATOR = 11"
definition NFT_BOOST_DENOMINATOR :: u128 where "NFT_BOOST_DENOMINATOR = 10"

definition MAX_LOCK_DURATION :: i64 where "MAX_LOCK_DURATION = 2 * 365 * ONE_DAY"
definition MAX_STAKE_MULTIPLIER :: u64 where "MAX_STAKE_MULTIPLIER = 20"
definition STAKE_MULTIPLIER_SCALE :: u64 where "STAKE_MULTIPLIER_SCALE = 1000000000"

definition GOLD_FACTOR_SCALE :: u64 where "GOLD_FACTOR_SCALE = 1000000"

definition LEGACY_INSTRUCTION_EXPIRY_TS :: i64 where
  "LEGACY_INSTRUCTION_EXPIRY_TS = 1789839440 + 90 * ONE_MINUTE"

text \<open>\<open>solana_program::native_token::LAMPORTS_PER_SOL\<close>\<close>

definition LAMPORTS_PER_SOL :: u64 where "LAMPORTS_PER_SOL = 1000000000"

lemmas amount_consts =
  TOKEN_DECIMALS_def ONE_GODL_def MAX_SUPPLY_def MAX_GODL_PER_ROUND_def LAMPORTS_PER_SOL_def

lemmas bps_consts =
  ADMIN_FEE_BPS_def SOL_MOTHERLODE_BPS_def RUSH_SOL_MOTHERLODE_BPS_def REFERRAL_BPS_def
  STAKERS_BPS_def ADMIN_BPS_def DENOMINATOR_BPS_def CHECKPOINT_FEE_def

lemmas time_consts =
  ONE_MINUTE_def ONE_HOUR_def ONE_DAY_def ONE_MONTH_def ONE_MINUTE_SLOTS_def ONE_HOUR_SLOTS_def
  TWELVE_HOURS_SLOTS_def ONE_DAY_SLOTS_def ROUND_SLOTS_def INTERMISSION_SLOTS_def
  MAX_LOCK_DURATION_def LEGACY_INSTRUCTION_EXPIRY_TS_def

lemmas stake_consts =
  NFT_BOOST_NUMERATOR_def NFT_BOOST_DENOMINATOR_def MAX_STAKE_MULTIPLIER_def
  STAKE_MULTIPLIER_SCALE_def

section \<open>Errors\<close>

datatype godl_error =
  AmountTooSmall
| NotAuthorized
| InvalidReferrerAccount
| InvalidLockDuration
| StakeLocked
| StakeUnlocked
| StakeV2NotReleased
| StakeOverflow
| AlreadyDeployedThisRound
| StakeAlreadyExists
| NftAlreadyStaked
| NftNotStaked
| InvalidCollection
| InsufficientOtcGodlBalance
| OtcQuoteExpired
| RebaseMismatch
| StakeNotEmpty
| StakeNotPhantom
| MergeSameStake
| StakeV1Deprecated
| GoldSlippageExceeded
| InsufficientMotherlodeBalance
| LegacyCheckpointExpired
| GoldDistributionLocked
| MinerExtendedMissing
| LegacyDeployExpired
| InvalidProtocolConfig

text \<open>The errors an instruction ends with: an error of the program, a \<open>ProgramError\<close> the
  program returns, an error \<open>Host\<close> coming out of a library check or a call to another program,
  or an abort (a failed \<open>assert!\<close>, a panic, an arithmetic overflow).\<close>

datatype err =
  Godl godl_error
| NotEnoughAccountKeys
| InvalidInstructionData
| InvalidAccountData
| InvalidArgument
| ArithmeticOverflow
| UninitializedAccount
| Host nat
| Panic

type_synonym 'a result = "err + 'a"

section \<open>Arithmetic that aborts\<close>

definition add64 :: "u64 \<Rightarrow> u64 \<Rightarrow> u64 result" where
  "add64 a b = (if a + b \<le> u64_max then Inr (a + b) else Inl Panic)"

definition sub64 :: "u64 \<Rightarrow> u64 \<Rightarrow> u64 result" where
  "sub64 a b = (if b \<le> a then Inr (a - b) else Inl Panic)"

definition mul64 :: "u64 \<Rightarrow> u64 \<Rightarrow> u64 result" where
  "mul64 a b = (if a * b \<le> u64_max then Inr (a * b) else Inl Panic)"

definition div64 :: "u64 \<Rightarrow> u64 \<Rightarrow> u64 result" where
  "div64 a b = (if b = 0 then Inl Panic else Inr (a div b))"

definition add128 :: "u128 \<Rightarrow> u128 \<Rightarrow> u128 result" where
  "add128 a b = (if a + b \<le> u128_max then Inr (a + b) else Inl Panic)"

definition mul128 :: "u128 \<Rightarrow> u128 \<Rightarrow> u128 result" where
  "mul128 a b = (if a * b \<le> u128_max then Inr (a * b) else Inl Panic)"

lemma add64_eq_Inr [result_simps]: "add64 a b = Inr c \<longleftrightarrow> a + b \<le> u64_max \<and> c = a + b"
  by (auto simp: add64_def)

lemma sub64_eq_Inr [result_simps]: "sub64 a b = Inr c \<longleftrightarrow> b \<le> a \<and> c = a - b"
  by (auto simp: sub64_def)

lemma mul64_eq_Inr [result_simps]: "mul64 a b = Inr c \<longleftrightarrow> a * b \<le> u64_max \<and> c = a * b"
  by (auto simp: mul64_def)

lemma div64_eq_Inr [result_simps]: "div64 a b = Inr c \<longleftrightarrow> b \<noteq> 0 \<and> c = a div b"
  by (auto simp: div64_def)

lemma add128_eq_Inr [result_simps]: "add128 a b = Inr c \<longleftrightarrow> a + b \<le> u128_max \<and> c = a + b"
  by (auto simp: add128_def)

lemma mul128_eq_Inr [result_simps]: "mul128 a b = Inr c \<longleftrightarrow> a * b \<le> u128_max \<and> c = a * b"
  by (auto simp: mul128_def)

text \<open>Products of two \<open>u64\<close> values always fit \<open>u128\<close>.\<close>

lemma mul128_u64 [simp]: "a \<le> u64_max \<Longrightarrow> b \<le> u64_max \<Longrightarrow> mul128 a b = Inr (a * b)"
  using mult_le_mono [of a u64_max b u64_max] by (simp add: mul128_def)

end
