(* ===== verification/Numeric.thy ===== *)
theory Numeric
  imports Prelude
begin

text \<open>
  The interface of \<open>steel::Numeric\<close>, the fixed-point type of every cumulative rewards factor.
  The type comes from a third-party crate, so the model takes its operations as a parameter, a
  record \<open>N\<close>, and the laws the program relies on are the assumptions of the locale
  \<open>numeric\<close>: they state that \<open>Numeric\<close> wraps an \<open>I80F48\<close> (signed, 48 fractional bits),
  whose operations are exact or round towards zero while values stay in range.

  The last section gives one concrete provider, the raw-integer reading of \<open>I80F48\<close>, and
  shows that it satisfies the laws.
\<close>

section \<open>Operations the program calls\<close>

record 'n numeric_ops =
  n_zero :: 'n
  n_add :: "'n \<Rightarrow> 'n \<Rightarrow> 'n"
  n_sub :: "'n \<Rightarrow> 'n \<Rightarrow> 'n"
  n_mul :: "'n \<Rightarrow> 'n \<Rightarrow> 'n"
  n_lt :: "'n \<Rightarrow> 'n \<Rightarrow> bool"
  n_from_fraction :: "u64 \<Rightarrow> u64 \<Rightarrow> 'n"
  n_from_u64 :: "u64 \<Rightarrow> 'n"
  n_to_u64 :: "'n \<Rightarrow> u64"

section \<open>Laws\<close>

text \<open>\<open>val\<close> reads a number as a real. \<open>in_range\<close> is the non-negative half of the 80-bit
  integer range.\<close>

definition in_range :: "real \<Rightarrow> bool" where
  "in_range r \<longleftrightarrow> 0 \<le> r \<and> r < 2 ^ 79"

locale numeric =
  fixes N :: "'n numeric_ops"
    and val :: "'n \<Rightarrow> real"
  assumes val_zero: "val (n_zero N) = 0"
    and val_lt: "n_lt N x y \<longleftrightarrow> val x < val y"
    and val_add: "in_range (val x) \<Longrightarrow> in_range (val y) \<Longrightarrow> in_range (val x + val y) \<Longrightarrow>
      val (n_add N x y) = val x + val y"
    and val_sub: "in_range (val x) \<Longrightarrow> in_range (val y) \<Longrightarrow> val y \<le> val x \<Longrightarrow>
      val (n_sub N x y) = val x - val y"
    and val_mul: "in_range (val x) \<Longrightarrow> in_range (val y) \<Longrightarrow> in_range (val x * val y) \<Longrightarrow>
      0 \<le> val (n_mul N x y) \<and> val (n_mul N x y) \<le> val x * val y"
    and val_from_u64: "n \<le> u64_max \<Longrightarrow> val (n_from_u64 N n) = real n"
    and val_from_fraction: "a \<le> u64_max \<Longrightarrow> b \<le> u64_max \<Longrightarrow> 0 < b \<Longrightarrow>
      0 \<le> val (n_from_fraction N a b) \<and> val (n_from_fraction N a b) \<le> real a / real b"
    and val_to_u64: "0 \<le> val x \<Longrightarrow> val x \<le> real u64_max \<Longrightarrow> real (n_to_u64 N x) \<le> val x"
begin

lemma from_u64_range: "n \<le> u64_max \<Longrightarrow> in_range (val (n_from_u64 N n))"
  by (simp add: val_from_u64 in_range_def)

lemma from_fraction_range:
  assumes "a \<le> u64_max" "b \<le> u64_max" "0 < b"
  shows "in_range (val (n_from_fraction N a b))"
proof -
  have "real a / real b \<le> real a / 1"
    using assms(3) by (intro divide_left_mono) auto
  also have "\<dots> < 2 ^ 79" using assms(1) by simp
  finally show ?thesis
    using val_from_fraction [OF assms] by (auto simp: in_range_def)
qed

text \<open>A distribution of \<open>a\<close> units over \<open>b\<close> weights raises the factor so that all weights together
  gain at most \<open>a\<close>.\<close>

lemma from_fraction_share:
  assumes "a \<le> u64_max" "b \<le> u64_max" "0 < b"
  shows "val (n_from_fraction N a b) * real b \<le> real a"
proof -
  have "val (n_from_fraction N a b) \<le> real a / real b"
    using val_from_fraction [OF assms] by simp
  then have "val (n_from_fraction N a b) * real b \<le> real a / real b * real b"
    by (intro mult_right_mono) auto
  with assms(3) show ?thesis by simp
qed

text \<open>The product of a factor difference with a weight, read back as \<open>u64\<close>, never exceeds the
  exact product.\<close>

lemma mul_to_u64:
  assumes "in_range (val x)" "in_range (val y)" "val x * val y \<le> real u64_max"
  shows "real (n_to_u64 N (n_mul N x y)) \<le> val x * val y"
proof -
  have nn: "0 \<le> val x * val y"
    using assms(1,2) by (simp add: in_range_def)
  have "in_range (val x * val y)"
    using assms(3) nn by (simp add: in_range_def)
  then have m: "0 \<le> val (n_mul N x y)" "val (n_mul N x y) \<le> val x * val y"
    using val_mul [OF assms(1,2)] by auto
  then have "real (n_to_u64 N (n_mul N x y)) \<le> val (n_mul N x y)"
    using assms(3) by (intro val_to_u64) auto
  with m(2) show ?thesis by linarith
qed

end

section \<open>A provider: raw 48-bit fixed point\<close>

text \<open>The value is the integer \<open>x\<close> with \<open>x / 2^48\<close> as its reading; multiplication, division and
  conversion to \<open>u64\<close> drop the bits below the point.\<close>

definition fx_one :: int where
  "fx_one = 281474976710656"

definition fx_ops :: "int numeric_ops" where
  "fx_ops = \<lparr>
     n_zero = 0,
     n_add = (+),
     n_sub = (-),
     n_mul = (\<lambda>x y. x * y div fx_one),
     n_lt = (<),
     n_from_fraction = (\<lambda>a b. int a * fx_one div int b),
     n_from_u64 = (\<lambda>n. int n * fx_one),
     n_to_u64 = (\<lambda>x. nat (x div fx_one))\<rparr>"

definition fx_val :: "int \<Rightarrow> real" where
  "fx_val x = real_of_int x / real_of_int fx_one"

lemma fx_one_pos: "0 < fx_one"
  by (simp add: fx_one_def)

lemma real_div_le: "0 < d \<Longrightarrow> real_of_int (a div d) \<le> real_of_int a / real_of_int d"
  by (rule real_of_int_div4)

interpretation fx: numeric fx_ops fx_val
proof unfold_locales
  fix x y :: int and a b n :: u64
  have one: "0 < real_of_int fx_one" using fx_one_pos by simp
  show "fx_val (n_zero fx_ops) = 0" by (simp add: fx_val_def fx_ops_def)
  show "n_lt fx_ops x y = (fx_val x < fx_val y)"
    using one by (simp add: fx_val_def fx_ops_def divide_less_cancel)
  show "fx_val (n_add fx_ops x y) = fx_val x + fx_val y"
    by (simp add: fx_val_def fx_ops_def add_divide_distrib)
  show "fx_val (n_sub fx_ops x y) = fx_val x - fx_val y"
    by (simp add: fx_val_def fx_ops_def diff_divide_distrib)
  show "fx_val (n_from_u64 fx_ops n) = real n"
    using one by (simp add: fx_val_def fx_ops_def)
  show "real (n_to_u64 fx_ops x) \<le> fx_val x" if "0 \<le> fx_val x"
  proof -
    have "0 \<le> x" using that one by (simp add: fx_val_def zero_le_divide_iff)
    then have "0 \<le> x div fx_one" using fx_one_pos by (simp add: pos_imp_zdiv_nonneg_iff)
    then show ?thesis
      using real_div_le [OF fx_one_pos, of x] by (simp add: fx_val_def fx_ops_def)
  qed
  show "0 \<le> fx_val (n_from_fraction fx_ops a b) \<and>
      fx_val (n_from_fraction fx_ops a b) \<le> real a / real b" if "0 < b"
  proof
    have b: "0 < int b" using that by simp
    have "0 \<le> int a * fx_one div int b"
      using b fx_one_pos by (simp add: pos_imp_zdiv_nonneg_iff)
    then show "0 \<le> fx_val (n_from_fraction fx_ops a b)"
      using one by (simp add: fx_val_def fx_ops_def)
    have "real_of_int (int a * fx_one div int b) \<le> real_of_int (int a * fx_one) / real_of_int (int b)"
      by (rule real_div_le [OF b])
    then have "real_of_int (int a * fx_one div int b) / real_of_int fx_one
        \<le> (real_of_int (int a * fx_one) / real_of_int (int b)) / real_of_int fx_one"
      using one by (intro divide_right_mono) auto
    then show "fx_val (n_from_fraction fx_ops a b) \<le> real a / real b"
      using one by (simp add: fx_val_def fx_ops_def)
  qed
  show "0 \<le> fx_val (n_mul fx_ops x y) \<and> fx_val (n_mul fx_ops x y) \<le> fx_val x * fx_val y"
    if "in_range (fx_val x)" "in_range (fx_val y)"
  proof
    have "0 \<le> x" "0 \<le> y"
      using that one by (auto simp: in_range_def fx_val_def zero_le_divide_iff)
    then have "0 \<le> x * y div fx_one"
      using fx_one_pos by (simp add: pos_imp_zdiv_nonneg_iff)
    then show "0 \<le> fx_val (n_mul fx_ops x y)"
      using one by (simp add: fx_val_def fx_ops_def)
    have "real_of_int (x * y div fx_one) / real_of_int fx_one
        \<le> (real_of_int (x * y) / real_of_int fx_one) / real_of_int fx_one"
      using one real_div_le [OF fx_one_pos, of "x * y"] by (intro divide_right_mono) auto
    then show "fx_val (n_mul fx_ops x y) \<le> fx_val x * fx_val y"
      by (simp add: fx_val_def fx_ops_def)
  qed
qed

end
