(* ===== verification/State.thy ===== *)
theory State
  imports Consts Numeric
begin

text \<open>
  The account types of \<open>src/api/src/state\<close>: one record per struct, fields in the source's order
  under a prefix per struct, and the tagged union of all account contents
  (\<open>GodlAccount\<close> of \<open>src/api/src/state/mod.rs\<close>). A fixed-point field has the type parameter
  \<open>'n\<close> of the numeric interface; a 25-element array is a list, reset with \<open>zero_squares\<close>.
\<close>

definition zero_squares :: "u64 list" where
  "zero_squares = replicate 25 0"

lemma length_zero_squares [simp]: "length zero_squares = 25"
  by (simp add: zero_squares_def)

lemma nth_zero_squares [simp]: "i < 25 \<Longrightarrow> zero_squares ! i = 0"
  by (simp add: zero_squares_def)

definition zero_bytes :: "nat \<Rightarrow> byte list" where
  "zero_bytes n = replicate n 0"

section \<open>Board, config, treasury, round\<close>

record board =
  board_round_id :: u64
  board_start_slot :: u64
  board_end_slot :: u64

record config =
  cfg_admin :: pubkey
  cfg_godl_per_round :: u64
  cfg_bury_authority :: pubkey
  cfg_fee_collector :: pubkey
  cfg_swap_program :: pubkey
  cfg_var_address :: pubkey
  cfg_motherlode_denominator :: u64
  cfg_round_slots :: u64
  cfg_intermission_slots :: u64
  cfg_buffer :: "byte list"

text \<open>\<open>Config::round_slots\<close> and \<open>Config::intermission_slots\<close>: zero means unset.\<close>

definition config_round_slots :: "config \<Rightarrow> u64" where
  "config_round_slots c = (if cfg_round_slots c = 0 then ROUND_SLOTS else cfg_round_slots c)"

definition config_intermission_slots :: "config \<Rightarrow> u64" where
  "config_intermission_slots c =
     (if cfg_intermission_slots c = 0 then INTERMISSION_SLOTS else cfg_intermission_slots c)"

record 'n treasury =
  tr_balance :: u64
  tr_motherlode :: u64
  tr_miner_rewards_factor :: 'n
  tr_stake_rewards_factor :: 'n
  tr_total_staked :: u64
  tr_total_unclaimed :: u64
  tr_total_refined :: u64

record round =
  rnd_id :: u64
  rnd_deployed :: "u64 list"
  rnd_slot_hash :: "byte list"
  rnd_count :: "u64 list"
  rnd_expires_at :: u64
  rnd_motherlode :: u64
  rnd_rent_payer :: pubkey
  rnd_top_miner :: pubkey
  rnd_top_miner_reward :: u64
  rnd_total_deployed :: u64
  rnd_total_vaulted :: u64
  rnd_total_winnings :: u64

section \<open>Miners\<close>

record 'n miner =
  mn_authority :: pubkey
  mn_referrer :: pubkey
  mn_deployed :: "u64 list"
  mn_cumulative :: "u64 list"
  mn_checkpoint_fee :: u64
  mn_checkpoint_id :: u64
  mn_last_claim_godl_at :: i64
  mn_last_claim_sol_at :: i64
  mn_rewards_factor :: 'n
  mn_rewards_sol :: u64
  mn_rewards_godl :: u64
  mn_refined_godl :: u64
  mn_round_id :: u64
  mn_lifetime_deployed :: u64
  mn_lifetime_rewards_sol :: u64
  mn_lifetime_rewards_godl :: u64

record 'n miner_extended =
  mx_authority :: pubkey
  mx_xaut_rewards_factor :: 'n
  mx_xaut_rewards :: u64
  mx_lifetime_xaut :: u64
  mx_buffer :: "byte list"

record automation_v2 =
  au_amount :: u64
  au_authority :: pubkey
  au_balance :: u64
  au_executor :: pubkey
  au_fee :: u64
  au_config :: "64 word"
  au_mask :: "64 word"

record pool_member =
  pm_authority :: pubkey
  pm_round_id :: u64
  pm_deployed :: "u64 list"
  pm_total_deployed :: u64

record pool_round =
  pr_id :: u64
  pr_deployed :: "u64 list"
  pr_count :: "u64 list"
  pr_total_deployed :: u64
  pr_rent_payer :: pubkey

record referrer =
  rf_authority :: pubkey
  rf_rewards_sol :: u64
  rf_rewards_godl :: u64
  rf_cumulative_rewards_sol :: u64
  rf_cumulative_rewards_godl :: u64
  rf_referrer_count :: u64

section \<open>Stakes\<close>

record 'n stake =
  st_authority :: pubkey
  st_balance :: u64
  st_last_claim_at :: i64
  st_last_deposit_at :: i64
  st_last_withdraw_at :: i64
  st_rewards_factor :: 'n
  st_rewards :: u64
  st_lifetime_rewards :: u64
  st_is_seeker :: u64

record 'n stake_v2 =
  sv_id :: u64
  sv_authority :: pubkey
  sv_balance :: u64
  sv_last_claim_at :: i64
  sv_last_deposit_at :: i64
  sv_last_withdraw_at :: i64
  sv_rewards_factor :: 'n
  sv_rewards :: u64
  sv_lifetime_rewards :: u64
  sv_multiplier :: u64
  sv_lock_duration :: i64
  sv_executor :: pubkey
  sv_created_at :: i64
  sv_is_nft_staked :: nat
  sv_weight_version :: nat
  sv_buffer :: "byte list"

section \<open>Vaults and desks\<close>

record sol_motherlode =
  sm_amount :: u64

record 'n gold_vault =
  gv_xaut_rewards_factor :: 'n
  gv_pending_xaut :: u64
  gv_total_xaut_distributed :: u64
  gv_total_xaut_claimed :: u64
  gv_total_sol_swapped :: u64
  gv_buffer :: "byte list"

record otc_treasury =
  ot_sol_balance :: u64
  ot_godl_balance :: u64
  ot_buffer :: "byte list"

record otc_user =
  ou_authority :: pubkey
  ou_total_sol_in :: u64
  ou_total_godl_out :: u64
  ou_total_godl_bonus :: u64
  ou_buffer :: "byte list"

section \<open>Accounts of other programs\<close>

text \<open>The fields the program reads of token accounts, mints and the entropy program's
  \<open>Var\<close>.\<close>

record token_account =
  tk_owner :: pubkey
  tk_mint :: pubkey
  tk_amount :: u64

record mint_account =
  mt_supply :: u64

record entropy_var =
  ev_authority :: pubkey
  ev_samples :: u64
  ev_slot_hash :: "byte list"
  ev_seed :: "byte list"
  ev_value :: "byte list"

section \<open>Account contents\<close>

datatype account_kind =
  KAutomationV2 | KConfig | KMiner | KTreasury | KBoard | KStake | KRound | KReferrer
| KSolMotherlode | KPoolRound | KPoolMember | KStakeV2 | KOtcTreasury | KOtcUser | KGoldVault
| KMinerExtended | KToken | KMint | KVar | KMintAuthority

text \<open>The discriminators of the program's own account types (\<open>GodlAccount\<close>).\<close>

fun discriminator :: "account_kind \<Rightarrow> nat option" where
  "discriminator KAutomationV2 = Some 111"
| "discriminator KConfig = Some 101"
| "discriminator KMiner = Some 103"
| "discriminator KTreasury = Some 104"
| "discriminator KBoard = Some 105"
| "discriminator KStake = Some 108"
| "discriminator KRound = Some 109"
| "discriminator KReferrer = Some 110"
| "discriminator KSolMotherlode = Some 112"
| "discriminator KPoolRound = Some 113"
| "discriminator KPoolMember = Some 114"
| "discriminator KStakeV2 = Some 115"
| "discriminator KOtcTreasury = Some 118"
| "discriminator KOtcUser = Some 119"
| "discriminator KGoldVault = Some 120"
| "discriminator KMinerExtended = Some 121"
| "discriminator _ = None"

lemma discriminator_inj:
  "discriminator k = Some d \<Longrightarrow> discriminator k' = Some d \<Longrightarrow> k = k'"
  by (cases k; cases k') auto

text \<open>\<open>AEmpty\<close> is an account without data (\<open>data_is_empty()\<close>), \<open>AOther\<close> one whose data the
  program never interprets.\<close>

datatype 'n account_data =
  AEmpty
| AOther
| AAutomationV2 automation_v2
| AConfig config
| AMiner "'n miner"
| ATreasury "'n treasury"
| ABoard board
| AStake "'n stake"
| ARound round
| AReferrer referrer
| ASolMotherlode sol_motherlode
| APoolRound pool_round
| APoolMember pool_member
| AStakeV2 "'n stake_v2"
| AOtcTreasury otc_treasury
| AOtcUser otc_user
| AGoldVault "'n gold_vault"
| AMinerExtended "'n miner_extended"
| AToken token_account
| AMint mint_account
| AVar entropy_var
| AMintAuthority

fun kind_of :: "'n account_data \<Rightarrow> account_kind option" where
  "kind_of AEmpty = None"
| "kind_of AOther = None"
| "kind_of (AAutomationV2 _) = Some KAutomationV2"
| "kind_of (AConfig _) = Some KConfig"
| "kind_of (AMiner _) = Some KMiner"
| "kind_of (ATreasury _) = Some KTreasury"
| "kind_of (ABoard _) = Some KBoard"
| "kind_of (AStake _) = Some KStake"
| "kind_of (ARound _) = Some KRound"
| "kind_of (AReferrer _) = Some KReferrer"
| "kind_of (ASolMotherlode _) = Some KSolMotherlode"
| "kind_of (APoolRound _) = Some KPoolRound"
| "kind_of (APoolMember _) = Some KPoolMember"
| "kind_of (AStakeV2 _) = Some KStakeV2"
| "kind_of (AOtcTreasury _) = Some KOtcTreasury"
| "kind_of (AOtcUser _) = Some KOtcUser"
| "kind_of (AGoldVault _) = Some KGoldVault"
| "kind_of (AMinerExtended _) = Some KMinerExtended"
| "kind_of (AToken _) = Some KToken"
| "kind_of (AMint _) = Some KMint"
| "kind_of (AVar _) = Some KVar"
| "kind_of AMintAuthority = Some KMintAuthority"

text \<open>The sizes of the structs whose rent the program computes, with \<open>repr(C)\<close> layout: every
  field is a multiple of 8 bytes, a \<open>Numeric\<close> takes 16.\<close>

definition size_of_treasury :: nat where "size_of_treasury = 2 * 8 + 2 * 16 + 3 * 8"
definition size_of_round :: nat where
  "size_of_round = 8 + 25 * 8 + 32 + 25 * 8 + 2 * 8 + 2 * 32 + 4 * 8"
definition size_of_pool_round :: nat where "size_of_pool_round = 8 + 2 * (25 * 8) + 8 + 32"
definition size_of_miner :: nat where
  "size_of_miner = 2 * 32 + 2 * (25 * 8) + 4 * 8 + 16 + 7 * 8"
definition size_of_sol_motherlode :: nat where "size_of_sol_motherlode = 8"
definition size_of_config :: nat where "size_of_config = 32 + 8 + 4 * 32 + 3 * 8 + 32"

lemma size_of_config_224: "size_of_config = 224"
  by (simp add: size_of_config_def)

end
