(* ===== verification/Host.thy ===== *)
theory Host
  imports State
begin

text \<open>
  The environment an instruction runs in. The accounts are a store from addresses to contents and
  lamports (\<open>world\<close>), so two entries of an account list that name the same address share one
  cell. Everything the program calls outside its repository is a field of the record \<open>host\<close>:
  the account checks of \<open>steel\<close>, the system, token, entropy, mint and swap programs, address
  derivation, rent and hashing. What such a call may do is stated by the locale \<open>solana\<close>, and
  theory \<open>Reference_Host\<close> gives a concrete host.
\<close>

section \<open>Store\<close>

record 'n world =
  w_data :: "pubkey \<Rightarrow> 'n account_data"
  w_lamports :: "pubkey \<Rightarrow> u64"
  w_slot :: u64
  w_unix_timestamp :: i64

text \<open>An entry of the account list an instruction receives (\<open>AccountInfo\<close>).\<close>

record account_info =
  ai_key :: pubkey
  ai_is_signer :: bool
  ai_is_writable :: bool

definition data_is_empty :: "account_info \<Rightarrow> 'n world \<Rightarrow> bool" where
  "data_is_empty a w = (case w_data w (ai_key a) of AEmpty \<Rightarrow> True | _ \<Rightarrow> False)"

definition lamports :: "account_info \<Rightarrow> 'n world \<Rightarrow> u64" where
  "lamports a w = w_lamports w (ai_key a)"

text \<open>A write through a mutable reference into an account's data.\<close>

definition put :: "account_info \<Rightarrow> 'n account_data \<Rightarrow> 'n world \<Rightarrow> 'n world" where
  "put a d w = w\<lparr>w_data := (w_data w)(ai_key a := d)\<rparr>"

lemma put_data [simp]: "w_data (put a d w) = (w_data w)(ai_key a := d)"
  by (simp add: put_def)

lemma put_frame [simp]:
  "w_lamports (put a d w) = w_lamports w" "w_slot (put a d w) = w_slot w"
  "w_unix_timestamp (put a d w) = w_unix_timestamp w"
  by (simp_all add: put_def)

section \<open>Requests to the host\<close>

datatype seed = SBytes string | SKey pubkey | SNum u64

datatype program =
  SystemProgram | TokenProgram | AssociatedTokenProgram | GodlProgram | EntropyProgram
| GodlMintProgram

text \<open>The account checks the handlers chain.\<close>

datatype check =
  IsSigner | IsWritable | IsEmpty | IsExecutable
| HasAddress pubkey
| HasSeeds "seed list"
| HasOwnerGodl
| IsProgram program
| IsSlotHashesSysvar
| AsAccount account_kind
| AsAccountMut account_kind
| AsMint
| AsAssociatedTokenAccount pubkey pubkey

record reset_event =
  rev_disc :: u64
  rev_round_id :: u64
  rev_start_slot :: u64
  rev_end_slot :: u64
  rev_winning_square :: u64
  rev_top_miner :: pubkey
  rev_num_winners :: u64
  rev_motherlode :: u64
  rev_total_deployed :: u64
  rev_total_vaulted :: u64
  rev_total_winnings :: u64
  rev_total_minted :: u64
  rev_ts :: i64

record bury_event =
  bev_disc :: u64
  bev_godl_buried :: u64
  bev_godl_shared :: u64
  bev_sol_amount :: u64
  bev_new_circulating_supply :: u64
  bev_ts :: i64

record buy_gold_event =
  gev_disc :: u64
  gev_sol_amount :: u64
  gev_xaut_amount :: u64
  gev_xaut_distributed :: u64
  gev_total_unclaimed :: u64
  gev_ts :: i64

datatype event = ResetEvent reset_event | BuryEvent bury_event | BuyGoldEvent buy_gold_event

record account_meta =
  am_pubkey :: pubkey
  am_is_signer :: bool
  am_is_writable :: bool

text \<open>The calls that may change the store: lamport moves, account creation and closing, and
  cross-program invocations. Addresses come in the order of the call's arguments.\<close>

datatype host_call =
  Send pubkey pubkey u64 \<comment> \<open>\<open>from.send(amount, to)\<close>\<close>
| Collect pubkey pubkey u64 \<comment> \<open>\<open>to.collect(amount, from)\<close>, as \<open>Collect to from amount\<close>\<close>
| CreateProgramAccount account_kind pubkey pubkey pubkey "seed list"
    \<comment> \<open>kind, target, system program, payer, seeds\<close>
| CreateAssociatedTokenAccount pubkey pubkey pubkey pubkey \<comment> \<open>funder, owner, account, mint\<close>
| CloseAccount pubkey pubkey \<comment> \<open>account, recipient of its lamports\<close>
| Transfer pubkey pubkey pubkey u64 \<comment> \<open>authority, from, to, amount\<close>
| TransferSigned pubkey pubkey pubkey u64 "seed list"
| BurnSigned pubkey pubkey pubkey u64 "seed list" \<comment> \<open>token account, mint, authority, amount\<close>
| CloseTokenAccountSigned pubkey pubkey pubkey "seed list" \<comment> \<open>account, recipient, authority\<close>
| SyncNative pubkey
| SetMintAuthoritySigned pubkey pubkey pubkey "seed list" \<comment> \<open>mint, current, new\<close>
| ProgramLog event
| InvokeSwap pubkey "account_meta list" "byte list" "seed list"
| EntropyNext pubkey pubkey u64 \<comment> \<open>board, var, end slot\<close>
| EntropyOpen pubkey pubkey u64 pubkey "byte list" u64 u64 pubkey
    \<comment> \<open>board, payer, id, provider, commit, samples, end slot, var\<close>
| MintGodl pubkey pubkey pubkey pubkey u64 \<comment> \<open>treasury, authority, mint, tokens, amount\<close>
| TransferNft pubkey pubkey pubkey pubkey pubkey "seed list"
    \<comment> \<open>asset, collection, payer, authority, new owner\<close>
| ResizeAccount pubkey nat

record 'n host =
  h_num :: "'n numeric_ops"
  h_check :: "check \<Rightarrow> account_info \<Rightarrow> 'n world \<Rightarrow> unit result"
  h_assert_error :: err
  h_call :: "host_call \<Rightarrow> 'n world \<Rightarrow> 'n world result"
  h_pda :: "seed list \<Rightarrow> pubkey"
  h_ata :: "pubkey \<Rightarrow> pubkey \<Rightarrow> pubkey"
  h_minimum_balance :: "nat \<Rightarrow> u64"
  h_hashv :: "seed list \<Rightarrow> byte list"
  h_mint_authority :: pubkey

section \<open>Checks and typed access\<close>

text \<open>A chain \<open>info.check1()?.check2()?\<close> and, more generally, a block of checks in source
  order: the first failing one ends the instruction.\<close>

fun checks :: "'n host \<Rightarrow> 'n world \<Rightarrow> (account_info \<times> check) list \<Rightarrow> unit result" where
  "checks H w [] = Inr ()"
| "checks H w ((a, c) # cs) = and_then (h_check H c a w) (\<lambda>_. checks H w cs)"

text \<open>\<open>steel\<close>'s \<open>assert\<close> on account contents.\<close>

definition ensure :: "'n host \<Rightarrow> bool \<Rightarrow> unit result" where
  "ensure H b = (if b then Inr () else Inl (h_assert_error H))"

lemma ensure_eq_Inr [result_simps]: "ensure H b = Inr u \<longleftrightarrow> b"
  by (simp add: ensure_def)

lemma ensure_True [simp]: "ensure H True = Inr ()"
  by (simp add: ensure_def)

text \<open>Rust's \<open>assert!\<close>.\<close>

definition assert_panic :: "bool \<Rightarrow> unit result" where
  "assert_panic b = (if b then Inr () else Inl Panic)"

lemma assert_panic_eq_Inr [result_simps]: "assert_panic b = Inr u \<longleftrightarrow> b"
  by (simp add: assert_panic_def)

lemma assert_panic_True [simp]: "assert_panic True = Inr ()"
  by (simp add: assert_panic_def)

definition load :: "('n account_data \<Rightarrow> 'a option) \<Rightarrow> check \<Rightarrow> 'n host \<Rightarrow> account_info \<Rightarrow> 'n world \<Rightarrow> 'a result" where
  "load get c H a w =
     and_then (h_check H c a w) (\<lambda>_. ok_or (get (w_data w (ai_key a))) InvalidAccountData)"

lemma load_eq_Inr [result_simps]:
  "load get c H a w = Inr x \<longleftrightarrow> h_check H c a w = Inr () \<and> get (w_data w (ai_key a)) = Some x"
  by (auto simp: load_def result_simps)

definition get_board :: "'n account_data \<Rightarrow> board option" where
  "get_board d = (case d of ABoard x \<Rightarrow> Some x | _ \<Rightarrow> None)"
definition get_config :: "'n account_data \<Rightarrow> config option" where
  "get_config d = (case d of AConfig x \<Rightarrow> Some x | _ \<Rightarrow> None)"
definition get_treasury :: "'n account_data \<Rightarrow> 'n treasury option" where
  "get_treasury d = (case d of ATreasury x \<Rightarrow> Some x | _ \<Rightarrow> None)"
definition get_round :: "'n account_data \<Rightarrow> round option" where
  "get_round d = (case d of ARound x \<Rightarrow> Some x | _ \<Rightarrow> None)"
definition get_miner :: "'n account_data \<Rightarrow> 'n miner option" where
  "get_miner d = (case d of AMiner x \<Rightarrow> Some x | _ \<Rightarrow> None)"
definition get_miner_extended :: "'n account_data \<Rightarrow> 'n miner_extended option" where
  "get_miner_extended d = (case d of AMinerExtended x \<Rightarrow> Some x | _ \<Rightarrow> None)"
definition get_automation_v2 :: "'n account_data \<Rightarrow> automation_v2 option" where
  "get_automation_v2 d = (case d of AAutomationV2 x \<Rightarrow> Some x | _ \<Rightarrow> None)"
definition get_pool_member :: "'n account_data \<Rightarrow> pool_member option" where
  "get_pool_member d = (case d of APoolMember x \<Rightarrow> Some x | _ \<Rightarrow> None)"
definition get_pool_round :: "'n account_data \<Rightarrow> pool_round option" where
  "get_pool_round d = (case d of APoolRound x \<Rightarrow> Some x | _ \<Rightarrow> None)"
definition get_referrer :: "'n account_data \<Rightarrow> referrer option" where
  "get_referrer d = (case d of AReferrer x \<Rightarrow> Some x | _ \<Rightarrow> None)"
definition get_stake :: "'n account_data \<Rightarrow> 'n stake option" where
  "get_stake d = (case d of AStake x \<Rightarrow> Some x | _ \<Rightarrow> None)"
definition get_stake_v2 :: "'n account_data \<Rightarrow> 'n stake_v2 option" where
  "get_stake_v2 d = (case d of AStakeV2 x \<Rightarrow> Some x | _ \<Rightarrow> None)"
definition get_sol_motherlode :: "'n account_data \<Rightarrow> sol_motherlode option" where
  "get_sol_motherlode d = (case d of ASolMotherlode x \<Rightarrow> Some x | _ \<Rightarrow> None)"
definition get_gold_vault :: "'n account_data \<Rightarrow> 'n gold_vault option" where
  "get_gold_vault d = (case d of AGoldVault x \<Rightarrow> Some x | _ \<Rightarrow> None)"
definition get_otc_treasury :: "'n account_data \<Rightarrow> otc_treasury option" where
  "get_otc_treasury d = (case d of AOtcTreasury x \<Rightarrow> Some x | _ \<Rightarrow> None)"
definition get_otc_user :: "'n account_data \<Rightarrow> otc_user option" where
  "get_otc_user d = (case d of AOtcUser x \<Rightarrow> Some x | _ \<Rightarrow> None)"
definition get_token :: "'n account_data \<Rightarrow> token_account option" where
  "get_token d = (case d of AToken x \<Rightarrow> Some x | _ \<Rightarrow> None)"
definition get_mint :: "'n account_data \<Rightarrow> mint_account option" where
  "get_mint d = (case d of AMint x \<Rightarrow> Some x | _ \<Rightarrow> None)"
definition get_var :: "'n account_data \<Rightarrow> entropy_var option" where
  "get_var d = (case d of AVar x \<Rightarrow> Some x | _ \<Rightarrow> None)"

text \<open>Each accessor inverts one constructor.\<close>

lemma get_board_eq_Some [simp, result_simps]: "get_board d = Some x \<longleftrightarrow> d = ABoard x"
  by (cases d) (auto simp: get_board_def)

lemma get_board_ABoard [simp]: "get_board (ABoard x) = Some x"
  by simp

lemma get_config_eq_Some [simp, result_simps]: "get_config d = Some x \<longleftrightarrow> d = AConfig x"
  by (cases d) (auto simp: get_config_def)

lemma get_config_AConfig [simp]: "get_config (AConfig x) = Some x"
  by simp

lemma get_treasury_eq_Some [simp, result_simps]: "get_treasury d = Some x \<longleftrightarrow> d = ATreasury x"
  by (cases d) (auto simp: get_treasury_def)

lemma get_treasury_ATreasury [simp]: "get_treasury (ATreasury x) = Some x"
  by simp

lemma get_round_eq_Some [simp, result_simps]: "get_round d = Some x \<longleftrightarrow> d = ARound x"
  by (cases d) (auto simp: get_round_def)

lemma get_round_ARound [simp]: "get_round (ARound x) = Some x"
  by simp

lemma get_miner_eq_Some [simp, result_simps]: "get_miner d = Some x \<longleftrightarrow> d = AMiner x"
  by (cases d) (auto simp: get_miner_def)

lemma get_miner_AMiner [simp]: "get_miner (AMiner x) = Some x"
  by simp

lemma get_miner_extended_eq_Some [simp, result_simps]: "get_miner_extended d = Some x \<longleftrightarrow> d = AMinerExtended x"
  by (cases d) (auto simp: get_miner_extended_def)

lemma get_miner_extended_AMinerExtended [simp]: "get_miner_extended (AMinerExtended x) = Some x"
  by simp

lemma get_automation_v2_eq_Some [simp, result_simps]: "get_automation_v2 d = Some x \<longleftrightarrow> d = AAutomationV2 x"
  by (cases d) (auto simp: get_automation_v2_def)

lemma get_automation_v2_AAutomationV2 [simp]: "get_automation_v2 (AAutomationV2 x) = Some x"
  by simp

lemma get_pool_member_eq_Some [simp, result_simps]: "get_pool_member d = Some x \<longleftrightarrow> d = APoolMember x"
  by (cases d) (auto simp: get_pool_member_def)

lemma get_pool_member_APoolMember [simp]: "get_pool_member (APoolMember x) = Some x"
  by simp

lemma get_pool_round_eq_Some [simp, result_simps]: "get_pool_round d = Some x \<longleftrightarrow> d = APoolRound x"
  by (cases d) (auto simp: get_pool_round_def)

lemma get_pool_round_APoolRound [simp]: "get_pool_round (APoolRound x) = Some x"
  by simp

lemma get_referrer_eq_Some [simp, result_simps]: "get_referrer d = Some x \<longleftrightarrow> d = AReferrer x"
  by (cases d) (auto simp: get_referrer_def)

lemma get_referrer_AReferrer [simp]: "get_referrer (AReferrer x) = Some x"
  by simp

lemma get_stake_eq_Some [simp, result_simps]: "get_stake d = Some x \<longleftrightarrow> d = AStake x"
  by (cases d) (auto simp: get_stake_def)

lemma get_stake_AStake [simp]: "get_stake (AStake x) = Some x"
  by simp

lemma get_stake_v2_eq_Some [simp, result_simps]: "get_stake_v2 d = Some x \<longleftrightarrow> d = AStakeV2 x"
  by (cases d) (auto simp: get_stake_v2_def)

lemma get_stake_v2_AStakeV2 [simp]: "get_stake_v2 (AStakeV2 x) = Some x"
  by simp

lemma get_sol_motherlode_eq_Some [simp, result_simps]: "get_sol_motherlode d = Some x \<longleftrightarrow> d = ASolMotherlode x"
  by (cases d) (auto simp: get_sol_motherlode_def)

lemma get_sol_motherlode_ASolMotherlode [simp]: "get_sol_motherlode (ASolMotherlode x) = Some x"
  by simp

lemma get_gold_vault_eq_Some [simp, result_simps]: "get_gold_vault d = Some x \<longleftrightarrow> d = AGoldVault x"
  by (cases d) (auto simp: get_gold_vault_def)

lemma get_gold_vault_AGoldVault [simp]: "get_gold_vault (AGoldVault x) = Some x"
  by simp

lemma get_otc_treasury_eq_Some [simp, result_simps]: "get_otc_treasury d = Some x \<longleftrightarrow> d = AOtcTreasury x"
  by (cases d) (auto simp: get_otc_treasury_def)

lemma get_otc_treasury_AOtcTreasury [simp]: "get_otc_treasury (AOtcTreasury x) = Some x"
  by simp

lemma get_otc_user_eq_Some [simp, result_simps]: "get_otc_user d = Some x \<longleftrightarrow> d = AOtcUser x"
  by (cases d) (auto simp: get_otc_user_def)

lemma get_otc_user_AOtcUser [simp]: "get_otc_user (AOtcUser x) = Some x"
  by simp

lemma get_token_eq_Some [simp, result_simps]: "get_token d = Some x \<longleftrightarrow> d = AToken x"
  by (cases d) (auto simp: get_token_def)

lemma get_token_AToken [simp]: "get_token (AToken x) = Some x"
  by simp

lemma get_mint_eq_Some [simp, result_simps]: "get_mint d = Some x \<longleftrightarrow> d = AMint x"
  by (cases d) (auto simp: get_mint_def)

lemma get_mint_AMint [simp]: "get_mint (AMint x) = Some x"
  by simp

lemma get_var_eq_Some [simp, result_simps]: "get_var d = Some x \<longleftrightarrow> d = AVar x"
  by (cases d) (auto simp: get_var_def)

lemma get_var_AVar [simp]: "get_var (AVar x) = Some x"
  by simp

text \<open>\<open>info.as_account::<T>()\<close> and \<open>info.as_account_mut::<T>()\<close>; the latter gives the same
  contents, which the handler writes back with \<open>put\<close>.\<close>

abbreviation "as_board \<equiv> load get_board (AsAccount KBoard)"
abbreviation "as_board_mut \<equiv> load get_board (AsAccountMut KBoard)"
abbreviation "as_config \<equiv> load get_config (AsAccount KConfig)"
abbreviation "as_config_mut \<equiv> load get_config (AsAccountMut KConfig)"
abbreviation "as_treasury \<equiv> load get_treasury (AsAccount KTreasury)"
abbreviation "as_treasury_mut \<equiv> load get_treasury (AsAccountMut KTreasury)"
abbreviation "as_round_mut \<equiv> load get_round (AsAccountMut KRound)"
abbreviation "as_miner \<equiv> load get_miner (AsAccount KMiner)"
abbreviation "as_miner_mut \<equiv> load get_miner (AsAccountMut KMiner)"
abbreviation "as_miner_extended_mut \<equiv> load get_miner_extended (AsAccountMut KMinerExtended)"
abbreviation "as_automation_v2_mut \<equiv> load get_automation_v2 (AsAccountMut KAutomationV2)"
abbreviation "as_pool_member \<equiv> load get_pool_member (AsAccount KPoolMember)"
abbreviation "as_pool_member_mut \<equiv> load get_pool_member (AsAccountMut KPoolMember)"
abbreviation "as_pool_round \<equiv> load get_pool_round (AsAccount KPoolRound)"
abbreviation "as_pool_round_mut \<equiv> load get_pool_round (AsAccountMut KPoolRound)"
abbreviation "as_referrer_mut \<equiv> load get_referrer (AsAccountMut KReferrer)"
abbreviation "as_stake_mut \<equiv> load get_stake (AsAccountMut KStake)"
abbreviation "as_stake_v2 \<equiv> load get_stake_v2 (AsAccount KStakeV2)"
abbreviation "as_stake_v2_mut \<equiv> load get_stake_v2 (AsAccountMut KStakeV2)"
abbreviation "as_sol_motherlode_mut \<equiv> load get_sol_motherlode (AsAccountMut KSolMotherlode)"
abbreviation "as_gold_vault \<equiv> load get_gold_vault (AsAccount KGoldVault)"
abbreviation "as_gold_vault_mut \<equiv> load get_gold_vault (AsAccountMut KGoldVault)"
abbreviation "as_otc_treasury_mut \<equiv> load get_otc_treasury (AsAccountMut KOtcTreasury)"
abbreviation "as_otc_user_mut \<equiv> load get_otc_user (AsAccountMut KOtcUser)"
abbreviation "as_mint \<equiv> load get_mint AsMint"
abbreviation "as_var \<equiv> load get_var (AsAccount KVar)"
abbreviation "as_associated_token_account own mint \<equiv> load get_token (AsAssociatedTokenAccount own mint)"

section \<open>Shared pieces of handlers\<close>

text \<open>\<open>accounts.split_at(n)\<close> aborts when the list is too short.\<close>

definition split_at :: "nat \<Rightarrow> 'a list \<Rightarrow> ('a list \<times> 'a list) result" where
  "split_at n xs = (if n \<le> length xs then Inr (take n xs, drop n xs) else Inl Panic)"

lemma split_at_eq_Inr [result_simps]:
  "split_at n xs = Inr (a, b) \<longleftrightarrow> n \<le> length xs \<and> a = take n xs \<and> b = drop n xs"
  by (auto simp: split_at_def)

definition send :: "'n host \<Rightarrow> account_info \<Rightarrow> u64 \<Rightarrow> account_info \<Rightarrow> 'n world \<Rightarrow> 'n world result" where
  "send H from amount to w = h_call H (Send (ai_key from) (ai_key to) amount) w"

definition collect :: "'n host \<Rightarrow> account_info \<Rightarrow> u64 \<Rightarrow> account_info \<Rightarrow> 'n world \<Rightarrow> 'n world result" where
  "collect H to amount from w = h_call H (Collect (ai_key to) (ai_key from) amount) w"

definition close_account :: "'n host \<Rightarrow> account_info \<Rightarrow> account_info \<Rightarrow> 'n world \<Rightarrow> 'n world result" where
  "close_account H a to w = h_call H (CloseAccount (ai_key a) (ai_key to)) w"

definition create_program_account :: "'n host \<Rightarrow> account_kind \<Rightarrow> account_info \<Rightarrow> account_info \<Rightarrow> account_info
    \<Rightarrow> seed list \<Rightarrow> 'n world \<Rightarrow> 'n world result" where
  "create_program_account H k target system payer seeds w =
     h_call H (CreateProgramAccount k (ai_key target) (ai_key system) (ai_key payer) seeds) w"

definition transfer :: "'n host \<Rightarrow> account_info \<Rightarrow> account_info \<Rightarrow> account_info \<Rightarrow> u64 \<Rightarrow> 'n world \<Rightarrow> 'n world result" where
  "transfer H authority from to amount w =
     h_call H (Transfer (ai_key authority) (ai_key from) (ai_key to) amount) w"

definition transfer_signed :: "'n host \<Rightarrow> account_info \<Rightarrow> account_info \<Rightarrow> account_info \<Rightarrow> u64 \<Rightarrow> seed list
    \<Rightarrow> 'n world \<Rightarrow> 'n world result" where
  "transfer_signed H authority from to amount seeds w =
     h_call H (TransferSigned (ai_key authority) (ai_key from) (ai_key to) amount seeds) w"

definition burn_signed :: "'n host \<Rightarrow> account_info \<Rightarrow> account_info \<Rightarrow> account_info \<Rightarrow> u64 \<Rightarrow> seed list
    \<Rightarrow> 'n world \<Rightarrow> 'n world result" where
  "burn_signed H tokens mint authority amount seeds w =
     h_call H (BurnSigned (ai_key tokens) (ai_key mint) (ai_key authority) amount seeds) w"

text \<open>The recurring block that opens an associated token account when it has no data and
  validates it otherwise.\<close>

definition open_token_account :: "'n host \<Rightarrow> account_info \<Rightarrow> account_info \<Rightarrow> account_info \<Rightarrow> account_info
    \<Rightarrow> 'n world \<Rightarrow> 'n world result" where
  "open_token_account H funder owner_info tokens mint w =
     (if data_is_empty tokens w
      then h_call H (CreateAssociatedTokenAccount (ai_key funder) (ai_key owner_info) (ai_key tokens) (ai_key mint)) w
      else and_then (as_associated_token_account (ai_key owner_info) (ai_key mint) H tokens w) (\<lambda>_. Inr w))"

text \<open>The programs most handlers check last.\<close>

definition token_programs :: "account_info \<Rightarrow> account_info \<Rightarrow> account_info \<Rightarrow> (account_info \<times> check) list" where
  "token_programs system_program token_program associated_token_program =
     [(system_program, IsProgram SystemProgram), (token_program, IsProgram TokenProgram),
      (associated_token_program, IsProgram AssociatedTokenProgram)]"

section \<open>Seeds\<close>

text \<open>The PDA seeds of \<open>src/api/src/consts.rs\<close> and \<open>src/api/src/state/mod.rs\<close>.\<close>

definition AUTOMATION_V2 :: seed where "AUTOMATION_V2 = SBytes ''automation_v2''"
definition BOARD :: seed where "BOARD = SBytes ''board''"
definition CONFIG :: seed where "CONFIG = SBytes ''config''"
definition MINER :: seed where "MINER = SBytes ''miner''"
definition MINER_EXTENDED :: seed where "MINER_EXTENDED = SBytes ''miner_ext''"
definition GOLD_VAULT :: seed where "GOLD_VAULT = SBytes ''gold_vault''"
definition ROUND :: seed where "ROUND = SBytes ''round''"
definition STAKE :: seed where "STAKE = SBytes ''stake''"
definition STAKE_V2 :: seed where "STAKE_V2 = SBytes ''stake_v2''"
definition TREASURY :: seed where "TREASURY = SBytes ''treasury''"
definition REFERRER :: seed where "REFERRER = SBytes ''referrer''"
definition SOL_MOTHERLODE :: seed where "SOL_MOTHERLODE = SBytes ''sol_motherlode''"
definition POOL_ROUND :: seed where "POOL_ROUND = SBytes ''pool_round''"
definition POOL_MEMBER :: seed where "POOL_MEMBER = SBytes ''pool_member''"
definition OTC_TREASURY :: seed where "OTC_TREASURY = SBytes ''otc_treasury''"
definition OTC_USER :: seed where "OTC_USER = SBytes ''otc_user''"

definition stake_v2_pda :: "'n host \<Rightarrow> pubkey \<Rightarrow> u64 \<Rightarrow> pubkey" where
  "stake_v2_pda H authority sid = h_pda H [STAKE_V2, SKey authority, SNum sid]"

end
