(* ===== verification/StakeMath.thy ===== *)
theory StakeMath
  imports Host
begin

text \<open>
  The integer arithmetic behind stake weights: \<open>isqrt_u128\<close>, \<open>effective_multiplier\<close> and
  \<open>stake_multiplier\<close> (\<open>src/api/src/state/stake_v2.rs\<close>,
  \<open>src/program/src/stake_v2/deposit_v2.rs\<close>), with the floor-square-root specification, the
  absence of overflow, monotonicity and the bounds of the two multiplier curves.
\<close>

section \<open>Integer square root\<close>

fun bit_length :: "nat \<Rightarrow> nat" where
  "bit_length n = (if n = 0 then 0 else Suc (bit_length (n div 2)))"

declare bit_length.simps [simp del]

definition leading_zeros_u128 :: "u128 \<Rightarrow> nat" where
  "leading_zeros_u128 n = 128 - bit_length n"

text \<open>The loop of \<open>isqrt_u128\<close>; a division by zero or an overflowing addition would abort.\<close>

function isqrt_loop :: "u128 \<Rightarrow> u128 \<Rightarrow> u128 result" where
  "isqrt_loop n x =
     (if x = 0 then Inl Panic
      else and_then (add128 x (n div x)) (\<lambda>s.
        if x \<le> s div 2 then Inr x else isqrt_loop n (s div 2)))"
  by pat_completeness auto
termination
  by (relation "measure snd") auto

declare isqrt_loop.simps [simp del]

definition isqrt_u128 :: "u128 \<Rightarrow> u128 result" where
  "isqrt_u128 n =
     (if n = 0 then Inr 0
      else isqrt_loop n (2 ^ ((128 - leading_zeros_u128 n + 1) div 2)))"

text \<open>The specification: \<open>r\<close> is the floor of the square root of \<open>n\<close>.\<close>

definition floor_sqrt_of :: "nat \<Rightarrow> nat \<Rightarrow> bool" where
  "floor_sqrt_of n r \<longleftrightarrow> r * r \<le> n \<and> n < (r + 1) * (r + 1)"

lemma floor_sqrt_unique: "floor_sqrt_of n r \<Longrightarrow> floor_sqrt_of n r' \<Longrightarrow> r = r'"
proof -
  have less: "a < b + 1" if "a * a \<le> n" "n < (b + 1) * (b + 1)" for a b :: nat
  proof (rule ccontr)
    assume "\<not> a < b + 1"
    then have "(b + 1) * (b + 1) \<le> a * a" by (intro mult_le_mono) auto
    with that show False by linarith
  qed
  assume f: "floor_sqrt_of n r" "floor_sqrt_of n r'"
  have "r < r' + 1" by (rule less) (use f in \<open>simp_all only: floor_sqrt_of_def\<close>)
  moreover have "r' < r + 1" by (rule less) (use f in \<open>simp_all only: floor_sqrt_of_def\<close>)
  ultimately show "r = r'" by simp
qed

lemma floor_sqrt_mono: "floor_sqrt_of n r \<Longrightarrow> floor_sqrt_of m s \<Longrightarrow> n \<le> m \<Longrightarrow> r \<le> s"
proof (rule ccontr)
  assume a: "floor_sqrt_of n r" "floor_sqrt_of m s" "n \<le> m" "\<not> r \<le> s"
  then have "(s + 1) * (s + 1) \<le> r * r" by (intro mult_le_mono) auto
  with a show False by (auto simp: floor_sqrt_of_def)
qed

lemma floor_sqrt_exists: "\<exists>r. floor_sqrt_of n r"
proof (induction n)
  case 0
  show ?case by (rule exI [of _ 0]) (simp add: floor_sqrt_of_def)
next
  case (Suc n)
  then obtain r where r: "floor_sqrt_of n r" by blast
  show ?case
  proof (cases "Suc n < (r + 1) * (r + 1)")
    case True
    moreover have "r * r \<le> Suc n" using r by (simp add: floor_sqrt_of_def)
    ultimately show ?thesis by (intro exI [of _ r]) (simp only: floor_sqrt_of_def simp_thms)
  next
    case False
    with r have "Suc n = (r + 1) * (r + 1)" by (simp add: floor_sqrt_of_def)
    then have "floor_sqrt_of (Suc n) (r + 1)" by (simp add: floor_sqrt_of_def)
    then show ?thesis by blast
  qed
qed

text \<open>One Newton step never undershoots the root.\<close>

lemma newton_step_ge:
  fixes n r x :: nat
  assumes r: "r * r \<le> n" and x: "0 < x"
  shows "r \<le> (x + n div x) div 2"
proof -
  have "2 * r \<le> x + n div x"
  proof (cases "2 * r \<le> x")
    case False
    define d where "d = 2 * r - x"
    have "int (d * x) \<le> int (r * r)"
    proof -
      have "int d = 2 * int r - int x" using False by (simp add: d_def)
      then have "int r * int r - int d * int x = (int r - int x) * (int r - int x)"
        by algebra
      moreover have "0 \<le> (int r - int x) * (int r - int x)" by simp
      ultimately show ?thesis unfolding of_nat_mult by linarith
    qed
    with r have "d * x \<le> n" by linarith
    then have "d \<le> n div x" using x by (simp add: less_eq_div_iff_mult_less_eq)
    with False show ?thesis by (simp add: d_def)
  qed simp
  then show ?thesis by linarith
qed

lemma floor_sqrt_div_le:
  assumes "floor_sqrt_of n r" "r \<le> x" "0 < r"
  shows "n div x \<le> r + 2"
proof -
  have "n \<le> r * (r + 2)" using assms(1) by (simp add: floor_sqrt_of_def algebra_simps)
  then have "n div r \<le> r * (r + 2) div r" by (rule div_le_mono)
  then have "n div r \<le> r + 2" using assms(3) by simp
  moreover have "n div x \<le> n div r" using assms(2,3) by (simp add: div_le_mono2)
  ultimately show ?thesis by linarith
qed

text \<open>From any start above the root (and small enough for the addition) the loop returns the
  root.\<close>

lemma isqrt_loop_correct:
  assumes "floor_sqrt_of n r" "0 < r" "r \<le> x" "x \<le> 2 ^ 64" "r \<le> 2 ^ 64"
  shows "isqrt_loop n x = Inr r"
  using assms(3,4)
proof (induction x rule: less_induct)
  case (less x)
  define y where "y = (x + n div x) div 2"
  have x: "0 < x" using less.prems(1) assms(2) by linarith
  have ry: "r \<le> y"
    unfolding y_def using assms(1) x by (intro newton_step_ge) (auto simp: floor_sqrt_of_def)
  have "n div x \<le> 2 ^ 64 + 2"
    using floor_sqrt_div_le [OF assms(1) less.prems(1) assms(2)] assms(5) by linarith
  then have ov: "x + n div x \<le> u128_max" using less.prems(2) by simp
  have unf: "isqrt_loop n x = (if x \<le> y then Inr x else isqrt_loop n y)"
    using x ov by (subst isqrt_loop.simps) (simp add: add128_def y_def)
  show ?case
  proof (cases "x \<le> y")
    case True
    then have "2 * x \<le> x + n div x" unfolding y_def by linarith
    then have "x \<le> n div x" by linarith
    then have "x * x \<le> n" using x by (simp add: less_eq_div_iff_mult_less_eq)
    moreover have "n < (r + 1) * (r + 1)" using assms(1) by (simp only: floor_sqrt_of_def)
    moreover have "(r + 1) * (r + 1) \<le> (x + 1) * (x + 1)"
      using less.prems(1) by (intro mult_le_mono) auto
    ultimately have "floor_sqrt_of n x" unfolding floor_sqrt_of_def by linarith
    then have "x = r" by (rule floor_sqrt_unique [OF _ assms(1)])
    with unf True show ?thesis by simp
  next
    case False
    then have "isqrt_loop n y = Inr r"
      using ry less.prems(2) by (intro less.IH) auto
    with unf False show ?thesis by simp
  qed
qed

text \<open>The initial guess is above the root.\<close>

lemma bit_length_bounds: "0 < n \<Longrightarrow> 2 ^ (bit_length n - 1) \<le> n \<and> n < 2 ^ bit_length n \<and> 0 < bit_length n"
proof (induction n rule: bit_length.induct)
  case (1 n)
  show ?case
  proof (cases "n div 2 = 0")
    case True
    then have "n = 1" using 1 by linarith
    then show ?thesis by (simp add: bit_length.simps)
  next
    case False
    then have IH: "2 ^ (bit_length (n div 2) - 1) \<le> n div 2" "n div 2 < 2 ^ bit_length (n div 2)"
      "0 < bit_length (n div 2)" using 1 by auto
    have b: "bit_length n = Suc (bit_length (n div 2))"
      using 1 by (subst bit_length.simps) simp
    obtain k where k: "bit_length (n div 2) = Suc k" using IH(3) by (cases "bit_length (n div 2)") auto
    show ?thesis using IH by (simp add: b k) linarith
  qed
qed

lemma bit_length_le: "n < 2 ^ k \<Longrightarrow> bit_length n \<le> k"
proof (cases "n = 0")
  case True
  then show ?thesis by (simp add: bit_length.simps)
next
  case False
  assume a: "n < 2 ^ k"
  then have "(2::nat) ^ (bit_length n - 1) < 2 ^ k" using bit_length_bounds [of n] False by linarith
  then have "bit_length n - 1 < k" by (rule power_less_imp_less_exp [rotated]) simp
  then show ?thesis by linarith
qed

lemma isqrt_u128_correct:
  assumes "n \<le> u128_max" "floor_sqrt_of n r"
  shows "isqrt_u128 n = Inr r"
proof (cases "n = 0")
  case True
  then have "floor_sqrt_of n 0" by (simp add: floor_sqrt_of_def)
  then have "r = 0" using assms(2) by (rule floor_sqrt_unique [symmetric])
  with True show ?thesis by (simp add: isqrt_u128_def)
next
  case False
  define k where "k = (bit_length n + 1) div 2"
  have n128: "n < 2 ^ 128" using assms(1) by simp
  have bl: "bit_length n \<le> 128" by (rule bit_length_le [OF n128])
  have "bit_length n \<le> 2 * k" unfolding k_def by linarith
  then have "n < 2 ^ (2 * k)"
    using bit_length_bounds [of n] False power_increasing [of "bit_length n" "2 * k" "2::nat"]
    by linarith
  then have "r * r < 2 ^ k * 2 ^ k"
    using assms(2) by (simp add: floor_sqrt_of_def power_add [symmetric] mult_2)
  then have rk: "r < 2 ^ k" by (metis mult_le_mono not_le)
  have k64: "k \<le> 64" using bl unfolding k_def by linarith
  then have p: "(2::nat) ^ k \<le> 2 ^ 64" by (intro power_increasing) auto
  have "0 < r" using assms(2) False by (cases r) (auto simp: floor_sqrt_of_def)
  then have "isqrt_loop n (2 ^ k) = Inr r"
    using assms(2) rk p by (intro isqrt_loop_correct) linarith+
  moreover have "(128 - leading_zeros_u128 n + 1) div 2 = k"
    using bl by (simp add: leading_zeros_u128_def k_def)
  ultimately show ?thesis using False by (simp add: isqrt_u128_def)
qed

lemma isqrt_u128_total:
  assumes "n \<le> u128_max"
  shows "\<exists>r. isqrt_u128 n = Inr r \<and> floor_sqrt_of n r"
  using floor_sqrt_exists [of n] isqrt_u128_correct [OF assms] by blast


section \<open>Multiplier curves\<close>

text \<open>The free function \<open>effective_multiplier\<close>: the square root in the same fixed-point scale.\<close>

definition effective_multiplier :: "u64 \<Rightarrow> u64 result" where
  "effective_multiplier m =
     and_then (mul128 m STAKE_MULTIPLIER_SCALE) (\<lambda>n.
     and_then (isqrt_u128 n) (\<lambda>r. Inr (as_u64 r)))"

lemma effective_multiplier_correct:
  assumes "m \<le> u64_max"
  obtains e where "effective_multiplier m = Inr e" "floor_sqrt_of (m * STAKE_MULTIPLIER_SCALE) e"
    "e \<le> u64_max"
proof -
  have n: "m * STAKE_MULTIPLIER_SCALE \<le> u128_max"
    using assms mult_le_mono1 [OF assms, of STAKE_MULTIPLIER_SCALE]
    by (simp add: STAKE_MULTIPLIER_SCALE_def)
  obtain r where r: "isqrt_u128 (m * STAKE_MULTIPLIER_SCALE) = Inr r"
    "floor_sqrt_of (m * STAKE_MULTIPLIER_SCALE) r"
    using isqrt_u128_total [OF n] by blast
  have "r \<le> u64_max"
  proof (rule ccontr)
    assume "\<not> r \<le> u64_max"
    then have "(2 ^ 64) * (2 ^ 64) \<le> r * r" by (intro mult_le_mono) auto
    moreover have "r * r \<le> m * STAKE_MULTIPLIER_SCALE" using r(2) by (simp add: floor_sqrt_of_def)
    ultimately show False using n by simp
  qed
  then show ?thesis
    using that [of r] r n by (simp add: effective_multiplier_def mul128_def)
qed

lemma effective_multiplier_mono:
  assumes "effective_multiplier a = Inr x" "effective_multiplier b = Inr y" "a \<le> b" "b \<le> u64_max"
  shows "x \<le> y"
proof -
  have "a \<le> u64_max" using assms by linarith
  then have "floor_sqrt_of (a * STAKE_MULTIPLIER_SCALE) x"
    using assms(1) by (metis effective_multiplier_correct Inr_inject)
  moreover have "floor_sqrt_of (b * STAKE_MULTIPLIER_SCALE) y"
    using assms(2,4) by (metis effective_multiplier_correct Inr_inject)
  ultimately show ?thesis
    by (rule floor_sqrt_mono) (simp add: assms(3))
qed

text \<open>\<open>stake_multiplier\<close>: linear between 1x and 20x over the longest lock.\<close>

definition stake_multiplier :: "i64 \<Rightarrow> u64" where
  "stake_multiplier lock_duration =
     (let d = nat (min (max lock_duration 0) MAX_LOCK_DURATION);
          base = STAKE_MULTIPLIER_SCALE;
          extra = min u128_max
                    (min u128_max (saturating_sub MAX_STAKE_MULTIPLIER 1 * d) * STAKE_MULTIPLIER_SCALE)
                  div nat MAX_LOCK_DURATION
      in as_u64 (min u128_max (base + extra)))"

lemma stake_multiplier_eq:
  "stake_multiplier l = 1000000000 + 19 * nat (min (max l 0) 63072000) * 1000000000 div 63072000"
proof -
  define d where "d = nat (min (max l 0) 63072000)"
  have d: "d \<le> 63072000" by (simp add: d_def)
  have q: "19 * d * 1000000000 div 63072000 \<le> 19000000000"
    using d by linarith
  have m: "MAX_LOCK_DURATION = 63072000" by (simp add: time_consts)
  have "19 * d * 1000000000 \<le> u128_max" "19 * d \<le> u128_max" using d by simp_all
  moreover have "1000000000 + 19 * d * 1000000000 div 63072000 \<le> u64_max" using q by simp
  ultimately show ?thesis
    unfolding stake_multiplier_def Let_def m d_def [symmetric]
    by (simp add: stake_consts saturating_sub_def)
qed

lemma stake_multiplier_bounds:
  "STAKE_MULTIPLIER_SCALE \<le> stake_multiplier l"
  "stake_multiplier l \<le> MAX_STAKE_MULTIPLIER * STAKE_MULTIPLIER_SCALE"
proof -
  have "19 * nat (min (max l 0) 63072000) * 1000000000 div 63072000
      \<le> 19 * 63072000 * 1000000000 div 63072000"
    by (intro div_le_mono mult_le_mono) auto
  then show "STAKE_MULTIPLIER_SCALE \<le> stake_multiplier l"
    "stake_multiplier l \<le> MAX_STAKE_MULTIPLIER * STAKE_MULTIPLIER_SCALE"
    by (simp_all add: stake_multiplier_eq stake_consts)
qed

lemma stake_multiplier_mono: "l \<le> l' \<Longrightarrow> stake_multiplier l \<le> stake_multiplier l'"
  unfolding stake_multiplier_eq by (intro add_left_mono div_le_mono mult_le_mono) auto

lemma stake_multiplier_ends:
  "l \<le> 0 \<Longrightarrow> stake_multiplier l = STAKE_MULTIPLIER_SCALE"
  "MAX_LOCK_DURATION \<le> l \<Longrightarrow> stake_multiplier l = MAX_STAKE_MULTIPLIER * STAKE_MULTIPLIER_SCALE"
  by (simp_all add: stake_multiplier_eq stake_consts time_consts)

end
