(* ===== verification/RewardIndex.thy ===== *)
theory RewardIndex
  imports Numeric Consts
begin

text \<open>
  The lazy cumulative-index scheme that GODL uses three times: staking yield
  (\<open>Treasury::stake_rewards_factor\<close>), the claim fee shared among miners
  (\<open>Treasury::miner_rewards_factor\<close>) and gold (\<open>GoldVault::xaut_rewards_factor\<close>). A global
  factor grows by \<open>amount / total weight\<close> at each distribution; every holder keeps the factor it
  last saw and is credited \<open>(factor - seen) * weight\<close> when it is next touched.

  The locale \<open>reward_index\<close> is the contract between a holder type and this scheme. Its main
  notion is \<open>solvent\<close>: what all holders have been credited or could still be credited, plus
  what has been paid out, is covered by what was distributed.
\<close>

section \<open>What a holder is owed\<close>

definition owed :: "('n \<Rightarrow> real) \<Rightarrow> ('s \<Rightarrow> real) \<Rightarrow> ('s \<Rightarrow> 'n) \<Rightarrow> ('s \<Rightarrow> u64) \<Rightarrow> 'n \<Rightarrow> 's \<Rightarrow> real" where
  "owed val wt snap acc F s = real (acc s) + (val F - val (snap s)) * wt s"

definition solvent :: "('n \<Rightarrow> real) \<Rightarrow> ('s \<Rightarrow> real) \<Rightarrow> ('s \<Rightarrow> 'n) \<Rightarrow> ('s \<Rightarrow> u64) \<Rightarrow> 'n \<Rightarrow> nat \<Rightarrow> nat \<Rightarrow> 's list \<Rightarrow> bool" where
  "solvent val wt snap acc F distributed paid xs \<longleftrightarrow>
     in_range (val F) \<and> distributed \<le> u64_max \<and>
     (\<forall>s\<in>set xs. 0 \<le> val (snap s) \<and> val (snap s) \<le> val F) \<and>
     sum_list (map (owed val wt snap acc F) xs) + real paid \<le> real distributed"

lemma solventI:
  "in_range (val F) \<Longrightarrow> distributed \<le> u64_max \<Longrightarrow>
   (\<And>s. s \<in> set xs \<Longrightarrow> 0 \<le> val (snap s) \<and> val (snap s) \<le> val F) \<Longrightarrow>
   sum_list (map (owed val wt snap acc F) xs) + real paid \<le> real distributed \<Longrightarrow>
   solvent val wt snap acc F distributed paid xs"
  by (auto simp: solvent_def)

section \<open>The contract\<close>

locale reward_index = numeric N val
  for N :: "'n numeric_ops" and val :: "'n \<Rightarrow> real" +
  fixes wt :: "'s \<Rightarrow> real"
    and snap :: "'s \<Rightarrow> 'n"
    and acc :: "'s \<Rightarrow> u64"
    and settle :: "'n \<Rightarrow> 's \<Rightarrow> 's result"
  assumes wt_nonneg: "0 \<le> wt s"
    and settle_snap: "settle F s = Inr s' \<Longrightarrow> snap s' = F"
    and settle_wt: "settle F s = Inr s' \<Longrightarrow> wt s' = wt s"
    and settle_acc: "settle F s = Inr s' \<Longrightarrow> in_range (val F) \<Longrightarrow> 0 \<le> val (snap s) \<Longrightarrow>
      val (snap s) \<le> val F \<Longrightarrow> (val F - val (snap s)) * wt s \<le> real u64_max \<Longrightarrow>
      real (acc s') \<le> real (acc s) + (val F - val (snap s)) * wt s"
begin

abbreviation owed_at :: "'n \<Rightarrow> 's \<Rightarrow> real" where
  "owed_at \<equiv> owed val wt snap acc"

abbreviation solvent_at :: "'n \<Rightarrow> nat \<Rightarrow> nat \<Rightarrow> 's list \<Rightarrow> bool" where
  "solvent_at \<equiv> solvent val wt snap acc"

lemma owed_nonneg: "0 \<le> val (snap s) \<Longrightarrow> val (snap s) \<le> val F \<Longrightarrow> 0 \<le> owed_at F s"
  by (simp add: owed_def wt_nonneg)

lemma owed_settled: "snap s = F \<Longrightarrow> owed_at F s = real (acc s)"
  by (simp add: owed_def)

text \<open>No single holder is owed more than was distributed.\<close>

lemma solvent_member:
  assumes "solvent_at F d p xs" "s \<in> set xs"
  shows "owed_at F s + real p \<le> real d"
proof -
  have "owed_at F s \<le> sum_list (map (owed_at F) xs)"
  proof -
    have "\<forall>x\<in>set xs. 0 \<le> owed_at F x"
      using assms(1) by (auto simp: solvent_def intro: owed_nonneg)
    then show ?thesis using assms(2)
    proof (induction xs)
      case (Cons x xs)
      have "0 \<le> sum_list (map (owed_at F) xs)"
        using Cons.prems(1) by (intro sum_list_nonneg) auto
      then show ?case using Cons by (cases "s = x") fastforce+
    qed simp
  qed
  with assms(1) show ?thesis by (auto simp: solvent_def)
qed

lemma solvent_accrued:
  assumes "solvent_at F d p xs"
  shows "sum_list (map acc xs) + p \<le> d"
proof -
  have le: "real (acc s) \<le> owed_at F s" if "s \<in> set xs" for s
    using assms that wt_nonneg [of s] by (auto simp: solvent_def owed_def)
  have "real (sum_list (map acc xs)) \<le> sum_list (map (owed_at F) xs)"
    using le by (induction xs) (auto simp: add_mono)
  with assms have "real (sum_list (map acc xs) + p) \<le> real d" by (simp add: solvent_def)
  then show ?thesis by linarith
qed

text \<open>Replacing a holder by one that is owed no more keeps the scheme solvent.\<close>

lemma solvent_replace:
  assumes "solvent_at F d p xs" "i < length xs" "0 \<le> val (snap s')" "val (snap s') \<le> val F"
    and "owed_at F s' + real p' \<le> owed_at F (xs ! i) + real p"
  shows "solvent_at F d p' (xs[i := s'])"
proof (rule solventI)
  show "in_range (val F)" "d \<le> u64_max" using assms(1) by (auto simp: solvent_def)
  show "0 \<le> val (snap s) \<and> val (snap s) \<le> val F" if "s \<in> set (xs[i := s'])" for s
    using set_update_subset_insert [of xs i s'] that assms(1,3,4) by (auto simp: solvent_def)
  show "sum_list (map (owed_at F) (xs[i := s'])) + real p' \<le> real d"
    using assms(1,5) by (simp add: sum_list_update_add [OF assms(2)] solvent_def)
qed

lemma settle_owed:
  assumes "settle F s = Inr s'" "in_range (val F)" "0 \<le> val (snap s)" "val (snap s) \<le> val F"
    and "owed_at F s \<le> real u64_max"
  shows "owed_at F s' \<le> owed_at F s"
proof -
  have "(val F - val (snap s)) * wt s \<le> real u64_max"
    using assms(5) by (simp add: owed_def)
  then have "real (acc s') \<le> real (acc s) + (val F - val (snap s)) * wt s"
    using assms by (intro settle_acc) auto
  then show ?thesis
    by (simp add: owed_settled [OF settle_snap [OF assms(1)]]) (simp add: owed_def)
qed

lemma solvent_settle:
  assumes "solvent_at F d p xs" "i < length xs" "settle F (xs ! i) = Inr s'"
  shows "solvent_at F d p (xs[i := s'])"
proof -
  have m: "xs ! i \<in> set xs" using assms(2) by simp
  have r: "in_range (val F)" "0 \<le> val (snap (xs ! i))" "val (snap (xs ! i)) \<le> val F" "d \<le> u64_max"
    using assms(1) m by (auto simp: solvent_def)
  have "owed_at F (xs ! i) \<le> real d" using solvent_member [OF assms(1) m] by simp
  also have "\<dots> \<le> real u64_max" using r(4) by (simp only: of_nat_le_iff)
  finally have "owed_at F s' \<le> owed_at F (xs ! i)"
    by (intro settle_owed [OF assms(3) r(1-3)])
  moreover have "0 \<le> val (snap s')" "val (snap s') \<le> val F"
    using r(1) settle_snap [OF assms(3)] by (auto simp: in_range_def)
  ultimately show ?thesis
    by (intro solvent_replace [OF assms(1,2)]) auto
qed

text \<open>After settling, the weight of a holder may change freely.\<close>

lemma solvent_reweigh:
  assumes "solvent_at F d p xs" "i < length xs" "snap (xs ! i) = F" "snap s' = F"
    and "acc s' + p' \<le> acc (xs ! i) + p"
  shows "solvent_at F d p' (xs[i := s'])"
proof (rule solvent_replace [OF assms(1,2)])
  show "0 \<le> val (snap s')" "val (snap s') \<le> val F"
    using assms(1,4) by (auto simp: solvent_def in_range_def)
  have "real (acc s' + p') \<le> real (acc (xs ! i) + p)" using assms(5) by (simp only: of_nat_le_iff)
  then show "owed_at F s' + real p' \<le> owed_at F (xs ! i) + real p"
    by (simp add: owed_settled assms(3,4))
qed

text \<open>Settle a holder and then change it in one step: the shape of every handler.\<close>

lemma solvent_touch:
  assumes "solvent_at F d p xs" "i < length xs" "settle F (xs ! i) = Inr s1" "snap s' = F"
    and "acc s' + p' \<le> acc s1 + p"
  shows "solvent_at F d p' (xs[i := s'])"
proof -
  have "solvent_at F d p (xs[i := s1])" by (rule solvent_settle [OF assms(1-3)])
  then have "solvent_at F d p' (xs[i := s1, i := s'])"
    by (rule solvent_reweigh) (use assms settle_snap [OF assms(3)] in auto)
  then show ?thesis by simp
qed

lemma solvent_new:
  assumes "solvent_at F d p xs" "snap s = F" "acc s = 0"
  shows "solvent_at F d p (xs @ [s])"
  using assms by (auto simp: solvent_def owed_def in_range_def)

text \<open>A holder without weight may join at any earlier factor (a zeroed account).\<close>

lemma solvent_join:
  assumes "solvent_at F d p xs" "wt s = 0" "acc s = 0" "0 \<le> val (snap s)" "val (snap s) \<le> val F"
  shows "solvent_at F d p (xs @ [s])"
  using assms by (auto simp: solvent_def owed_def)

text \<open>A distribution of \<open>amount\<close> at a total weight that covers all holders.\<close>

lemma solvent_distribute:
  assumes "solvent_at F d p xs" "0 < tw" "tw \<le> u64_max" "amount \<le> u64_max"
    and "sum_list (map wt xs) \<le> real tw" "d + amount \<le> u64_max"
    and "in_range (val F + val (n_from_fraction N amount tw))"
  shows "solvent_at (n_add N F (n_from_fraction N amount tw)) (d + amount) p xs"
proof (rule solventI)
  let ?q = "n_from_fraction N amount tw"
  have r: "in_range (val F)" using assms(1) by (simp add: solvent_def)
  have q: "0 \<le> val ?q" "in_range (val ?q)"
    using val_from_fraction [OF assms(4,3,2)] from_fraction_range [OF assms(4,3,2)] by auto
  have add: "val (n_add N F ?q) = val F + val ?q"
    by (rule val_add [OF r q(2) assms(7)])
  show "in_range (val (n_add N F ?q))" using assms(7) add by simp
  show "d + amount \<le> u64_max" by fact
  show "0 \<le> val (snap s) \<and> val (snap s) \<le> val (n_add N F ?q)" if "s \<in> set xs" for s
    using that assms(1) q(1) add by (fastforce simp: solvent_def)
  have eq: "owed_at (n_add N F ?q) s = owed_at F s + val ?q * wt s" for s
    by (simp add: owed_def add algebra_simps)
  have "sum_list (map (owed_at (n_add N F ?q)) xs)
      = sum_list (map (owed_at F) xs) + val ?q * sum_list (map wt xs)"
    by (induction xs) (simp_all add: eq distrib_left)
  also have "val ?q * sum_list (map wt xs) \<le> val ?q * real tw"
    using q(1) assms(5) by (rule mult_left_mono [rotated])
  also have "\<dots> \<le> real amount"
    using from_fraction_share [OF assms(4,3,2)] by simp
  finally show "sum_list (map (owed_at (n_add N F ?q)) xs) + real p \<le> real (d + amount)"
    using assms(1) by (simp add: solvent_def)
qed

text \<open>A holder that leaves takes its claim with it.\<close>

lemma solvent_drop:
  assumes "solvent_at F d p xs"
  shows "solvent_at F d p (take i xs @ drop (Suc i) xs)"
proof (cases "i < length xs")
  case True
  have x: "xs = take i xs @ xs ! i # drop (Suc i) xs" by (rule id_take_nth_drop [OF True])
  have "0 \<le> owed_at F (xs ! i)"
    using assms True by (intro owed_nonneg) (auto simp: solvent_def)
  moreover have "sum_list (map (owed_at F) xs)
      = sum_list (map (owed_at F) (take i xs @ drop (Suc i) xs)) + owed_at F (xs ! i)"
    by (subst x) simp
  moreover have "set (take i xs @ drop (Suc i) xs) \<subseteq> set xs"
    using set_take_subset set_drop_subset by fastforce
  ultimately show ?thesis using assms by (auto simp: solvent_def)
qed (use assms in simp)

lemma solvent_empty: "in_range (val F) \<Longrightarrow> d \<le> u64_max \<Longrightarrow> p \<le> d \<Longrightarrow> solvent_at F d p []"
  by (simp add: solvent_def)

end

end
