(* ===== verification/StakeV2.thy ===== *)
theory StakeV2
  imports StakeMath RewardIndex
begin

text \<open>
  The methods of \<open>StakeV2\<close> (\<open>src/api/src/state/stake_v2.rs\<close>): reward weight, settlement,
  claim, deposit, withdraw, NFT boost and the migration to the square-root curve. A method on
  \<open>&mut self\<close> and \<open>&mut Treasury\<close> returns the new stake and treasury; the sender's token
  balance is an argument.

  Every operation is shown to move \<open>total_staked\<close> by exactly the change of the stake's weight
  and to settle at the weight held until then, and \<open>StakeV2\<close> is shown to meet the contract
  \<open>reward_index\<close>.
\<close>

section \<open>Weight\<close>

definition sv_effective_multiplier :: "'n stake_v2 \<Rightarrow> u64 result" where
  "sv_effective_multiplier s =
     (if sv_weight_version s = 0 then Inr (sv_multiplier s) else effective_multiplier (sv_multiplier s))"

definition apply_multiplier :: "'n stake_v2 \<Rightarrow> u64 \<Rightarrow> u64 result" where
  "apply_multiplier s amount =
     and_then (sv_effective_multiplier s) (\<lambda>m.
     if amount = 0 \<or> m = 0 then Inr 0
     else and_then (mul128 amount m) (\<lambda>p.
       let weighted = p div STAKE_MULTIPLIER_SCALE in
       if weighted > u64_max then Inl (Godl StakeOverflow) else Inr (as_u64 weighted)))"

definition weighted_units :: "'n stake_v2 \<Rightarrow> u64 result" where
  "weighted_units s =
     and_then (apply_multiplier s (sv_balance s)) (\<lambda>base.
     if sv_is_nft_staked s \<noteq> 0 then
       and_then (ok_or (if base * NFT_BOOST_NUMERATOR \<le> u128_max
                        then Some (base * NFT_BOOST_NUMERATOR div NFT_BOOST_DENOMINATOR) else None)
                   (Godl StakeOverflow)) (\<lambda>boosted.
       if boosted > u64_max then Inl (Godl StakeOverflow) else Inr (as_u64 boosted))
     else Inr base)"

section \<open>Settlement\<close>

definition sv_update_rewards :: "'n numeric_ops \<Rightarrow> 'n treasury \<Rightarrow> 'n stake_v2 \<Rightarrow> 'n stake_v2 result" where
  "sv_update_rewards N t s =
     and_then
       (if n_lt N (sv_rewards_factor s) (tr_stake_rewards_factor t) then
          let accumulated = n_sub N (tr_stake_rewards_factor t) (sv_rewards_factor s) in
          if n_lt N accumulated (n_zero N) then Inl Panic
          else and_then (weighted_units s) (\<lambda>units.
            let personal = n_mul N accumulated (n_from_u64 N units) in
            and_then (ok_or (checked_add (sv_rewards s) (n_to_u64 N personal)) (Godl StakeOverflow)) (\<lambda>r.
            and_then (ok_or (checked_add (sv_lifetime_rewards s) (n_to_u64 N personal)) (Godl StakeOverflow)) (\<lambda>l.
            Inr (s\<lparr>sv_rewards := r, sv_lifetime_rewards := l\<rparr>))))
        else Inr s)
       (\<lambda>s. Inr (s\<lparr>sv_rewards_factor := tr_stake_rewards_factor t\<rparr>))"

text \<open>The adjustment of \<open>total_staked\<close> that every weight-changing method ends with. The two
  spellings of the source (growing branch first, shrinking branch first) differ in the order of
  the test only.\<close>

definition adjust_total_up :: "'n treasury \<Rightarrow> u64 \<Rightarrow> u64 \<Rightarrow> 'n treasury result" where
  "adjust_total_up t prev_units new_units =
     (if new_units \<ge> prev_units then
        and_then (ok_or (checked_add (tr_total_staked t) (new_units - prev_units)) (Godl StakeOverflow))
          (\<lambda>v. Inr (t\<lparr>tr_total_staked := v\<rparr>))
      else
        and_then (ok_or (checked_sub (tr_total_staked t) (prev_units - new_units)) (Godl StakeOverflow))
          (\<lambda>v. Inr (t\<lparr>tr_total_staked := v\<rparr>)))"

definition adjust_total_down :: "'n treasury \<Rightarrow> u64 \<Rightarrow> u64 \<Rightarrow> 'n treasury result" where
  "adjust_total_down t prev_units new_units =
     (if prev_units \<ge> new_units then
        and_then (ok_or (checked_sub (tr_total_staked t) (prev_units - new_units)) (Godl StakeOverflow))
          (\<lambda>v. Inr (t\<lparr>tr_total_staked := v\<rparr>))
      else
        and_then (ok_or (checked_add (tr_total_staked t) (new_units - prev_units)) (Godl StakeOverflow))
          (\<lambda>v. Inr (t\<lparr>tr_total_staked := v\<rparr>)))"

section \<open>Operations\<close>

definition sv_claim :: "'n numeric_ops \<Rightarrow> u64 \<Rightarrow> i64 \<Rightarrow> 'n treasury \<Rightarrow> 'n stake_v2 \<Rightarrow> ('n stake_v2 \<times> u64) result" where
  "sv_claim N amount now t s =
     and_then (sv_update_rewards N t s) (\<lambda>s.
     let amount = min (sv_rewards s) amount in
     Inr (s\<lparr>sv_rewards := sv_rewards s - amount, sv_last_claim_at := now\<rparr>, amount))"

definition sv_deposit :: "'n numeric_ops \<Rightarrow> u64 \<Rightarrow> i64 \<Rightarrow> 'n treasury \<Rightarrow> u64 \<Rightarrow> 'n stake_v2 \<Rightarrow> ('n stake_v2 \<times> 'n treasury \<times> u64) result" where
  "sv_deposit N amount now t sender_amount s =
     and_then (sv_update_rewards N t s) (\<lambda>s.
     let amount = min sender_amount amount in
     and_then (weighted_units s) (\<lambda>prev_units.
     and_then (ok_or (checked_add (sv_balance s) amount) (Godl StakeOverflow)) (\<lambda>b.
     let s = s\<lparr>sv_balance := b, sv_last_deposit_at := now\<rparr> in
     and_then (weighted_units s) (\<lambda>new_units.
     and_then (adjust_total_up t prev_units new_units) (\<lambda>t.
     Inr (s, t, amount))))))"

definition sv_withdraw :: "'n numeric_ops \<Rightarrow> u64 \<Rightarrow> i64 \<Rightarrow> 'n treasury \<Rightarrow> 'n stake_v2 \<Rightarrow> ('n stake_v2 \<times> 'n treasury \<times> u64) result" where
  "sv_withdraw N amount now t s =
     and_then (sv_update_rewards N t s) (\<lambda>s.
     let amount = min (sv_balance s) amount in
     and_then (weighted_units s) (\<lambda>prev_units.
     let s = s\<lparr>sv_balance := sv_balance s - amount, sv_last_withdraw_at := now\<rparr> in
     and_then (weighted_units s) (\<lambda>new_units.
     and_then (adjust_total_down t prev_units new_units) (\<lambda>t.
     Inr (s, t, amount)))))"

definition sv_stake_nft :: "'n numeric_ops \<Rightarrow> 'n treasury \<Rightarrow> 'n stake_v2 \<Rightarrow> ('n stake_v2 \<times> 'n treasury) result" where
  "sv_stake_nft N t s =
     (if sv_is_nft_staked s \<noteq> 0 then Inl (Godl NftAlreadyStaked)
      else and_then (sv_update_rewards N t s) (\<lambda>s.
        and_then (weighted_units s) (\<lambda>prev_units.
        let s = s\<lparr>sv_is_nft_staked := 1\<rparr> in
        and_then (weighted_units s) (\<lambda>new_units.
        and_then (adjust_total_up t prev_units new_units) (\<lambda>t. Inr (s, t))))))"

definition sv_unstake_nft :: "'n numeric_ops \<Rightarrow> 'n treasury \<Rightarrow> 'n stake_v2 \<Rightarrow> ('n stake_v2 \<times> 'n treasury) result" where
  "sv_unstake_nft N t s =
     (if sv_is_nft_staked s = 0 then Inl (Godl NftNotStaked)
      else and_then (sv_update_rewards N t s) (\<lambda>s.
        and_then (weighted_units s) (\<lambda>prev_units.
        let s = s\<lparr>sv_is_nft_staked := 0\<rparr> in
        and_then (weighted_units s) (\<lambda>new_units.
        and_then (adjust_total_down t prev_units new_units) (\<lambda>t. Inr (s, t))))))"

definition sv_migrate_weight :: "'n numeric_ops \<Rightarrow> 'n treasury \<Rightarrow> 'n stake_v2 \<Rightarrow> ('n stake_v2 \<times> 'n treasury) result" where
  "sv_migrate_weight N t s =
     (if sv_weight_version s \<noteq> 0 then Inr (s, t)
      else and_then (sv_update_rewards N t s) (\<lambda>s.
        and_then (weighted_units s) (\<lambda>prev_units.
        let s = s\<lparr>sv_weight_version := 1\<rparr> in
        and_then (weighted_units s) (\<lambda>new_units.
        and_then (adjust_total_up t prev_units new_units) (\<lambda>t. Inr (s, t))))))"

section \<open>Weight: reference and bounds\<close>

text \<open>The weight of a stake in one expression: balance times multiplier, then the NFT boost of
  11/10, each rounded down.\<close>

definition boost :: "nat \<Rightarrow> u128 \<Rightarrow> u128" where
  "boost nft base = (if nft = 0 then base else base * 11 div 10)"

definition units_ref :: "nat \<Rightarrow> u64 \<Rightarrow> u64 \<Rightarrow> nat" where
  "units_ref nft balance em = boost nft (balance * em div STAKE_MULTIPLIER_SCALE)"

lemma boost_ge: "base \<le> boost nft base"
  by (simp add: boost_def) linarith

lemma boost_mono: "a \<le> b \<Longrightarrow> boost nft a \<le> boost nft b"
  by (simp add: boost_def div_le_mono)

lemma units_ref_mono: "b \<le> b' \<Longrightarrow> em \<le> em' \<Longrightarrow> units_ref nft b em \<le> units_ref nft b' em'"
  unfolding units_ref_def by (intro boost_mono div_le_mono mult_le_mono)

lemma weighted_units_ref:
  assumes "sv_effective_multiplier s = Inr em" "em \<le> u64_max" "sv_balance s \<le> u64_max"
  shows "weighted_units s =
     (if units_ref (sv_is_nft_staked s) (sv_balance s) em \<le> u64_max
      then Inr (units_ref (sv_is_nft_staked s) (sv_balance s) em) else Inl (Godl StakeOverflow))"
proof -
  define b where "b = sv_balance s * em div STAKE_MULTIPLIER_SCALE"
  have am: "apply_multiplier s (sv_balance s) =
      (if b \<le> u64_max then Inr b else Inl (Godl StakeOverflow))"
    using assms by (auto simp: apply_multiplier_def b_def Let_def)
  have u: "units_ref (sv_is_nft_staked s) (sv_balance s) em = boost (sv_is_nft_staked s) b"
    by (simp add: units_ref_def b_def)
  show ?thesis
  proof (cases "b \<le> u64_max")
    case True
    then have "b * 11 \<le> u128_max" by simp
    with True show ?thesis unfolding u weighted_units_def am
      by (simp add: boost_def Let_def NFT_BOOST_NUMERATOR_def NFT_BOOST_DENOMINATOR_def)
  next
    case False
    then have "\<not> boost (sv_is_nft_staked s) b \<le> u64_max"
      using boost_ge [of b "sv_is_nft_staked s"] by linarith
    with False show ?thesis unfolding u weighted_units_def am by simp
  qed
qed

text \<open>A stake whose fields are genuine \<open>u64\<close> values.\<close>

definition sv_wf :: "'n stake_v2 \<Rightarrow> bool" where
  "sv_wf s \<longleftrightarrow> sv_balance s \<le> u64_max \<and> sv_multiplier s \<le> u64_max \<and> sv_rewards s \<le> u64_max
     \<and> sv_lifetime_rewards s \<le> u64_max"

lemma sv_effective_multiplier_total:
  assumes "sv_multiplier s \<le> u64_max"
  obtains em where "sv_effective_multiplier s = Inr em" "em \<le> u64_max"
proof -
  obtain e where "effective_multiplier (sv_multiplier s) = Inr e" "e \<le> u64_max"
    using effective_multiplier_correct [OF assms] by blast
  then show ?thesis
    using that assms by (cases "sv_weight_version s = 0") (auto simp: sv_effective_multiplier_def)
qed

lemma weighted_units_le:
  assumes "weighted_units s = Inr u" "sv_wf s"
  shows "u \<le> u64_max"
proof -
  obtain em where "sv_effective_multiplier s = Inr em" "em \<le> u64_max"
    using assms(2) sv_effective_multiplier_total unfolding sv_wf_def by blast
  with assms show ?thesis
    by (auto simp: weighted_units_ref sv_wf_def split: if_splits)
qed

text \<open>The weight only depends on four fields.\<close>

lemma weighted_units_cong:
  assumes "sv_balance s = sv_balance s'" "sv_multiplier s = sv_multiplier s'"
    "sv_is_nft_staked s = sv_is_nft_staked s'" "sv_weight_version s = sv_weight_version s'"
  shows "weighted_units s = weighted_units s'"
  using assms by (simp add: weighted_units_def apply_multiplier_def sv_effective_multiplier_def)

lemma weighted_units_zero: "sv_balance s = 0 \<Longrightarrow> sv_multiplier s \<le> u64_max \<Longrightarrow> weighted_units s = Inr 0"
proof -
  assume a: "sv_balance s = 0" "sv_multiplier s \<le> u64_max"
  obtain em where "sv_effective_multiplier s = Inr em" "em \<le> u64_max"
    using sv_effective_multiplier_total [OF a(2)] by blast
  with a show ?thesis by (simp add: weighted_units_ref units_ref_def boost_def)
qed

section \<open>Settlement: frame and effect\<close>

text \<open>The reward credited by a settlement.\<close>

definition sv_pending :: "'n numeric_ops \<Rightarrow> 'n treasury \<Rightarrow> 'n stake_v2 \<Rightarrow> u64 \<Rightarrow> u64" where
  "sv_pending N t s units =
     (if n_lt N (sv_rewards_factor s) (tr_stake_rewards_factor t)
      then n_to_u64 N (n_mul N (n_sub N (tr_stake_rewards_factor t) (sv_rewards_factor s)) (n_from_u64 N units))
      else 0)"

lemma sv_update_rewards_frame:
  assumes "sv_update_rewards N t s = Inr s'"
  shows "s' = s\<lparr>sv_rewards := sv_rewards s', sv_lifetime_rewards := sv_lifetime_rewards s',
      sv_rewards_factor := tr_stake_rewards_factor t\<rparr>"
  using assms unfolding sv_update_rewards_def
  by (cases s) (auto simp: result_simps Let_def split: if_splits)

lemma sv_update_rewards_effect:
  assumes "sv_update_rewards N t s = Inr s'" "weighted_units s = Inr u"
  shows "s' = s\<lparr>sv_rewards := sv_rewards s + sv_pending N t s u,
    sv_lifetime_rewards := sv_lifetime_rewards s + sv_pending N t s u,
    sv_rewards_factor := tr_stake_rewards_factor t\<rparr>"
  using assms unfolding sv_update_rewards_def sv_pending_def
  by (cases s) (auto simp: result_simps Let_def split: if_splits)

lemma sv_update_rewards_keeps:
  assumes "sv_update_rewards N t s = Inr s'"
  shows "weighted_units s' = weighted_units s" "sv_balance s' = sv_balance s"
    "sv_multiplier s' = sv_multiplier s" "sv_is_nft_staked s' = sv_is_nft_staked s"
    "sv_weight_version s' = sv_weight_version s"
    "sv_rewards_factor s' = tr_stake_rewards_factor t" "sv_created_at s' = sv_created_at s"
    "sv_lock_duration s' = sv_lock_duration s" "sv_id s' = sv_id s"
    "sv_authority s' = sv_authority s" "sv_executor s' = sv_executor s"
  by (subst sv_update_rewards_frame [OF assms], simp cong: weighted_units_cong)+

lemma sv_update_rewards_settled:
  assumes "sv_rewards_factor s = tr_stake_rewards_factor t"
    "\<not> n_lt N (tr_stake_rewards_factor t) (tr_stake_rewards_factor t)"
  shows "sv_update_rewards N t s = Inr s"
  using assms by (cases s) (simp add: sv_update_rewards_def)

section \<open>The ledger of weights\<close>

text \<open>\<open>tracks t s t' s'\<close>: going from \<open>(t, s)\<close> to \<open>(t', s')\<close> moved \<open>total_staked\<close> by exactly the
  change of the stake's weight and touched no other field of the treasury.\<close>

definition tracks :: "'n treasury \<Rightarrow> 'n stake_v2 \<Rightarrow> 'n treasury \<Rightarrow> 'n stake_v2 \<Rightarrow> bool" where
  "tracks t s t' s' \<longleftrightarrow> (\<exists>u u'. weighted_units s = Inr u \<and> weighted_units s' = Inr u' \<and>
     tr_total_staked t' + u = tr_total_staked t + u') \<and>
     t' = t\<lparr>tr_total_staked := tr_total_staked t'\<rparr>"

lemma adjust_total_up_eq:
  "adjust_total_up t u u' = Inr t' \<longleftrightarrow>
     u \<le> tr_total_staked t + u' \<and> (u \<le> u' \<longrightarrow> tr_total_staked t + (u' - u) \<le> u64_max) \<and>
     t' = t\<lparr>tr_total_staked := tr_total_staked t + u' - u\<rparr>"
  by (auto simp: adjust_total_up_def result_simps)

lemma adjust_total_down_eq:
  "adjust_total_down t u u' = Inr t' \<longleftrightarrow>
     u \<le> tr_total_staked t + u' \<and> (u < u' \<longrightarrow> tr_total_staked t + (u' - u) \<le> u64_max) \<and>
     t' = t\<lparr>tr_total_staked := tr_total_staked t + u' - u\<rparr>"
  by (auto simp: adjust_total_down_def result_simps)

lemma tracksI:
  assumes "weighted_units s = Inr u" "weighted_units s' = Inr u'" "u \<le> tr_total_staked t + u'"
    "t' = t\<lparr>tr_total_staked := tr_total_staked t + u' - u\<rparr>"
  shows "tracks t s t' s'"
  using assms by (simp add: tracks_def)

lemma tracks_treasury: "tracks t s t' s' \<Longrightarrow> t' = t\<lparr>tr_total_staked := tr_total_staked t'\<rparr>"
  by (simp add: tracks_def)

lemma tracks_trans:
  assumes "tracks t s t1 s1" "tracks t1 s1 t2 s2"
  shows "tracks t s t2 s2"
proof -
  obtain u u1 u2 where u: "weighted_units s = Inr u" "weighted_units s1 = Inr u1"
      "tr_total_staked t1 + u = tr_total_staked t + u1"
      "weighted_units s2 = Inr u2" "tr_total_staked t2 + u1 = tr_total_staked t1 + u2"
    using assms by (auto simp: tracks_def)
  have "t\<lparr>tr_total_staked := tr_total_staked t1\<rparr>\<lparr>tr_total_staked := tr_total_staked t2\<rparr>
      = t1\<lparr>tr_total_staked := tr_total_staked t2\<rparr>"
    by (rule arg_cong [OF tracks_treasury [OF assms(1), symmetric]])
  also have "\<dots> = t2" by (rule tracks_treasury [OF assms(2), symmetric])
  finally have "t2 = t\<lparr>tr_total_staked := tr_total_staked t2\<rparr>" by simp
  moreover have "tr_total_staked t2 + u = tr_total_staked t + u2" using u by linarith
  ultimately show ?thesis using u unfolding tracks_def by blast
qed

lemma tracks_factor:
  assumes "tracks t s t' s'"
  shows "tr_stake_rewards_factor t' = tr_stake_rewards_factor t"
proof -
  have "t' = t\<lparr>tr_total_staked := tr_total_staked t'\<rparr>" using assms by (simp add: tracks_def)
  from arg_cong [OF this, of tr_stake_rewards_factor] show ?thesis by simp
qed


section \<open>Every operation keeps the ledger\<close>

text \<open>The common shape: settle, change the stake to \<open>f s\<close>, move the total.\<close>

lemma settle_tracks:
  assumes "sv_update_rewards N t s = Inr s1" "weighted_units s1 = Inr u" "weighted_units s2 = Inr u'"
    "u \<le> tr_total_staked t + u'" "t' = t\<lparr>tr_total_staked := tr_total_staked t + u' - u\<rparr>"
  shows "tracks t s t' s2"
proof (rule tracksI)
  show "weighted_units s = Inr u" using assms(1,2) by (simp add: sv_update_rewards_keeps)
qed (use assms in auto)

lemma sv_deposit_spec:
  assumes "sv_deposit N amount now t have_amount s = Inr (s', t', got)"
  obtains s1 where "sv_update_rewards N t s = Inr s1" "got = min have_amount amount"
    "s' = s1\<lparr>sv_balance := sv_balance s + got, sv_last_deposit_at := now\<rparr>"
    "sv_balance s + got \<le> u64_max" "tracks t s t' s'"
proof -
  from assms obtain s1 u u' where e: "sv_update_rewards N t s = Inr s1" "got = min have_amount amount"
      "weighted_units s1 = Inr u" "sv_balance s1 + got \<le> u64_max"
      "s' = s1\<lparr>sv_balance := sv_balance s1 + got, sv_last_deposit_at := now\<rparr>"
      "weighted_units s' = Inr u'" "adjust_total_up t u u' = Inr t'"
    unfolding sv_deposit_def by (auto simp: result_simps Let_def)
  have b: "sv_balance s1 = sv_balance s" by (rule sv_update_rewards_keeps [OF e(1)])
  have "tracks t s t' s'"
    using e(7) by (intro settle_tracks [OF e(1,3,6)]) (auto simp: adjust_total_up_eq)
  with e b show ?thesis by (intro that [of s1]) auto
qed

lemma sv_withdraw_spec:
  assumes "sv_withdraw N amount now t s = Inr (s', t', got)"
  obtains s1 where "sv_update_rewards N t s = Inr s1" "got = min (sv_balance s) amount"
    "s' = s1\<lparr>sv_balance := sv_balance s - got, sv_last_withdraw_at := now\<rparr>" "tracks t s t' s'"
proof -
  from assms obtain s1 u u' where e: "sv_update_rewards N t s = Inr s1"
      "got = min (sv_balance s1) amount" "weighted_units s1 = Inr u"
      "s' = s1\<lparr>sv_balance := sv_balance s1 - got, sv_last_withdraw_at := now\<rparr>"
      "weighted_units s' = Inr u'" "adjust_total_down t u u' = Inr t'"
    unfolding sv_withdraw_def by (auto simp: result_simps Let_def)
  have b: "sv_balance s1 = sv_balance s" by (rule sv_update_rewards_keeps [OF e(1)])
  have "tracks t s t' s'"
    using e(6) by (intro settle_tracks [OF e(1,3,5)]) (auto simp: adjust_total_down_eq)
  with e b show ?thesis by (intro that [of s1]) auto
qed

lemma sv_stake_nft_spec:
  assumes "sv_stake_nft N t s = Inr (s', t')"
  obtains s1 where "sv_is_nft_staked s = 0" "sv_update_rewards N t s = Inr s1"
    "s' = s1\<lparr>sv_is_nft_staked := 1\<rparr>" "tracks t s t' s'"
proof -
  from assms obtain s1 u u' where e: "sv_is_nft_staked s = 0" "sv_update_rewards N t s = Inr s1"
      "weighted_units s1 = Inr u" "s' = s1\<lparr>sv_is_nft_staked := 1\<rparr>"
      "weighted_units s' = Inr u'" "adjust_total_up t u u' = Inr t'"
    unfolding sv_stake_nft_def by (auto simp: result_simps Let_def split: if_splits)
  have "tracks t s t' s'"
    using e(6) by (intro settle_tracks [OF e(2,3,5)]) (auto simp: adjust_total_up_eq)
  with e show ?thesis by (intro that [of s1]) auto
qed

lemma sv_unstake_nft_spec:
  assumes "sv_unstake_nft N t s = Inr (s', t')"
  obtains s1 where "sv_is_nft_staked s \<noteq> 0" "sv_update_rewards N t s = Inr s1"
    "s' = s1\<lparr>sv_is_nft_staked := 0\<rparr>" "tracks t s t' s'"
proof -
  from assms obtain s1 u u' where e: "sv_is_nft_staked s \<noteq> 0" "sv_update_rewards N t s = Inr s1"
      "weighted_units s1 = Inr u" "s' = s1\<lparr>sv_is_nft_staked := 0\<rparr>"
      "weighted_units s' = Inr u'" "adjust_total_down t u u' = Inr t'"
    unfolding sv_unstake_nft_def by (auto simp: result_simps Let_def split: if_splits)
  have "tracks t s t' s'"
    using e(6) by (intro settle_tracks [OF e(2,3,5)]) (auto simp: adjust_total_down_eq)
  with e show ?thesis by (intro that [of s1]) auto
qed

lemma sv_migrate_weight_spec:
  assumes "sv_migrate_weight N t s = Inr (s', t')" "sv_weight_version s = 0"
  obtains s1 where "sv_update_rewards N t s = Inr s1" "s' = s1\<lparr>sv_weight_version := 1\<rparr>"
    "tracks t s t' s'"
proof -
  from assms obtain s1 u u' where e: "sv_update_rewards N t s = Inr s1"
      "weighted_units s1 = Inr u" "s' = s1\<lparr>sv_weight_version := 1\<rparr>"
      "weighted_units s' = Inr u'" "adjust_total_up t u u' = Inr t'"
    unfolding sv_migrate_weight_def by (auto simp: result_simps Let_def split: if_splits)
  have "tracks t s t' s'"
    using e(5) by (intro settle_tracks [OF e(1,2,4)]) (auto simp: adjust_total_up_eq)
  with e show ?thesis by (intro that [of s1]) auto
qed

lemma sv_migrate_weight_noop:
  "sv_weight_version s \<noteq> 0 \<Longrightarrow> sv_migrate_weight N t s = Inr (s, t)"
  by (simp add: sv_migrate_weight_def)

lemma sv_claim_spec:
  assumes "sv_claim N amount now t s = Inr (s', got)"
  obtains s1 where "sv_update_rewards N t s = Inr s1" "got = min (sv_rewards s1) amount"
    "s' = s1\<lparr>sv_rewards := sv_rewards s1 - got, sv_last_claim_at := now\<rparr>"
  using assms that unfolding sv_claim_def by (auto simp: result_simps Let_def)

section \<open>The stake as a holder of the reward index\<close>

text \<open>The weight as a real number (zero where the weight computation fails) and the settlement
  of a well-formed stake at a given factor.\<close>

definition sv_wt :: "'n stake_v2 \<Rightarrow> real" where
  "sv_wt s = (case weighted_units s of Inr u \<Rightarrow> real u | Inl _ \<Rightarrow> 0)"

definition treasury_at :: "'n \<Rightarrow> 'n treasury" where
  "treasury_at F = \<lparr>tr_balance = 0, tr_motherlode = 0, tr_miner_rewards_factor = F,
     tr_stake_rewards_factor = F, tr_total_staked = 0, tr_total_unclaimed = 0, tr_total_refined = 0\<rparr>"

lemma treasury_at_factors [simp]:
  "tr_stake_rewards_factor (treasury_at F) = F" "tr_miner_rewards_factor (treasury_at F) = F"
  by (simp_all add: treasury_at_def)

definition sv_settle :: "'n numeric_ops \<Rightarrow> 'n \<Rightarrow> 'n stake_v2 \<Rightarrow> 'n stake_v2 result" where
  "sv_settle N F s = (if sv_wf s then sv_update_rewards N (treasury_at F) s else Inl Panic)"

lemma sv_update_rewards_at: "sv_update_rewards N t s = sv_update_rewards N (treasury_at (tr_stake_rewards_factor t)) s"
  by (simp add: sv_update_rewards_def)

lemma sv_wt_nonneg: "0 \<le> sv_wt s"
  by (simp add: sv_wt_def split: sum.splits)

lemma sv_wt_units: "weighted_units s = Inr u \<Longrightarrow> sv_wt s = real u"
  by (simp add: sv_wt_def)

text \<open>A settlement never credits more than the factor difference times the weight.\<close>

context numeric begin

lemma sv_settle_acc:
  assumes s: "sv_settle N F s = Inr s'"
    and r: "in_range (val F)" "0 \<le> val (sv_rewards_factor s)" "val (sv_rewards_factor s) \<le> val F"
    and b: "(val F - val (sv_rewards_factor s)) * sv_wt s \<le> real u64_max"
  shows "real (sv_rewards s') \<le> real (sv_rewards s) + (val F - val (sv_rewards_factor s)) * sv_wt s"
proof (cases "n_lt N (sv_rewards_factor s) F")
  case True
  have u: "sv_wf s" "sv_update_rewards N (treasury_at F) s = Inr s'"
    using s by (auto simp: sv_settle_def split: if_splits)
  with True obtain u where w: "weighted_units s = Inr u"
    by (auto simp: sv_update_rewards_def result_simps Let_def split: if_splits)
  have ule: "u \<le> u64_max" by (rule weighted_units_le [OF w u(1)])
  have snap: "in_range (val (sv_rewards_factor s))" using r by (simp add: in_range_def)
  have d: "val (n_sub N F (sv_rewards_factor s)) = val F - val (sv_rewards_factor s)"
    by (rule val_sub [OF r(1) snap r(3)])
  have "real (sv_pending N (treasury_at F) s u)
      \<le> val (n_sub N F (sv_rewards_factor s)) * val (n_from_u64 N u)"
    using True r snap ule b unfolding sv_pending_def
    by (simp, intro mul_to_u64 from_u64_range) (auto simp: d in_range_def val_from_u64 sv_wt_units [OF w])
  also have "\<dots> = (val F - val (sv_rewards_factor s)) * sv_wt s"
    using ule by (simp add: d val_from_u64 sv_wt_units [OF w])
  finally show ?thesis
    by (subst sv_update_rewards_effect [OF u(2) w]) simp
next
  case False
  then have "sv_rewards s' = sv_rewards s"
    using s by (auto simp: sv_settle_def sv_update_rewards_def split: if_splits)
  moreover have "0 \<le> (val F - val (sv_rewards_factor s)) * sv_wt s"
    using r by (simp add: sv_wt_nonneg)
  ultimately show ?thesis by simp
qed

end

lemma sv_settle_wt: "sv_settle N F s = Inr s' \<Longrightarrow> sv_wt s' = sv_wt s"
  by (auto simp: sv_settle_def sv_wt_def sv_update_rewards_keeps split: if_splits)

lemma sv_settle_snap: "sv_settle N F s = Inr s' \<Longrightarrow> sv_rewards_factor s' = F"
  by (auto simp: sv_settle_def sv_update_rewards_keeps split: if_splits)

lemma sv_settle_eq:
  "sv_wf s \<Longrightarrow> sv_settle N (tr_stake_rewards_factor t) s = sv_update_rewards N t s"
  by (simp add: sv_settle_def sv_update_rewards_at [of N t])

text \<open>Well-formedness is kept by every operation: all results are checked sums.\<close>

lemma sv_update_rewards_wf:
  assumes "sv_update_rewards N t s = Inr s'" "sv_wf s"
  shows "sv_wf s'"
  using assms unfolding sv_update_rewards_def sv_wf_def
  by (auto simp: result_simps Let_def split: if_splits)

lemma sv_deposit_wf: "sv_deposit N a now t h s = Inr (s', t', g) \<Longrightarrow> sv_wf s \<Longrightarrow> sv_wf s'"
  by (erule sv_deposit_spec) (auto dest!: sv_update_rewards_wf simp: sv_wf_def)

lemma sv_withdraw_wf: "sv_withdraw N a now t s = Inr (s', t', g) \<Longrightarrow> sv_wf s \<Longrightarrow> sv_wf s'"
  by (erule sv_withdraw_spec) (auto dest!: sv_update_rewards_wf simp: sv_wf_def)

lemma sv_stake_nft_wf: "sv_stake_nft N t s = Inr (s', t') \<Longrightarrow> sv_wf s \<Longrightarrow> sv_wf s'"
  by (erule sv_stake_nft_spec) (auto dest!: sv_update_rewards_wf simp: sv_wf_def)

lemma sv_unstake_nft_wf: "sv_unstake_nft N t s = Inr (s', t') \<Longrightarrow> sv_wf s \<Longrightarrow> sv_wf s'"
  by (erule sv_unstake_nft_spec) (auto dest!: sv_update_rewards_wf simp: sv_wf_def)

lemma sv_claim_wf: "sv_claim N a now t s = Inr (s', g) \<Longrightarrow> sv_wf s \<Longrightarrow> sv_wf s'"
  by (erule sv_claim_spec) (auto dest!: sv_update_rewards_wf simp: sv_wf_def)

lemma sv_migrate_weight_wf: "sv_migrate_weight N t s = Inr (s', t') \<Longrightarrow> sv_wf s \<Longrightarrow> sv_wf s'"
  by (cases "sv_weight_version s = 0")
    (auto elim!: sv_migrate_weight_spec dest!: sv_update_rewards_wf simp: sv_wf_def sv_migrate_weight_noop)

section \<open>Parts of the handlers that work on stakes alone\<close>

text \<open>The fields \<open>process_deposit_v2\<close> writes into a freshly created account.\<close>

definition new_stake_v2 :: "u64 \<Rightarrow> pubkey \<Rightarrow> pubkey \<Rightarrow> i64 \<Rightarrow> i64 \<Rightarrow> 'n treasury \<Rightarrow> 'n stake_v2" where
  "new_stake_v2 sid authority executor lock_duration now t =
     \<lparr>sv_id = sid, sv_authority = authority, sv_balance = 0, sv_last_claim_at = 0,
       sv_last_deposit_at = 0, sv_last_withdraw_at = 0,
       sv_rewards_factor = tr_stake_rewards_factor t, sv_rewards = 0, sv_lifetime_rewards = 0,
       sv_multiplier = stake_multiplier lock_duration, sv_lock_duration = lock_duration, sv_executor = executor,
       sv_created_at = now, sv_is_nft_staked = 0, sv_weight_version = 1,
       sv_buffer = zero_bytes 30\<rparr>"

text \<open>The body of \<open>process_merge_stake_v2\<close> between its checks and its token transfers: migrate
  and settle both, fold the source into the target on fresh lock terms, move the total.\<close>

definition merge_stakes :: "'n numeric_ops \<Rightarrow> i64 \<Rightarrow> 'n treasury \<Rightarrow> 'n stake_v2 \<Rightarrow> 'n stake_v2
    \<Rightarrow> ('n stake_v2 \<times> 'n stake_v2 \<times> 'n treasury) result" where
  "merge_stakes N now t target source =
     and_then (sv_migrate_weight N t target) (\<lambda>(target, t).
     and_then (sv_migrate_weight N t source) (\<lambda>(source, t).
     and_then (sv_update_rewards N t target) (\<lambda>target.
     and_then (sv_update_rewards N t source) (\<lambda>source.
     and_then (weighted_units target) (\<lambda>tu.
     and_then (weighted_units source) (\<lambda>su.
     and_then (ok_or (checked_add tu su) (Godl StakeOverflow)) (\<lambda>prev_units.
     and_then (ok_or (checked_add (sv_balance target) (sv_balance source)) (Godl StakeOverflow)) (\<lambda>bal.
     and_then (ok_or (checked_add (sv_rewards target) (sv_rewards source)) (Godl StakeOverflow)) (\<lambda>rew.
     and_then (ok_or (checked_add (sv_lifetime_rewards target) (sv_lifetime_rewards source)) (Godl StakeOverflow)) (\<lambda>life.
     let lock = max (sv_lock_duration target) (sv_lock_duration source) in
     let target = target\<lparr>sv_balance := bal, sv_rewards := rew, sv_lifetime_rewards := life,
           sv_lock_duration := lock, sv_created_at := now,
           sv_multiplier := stake_multiplier lock, sv_last_deposit_at := now\<rparr>;
         source = source\<lparr>sv_balance := 0, sv_rewards := 0\<rparr> in
     and_then (weighted_units target) (\<lambda>new_units.
     and_then (adjust_total_up t prev_units new_units) (\<lambda>t.
     Inr (target, source, t)))))))))))))"

section \<open>Opening and merging keep the ledger\<close>

lemma new_stake_v2_units: "weighted_units (new_stake_v2 i a e l now t) = Inr 0"
proof -
  have "stake_multiplier l \<le> u64_max"
    by (rule order.trans [OF stake_multiplier_bounds(2)]) (simp add: stake_consts)
  then show ?thesis by (intro weighted_units_zero) (simp_all add: new_stake_v2_def)
qed

lemma new_stake_v2_wf: "sv_wf (new_stake_v2 i a e l now t)"
proof -
  have "stake_multiplier l \<le> u64_max"
    by (rule order.trans [OF stake_multiplier_bounds(2)]) (simp add: stake_consts)
  then show ?thesis by (simp add: new_stake_v2_def sv_wf_def)
qed

lemma sv_migrate_weight_tracks:
  assumes "sv_migrate_weight N t s = Inr (s', t')" "weighted_units s = Inr u"
  shows "tracks t s t' s'"
  using assms sv_migrate_weight_spec [OF assms(1)]
  by (cases "sv_weight_version s = 0") (auto simp: sv_migrate_weight_noop tracks_def)

lemma sv_migrate_weight_keeps:
  assumes "sv_migrate_weight N t s = Inr (s', t')"
  shows "sv_balance s' = sv_balance s" "sv_created_at s' = sv_created_at s"
    "sv_lock_duration s' = sv_lock_duration s" "sv_authority s' = sv_authority s"
proof -
  have "sv_balance s' = sv_balance s \<and> sv_created_at s' = sv_created_at s \<and>
      sv_lock_duration s' = sv_lock_duration s \<and> sv_authority s' = sv_authority s"
  proof (cases "sv_weight_version s = 0")
    case True
    then obtain s1 where "sv_update_rewards N t s = Inr s1" "s' = s1\<lparr>sv_weight_version := 1\<rparr>"
      using sv_migrate_weight_spec [OF assms] by metis
    then show ?thesis by (simp add: sv_update_rewards_keeps)
  next
    case False
    then show ?thesis using assms by (simp add: sv_migrate_weight_noop)
  qed
  then show "sv_balance s' = sv_balance s" "sv_created_at s' = sv_created_at s"
    "sv_lock_duration s' = sv_lock_duration s" "sv_authority s' = sv_authority s" by auto
qed

text \<open>Migrating and then settling is one settlement at the old weight, with the version raised.\<close>

context numeric begin

lemma not_lt_self: "\<not> n_lt N F F"
  by (simp add: val_lt)

lemma migrate_settle:
  assumes m: "sv_migrate_weight N t s = Inr (s1, t1)" and u: "sv_update_rewards N t2 s1 = Inr s2"
    and f: "tr_stake_rewards_factor t2 = tr_stake_rewards_factor t"
  obtains s0 where "sv_update_rewards N t s = Inr s0"
    "s2 = s0\<lparr>sv_weight_version := (if sv_weight_version s = 0 then 1 else sv_weight_version s)\<rparr>"
proof (cases "sv_weight_version s = 0")
  case True
  then obtain s0 where s0: "sv_update_rewards N t s = Inr s0" "s1 = s0\<lparr>sv_weight_version := 1\<rparr>"
    using sv_migrate_weight_spec [OF m] by metis
  have "sv_update_rewards N t2 s1 = Inr s1"
    by (rule sv_update_rewards_settled)
      (simp_all add: s0(2) f not_lt_self sv_update_rewards_keeps [OF s0(1)])
  with u s0 True show ?thesis by (intro that [of s0]) auto
next
  case False
  then have "s1 = s" using m by (simp add: sv_migrate_weight_noop)
  then have u': "sv_update_rewards N t s = Inr s2"
    using u f by (simp add: sv_update_rewards_at [of N t2] sv_update_rewards_at [of N t])
  have "sv_weight_version s2 = sv_weight_version s" by (rule sv_update_rewards_keeps [OF u'])
  with False have "s2 = s2\<lparr>sv_weight_version := (if sv_weight_version s = 0 then 1 else sv_weight_version s)\<rparr>"
    by (cases s2) simp
  with u' show ?thesis by (rule that)
qed

end

lemma merge_stakes_total:
  assumes "merge_stakes N now t tg src = Inr (tg', src', t')"
    and "weighted_units tg = Inr u1" "weighted_units src = Inr u2" "sv_wf src"
  obtains u' where "weighted_units tg' = Inr u'" "weighted_units src' = Inr 0"
    "tr_total_staked t' + (u1 + u2) = tr_total_staked t + u'"
    "t' = t\<lparr>tr_total_staked := tr_total_staked t'\<rparr>"
proof -
  from assms(1) obtain tg1 t1 src1 t2 tg2 src2 tu su u' where e:
      "sv_migrate_weight N t tg = Inr (tg1, t1)" "sv_migrate_weight N t1 src = Inr (src1, t2)"
      "sv_update_rewards N t2 tg1 = Inr tg2" "sv_update_rewards N t2 src1 = Inr src2"
      "weighted_units tg2 = Inr tu" "weighted_units src2 = Inr su"
      "src' = src2\<lparr>sv_balance := 0, sv_rewards := 0\<rparr>"
      "weighted_units tg' = Inr u'" "adjust_total_up t2 (tu + su) u' = Inr t'"
    unfolding merge_stakes_def by (auto simp: result_simps Let_def)
  have k1: "tracks t tg t1 tg1" by (rule sv_migrate_weight_tracks [OF e(1) assms(2)])
  have k2: "tracks t1 src t2 src1" by (rule sv_migrate_weight_tracks [OF e(2) assms(3)])
  have w: "weighted_units tg1 = Inr tu" "weighted_units src1 = Inr su"
    using e(5,6) sv_update_rewards_keeps(1) [OF e(3)] sv_update_rewards_keeps(1) [OF e(4)] by auto
  have tot: "tr_total_staked t1 + u1 = tr_total_staked t + tu"
      "tr_total_staked t2 + u2 = tr_total_staked t1 + su"
    using k1 k2 w assms(2,3) by (auto simp: tracks_def)
  have "sv_wf src2"
    by (rule sv_update_rewards_wf [OF e(4) sv_migrate_weight_wf [OF e(2) assms(4)]])
  then have "weighted_units src' = Inr 0"
    by (intro weighted_units_zero) (auto simp: e(7) sv_wf_def)
  moreover have t': "tu + su \<le> tr_total_staked t2 + u'"
      "t' = t2\<lparr>tr_total_staked := tr_total_staked t2 + u' - (tu + su)\<rparr>"
    using e(9) by (auto simp: adjust_total_up_eq)
  moreover have "t2 = t\<lparr>tr_total_staked := tr_total_staked t2\<rparr>"
    using tracks_treasury [OF k1] tracks_treasury [OF k2] by (cases t; cases t1; cases t2) simp
  ultimately show ?thesis using e(8) tot
    by (intro that [of u']) (auto, metis treasury.update_convs(5) treasury.surjective)
qed

text \<open>\<open>created_at.saturating_add(lock_duration.max(0))\<close>, the time \<open>process_withdraw_v2\<close> unlocks
  at.\<close>

definition unlock_at :: "'n stake_v2 \<Rightarrow> i64" where
  "unlock_at s = saturating_add_i64 (sv_created_at s) (max (sv_lock_duration s) 0)"

end
