(* ===== verification/StakeV1.thy ===== *)
theory StakeV1
  imports StakeV2
begin

text \<open>
  The methods of the first staking version, \<open>Stake\<close> (\<open>src/api/src/state/stake.rs\<close>): the weight
  is the balance, sums abort on overflow. Deposits are closed at the instruction level
  (\<open>process_deposit\<close>), withdrawals and claims stay open.
\<close>

definition st_update_rewards :: "'n numeric_ops \<Rightarrow> 'n treasury \<Rightarrow> 'n stake \<Rightarrow> 'n stake result" where
  "st_update_rewards N t s =
     and_then
       (if n_lt N (st_rewards_factor s) (tr_stake_rewards_factor t) then
          let accumulated = n_sub N (tr_stake_rewards_factor t) (st_rewards_factor s) in
          if n_lt N accumulated (n_zero N) then Inl Panic
          else
            let personal = n_mul N accumulated (n_from_u64 N (st_balance s)) in
            and_then (add64 (st_rewards s) (n_to_u64 N personal)) (\<lambda>r.
            and_then (add64 (st_lifetime_rewards s) (n_to_u64 N personal)) (\<lambda>l.
            Inr (s\<lparr>st_rewards := r, st_lifetime_rewards := l\<rparr>)))
        else Inr s)
       (\<lambda>s. Inr (s\<lparr>st_rewards_factor := tr_stake_rewards_factor t\<rparr>))"

definition st_claim :: "'n numeric_ops \<Rightarrow> u64 \<Rightarrow> i64 \<Rightarrow> 'n treasury \<Rightarrow> 'n stake \<Rightarrow> ('n stake \<times> u64) result" where
  "st_claim N amount now t s =
     and_then (st_update_rewards N t s) (\<lambda>s.
     let amount = min (st_rewards s) amount in
     Inr (s\<lparr>st_rewards := st_rewards s - amount, st_last_claim_at := now\<rparr>, amount))"

definition st_deposit :: "'n numeric_ops \<Rightarrow> u64 \<Rightarrow> i64 \<Rightarrow> 'n treasury \<Rightarrow> u64 \<Rightarrow> 'n stake \<Rightarrow> ('n stake \<times> 'n treasury \<times> u64) result" where
  "st_deposit N amount now t sender_amount s =
     and_then (st_update_rewards N t s) (\<lambda>s.
     let amount = min sender_amount amount in
     and_then (add64 (st_balance s) amount) (\<lambda>b.
     let s = s\<lparr>st_balance := b, st_last_deposit_at := now\<rparr> in
     and_then (add64 (tr_total_staked t) amount) (\<lambda>v.
     Inr (s, t\<lparr>tr_total_staked := v\<rparr>, amount))))"

definition st_withdraw :: "'n numeric_ops \<Rightarrow> u64 \<Rightarrow> i64 \<Rightarrow> 'n treasury \<Rightarrow> 'n stake \<Rightarrow> ('n stake \<times> 'n treasury \<times> u64) result" where
  "st_withdraw N amount now t s =
     and_then (st_update_rewards N t s) (\<lambda>s.
     let amount = min (st_balance s) amount;
         s = s\<lparr>st_balance := st_balance s - amount, st_last_withdraw_at := now\<rparr> in
     and_then (sub64 (tr_total_staked t) amount) (\<lambda>v.
     Inr (s, t\<lparr>tr_total_staked := v\<rparr>, amount)))"

text \<open>A version-1 stake is worth exactly a version-2 stake of multiplier 1x on either curve.\<close>

definition st_as_v2 :: "'n stake \<Rightarrow> nat \<Rightarrow> 'n stake_v2" where
  "st_as_v2 s version =
     \<lparr>sv_id = 0, sv_authority = st_authority s, sv_balance = st_balance s,
       sv_last_claim_at = st_last_claim_at s, sv_last_deposit_at = st_last_deposit_at s,
       sv_last_withdraw_at = st_last_withdraw_at s, sv_rewards_factor = st_rewards_factor s,
       sv_rewards = st_rewards s, sv_lifetime_rewards = st_lifetime_rewards s,
       sv_multiplier = STAKE_MULTIPLIER_SCALE, sv_lock_duration = 0, sv_executor = 0,
       sv_created_at = 0, sv_is_nft_staked = 0, sv_weight_version = version, sv_buffer = []\<rparr>"

section \<open>Frame and effect\<close>

definition st_wf :: "'n stake \<Rightarrow> bool" where
  "st_wf s \<longleftrightarrow> st_balance s \<le> u64_max \<and> st_rewards s \<le> u64_max \<and> st_lifetime_rewards s \<le> u64_max"

definition st_pending :: "'n numeric_ops \<Rightarrow> 'n treasury \<Rightarrow> 'n stake \<Rightarrow> u64" where
  "st_pending N t s =
     (if n_lt N (st_rewards_factor s) (tr_stake_rewards_factor t)
      then n_to_u64 N (n_mul N (n_sub N (tr_stake_rewards_factor t) (st_rewards_factor s))
             (n_from_u64 N (st_balance s)))
      else 0)"

lemma st_update_rewards_effect:
  assumes "st_update_rewards N t s = Inr s'"
  shows "s' = s\<lparr>st_rewards := st_rewards s + st_pending N t s,
    st_lifetime_rewards := st_lifetime_rewards s + st_pending N t s,
    st_rewards_factor := tr_stake_rewards_factor t\<rparr>"
  using assms unfolding st_update_rewards_def st_pending_def
  by (cases s) (auto simp: result_simps Let_def split: if_splits)

lemma st_update_rewards_keeps:
  assumes "st_update_rewards N t s = Inr s'"
  shows "st_balance s' = st_balance s" "st_authority s' = st_authority s"
    "st_rewards_factor s' = tr_stake_rewards_factor t"
  by (subst st_update_rewards_effect [OF assms], simp)+

lemma st_update_rewards_wf:
  assumes "st_update_rewards N t s = Inr s'" "st_wf s"
  shows "st_wf s'"
  using assms unfolding st_update_rewards_def st_wf_def
  by (auto simp: result_simps Let_def split: if_splits)

lemma st_update_rewards_at:
  "st_update_rewards N t s = st_update_rewards N (treasury_at (tr_stake_rewards_factor t)) s"
  by (simp add: st_update_rewards_def)

lemma st_claim_spec:
  assumes "st_claim N amount now t s = Inr (s', got)"
  obtains s1 where "st_update_rewards N t s = Inr s1" "got = min (st_rewards s1) amount"
    "s' = s1\<lparr>st_rewards := st_rewards s1 - got, st_last_claim_at := now\<rparr>"
  using assms that unfolding st_claim_def by (auto simp: result_simps Let_def)

lemma st_deposit_spec:
  assumes "st_deposit N amount now t have_amount s = Inr (s', t', got)"
  obtains s1 where "st_update_rewards N t s = Inr s1" "got = min have_amount amount"
    "s' = s1\<lparr>st_balance := st_balance s + got, st_last_deposit_at := now\<rparr>"
    "st_balance s + got \<le> u64_max" "t' = t\<lparr>tr_total_staked := tr_total_staked t + got\<rparr>"
proof -
  from assms obtain s1 where e: "st_update_rewards N t s = Inr s1" "got = min have_amount amount"
      "s' = s1\<lparr>st_balance := st_balance s1 + got, st_last_deposit_at := now\<rparr>"
      "st_balance s1 + got \<le> u64_max" "t' = t\<lparr>tr_total_staked := tr_total_staked t + got\<rparr>"
    unfolding st_deposit_def by (auto simp: result_simps Let_def)
  then show ?thesis using that st_update_rewards_keeps(1) [OF e(1)] by auto
qed

lemma st_withdraw_spec:
  assumes "st_withdraw N amount now t s = Inr (s', t', got)"
  obtains s1 where "st_update_rewards N t s = Inr s1" "got = min (st_balance s) amount"
    "s' = s1\<lparr>st_balance := st_balance s - got, st_last_withdraw_at := now\<rparr>"
    "got \<le> tr_total_staked t" "t' = t\<lparr>tr_total_staked := tr_total_staked t - got\<rparr>"
proof -
  from assms obtain s1 where e: "st_update_rewards N t s = Inr s1" "got = min (st_balance s1) amount"
      "s' = s1\<lparr>st_balance := st_balance s1 - got, st_last_withdraw_at := now\<rparr>"
      "got \<le> tr_total_staked t" "t' = t\<lparr>tr_total_staked := tr_total_staked t - got\<rparr>"
    unfolding st_withdraw_def by (auto simp: result_simps Let_def)
  then show ?thesis using that st_update_rewards_keeps(1) [OF e(1)] by auto
qed

lemma st_as_v2_units:
  assumes "st_balance s \<le> u64_max"
  shows "weighted_units (st_as_v2 s version) = Inr (st_balance s)"
proof -
  have fix1: "effective_multiplier STAKE_MULTIPLIER_SCALE = Inr STAKE_MULTIPLIER_SCALE"
  proof -
    have "STAKE_MULTIPLIER_SCALE \<le> u64_max" by (simp add: stake_consts)
    then obtain e where e: "effective_multiplier STAKE_MULTIPLIER_SCALE = Inr e"
        "floor_sqrt_of (STAKE_MULTIPLIER_SCALE * STAKE_MULTIPLIER_SCALE) e"
      using effective_multiplier_correct by blast
    have "floor_sqrt_of (STAKE_MULTIPLIER_SCALE * STAKE_MULTIPLIER_SCALE) STAKE_MULTIPLIER_SCALE"
      by (simp add: floor_sqrt_of_def stake_consts)
    with e show ?thesis using floor_sqrt_unique by metis
  qed
  then have "sv_effective_multiplier (st_as_v2 s version) = Inr STAKE_MULTIPLIER_SCALE"
    by (simp add: sv_effective_multiplier_def st_as_v2_def)
  from weighted_units_ref [OF this] show ?thesis using assms
    by (simp add: st_as_v2_def units_ref_def boost_def stake_consts)
qed

section \<open>The stake as a holder of the reward index\<close>

definition st_wt :: "'n stake \<Rightarrow> real" where
  "st_wt s = real (st_balance s)"

definition st_settle :: "'n numeric_ops \<Rightarrow> 'n \<Rightarrow> 'n stake \<Rightarrow> 'n stake result" where
  "st_settle N F s = (if st_wf s then st_update_rewards N (treasury_at F) s else Inl Panic)"

lemma st_settle_eq:
  "st_wf s \<Longrightarrow> st_settle N (tr_stake_rewards_factor t) s = st_update_rewards N t s"
  by (simp add: st_settle_def st_update_rewards_at [of N t])

context numeric begin

lemma st_settle_acc:
  assumes s: "st_settle N F s = Inr s'"
    and r: "in_range (val F)" "0 \<le> val (st_rewards_factor s)" "val (st_rewards_factor s) \<le> val F"
    and b: "(val F - val (st_rewards_factor s)) * st_wt s \<le> real u64_max"
  shows "real (st_rewards s') \<le> real (st_rewards s) + (val F - val (st_rewards_factor s)) * st_wt s"
proof -
  have u: "st_wf s" "st_update_rewards N (treasury_at F) s = Inr s'"
    using s by (auto simp: st_settle_def split: if_splits)
  have snap: "in_range (val (st_rewards_factor s))" using r by (simp add: in_range_def)
  have d: "val (n_sub N F (st_rewards_factor s)) = val F - val (st_rewards_factor s)"
    by (rule val_sub [OF r(1) snap r(3)])
  have ule: "st_balance s \<le> u64_max" using u(1) by (simp add: st_wf_def)
  have "real (st_pending N (treasury_at F) s) \<le> (val F - val (st_rewards_factor s)) * st_wt s"
  proof (cases "n_lt N (st_rewards_factor s) F")
    case True
    have "real (st_pending N (treasury_at F) s)
        \<le> val (n_sub N F (st_rewards_factor s)) * val (n_from_u64 N (st_balance s))"
      using True r snap ule b unfolding st_pending_def
      by (simp, intro mul_to_u64 from_u64_range) (auto simp: d in_range_def val_from_u64 st_wt_def)
    then show ?thesis using ule by (simp add: d val_from_u64 st_wt_def)
  next
    case False
    then show ?thesis using r by (simp add: st_pending_def st_wt_def)
  qed
  then show ?thesis
    by (subst st_update_rewards_effect [OF u(2)]) simp
qed

end

end
