(* ===== verification/StakeV2Handlers.thy ===== *)
theory StakeV2Handlers
  imports StakeV1 Host
begin

text \<open>
  The instruction handlers of \<open>src/program/src/stake_v2\<close> and \<open>src/program/src/stake\<close>. A handler
  takes the host, the account list, its decoded arguments and the world, and returns the new world
  or the error. Account contents that a handler mutates are written back before the next call
  to another program. Log messages are not modelled.
\<close>

section \<open>Opening and topping up\<close>

definition process_deposit_v2 :: "'n host \<Rightarrow> account_info list \<Rightarrow> u64 \<Rightarrow> u64 \<Rightarrow> i64 \<Rightarrow> 'n world \<Rightarrow> 'n world result" where
  "process_deposit_v2 H accounts sid amount lock_duration w =
     (case accounts of [signer_info, mint_info, sender_info, stake_info, stake_tokens_info, treasury_info,
         executor_info, system_program, token_program, associated_token_program] \<Rightarrow>
       let now = w_unix_timestamp w;
           seeds = [STAKE_V2, SKey (ai_key signer_info), SNum sid] in
       and_then (checks H w [(signer_info, IsSigner), (mint_info, HasAddress MINT_ADDRESS), (mint_info, AsMint),
         (sender_info, IsWritable)]) (\<lambda>_.
       and_then (as_associated_token_account (ai_key signer_info) MINT_ADDRESS H sender_info w) (\<lambda>sender.
       and_then (checks H w [(stake_info, IsWritable)]) (\<lambda>_.
       and_then (as_treasury_mut H treasury_info w) (\<lambda>treasury.
       and_then (checks H w (token_programs system_program token_program associated_token_program)) (\<lambda>_.
       and_then (guard (\<not> (lock_duration < 0 \<or> lock_duration > MAX_LOCK_DURATION)) (Godl InvalidLockDuration)) (\<lambda>_.
       and_then (guard (amount \<noteq> 0) (Godl AmountTooSmall)) (\<lambda>_.
       and_then (guard (data_is_empty stake_info w) (Godl StakeAlreadyExists)) (\<lambda>_.
       and_then (checks H w [(stake_info, HasSeeds seeds)]) (\<lambda>_.
       and_then (create_program_account H KStakeV2 stake_info system_program signer_info seeds w) (\<lambda>w.
       and_then (as_stake_v2_mut H stake_info w) (\<lambda>_.
       let stake = new_stake_v2 sid (ai_key signer_info) (ai_key executor_info) lock_duration now treasury in
       and_then (sv_update_rewards (h_num H) treasury stake) (\<lambda>stake.
       let w = put stake_info (AStakeV2 stake) w in
       and_then (open_token_account H signer_info stake_info stake_tokens_info mint_info w) (\<lambda>w.
       and_then (sv_deposit (h_num H) amount now treasury (tk_amount sender) stake) (\<lambda>(stake, treasury, deposited).
       and_then (guard (deposited = amount) (Godl AmountTooSmall)) (\<lambda>_.
       let w = put treasury_info (ATreasury treasury) (put stake_info (AStakeV2 stake) w) in
       and_then (transfer H signer_info sender_info stake_tokens_info deposited w) (\<lambda>w.
       and_then (as_associated_token_account (ai_key stake_info) (ai_key mint_info) H stake_tokens_info w) (\<lambda>stake_tokens.
       and_then (assert_panic (tk_amount stake_tokens \<ge> sv_balance stake)) (\<lambda>_.
       Inr w))))))))))))))))))
     | _ \<Rightarrow> Inl NotEnoughAccountKeys)"

definition process_top_up_stake_v2 :: "'n host \<Rightarrow> account_info list \<Rightarrow> u64 \<Rightarrow> u64 \<Rightarrow> 'n world \<Rightarrow> 'n world result" where
  "process_top_up_stake_v2 H accounts sid amount w =
     (case accounts of [signer_info, mint_info, sender_info, stake_info, stake_tokens_info, treasury_info,
         system_program, token_program, associated_token_program] \<Rightarrow>
       let now = w_unix_timestamp w;
           seeds = [STAKE_V2, SKey (ai_key signer_info), SNum sid] in
       and_then (checks H w [(signer_info, IsSigner), (mint_info, HasAddress MINT_ADDRESS), (mint_info, AsMint),
         (sender_info, IsWritable)]) (\<lambda>_.
       and_then (as_associated_token_account (ai_key signer_info) MINT_ADDRESS H sender_info w) (\<lambda>sender.
       and_then (checks H w [(stake_info, IsWritable), (stake_info, HasSeeds seeds)]) (\<lambda>_.
       and_then (guard (\<not> data_is_empty stake_info w) UninitializedAccount) (\<lambda>_.
       and_then (as_stake_v2_mut H stake_info w) (\<lambda>stake.
       and_then (ensure H (sv_authority stake = ai_key signer_info)) (\<lambda>_.
       and_then (ensure H (sv_id stake = sid)) (\<lambda>_.
       and_then (as_treasury_mut H treasury_info w) (\<lambda>treasury.
       and_then (checks H w (token_programs system_program token_program associated_token_program)) (\<lambda>_.
       and_then (guard (amount \<noteq> 0) (Godl AmountTooSmall)) (\<lambda>_.
       and_then (sv_migrate_weight (h_num H) treasury stake) (\<lambda>(stake, treasury).
       and_then (as_associated_token_account (ai_key stake_info) (ai_key mint_info) H stake_tokens_info w) (\<lambda>_.
       and_then (sv_deposit (h_num H) amount now treasury (tk_amount sender) stake) (\<lambda>(stake, treasury, deposited).
       and_then (guard (deposited = amount) (Godl AmountTooSmall)) (\<lambda>_.
       let stake = stake\<lparr>sv_created_at := now\<rparr>;
           w = put treasury_info (ATreasury treasury) (put stake_info (AStakeV2 stake) w) in
       and_then (transfer H signer_info sender_info stake_tokens_info deposited w) (\<lambda>w.
       and_then (as_associated_token_account (ai_key stake_info) (ai_key mint_info) H stake_tokens_info w) (\<lambda>stake_tokens.
       and_then (guard (\<not> tk_amount stake_tokens < sv_balance stake) InvalidAccountData) (\<lambda>_.
       Inr w)))))))))))))))))
     | _ \<Rightarrow> Inl NotEnoughAccountKeys)"

section \<open>Withdrawing, claiming, compounding\<close>

definition process_withdraw_v2 :: "'n host \<Rightarrow> account_info list \<Rightarrow> u64 \<Rightarrow> u64 \<Rightarrow> 'n world \<Rightarrow> 'n world result" where
  "process_withdraw_v2 H accounts sid amount w =
     (case accounts of [signer_info, mint_info, recipient_info, stake_info, stake_tokens_info, treasury_info,
         system_program, token_program, associated_token_program] \<Rightarrow>
       let now = w_unix_timestamp w;
           seeds = [STAKE_V2, SKey (ai_key signer_info), SNum sid] in
       and_then (checks H w [(signer_info, IsSigner), (mint_info, HasAddress MINT_ADDRESS), (mint_info, AsMint),
         (recipient_info, IsWritable), (stake_info, HasSeeds seeds)]) (\<lambda>_.
       and_then (as_stake_v2_mut H stake_info w) (\<lambda>stake.
       and_then (ensure H (sv_authority stake = ai_key signer_info)) (\<lambda>_.
       and_then (ensure H (sv_id stake = sid)) (\<lambda>_.
       and_then (as_associated_token_account (ai_key stake_info) (ai_key mint_info) H stake_tokens_info w) (\<lambda>_.
       and_then (as_treasury_mut H treasury_info w) (\<lambda>treasury.
       and_then (checks H w (token_programs system_program token_program associated_token_program)) (\<lambda>_.
       and_then (sv_migrate_weight (h_num H) treasury stake) (\<lambda>(stake, treasury).
       and_then (guard (\<not> now < unlock_at stake) (Godl StakeLocked)) (\<lambda>_.
       and_then (guard (amount \<noteq> 0) (Godl AmountTooSmall)) (\<lambda>_.
       let w = put treasury_info (ATreasury treasury) (put stake_info (AStakeV2 stake) w) in
       and_then (open_token_account H signer_info signer_info recipient_info mint_info w) (\<lambda>w.
       and_then (sv_withdraw (h_num H) amount now treasury stake) (\<lambda>(stake, treasury, amount).
       let w = put treasury_info (ATreasury treasury) (put stake_info (AStakeV2 stake) w) in
       and_then (transfer_signed H stake_info stake_tokens_info recipient_info amount seeds w) (\<lambda>w.
       and_then (as_associated_token_account (ai_key stake_info) (ai_key mint_info) H stake_tokens_info w) (\<lambda>stake_tokens.
       and_then (assert_panic (tk_amount stake_tokens \<ge> sv_balance stake)) (\<lambda>_.
       Inr w)))))))))))))))
     | _ \<Rightarrow> Inl NotEnoughAccountKeys)"

definition process_claim_yield_v2 :: "'n host \<Rightarrow> account_info list \<Rightarrow> u64 \<Rightarrow> u64 \<Rightarrow> 'n world \<Rightarrow> 'n world result" where
  "process_claim_yield_v2 H accounts sid amount w =
     (case accounts of [signer_info, mint_info, recipient_info, stake_info, treasury_info, treasury_tokens_info,
         system_program, token_program, associated_token_program] \<Rightarrow>
       let now = w_unix_timestamp w in
       and_then (checks H w [(signer_info, IsSigner), (mint_info, HasAddress MINT_ADDRESS), (mint_info, AsMint),
         (recipient_info, IsWritable),
         (stake_info, HasSeeds [STAKE_V2, SKey (ai_key signer_info), SNum sid])]) (\<lambda>_.
       and_then (as_stake_v2_mut H stake_info w) (\<lambda>stake.
       and_then (ensure H (sv_authority stake = ai_key signer_info)) (\<lambda>_.
       and_then (ensure H (sv_id stake = sid)) (\<lambda>_.
       and_then (as_treasury_mut H treasury_info w) (\<lambda>treasury.
       and_then (checks H w [(treasury_tokens_info, IsWritable)]) (\<lambda>_.
       and_then (as_associated_token_account (ai_key treasury_info) (ai_key mint_info) H treasury_tokens_info w) (\<lambda>_.
       and_then (checks H w (token_programs system_program token_program associated_token_program)) (\<lambda>_.
       and_then (open_token_account H signer_info signer_info recipient_info mint_info w) (\<lambda>w.
       and_then (sv_claim (h_num H) amount now treasury stake) (\<lambda>(stake, amount).
       let w = put stake_info (AStakeV2 stake) w in
       transfer_signed H treasury_info treasury_tokens_info recipient_info amount [TREASURY] w))))))))))
     | _ \<Rightarrow> Inl NotEnoughAccountKeys)"

definition process_compound_yield_v2 :: "'n host \<Rightarrow> account_info list \<Rightarrow> u64 \<Rightarrow> 'n world \<Rightarrow> 'n world result" where
  "process_compound_yield_v2 H accounts sid w =
     (case accounts of [signer_info, mint_info, stake_info, stake_tokens_info, treasury_info, treasury_tokens_info,
         system_program, token_program, associated_token_program] \<Rightarrow>
       let now = w_unix_timestamp w in
       and_then (checks H w [(signer_info, IsSigner), (stake_info, IsWritable), (stake_tokens_info, IsWritable),
         (treasury_tokens_info, IsWritable), (mint_info, HasAddress MINT_ADDRESS), (mint_info, IsWritable),
         (mint_info, AsMint), (treasury_info, IsWritable), (treasury_info, HasSeeds [TREASURY])]) (\<lambda>_.
       and_then (as_treasury_mut H treasury_info w) (\<lambda>treasury.
       and_then (checks H w (token_programs system_program token_program associated_token_program)) (\<lambda>_.
       and_then (as_stake_v2_mut H stake_info w) (\<lambda>stake.
       and_then (ensure H (sv_id stake = sid)) (\<lambda>_.
       and_then (guard (\<not> (sv_authority stake \<noteq> ai_key signer_info \<and> sv_executor stake \<noteq> ai_key signer_info))
         (Godl NotAuthorized)) (\<lambda>_.
       and_then (checks H w [(stake_info, HasSeeds [STAKE_V2, SKey (sv_authority stake), SNum sid])]) (\<lambda>_.
       and_then (as_associated_token_account (ai_key stake_info) (ai_key mint_info) H stake_tokens_info w) (\<lambda>_.
       and_then (checks H w [(treasury_tokens_info, IsWritable)]) (\<lambda>_.
       and_then (as_associated_token_account (ai_key treasury_info) (ai_key mint_info) H treasury_tokens_info w) (\<lambda>_.
       and_then (sv_migrate_weight (h_num H) treasury stake) (\<lambda>(stake, treasury).
       and_then (sv_claim (h_num H) u64_max now treasury stake) (\<lambda>(stake, compounded).
       and_then (guard (compounded \<noteq> 0) (Godl AmountTooSmall)) (\<lambda>_.
       let fee = compounded div 100;
           w = put treasury_info (ATreasury treasury) (put stake_info (AStakeV2 stake) w) in
       and_then (if fee > 0 then burn_signed H treasury_tokens_info mint_info treasury_info fee [TREASURY] w
                 else Inr w) (\<lambda>w.
       let amount = compounded - fee in
       and_then (transfer_signed H treasury_info treasury_tokens_info stake_tokens_info amount [TREASURY] w) (\<lambda>w.
       and_then (as_associated_token_account (ai_key stake_info) (ai_key mint_info) H stake_tokens_info w) (\<lambda>stake_tokens.
       and_then (sv_deposit (h_num H) amount now treasury (tk_amount stake_tokens) stake) (\<lambda>(stake, treasury, deposited).
       let w = put treasury_info (ATreasury treasury) (put stake_info (AStakeV2 stake) w) in
       and_then (as_associated_token_account (ai_key stake_info) (ai_key mint_info) H stake_tokens_info w) (\<lambda>stake_tokens.
       and_then (guard (\<not> tk_amount stake_tokens < sv_balance stake) InvalidAccountData) (\<lambda>_.
       Inr w)))))))))))))))))))
     | _ \<Rightarrow> Inl NotEnoughAccountKeys)"

definition process_set_stake_executor_v2 :: "'n host \<Rightarrow> account_info list \<Rightarrow> u64 \<Rightarrow> pubkey \<Rightarrow> 'n world \<Rightarrow> 'n world result" where
  "process_set_stake_executor_v2 H accounts sid executor w =
     (case accounts of [signer_info, stake_info] \<Rightarrow>
       and_then (checks H w [(signer_info, IsSigner), (stake_info, IsWritable)]) (\<lambda>_.
       and_then (as_stake_v2_mut H stake_info w) (\<lambda>stake.
       and_then (ensure H (sv_id stake = sid)) (\<lambda>_.
       and_then (ensure H (sv_authority stake = ai_key signer_info)) (\<lambda>_.
       Inr (put stake_info (AStakeV2 (stake\<lparr>sv_executor := executor\<rparr>)) w)))))
     | _ \<Rightarrow> Inl NotEnoughAccountKeys)"

section \<open>NFT boost and migration\<close>

definition process_stake_nft :: "'n host \<Rightarrow> account_info list \<Rightarrow> u64 \<Rightarrow> 'n world \<Rightarrow> 'n world result" where
  "process_stake_nft H accounts sid w =
     (case accounts of [signer_info, asset_info, collection_info, stake_info, treasury_info, mpl_core_program,
         system_program] \<Rightarrow>
       and_then (checks H w [(signer_info, IsSigner), (collection_info, HasAddress NFT_BOOST_COLLECTION),
         (mpl_core_program, HasAddress MPL_CORE_PROGRAM), (system_program, IsProgram SystemProgram),
         (stake_info, HasSeeds [STAKE_V2, SKey (ai_key signer_info), SNum sid])]) (\<lambda>_.
       and_then (as_stake_v2_mut H stake_info w) (\<lambda>stake.
       and_then (ensure H (sv_id stake = sid)) (\<lambda>_.
       and_then (ensure H (sv_authority stake = ai_key signer_info)) (\<lambda>_.
       and_then (as_treasury_mut H treasury_info w) (\<lambda>treasury.
       and_then (sv_migrate_weight (h_num H) treasury stake) (\<lambda>(stake, treasury).
       and_then (sv_stake_nft (h_num H) treasury stake) (\<lambda>(stake, treasury).
       let w = put treasury_info (ATreasury treasury) (put stake_info (AStakeV2 stake) w) in
       h_call H (TransferNft (ai_key asset_info) (ai_key collection_info) (ai_key signer_info)
         (ai_key signer_info) (ai_key stake_info) []) w)))))))
     | _ \<Rightarrow> Inl NotEnoughAccountKeys)"

definition process_unstake_nft :: "'n host \<Rightarrow> account_info list \<Rightarrow> u64 \<Rightarrow> 'n world \<Rightarrow> 'n world result" where
  "process_unstake_nft H accounts sid w =
     (case accounts of [signer_info, asset_info, collection_info, stake_info, treasury_info, mpl_core_program,
         system_program] \<Rightarrow>
       and_then (checks H w [(signer_info, IsSigner), (collection_info, HasAddress NFT_BOOST_COLLECTION),
         (mpl_core_program, HasAddress MPL_CORE_PROGRAM), (system_program, IsProgram SystemProgram),
         (stake_info, HasSeeds [STAKE_V2, SKey (ai_key signer_info), SNum sid])]) (\<lambda>_.
       and_then (as_stake_v2_mut H stake_info w) (\<lambda>stake.
       and_then (ensure H (sv_id stake = sid)) (\<lambda>_.
       and_then (ensure H (sv_authority stake = ai_key signer_info)) (\<lambda>_.
       and_then (as_treasury_mut H treasury_info w) (\<lambda>treasury.
       and_then (sv_migrate_weight (h_num H) treasury stake) (\<lambda>(stake, treasury).
       and_then (sv_unstake_nft (h_num H) treasury stake) (\<lambda>(stake, treasury).
       let w = put treasury_info (ATreasury treasury) (put stake_info (AStakeV2 stake) w) in
       h_call H (TransferNft (ai_key asset_info) (ai_key collection_info) (ai_key signer_info)
         (ai_key stake_info) (ai_key signer_info) [STAKE_V2, SKey (ai_key signer_info), SNum sid]) w)))))))
     | _ \<Rightarrow> Inl NotEnoughAccountKeys)"

definition process_migrate_stake_weight :: "'n host \<Rightarrow> account_info list \<Rightarrow> 'n world \<Rightarrow> 'n world result" where
  "process_migrate_stake_weight H accounts w =
     (case accounts of [signer_info, stake_info, treasury_info] \<Rightarrow>
       and_then (checks H w [(signer_info, IsSigner), (stake_info, IsWritable)]) (\<lambda>_.
       and_then (as_stake_v2_mut H stake_info w) (\<lambda>stake.
       and_then (checks H w [(treasury_info, IsWritable), (treasury_info, HasSeeds [TREASURY])]) (\<lambda>_.
       and_then (as_treasury_mut H treasury_info w) (\<lambda>treasury.
       if sv_weight_version stake \<noteq> 0 then Inr w
       else
         and_then (weighted_units stake) (\<lambda>_.
         and_then (sv_migrate_weight (h_num H) treasury stake) (\<lambda>(stake, treasury).
         and_then (weighted_units stake) (\<lambda>_.
         Inr (put treasury_info (ATreasury treasury) (put stake_info (AStakeV2 stake) w)))))))))
     | _ \<Rightarrow> Inl NotEnoughAccountKeys)"

section \<open>Merging\<close>

definition process_merge_stake_v2 :: "'n host \<Rightarrow> account_info list \<Rightarrow> u64 \<Rightarrow> u64 \<Rightarrow> 'n world \<Rightarrow> 'n world result" where
  "process_merge_stake_v2 H accounts target_id source_id w =
     and_then (guard (target_id \<noteq> source_id) (Godl MergeSameStake)) (\<lambda>_.
     case accounts of [signer_info, mint_info, target_stake_info, target_tokens_info, source_stake_info,
         source_tokens_info, treasury_info, system_program, token_program, associated_token_program] \<Rightarrow>
       let now = w_unix_timestamp w;
           target_seeds = [STAKE_V2, SKey (ai_key signer_info), SNum target_id];
           source_seeds = [STAKE_V2, SKey (ai_key signer_info), SNum source_id] in
       and_then (checks H w [(signer_info, IsSigner), (mint_info, HasAddress MINT_ADDRESS), (mint_info, AsMint),
         (target_stake_info, IsWritable), (target_stake_info, HasSeeds target_seeds),
         (source_stake_info, IsWritable), (source_stake_info, HasSeeds source_seeds)]) (\<lambda>_.
       and_then (as_stake_v2_mut H target_stake_info w) (\<lambda>target.
       and_then (ensure H (sv_authority target = ai_key signer_info)) (\<lambda>_.
       and_then (ensure H (sv_id target = target_id)) (\<lambda>_.
       and_then (as_stake_v2_mut H source_stake_info w) (\<lambda>source.
       and_then (ensure H (sv_authority source = ai_key signer_info)) (\<lambda>_.
       and_then (ensure H (sv_id source = source_id)) (\<lambda>_.
       and_then (as_treasury_mut H treasury_info w) (\<lambda>treasury.
       and_then (as_associated_token_account (ai_key source_stake_info) (ai_key mint_info) H source_tokens_info w) (\<lambda>source_vault.
       and_then (as_associated_token_account (ai_key target_stake_info) (ai_key mint_info) H target_tokens_info w) (\<lambda>target_vault.
       and_then (checks H w (token_programs system_program token_program associated_token_program)) (\<lambda>_.
       and_then (guard (\<not> (sv_is_nft_staked target \<noteq> 0 \<or> sv_is_nft_staked source \<noteq> 0)) (Godl NftAlreadyStaked)) (\<lambda>_.
       and_then (guard (\<not> tk_amount target_vault < sv_balance target) InvalidAccountData) (\<lambda>_.
       and_then (guard (\<not> tk_amount source_vault < sv_balance source) InvalidAccountData) (\<lambda>_.
       and_then (merge_stakes (h_num H) now treasury target source) (\<lambda>(target, source, treasury).
       let w = put treasury_info (ATreasury treasury)
                 (put source_stake_info (AStakeV2 source) (put target_stake_info (AStakeV2 target) w)) in
       and_then (if tk_amount source_vault > 0
                 then transfer_signed H source_stake_info source_tokens_info target_tokens_info
                        (tk_amount source_vault) source_seeds w
                 else Inr w) (\<lambda>w.
       and_then (h_call H (CloseTokenAccountSigned (ai_key source_tokens_info) (ai_key signer_info)
                   (ai_key source_stake_info) source_seeds) w) (\<lambda>w.
       and_then (close_account H source_stake_info signer_info w) (\<lambda>w.
       and_then (as_associated_token_account (ai_key target_stake_info) (ai_key mint_info) H target_tokens_info w) (\<lambda>target_tokens.
       and_then (guard (\<not> tk_amount target_tokens < sv_balance target) InvalidAccountData) (\<lambda>_.
       Inr w))))))))))))))))))))
     | _ \<Rightarrow> Inl NotEnoughAccountKeys)"

section \<open>Closing\<close>

definition process_close_stake_v2 :: "'n host \<Rightarrow> account_info list \<Rightarrow> u64 \<Rightarrow> 'n world \<Rightarrow> 'n world result" where
  "process_close_stake_v2 H accounts sid w =
     (case accounts of [signer_info, mint_info, recipient_info, stake_info, stake_tokens_info, treasury_info,
         treasury_tokens_info, system_program, token_program, associated_token_program] \<Rightarrow>
       let now = w_unix_timestamp w;
           seeds = [STAKE_V2, SKey (ai_key signer_info), SNum sid] in
       and_then (checks H w [(signer_info, IsSigner), (mint_info, HasAddress MINT_ADDRESS), (mint_info, AsMint),
         (recipient_info, IsWritable), (stake_info, IsWritable), (stake_info, HasSeeds seeds)]) (\<lambda>_.
       and_then (as_stake_v2_mut H stake_info w) (\<lambda>stake.
       and_then (ensure H (sv_authority stake = ai_key signer_info)) (\<lambda>_.
       and_then (ensure H (sv_id stake = sid)) (\<lambda>_.
       and_then (as_treasury H treasury_info w) (\<lambda>treasury.
       and_then (checks H w [(treasury_tokens_info, IsWritable)]) (\<lambda>_.
       and_then (as_associated_token_account (ai_key treasury_info) (ai_key mint_info) H treasury_tokens_info w) (\<lambda>_.
       and_then (checks H w (token_programs system_program token_program associated_token_program)) (\<lambda>_.
       and_then (guard (sv_balance stake = 0) (Godl StakeNotEmpty)) (\<lambda>_.
       and_then (guard (sv_is_nft_staked stake = 0) (Godl NftAlreadyStaked)) (\<lambda>_.
       and_then (as_associated_token_account (ai_key stake_info) (ai_key mint_info) H stake_tokens_info w) (\<lambda>stake_tokens.
       let residual = tk_amount stake_tokens in
       and_then (sv_claim (h_num H) u64_max now treasury stake) (\<lambda>(stake, rewards).
       let w = put stake_info (AStakeV2 stake) w in
       and_then (ok_or (checked_add rewards residual) (Godl StakeOverflow)) (\<lambda>total_out.
       and_then (if total_out > 0 then open_token_account H signer_info signer_info recipient_info mint_info w
                 else Inr w) (\<lambda>w.
       and_then (if rewards > 0
                 then transfer_signed H treasury_info treasury_tokens_info recipient_info rewards [TREASURY] w
                 else Inr w) (\<lambda>w.
       and_then (if residual > 0
                 then transfer_signed H stake_info stake_tokens_info recipient_info residual seeds w
                 else Inr w) (\<lambda>w.
       and_then (h_call H (CloseTokenAccountSigned (ai_key stake_tokens_info) (ai_key signer_info)
                   (ai_key stake_info) seeds) w) (\<lambda>w.
       close_account H stake_info signer_info w)))))))))))))))))
     | _ \<Rightarrow> Inl NotEnoughAccountKeys)"

definition process_close_phantom_stake_v2 :: "'n host \<Rightarrow> account_info list \<Rightarrow> 'n world \<Rightarrow> 'n world result" where
  "process_close_phantom_stake_v2 H accounts w =
     (case accounts of [signer_info, config_info, stake_info, treasury_info] \<Rightarrow>
       and_then (checks H w [(signer_info, IsSigner)]) (\<lambda>_.
       and_then (as_config H config_info w) (\<lambda>config.
       and_then (guard (cfg_admin config = ai_key signer_info) (Godl NotAuthorized)) (\<lambda>_.
       and_then (checks H w [(stake_info, IsWritable)]) (\<lambda>_.
       and_then (as_stake_v2 H stake_info w) (\<lambda>stake.
       and_then (guard (ai_key stake_info \<noteq> stake_v2_pda H (sv_authority stake) (sv_id stake)) (Godl StakeNotPhantom)) (\<lambda>_.
       and_then (guard (sv_balance stake = 0) (Godl StakeNotEmpty)) (\<lambda>_.
       and_then (checks H w [(treasury_info, IsWritable), (treasury_info, HasSeeds [TREASURY])]) (\<lambda>_.
       and_then (as_treasury_mut H treasury_info w) (\<lambda>treasury.
       let swept = lamports stake_info w in
       and_then (close_account H stake_info treasury_info w) (\<lambda>w.
       and_then (add64 (tr_balance treasury) swept) (\<lambda>balance.
       Inr (put treasury_info (ATreasury (treasury\<lparr>tr_balance := balance\<rparr>)) w))))))))))))
     | _ \<Rightarrow> Inl NotEnoughAccountKeys)"

definition process_reconcile_stake_v2 :: "'n host \<Rightarrow> account_info list \<Rightarrow> 'n world \<Rightarrow> 'n world result" where
  "process_reconcile_stake_v2 H accounts w =
     (case accounts of [signer_info, config_info, stake_info, stake_tokens_info, mint_info, treasury_info] \<Rightarrow>
       and_then (checks H w [(signer_info, IsSigner)]) (\<lambda>_.
       and_then (as_config H config_info w) (\<lambda>config.
       and_then (guard (cfg_admin config = ai_key signer_info) (Godl NotAuthorized)) (\<lambda>_.
       and_then (checks H w [(mint_info, HasAddress MINT_ADDRESS), (stake_info, IsWritable)]) (\<lambda>_.
       and_then (as_stake_v2_mut H stake_info w) (\<lambda>stake.
       and_then (checks H w [(treasury_info, IsWritable), (treasury_info, HasSeeds [TREASURY])]) (\<lambda>_.
       and_then (as_treasury_mut H treasury_info w) (\<lambda>treasury.
       and_then (checks H w [(stake_tokens_info, HasAddress (h_ata H (ai_key stake_info) MINT_ADDRESS))]) (\<lambda>_.
       and_then (if data_is_empty stake_tokens_info w then Inr 0
                 else and_then (as_associated_token_account (ai_key stake_info) (ai_key mint_info) H stake_tokens_info w)
                        (\<lambda>t. Inr (tk_amount t))) (\<lambda>vault_balance.
       let phantom_amount = saturating_sub (sv_balance stake) vault_balance in
       and_then (sv_withdraw (h_num H) phantom_amount (w_unix_timestamp w) treasury stake) (\<lambda>(stake, treasury, _).
       Inr (put treasury_info (ATreasury treasury) (put stake_info (AStakeV2 stake) w))))))))))))
     | _ \<Rightarrow> Inl NotEnoughAccountKeys)"

section \<open>Version 1\<close>

definition process_deposit :: "'n host \<Rightarrow> account_info list \<Rightarrow> byte list \<Rightarrow> 'n world \<Rightarrow> 'n world result" where
  "process_deposit H accounts data w = Inl (Godl StakeV1Deprecated)"

definition process_withdraw :: "'n host \<Rightarrow> account_info list \<Rightarrow> u64 \<Rightarrow> 'n world \<Rightarrow> 'n world result" where
  "process_withdraw H accounts amount w =
     (case accounts of [signer_info, mint_info, recipient_info, stake_info, stake_tokens_info, treasury_info,
         system_program, token_program, associated_token_program] \<Rightarrow>
       let now = w_unix_timestamp w in
       and_then (checks H w [(signer_info, IsSigner), (mint_info, HasAddress MINT_ADDRESS), (mint_info, AsMint),
         (recipient_info, IsWritable), (stake_info, HasSeeds [STAKE, SKey (ai_key signer_info)])]) (\<lambda>_.
       and_then (as_stake_mut H stake_info w) (\<lambda>stake.
       and_then (ensure H (st_authority stake = ai_key signer_info)) (\<lambda>_.
       and_then (as_associated_token_account (ai_key stake_info) (ai_key mint_info) H stake_tokens_info w) (\<lambda>_.
       and_then (as_treasury_mut H treasury_info w) (\<lambda>treasury.
       and_then (checks H w (token_programs system_program token_program associated_token_program)) (\<lambda>_.
       and_then (open_token_account H signer_info signer_info recipient_info mint_info w) (\<lambda>w.
       and_then (st_withdraw (h_num H) amount now treasury stake) (\<lambda>(stake, treasury, amount).
       let w = put treasury_info (ATreasury treasury) (put stake_info (AStake stake) w) in
       and_then (transfer_signed H stake_info stake_tokens_info recipient_info amount
                   [STAKE, SKey (st_authority stake)] w) (\<lambda>w.
       and_then (as_associated_token_account (ai_key stake_info) (ai_key mint_info) H stake_tokens_info w) (\<lambda>stake_tokens.
       and_then (assert_panic (tk_amount stake_tokens \<ge> st_balance stake)) (\<lambda>_.
       Inr w)))))))))))
     | _ \<Rightarrow> Inl NotEnoughAccountKeys)"

definition process_claim_yield :: "'n host \<Rightarrow> account_info list \<Rightarrow> u64 \<Rightarrow> 'n world \<Rightarrow> 'n world result" where
  "process_claim_yield H accounts amount w =
     (case accounts of [signer_info, mint_info, recipient_info, stake_info, treasury_info, treasury_tokens_info,
         system_program, token_program, associated_token_program] \<Rightarrow>
       let now = w_unix_timestamp w in
       and_then (checks H w [(signer_info, IsSigner), (mint_info, HasAddress MINT_ADDRESS), (mint_info, AsMint),
         (recipient_info, IsWritable), (stake_info, HasSeeds [STAKE, SKey (ai_key signer_info)])]) (\<lambda>_.
       and_then (as_stake_mut H stake_info w) (\<lambda>stake.
       and_then (ensure H (st_authority stake = ai_key signer_info)) (\<lambda>_.
       and_then (as_treasury_mut H treasury_info w) (\<lambda>treasury.
       and_then (checks H w [(treasury_tokens_info, IsWritable)]) (\<lambda>_.
       and_then (as_associated_token_account (ai_key treasury_info) (ai_key mint_info) H treasury_tokens_info w) (\<lambda>_.
       and_then (checks H w (token_programs system_program token_program associated_token_program)) (\<lambda>_.
       and_then (open_token_account H signer_info signer_info recipient_info mint_info w) (\<lambda>w.
       and_then (st_claim (h_num H) amount now treasury stake) (\<lambda>(stake, amount).
       let w = put stake_info (AStake stake) w in
       transfer_signed H treasury_info treasury_tokens_info recipient_info amount [TREASURY] w)))))))))
     | _ \<Rightarrow> Inl NotEnoughAccountKeys)"

end
