(* ===== verification/StakeSystem.thy ===== *)
theory StakeSystem
  imports StakeV1
begin

text \<open>
  All stakes together with the treasury as one state machine: a step is any operation of
  \<open>StakeV1\<close> or \<open>StakeV2\<close> on one stake (two for a merge), the opening or closing of a stake, a
  change of a stake's executor or date, a yield distribution by \<open>process_bury\<close> and
  \<open>process_bury_tokens\<close>, or a change of treasury fields that other components own. Reachable states keep
  \<open>total_staked\<close> equal to the sum of all weights and never credit more yield than was
  distributed.
\<close>

section \<open>Stakers of both versions\<close>

datatype 'n staker = SV1 "'n stake" | SV2 "'n stake_v2"

fun staker_units :: "'n staker \<Rightarrow> nat" where
  "staker_units (SV1 s) = st_balance s"
| "staker_units (SV2 s) = (case weighted_units s of Inr u \<Rightarrow> u | Inl _ \<Rightarrow> 0)"

fun staker_wf :: "'n staker \<Rightarrow> bool" where
  "staker_wf (SV1 s) = st_wf s"
| "staker_wf (SV2 s) = sv_wf s"

fun staker_snap :: "'n staker \<Rightarrow> 'n" where
  "staker_snap (SV1 s) = st_rewards_factor s"
| "staker_snap (SV2 s) = sv_rewards_factor s"

fun staker_acc :: "'n staker \<Rightarrow> u64" where
  "staker_acc (SV1 s) = st_rewards s"
| "staker_acc (SV2 s) = sv_rewards s"

fun staker_settle :: "'n numeric_ops \<Rightarrow> 'n \<Rightarrow> 'n staker \<Rightarrow> 'n staker result" where
  "staker_settle N F (SV1 s) = and_then (st_settle N F s) (\<lambda>s. Inr (SV1 s))"
| "staker_settle N F (SV2 s) = and_then (sv_settle N F s) (\<lambda>s. Inr (SV2 s))"

definition staker_wt :: "'n staker \<Rightarrow> real" where
  "staker_wt s = real (staker_units s)"

lemma staker_wt_simps: "staker_wt (SV1 u) = st_wt u" "staker_wt (SV2 s) = sv_wt s"
  by (simp_all add: staker_wt_def st_wt_def sv_wt_def split: sum.splits)

sublocale numeric < sk: reward_index N val staker_wt staker_snap staker_acc "staker_settle N"
proof unfold_locales
  fix F and s s' :: "'n staker"
  show "0 \<le> staker_wt s" by (simp add: staker_wt_def)
  assume a: "staker_settle N F s = Inr s'"
  show "staker_snap s' = F" using a
    by (cases s) (auto simp: result_simps sv_settle_snap st_settle_def st_update_rewards_keeps split: if_splits)
  show "staker_wt s' = staker_wt s" using a
    by (cases s) (auto simp: result_simps staker_wt_simps sv_settle_wt st_settle_def st_wt_def
        st_update_rewards_keeps split: if_splits)
  show "real (staker_acc s') \<le> real (staker_acc s) + (val F - val (staker_snap s)) * staker_wt s"
    if "in_range (val F)" "0 \<le> val (staker_snap s)" "val (staker_snap s) \<le> val F"
      "(val F - val (staker_snap s)) * staker_wt s \<le> real u64_max"
    using a that
    by (cases s) (auto simp: result_simps staker_wt_simps simp del: of_nat_numeral
        intro: st_settle_acc sv_settle_acc)
qed

interpretation fx_sk: reward_index fx_ops fx_val staker_wt staker_snap staker_acc "staker_settle fx_ops"
  by (rule fx.sk.reward_index_axioms)

section \<open>The machine\<close>

record 'n stake_system =
  ss_treasury :: "'n treasury"
  ss_stakers :: "'n staker list"
  ss_distributed :: nat
  ss_paid :: nat

text \<open>The yield distribution of \<open>process_bury\<close>: the factor grows by
  \<open>from_fraction(shared_amount, total_staked)\<close>.\<close>

definition raise_stake_factor :: "'n numeric_ops \<Rightarrow> u64 \<Rightarrow> 'n treasury \<Rightarrow> 'n treasury" where
  "raise_stake_factor N amount t =
     t\<lparr>tr_stake_rewards_factor :=
         n_add N (tr_stake_rewards_factor t) (n_from_fraction N amount (tr_total_staked t))\<rparr>"

definition touch :: "nat \<Rightarrow> 'n staker \<Rightarrow> 'n treasury \<Rightarrow> nat \<Rightarrow> 'n stake_system \<Rightarrow> 'n stake_system" where
  "touch i x t p S = S\<lparr>ss_treasury := t, ss_stakers := (ss_stakers S)[i := x], ss_paid := ss_paid S + p\<rparr>"

lemma touch_simps [simp]:
  "ss_treasury (touch i x t p S) = t" "ss_stakers (touch i x t p S) = (ss_stakers S)[i := x]"
  "ss_paid (touch i x t p S) = ss_paid S + p" "ss_distributed (touch i x t p S) = ss_distributed S"
  by (simp_all add: touch_def)

definition drop_staker :: "nat \<Rightarrow> 'n stake_system \<Rightarrow> 'n stake_system" where
  "drop_staker i S = S\<lparr>ss_stakers := take i (ss_stakers S) @ drop (Suc i) (ss_stakers S)\<rparr>"

inductive stake_step :: "'n numeric_ops \<Rightarrow> 'n stake_system \<Rightarrow> 'n stake_system \<Rightarrow> bool"
  for N :: "'n numeric_ops" where
  open_v2: "stake_step N S
      (S\<lparr>ss_stakers := ss_stakers S @ [SV2 (new_stake_v2 sid auth ex lock now (ss_treasury S))]\<rparr>)"
| deposit_v2: "i < length (ss_stakers S) \<Longrightarrow> ss_stakers S ! i = SV2 s \<Longrightarrow>
    sv_deposit N amount now (ss_treasury S) funds s = Inr (s', t', got) \<Longrightarrow>
    stake_step N S (touch i (SV2 s') t' 0 S)"
| withdraw_v2: "i < length (ss_stakers S) \<Longrightarrow> ss_stakers S ! i = SV2 s \<Longrightarrow>
    sv_withdraw N amount now (ss_treasury S) s = Inr (s', t', got) \<Longrightarrow>
    stake_step N S (touch i (SV2 s') t' 0 S)"
| claim_v2: "i < length (ss_stakers S) \<Longrightarrow> ss_stakers S ! i = SV2 s \<Longrightarrow>
    sv_claim N amount now (ss_treasury S) s = Inr (s', got) \<Longrightarrow>
    stake_step N S (touch i (SV2 s') (ss_treasury S) got S)"
| stake_nft: "i < length (ss_stakers S) \<Longrightarrow> ss_stakers S ! i = SV2 s \<Longrightarrow>
    sv_stake_nft N (ss_treasury S) s = Inr (s', t') \<Longrightarrow>
    stake_step N S (touch i (SV2 s') t' 0 S)"
| unstake_nft: "i < length (ss_stakers S) \<Longrightarrow> ss_stakers S ! i = SV2 s \<Longrightarrow>
    sv_unstake_nft N (ss_treasury S) s = Inr (s', t') \<Longrightarrow>
    stake_step N S (touch i (SV2 s') t' 0 S)"
| migrate: "i < length (ss_stakers S) \<Longrightarrow> ss_stakers S ! i = SV2 s \<Longrightarrow>
    sv_migrate_weight N (ss_treasury S) s = Inr (s', t') \<Longrightarrow>
    stake_step N S (touch i (SV2 s') t' 0 S)"
| merge: "i < length (ss_stakers S) \<Longrightarrow> j < length (ss_stakers S) \<Longrightarrow> i \<noteq> j \<Longrightarrow>
    ss_stakers S ! i = SV2 s \<Longrightarrow> ss_stakers S ! j = SV2 r \<Longrightarrow>
    merge_stakes N now (ss_treasury S) s r = Inr (s', r', t') \<Longrightarrow>
    stake_step N S (touch i (SV2 s') t' 0 (touch j (SV2 r') t' 0 S))"
| close_v2: "i < length (ss_stakers S) \<Longrightarrow> ss_stakers S ! i = SV2 s \<Longrightarrow> sv_balance s = 0 \<Longrightarrow>
    stake_step N S (drop_staker i S)"
| deposit_v1: "i < length (ss_stakers S) \<Longrightarrow> ss_stakers S ! i = SV1 u \<Longrightarrow>
    st_deposit N amount now (ss_treasury S) funds u = Inr (u', t', got) \<Longrightarrow>
    stake_step N S (touch i (SV1 u') t' 0 S)"
| withdraw_v1: "i < length (ss_stakers S) \<Longrightarrow> ss_stakers S ! i = SV1 u \<Longrightarrow>
    st_withdraw N amount now (ss_treasury S) u = Inr (u', t', got) \<Longrightarrow>
    stake_step N S (touch i (SV1 u') t' 0 S)"
| claim_v1: "i < length (ss_stakers S) \<Longrightarrow> ss_stakers S ! i = SV1 u \<Longrightarrow>
    st_claim N amount now (ss_treasury S) u = Inr (u', got) \<Longrightarrow>
    stake_step N S (touch i (SV1 u') (ss_treasury S) got S)"
| settle_v2: "i < length (ss_stakers S) \<Longrightarrow> ss_stakers S ! i = SV2 s \<Longrightarrow>
    sv_update_rewards N (ss_treasury S) s = Inr s' \<Longrightarrow>
    stake_step N S (touch i (SV2 s') (ss_treasury S) 0 S)"
| note_v2: "i < length (ss_stakers S) \<Longrightarrow> ss_stakers S ! i = SV2 s \<Longrightarrow>
    stake_step N S (touch i (SV2 (s\<lparr>sv_executor := ex, sv_created_at := now\<rparr>)) (ss_treasury S) 0 S)"
| elsewhere: "tr_total_staked t' = tr_total_staked (ss_treasury S) \<Longrightarrow>
    tr_stake_rewards_factor t' = tr_stake_rewards_factor (ss_treasury S) \<Longrightarrow>
    stake_step N S (S\<lparr>ss_treasury := t'\<rparr>)"
| distribute: "0 < tr_total_staked (ss_treasury S) \<Longrightarrow>
    stake_step N S (S\<lparr>ss_treasury := raise_stake_factor N amount (ss_treasury S),
        ss_distributed := ss_distributed S + amount\<rparr>)"

inductive stake_reachable :: "'n numeric_ops \<Rightarrow> 'n stake_system \<Rightarrow> bool" for N :: "'n numeric_ops" where
  start: "tr_stake_rewards_factor t = n_zero N \<Longrightarrow> tr_total_staked t = 0 \<Longrightarrow>
    stake_reachable N \<lparr>ss_treasury = t, ss_stakers = [], ss_distributed = 0, ss_paid = 0\<rparr>"
| step: "stake_reachable N S \<Longrightarrow> stake_step N S S' \<Longrightarrow> stake_reachable N S'"

section \<open>The invariant\<close>

definition units_total :: "'n stake_system \<Rightarrow> nat" where
  "units_total S = sum_list (map staker_units (ss_stakers S))"

definition ledger_ok :: "'n stake_system \<Rightarrow> bool" where
  "ledger_ok S \<longleftrightarrow> tr_total_staked (ss_treasury S) = units_total S \<and> units_total S \<le> u64_max \<and>
     (\<forall>s\<in>set (ss_stakers S). staker_wf s)"

lemma ledger_touch:
  assumes "ledger_ok S" "i < length (ss_stakers S)" "staker_wf x"
    "tr_total_staked t + staker_units (ss_stakers S ! i) = tr_total_staked (ss_treasury S) + staker_units x"
    "tr_total_staked t \<le> u64_max"
  shows "ledger_ok (touch i x t p S)"
proof -
  have "units_total (touch i x t p S) + staker_units (ss_stakers S ! i) = units_total S + staker_units x"
    unfolding units_total_def touch_simps by (rule sum_list_update_nat [OF assms(2)])
  with assms(1,4) have "units_total (touch i x t p S) = tr_total_staked t"
    by (simp add: ledger_ok_def)
  moreover have "\<forall>s\<in>set ((ss_stakers S)[i := x]). staker_wf s"
    using assms(1,3) set_update_subset_insert [of "ss_stakers S" i x] by (auto simp: ledger_ok_def)
  ultimately show ?thesis using assms(5) by (simp add: ledger_ok_def)
qed

lemma tracks_units: "tracks t s t' s' \<Longrightarrow>
    tr_total_staked t' + staker_units (SV2 s) = tr_total_staked t + staker_units (SV2 s')"
  by (auto simp: tracks_def)

text \<open>Every method bounds the total it writes.\<close>

lemma total_bound:
  "sv_deposit N a now t h s = Inr (s', t', g) \<Longrightarrow> tr_total_staked t \<le> u64_max \<Longrightarrow> tr_total_staked t' \<le> u64_max"
  "sv_withdraw N a now t s = Inr (s', t', g) \<Longrightarrow> tr_total_staked t \<le> u64_max \<Longrightarrow> tr_total_staked t' \<le> u64_max"
  "sv_stake_nft N t s = Inr (s', t') \<Longrightarrow> tr_total_staked t \<le> u64_max \<Longrightarrow> tr_total_staked t' \<le> u64_max"
  "sv_unstake_nft N t s = Inr (s', t') \<Longrightarrow> tr_total_staked t \<le> u64_max \<Longrightarrow> tr_total_staked t' \<le> u64_max"
  "sv_migrate_weight N t s = Inr (s', t') \<Longrightarrow> tr_total_staked t \<le> u64_max \<Longrightarrow> tr_total_staked t' \<le> u64_max"
  unfolding sv_deposit_def sv_withdraw_def sv_stake_nft_def sv_unstake_nft_def sv_migrate_weight_def
  by (auto simp: result_simps Let_def adjust_total_up_eq adjust_total_down_eq split: if_splits)

lemma merge_total_bound:
  assumes "merge_stakes N now t tg src = Inr (tg', src', t')" "tr_total_staked t \<le> u64_max"
  shows "tr_total_staked t' \<le> u64_max"
proof -
  from assms(1) obtain tg1 t1 src1 t2 p n where e: "sv_migrate_weight N t tg = Inr (tg1, t1)"
      "sv_migrate_weight N t1 src = Inr (src1, t2)" "adjust_total_up t2 p n = Inr t'"
    unfolding merge_stakes_def by (auto simp: result_simps Let_def)
  have "tr_total_staked t2 \<le> u64_max" using total_bound(5) e(1,2) assms(2) by metis
  with e(3) show ?thesis by (auto simp: adjust_total_up_eq)
qed

lemma merge_units:
  assumes "merge_stakes N now t tg src = Inr (tg', src', t')"
  shows "\<exists>u1 u2. weighted_units tg = Inr u1 \<and> weighted_units src = Inr u2"
proof -
  from assms obtain tg1 t1 src1 t2 tg2 src2 tu su where e:
      "sv_migrate_weight N t tg = Inr (tg1, t1)" "sv_migrate_weight N t1 src = Inr (src1, t2)"
      "sv_update_rewards N t2 tg1 = Inr tg2" "sv_update_rewards N t2 src1 = Inr src2"
      "weighted_units tg2 = Inr tu" "weighted_units src2 = Inr su"
    unfolding merge_stakes_def by (auto simp: result_simps Let_def)
  have *: "\<exists>u. weighted_units s = Inr u"
    if "sv_migrate_weight N t0 s = Inr (s1, t1)" "weighted_units s1 = Inr v" for s s1 t0 t1 v
    using that sv_migrate_weight_spec [OF that(1)]
    by (cases "sv_weight_version s = 0") (auto simp: sv_migrate_weight_noop tracks_def)
  have "weighted_units tg1 = Inr tu" "weighted_units src1 = Inr su"
    using e(5,6) sv_update_rewards_keeps(1) [OF e(3)] sv_update_rewards_keeps(1) [OF e(4)] by auto
  then show ?thesis using * [OF e(1)] * [OF e(2)] by blast
qed

lemma merge_wf:
  assumes "merge_stakes N now t tg src = Inr (tg', src', t')" "sv_wf tg" "sv_wf src"
  shows "sv_wf tg'" "sv_wf src'"
proof -
  from assms(1) obtain tg1 t1 src1 t2 tg2 src2 where e:
      "sv_migrate_weight N t tg = Inr (tg1, t1)" "sv_migrate_weight N t1 src = Inr (src1, t2)"
      "sv_update_rewards N t2 tg1 = Inr tg2" "sv_update_rewards N t2 src1 = Inr src2"
      "src' = src2\<lparr>sv_balance := 0, sv_rewards := 0\<rparr>"
      "sv_balance tg2 + sv_balance src2 \<le> u64_max" "sv_rewards tg2 + sv_rewards src2 \<le> u64_max"
      "sv_lifetime_rewards tg2 + sv_lifetime_rewards src2 \<le> u64_max"
      "tg' = tg2\<lparr>sv_balance := sv_balance tg2 + sv_balance src2,
         sv_rewards := sv_rewards tg2 + sv_rewards src2,
         sv_lifetime_rewards := sv_lifetime_rewards tg2 + sv_lifetime_rewards src2,
         sv_lock_duration := max (sv_lock_duration tg2) (sv_lock_duration src2), sv_created_at := now,
         sv_multiplier := stake_multiplier (max (sv_lock_duration tg2) (sv_lock_duration src2)),
         sv_last_deposit_at := now\<rparr>"
    unfolding merge_stakes_def by (auto simp: result_simps Let_def)
  have "sv_wf src2"
    by (rule sv_update_rewards_wf [OF e(4) sv_migrate_weight_wf [OF e(2) assms(3)]])
  then show "sv_wf src'" by (simp add: e(5) sv_wf_def)
  have "stake_multiplier l \<le> u64_max" for l
    by (rule order.trans [OF stake_multiplier_bounds(2)]) (simp add: stake_consts)
  then show "sv_wf tg'" using e(6-8) by (simp add: e(9) sv_wf_def)
qed

lemma ledger_merge:
  assumes L: "ledger_ok S" and ij: "i < length (ss_stakers S)" "j < length (ss_stakers S)" "i \<noteq> j"
    and n: "ss_stakers S ! i = SV2 s" "ss_stakers S ! j = SV2 r"
    and m: "merge_stakes N now (ss_treasury S) s r = Inr (s', r', t')"
    and wf: "staker_wf (SV2 s')" "staker_wf (SV2 r')"
  shows "ledger_ok (touch i (SV2 s') t' 0 (touch j (SV2 r') t' 0 S))"
proof -
  let ?f = staker_units and ?xs = "ss_stakers S"
  obtain u1 u2 where u: "weighted_units s = Inr u1" "weighted_units r = Inr u2"
    using merge_units [OF m] by blast
  have "SV2 r \<in> set ?xs" using ij(2) n(2) nth_mem by metis
  then have "staker_wf (SV2 r)" using L by (auto simp: ledger_ok_def)
  then have "sv_wf r" by simp
  then obtain u' where t: "weighted_units s' = Inr u'" "weighted_units r' = Inr 0"
      "tr_total_staked t' + (u1 + u2) = tr_total_staked (ss_treasury S) + u'"
    using merge_stakes_total [OF m u] by metis
  have a: "sum_list (map ?f (?xs[j := SV2 r'])) + u2 = sum_list (map ?f ?xs)"
    using sum_list_update_nat [OF ij(2), of ?f "SV2 r'"] n u t by simp
  have b: "sum_list (map ?f (?xs[j := SV2 r', i := SV2 s'])) + u1 = sum_list (map ?f (?xs[j := SV2 r'])) + u'"
    using sum_list_update_nat [of i "?xs[j := SV2 r']" ?f "SV2 s'"] n u t ij by simp
  have tot: "tr_total_staked (ss_treasury S) = sum_list (map ?f ?xs)"
    "tr_total_staked (ss_treasury S) \<le> u64_max"
    using L by (auto simp: ledger_ok_def units_total_def)
  have "tr_total_staked t' \<le> u64_max" by (rule merge_total_bound [OF m tot(2)])
  moreover have "tr_total_staked t' = sum_list (map ?f (?xs[j := SV2 r', i := SV2 s']))"
    using a b t(3) tot(1) by linarith
  moreover have "\<forall>x\<in>set (?xs[j := SV2 r', i := SV2 s']). staker_wf x"
    using L wf by (auto simp: ledger_ok_def dest!: set_update_subset_insert [THEN subsetD])
  ultimately show ?thesis by (simp add: ledger_ok_def units_total_def)
qed

lemma ledger_drop:
  assumes L: "ledger_ok S" and i: "i < length (ss_stakers S)" "ss_stakers S ! i = SV2 s" "sv_balance s = 0"
  shows "ledger_ok (drop_staker i S)"
proof -
  let ?xs = "ss_stakers S"
  have x: "?xs = take i ?xs @ SV2 s # drop (Suc i) ?xs" using id_take_nth_drop [OF i(1)] i(2) by simp
  have "SV2 s \<in> set ?xs" using i(1,2) nth_mem by metis
  then have "staker_wf (SV2 s)" using L by (auto simp: ledger_ok_def)
  then have z: "staker_units (SV2 s) = 0"
    using i(3) by (simp add: weighted_units_zero sv_wf_def)
  have "units_total S = units_total (drop_staker i S) + staker_units (SV2 s)"
    unfolding units_total_def drop_staker_def by (subst x) simp
  moreover have "set (take i ?xs @ drop (Suc i) ?xs) \<subseteq> set ?xs"
    using set_take_subset set_drop_subset by fastforce
  ultimately show ?thesis using L z by (auto simp: ledger_ok_def drop_staker_def units_total_def)
qed

lemma ledger_new:
  "ledger_ok S \<Longrightarrow> ledger_ok (S\<lparr>ss_stakers := ss_stakers S @ [SV2 (new_stake_v2 i a e l now (ss_treasury S))]\<rparr>)"
  by (simp add: ledger_ok_def units_total_def new_stake_v2_units new_stake_v2_wf)

lemma ledger_tracks:
  assumes "ledger_ok S" "i < length (ss_stakers S)" "ss_stakers S ! i = SV2 s" "sv_wf s'"
    "tracks (ss_treasury S) s t' s'" "tr_total_staked t' \<le> u64_max"
  shows "ledger_ok (touch i (SV2 s') t' p S)"
proof (rule ledger_touch [OF assms(1,2)])
  show "staker_wf (SV2 s')" using assms(4) by simp
  show "tr_total_staked t' + staker_units (ss_stakers S ! i)
      = tr_total_staked (ss_treasury S) + staker_units (SV2 s')"
    unfolding assms(3) by (rule tracks_units [OF assms(5)])
qed (rule assms(6))

lemma ledger_total: "ledger_ok S \<Longrightarrow> tr_total_staked (ss_treasury S) \<le> u64_max"
  by (simp add: ledger_ok_def)

lemma ledger_wf_v2: "ledger_ok S \<Longrightarrow> i < length (ss_stakers S) \<Longrightarrow> ss_stakers S ! i = SV2 s \<Longrightarrow> sv_wf s"
  by (metis ledger_ok_def nth_mem staker_wf.simps(2))

lemma ledger_wf_v1: "ledger_ok S \<Longrightarrow> i < length (ss_stakers S) \<Longrightarrow> ss_stakers S ! i = SV1 s \<Longrightarrow> st_wf s"
  by (metis ledger_ok_def nth_mem staker_wf.simps(1))

lemmas ledger_intros = ledger_tracks ledger_total ledger_wf_v2 total_bound

lemma ledger_step:
  assumes "stake_step N S S'" "ledger_ok S"
  shows "ledger_ok S'"
  using assms
proof (cases rule: stake_step.cases)
  case (open_v2 sid auth ex lock now)
  then show ?thesis using assms(2) by (simp add: ledger_new)
next
  case (deposit_v2 i s amount now funds s' t' got)
  then show ?thesis using assms(2) by (metis sv_deposit_spec sv_deposit_wf ledger_intros)
next
  case (withdraw_v2 i s amount now s' t' got)
  then show ?thesis using assms(2) by (metis sv_withdraw_spec sv_withdraw_wf ledger_intros)
next
  case (claim_v2 i s amount now s' got)
  have w: "sv_wf s" by (rule ledger_wf_v2 [OF assms(2) claim_v2(2,3)])
  obtain s1 where s1: "sv_update_rewards N (ss_treasury S) s = Inr s1"
      "s' = s1\<lparr>sv_rewards := sv_rewards s1 - got, sv_last_claim_at := now\<rparr>"
    using sv_claim_spec [OF claim_v2(4)] by metis
  have "staker_units (SV2 s') = staker_units (SV2 s)"
    using sv_update_rewards_keeps(1) [OF s1(1)]
      weighted_units_cong [of s' s1] by (simp add: s1(2))
  moreover have "staker_wf (SV2 s')" using sv_claim_wf [OF claim_v2(4) w] by simp
  ultimately show ?thesis unfolding claim_v2(1)
    by (intro ledger_touch [OF assms(2)]) (use claim_v2 assms(2) in \<open>auto simp: ledger_total\<close>)
next
  case (stake_nft i s s' t')
  then show ?thesis using assms(2) by (metis sv_stake_nft_spec sv_stake_nft_wf ledger_intros)
next
  case (unstake_nft i s s' t')
  then show ?thesis using assms(2) by (metis sv_unstake_nft_spec sv_unstake_nft_wf ledger_intros)
next
  case (migrate i s s' t')
  show ?thesis
  proof (cases "sv_weight_version s = 0")
    case True
    then show ?thesis using assms(2) migrate
      by (metis sv_migrate_weight_spec sv_migrate_weight_wf ledger_intros)
  next
    case False
    then have "s' = s" "t' = ss_treasury S" using migrate(4) by (auto simp: sv_migrate_weight_noop)
    then show ?thesis unfolding migrate(1)
      by (intro ledger_touch [OF assms(2)]) (use migrate assms(2) ledger_wf_v2 in \<open>auto simp: ledger_total\<close>)
  qed
next
  case (merge i j s r now s' r' t')
  have w: "sv_wf s" "sv_wf r"
    using ledger_wf_v2 [OF assms(2)] merge by blast+
  show ?thesis unfolding merge(1)
    by (rule ledger_merge [OF assms(2) merge(2-6) merge(7)]) (simp_all add: merge_wf [OF merge(7) w])
next
  case (close_v2 i s)
  then show ?thesis using assms(2) by (simp add: ledger_drop)
next
  case (deposit_v1 i u amount now funds u' t' got)
  have w: "st_wf u" by (rule ledger_wf_v1 [OF assms(2) deposit_v1(2,3)])
  obtain u1 where u1: "st_update_rewards N (ss_treasury S) u = Inr u1"
      "u' = u1\<lparr>st_balance := st_balance u + got, st_last_deposit_at := now\<rparr>"
      "st_balance u + got \<le> u64_max"
      "t' = (ss_treasury S)\<lparr>tr_total_staked := tr_total_staked (ss_treasury S) + got\<rparr>"
    using st_deposit_spec [OF deposit_v1(4)] by metis
  have "st_wf u'" using st_update_rewards_wf [OF u1(1) w] u1(2,3) by (simp add: st_wf_def)
  moreover have "tr_total_staked t' \<le> u64_max"
    using deposit_v1(4) unfolding st_deposit_def by (auto simp: result_simps Let_def)
  ultimately show ?thesis unfolding deposit_v1(1)
    by (intro ledger_touch [OF assms(2)]) (use deposit_v1 u1 in auto)
next
  case (withdraw_v1 i u amount now u' t' got)
  have w: "st_wf u" by (rule ledger_wf_v1 [OF assms(2) withdraw_v1(2,3)])
  obtain u1 where u1: "st_update_rewards N (ss_treasury S) u = Inr u1"
      "u' = u1\<lparr>st_balance := st_balance u - got, st_last_withdraw_at := now\<rparr>"
      "got = min (st_balance u) amount" "got \<le> tr_total_staked (ss_treasury S)"
      "t' = (ss_treasury S)\<lparr>tr_total_staked := tr_total_staked (ss_treasury S) - got\<rparr>"
    using st_withdraw_spec [OF withdraw_v1(4)] by metis
  have "st_wf u'" using st_update_rewards_wf [OF u1(1) w] w u1(2)
    by (auto simp: st_wf_def intro: order.trans [OF diff_le_self])
  then show ?thesis unfolding withdraw_v1(1)
    by (intro ledger_touch [OF assms(2)]) (use withdraw_v1 u1 ledger_total [OF assms(2)] in auto)
next
  case (claim_v1 i u amount now u' got)
  have w: "st_wf u" by (rule ledger_wf_v1 [OF assms(2) claim_v1(2,3)])
  obtain u1 where u1: "st_update_rewards N (ss_treasury S) u = Inr u1"
      "u' = u1\<lparr>st_rewards := st_rewards u1 - got, st_last_claim_at := now\<rparr>"
    using st_claim_spec [OF claim_v1(4)] by metis
  have "st_wf u'" using st_update_rewards_wf [OF u1(1) w] u1(2)
    by (auto simp: st_wf_def intro: order.trans [OF diff_le_self])
  then show ?thesis unfolding claim_v1(1)
    by (intro ledger_touch [OF assms(2)])
      (use claim_v1 u1 assms(2) st_update_rewards_keeps(1) [OF u1(1)] in \<open>auto simp: ledger_total\<close>)
next
  case (settle_v2 i s s')
  have w: "sv_wf s" by (rule ledger_wf_v2 [OF assms(2) settle_v2(2,3)])
  have "staker_units (SV2 s') = staker_units (SV2 s)"
    using sv_update_rewards_keeps(1) [OF settle_v2(4)] by simp
  then show ?thesis unfolding settle_v2(1)
    by (intro ledger_touch [OF assms(2)])
      (use settle_v2 assms(2) sv_update_rewards_wf [OF settle_v2(4) w] in \<open>auto simp: ledger_total\<close>)
next
  case (note_v2 i s now ex)
  have w: "sv_wf s" by (rule ledger_wf_v2 [OF assms(2) note_v2(2,3)])
  have "staker_units (SV2 (s\<lparr>sv_executor := ex, sv_created_at := now\<rparr>)) = staker_units (SV2 s)"
    using weighted_units_cong [of "s\<lparr>sv_executor := ex, sv_created_at := now\<rparr>" s] by simp
  moreover have "sv_wf (s\<lparr>sv_executor := ex, sv_created_at := now\<rparr>)" using w by (simp add: sv_wf_def)
  ultimately show ?thesis unfolding note_v2(1)
    by (intro ledger_touch [OF assms(2)]) (use note_v2 assms(2) in \<open>auto simp: ledger_total\<close>)
next
  case (elsewhere t')
  then show ?thesis using assms(2) by (simp add: ledger_ok_def units_total_def)
next
  case (distribute amount)
  then show ?thesis using assms(2)
    by (simp add: ledger_ok_def units_total_def raise_stake_factor_def)
qed

lemma ledger_reachable:
  assumes "stake_reachable N S"
  shows "ledger_ok S"
  using assms
proof (induction rule: stake_reachable.induct)
  case (start t)
  then show ?case by (simp add: ledger_ok_def units_total_def)
next
  case (step S S')
  from step.hyps(2) step.IH show ?case by (rule ledger_step)
qed

section \<open>Every stake has a weight\<close>

fun weighed :: "'n staker \<Rightarrow> bool" where
  "weighed (SV1 u) \<longleftrightarrow> True"
| "weighed (SV2 s) \<longleftrightarrow> (\<exists>u. weighted_units s = Inr u)"

lemma weighed_touch: "\<forall>x\<in>set xs. weighed x \<Longrightarrow> weighed y \<Longrightarrow> \<forall>x\<in>set (xs[i := y]). weighed x"
  using set_update_subset_insert [of xs i y] by blast

lemma weighed_tracks: "tracks t s t' s' \<Longrightarrow> weighed (SV2 s')"
  by (auto simp: tracks_def)

lemma weighed_at: "\<forall>x\<in>set xs. weighed x \<Longrightarrow> i < length xs \<Longrightarrow> xs ! i = SV2 s \<Longrightarrow> \<exists>u. weighted_units s = Inr u"
  by (metis nth_mem weighed.simps(2))

lemma weighed_step:
  assumes "stake_step N S S'" "ledger_ok S" "\<forall>x\<in>set (ss_stakers S). weighed x"
  shows "\<forall>x\<in>set (ss_stakers S'). weighed x"
  using assms(1)
proof (cases rule: stake_step.cases)
  case (open_v2 sid auth ex lock now)
  then show ?thesis using assms(3) by (auto simp: new_stake_v2_units)
next
  case (deposit_v2 i s amount now funds s' t' got)
  have "weighed (SV2 s')" using sv_deposit_spec [OF deposit_v2(4)] weighed_tracks by metis
  then show ?thesis unfolding deposit_v2(1) touch_simps by (rule weighed_touch [OF assms(3)])
next
  case (withdraw_v2 i s amount now s' t' got)
  have "weighed (SV2 s')" using sv_withdraw_spec [OF withdraw_v2(4)] weighed_tracks by metis
  then show ?thesis unfolding withdraw_v2(1) touch_simps by (rule weighed_touch [OF assms(3)])
next
  case (claim_v2 i s amount now s' got)
  obtain s1 where s1: "sv_update_rewards N (ss_treasury S) s = Inr s1"
      "s' = s1\<lparr>sv_rewards := sv_rewards s1 - got, sv_last_claim_at := now\<rparr>"
    using sv_claim_spec [OF claim_v2(4)] by metis
  have "weighted_units s' = weighted_units s"
    using sv_update_rewards_keeps(1) [OF s1(1)] weighted_units_cong [of s' s1] by (simp add: s1(2))
  then have "weighed (SV2 s')" using weighed_at [OF assms(3) claim_v2(2,3)] by simp
  then show ?thesis unfolding claim_v2(1) touch_simps by (rule weighed_touch [OF assms(3)])
next
  case (stake_nft i s s' t')
  have "weighed (SV2 s')" using sv_stake_nft_spec [OF stake_nft(4)] weighed_tracks by metis
  then show ?thesis unfolding stake_nft(1) touch_simps by (rule weighed_touch [OF assms(3)])
next
  case (unstake_nft i s s' t')
  have "weighed (SV2 s')" using sv_unstake_nft_spec [OF unstake_nft(4)] weighed_tracks by metis
  then show ?thesis unfolding unstake_nft(1) touch_simps by (rule weighed_touch [OF assms(3)])
next
  case (migrate i s s' t')
  obtain u where "weighted_units s = Inr u" using weighed_at [OF assms(3) migrate(2,3)] ..
  then have "weighed (SV2 s')" by (rule weighed_tracks [OF sv_migrate_weight_tracks [OF migrate(4)]])
  then show ?thesis unfolding migrate(1) touch_simps by (rule weighed_touch [OF assms(3)])
next
  case (merge i j s r now s' r' t')
  obtain u1 u2 where u: "weighted_units s = Inr u1" "weighted_units r = Inr u2" using merge_units [OF merge(7)] by blast
  have "sv_wf r" using ledger_wf_v2 [OF assms(2)] merge by blast
  then obtain u' where "weighted_units s' = Inr u'" "weighted_units r' = Inr 0"
    using merge_stakes_total [OF merge(7) u] by metis
  then have "weighed (SV2 s')" "weighed (SV2 r')" by simp_all
  then show ?thesis unfolding merge(1) touch_simps by (intro weighed_touch [OF weighed_touch [OF assms(3)]])
next
  case (close_v2 i s)
  then show ?thesis using assms(3) by (auto simp: drop_staker_def dest: in_set_takeD in_set_dropD)
next
  case (settle_v2 i s s')
  have "weighed (SV2 s')"
    using weighed_at [OF assms(3) settle_v2(2,3)] sv_update_rewards_keeps(1) [OF settle_v2(4)] by simp
  then show ?thesis unfolding settle_v2(1) touch_simps by (rule weighed_touch [OF assms(3)])
next
  case (note_v2 i s now ex)
  have "weighed (SV2 (s\<lparr>sv_executor := ex, sv_created_at := now\<rparr>))"
    using weighed_at [OF assms(3) note_v2(2,3)] weighted_units_cong [of "s\<lparr>sv_executor := ex, sv_created_at := now\<rparr>" s] by simp
  then show ?thesis unfolding note_v2(1) touch_simps by (rule weighed_touch [OF assms(3)])
qed (use assms(3) in \<open>auto dest: set_update_subset_insert [THEN subsetD]\<close>)

lemma weighed_reachable: "stake_reachable N S \<Longrightarrow> \<forall>x\<in>set (ss_stakers S). weighed x"
  by (induction rule: stake_reachable.induct) (simp, blast dest: weighed_step ledger_reachable)

section \<open>Yield never exceeds what was distributed\<close>

lemma distributed_grows: "stake_step N S S' \<Longrightarrow> ss_distributed S \<le> ss_distributed S'"
  by (erule stake_step.cases) (simp_all add: drop_staker_def)

definition yield_ok :: "('n \<Rightarrow> real) \<Rightarrow> 'n stake_system \<Rightarrow> bool" where
  "yield_ok val S \<longleftrightarrow>
     solvent val staker_wt staker_snap staker_acc (tr_stake_rewards_factor (ss_treasury S))
       (ss_distributed S) (ss_paid S) (ss_stakers S) \<and>
     val (tr_stake_rewards_factor (ss_treasury S)) \<le> real (ss_distributed S)"

lemma v2_settle:
  assumes "ledger_ok S" "i < length (ss_stakers S)" "ss_stakers S ! i = SV2 s"
    "sv_update_rewards N (ss_treasury S) s = Inr s1"
  shows "staker_settle N (tr_stake_rewards_factor (ss_treasury S)) (ss_stakers S ! i) = Inr (SV2 s1)"
  using assms ledger_wf_v2 [OF assms(1-3)] by (simp add: sv_settle_eq)

lemma v1_settle:
  assumes "ledger_ok S" "i < length (ss_stakers S)" "ss_stakers S ! i = SV1 s"
    "st_update_rewards N (ss_treasury S) s = Inr s1"
  shows "staker_settle N (tr_stake_rewards_factor (ss_treasury S)) (ss_stakers S ! i) = Inr (SV1 s1)"
  using assms ledger_wf_v1 [OF assms(1-3)] by (simp add: st_settle_eq)

context numeric begin

lemma yield_touch:
  assumes "yield_ok val S" "i < length (ss_stakers S)"
    and "staker_settle N (tr_stake_rewards_factor (ss_treasury S)) (ss_stakers S ! i) = Inr x1"
    and "staker_snap x = tr_stake_rewards_factor (ss_treasury S)"
    and "staker_acc x + p \<le> staker_acc x1"
    and "tr_stake_rewards_factor t = tr_stake_rewards_factor (ss_treasury S)"
  shows "yield_ok val (touch i x t p S)"
  using sk.solvent_touch [OF _ assms(2,3,4), of _ "ss_paid S" "ss_paid S + p"] assms(1,5,6)
  by (simp add: yield_ok_def)

lemma merge_settles:
  assumes "merge_stakes N now t tg src = Inr (tg', src', t')"
  obtains tg0 src0 where "sv_update_rewards N t tg = Inr tg0" "sv_update_rewards N t src = Inr src0"
    "sv_rewards tg' = sv_rewards tg0 + sv_rewards src0" "sv_rewards src' = 0"
    "sv_rewards_factor tg' = tr_stake_rewards_factor t" "sv_rewards_factor src' = tr_stake_rewards_factor t"
    "tr_stake_rewards_factor t' = tr_stake_rewards_factor t"
proof -
  from assms obtain tg1 t1 src1 t2 tg2 src2 p n where e:
      "sv_migrate_weight N t tg = Inr (tg1, t1)" "sv_migrate_weight N t1 src = Inr (src1, t2)"
      "sv_update_rewards N t2 tg1 = Inr tg2" "sv_update_rewards N t2 src1 = Inr src2"
      "src' = src2\<lparr>sv_balance := 0, sv_rewards := 0\<rparr>" "sv_rewards tg' = sv_rewards tg2 + sv_rewards src2"
      "sv_rewards_factor tg' = sv_rewards_factor tg2" "adjust_total_up t2 p n = Inr t'"
    unfolding merge_stakes_def by (auto simp: result_simps Let_def)
  have f: "tr_stake_rewards_factor t1' = tr_stake_rewards_factor t0"
    if "sv_migrate_weight N t0 s = Inr (s1, t1')" for s s1 t0 t1'
    using that unfolding sv_migrate_weight_def
    by (auto simp: result_simps Let_def adjust_total_up_eq split: if_splits)
  have f1: "tr_stake_rewards_factor t1 = tr_stake_rewards_factor t" by (rule f [OF e(1)])
  have f2: "tr_stake_rewards_factor t2 = tr_stake_rewards_factor t1" by (rule f [OF e(2)])
  obtain tg0 where tg0: "sv_update_rewards N t tg = Inr tg0" "sv_rewards tg2 = sv_rewards tg0"
    using migrate_settle [OF e(1) e(3)] f1 f2 by (metis stake_v2.select_convs(8) stake_v2.update_convs(15) stake_v2.surjective)
  obtain src0 where src0: "sv_update_rewards N t1 src = Inr src0" "sv_rewards src2 = sv_rewards src0"
    using migrate_settle [OF e(2) e(4)] f2 by (metis stake_v2.select_convs(8) stake_v2.update_convs(15) stake_v2.surjective)
  have "sv_update_rewards N t src = Inr src0"
    using src0(1) f1 by (simp add: sv_update_rewards_at [of N t1] sv_update_rewards_at [of N t])
  with tg0 src0 e(5-8) f1 f2 show ?thesis
    using sv_update_rewards_keeps(6) [OF e(3)] sv_update_rewards_keeps(6) [OF e(4)]
    by (intro that [of tg0 src0]) (auto simp: adjust_total_up_eq)
qed

lemma yield_merge:
  assumes Y: "yield_ok val S" and L: "ledger_ok S"
    and ij: "i < length (ss_stakers S)" "j < length (ss_stakers S)" "i \<noteq> j"
    and n: "ss_stakers S ! i = SV2 s" "ss_stakers S ! j = SV2 r"
    and m: "merge_stakes N now (ss_treasury S) s r = Inr (s', r', t')"
  shows "yield_ok val (touch i (SV2 s') t' 0 (touch j (SV2 r') t' 0 S))"
proof -
  let ?F = "tr_stake_rewards_factor (ss_treasury S)" and ?xs = "ss_stakers S"
  obtain s0 r0 where o: "sv_update_rewards N (ss_treasury S) s = Inr s0"
      "sv_update_rewards N (ss_treasury S) r = Inr r0" "sv_rewards s' = sv_rewards s0 + sv_rewards r0"
      "sv_rewards r' = 0" "sv_rewards_factor s' = ?F" "sv_rewards_factor r' = ?F"
      "tr_stake_rewards_factor t' = ?F"
    using merge_settles [OF m] by metis
  have sol: "sk.solvent_at ?F (ss_distributed S) (ss_paid S) ?xs"
    using Y by (simp add: yield_ok_def)
  have a: "sk.solvent_at ?F (ss_distributed S) (ss_paid S + sv_rewards r0) (?xs[j := SV2 r'])"
    by (rule sk.solvent_touch [OF sol ij(2) v2_settle [OF L ij(2) n(2) o(2)]]) (simp_all add: o)
  have ni: "?xs[j := SV2 r'] ! i = ?xs ! i" using ij by simp
  have "sk.solvent_at ?F (ss_distributed S) (ss_paid S) (?xs[j := SV2 r', i := SV2 s'])"
    by (rule sk.solvent_touch [OF a, of i "SV2 s0"])
      (use ij in \<open>simp_all add: ni v2_settle [OF L ij(1) n(1) o(1)] o del: staker_settle.simps\<close>)
  with Y show ?thesis by (simp add: yield_ok_def o)
qed

lemma yield_distribute:
  assumes Y: "yield_ok val S" and L: "ledger_ok S"
    and t: "0 < tr_total_staked (ss_treasury S)" and d: "ss_distributed S + amount \<le> u64_max"
  shows "yield_ok val (S\<lparr>ss_treasury := raise_stake_factor N amount (ss_treasury S),
    ss_distributed := ss_distributed S + amount\<rparr>)"
proof -
  let ?F = "tr_stake_rewards_factor (ss_treasury S)" and ?tw = "tr_total_staked (ss_treasury S)"
  let ?q = "n_from_fraction N amount ?tw"
  have sol: "sk.solvent_at ?F (ss_distributed S) (ss_paid S) (ss_stakers S)" "val ?F \<le> real (ss_distributed S)"
    using Y by (auto simp: yield_ok_def)
  have b: "amount \<le> u64_max" "?tw \<le> u64_max" using d ledger_total [OF L] by auto
  have q: "0 \<le> val ?q" "val ?q \<le> real amount / real ?tw" using val_from_fraction [OF b t] by auto
  have "real amount / real ?tw \<le> real amount / 1" using t by (intro divide_left_mono) auto
  with q have q': "val ?q \<le> real amount" by simp
  have "real (ss_distributed S + amount) \<le> real u64_max" using d by (simp only: of_nat_le_iff)
  with sol q q' have r: "in_range (val ?F + val ?q)"
    by (auto simp: in_range_def solvent_def)
  have w: "sum_list (map staker_wt (ss_stakers S)) \<le> real ?tw"
  proof -
    have "sum_list (map staker_wt xs) = real (sum_list (map staker_units xs))" for xs :: "'n staker list"
      by (induction xs) (simp_all add: staker_wt_def)
    then show ?thesis using L by (simp add: ledger_ok_def units_total_def)
  qed
  have "sk.solvent_at (n_add N ?F ?q) (ss_distributed S + amount) (ss_paid S) (ss_stakers S)"
    by (rule sk.solvent_distribute [OF sol(1) t b(2,1) w d r])
  moreover have "val (n_add N ?F ?q) = val ?F + val ?q"
  proof (rule val_add [OF _ _ r])
    show "in_range (val ?F)" using sol(1) by (simp add: solvent_def)
    show "in_range (val ?q)" by (rule from_fraction_range [OF b t])
  qed
  ultimately show ?thesis using sol q' by (simp add: yield_ok_def raise_stake_factor_def)
qed

lemma yield_tracks:
  assumes Y: "yield_ok val S" and L: "ledger_ok S"
    and i: "i < length (ss_stakers S)" "ss_stakers S ! i = SV2 s"
    and u: "sv_update_rewards N (ss_treasury S) s = Inr s1"
    and s': "sv_rewards_factor s' = sv_rewards_factor s1" "sv_rewards s' + p \<le> sv_rewards s1"
    and t: "tr_stake_rewards_factor t' = tr_stake_rewards_factor (ss_treasury S)"
  shows "yield_ok val (touch i (SV2 s') t' p S)"
  by (rule yield_touch [OF Y i(1) v2_settle [OF L i u]])
    (simp_all add: s' t sv_update_rewards_keeps [OF u])

lemma yield_note:
  assumes "yield_ok val S" and i: "i < length (ss_stakers S)" "ss_stakers S ! i = SV2 s"
  shows "yield_ok val (touch i (SV2 (s\<lparr>sv_executor := ex, sv_created_at := now\<rparr>)) (ss_treasury S) 0 S)"
proof -
  let ?s = "SV2 (s\<lparr>sv_executor := ex, sv_created_at := now\<rparr>)" and ?F = "tr_stake_rewards_factor (ss_treasury S)"
  have sol: "sk.solvent_at ?F (ss_distributed S) (ss_paid S) (ss_stakers S)" using assms(1) by (simp add: yield_ok_def)
  have m: "0 \<le> val (sv_rewards_factor s)" "val (sv_rewards_factor s) \<le> val ?F"
    using sol i nth_mem [OF i(1)] by (fastforce simp: solvent_def)+
  have "weighted_units (s\<lparr>sv_executor := ex, sv_created_at := now\<rparr>) = weighted_units s"
    by (rule weighted_units_cong) simp_all
  then have "sk.owed_at ?F ?s = sk.owed_at ?F (SV2 s)" by (simp add: owed_def staker_wt_def)
  then have "sk.solvent_at ?F (ss_distributed S) (ss_paid S) ((ss_stakers S)[i := ?s])"
    by (intro sk.solvent_replace [OF sol i(1)]) (use m i(2) in simp_all)
  then show ?thesis using assms(1) by (simp add: yield_ok_def)
qed

lemma yield_step:
  assumes "stake_step N S S'" "yield_ok val S" "ledger_ok S" "ss_distributed S' \<le> u64_max"
  shows "yield_ok val S'"
  using assms(1)
proof (cases rule: stake_step.cases)
  case (open_v2 sid auth ex lock now)
  have "sk.solvent_at (tr_stake_rewards_factor (ss_treasury S)) (ss_distributed S) (ss_paid S)
      (ss_stakers S @ [SV2 (new_stake_v2 sid auth ex lock now (ss_treasury S))])"
    by (rule sk.solvent_new) (use assms(2) in \<open>simp_all add: yield_ok_def new_stake_v2_def\<close>)
  then show ?thesis using assms(2) unfolding open_v2 by (simp add: yield_ok_def)
next
  case (deposit_v2 i s amount now funds s' t' got)
  obtain s1 where s1: "sv_update_rewards N (ss_treasury S) s = Inr s1"
      "s' = s1\<lparr>sv_balance := sv_balance s + got, sv_last_deposit_at := now\<rparr>"
      "tracks (ss_treasury S) s t' s'"
    using sv_deposit_spec [OF deposit_v2(4)] by metis
  show ?thesis unfolding deposit_v2(1)
    by (rule yield_tracks [OF assms(2,3) deposit_v2(2,3) s1(1)]) (simp_all add: s1(2) tracks_factor [OF s1(3)])
next
  case (withdraw_v2 i s amount now s' t' got)
  obtain s1 where s1: "sv_update_rewards N (ss_treasury S) s = Inr s1"
      "s' = s1\<lparr>sv_balance := sv_balance s - got, sv_last_withdraw_at := now\<rparr>"
      "tracks (ss_treasury S) s t' s'"
    using sv_withdraw_spec [OF withdraw_v2(4)] by metis
  show ?thesis unfolding withdraw_v2(1)
    by (rule yield_tracks [OF assms(2,3) withdraw_v2(2,3) s1(1)]) (simp_all add: s1(2) tracks_factor [OF s1(3)])
next
  case (claim_v2 i s amount now s' got)
  obtain s1 where s1: "sv_update_rewards N (ss_treasury S) s = Inr s1" "got = min (sv_rewards s1) amount"
      "s' = s1\<lparr>sv_rewards := sv_rewards s1 - got, sv_last_claim_at := now\<rparr>"
    using sv_claim_spec [OF claim_v2(4)] by metis
  show ?thesis unfolding claim_v2(1)
    by (rule yield_tracks [OF assms(2,3) claim_v2(2,3) s1(1)]) (simp_all add: s1(2,3))
next
  case (stake_nft i s s' t')
  obtain s1 where s1: "sv_update_rewards N (ss_treasury S) s = Inr s1"
      "s' = s1\<lparr>sv_is_nft_staked := 1\<rparr>" "tracks (ss_treasury S) s t' s'"
    using sv_stake_nft_spec [OF stake_nft(4)] by metis
  show ?thesis unfolding stake_nft(1)
    by (rule yield_tracks [OF assms(2,3) stake_nft(2,3) s1(1)]) (simp_all add: s1(2) tracks_factor [OF s1(3)])
next
  case (unstake_nft i s s' t')
  obtain s1 where s1: "sv_update_rewards N (ss_treasury S) s = Inr s1"
      "s' = s1\<lparr>sv_is_nft_staked := 0\<rparr>" "tracks (ss_treasury S) s t' s'"
    using sv_unstake_nft_spec [OF unstake_nft(4)] by metis
  show ?thesis unfolding unstake_nft(1)
    by (rule yield_tracks [OF assms(2,3) unstake_nft(2,3) s1(1)]) (simp_all add: s1(2) tracks_factor [OF s1(3)])
next
  case (migrate i s s' t')
  show ?thesis
  proof (cases "sv_weight_version s = 0")
    case True
    obtain s1 where s1: "sv_update_rewards N (ss_treasury S) s = Inr s1"
        "s' = s1\<lparr>sv_weight_version := 1\<rparr>" "tracks (ss_treasury S) s t' s'"
      using sv_migrate_weight_spec [OF migrate(4) True] by metis
    show ?thesis unfolding migrate(1)
      by (rule yield_tracks [OF assms(2,3) migrate(2,3) s1(1)]) (simp_all add: s1(2) tracks_factor [OF s1(3)])
  next
    case False
    then have "s' = s" "t' = ss_treasury S" using migrate(4) by (auto simp: sv_migrate_weight_noop)
    then have "touch i (SV2 s') t' 0 S = S"
      using migrate(3) list_update_id [of "ss_stakers S" i] by (cases S) (simp add: touch_def)
    then show ?thesis using assms(2) by (simp add: migrate(1))
  qed
next
  case (merge i j s r now s' r' t')
  show ?thesis unfolding merge(1) by (rule yield_merge [OF assms(2,3) merge(2-6) merge(7)])
next
  case (close_v2 i s)
  then show ?thesis using assms(2) sk.solvent_drop by (simp add: yield_ok_def drop_staker_def)
next
  case (deposit_v1 i u amount now funds u' t' got)
  obtain u1 where u1: "st_update_rewards N (ss_treasury S) u = Inr u1"
      "u' = u1\<lparr>st_balance := st_balance u + got, st_last_deposit_at := now\<rparr>"
      "t' = (ss_treasury S)\<lparr>tr_total_staked := tr_total_staked (ss_treasury S) + got\<rparr>"
    using st_deposit_spec [OF deposit_v1(4)] by metis
  show ?thesis unfolding deposit_v1(1)
    by (rule yield_touch [OF assms(2) deposit_v1(2) v1_settle [OF assms(3) deposit_v1(2,3) u1(1)]])
      (simp_all add: u1 st_update_rewards_keeps [OF u1(1)])
next
  case (withdraw_v1 i u amount now u' t' got)
  obtain u1 where u1: "st_update_rewards N (ss_treasury S) u = Inr u1"
      "u' = u1\<lparr>st_balance := st_balance u - got, st_last_withdraw_at := now\<rparr>"
      "t' = (ss_treasury S)\<lparr>tr_total_staked := tr_total_staked (ss_treasury S) - got\<rparr>"
    using st_withdraw_spec [OF withdraw_v1(4)] by metis
  show ?thesis unfolding withdraw_v1(1)
    by (rule yield_touch [OF assms(2) withdraw_v1(2) v1_settle [OF assms(3) withdraw_v1(2,3) u1(1)]])
      (simp_all add: u1 st_update_rewards_keeps [OF u1(1)])
next
  case (claim_v1 i u amount now u' got)
  obtain u1 where u1: "st_update_rewards N (ss_treasury S) u = Inr u1" "got = min (st_rewards u1) amount"
      "u' = u1\<lparr>st_rewards := st_rewards u1 - got, st_last_claim_at := now\<rparr>"
    using st_claim_spec [OF claim_v1(4)] by metis
  show ?thesis unfolding claim_v1(1)
    by (rule yield_touch [OF assms(2) claim_v1(2) v1_settle [OF assms(3) claim_v1(2,3) u1(1)]])
      (simp_all add: u1(2,3) st_update_rewards_keeps [OF u1(1)])
next
  case (settle_v2 i s s')
  show ?thesis unfolding settle_v2(1)
    by (rule yield_tracks [OF assms(2,3) settle_v2(2-4)]) simp_all
next
  case (note_v2 i s now ex)
  show ?thesis unfolding note_v2(1) by (rule yield_note [OF assms(2) note_v2(2,3)])
next
  case (elsewhere t')
  then show ?thesis using assms(2) by (simp add: yield_ok_def)
next
  case (distribute amount)
  show ?thesis unfolding distribute(1)
    by (rule yield_distribute [OF assms(2,3) distribute(2)]) (use assms(4) distribute(1) in simp)
qed

lemma yield_reachable:
  assumes "stake_reachable N S" "ss_distributed S \<le> u64_max"
  shows "yield_ok val S"
  using assms
proof (induction rule: stake_reachable.induct)
  case (start t)
  then show ?case
    by (auto simp: yield_ok_def val_zero in_range_def intro!: sk.solvent_empty)
next
  case (step S S')
  have "ss_distributed S \<le> u64_max" using distributed_grows [OF step.hyps(2)] step.prems by simp
  then show ?case by (rule yield_step [OF step.hyps(2) step.IH ledger_reachable [OF step.hyps(1)] step.prems])
qed

lemma credited_reachable:
  assumes "stake_reachable N S" "ss_distributed S \<le> u64_max"
  shows "sum_list (map staker_acc (ss_stakers S)) + ss_paid S \<le> ss_distributed S"
  using yield_reachable [OF assms] unfolding yield_ok_def by (blast intro: sk.solvent_accrued)

end

end
