(* ===== verification/Solana.thy ===== *)
theory Solana
  imports Host
begin

text \<open>
  The laws of the environment that the handlers rely on, as the locale \<open>solana\<close>: what the account
  checks of \<open>steel\<close> establish, and what a call to another program may change. They are documented
  behaviour of the Solana runtime: only the program that owns an account writes its data, a
  lamport move preserves the sum, a call does not move the clock.
\<close>

section \<open>Ownership and footprints\<close>

text \<open>Contents of an account owned by this program.\<close>

definition program_owned :: "'n account_data \<Rightarrow> bool" where
  "program_owned d = (case kind_of d of Some k \<Rightarrow> discriminator k \<noteq> None | None \<Rightarrow> False)"

lemma program_owned_simps [simp]:
  "program_owned (AStakeV2 s)" "program_owned (ATreasury t)" "program_owned (AMiner m)"
  "program_owned (ARound r)" "program_owned (ABoard b)" "program_owned (AConfig c)"
  "program_owned (APoolRound pr)" "program_owned (AGoldVault v)" "program_owned (ASolMotherlode l)"
  "program_owned (AMinerExtended x)" "program_owned (AAutomationV2 a)" "program_owned (AStake u)"
  by (simp_all add: program_owned_def)

text \<open>The program's own accounts that a call creates, closes or resizes: it is asked for by name,
  so no other one changes.\<close>

fun touches :: "host_call \<Rightarrow> pubkey set" where
  "touches (CreateProgramAccount k target system payer seeds) = {target}"
| "touches (CreateAssociatedTokenAccount funder own account mint) = {account}"
| "touches (CloseAccount a to) = {a}"
| "touches (ResizeAccount a n) = {a}"
| "touches _ = {}"

text \<open>Moving lamports: out of one account, into the other.\<close>

definition moved :: "pubkey \<Rightarrow> pubkey \<Rightarrow> u64 \<Rightarrow> (pubkey \<Rightarrow> u64) \<Rightarrow> (pubkey \<Rightarrow> u64)" where
  "moved from to n L = (let L = L(from := L from - n) in L(to := L to + n))"

section \<open>Laws\<close>

locale solana =
  fixes H :: "'n host"
  assumes check_signer: "h_check H IsSigner a w = Inr () \<Longrightarrow> ai_is_signer a"
    and check_address: "h_check H (HasAddress p) a w = Inr () \<Longrightarrow> ai_key a = p"
    and check_seeds: "h_check H (HasSeeds ss) a w = Inr () \<Longrightarrow> ai_key a = h_pda H ss"
    and check_empty: "h_check H IsEmpty a w = Inr () \<Longrightarrow> w_data w (ai_key a) = AEmpty"
    and check_token: "h_check H (AsAssociatedTokenAccount own mint) a w = Inr () \<Longrightarrow>
      \<exists>tok. w_data w (ai_key a) = AToken tok \<and> tk_owner tok = own \<and> tk_mint tok = mint"
    and call_clock: "h_call H c w = Inr w' \<Longrightarrow> w_slot w' = w_slot w \<and> w_unix_timestamp w' = w_unix_timestamp w"
    and call_frame: "h_call H c w = Inr w' \<Longrightarrow> p \<notin> touches c \<Longrightarrow> program_owned (w_data w p) \<Longrightarrow>
      w_data w' p = w_data w p"
    and call_send: "h_call H (Send from to n) w = Inr w' \<Longrightarrow>
      n \<le> w_lamports w from \<and> w_lamports w' = moved from to n (w_lamports w) \<and> w_data w' = w_data w"
    and call_create: "h_call H (CreateProgramAccount k target system payer seeds) w = Inr w' \<Longrightarrow>
      w_data w target = AEmpty \<and> kind_of (w_data w' target) = Some k"
    and call_close: "h_call H (CloseAccount target to) w = Inr w' \<Longrightarrow> w_data w' target = AEmpty"
begin

lemmas check_laws = check_signer check_address check_seeds check_empty check_token

text \<open>The clock and the program's accounts over the calls the handlers make.\<close>

lemma call_slot: "h_call H c w = Inr w' \<Longrightarrow> w_slot w' = w_slot w"
  by (simp add: call_clock)

lemma call_timestamp: "h_call H c w = Inr w' \<Longrightarrow> w_unix_timestamp w' = w_unix_timestamp w"
  by (simp add: call_clock)

lemma transfer_frame:
  "transfer H a from to n w = Inr w' \<Longrightarrow> program_owned (w_data w p) \<Longrightarrow> w_data w' p = w_data w p"
  unfolding transfer_def by (rule call_frame) auto

lemma transfer_signed_frame:
  "transfer_signed H a from to n ss w = Inr w' \<Longrightarrow> program_owned (w_data w p) \<Longrightarrow> w_data w' p = w_data w p"
  unfolding transfer_signed_def by (rule call_frame) auto

lemma send_frame:
  "send H from n to w = Inr w' \<Longrightarrow> w_data w' = w_data w"
  unfolding send_def using call_send by blast

lemma send_lamports:
  "send H from n to w = Inr w' \<Longrightarrow> n \<le> lamports from w \<and> w_lamports w' = moved (ai_key from) (ai_key to) n (w_lamports w)"
  unfolding send_def lamports_def using call_send by blast

lemma open_token_account_frame:
  assumes "open_token_account H funder own tokens mint w = Inr w'" "program_owned (w_data w p)"
  shows "w_data w' p = w_data w p"
proof (cases "data_is_empty tokens w")
  case True
  then have e: "w_data w (ai_key tokens) = AEmpty"
    by (simp add: data_is_empty_def split: account_data.splits)
  then have "p \<noteq> ai_key tokens" using assms(2) by (auto simp: program_owned_def)
  then have "p \<notin> touches (CreateAssociatedTokenAccount (ai_key funder) (ai_key own) (ai_key tokens) (ai_key mint))"
    by simp
  from call_frame [OF _ this assms(2)] True assms(1) show ?thesis
    by (simp add: open_token_account_def)
next
  case False
  then show ?thesis using assms(1) by (auto simp: open_token_account_def result_simps)
qed

end

lemma moved_total:
  assumes "n \<le> L from" "from \<noteq> to"
  shows "moved from to n L from + moved from to n L to = L from + L to"
  using assms by (simp add: moved_def Let_def)

lemma moved_other: "p \<noteq> from \<Longrightarrow> p \<noteq> to \<Longrightarrow> moved from to n L p = L p"
  by (simp add: moved_def Let_def)

lemma moved_to: "from \<noteq> to \<Longrightarrow> moved from to n L to = L to + n"
  by (simp add: moved_def Let_def)

lemma moved_from: "from \<noteq> to \<Longrightarrow> moved from to n L from = L from - n"
  by (simp add: moved_def Let_def)

end
