(* ===== verification/StakeContract.thy ===== *)
theory StakeContract
  imports StakeV2Handlers StakeSystem Solana
begin

text \<open>
  The stake handlers as a whole, in an environment that obeys the laws of \<open>Solana\<close>: which stored
  accounts a successful instruction changes, who signed it, and that on the store it performs the
  steps of the abstract stake system.
\<close>

section \<open>Contents at an address\<close>

lemma data_empty_iff: "data_is_empty a w \<longleftrightarrow> w_data w (ai_key a) = AEmpty"
  by (simp add: data_is_empty_def split: account_data.splits)

definition holds_stake :: "'n world \<Rightarrow> account_info \<Rightarrow> 'n stake_v2 \<Rightarrow> bool" where
  "holds_stake w a s \<longleftrightarrow> w_data w (ai_key a) = AStakeV2 s"

definition holds_treasury :: "'n world \<Rightarrow> account_info \<Rightarrow> 'n treasury \<Rightarrow> bool" where
  "holds_treasury w a t \<longleftrightarrow> w_data w (ai_key a) = ATreasury t"

lemmas holds_defs = holds_stake_def holds_treasury_def

lemma holds_apart: "holds_stake w a s \<Longrightarrow> holds_treasury w b t \<Longrightarrow> ai_key a \<noteq> ai_key b"
  by (auto simp: holds_defs)

section \<open>Handlers\<close>

context solana
begin

lemma withdraw_v2_effect:
  assumes "process_withdraw_v2 H [signer, mint, recipient, stake, tokens, treasury, sys, tok, ata] sid amount w
    = Inr w'"
  obtains s t s0 t0 s1 t1 n where "ai_is_signer signer" "sv_authority s = ai_key signer" "sv_id s = sid"
    "holds_stake w stake s" "holds_treasury w treasury t"
    "sv_migrate_weight (h_num H) t s = Inr (s0, t0)" "unlock_at s0 \<le> w_unix_timestamp w" "amount \<noteq> 0"
    "sv_withdraw (h_num H) amount (w_unix_timestamp w) t0 s0 = Inr (s1, t1, n)"
    "holds_stake w' stake s1" "holds_treasury w' treasury t1"
proof -
  from assms obtain s t s0 t0 s1 t1 n w1 ss
    where e: "h_check H IsSigner signer w = Inr ()" "sv_authority s = ai_key signer" "sv_id s = sid"
      "w_data w (ai_key stake) = AStakeV2 s" "w_data w (ai_key treasury) = ATreasury t"
      "sv_migrate_weight (h_num H) t s = Inr (s0, t0)" "\<not> w_unix_timestamp w < unlock_at s0" "0 < amount"
      "sv_withdraw (h_num H) amount (w_unix_timestamp w) t0 s0 = Inr (s1, t1, n)"
      and w2: "transfer_signed H stake tokens recipient n ss
        (put treasury (ATreasury t1) (put stake (AStakeV2 s1) w1)) = Inr w'"
    unfolding process_withdraw_v2_def by (auto simp: result_simps Let_def)
  have k: "ai_key stake \<noteq> ai_key treasury" using e(4,5) by auto
  have "w_data w' (ai_key stake) = AStakeV2 s1" "w_data w' (ai_key treasury) = ATreasury t1"
    using transfer_signed_frame [OF w2, of "ai_key stake"] transfer_signed_frame [OF w2, of "ai_key treasury"] k
    by simp_all
  with e check_signer [OF e(1)] show ?thesis by (intro that) (auto simp: holds_defs)
qed

lemma top_up_effect:
  assumes "process_top_up_stake_v2 H [signer, mint, sender, stake, tokens, treasury, sys, tok, ata] sid amount w
    = Inr w'"
  obtains s t s0 t0 s1 t1 funds where "ai_is_signer signer" "sv_authority s = ai_key signer" "sv_id s = sid"
    "holds_stake w stake s" "holds_treasury w treasury t"
    "sv_migrate_weight (h_num H) t s = Inr (s0, t0)" "amount \<noteq> 0"
    "sv_deposit (h_num H) amount (w_unix_timestamp w) t0 funds s0 = Inr (s1, t1, amount)"
    "holds_stake w' stake (s1\<lparr>sv_created_at := w_unix_timestamp w\<rparr>)" "holds_treasury w' treasury t1"
proof -
  from assms obtain s t s0 t0 s1 t1 funds
    where e: "ai_is_signer signer" "sv_authority s = ai_key signer" "sv_id s = sid"
      "w_data w (ai_key stake) = AStakeV2 s" "w_data w (ai_key treasury) = ATreasury t"
      "sv_migrate_weight (h_num H) t s = Inr (s0, t0)" "amount \<noteq> 0"
      "sv_deposit (h_num H) amount (w_unix_timestamp w) t0 funds s0 = Inr (s1, t1, amount)"
      and w2: "transfer H signer sender tokens amount
        (put treasury (ATreasury t1) (put stake (AStakeV2 (s1\<lparr>sv_created_at := w_unix_timestamp w\<rparr>)) w)) = Inr w'"
    unfolding process_top_up_stake_v2_def
    by (auto simp: result_simps Let_def dest: check_signer)
  have k: "ai_key stake \<noteq> ai_key treasury" using e(4,5) by auto
  have "w_data w' (ai_key stake) = AStakeV2 (s1\<lparr>sv_created_at := w_unix_timestamp w\<rparr>)"
    "w_data w' (ai_key treasury) = ATreasury t1"
    using transfer_frame [OF w2, of "ai_key stake"] transfer_frame [OF w2, of "ai_key treasury"] k
    by simp_all
  with e show ?thesis by (intro that) (auto simp: holds_defs)
qed

lemma deposit_v2_effect:
  assumes "process_deposit_v2 H [signer, mint, sender, stake, tokens, treasury, executor, sys, tok, ata] sid amount
    lock w = Inr w'"
  obtains t s s1 s2 t1 funds where "ai_is_signer signer" "w_data w (ai_key stake) = AEmpty"
    "ai_key stake = h_pda H [STAKE_V2, SKey (ai_key signer), SNum sid]"
    "0 \<le> lock" "lock \<le> MAX_LOCK_DURATION" "amount \<noteq> 0" "holds_treasury w treasury t"
    "s = new_stake_v2 sid (ai_key signer) (ai_key executor) lock (w_unix_timestamp w) t"
    "sv_update_rewards (h_num H) t s = Inr s1"
    "sv_deposit (h_num H) amount (w_unix_timestamp w) t funds s1 = Inr (s2, t1, amount)"
    "holds_stake w' stake s2" "holds_treasury w' treasury t1"
proof -
  from assms obtain t s1 s2 t1 funds w1
    where e: "ai_is_signer signer" "w_data w (ai_key stake) = AEmpty"
      "h_check H (HasSeeds [STAKE_V2, SKey (ai_key signer), SNum sid]) stake w = Inr ()"
      "\<not> lock < 0" "\<not> MAX_LOCK_DURATION < lock" "amount \<noteq> 0" "w_data w (ai_key treasury) = ATreasury t"
      "sv_update_rewards (h_num H) t (new_stake_v2 sid (ai_key signer) (ai_key executor) lock (w_unix_timestamp w) t)
         = Inr s1"
      "sv_deposit (h_num H) amount (w_unix_timestamp w) t funds s1 = Inr (s2, t1, amount)"
      and w2: "transfer H signer sender tokens amount
        (put treasury (ATreasury t1) (put stake (AStakeV2 s2) w1)) = Inr w'"
    unfolding process_deposit_v2_def
    by (auto simp: result_simps Let_def data_empty_iff dest: check_signer)
  have k: "ai_key stake \<noteq> ai_key treasury" using e(2,7) by auto
  have "w_data w' (ai_key stake) = AStakeV2 s2" "w_data w' (ai_key treasury) = ATreasury t1"
    using transfer_frame [OF w2, of "ai_key stake"] transfer_frame [OF w2, of "ai_key treasury"] k
    by simp_all
  with e check_seeds [OF e(3)] show ?thesis by (intro that) (auto simp: holds_defs)
qed

end

end
