(* ===== verification/Reference_Host.thy ===== *)
theory Reference_Host
  imports Solana
begin

text \<open>
  A concrete environment for the laws of \<open>Solana\<close>: checks read the store, addresses are computed
  from the seeds, lamport moves, account creation and closing and token transfers are
  executed, and the calls into the swap, entropy and log programs leave the store as it is. The
  locale is interpreted here on the program's own account types and calls; concrete runs of the
  handlers evaluate in it.
\<close>

section \<open>Addresses\<close>

text \<open>An address for a seed list: the seeds are digits in base \<open>2^300\<close>.\<close>

definition seed_code :: "seed \<Rightarrow> nat" where
  "seed_code s = (case s of
     SBytes b \<Rightarrow> 3 * foldl (\<lambda>acc c. 256 * acc + of_char c) 0 b + 1
   | SKey k \<Rightarrow> 3 * k + 2
   | SNum n \<Rightarrow> 3 * n + 3)"

definition ref_pda :: "seed list \<Rightarrow> pubkey" where
  "ref_pda ss = foldl (\<lambda>acc s. 2 ^ 300 * acc + seed_code s) 1 ss"

definition ref_ata :: "pubkey \<Rightarrow> pubkey \<Rightarrow> pubkey" where
  "ref_ata own mint = ref_pda [SBytes ''ata'', SKey own, SKey mint]"

section \<open>Checks\<close>

definition program_id :: "program \<Rightarrow> pubkey" where
  "program_id p = (case p of SystemProgram \<Rightarrow> 11 | TokenProgram \<Rightarrow> 12 | AssociatedTokenProgram \<Rightarrow> 13
     | GodlProgram \<Rightarrow> 14 | EntropyProgram \<Rightarrow> 15 | GodlMintProgram \<Rightarrow> 16)"

definition ref_holds :: "check \<Rightarrow> account_info \<Rightarrow> 'n world \<Rightarrow> bool" where
  "ref_holds c a w = (case c of
     IsSigner \<Rightarrow> ai_is_signer a
   | IsWritable \<Rightarrow> ai_is_writable a
   | IsEmpty \<Rightarrow> (case w_data w (ai_key a) of AEmpty \<Rightarrow> True | _ \<Rightarrow> False)
   | IsExecutable \<Rightarrow> True
   | HasAddress p \<Rightarrow> ai_key a = p
   | HasSeeds ss \<Rightarrow> ai_key a = ref_pda ss
   | HasOwnerGodl \<Rightarrow> program_owned (w_data w (ai_key a))
   | IsProgram p \<Rightarrow> ai_key a = program_id p
   | IsSlotHashesSysvar \<Rightarrow> ai_key a = 17
   | AsAccount k \<Rightarrow> kind_of (w_data w (ai_key a)) = Some k
   | AsAccountMut k \<Rightarrow> ai_is_writable a \<and> kind_of (w_data w (ai_key a)) = Some k
   | AsMint \<Rightarrow> kind_of (w_data w (ai_key a)) = Some KMint
   | AsAssociatedTokenAccount own mint \<Rightarrow>
       (case w_data w (ai_key a) of AToken tok \<Rightarrow> tk_owner tok = own \<and> tk_mint tok = mint | _ \<Rightarrow> False))"

section \<open>Calls\<close>

definition zeroed :: "account_kind \<Rightarrow> int account_data" where
  "zeroed k = (case k of
     KAutomationV2 \<Rightarrow> AAutomationV2 \<lparr>au_amount = 0, au_authority = 0, au_balance = 0, au_executor = 0,
       au_fee = 0, au_config = 0, au_mask = 0\<rparr>
   | KConfig \<Rightarrow> AConfig \<lparr>cfg_admin = 0, cfg_godl_per_round = 0, cfg_bury_authority = 0,
       cfg_fee_collector = 0, cfg_swap_program = 0, cfg_var_address = 0, cfg_motherlode_denominator = 0,
       cfg_round_slots = 0, cfg_intermission_slots = 0, cfg_buffer = zero_bytes 32\<rparr>
   | KMiner \<Rightarrow> AMiner \<lparr>mn_authority = 0, mn_referrer = 0, mn_deployed = zero_squares,
       mn_cumulative = zero_squares, mn_checkpoint_fee = 0, mn_checkpoint_id = 0,
       mn_last_claim_godl_at = 0, mn_last_claim_sol_at = 0, mn_rewards_factor = 0, mn_rewards_sol = 0,
       mn_rewards_godl = 0, mn_refined_godl = 0, mn_round_id = 0, mn_lifetime_deployed = 0,
       mn_lifetime_rewards_sol = 0, mn_lifetime_rewards_godl = 0\<rparr>
   | KTreasury \<Rightarrow> ATreasury \<lparr>tr_balance = 0, tr_motherlode = 0, tr_miner_rewards_factor = 0,
       tr_stake_rewards_factor = 0, tr_total_staked = 0, tr_total_unclaimed = 0, tr_total_refined = 0\<rparr>
   | KBoard \<Rightarrow> ABoard \<lparr>board_round_id = 0, board_start_slot = 0, board_end_slot = 0\<rparr>
   | KStake \<Rightarrow> AStake \<lparr>st_authority = 0, st_balance = 0, st_last_claim_at = 0, st_last_deposit_at = 0,
       st_last_withdraw_at = 0, st_rewards_factor = 0, st_rewards = 0, st_lifetime_rewards = 0, st_is_seeker = 0\<rparr>
   | KRound \<Rightarrow> ARound \<lparr>rnd_id = 0, rnd_deployed = zero_squares, rnd_slot_hash = zero_bytes 32,
       rnd_count = zero_squares, rnd_expires_at = 0, rnd_motherlode = 0, rnd_rent_payer = 0,
       rnd_top_miner = 0, rnd_top_miner_reward = 0, rnd_total_deployed = 0, rnd_total_vaulted = 0,
       rnd_total_winnings = 0\<rparr>
   | KReferrer \<Rightarrow> AReferrer \<lparr>rf_authority = 0, rf_rewards_sol = 0, rf_rewards_godl = 0,
       rf_cumulative_rewards_sol = 0, rf_cumulative_rewards_godl = 0, rf_referrer_count = 0\<rparr>
   | KSolMotherlode \<Rightarrow> ASolMotherlode \<lparr>sm_amount = 0\<rparr>
   | KPoolRound \<Rightarrow> APoolRound \<lparr>pr_id = 0, pr_deployed = zero_squares, pr_count = zero_squares,
       pr_total_deployed = 0, pr_rent_payer = 0\<rparr>
   | KPoolMember \<Rightarrow> APoolMember \<lparr>pm_authority = 0, pm_round_id = 0, pm_deployed = zero_squares,
       pm_total_deployed = 0\<rparr>
   | KStakeV2 \<Rightarrow> AStakeV2 \<lparr>sv_id = 0, sv_authority = 0, sv_balance = 0, sv_last_claim_at = 0,
       sv_last_deposit_at = 0, sv_last_withdraw_at = 0, sv_rewards_factor = 0, sv_rewards = 0,
       sv_lifetime_rewards = 0, sv_multiplier = 0, sv_lock_duration = 0, sv_executor = 0, sv_created_at = 0,
       sv_is_nft_staked = 0, sv_weight_version = 0, sv_buffer = zero_bytes 32\<rparr>
   | KOtcTreasury \<Rightarrow> AOtcTreasury \<lparr>ot_sol_balance = 0, ot_godl_balance = 0, ot_buffer = zero_bytes 32\<rparr>
   | KOtcUser \<Rightarrow> AOtcUser \<lparr>ou_authority = 0, ou_total_sol_in = 0, ou_total_godl_out = 0,
       ou_total_godl_bonus = 0, ou_buffer = zero_bytes 32\<rparr>
   | KGoldVault \<Rightarrow> AGoldVault \<lparr>gv_xaut_rewards_factor = 0, gv_pending_xaut = 0, gv_total_xaut_distributed = 0,
       gv_total_xaut_claimed = 0, gv_total_sol_swapped = 0, gv_buffer = zero_bytes 32\<rparr>
   | KMinerExtended \<Rightarrow> AMinerExtended \<lparr>mx_authority = 0, mx_xaut_rewards_factor = 0, mx_xaut_rewards = 0,
       mx_lifetime_xaut = 0, mx_buffer = zero_bytes 32\<rparr>
   | KToken \<Rightarrow> AToken \<lparr>tk_owner = 0, tk_mint = 0, tk_amount = 0\<rparr>
   | KMint \<Rightarrow> AMint \<lparr>mt_supply = 0\<rparr>
   | KVar \<Rightarrow> AVar \<lparr>ev_authority = 0, ev_samples = 0, ev_slot_hash = [], ev_seed = [], ev_value = []\<rparr>
   | KMintAuthority \<Rightarrow> AMintAuthority)"

lemma kind_of_zeroed [simp]: "kind_of (zeroed k) = Some k"
  by (cases k) (simp_all add: zeroed_def)

definition set_data :: "pubkey \<Rightarrow> 'n account_data \<Rightarrow> 'n world \<Rightarrow> 'n world" where
  "set_data p d w = w\<lparr>w_data := (w_data w)(p := d)\<rparr>"

definition ref_move :: "pubkey \<Rightarrow> pubkey \<Rightarrow> u64 \<Rightarrow> 'n world \<Rightarrow> 'n world result" where
  "ref_move from to n w =
     (if n \<le> w_lamports w from then Inr (w\<lparr>w_lamports := moved from to n (w_lamports w)\<rparr>) else Inl Panic)"

definition ref_transfer :: "pubkey \<Rightarrow> pubkey \<Rightarrow> u64 \<Rightarrow> 'n world \<Rightarrow> 'n world result" where
  "ref_transfer from to n w =
     (case w_data w from of
       AToken a \<Rightarrow>
         if n \<le> tk_amount a then
           let w = set_data from (AToken (a\<lparr>tk_amount := tk_amount a - n\<rparr>)) w in
           (case w_data w to of
              AToken b \<Rightarrow> Inr (set_data to (AToken (b\<lparr>tk_amount := tk_amount b + n\<rparr>)) w)
            | _ \<Rightarrow> Inl InvalidAccountData)
         else Inl (Host 1)
     | _ \<Rightarrow> Inl InvalidAccountData)"

definition ref_burn :: "pubkey \<Rightarrow> u64 \<Rightarrow> 'n world \<Rightarrow> 'n world result" where
  "ref_burn from n w =
     (case w_data w from of
       AToken a \<Rightarrow> if n \<le> tk_amount a then Inr (set_data from (AToken (a\<lparr>tk_amount := tk_amount a - n\<rparr>)) w)
                   else Inl (Host 1)
     | _ \<Rightarrow> Inl InvalidAccountData)"

definition ref_mint :: "pubkey \<Rightarrow> u64 \<Rightarrow> 'n world \<Rightarrow> 'n world result" where
  "ref_mint to n w =
     (case w_data w to of
       AToken a \<Rightarrow> Inr (set_data to (AToken (a\<lparr>tk_amount := tk_amount a + n\<rparr>)) w)
     | _ \<Rightarrow> Inl InvalidAccountData)"

definition ref_create :: "pubkey \<Rightarrow> int account_data \<Rightarrow> int world \<Rightarrow> int world result" where
  "ref_create p d w = (case w_data w p of AEmpty \<Rightarrow> Inr (set_data p d w) | _ \<Rightarrow> Inl InvalidAccountData)"

fun ref_call :: "host_call \<Rightarrow> int world \<Rightarrow> int world result" where
  "ref_call (Send from to n) w = ref_move from to n w"
| "ref_call (Collect to from n) w =
     (if program_owned (w_data w from) then Inl InvalidAccountData else ref_move from to n w)"
| "ref_call (CreateProgramAccount k target system payer seeds) w = ref_create target (zeroed k) w"
| "ref_call (CreateAssociatedTokenAccount funder own account mint) w =
     ref_create account (AToken \<lparr>tk_owner = own, tk_mint = mint, tk_amount = 0\<rparr>) w"
| "ref_call (CloseAccount a to) w =
     and_then (ref_move a to (w_lamports w a) w) (\<lambda>w. Inr (set_data a AEmpty w))"
| "ref_call (Transfer authority from to n) w = ref_transfer from to n w"
| "ref_call (TransferSigned authority from to n seeds) w = ref_transfer from to n w"
| "ref_call (BurnSigned tokens mint authority n seeds) w = ref_burn tokens n w"
| "ref_call (MintGodl treasury authority mint tokens n) w = ref_mint tokens n w"
| "ref_call _ w = Inr w"

definition ref_host :: "int host" where
  "ref_host = \<lparr>
     h_num = fx_ops,
     h_check = (\<lambda>c a w. if ref_holds c a w then Inr () else Inl InvalidAccountData),
     h_assert_error = InvalidAccountData,
     h_call = ref_call,
     h_pda = ref_pda,
     h_ata = ref_ata,
     h_minimum_balance = (\<lambda>n. 6960 * (128 + n)),
     h_hashv = (\<lambda>_. replicate 32 0),
     h_mint_authority = 18\<rparr>"

lemma ref_host_simps [simp]:
  "h_num ref_host = fx_ops" "h_call ref_host = ref_call" "h_pda ref_host = ref_pda" "h_ata ref_host = ref_ata"
  "h_minimum_balance ref_host n = 6960 * (128 + n)" "h_assert_error ref_host = InvalidAccountData"
  "h_check ref_host c a w = (if ref_holds c a w then Inr () else Inl InvalidAccountData)"
  by (simp_all add: ref_host_def)

section \<open>The laws hold\<close>

lemma set_data_simps [simp]:
  "w_data (set_data p d w) = (w_data w)(p := d)" "w_lamports (set_data p d w) = w_lamports w"
  "w_slot (set_data p d w) = w_slot w" "w_unix_timestamp (set_data p d w) = w_unix_timestamp w"
  by (simp_all add: set_data_def)

lemma ref_move_eq:
  "ref_move from to n w = Inr w' \<longleftrightarrow>
     n \<le> w_lamports w from \<and> w' = w\<lparr>w_lamports := moved from to n (w_lamports w)\<rparr>"
  by (auto simp: ref_move_def)

lemma ref_transfer_frame:
  assumes "ref_transfer from to n w = Inr w'"
  shows "w_slot w' = w_slot w" "w_unix_timestamp w' = w_unix_timestamp w"
    "program_owned (w_data w p) \<Longrightarrow> w_data w' p = w_data w p"
  using assms by (auto simp: ref_transfer_def program_owned_def Let_def split: account_data.splits if_splits)

lemma ref_burn_frame:
  assumes "ref_burn from n w = Inr w'"
  shows "w_slot w' = w_slot w" "w_unix_timestamp w' = w_unix_timestamp w"
    "program_owned (w_data w p) \<Longrightarrow> w_data w' p = w_data w p"
  using assms by (auto simp: ref_burn_def program_owned_def split: account_data.splits if_splits)

lemma ref_mint_frame:
  assumes "ref_mint to n w = Inr w'"
  shows "w_slot w' = w_slot w" "w_unix_timestamp w' = w_unix_timestamp w"
    "program_owned (w_data w p) \<Longrightarrow> w_data w' p = w_data w p"
  using assms by (auto simp: ref_mint_def program_owned_def split: account_data.splits)

lemma ref_create_eq: "ref_create p d w = Inr w' \<longleftrightarrow> w_data w p = AEmpty \<and> w' = set_data p d w"
  by (auto simp: ref_create_def split: account_data.splits)

lemma ref_call_clock:
  "ref_call c w = Inr w' \<Longrightarrow> w_slot w' = w_slot w \<and> w_unix_timestamp w' = w_unix_timestamp w"
  by (cases c) (auto simp: ref_move_eq ref_create_eq result_simps ref_transfer_frame ref_burn_frame ref_mint_frame
      split: if_splits)

lemma ref_call_frame:
  "ref_call c w = Inr w' \<Longrightarrow> p \<notin> touches c \<Longrightarrow> program_owned (w_data w p) \<Longrightarrow> w_data w' p = w_data w p"
  by (cases c) (auto simp: ref_move_eq ref_create_eq result_simps ref_transfer_frame ref_burn_frame ref_mint_frame
      split: if_splits)

lemma ref_holds_token:
  "ref_holds (AsAssociatedTokenAccount own mint) a w \<Longrightarrow>
     \<exists>tok. w_data w (ai_key a) = AToken tok \<and> tk_owner tok = own \<and> tk_mint tok = mint"
  by (auto simp: ref_holds_def split: account_data.splits)

lemma ref_holds_empty: "ref_holds IsEmpty a w \<Longrightarrow> w_data w (ai_key a) = AEmpty"
  by (auto simp: ref_holds_def split: account_data.splits)

interpretation ref: solana ref_host
proof unfold_locales
  fix c a and w w' :: "int world" and p src dst target n k system payer seeds ss own mint
  show "ai_is_signer a" if "h_check ref_host IsSigner a w = Inr ()"
    using that by (simp add: ref_holds_def split: if_splits)
  show "ai_key a = p" if "h_check ref_host (HasAddress p) a w = Inr ()"
    using that by (simp add: ref_holds_def split: if_splits)
  show "ai_key a = h_pda ref_host ss" if "h_check ref_host (HasSeeds ss) a w = Inr ()"
    using that by (simp add: ref_holds_def split: if_splits)
  show "w_data w (ai_key a) = AEmpty" if "h_check ref_host IsEmpty a w = Inr ()"
    using that by (auto intro: ref_holds_empty split: if_splits)
  show "\<exists>tok. w_data w (ai_key a) = AToken tok \<and> tk_owner tok = own \<and> tk_mint tok = mint"
    if "h_check ref_host (AsAssociatedTokenAccount own mint) a w = Inr ()"
    using that by (auto intro: ref_holds_token split: if_splits)
  show "w_slot w' = w_slot w \<and> w_unix_timestamp w' = w_unix_timestamp w" if "h_call ref_host c w = Inr w'"
    using that by (simp add: ref_call_clock)
  show "w_data w' p = w_data w p"
    if "h_call ref_host c w = Inr w'" "p \<notin> touches c" "program_owned (w_data w p)"
    using that by (simp add: ref_call_frame)
  show "n \<le> w_lamports w src \<and> w_lamports w' = moved src dst n (w_lamports w) \<and> w_data w' = w_data w"
    if "h_call ref_host (Send src dst n) w = Inr w'"
    using that by (simp add: ref_move_eq)
  show "w_data w target = AEmpty \<and> kind_of (w_data w' target) = Some k"
    if "h_call ref_host (CreateProgramAccount k target system payer seeds) w = Inr w'"
    using that by (simp add: ref_create_eq)
  show "w_data w' target = AEmpty" if "h_call ref_host (CloseAccount target dst) w = Inr w'"
    using that by (auto simp: ref_move_eq result_simps)
qed

section \<open>Worlds for concrete runs\<close>

definition world_of :: "(pubkey \<times> 'n account_data) list \<Rightarrow> (pubkey \<times> u64) list \<Rightarrow> u64 \<Rightarrow> i64 \<Rightarrow> 'n world" where
  "world_of ds ls slot now = \<lparr>
     w_data = (\<lambda>p. case map_of ds p of Some d \<Rightarrow> d | None \<Rightarrow> AEmpty),
     w_lamports = (\<lambda>p. case map_of ls p of Some n \<Rightarrow> n | None \<Rightarrow> 0),
     w_slot = slot, w_unix_timestamp = now\<rparr>"

text \<open>An account of the list that signs and is writable.\<close>

definition acct :: "pubkey \<Rightarrow> account_info" where
  "acct p = \<lparr>ai_key = p, ai_is_signer = True, ai_is_writable = True\<rparr>"

lemma acct_simps [simp]: "ai_key (acct p) = p" "ai_is_signer (acct p)" "ai_is_writable (acct p)"
  by (simp_all add: acct_def)

end
