(* ===== verification/Mining.thy ===== *)
theory Mining
  imports RewardIndex State
begin

text \<open>
  The methods of \<open>Miner\<close> (\<open>src/api/src/state/miner.rs\<close>): settlement of refined rewards, claims
  and the referrer lookup; and the referral split of the claim handlers.
\<close>

section \<open>Methods\<close>

definition referrer_account :: "'n miner \<Rightarrow> pubkey option" where
  "referrer_account m =
     (if mn_referrer m = pubkey_default \<or> mn_referrer m = REFERRER_LOCKED_SENTINEL then None
      else Some (mn_referrer m))"

definition is_locked_without_referrer :: "'n miner \<Rightarrow> bool" where
  "is_locked_without_referrer m \<longleftrightarrow> mn_referrer m = REFERRER_LOCKED_SENTINEL"

definition mn_update_rewards :: "'n numeric_ops \<Rightarrow> 'n treasury \<Rightarrow> 'n miner \<Rightarrow> 'n miner result" where
  "mn_update_rewards N t m =
     and_then
       (if n_lt N (mn_rewards_factor m) (tr_miner_rewards_factor t) then
          let accumulated = n_sub N (tr_miner_rewards_factor t) (mn_rewards_factor m) in
          if n_lt N accumulated (n_zero N) then Inl Panic
          else
            let personal = n_mul N accumulated (n_from_u64 N (mn_rewards_godl m)) in
            and_then (add64 (mn_refined_godl m) (n_to_u64 N personal)) (\<lambda>r.
            and_then (add64 (mn_lifetime_rewards_godl m) (n_to_u64 N personal)) (\<lambda>l.
            Inr (m\<lparr>mn_refined_godl := r, mn_lifetime_rewards_godl := l\<rparr>)))
        else Inr m)
       (\<lambda>m. Inr (m\<lparr>mn_rewards_factor := tr_miner_rewards_factor t\<rparr>))"

definition mn_claim_godl :: "'n numeric_ops \<Rightarrow> i64 \<Rightarrow> 'n treasury \<Rightarrow> 'n miner \<Rightarrow> ('n miner \<times> 'n treasury \<times> u64) result" where
  "mn_claim_godl N now t m =
     and_then (mn_update_rewards N t m) (\<lambda>m.
     let refined = mn_refined_godl m; rewards = mn_rewards_godl m in
     and_then (add64 refined rewards) (\<lambda>amount.
     let m = m\<lparr>mn_refined_godl := 0, mn_rewards_godl := 0\<rparr> in
     and_then (sub64 (tr_total_unclaimed t) rewards) (\<lambda>unclaimed.
     and_then (sub64 (tr_total_refined t) refined) (\<lambda>total_refined.
     let t = t\<lparr>tr_total_unclaimed := unclaimed, tr_total_refined := total_refined\<rparr>;
         m = m\<lparr>mn_last_claim_godl_at := now\<rparr> in
     if unclaimed > 0 then
       let fee = rewards div 10 in
       and_then (sub64 amount fee) (\<lambda>amount.
       let t = t\<lparr>tr_miner_rewards_factor :=
             n_add N (tr_miner_rewards_factor t) (n_from_fraction N fee unclaimed)\<rparr> in
       and_then (add64 (tr_total_refined t) fee) (\<lambda>total_refined.
       let t = t\<lparr>tr_total_refined := total_refined\<rparr> in
       and_then (sub64 (mn_lifetime_rewards_godl m) fee) (\<lambda>lifetime.
       Inr (m\<lparr>mn_lifetime_rewards_godl := lifetime\<rparr>, t, amount))))
     else Inr (m, t, amount)))))"

definition mn_claim_sol :: "i64 \<Rightarrow> 'n miner \<Rightarrow> 'n miner \<times> u64" where
  "mn_claim_sol now m =
     (m\<lparr>mn_rewards_sol := 0, mn_last_claim_sol_at := now\<rparr>, mn_rewards_sol m)"

text \<open>The split of a claimed amount between referrer and miner (\<open>process_claim_godl\<close>,
  \<open>process_claim_sol\<close>, \<open>process_claim_sol_and_fund_automation\<close>): the referrer's part and the
  miner's.\<close>

definition referral_split :: "u64 \<Rightarrow> pubkey option \<Rightarrow> u64 \<Rightarrow> (u64 \<times> u64) result" where
  "referral_split bps ref amount =
     and_then (case ref of
         Some _ \<Rightarrow> and_then (ok_or (checked_mul amount bps) InvalidInstructionData)
           (\<lambda>p. Inr (p div DENOMINATOR_BPS))
       | None \<Rightarrow> Inr 0) (\<lambda>referral.
     and_then (ok_or (checked_sub amount referral) InvalidInstructionData) (\<lambda>rest.
     Inr (referral, rest)))"

text \<open>Unrefined GODL credited to a settled miner: the checked sums of
  \<open>process_inject_unrefined_rewards\<close> (\<open>e\<close> is the error each handler maps an overflow to;
  \<open>process_checkpoint\<close> aborts).\<close>

definition credit_unrefined :: "err \<Rightarrow> u64 \<Rightarrow> 'n treasury \<Rightarrow> 'n miner \<Rightarrow> ('n miner \<times> 'n treasury) result" where
  "credit_unrefined e g t m =
     and_then (ok_or (checked_add (mn_rewards_godl m) g) e) (\<lambda>rewards.
     and_then (ok_or (checked_add (mn_lifetime_rewards_godl m) g) e) (\<lambda>lifetime.
     and_then (ok_or (checked_add (tr_total_unclaimed t) g) e) (\<lambda>unclaimed.
     Inr (m\<lparr>mn_rewards_godl := rewards, mn_lifetime_rewards_godl := lifetime\<rparr>,
          t\<lparr>tr_total_unclaimed := unclaimed\<rparr>))))"

text \<open>The fields the handlers write into a freshly created (zeroed) miner account
  (\<open>process_deploy\<close>, \<open>process_automate\<close>, \<open>process_execute_otc_trade\<close>).\<close>

definition new_miner :: "'n numeric_ops \<Rightarrow> pubkey \<Rightarrow> 'n miner" where
  "new_miner N authority =
     \<lparr>mn_authority = authority, mn_referrer = pubkey_default, mn_deployed = zero_squares,
       mn_cumulative = zero_squares, mn_checkpoint_fee = 0, mn_checkpoint_id = 0,
       mn_last_claim_godl_at = 0, mn_last_claim_sol_at = 0, mn_rewards_factor = n_zero N,
       mn_rewards_sol = 0, mn_rewards_godl = 0, mn_refined_godl = 0, mn_round_id = 0,
       mn_lifetime_deployed = 0, mn_lifetime_rewards_sol = 0, mn_lifetime_rewards_godl = 0\<rparr>"

section \<open>Settlement\<close>

definition mn_wf :: "'n miner \<Rightarrow> bool" where
  "mn_wf m \<longleftrightarrow> mn_rewards_godl m \<le> u64_max \<and> mn_refined_godl m \<le> u64_max
     \<and> mn_lifetime_rewards_godl m \<le> u64_max \<and> mn_rewards_godl m \<le> mn_lifetime_rewards_godl m"

definition mn_pending :: "'n numeric_ops \<Rightarrow> 'n treasury \<Rightarrow> 'n miner \<Rightarrow> u64" where
  "mn_pending N t m =
     (if n_lt N (mn_rewards_factor m) (tr_miner_rewards_factor t)
      then n_to_u64 N (n_mul N (n_sub N (tr_miner_rewards_factor t) (mn_rewards_factor m))
             (n_from_u64 N (mn_rewards_godl m)))
      else 0)"

lemma mn_update_rewards_effect:
  assumes "mn_update_rewards N t m = Inr m'"
  shows "m' = m\<lparr>mn_refined_godl := mn_refined_godl m + mn_pending N t m,
    mn_lifetime_rewards_godl := mn_lifetime_rewards_godl m + mn_pending N t m,
    mn_rewards_factor := tr_miner_rewards_factor t\<rparr>"
  using assms unfolding mn_update_rewards_def mn_pending_def
  by (cases m) (auto simp: result_simps Let_def split: if_splits)

lemma mn_update_rewards_keeps:
  assumes "mn_update_rewards N t m = Inr m'"
  shows "mn_rewards_godl m' = mn_rewards_godl m" "mn_authority m' = mn_authority m"
    "mn_rewards_factor m' = tr_miner_rewards_factor t" "mn_rewards_sol m' = mn_rewards_sol m"
    "mn_referrer m' = mn_referrer m" "mn_deployed m' = mn_deployed m"
    "mn_round_id m' = mn_round_id m" "mn_checkpoint_fee m' = mn_checkpoint_fee m"
  by (subst mn_update_rewards_effect [OF assms], simp)+

lemma mn_update_rewards_wf:
  assumes "mn_update_rewards N t m = Inr m'" "mn_wf m"
  shows "mn_wf m'"
  using assms unfolding mn_update_rewards_def mn_wf_def
  by (auto simp: result_simps Let_def split: if_splits)

section \<open>The miner as a holder of the reward index\<close>

definition mn_wt :: "'n miner \<Rightarrow> real" where
  "mn_wt m = real (mn_rewards_godl m)"

definition miner_treasury :: "'n \<Rightarrow> 'n treasury" where
  "miner_treasury F = \<lparr>tr_balance = 0, tr_motherlode = 0, tr_miner_rewards_factor = F,
     tr_stake_rewards_factor = F, tr_total_staked = 0, tr_total_unclaimed = 0, tr_total_refined = 0\<rparr>"

definition mn_settle :: "'n numeric_ops \<Rightarrow> 'n \<Rightarrow> 'n miner \<Rightarrow> 'n miner result" where
  "mn_settle N F m = (if mn_wf m then mn_update_rewards N (miner_treasury F) m else Inl Panic)"

lemma mn_settle_eq:
  "mn_wf m \<Longrightarrow> mn_settle N (tr_miner_rewards_factor t) m = mn_update_rewards N t m"
  by (simp add: mn_settle_def mn_update_rewards_def miner_treasury_def)

context numeric begin

lemma mn_pending_le:
  assumes "mn_rewards_godl m \<le> u64_max" "in_range (val (tr_miner_rewards_factor t))"
    "0 \<le> val (mn_rewards_factor m)" "val (mn_rewards_factor m) \<le> val (tr_miner_rewards_factor t)"
    "(val (tr_miner_rewards_factor t) - val (mn_rewards_factor m)) * mn_wt m \<le> real u64_max"
  shows "real (mn_pending N t m)
    \<le> (val (tr_miner_rewards_factor t) - val (mn_rewards_factor m)) * mn_wt m"
proof (cases "n_lt N (mn_rewards_factor m) (tr_miner_rewards_factor t)")
  case True
  let ?F = "tr_miner_rewards_factor t"
  have snap: "in_range (val (mn_rewards_factor m))" using assms by (simp add: in_range_def)
  have d: "val (n_sub N ?F (mn_rewards_factor m)) = val ?F - val (mn_rewards_factor m)"
    by (rule val_sub [OF assms(2) snap assms(4)])
  have "real (mn_pending N t m)
      \<le> val (n_sub N ?F (mn_rewards_factor m)) * val (n_from_u64 N (mn_rewards_godl m))"
    using True assms unfolding mn_pending_def
    by (simp, intro mul_to_u64 from_u64_range) (auto simp: d in_range_def val_from_u64 mn_wt_def)
  then show ?thesis using assms(1) by (simp add: d val_from_u64 mn_wt_def)
next
  case False
  then show ?thesis using assms(4) by (simp add: mn_pending_def mn_wt_def)
qed

end

sublocale numeric < mi: reward_index N val mn_wt mn_rewards_factor mn_refined_godl "mn_settle N"
proof unfold_locales
  fix F and m m' :: "'n miner"
  show "0 \<le> mn_wt m" by (simp add: mn_wt_def)
  assume "mn_settle N F m = Inr m'"
  then have u: "mn_wf m" "mn_update_rewards N (miner_treasury F) m = Inr m'"
    by (auto simp: mn_settle_def split: if_splits)
  show "mn_rewards_factor m' = F" using mn_update_rewards_keeps(3) [OF u(2)] by (simp add: miner_treasury_def)
  show "mn_wt m' = mn_wt m" using mn_update_rewards_keeps(1) [OF u(2)] by (simp add: mn_wt_def)
  show "real (mn_refined_godl m') \<le> real (mn_refined_godl m) + (val F - val (mn_rewards_factor m)) * mn_wt m"
    if "in_range (val F)" "0 \<le> val (mn_rewards_factor m)" "val (mn_rewards_factor m) \<le> val F"
      "(val F - val (mn_rewards_factor m)) * mn_wt m \<le> real u64_max"
    using mn_pending_le [of m "miner_treasury F"] that u(1)
    by (subst mn_update_rewards_effect [OF u(2)]) (simp add: miner_treasury_def mn_wf_def del: of_nat_numeral)
qed

interpretation fx_mi: reward_index fx_ops fx_val mn_wt mn_rewards_factor mn_refined_godl "mn_settle fx_ops"
  by (rule fx.mi.reward_index_axioms)

section \<open>Claims\<close>

text \<open>What a claim pays and where the fee goes, on both branches.\<close>

lemma mn_claim_godl_spec:
  assumes "mn_claim_godl N now t m = Inr (m', t', amount)"
  obtains m1 fee where "mn_update_rewards N t m = Inr m1"
    "mn_rewards_godl m \<le> tr_total_unclaimed t" "mn_refined_godl m1 \<le> tr_total_refined t"
    "fee = (if tr_total_unclaimed t - mn_rewards_godl m > 0 then mn_rewards_godl m div 10 else 0)"
    "amount + fee = mn_refined_godl m1 + mn_rewards_godl m"
    "fee \<le> mn_lifetime_rewards_godl m1"
    "m' = m1\<lparr>mn_refined_godl := 0, mn_rewards_godl := 0, mn_last_claim_godl_at := now,
       mn_lifetime_rewards_godl := mn_lifetime_rewards_godl m1 - fee\<rparr>"
    "t' = t\<lparr>tr_total_unclaimed := tr_total_unclaimed t - mn_rewards_godl m,
       tr_total_refined := tr_total_refined t - mn_refined_godl m1 + fee,
       tr_miner_rewards_factor :=
         (if tr_total_unclaimed t - mn_rewards_godl m > 0
          then n_add N (tr_miner_rewards_factor t)
                 (n_from_fraction N fee (tr_total_unclaimed t - mn_rewards_godl m))
          else tr_miner_rewards_factor t)\<rparr>"
    "tr_total_refined t' \<le> max u64_max (tr_total_refined t)"
proof -
  from assms obtain m1 where m1: "mn_update_rewards N t m = Inr m1"
    unfolding mn_claim_godl_def by (auto simp: result_simps)
  have r: "mn_rewards_godl m1 = mn_rewards_godl m" by (rule mn_update_rewards_keeps [OF m1])
  let ?rew = "mn_rewards_godl m" and ?ref = "mn_refined_godl m1"
  show ?thesis
  proof (cases "tr_total_unclaimed t - ?rew > 0")
    case True
    let ?fee = "?rew div 10"
    from assms m1 True have e: "?rew \<le> tr_total_unclaimed t" "?ref \<le> tr_total_refined t"
        "amount = ?ref + ?rew - ?fee" "?fee \<le> ?ref + ?rew" "?fee \<le> mn_lifetime_rewards_godl m1"
        "tr_total_refined t - ?ref + ?fee \<le> u64_max"
        "m' = m1\<lparr>mn_refined_godl := 0, mn_rewards_godl := 0, mn_last_claim_godl_at := now,
           mn_lifetime_rewards_godl := mn_lifetime_rewards_godl m1 - ?fee\<rparr>"
        "t' = t\<lparr>tr_total_unclaimed := tr_total_unclaimed t - ?rew,
           tr_total_refined := tr_total_refined t - ?ref + ?fee,
           tr_miner_rewards_factor := n_add N (tr_miner_rewards_factor t)
             (n_from_fraction N ?fee (tr_total_unclaimed t - ?rew))\<rparr>"
      by (auto simp: mn_claim_godl_def result_simps Let_def r)
    show ?thesis
      by (rule that [OF m1 e(1,2), of ?fee]) (use e True in \<open>simp_all\<close>)
  next
    case False
    from assms m1 False have e: "?rew \<le> tr_total_unclaimed t" "?ref \<le> tr_total_refined t"
        "amount = ?ref + ?rew"
        "m' = m1\<lparr>mn_refined_godl := 0, mn_rewards_godl := 0, mn_last_claim_godl_at := now\<rparr>"
        "t' = t\<lparr>tr_total_unclaimed := tr_total_unclaimed t - ?rew,
           tr_total_refined := tr_total_refined t - ?ref\<rparr>"
      by (auto simp: mn_claim_godl_def result_simps Let_def r)
    have i: "m' = m'\<lparr>mn_lifetime_rewards_godl := mn_lifetime_rewards_godl m1 - 0\<rparr>"
      "t' = t'\<lparr>tr_total_refined := tr_total_refined t - ?ref + 0, tr_miner_rewards_factor := tr_miner_rewards_factor t\<rparr>"
      by (simp_all add: e)
    show ?thesis
      by (rule that [OF m1 e(1,2), of 0]) (use e(3-5) i False in \<open>simp_all\<close>)
  qed
qed

lemma claim_parts:
  assumes c: "mn_claim_godl N now t m = Inr (m', t', amount)" and u: "mn_update_rewards N t m = Inr m1"
  shows "\<exists>fee. mn_rewards_godl m \<le> tr_total_unclaimed t \<and> mn_refined_godl m1 \<le> tr_total_refined t \<and>
    amount + fee = mn_refined_godl m1 + mn_rewards_godl m \<and>
    m' = m1\<lparr>mn_refined_godl := 0, mn_rewards_godl := 0, mn_last_claim_godl_at := now,
      mn_lifetime_rewards_godl := mn_lifetime_rewards_godl m1 - fee\<rparr> \<and>
    tr_total_unclaimed t' = tr_total_unclaimed t - mn_rewards_godl m \<and>
    tr_total_refined t' = tr_total_refined t - mn_refined_godl m1 + fee \<and>
    tr_miner_rewards_factor t' = (if 0 < tr_total_unclaimed t - mn_rewards_godl m
      then n_add N (tr_miner_rewards_factor t)
             (n_from_fraction N fee (tr_total_unclaimed t - mn_rewards_godl m))
      else tr_miner_rewards_factor t) \<and>
    (0 < tr_total_unclaimed t - mn_rewards_godl m \<or> fee = 0)"
proof (rule mn_claim_godl_spec [OF c], goal_cases)
  case (1 m1' fee)
  have "m1' = m1" using 1(1) u by simp
  note 2 = 1 [unfolded this]
  show ?case
  proof (intro exI [of _ fee] conjI)
    show "mn_rewards_godl m \<le> tr_total_unclaimed t" "mn_refined_godl m1 \<le> tr_total_refined t"
      "amount + fee = mn_refined_godl m1 + mn_rewards_godl m"
      using 2 by blast+
    show "0 < tr_total_unclaimed t - mn_rewards_godl m \<or> fee = 0" using 2(4) by simp
  qed (rule 2(7), simp_all add: 2(8))
qed

lemma referral_split_conserves:
  "referral_split bps ref amount = Inr (a, b) \<Longrightarrow> a + b = amount"
  unfolding referral_split_def by (auto simp: result_simps split: option.splits)

lemma referral_split_none: "referral_split bps None amount = Inr (0, amount)"
  by (simp add: referral_split_def checked_sub_def)

end
