(* ===== verification/MinerSystem.thy ===== *)
theory MinerSystem
  imports Mining
begin

text \<open>
  All miners together with the treasury: unrefined GODL is credited by checkpoints, injections
  and OTC bonuses, and claimed with a 10% fee that is shared among the miners who have not
  claimed. Reachable states keep \<open>total_unclaimed\<close> equal to the unrefined GODL of all miners,
  \<open>total_refined\<close> equal to the fees not yet paid out, and never credit more than the fees; so
  the subtractions of a claim cannot underflow.
\<close>

section \<open>The machine\<close>

record 'n miner_system =
  ms_treasury :: "'n treasury"
  ms_miners :: "'n miner list"
  ms_fees :: nat
  ms_paid :: nat

inductive mining_step :: "'n numeric_ops \<Rightarrow> 'n miner_system \<Rightarrow> 'n miner_system \<Rightarrow> bool"
  for N :: "'n numeric_ops" where
  open_miner: "mining_step N S (S\<lparr>ms_miners := ms_miners S @ [new_miner N a]\<rparr>)"
| credit: "i < length (ms_miners S) \<Longrightarrow>
    mn_update_rewards N (ms_treasury S) (ms_miners S ! i) = Inr m1 \<Longrightarrow>
    credit_unrefined e g (ms_treasury S) m1 = Inr (m', t') \<Longrightarrow>
    mining_step N S (S\<lparr>ms_miners := (ms_miners S)[i := m'], ms_treasury := t'\<rparr>)"
| claim: "i < length (ms_miners S) \<Longrightarrow>
    mn_claim_godl N now (ms_treasury S) (ms_miners S ! i) = Inr (m', t', amount) \<Longrightarrow>
    mn_update_rewards N (ms_treasury S) (ms_miners S ! i) = Inr m1 \<Longrightarrow>
    fee = mn_refined_godl m1 + mn_rewards_godl (ms_miners S ! i) - amount \<Longrightarrow>
    ms_fees S + fee \<le> u64_max \<Longrightarrow>
    mining_step N S (S\<lparr>ms_miners := (ms_miners S)[i := m'], ms_treasury := t',
      ms_fees := ms_fees S + fee, ms_paid := ms_paid S + mn_refined_godl m1\<rparr>)"

inductive mining_reachable :: "'n numeric_ops \<Rightarrow> 'n miner_system \<Rightarrow> bool" for N :: "'n numeric_ops" where
  start: "tr_miner_rewards_factor t = n_zero N \<Longrightarrow> tr_total_unclaimed t = 0 \<Longrightarrow>
    tr_total_refined t = 0 \<Longrightarrow>
    mining_reachable N \<lparr>ms_treasury = t, ms_miners = [], ms_fees = 0, ms_paid = 0\<rparr>"
| step: "mining_reachable N S \<Longrightarrow> mining_step N S S' \<Longrightarrow> mining_reachable N S'"

section \<open>The invariant\<close>

definition miner_ledger :: "'n miner_system \<Rightarrow> bool" where
  "miner_ledger S \<longleftrightarrow>
     tr_total_unclaimed (ms_treasury S) = sum_list (map mn_rewards_godl (ms_miners S)) \<and>
     tr_total_unclaimed (ms_treasury S) \<le> u64_max \<and>
     tr_total_refined (ms_treasury S) + ms_paid S = ms_fees S \<and>
     (\<forall>m\<in>set (ms_miners S). mn_wf m)"

definition refined_ok :: "('n \<Rightarrow> real) \<Rightarrow> 'n miner_system \<Rightarrow> bool" where
  "refined_ok val S \<longleftrightarrow>
     solvent val mn_wt mn_rewards_factor mn_refined_godl (tr_miner_rewards_factor (ms_treasury S))
       (ms_fees S) (ms_paid S) (ms_miners S) \<and>
     val (tr_miner_rewards_factor (ms_treasury S)) \<le> real (ms_fees S)"

lemma ledger_member: "miner_ledger S \<Longrightarrow> i < length (ms_miners S) \<Longrightarrow> mn_wf (ms_miners S ! i)"
  by (simp add: miner_ledger_def)

lemma wf_update: "\<forall>x\<in>set xs. P x \<Longrightarrow> P y \<Longrightarrow> \<forall>x\<in>set (xs[i := y]). P x"
  using set_update_subset_insert [of xs i y] by auto

lemma sum_mn_wt: "sum_list (map mn_wt ms) = real (sum_list (map mn_rewards_godl ms))"
  by (induction ms) (simp_all add: mn_wt_def)

lemma ledger_credit:
  assumes L: "miner_ledger S" and i: "i < length (ms_miners S)"
    and u: "mn_update_rewards N (ms_treasury S) (ms_miners S ! i) = Inr m1"
    and c: "credit_unrefined e g (ms_treasury S) m1 = Inr (m', t')"
  shows "miner_ledger (S\<lparr>ms_miners := (ms_miners S)[i := m'], ms_treasury := t'\<rparr>)"
proof -
  have w: "mn_wf m1" by (rule mn_update_rewards_wf [OF u ledger_member [OF L i]])
  have r: "mn_rewards_godl m1 = mn_rewards_godl (ms_miners S ! i)"
    by (rule mn_update_rewards_keeps [OF u])
  have s: "sum_list (map mn_rewards_godl ((ms_miners S)[i := m'])) + mn_rewards_godl (ms_miners S ! i)
      = sum_list (map mn_rewards_godl (ms_miners S)) + mn_rewards_godl m'"
    by (rule sum_list_update_nat [OF i])
  have m': "mn_rewards_godl m' = mn_rewards_godl m1 + g" "mn_wf m'"
    using c w by (auto simp: credit_unrefined_def result_simps mn_wf_def)
  have "\<forall>m\<in>set ((ms_miners S)[i := m']). mn_wf m"
    using L m'(2) by (intro wf_update) (auto simp: miner_ledger_def)
  with s r L c m' show ?thesis
    by (auto simp: miner_ledger_def credit_unrefined_def result_simps)
qed

lemma ledger_claim:
  assumes L: "miner_ledger S" and i: "i < length (ms_miners S)"
    and c: "mn_claim_godl N now (ms_treasury S) (ms_miners S ! i) = Inr (m', t', amount)"
    and u: "mn_update_rewards N (ms_treasury S) (ms_miners S ! i) = Inr m1"
    and f: "fee = mn_refined_godl m1 + mn_rewards_godl (ms_miners S ! i) - amount"
  shows "miner_ledger (S\<lparr>ms_miners := (ms_miners S)[i := m'], ms_treasury := t',
    ms_fees := ms_fees S + fee, ms_paid := ms_paid S + mn_refined_godl m1\<rparr>)"
proof -
  let ?m = "ms_miners S ! i" and ?t = "ms_treasury S"
  obtain fee' where e: "mn_rewards_godl ?m \<le> tr_total_unclaimed ?t"
      "mn_refined_godl m1 \<le> tr_total_refined ?t" "amount + fee' = mn_refined_godl m1 + mn_rewards_godl ?m"
      "m' = m1\<lparr>mn_refined_godl := 0, mn_rewards_godl := 0, mn_last_claim_godl_at := now,
         mn_lifetime_rewards_godl := mn_lifetime_rewards_godl m1 - fee'\<rparr>"
      "tr_total_unclaimed t' = tr_total_unclaimed ?t - mn_rewards_godl ?m"
      "tr_total_refined t' = tr_total_refined ?t - mn_refined_godl m1 + fee'"
    using claim_parts [OF c u] by metis
  have ff: "fee' = fee" using e(3) f by simp
  have w: "mn_wf m1" by (rule mn_update_rewards_wf [OF u ledger_member [OF L i]])
  then have w': "mn_wf m'" by (auto simp: e(4) mn_wf_def)
  have s: "sum_list (map mn_rewards_godl ((ms_miners S)[i := m'])) + mn_rewards_godl ?m
      = sum_list (map mn_rewards_godl (ms_miners S)) + mn_rewards_godl m'"
    by (rule sum_list_update_nat [OF i])
  have z: "mn_rewards_godl m' = 0" by (simp add: e(4))
  have "tr_total_refined t' + (ms_paid S + mn_refined_godl m1) = ms_fees S + fee"
    using L e(2,6) ff by (simp add: miner_ledger_def)
  moreover have "tr_total_unclaimed t' = sum_list (map mn_rewards_godl ((ms_miners S)[i := m']))"
    using s z e(1,5) L by (simp add: miner_ledger_def)
  moreover have "tr_total_unclaimed t' \<le> u64_max"
    using e(5) L by (auto simp: miner_ledger_def)
  moreover have "\<forall>m\<in>set ((ms_miners S)[i := m']). mn_wf m"
    using L w' by (intro wf_update) (auto simp: miner_ledger_def)
  ultimately show ?thesis by (simp add: miner_ledger_def)
qed

lemma miner_ledger_step:
  assumes "mining_step N S S'" "miner_ledger S"
  shows "miner_ledger S'"
  using assms(1)
proof (cases rule: mining_step.cases)
  case (open_miner a)
  then show ?thesis using assms(2) by (simp add: miner_ledger_def new_miner_def mn_wf_def)
next
  case (credit i m1 e g m' t')
  show ?thesis unfolding credit(1) by (rule ledger_credit [OF assms(2) credit(2-4)])
next
  case (claim i now m' t' amount m1 fee)
  show ?thesis unfolding claim(1) by (rule ledger_claim [OF assms(2) claim(2-5)])
qed

lemma miner_ledger_reachable:
  assumes "mining_reachable N S"
  shows "miner_ledger S"
  using assms
proof (induction rule: mining_reachable.induct)
  case (start t)
  then show ?case by (simp add: miner_ledger_def)
next
  case (step S S')
  show ?case by (rule miner_ledger_step [OF step.hyps(2) step.IH])
qed

section \<open>Refined rewards never exceed the fees\<close>

context numeric begin

lemma refined_credit:
  assumes Y: "refined_ok val S" and L: "miner_ledger S" and i: "i < length (ms_miners S)"
    and u: "mn_update_rewards N (ms_treasury S) (ms_miners S ! i) = Inr m1"
    and c: "credit_unrefined e g (ms_treasury S) m1 = Inr (m', t')"
  shows "refined_ok val (S\<lparr>ms_miners := (ms_miners S)[i := m'], ms_treasury := t'\<rparr>)"
proof -
  have st: "mn_settle N (tr_miner_rewards_factor (ms_treasury S)) (ms_miners S ! i) = Inr m1"
    using u ledger_member [OF L i] by (simp add: mn_settle_eq)
  have m': "mn_rewards_factor m' = tr_miner_rewards_factor (ms_treasury S)"
    "mn_refined_godl m' = mn_refined_godl m1" "tr_miner_rewards_factor t' = tr_miner_rewards_factor (ms_treasury S)"
    using c mn_update_rewards_keeps(3) [OF u] by (auto simp: credit_unrefined_def result_simps)
  have sol: "mi.solvent_at (tr_miner_rewards_factor (ms_treasury S)) (ms_fees S) (ms_paid S) (ms_miners S)"
    using Y by (simp add: refined_ok_def)
  have "mi.solvent_at (tr_miner_rewards_factor (ms_treasury S)) (ms_fees S) (ms_paid S) ((ms_miners S)[i := m'])"
    by (rule mi.solvent_touch [OF sol i st]) (simp_all add: m')
  with Y show ?thesis by (simp add: refined_ok_def m')
qed

lemma refined_claim:
  assumes Y: "refined_ok val S" and L: "miner_ledger S" and i: "i < length (ms_miners S)"
    and c: "mn_claim_godl N now (ms_treasury S) (ms_miners S ! i) = Inr (m', t', amount)"
    and u: "mn_update_rewards N (ms_treasury S) (ms_miners S ! i) = Inr m1"
    and f: "fee = mn_refined_godl m1 + mn_rewards_godl (ms_miners S ! i) - amount"
    and d: "ms_fees S + fee \<le> u64_max"
  shows "refined_ok val (S\<lparr>ms_miners := (ms_miners S)[i := m'], ms_treasury := t',
    ms_fees := ms_fees S + fee, ms_paid := ms_paid S + mn_refined_godl m1\<rparr>)"
proof -
  let ?m = "ms_miners S ! i" and ?t = "ms_treasury S" and ?xs = "(ms_miners S)[i := m']"
  let ?F = "tr_miner_rewards_factor ?t" and ?tw = "tr_total_unclaimed ?t - mn_rewards_godl ?m"
  obtain fee' where e: "amount + fee' = mn_refined_godl m1 + mn_rewards_godl ?m"
      "m' = m1\<lparr>mn_refined_godl := 0, mn_rewards_godl := 0, mn_last_claim_godl_at := now,
         mn_lifetime_rewards_godl := mn_lifetime_rewards_godl m1 - fee'\<rparr>"
      "tr_total_unclaimed t' = ?tw"
      "tr_miner_rewards_factor t' = (if 0 < ?tw then n_add N ?F (n_from_fraction N fee' ?tw) else ?F)"
      "0 < ?tw \<or> fee' = 0"
    using claim_parts [OF c u] by metis
  have ff: "fee' = fee" using e(1) f by simp
  have st: "mn_settle N ?F ?m = Inr m1" using u ledger_member [OF L i] by (simp add: mn_settle_eq)
  have k: "mn_rewards_factor m1 = ?F" by (rule mn_update_rewards_keeps [OF u])
  have sol: "mi.solvent_at ?F (ms_fees S) (ms_paid S) (ms_miners S)" and vF: "val ?F \<le> real (ms_fees S)"
    using Y by (auto simp: refined_ok_def)
  have sol': "mi.solvent_at ?F (ms_fees S) (ms_paid S + mn_refined_godl m1) ?xs"
    by (rule mi.solvent_touch [OF sol i st]) (simp_all add: e(2) k)
  show ?thesis
  proof (cases "0 < ?tw")
    case False
    then have "fee = 0" using e(5) ff by simp
    with False sol' vF e(4) show ?thesis by (simp add: refined_ok_def)
  next
    case True
    let ?q = "n_from_fraction N fee ?tw"
    have L': "miner_ledger (S\<lparr>ms_miners := ?xs, ms_treasury := t',
        ms_fees := ms_fees S + fee, ms_paid := ms_paid S + mn_refined_godl m1\<rparr>)"
      by (rule ledger_claim [OF L i c u f])
    have b: "fee \<le> u64_max" "?tw \<le> u64_max" using d L by (auto simp: miner_ledger_def)
    have q: "0 \<le> val ?q" "val ?q \<le> real fee / real ?tw" using val_from_fraction [OF b True] by auto
    have "real fee / real ?tw \<le> real fee / 1" using True by (intro divide_left_mono) auto
    with q have q': "val ?q \<le> real fee" by simp
    have F0: "in_range (val ?F)" using sol by (simp add: solvent_def)
    have "real (ms_fees S + fee) \<le> real u64_max" using d by (simp only: of_nat_le_iff)
    with F0 vF q q' have r: "in_range (val ?F + val ?q)" by (auto simp: in_range_def)
    have w: "sum_list (map mn_wt ?xs) \<le> real ?tw"
      using L' e(3) by (simp add: miner_ledger_def sum_mn_wt)
    have "mi.solvent_at (n_add N ?F ?q) (ms_fees S + fee) (ms_paid S + mn_refined_godl m1) ?xs"
      by (rule mi.solvent_distribute [OF sol' True b(2,1) w d r])
    moreover have "val (n_add N ?F ?q) = val ?F + val ?q"
      by (rule val_add [OF F0 from_fraction_range [OF b True] r])
    ultimately show ?thesis using vF q' True e(4) ff by (simp add: refined_ok_def)
  qed
qed

lemma refined_step:
  assumes "mining_step N S S'" "refined_ok val S" "miner_ledger S"
  shows "refined_ok val S'"
  using assms(1)
proof (cases rule: mining_step.cases)
  case (open_miner a)
  have "mi.solvent_at (tr_miner_rewards_factor (ms_treasury S)) (ms_fees S) (ms_paid S)
      (ms_miners S @ [new_miner N a])"
    by (rule mi.solvent_join)
      (use assms(2) in \<open>auto simp: refined_ok_def new_miner_def mn_wt_def val_zero solvent_def in_range_def\<close>)
  with assms(2) show ?thesis unfolding open_miner by (simp add: refined_ok_def)
next
  case (credit i m1 e g m' t')
  show ?thesis unfolding credit(1) by (rule refined_credit [OF assms(2,3) credit(2-4)])
next
  case (claim i now m' t' amount m1 fee)
  show ?thesis unfolding claim(1) by (rule refined_claim [OF assms(2,3) claim(2-6)])
qed

lemma refined_reachable:
  assumes "mining_reachable N S"
  shows "refined_ok val S"
  using assms
proof (induction rule: mining_reachable.induct)
  case (start t)
  then show ?case by (auto simp: refined_ok_def val_zero in_range_def intro!: mi.solvent_empty)
next
  case (step S S')
  show ?case by (rule refined_step [OF step.hyps(2) step.IH miner_ledger_reachable [OF step.hyps(1)]])
qed

text \<open>The settlement of any miner succeeds and stays within the fees still to be paid.\<close>

lemma settle_within_fees:
  assumes R: "mining_reachable N S" and i: "i < length (ms_miners S)"
    and b: "mn_lifetime_rewards_godl (ms_miners S ! i) + ms_fees S \<le> u64_max"
  obtains m1 where "mn_update_rewards N (ms_treasury S) (ms_miners S ! i) = Inr m1"
    "mn_refined_godl m1 \<le> tr_total_refined (ms_treasury S)"
    "mn_lifetime_rewards_godl (ms_miners S ! i) \<le> mn_lifetime_rewards_godl m1"
proof -
  let ?m = "ms_miners S ! i" and ?t = "ms_treasury S"
  let ?F = "tr_miner_rewards_factor ?t" and ?p = "mn_pending N ?t ?m"
  have L: "miner_ledger S" by (rule miner_ledger_reachable [OF R])
  have sol: "mi.solvent_at ?F (ms_fees S) (ms_paid S) (ms_miners S)"
    using refined_reachable [OF R] by (simp add: refined_ok_def)
  have w: "mn_wf ?m" by (rule ledger_member [OF L i])
  have s: "0 \<le> val (mn_rewards_factor ?m)" "val (mn_rewards_factor ?m) \<le> val ?F" "in_range (val ?F)"
    and d: "ms_fees S \<le> u64_max"
    using sol i by (auto simp: solvent_def)
  have o: "mi.owed_at ?F ?m + real (ms_paid S) \<le> real (ms_fees S)"
    by (rule mi.solvent_member [OF sol]) (use i in simp)
  have rd: "real (ms_fees S) \<le> real u64_max" using d by (simp only: of_nat_le_iff)
  have "(val ?F - val (mn_rewards_factor ?m)) * mn_wt ?m \<le> real u64_max"
    using o rd by (simp add: owed_def)
  then have pl: "real ?p \<le> (val ?F - val (mn_rewards_factor ?m)) * mn_wt ?m"
    using w s by (intro mn_pending_le) (auto simp: mn_wf_def)
  have "real (mn_refined_godl ?m + ?p + ms_paid S) \<le> real (ms_fees S)"
    using pl o by (simp add: owed_def)
  then have le: "mn_refined_godl ?m + ?p + ms_paid S \<le> ms_fees S" by (simp only: of_nat_le_iff)
  have sub: "val (n_sub N ?F (mn_rewards_factor ?m)) = val ?F - val (mn_rewards_factor ?m)"
    using s by (intro val_sub) (auto simp: in_range_def)
  have "\<not> n_lt N (n_sub N ?F (mn_rewards_factor ?m)) (n_zero N)"
    using s by (simp add: val_lt sub val_zero)
  moreover have "mn_refined_godl ?m + ?p \<le> u64_max" "mn_lifetime_rewards_godl ?m + ?p \<le> u64_max"
    using le b d by linarith+
  ultimately obtain m1 where m1: "mn_update_rewards N ?t ?m = Inr m1"
    by (auto simp: mn_update_rewards_def mn_pending_def add64_def Let_def split: if_splits)
  have eff: "mn_refined_godl m1 = mn_refined_godl ?m + ?p"
      "mn_lifetime_rewards_godl m1 = mn_lifetime_rewards_godl ?m + ?p"
    by (subst mn_update_rewards_effect [OF m1], simp)+
  show ?thesis
    by (rule that [OF m1]) (use eff le L in \<open>auto simp: miner_ledger_def\<close>)
qed

text \<open>Hence a claim never aborts on its subtractions.\<close>

lemma claim_total:
  assumes R: "mining_reachable N S" and i: "i < length (ms_miners S)"
    and b: "mn_lifetime_rewards_godl (ms_miners S ! i) + ms_fees S \<le> u64_max"
    and g: "ms_fees S + tr_total_unclaimed (ms_treasury S) \<le> u64_max"
  shows "\<exists>m' t' amount. mn_claim_godl N now (ms_treasury S) (ms_miners S ! i) = Inr (m', t', amount)"
proof -
  let ?m = "ms_miners S ! i" and ?t = "ms_treasury S"
  obtain m1 where m1: "mn_update_rewards N ?t ?m = Inr m1" "mn_refined_godl m1 \<le> tr_total_refined ?t"
      "mn_lifetime_rewards_godl ?m \<le> mn_lifetime_rewards_godl m1"
    by (rule settle_within_fees [OF R i b])
  have L: "miner_ledger S" by (rule miner_ledger_reachable [OF R])
  have r: "mn_rewards_godl m1 = mn_rewards_godl ?m" by (rule mn_update_rewards_keeps [OF m1(1)])
  have un: "mn_rewards_godl ?m \<le> tr_total_unclaimed ?t"
    using L elem_le_sum_list_map [OF i, of mn_rewards_godl] by (simp add: miner_ledger_def)
  have rf: "tr_total_refined ?t \<le> ms_fees S" using L by (simp add: miner_ledger_def)
  have lf: "mn_rewards_godl ?m div 10 \<le> mn_lifetime_rewards_godl m1"
    using ledger_member [OF L i] m1(3) by (auto simp: mn_wf_def)
  have a1: "mn_refined_godl m1 + mn_rewards_godl ?m \<le> u64_max"
    and a2: "tr_total_refined ?t - mn_refined_godl m1 + mn_rewards_godl ?m div 10 \<le> u64_max"
    using m1(2) rf g un by linarith+
  then show ?thesis using m1(1,2) un lf
    by (auto simp: mn_claim_godl_def add64_def sub64_def Let_def r)
qed

lemma refined_credited_reachable:
  assumes "mining_reachable N S"
  shows "sum_list (map mn_refined_godl (ms_miners S)) \<le> tr_total_refined (ms_treasury S)"
proof -
  have "mi.solvent_at (tr_miner_rewards_factor (ms_treasury S)) (ms_fees S) (ms_paid S) (ms_miners S)"
    using refined_reachable [OF assms] by (simp add: refined_ok_def)
  then have "sum_list (map mn_refined_godl (ms_miners S)) + ms_paid S \<le> ms_fees S"
    by (rule mi.solvent_accrued)
  then show ?thesis using miner_ledger_reachable [OF assms] by (simp add: miner_ledger_def)
qed

end

end
