(* ===== verification/Gold.thy ===== *)
theory Gold
  imports Mining
begin

text \<open>
  Gold (XAUt0) rewards: \<open>GoldVault::distribute\<close> (\<open>src/api/src/state/gold_vault.rs\<close>), the methods
  of \<open>MinerExtended\<close> (\<open>src/api/src/state/miner_extended.rs\<close>), \<open>SolMotherlode::split_payout\<close>
  (\<open>src/api/src/state/sol_motherlode.rs\<close>) and \<open>sync_gold_rewards\<close> (\<open>src/program/src/gold/mod.rs\<close>);
  then the gold ledger as a state machine that is never over-credited.
\<close>

section \<open>Methods\<close>

definition gv_distribute :: "'n numeric_ops \<Rightarrow> u64 \<Rightarrow> u64 \<Rightarrow> 'n gold_vault \<Rightarrow> ('n gold_vault \<times> u64) result" where
  "gv_distribute N xaut total_unclaimed v =
     and_then (ok_or (checked_add (gv_pending_xaut v) xaut) ArithmeticOverflow) (\<lambda>amount.
     if amount = 0 then Inr (v, 0)
     else if total_unclaimed = 0 then Inr (v\<lparr>gv_pending_xaut := amount\<rparr>, 0)
     else
       and_then (ok_or (checked_mul amount GOLD_FACTOR_SCALE) ArithmeticOverflow) (\<lambda>scaled.
       let v = v\<lparr>gv_xaut_rewards_factor :=
                   n_add N (gv_xaut_rewards_factor v) (n_from_fraction N scaled total_unclaimed),
                 gv_pending_xaut := 0\<rparr> in
       and_then (ok_or (checked_add (gv_total_xaut_distributed v) amount) ArithmeticOverflow) (\<lambda>d.
       Inr (v\<lparr>gv_total_xaut_distributed := d\<rparr>, amount))))"

definition mx_init :: "pubkey \<Rightarrow> 'n gold_vault \<Rightarrow> 'n miner_extended" where
  "mx_init authority v =
     \<lparr>mx_authority = authority, mx_xaut_rewards_factor = gv_xaut_rewards_factor v,
       mx_xaut_rewards = 0, mx_lifetime_xaut = 0, mx_buffer = zero_bytes 32\<rparr>"

definition mx_update_rewards :: "'n numeric_ops \<Rightarrow> 'n gold_vault \<Rightarrow> u64 \<Rightarrow> 'n miner_extended \<Rightarrow> 'n miner_extended result" where
  "mx_update_rewards N v unrefined x =
     and_then
       (if n_lt N (mx_xaut_rewards_factor x) (gv_xaut_rewards_factor v) then
          let accumulated = n_sub N (gv_xaut_rewards_factor v) (mx_xaut_rewards_factor x) in
          if n_lt N accumulated (n_zero N) then Inl Panic
          else
            let personal = n_to_u64 N (n_mul N accumulated (n_from_fraction N unrefined GOLD_FACTOR_SCALE)) in
            and_then (add64 (mx_xaut_rewards x) personal) (\<lambda>r.
            and_then (add64 (mx_lifetime_xaut x) personal) (\<lambda>l.
            Inr (x\<lparr>mx_xaut_rewards := r, mx_lifetime_xaut := l\<rparr>)))
        else Inr x)
       (\<lambda>x. Inr (x\<lparr>mx_xaut_rewards_factor := gv_xaut_rewards_factor v\<rparr>))"

definition mx_claim :: "'n miner_extended \<Rightarrow> 'n miner_extended \<times> u64" where
  "mx_claim x = (x\<lparr>mx_xaut_rewards := 0\<rparr>, mx_xaut_rewards x)"

definition split_payout :: "u64 \<Rightarrow> (u64 \<times> u64) option" where
  "split_payout amount =
     (case checked_mul amount RUSH_SOL_MOTHERLODE_BPS of
        None \<Rightarrow> None
      | Some p \<Rightarrow> let rush = p div DENOMINATOR_BPS in Some (rush, amount - rush))"

text \<open>\<open>sync_gold_rewards\<close>: the miner without an extended account must hold nothing.\<close>

definition sync_gold_rewards :: "'n numeric_ops \<Rightarrow> 'n miner_extended option \<Rightarrow> 'n gold_vault \<Rightarrow> 'n miner
    \<Rightarrow> 'n miner_extended option result" where
  "sync_gold_rewards N extended v m =
     (case extended of
        Some x \<Rightarrow>
          if mx_authority x = mn_authority m
          then and_then (mx_update_rewards N v (mn_rewards_godl m) x) (\<lambda>x. Inr (Some x))
          else Inl Panic
      | None \<Rightarrow> if mn_rewards_godl m = 0 then Inr None else Inl Panic)"

section \<open>Functional facts\<close>

lemma split_payout_spec:
  assumes "split_payout amount = Some (rush, gold)"
  shows "rush + gold = amount" "rush = amount div 10"
proof -
  have "amount * 1000 div 10000 = amount div 10"
    using div_mult_mult2 [of 1000 amount 10] by simp
  with assms show "rush + gold = amount" "rush = amount div 10"
    by (auto simp: split_payout_def bps_consts result_simps Let_def split: option.splits)
qed

lemma gv_distribute_spec:
  assumes "gv_distribute N xaut tot v = Inr (v', amount)"
  shows "gv_total_xaut_distributed v' = gv_total_xaut_distributed v + amount"
    "gv_total_xaut_distributed v' + gv_pending_xaut v' = gv_total_xaut_distributed v + gv_pending_xaut v + xaut"
    "gv_total_xaut_claimed v' = gv_total_xaut_claimed v"
    "gv_xaut_rewards_factor v' = (if amount = 0 then gv_xaut_rewards_factor v
       else n_add N (gv_xaut_rewards_factor v) (n_from_fraction N (amount * GOLD_FACTOR_SCALE) tot))"
    "amount \<noteq> 0 \<Longrightarrow> 0 < tot \<and> amount * GOLD_FACTOR_SCALE \<le> u64_max"
  using assms by (auto simp: gv_distribute_def result_simps Let_def split: if_splits)

lemma mx_update_rewards_keeps:
  assumes "mx_update_rewards N v u x = Inr x'"
  shows "mx_xaut_rewards_factor x' = gv_xaut_rewards_factor v" "mx_authority x' = mx_authority x"
    "mx_xaut_rewards x \<le> mx_xaut_rewards x'"
  using assms by (auto simp: mx_update_rewards_def result_simps Let_def split: if_splits)

section \<open>The gold ledger\<close>

text \<open>A holder is an extended account with the unrefined GODL of its miner. Amounts are counted
  in units of \<open>1 / GOLD_FACTOR_SCALE\<close>, the unit of the rewards factor.\<close>

type_synonym 'n gold_holder = "'n miner_extended \<times> u64"

definition gh_wt :: "'n gold_holder \<Rightarrow> real" where
  "gh_wt h = real (snd h)"

definition gh_snap :: "'n gold_holder \<Rightarrow> 'n" where
  "gh_snap h = mx_xaut_rewards_factor (fst h)"

definition gh_acc :: "'n gold_holder \<Rightarrow> nat" where
  "gh_acc h = mx_xaut_rewards (fst h) * GOLD_FACTOR_SCALE"

definition vault_at :: "'n \<Rightarrow> 'n gold_vault" where
  "vault_at F = \<lparr>gv_xaut_rewards_factor = F, gv_pending_xaut = 0, gv_total_xaut_distributed = 0,
     gv_total_xaut_claimed = 0, gv_total_sol_swapped = 0, gv_buffer = []\<rparr>"

definition gh_settle :: "'n numeric_ops \<Rightarrow> 'n \<Rightarrow> 'n gold_holder \<Rightarrow> 'n gold_holder result" where
  "gh_settle N F h =
     (if snd h \<le> u64_max
      then and_then (mx_update_rewards N (vault_at F) (snd h) (fst h)) (\<lambda>x. Inr (x, snd h))
      else Inl Panic)"

lemma mx_update_rewards_at:
  "mx_update_rewards N v w x = mx_update_rewards N (vault_at (gv_xaut_rewards_factor v)) w x"
  by (simp add: mx_update_rewards_def vault_at_def)

lemma gh_settle_eq:
  "w \<le> u64_max \<Longrightarrow> mx_update_rewards N v w x = Inr x' \<Longrightarrow>
   gh_settle N (gv_xaut_rewards_factor v) (x, w) = Inr (x', w)"
  by (simp add: gh_settle_def mx_update_rewards_at [of N v])

context numeric begin

lemma gh_settle_acc:
  assumes s: "gh_settle N F h = Inr h'"
    and r: "in_range (val F)" "0 \<le> val (gh_snap h)" "val (gh_snap h) \<le> val F"
    and b: "(val F - val (gh_snap h)) * gh_wt h \<le> real u64_max"
  shows "real (gh_acc h') \<le> real (gh_acc h) + (val F - val (gh_snap h)) * gh_wt h"
proof (cases "n_lt N (gh_snap h) F")
  case False
  then have "gh_acc h' = gh_acc h"
    using s by (auto simp: gh_settle_def gh_acc_def gh_snap_def mx_update_rewards_def vault_at_def
        result_simps split: if_splits)
  with r show ?thesis by (simp add: gh_wt_def)
next
  case True
  let ?d = "val F - val (gh_snap h)"
  let ?y = "n_from_fraction N (snd h) GOLD_FACTOR_SCALE"
  let ?p = "n_to_u64 N (n_mul N (n_sub N F (gh_snap h)) ?y)"
  have w: "snd h \<le> u64_max" using s by (auto simp: gh_settle_def split: if_splits)
  have acc: "gh_acc h' = gh_acc h + ?p * GOLD_FACTOR_SCALE"
    using s True by (auto simp: gh_settle_def gh_acc_def gh_snap_def mx_update_rewards_def vault_at_def
        result_simps Let_def algebra_simps split: if_splits)
  have sc: "GOLD_FACTOR_SCALE \<le> u64_max" "0 < GOLD_FACTOR_SCALE" by (simp_all add: GOLD_FACTOR_SCALE_def)
  have y: "0 \<le> val ?y" "val ?y \<le> real (snd h) / real GOLD_FACTOR_SCALE" "in_range (val ?y)"
    using val_from_fraction [OF w sc] from_fraction_range [OF w sc] by auto
  have snap: "in_range (val (gh_snap h))" using r by (simp add: in_range_def)
  have d: "val (n_sub N F (gh_snap h)) = ?d" by (rule val_sub [OF r(1) snap r(3)])
  have dr: "in_range ?d" "0 \<le> ?d" using r by (auto simp: in_range_def)
  have ys: "val ?y * real GOLD_FACTOR_SCALE \<le> real (snd h)"
    using mult_right_mono [OF y(2), of "real GOLD_FACTOR_SCALE"] sc(2) by simp
  have le: "?d * val ?y * real GOLD_FACTOR_SCALE \<le> ?d * gh_wt h"
    using mult_left_mono [OF ys dr(2)] by (simp add: gh_wt_def mult.assoc)
  have "?d * val ?y * 1 \<le> ?d * val ?y * real GOLD_FACTOR_SCALE"
    using dr(2) y(1) by (intro mult_left_mono) (simp_all add: GOLD_FACTOR_SCALE_def)
  with le b have "?d * val ?y \<le> real u64_max" by linarith
  then have "real ?p \<le> ?d * val ?y"
    using mul_to_u64 [of "n_sub N F (gh_snap h)" ?y] dr(1) y(3) by (simp only: d)
  then have "real ?p * real GOLD_FACTOR_SCALE \<le> ?d * val ?y * real GOLD_FACTOR_SCALE"
    by (intro mult_right_mono) simp_all
  with le have "real (?p * GOLD_FACTOR_SCALE) \<le> ?d * gh_wt h" by simp
  then show ?thesis unfolding acc by simp
qed

end

sublocale numeric < gh: reward_index N val gh_wt gh_snap gh_acc "gh_settle N"
proof unfold_locales
  fix F and h h' :: "'n gold_holder"
  show "0 \<le> gh_wt h" by (simp add: gh_wt_def)
  assume s: "gh_settle N F h = Inr h'"
  then show "gh_snap h' = F" "gh_wt h' = gh_wt h"
    by (auto simp: gh_settle_def gh_snap_def gh_wt_def result_simps mx_update_rewards_keeps vault_at_def
        split: if_splits)
  show "real (gh_acc h') \<le> real (gh_acc h) + (val F - val (gh_snap h)) * gh_wt h"
    if "in_range (val F)" "0 \<le> val (gh_snap h)" "val (gh_snap h) \<le> val F"
      "(val F - val (gh_snap h)) * gh_wt h \<le> real u64_max"
    by (rule gh_settle_acc [OF s that])
qed

interpretation fx_gh: reward_index fx_ops fx_val gh_wt gh_snap gh_acc "gh_settle fx_ops"
  by (rule fx.gh.reward_index_axioms)

end
