(* ===== verification/GoldSystem.thy ===== *)
theory GoldSystem
  imports Gold
begin

text \<open>
  The gold vault with all extended accounts as a state machine: gold is bought and distributed
  over the unrefined GODL, extended accounts are opened, settled whenever their miner's unrefined
  GODL changes, and claimed. Reachable states never credit or pay more gold than was distributed,
  and distributed plus pending gold is exactly what was bought.
\<close>

text \<open>\<open>gs_rest\<close> is the unrefined GODL of miners without an extended account; \<open>gs_bought\<close> counts
  the gold that entered the vault.\<close>

record 'n gold_system =
  gs_vault :: "'n gold_vault"
  gs_unclaimed :: u64
  gs_holders :: "'n gold_holder list"
  gs_rest :: u64
  gs_bought :: nat

inductive gold_step :: "'n numeric_ops \<Rightarrow> 'n gold_system \<Rightarrow> 'n gold_system \<Rightarrow> bool"
  for N :: "'n numeric_ops" where
  open_extended: "w \<le> gs_rest S \<Longrightarrow>
    gold_step N S (S\<lparr>gs_holders := gs_holders S @ [(mx_init a (gs_vault S), w)], gs_rest := gs_rest S - w\<rparr>)"
| other_miner: "gs_unclaimed S - gs_rest S + r \<le> u64_max \<Longrightarrow>
    gold_step N S (S\<lparr>gs_unclaimed := gs_unclaimed S - gs_rest S + r, gs_rest := r\<rparr>)"
| settle: "i < length (gs_holders S) \<Longrightarrow> gs_holders S ! i = (x, w) \<Longrightarrow>
    mx_update_rewards N (gs_vault S) w x = Inr x' \<Longrightarrow> gs_unclaimed S - w + w' \<le> u64_max \<Longrightarrow>
    gold_step N S (S\<lparr>gs_holders := (gs_holders S)[i := (x', w')], gs_unclaimed := gs_unclaimed S - w + w'\<rparr>)"
| claim: "i < length (gs_holders S) \<Longrightarrow> gs_holders S ! i = (x, w) \<Longrightarrow>
    mx_update_rewards N (gs_vault S) w x = Inr x1 \<Longrightarrow> mx_claim x1 = (x', amount) \<Longrightarrow>
    checked_add (gv_total_xaut_claimed (gs_vault S)) amount = Some c \<Longrightarrow>
    gold_step N S (S\<lparr>gs_holders := (gs_holders S)[i := (x', w)],
      gs_vault := (gs_vault S)\<lparr>gv_total_xaut_claimed := c\<rparr>\<rparr>)"
| distribute: "gv_distribute N xaut (gs_unclaimed S) (gs_vault S) = Inr (v', amount) \<Longrightarrow>
    gv_total_xaut_distributed v' * GOLD_FACTOR_SCALE \<le> u64_max \<Longrightarrow>
    gold_step N S (S\<lparr>gs_vault := v', gs_bought := gs_bought S + xaut\<rparr>)"

inductive gold_reachable :: "'n numeric_ops \<Rightarrow> 'n gold_system \<Rightarrow> bool" for N :: "'n numeric_ops" where
  start: "gv_xaut_rewards_factor v = n_zero N \<Longrightarrow> gv_pending_xaut v = 0 \<Longrightarrow>
    gv_total_xaut_distributed v = 0 \<Longrightarrow> gv_total_xaut_claimed v = 0 \<Longrightarrow> r \<le> u64_max \<Longrightarrow>
    gold_reachable N \<lparr>gs_vault = v, gs_unclaimed = r, gs_holders = [], gs_rest = r, gs_bought = 0\<rparr>"
| step: "gold_reachable N S \<Longrightarrow> gold_step N S S' \<Longrightarrow> gold_reachable N S'"

section \<open>The invariant\<close>

definition gold_ledger :: "'n gold_system \<Rightarrow> bool" where
  "gold_ledger S \<longleftrightarrow>
     gs_unclaimed S = sum_list (map snd (gs_holders S)) + gs_rest S \<and> gs_unclaimed S \<le> u64_max \<and>
     gv_total_xaut_distributed (gs_vault S) + gv_pending_xaut (gs_vault S) = gs_bought S"

definition gold_ok :: "('n \<Rightarrow> real) \<Rightarrow> 'n gold_system \<Rightarrow> bool" where
  "gold_ok val S \<longleftrightarrow>
     solvent val gh_wt gh_snap gh_acc (gv_xaut_rewards_factor (gs_vault S))
       (gv_total_xaut_distributed (gs_vault S) * GOLD_FACTOR_SCALE)
       (gv_total_xaut_claimed (gs_vault S) * GOLD_FACTOR_SCALE) (gs_holders S) \<and>
     val (gv_xaut_rewards_factor (gs_vault S))
       \<le> real (gv_total_xaut_distributed (gs_vault S) * GOLD_FACTOR_SCALE)"

lemma holder_weight_le: "gold_ledger S \<Longrightarrow> i < length (gs_holders S) \<Longrightarrow> gs_holders S ! i = (x, w) \<Longrightarrow> w \<le> u64_max \<and> w \<le> gs_unclaimed S"
  using elem_le_sum_list_map [of i "gs_holders S" snd] by (simp add: gold_ledger_def)

lemma gold_ledger_step:
  assumes "gold_step N S S'" "gold_ledger S"
  shows "gold_ledger S'"
  using assms(1)
proof (cases rule: gold_step.cases)
  case (settle i x w x' w')
  have "sum_list (map snd ((gs_holders S)[i := (x', w')])) + w = sum_list (map snd (gs_holders S)) + w'"
    using sum_list_update_nat [OF settle(2), of snd "(x', w')"] settle(3) by simp
  moreover have "w \<le> sum_list (map snd (gs_holders S))"
    using elem_le_sum_list_map [OF settle(2), of snd] settle(3) by simp
  ultimately show ?thesis using assms(2) settle by (simp add: gold_ledger_def)
next
  case (claim i x w x1 x' amount c)
  have "sum_list (map snd ((gs_holders S)[i := (x', w)])) + w = sum_list (map snd (gs_holders S)) + w"
    using sum_list_update_nat [OF claim(2), of snd "(x', w)"] claim(3) by simp
  then show ?thesis using assms(2) claim by (simp add: gold_ledger_def)
next
  case (distribute xaut v' amount)
  then show ?thesis using assms(2) gv_distribute_spec(2) [OF distribute(2)] by (simp add: gold_ledger_def)
qed (use assms(2) in \<open>auto simp: gold_ledger_def\<close>)

lemma gold_ledger_reachable:
  assumes "gold_reachable N S"
  shows "gold_ledger S"
  using assms
proof (induction rule: gold_reachable.induct)
  case (start v r)
  then show ?case by (simp add: gold_ledger_def)
next
  case (step S S')
  show ?case by (rule gold_ledger_step [OF step.hyps(2) step.IH])
qed

lemma sum_gh_wt: "sum_list (map gh_wt hs) = real (sum_list (map snd hs))"
  by (induction hs) (simp_all add: gh_wt_def)

context numeric begin

lemma gold_distribute:
  assumes Y: "gold_ok val S" and L: "gold_ledger S"
    and d: "gv_distribute N xaut (gs_unclaimed S) (gs_vault S) = Inr (v', amount)"
    and b: "gv_total_xaut_distributed v' * GOLD_FACTOR_SCALE \<le> u64_max"
  shows "gold_ok val (S\<lparr>gs_vault := v', gs_bought := gs_bought S + xaut\<rparr>)"
proof -
  let ?F = "gv_xaut_rewards_factor (gs_vault S)" and ?tw = "gs_unclaimed S"
  note sp = gv_distribute_spec [OF d]
  have sol: "gh.solvent_at ?F (gv_total_xaut_distributed (gs_vault S) * GOLD_FACTOR_SCALE)
      (gv_total_xaut_claimed (gs_vault S) * GOLD_FACTOR_SCALE) (gs_holders S)"
    and vF: "val ?F \<le> real (gv_total_xaut_distributed (gs_vault S) * GOLD_FACTOR_SCALE)"
    using Y by (auto simp: gold_ok_def)
  show ?thesis
  proof (cases "amount = 0")
    case True
    with Y sp show ?thesis by (simp add: gold_ok_def)
  next
    case False
    let ?a = "amount * GOLD_FACTOR_SCALE"
    let ?q = "n_from_fraction N ?a ?tw"
    have t: "0 < ?tw" "?a \<le> u64_max" using sp(5) [OF False] by auto
    have tw: "?tw \<le> u64_max" using L by (simp add: gold_ledger_def)
    have dd: "gv_total_xaut_distributed (gs_vault S) * GOLD_FACTOR_SCALE + ?a
        = gv_total_xaut_distributed v' * GOLD_FACTOR_SCALE"
      by (simp add: sp(1) algebra_simps)
    have q: "0 \<le> val ?q" "val ?q \<le> real ?a / real ?tw" using val_from_fraction [OF t(2) tw t(1)] by auto
    have "real ?a / real ?tw \<le> real ?a / 1" using t(1) by (intro divide_left_mono) auto
    with q have q': "val ?q \<le> real ?a" by simp
    have F0: "in_range (val ?F)" using sol by (simp add: solvent_def)
    have dr: "real (gv_total_xaut_distributed (gs_vault S) * GOLD_FACTOR_SCALE) + real ?a \<le> real u64_max"
      using b unfolding dd [symmetric] by (simp only: of_nat_le_iff flip: of_nat_add)
    with F0 vF q q' have r: "in_range (val ?F + val ?q)" by (auto simp: in_range_def)
    have w: "sum_list (map gh_wt (gs_holders S)) \<le> real ?tw"
      using L by (simp add: gold_ledger_def sum_gh_wt)
    have "gh.solvent_at (n_add N ?F ?q) (gv_total_xaut_distributed (gs_vault S) * GOLD_FACTOR_SCALE + ?a)
        (gv_total_xaut_claimed (gs_vault S) * GOLD_FACTOR_SCALE) (gs_holders S)"
      by (rule gh.solvent_distribute [OF sol t(1) tw t(2) w _ r]) (use b dd in simp)
    moreover have "val (n_add N ?F ?q) = val ?F + val ?q"
      by (rule val_add [OF F0 from_fraction_range [OF t(2) tw t(1)] r])
    moreover have "val ?F + val ?q \<le> real (gv_total_xaut_distributed v' * GOLD_FACTOR_SCALE)"
      using vF q' unfolding dd [symmetric] by simp
    ultimately show ?thesis using sp(3,4) False by (simp add: gold_ok_def dd)
  qed
qed

lemma gold_step_ok:
  assumes "gold_step N S S'" "gold_ok val S" "gold_ledger S"
  shows "gold_ok val S'"
  using assms(1)
proof (cases rule: gold_step.cases)
  case (open_extended w a)
  have "gh.solvent_at (gv_xaut_rewards_factor (gs_vault S))
      (gv_total_xaut_distributed (gs_vault S) * GOLD_FACTOR_SCALE)
      (gv_total_xaut_claimed (gs_vault S) * GOLD_FACTOR_SCALE) (gs_holders S @ [(mx_init a (gs_vault S), w)])"
    by (rule gh.solvent_new) (use assms(2) in \<open>simp_all add: gold_ok_def gh_snap_def gh_acc_def mx_init_def\<close>)
  with assms(2) show ?thesis unfolding open_extended by (simp add: gold_ok_def)
next
  case (other_miner r)
  with assms(2) show ?thesis by (simp add: gold_ok_def)
next
  case (settle i x w x' w')
  have st: "gh_settle N (gv_xaut_rewards_factor (gs_vault S)) (gs_holders S ! i) = Inr (x', w)"
    unfolding settle(3) using holder_weight_le [OF assms(3) settle(2,3)] by (intro gh_settle_eq settle(4)) simp
  have sol: "gh.solvent_at (gv_xaut_rewards_factor (gs_vault S))
      (gv_total_xaut_distributed (gs_vault S) * GOLD_FACTOR_SCALE)
      (gv_total_xaut_claimed (gs_vault S) * GOLD_FACTOR_SCALE) (gs_holders S)"
    using assms(2) by (simp add: gold_ok_def)
  have "gh.solvent_at (gv_xaut_rewards_factor (gs_vault S))
      (gv_total_xaut_distributed (gs_vault S) * GOLD_FACTOR_SCALE)
      (gv_total_xaut_claimed (gs_vault S) * GOLD_FACTOR_SCALE) ((gs_holders S)[i := (x', w')])"
    by (rule gh.solvent_touch [OF sol settle(2) st])
      (simp_all add: gh_snap_def gh_acc_def mx_update_rewards_keeps [OF settle(4)])
  with assms(2) show ?thesis unfolding settle(1) by (simp add: gold_ok_def)
next
  case (claim i x w x1 x' amount c)
  have st: "gh_settle N (gv_xaut_rewards_factor (gs_vault S)) (gs_holders S ! i) = Inr (x1, w)"
    unfolding claim(3) using holder_weight_le [OF assms(3) claim(2,3)] by (intro gh_settle_eq claim(4)) simp
  have sol: "gh.solvent_at (gv_xaut_rewards_factor (gs_vault S))
      (gv_total_xaut_distributed (gs_vault S) * GOLD_FACTOR_SCALE)
      (gv_total_xaut_claimed (gs_vault S) * GOLD_FACTOR_SCALE) (gs_holders S)"
    using assms(2) by (simp add: gold_ok_def)
  have x': "x' = x1\<lparr>mx_xaut_rewards := 0\<rparr>" "amount = mx_xaut_rewards x1"
    "c = gv_total_xaut_claimed (gs_vault S) + amount"
    using claim(5,6) by (auto simp: mx_claim_def result_simps)
  have "gh.solvent_at (gv_xaut_rewards_factor (gs_vault S))
      (gv_total_xaut_distributed (gs_vault S) * GOLD_FACTOR_SCALE) (c * GOLD_FACTOR_SCALE)
      ((gs_holders S)[i := (x', w)])"
    by (rule gh.solvent_touch [OF sol claim(2) st])
      (simp_all add: gh_snap_def gh_acc_def x' mx_update_rewards_keeps [OF claim(4)] algebra_simps)
  with assms(2) show ?thesis unfolding claim(1) by (simp add: gold_ok_def)
next
  case (distribute xaut v' amount)
  show ?thesis unfolding distribute(1) by (rule gold_distribute [OF assms(2,3) distribute(2,3)])
qed

lemma gold_ok_reachable:
  assumes "gold_reachable N S"
  shows "gold_ok val S"
  using assms
proof (induction rule: gold_reachable.induct)
  case (start v r)
  then show ?case by (auto simp: gold_ok_def val_zero in_range_def intro!: gh.solvent_empty)
next
  case (step S S')
  show ?case by (rule gold_step_ok [OF step.hyps(2) step.IH gold_ledger_reachable [OF step.hyps(1)]])
qed

lemma gold_credited_reachable:
  assumes "gold_reachable N S"
  shows "sum_list (map (\<lambda>h. mx_xaut_rewards (fst h)) (gs_holders S)) + gv_total_xaut_claimed (gs_vault S)
    \<le> gv_total_xaut_distributed (gs_vault S)"
proof -
  have "sum_list (map gh_acc (gs_holders S)) + gv_total_xaut_claimed (gs_vault S) * GOLD_FACTOR_SCALE
      \<le> gv_total_xaut_distributed (gs_vault S) * GOLD_FACTOR_SCALE"
    using gold_ok_reachable [OF assms] unfolding gold_ok_def by (blast intro: gh.solvent_accrued)
  moreover have "sum_list (map gh_acc hs)
      = sum_list (map (\<lambda>h. mx_xaut_rewards (fst h)) hs) * GOLD_FACTOR_SCALE" for hs :: "'n gold_holder list"
    by (induction hs) (simp_all add: gh_acc_def algebra_simps)
  ultimately have "(sum_list (map (\<lambda>h. mx_xaut_rewards (fst h)) (gs_holders S))
      + gv_total_xaut_claimed (gs_vault S)) * GOLD_FACTOR_SCALE
    \<le> gv_total_xaut_distributed (gs_vault S) * GOLD_FACTOR_SCALE"
    by (simp only: add_mult_distrib)
  moreover have "0 < GOLD_FACTOR_SCALE" by (simp add: GOLD_FACTOR_SCALE_def)
  ultimately show ?thesis by (simp only: mult_le_cancel2)
qed

end

end
