(* ===== verification/GoldHandlers.thy ===== *)
theory GoldHandlers
  imports Gold Host
begin

text \<open>
  The handlers of \<open>src/program/src/gold\<close>: the extended miner account, the gold vault, the
  purchase of gold with motherlode SOL and its distribution and claim.
\<close>

section \<open>Extended accounts\<close>

definition load_or_create_miner_extended :: "'n host \<Rightarrow> account_info \<Rightarrow> 'n gold_vault \<Rightarrow> pubkey \<Rightarrow> account_info
    \<Rightarrow> account_info \<Rightarrow> bool \<Rightarrow> 'n world \<Rightarrow> ('n miner_extended option \<times> 'n world) result" where
  "load_or_create_miner_extended H miner_extended_info gold_vault authority payer system_program create w =
     (let seeds = [MINER_EXTENDED, SKey authority] in
     and_then (checks H w [(miner_extended_info, IsWritable), (miner_extended_info, HasSeeds seeds)]) (\<lambda>_.
     if data_is_empty miner_extended_info w then
       (if \<not> create then Inr (None, w)
        else
          and_then (create_program_account H KMinerExtended miner_extended_info system_program payer seeds w) (\<lambda>w.
          and_then (as_miner_extended_mut H miner_extended_info w) (\<lambda>_.
          let extended = mx_init authority gold_vault in
          Inr (Some extended, put miner_extended_info (AMinerExtended extended) w))))
     else
       and_then (as_miner_extended_mut H miner_extended_info w) (\<lambda>extended.
       and_then (ensure H (mx_authority extended = authority)) (\<lambda>_.
       Inr (Some extended, w)))))"

text \<open>\<open>sync_gold_rewards\<close> through the mutable reference: the settled account is written back.\<close>

definition sync_gold :: "'n host \<Rightarrow> account_info \<Rightarrow> 'n miner_extended option \<Rightarrow> 'n gold_vault \<Rightarrow> 'n miner
    \<Rightarrow> 'n world \<Rightarrow> 'n world result" where
  "sync_gold H miner_extended_info extended gold_vault miner w =
     and_then (sync_gold_rewards (h_num H) extended gold_vault miner) (\<lambda>extended.
     Inr (case extended of Some x \<Rightarrow> put miner_extended_info (AMinerExtended x) w | None \<Rightarrow> w))"

definition process_create_miner_extended :: "'n host \<Rightarrow> account_info list \<Rightarrow> 'n world \<Rightarrow> 'n world result" where
  "process_create_miner_extended H accounts w =
     (case accounts of [signer_info, miner_info, miner_extended_info, gold_vault_info, system_program] \<Rightarrow>
       and_then (checks H w [(signer_info, IsSigner)]) (\<lambda>_.
       and_then (as_miner H miner_info w) (\<lambda>miner.
       and_then (checks H w [(miner_info, HasSeeds [MINER, SKey (mn_authority miner)]),
         (gold_vault_info, HasSeeds [GOLD_VAULT])]) (\<lambda>_.
       and_then (as_gold_vault H gold_vault_info w) (\<lambda>gold_vault.
       and_then (checks H w [(system_program, IsProgram SystemProgram)]) (\<lambda>_.
       and_then (load_or_create_miner_extended H miner_extended_info gold_vault (mn_authority miner) signer_info
                   system_program True w) (\<lambda>(_, w).
       Inr w))))))
     | _ \<Rightarrow> Inl NotEnoughAccountKeys)"

section \<open>The vault\<close>

definition new_gold_vault :: "'n numeric_ops \<Rightarrow> 'n gold_vault" where
  "new_gold_vault N = \<lparr>gv_xaut_rewards_factor = n_zero N, gv_pending_xaut = 0,
     gv_total_xaut_distributed = 0, gv_total_xaut_claimed = 0, gv_total_sol_swapped = 0,
     gv_buffer = zero_bytes 32\<rparr>"

definition process_initialize_gold_vault :: "'n host \<Rightarrow> account_info list \<Rightarrow> 'n world \<Rightarrow> 'n world result" where
  "process_initialize_gold_vault H accounts w =
     (case accounts of [signer_info, gold_vault_info, gold_vault_sol_info, gold_vault_xaut_info, sol_mint_info,
         xaut_mint_info, system_program, token_program, associated_token_program] \<Rightarrow>
       and_then (checks H w ([(signer_info, IsSigner), (signer_info, HasAddress DEPLOYER_ADDRESS),
         (gold_vault_info, IsEmpty), (gold_vault_info, IsWritable), (gold_vault_info, HasSeeds [GOLD_VAULT]),
         (gold_vault_sol_info, IsWritable), (gold_vault_xaut_info, IsWritable),
         (sol_mint_info, HasAddress SOL_MINT), (sol_mint_info, AsMint),
         (xaut_mint_info, HasAddress XAUT_MINT), (xaut_mint_info, AsMint)]
         @ token_programs system_program token_program associated_token_program)) (\<lambda>_.
       and_then (create_program_account H KGoldVault gold_vault_info system_program signer_info [GOLD_VAULT] w) (\<lambda>w.
       and_then (as_gold_vault_mut H gold_vault_info w) (\<lambda>_.
       let w = put gold_vault_info (AGoldVault (new_gold_vault (h_num H))) w in
       and_then (open_token_account H signer_info gold_vault_info gold_vault_sol_info sol_mint_info w) (\<lambda>w.
       open_token_account H signer_info gold_vault_info gold_vault_xaut_info xaut_mint_info w))))
     | _ \<Rightarrow> Inl NotEnoughAccountKeys)"

definition process_pre_buy_gold :: "'n host \<Rightarrow> account_info list \<Rightarrow> u64 \<Rightarrow> 'n world \<Rightarrow> 'n world result" where
  "process_pre_buy_gold H accounts amount w =
     and_then (guard (\<not> w_unix_timestamp w < LEGACY_INSTRUCTION_EXPIRY_TS) (Godl GoldDistributionLocked)) (\<lambda>_.
     case accounts of [signer_info, config_info, sol_motherlode_info, gold_vault_info, gold_vault_sol_info,
         system_program, rush_sol_vault_info] \<Rightarrow>
       and_then (checks H w [(signer_info, IsSigner)]) (\<lambda>_.
       and_then (as_config H config_info w) (\<lambda>config.
       and_then (ensure H (cfg_bury_authority config = ai_key signer_info)) (\<lambda>_.
       and_then (checks H w [(sol_motherlode_info, IsWritable), (sol_motherlode_info, HasSeeds [SOL_MOTHERLODE])]) (\<lambda>_.
       and_then (as_sol_motherlode_mut H sol_motherlode_info w) (\<lambda>sol_motherlode.
       and_then (checks H w [(gold_vault_info, HasSeeds [GOLD_VAULT])]) (\<lambda>_.
       and_then (as_gold_vault H gold_vault_info w) (\<lambda>_.
       and_then (checks H w [(gold_vault_sol_info, IsWritable)]) (\<lambda>_.
       and_then (as_associated_token_account (ai_key gold_vault_info) SOL_MINT H gold_vault_sol_info w) (\<lambda>_.
       and_then (checks H w [(system_program, IsProgram SystemProgram), (rush_sol_vault_info, IsWritable),
         (rush_sol_vault_info, HasAddress RUSH_SOL_VAULT)]) (\<lambda>_.
       and_then (guard (amount \<noteq> 0) (Godl AmountTooSmall)) (\<lambda>_.
       and_then (guard (\<not> amount > sm_amount sol_motherlode) (Godl InsufficientMotherlodeBalance)) (\<lambda>_.
       and_then (add64 (h_minimum_balance H (8 + size_of_sol_motherlode)) amount) (\<lambda>needed.
       and_then (guard (\<not> lamports sol_motherlode_info w < needed) (Godl InsufficientMotherlodeBalance)) (\<lambda>_.
       and_then (ok_or (split_payout amount) ArithmeticOverflow) (\<lambda>(rush_amount, gold_amount).
       and_then (send H sol_motherlode_info rush_amount rush_sol_vault_info w) (\<lambda>w.
       and_then (send H sol_motherlode_info gold_amount gold_vault_sol_info w) (\<lambda>w.
       and_then (sub64 (sm_amount sol_motherlode) amount) (\<lambda>rest.
       Inr (put sol_motherlode_info (ASolMotherlode (sol_motherlode\<lparr>sm_amount := rest\<rparr>)) w)))))))))))))))))))
     | _ \<Rightarrow> Inl NotEnoughAccountKeys)"

text \<open>\<open>process_buy_gold\<close> in two parts: the swap with its before-and-after checks returns what was
  spent and bought, the rest distributes it. \<open>process_bury\<close> shares the account metas.\<close>

definition swap_metas :: "account_info \<Rightarrow> account_info list \<Rightarrow> account_meta list" where
  "swap_metas taker accounts =
     map (\<lambda>a. \<lparr>am_pubkey = ai_key a, am_is_signer = (ai_key a = ai_key taker), am_is_writable = ai_is_writable a\<rparr>)
       accounts"

definition buy_gold_swap :: "'n host \<Rightarrow> account_info \<Rightarrow> account_info \<Rightarrow> account_info \<Rightarrow> pubkey
    \<Rightarrow> account_info list \<Rightarrow> byte list \<Rightarrow> u64 \<Rightarrow> 'n world \<Rightarrow> (u64 \<times> u64 \<times> 'n world) result" where
  "buy_gold_swap H gold_vault_info gold_vault_sol_info gold_vault_xaut_info swap_program swap_accounts
       swap_data min_xaut_out w =
     and_then (h_call H (SyncNative (ai_key gold_vault_sol_info)) w) (\<lambda>w.
     and_then (as_associated_token_account (ai_key gold_vault_info) SOL_MINT H gold_vault_sol_info w) (\<lambda>pre_sol.
     and_then (as_associated_token_account (ai_key gold_vault_info) XAUT_MINT H gold_vault_xaut_info w) (\<lambda>pre_xaut.
     let pre_lamports = lamports gold_vault_info w in
     and_then (assert_panic (tk_amount pre_sol > 0)) (\<lambda>_.
     and_then (h_call H (InvokeSwap swap_program (swap_metas gold_vault_info swap_accounts) swap_data [GOLD_VAULT]) w) (\<lambda>w.
     and_then (assert_panic (lamports gold_vault_info w = pre_lamports)) (\<lambda>_.
     and_then (as_associated_token_account (ai_key gold_vault_info) SOL_MINT H gold_vault_sol_info w) (\<lambda>post_sol.
     and_then (as_associated_token_account (ai_key gold_vault_info) XAUT_MINT H gold_vault_xaut_info w) (\<lambda>post_xaut.
     and_then (assert_panic (tk_amount post_sol = 0)) (\<lambda>_.
     and_then (assert_panic (tk_amount post_xaut \<ge> tk_amount pre_xaut)) (\<lambda>_.
     let xaut_amount = tk_amount post_xaut - tk_amount pre_xaut in
     and_then (guard (\<not> (xaut_amount < min_xaut_out \<or> xaut_amount = 0)) (Godl GoldSlippageExceeded)) (\<lambda>_.
     Inr (tk_amount pre_sol, xaut_amount, w))))))))))))"

definition process_buy_gold :: "'n host \<Rightarrow> account_info list \<Rightarrow> u64 \<Rightarrow> byte list \<Rightarrow> 'n world \<Rightarrow> 'n world result" where
  "process_buy_gold H accounts min_xaut_out swap_data w =
     (let now = w_unix_timestamp w in
     and_then (guard (\<not> now < LEGACY_INSTRUCTION_EXPIRY_TS) (Godl GoldDistributionLocked)) (\<lambda>_.
     and_then (split_at 10 accounts) (\<lambda>(godl_accounts, swap_accounts).
     case godl_accounts of [signer_info, board_info, config_info, treasury_info, gold_vault_info,
         gold_vault_sol_info, gold_vault_xaut_info, xaut_mint_info, token_program, godl_program] \<Rightarrow>
       and_then (checks H w [(signer_info, IsSigner)]) (\<lambda>_.
       and_then (as_board_mut H board_info w) (\<lambda>_.
       and_then (as_config H config_info w) (\<lambda>config.
       and_then (ensure H (cfg_bury_authority config = ai_key signer_info)) (\<lambda>_.
       and_then (as_treasury H treasury_info w) (\<lambda>treasury.
       and_then (checks H w [(gold_vault_info, IsWritable), (gold_vault_info, HasSeeds [GOLD_VAULT])]) (\<lambda>_.
       and_then (as_gold_vault_mut H gold_vault_info w) (\<lambda>gold_vault.
       and_then (checks H w [(gold_vault_sol_info, IsWritable)]) (\<lambda>_.
       and_then (as_associated_token_account (ai_key gold_vault_info) SOL_MINT H gold_vault_sol_info w) (\<lambda>_.
       and_then (checks H w [(gold_vault_xaut_info, IsWritable)]) (\<lambda>_.
       and_then (as_associated_token_account (ai_key gold_vault_info) XAUT_MINT H gold_vault_xaut_info w) (\<lambda>_.
       and_then (checks H w [(xaut_mint_info, HasAddress XAUT_MINT), (xaut_mint_info, AsMint),
         (token_program, IsProgram TokenProgram), (godl_program, IsProgram GodlProgram)]) (\<lambda>_.
       and_then (buy_gold_swap H gold_vault_info gold_vault_sol_info gold_vault_xaut_info
                   (cfg_swap_program config) swap_accounts swap_data min_xaut_out w) (\<lambda>(sol_amount, xaut_amount, w).
       and_then (gv_distribute (h_num H) xaut_amount (tr_total_unclaimed treasury) gold_vault) (\<lambda>(gold_vault, distributed).
       and_then (ok_or (checked_add (gv_total_sol_swapped gold_vault) sol_amount) ArithmeticOverflow) (\<lambda>swapped.
       let w = put gold_vault_info (AGoldVault (gold_vault\<lparr>gv_total_sol_swapped := swapped\<rparr>)) w in
       h_call H (ProgramLog (BuyGoldEvent \<lparr>gev_disc = 3, gev_sol_amount = sol_amount,
         gev_xaut_amount = xaut_amount, gev_xaut_distributed = distributed,
         gev_total_unclaimed = tr_total_unclaimed treasury, gev_ts = now\<rparr>)) w)))))))))))))))
     | _ \<Rightarrow> Inl NotEnoughAccountKeys)))"

definition process_deposit_gold :: "'n host \<Rightarrow> account_info list \<Rightarrow> u64 \<Rightarrow> 'n world \<Rightarrow> 'n world result" where
  "process_deposit_gold H accounts amount w =
     (let now = w_unix_timestamp w in
     and_then (guard (\<not> now < LEGACY_INSTRUCTION_EXPIRY_TS) (Godl GoldDistributionLocked)) (\<lambda>_.
     case accounts of [signer_info, board_info, config_info, treasury_info, gold_vault_info, signer_xaut_info,
         gold_vault_xaut_info, xaut_mint_info, token_program, godl_program] \<Rightarrow>
       and_then (checks H w [(signer_info, IsSigner)]) (\<lambda>_.
       and_then (as_board_mut H board_info w) (\<lambda>_.
       and_then (as_config H config_info w) (\<lambda>config.
       and_then (ensure H (cfg_bury_authority config = ai_key signer_info)) (\<lambda>_.
       and_then (as_treasury H treasury_info w) (\<lambda>treasury.
       and_then (checks H w [(gold_vault_info, IsWritable), (gold_vault_info, HasSeeds [GOLD_VAULT])]) (\<lambda>_.
       and_then (as_gold_vault_mut H gold_vault_info w) (\<lambda>gold_vault.
       and_then (checks H w [(signer_xaut_info, IsWritable)]) (\<lambda>_.
       and_then (as_associated_token_account (ai_key signer_info) XAUT_MINT H signer_xaut_info w) (\<lambda>_.
       and_then (checks H w [(gold_vault_xaut_info, IsWritable)]) (\<lambda>_.
       and_then (as_associated_token_account (ai_key gold_vault_info) XAUT_MINT H gold_vault_xaut_info w) (\<lambda>_.
       and_then (checks H w [(xaut_mint_info, HasAddress XAUT_MINT), (xaut_mint_info, AsMint),
         (token_program, IsProgram TokenProgram), (godl_program, IsProgram GodlProgram)]) (\<lambda>_.
       and_then (guard (amount \<noteq> 0) (Godl AmountTooSmall)) (\<lambda>_.
       and_then (transfer H signer_info signer_xaut_info gold_vault_xaut_info amount w) (\<lambda>w.
       and_then (gv_distribute (h_num H) amount (tr_total_unclaimed treasury) gold_vault) (\<lambda>(gold_vault, distributed).
       let w = put gold_vault_info (AGoldVault gold_vault) w in
       h_call H (ProgramLog (BuyGoldEvent \<lparr>gev_disc = 3, gev_sol_amount = 0, gev_xaut_amount = amount,
         gev_xaut_distributed = distributed, gev_total_unclaimed = tr_total_unclaimed treasury,
         gev_ts = now\<rparr>)) w)))))))))))))))
     | _ \<Rightarrow> Inl NotEnoughAccountKeys))"

definition process_claim_gold :: "'n host \<Rightarrow> account_info list \<Rightarrow> 'n world \<Rightarrow> 'n world result" where
  "process_claim_gold H accounts w =
     (case accounts of [signer_info, miner_info, miner_extended_info, gold_vault_info, gold_vault_xaut_info,
         recipient_info, xaut_mint_info, system_program, token_program, associated_token_program] \<Rightarrow>
       and_then (checks H w [(signer_info, IsSigner)]) (\<lambda>_.
       and_then (as_miner H miner_info w) (\<lambda>miner.
       and_then (ensure H (mn_authority miner = ai_key signer_info)) (\<lambda>_.
       and_then (checks H w [(miner_info, HasSeeds [MINER, SKey (mn_authority miner)]),
         (gold_vault_info, IsWritable), (gold_vault_info, HasSeeds [GOLD_VAULT])]) (\<lambda>_.
       and_then (as_gold_vault_mut H gold_vault_info w) (\<lambda>gold_vault.
       and_then (checks H w [(gold_vault_xaut_info, IsWritable)]) (\<lambda>_.
       and_then (as_associated_token_account (ai_key gold_vault_info) XAUT_MINT H gold_vault_xaut_info w) (\<lambda>_.
       and_then (checks H w ([(recipient_info, IsWritable), (xaut_mint_info, HasAddress XAUT_MINT),
         (xaut_mint_info, AsMint)] @ token_programs system_program token_program associated_token_program)) (\<lambda>_.
       and_then (load_or_create_miner_extended H miner_extended_info gold_vault (mn_authority miner) signer_info
                   system_program True w) (\<lambda>(extended, w).
       and_then (ok_or extended InvalidAccountData) (\<lambda>extended.
       and_then (mx_update_rewards (h_num H) gold_vault (mn_rewards_godl miner) extended) (\<lambda>extended.
       let (extended, amount) = mx_claim extended in
       and_then (ok_or (checked_add (gv_total_xaut_claimed gold_vault) amount) ArithmeticOverflow) (\<lambda>claimed.
       let w = put gold_vault_info (AGoldVault (gold_vault\<lparr>gv_total_xaut_claimed := claimed\<rparr>))
                 (put miner_extended_info (AMinerExtended extended) w) in
       if amount = 0 then Inr w
       else
         and_then (open_token_account H signer_info signer_info recipient_info xaut_mint_info w) (\<lambda>w.
         transfer_signed H gold_vault_info gold_vault_xaut_info recipient_info amount [GOLD_VAULT] w)))))))))))))
     | _ \<Rightarrow> Inl NotEnoughAccountKeys)"

end
