(* ===== verification/Referral.thy ===== *)
theory Referral
  imports GoldHandlers
begin

text \<open>
  Referrers and claims: the handlers of \<open>src/program/src/referral\<close> and the claim handlers of
  \<open>src/program/src/miner\<close> (\<open>claim_sol.rs\<close>, \<open>claim_godl.rs\<close>) that pay a share to the referrer.
\<close>

section \<open>Referrer accounts\<close>

definition process_initialize_referrer :: "'n host \<Rightarrow> account_info list \<Rightarrow> 'n world \<Rightarrow> 'n world result" where
  "process_initialize_referrer H accounts w =
     (case accounts of [authority_info, referrer_info, referrer_tokens_info, mint_info, system_program,
         token_program, associated_token_program] \<Rightarrow>
       let seeds = [REFERRER, SKey (ai_key authority_info)] in
       and_then (checks H w ([(authority_info, IsSigner), (referrer_info, IsWritable),
         (referrer_tokens_info, IsWritable), (referrer_info, IsEmpty), (referrer_info, HasSeeds seeds),
         (mint_info, HasAddress MINT_ADDRESS), (mint_info, AsMint)]
         @ token_programs system_program token_program associated_token_program)) (\<lambda>_.
       and_then (create_program_account H KReferrer referrer_info system_program authority_info seeds w) (\<lambda>w.
       and_then (as_referrer_mut H referrer_info w) (\<lambda>_.
       let w = put referrer_info (AReferrer \<lparr>rf_authority = ai_key authority_info, rf_rewards_sol = 0,
         rf_rewards_godl = 0, rf_cumulative_rewards_sol = 0, rf_cumulative_rewards_godl = 0,
         rf_referrer_count = 0\<rparr>) w in
       open_token_account H authority_info referrer_info referrer_tokens_info mint_info w)))
     | _ \<Rightarrow> Inl NotEnoughAccountKeys)"

definition process_set_referrer :: "'n host \<Rightarrow> account_info list \<Rightarrow> pubkey \<Rightarrow> 'n world \<Rightarrow> 'n world result" where
  "process_set_referrer H accounts desired_referrer w =
     (case accounts of authority_info # miner_info # rest \<Rightarrow>
       and_then (checks H w [(authority_info, IsSigner)]) (\<lambda>_.
       and_then (as_miner_mut H miner_info w) (\<lambda>miner.
       and_then (guard (mn_authority miner = ai_key authority_info) (Godl NotAuthorized)) (\<lambda>_.
       if mn_referrer miner \<noteq> pubkey_default then Inr w
       else if desired_referrer = pubkey_default then
         Inr (put miner_info (AMiner (miner\<lparr>mn_referrer := REFERRER_LOCKED_SENTINEL\<rparr>)) w)
       else if desired_referrer = REFERRER_LOCKED_SENTINEL then Inl (Godl InvalidReferrerAccount)
       else (case rest of [referrer_info] \<Rightarrow>
         and_then (as_referrer_mut H referrer_info w) (\<lambda>referrer.
         and_then (checks H w [(referrer_info, IsWritable), (referrer_info, HasAddress desired_referrer),
           (referrer_info, HasSeeds [REFERRER, SKey (rf_authority referrer)])]) (\<lambda>_.
         and_then (guard (rf_authority referrer \<noteq> mn_authority miner) (Godl InvalidReferrerAccount)) (\<lambda>_.
         and_then (ok_or (checked_add (rf_referrer_count referrer) 1) InvalidArgument) (\<lambda>count.
         Inr (put miner_info (AMiner (miner\<lparr>mn_referrer := ai_key referrer_info\<rparr>))
               (put referrer_info (AReferrer (referrer\<lparr>rf_referrer_count := count\<rparr>)) w))))))
         | _ \<Rightarrow> Inl NotEnoughAccountKeys))))
     | _ \<Rightarrow> Inl NotEnoughAccountKeys)"

definition process_claim_referral :: "'n host \<Rightarrow> account_info list \<Rightarrow> 'n world \<Rightarrow> 'n world result" where
  "process_claim_referral H accounts w =
     (case accounts of [authority_info, referrer_info, referrer_tokens_info, authority_tokens_info, mint_info,
         system_program, token_program, associated_token_program] \<Rightarrow>
       let seeds = [REFERRER, SKey (ai_key authority_info)] in
       and_then (checks H w ([(authority_info, IsSigner), (referrer_info, IsWritable),
         (referrer_tokens_info, IsWritable), (authority_tokens_info, IsWritable),
         (mint_info, HasAddress MINT_ADDRESS), (mint_info, AsMint)]
         @ token_programs system_program token_program associated_token_program
         @ [(referrer_info, HasSeeds seeds)])) (\<lambda>_.
       and_then (as_referrer_mut H referrer_info w) (\<lambda>referrer.
       and_then (guard (rf_authority referrer = ai_key authority_info) (Godl NotAuthorized)) (\<lambda>_.
       and_then (as_associated_token_account (ai_key referrer_info) (ai_key mint_info) H referrer_tokens_info w) (\<lambda>_.
       and_then (open_token_account H authority_info authority_info authority_tokens_info mint_info w) (\<lambda>w.
       let godl_amount = rf_rewards_godl referrer; sol_amount = rf_rewards_sol referrer in
       if godl_amount = 0 \<and> sol_amount = 0 then Inr w
       else
         let w = put referrer_info (AReferrer (referrer\<lparr>rf_rewards_godl := 0, rf_rewards_sol := 0\<rparr>)) w in
         and_then (if godl_amount > 0
                   then transfer_signed H referrer_info referrer_tokens_info authority_tokens_info godl_amount seeds w
                   else Inr w) (\<lambda>w.
         if sol_amount > 0 then send H referrer_info sol_amount authority_info w else Inr w))))))
     | _ \<Rightarrow> Inl NotEnoughAccountKeys)"

section \<open>Claims\<close>

text \<open>The referrer account of a claim: it must be the one the miner chose, at its own address.\<close>

definition load_referrer :: "'n host \<Rightarrow> account_info \<Rightarrow> pubkey \<Rightarrow> 'n world \<Rightarrow> referrer result" where
  "load_referrer H referrer_info referrer_pubkey w =
     and_then (as_referrer_mut H referrer_info w) (\<lambda>referrer.
     and_then (checks H w [(referrer_info, IsWritable), (referrer_info, HasAddress referrer_pubkey),
       (referrer_info, HasSeeds [REFERRER, SKey (rf_authority referrer)])]) (\<lambda>_.
     Inr referrer))"

text \<open>The SOL leg to the referrer, shared by \<open>process_claim_sol\<close> and
  \<open>process_claim_sol_and_fund_automation\<close>.\<close>

definition pay_referrer_sol :: "'n host \<Rightarrow> account_info \<Rightarrow> 'n miner \<Rightarrow> u64 \<Rightarrow> account_info list
    \<Rightarrow> 'n world \<Rightarrow> 'n world result" where
  "pay_referrer_sol H miner_info miner referral_amount rest w =
     (case referrer_account miner of
       Some referrer_pubkey \<Rightarrow>
         (case rest of [referrer_info] \<Rightarrow>
           and_then (load_referrer H referrer_info referrer_pubkey w) (\<lambda>referrer.
           and_then (ok_or (checked_add (rf_rewards_sol referrer) referral_amount) InvalidInstructionData) (\<lambda>rewards.
           and_then (ok_or (checked_add (rf_cumulative_rewards_sol referrer) referral_amount) InvalidInstructionData) (\<lambda>cumulative.
           let w = put referrer_info (AReferrer (referrer\<lparr>rf_rewards_sol := rewards,
                 rf_cumulative_rewards_sol := cumulative\<rparr>)) w in
           send H miner_info referral_amount referrer_info w)))
         | _ \<Rightarrow> Inl NotEnoughAccountKeys)
     | None \<Rightarrow> if rest \<noteq> [] then Inl (Godl InvalidReferrerAccount) else Inr w)"

definition process_claim_sol :: "'n host \<Rightarrow> account_info list \<Rightarrow> 'n world \<Rightarrow> 'n world result" where
  "process_claim_sol H accounts w =
     (case accounts of signer_info # miner_info # system_program # rest \<Rightarrow>
       and_then (checks H w [(signer_info, IsSigner)]) (\<lambda>_.
       and_then (as_miner_mut H miner_info w) (\<lambda>miner.
       and_then (ensure H (mn_authority miner = ai_key signer_info)) (\<lambda>_.
       and_then (checks H w [(system_program, IsProgram SystemProgram)]) (\<lambda>_.
       let (miner, amount) = mn_claim_sol (w_unix_timestamp w) miner;
           w = put miner_info (AMiner miner) w in
       and_then (referral_split REFERRAL_BPS (referrer_account miner) amount) (\<lambda>(referral_amount, miner_amount).
       and_then (pay_referrer_sol H miner_info miner referral_amount rest w) (\<lambda>w.
       if miner_amount > 0 then send H miner_info miner_amount signer_info w else Inr w))))))
     | _ \<Rightarrow> Inl NotEnoughAccountKeys)"

definition pay_referrer_godl :: "'n host \<Rightarrow> account_info \<Rightarrow> account_info \<Rightarrow> account_info \<Rightarrow> 'n miner \<Rightarrow> u64
    \<Rightarrow> account_info list \<Rightarrow> 'n world \<Rightarrow> 'n world result" where
  "pay_referrer_godl H treasury_info treasury_tokens_info mint_info miner referral_amount rest w =
     (case referrer_account miner of
       Some referrer_pubkey \<Rightarrow>
         (case rest of [referrer_info, referrer_tokens_info] \<Rightarrow>
           and_then (load_referrer H referrer_info referrer_pubkey w) (\<lambda>referrer.
           and_then (checks H w [(referrer_tokens_info, IsWritable)]) (\<lambda>_.
           and_then (as_associated_token_account (ai_key referrer_info) (ai_key mint_info) H referrer_tokens_info w) (\<lambda>_.
           and_then (ok_or (checked_add (rf_rewards_godl referrer) referral_amount) InvalidInstructionData) (\<lambda>rewards.
           and_then (ok_or (checked_add (rf_cumulative_rewards_godl referrer) referral_amount) InvalidInstructionData) (\<lambda>cumulative.
           let w = put referrer_info (AReferrer (referrer\<lparr>rf_rewards_godl := rewards,
                 rf_cumulative_rewards_godl := cumulative\<rparr>)) w in
           transfer_signed H treasury_info treasury_tokens_info referrer_tokens_info referral_amount [TREASURY] w)))))
         | _ \<Rightarrow> Inl NotEnoughAccountKeys)
     | None \<Rightarrow> if rest \<noteq> [] then Inl (Godl InvalidReferrerAccount) else Inr w)"

definition process_claim_godl :: "'n host \<Rightarrow> account_info list \<Rightarrow> 'n world \<Rightarrow> 'n world result" where
  "process_claim_godl H accounts w =
     (case accounts of signer_info # config_info # miner_info # mint_info # recipient_info # treasury_info
         # treasury_tokens_info # system_program # token_program # associated_token_program # gold_vault_info
         # miner_extended_info # rest \<Rightarrow>
       let now = w_unix_timestamp w in
       and_then (checks H w [(signer_info, IsSigner)]) (\<lambda>_.
       and_then (as_miner_mut H miner_info w) (\<lambda>miner.
       and_then (ensure H (mn_authority miner = ai_key signer_info)) (\<lambda>_.
       and_then (checks H w [(mint_info, HasAddress MINT_ADDRESS), (mint_info, AsMint),
         (recipient_info, IsWritable)]) (\<lambda>_.
       and_then (as_treasury_mut H treasury_info w) (\<lambda>treasury.
       and_then (as_associated_token_account (ai_key treasury_info) (ai_key mint_info) H treasury_tokens_info w) (\<lambda>_.
       and_then (checks H w (token_programs system_program token_program associated_token_program
         @ [(gold_vault_info, HasSeeds [GOLD_VAULT])])) (\<lambda>_.
       and_then (as_gold_vault H gold_vault_info w) (\<lambda>gold_vault.
       and_then (load_or_create_miner_extended H miner_extended_info gold_vault (mn_authority miner) signer_info
                   system_program (mn_rewards_godl miner > 0) w) (\<lambda>(extended, w).
       and_then (open_token_account H signer_info signer_info recipient_info mint_info w) (\<lambda>w.
       and_then (sync_gold H miner_extended_info extended gold_vault miner w) (\<lambda>w.
       and_then (mn_claim_godl (h_num H) now treasury miner) (\<lambda>(miner, treasury, amount).
       let w = put treasury_info (ATreasury treasury) (put miner_info (AMiner miner) w) in
       and_then (referral_split REFERRAL_BPS (referrer_account miner) amount) (\<lambda>(referral_amount, miner_amount).
       and_then (pay_referrer_godl H treasury_info treasury_tokens_info mint_info miner referral_amount rest w) (\<lambda>w.
       if miner_amount > 0
       then transfer_signed H treasury_info treasury_tokens_info recipient_info miner_amount [TREASURY] w
       else Inr w))))))))))))))
     | _ \<Rightarrow> Inl NotEnoughAccountKeys)"

section \<open>What a choice of a referrer writes\<close>

lemma set_referrer_cases:
  assumes "process_set_referrer H accounts k w = Inr w'"
  obtains (same) "w' = w"
    | (locked) m x where "w_data w (ai_key m) = AMiner x" "w' = put m (AMiner (x\<lparr>mn_referrer := REFERRER_LOCKED_SENTINEL\<rparr>)) w"
    | (chosen) m x r rf i where "w_data w (ai_key m) = AMiner x" "w_data w (ai_key r) = AReferrer rf"
        "w' = put m (AMiner (x\<lparr>mn_referrer := ai_key r\<rparr>)) (put r (AReferrer (rf\<lparr>rf_referrer_count := i\<rparr>)) w)"
proof -
  from assms show thesis unfolding process_set_referrer_def
    apply (cases accounts, simp, rename_tac a l, case_tac l, simp, rename_tac m rest)
    apply (simp only: list.case)
    apply (elim and_thenE)
    apply (simp add: load_eq_Inr split: if_splits)
      apply (rule same, (simp; fail))
     apply (rule locked, assumption, (simp; fail))
    apply (elim list1E and_thenE)
    apply (simp add: load_eq_Inr)
    apply (elim conjE, rule chosen, assumption, assumption, erule sym)
    done
qed

end
