(* ===== verification/Automation.thy ===== *)
theory Automation
  imports Referral
begin

text \<open>
  Automated deployments: the packed configuration of \<open>AutomationV2\<close>
  (\<open>src/api/src/state/automation_v2.rs\<close>), the pool ledgers (\<open>pool_member.rs\<close>,
  \<open>pool_round.rs\<close>) and the handlers of \<open>src/program/src/automation\<close>.
\<close>

section \<open>Packed configuration\<close>

datatype automation_v2_strategy = Random | Preferred

text \<open>Byte 0 is the strategy; a byte that is no strategy makes \<open>try_from(..).unwrap()\<close> abort.\<close>

definition strategy_from_config :: "64 word \<Rightarrow> automation_v2_strategy result" where
  "strategy_from_config config =
     (let strat_byte = and config 255 in
      if strat_byte = 0 then Inr Random else if strat_byte = 1 then Inr Preferred else Inl Panic)"

definition strategy_code :: "automation_v2_strategy \<Rightarrow> 64 word" where
  "strategy_code s = (case s of Random \<Rightarrow> 0 | Preferred \<Rightarrow> 1)"

definition config_byte :: "64 word \<Rightarrow> nat \<Rightarrow> 64 word" where
  "config_byte config index = and (drop_bit (index * 8) config) 255"

definition set_config_byte :: "nat \<Rightarrow> 64 word \<Rightarrow> automation_v2 \<Rightarrow> automation_v2" where
  "set_config_byte index v a =
     a\<lparr>au_config := or (and (au_config a) (not (push_bit (index * 8) 255))) (push_bit (index * 8) v)\<rparr>"

definition get_strategy :: "automation_v2 \<Rightarrow> automation_v2_strategy result" where
  "get_strategy a = strategy_from_config (au_config a)"

definition set_strategy :: "automation_v2_strategy \<Rightarrow> automation_v2 \<Rightarrow> automation_v2" where
  "set_strategy s a = set_config_byte 0 (strategy_code s) a"

definition get_claim_and_fund :: "automation_v2 \<Rightarrow> bool" where
  "get_claim_and_fund a \<longleftrightarrow> config_byte (au_config a) 1 \<noteq> 0"

definition set_claim_and_fund :: "bool \<Rightarrow> automation_v2 \<Rightarrow> automation_v2" where
  "set_claim_and_fund enabled a = set_config_byte 1 (if enabled then 1 else 0) a"

definition get_is_pooled :: "automation_v2 \<Rightarrow> bool" where
  "get_is_pooled a \<longleftrightarrow> config_byte (au_config a) 2 \<noteq> 0"

definition set_is_pooled :: "bool \<Rightarrow> automation_v2 \<Rightarrow> automation_v2" where
  "set_is_pooled enabled a = set_config_byte 2 (if enabled then 1 else 0) a"

text \<open>Writing byte \<open>i\<close> and reading byte \<open>j\<close>: the fields do not disturb each other.\<close>

lemma config_byte_set:
  assumes "i < 8" "j < 8" "and v 255 = v"
  shows "config_byte (au_config (set_config_byte i v a)) j =
    (if j = i then v else config_byte (au_config a) j)"
proof -
  have e: "(255 :: 64 word) = mask 8" by (simp add: mask_eq_exp_minus_1)
  have "v = take_bit 8 v" using assms(3) by (simp add: e take_bit_eq_mask)
  then have v8: "n < 8" if "bit v n" for n
    using that by (metis bit_take_bit_iff)
  have far: "\<not> (i * 8 \<le> j * 8 + n \<and> j * 8 + n - i * 8 < 8)" if "j \<noteq> i" "n < 8" for n
    using that by auto
  show ?thesis
  proof (rule bit_word_eqI)
    fix n assume n: "n < LENGTH(64)"
    show "bit (config_byte (au_config (set_config_byte i v a)) j) n
        = bit (if j = i then v else config_byte (au_config a) j) n"
    proof (cases "n < 8")
      case False
      then show ?thesis using v8 [of n]
        by (auto simp: config_byte_def e bit_and_iff bit_mask_iff)
    next
      case True
      have l: "j * 8 + n < 64" using assms(2) True by simp
      have "\<not> bit v (j * 8 + n - i * 8) \<or> \<not> i * 8 \<le> j * 8 + n" if "j \<noteq> i"
        using far [OF that True] v8 by blast
      with True l far [OF _ True] show ?thesis
        by (auto simp: config_byte_def set_config_byte_def e bit_simps)
    qed
  qed
qed

lemma set_config_byte_frame [simp]:
  "au_amount (set_config_byte i v a) = au_amount a" "au_balance (set_config_byte i v a) = au_balance a"
  "au_authority (set_config_byte i v a) = au_authority a" "au_executor (set_config_byte i v a) = au_executor a"
  "au_fee (set_config_byte i v a) = au_fee a" "au_mask (set_config_byte i v a) = au_mask a"
  by (simp_all add: set_config_byte_def)

section \<open>Pool ledgers\<close>

definition pm_reset_for_round :: "u64 \<Rightarrow> pool_member \<Rightarrow> pool_member" where
  "pm_reset_for_round i p = p\<lparr>pm_round_id := i, pm_deployed := zero_squares, pm_total_deployed := 0\<rparr>"

definition pm_record_deploy :: "nat \<Rightarrow> u64 \<Rightarrow> pool_member \<Rightarrow> pool_member" where
  "pm_record_deploy square amount p =
     (if square \<ge> length (pm_deployed p) then p
      else p\<lparr>pm_deployed := (pm_deployed p)[square := saturating_add (pm_deployed p ! square) amount],
             pm_total_deployed := saturating_add (pm_total_deployed p) amount\<rparr>)"

definition pr_reset :: "u64 \<Rightarrow> pubkey \<Rightarrow> pool_round \<Rightarrow> pool_round" where
  "pr_reset i payer p = p\<lparr>pr_id := i, pr_deployed := zero_squares, pr_count := zero_squares,
     pr_total_deployed := 0, pr_rent_payer := payer\<rparr>"

definition pr_record_deploy :: "nat \<Rightarrow> u64 \<Rightarrow> bool \<Rightarrow> pool_round \<Rightarrow> pool_round" where
  "pr_record_deploy square amount is_new_member p =
     (if square \<ge> length (pr_deployed p) then p
      else
        let p = p\<lparr>pr_deployed := (pr_deployed p)[square := saturating_add (pr_deployed p ! square) amount]\<rparr>;
            p = (if is_new_member
                 then p\<lparr>pr_count := (pr_count p)[square := saturating_add (pr_count p ! square) 1]\<rparr>
                 else p)
        in p\<lparr>pr_total_deployed := saturating_add (pr_total_deployed p) amount\<rparr>)"

definition new_pool_member :: "pubkey \<Rightarrow> pool_member" where
  "new_pool_member authority = \<lparr>pm_authority = authority, pm_round_id = 0, pm_deployed = zero_squares,
     pm_total_deployed = 0\<rparr>"

text \<open>Both ledgers record the same amount on the same square, so the pool's square always covers
  the member's.\<close>

lemma record_deploy_square:
  assumes "i < length (pm_deployed p)"
  shows "pm_deployed (pm_record_deploy i a p) ! j =
    (if j = i then saturating_add (pm_deployed p ! i) a else pm_deployed p ! j)"
  using assms by (simp add: pm_record_deploy_def)

section \<open>Handlers\<close>

definition open_miner :: "'n host \<Rightarrow> account_info \<Rightarrow> account_info \<Rightarrow> account_info \<Rightarrow> pubkey \<Rightarrow> err
    \<Rightarrow> 'n world \<Rightarrow> ('n miner \<times> 'n world) result" where
  "open_miner H miner_info system_program payer authority e w =
     (if data_is_empty miner_info w then
        and_then (create_program_account H KMiner miner_info system_program payer [MINER, SKey authority] w) (\<lambda>w.
        and_then (as_miner_mut H miner_info w) (\<lambda>_.
        let miner = new_miner (h_num H) authority in
        Inr (miner, put miner_info (AMiner miner) w)))
      else
        and_then (as_miner_mut H miner_info w) (\<lambda>miner.
        and_then (guard (mn_authority miner = authority) e) (\<lambda>_.
        Inr (miner, w))))"

text \<open>The part of \<open>process_automate\<close> after the miner and pool accounts: open the automation and
  set its parameters.\<close>

definition configure_automation :: "pubkey \<Rightarrow> u64 \<Rightarrow> u64 \<Rightarrow> u64 \<Rightarrow> 64 word \<Rightarrow> automation_v2_strategy \<Rightarrow> bool \<Rightarrow> bool
    \<Rightarrow> automation_v2 \<Rightarrow> automation_v2 result" where
  "configure_automation executor amount deposit fee squares_mask strategy claim_and_fund is_pooled a =
     and_then (add64 (au_balance a) deposit) (\<lambda>balance.
     let a = a\<lparr>au_amount := amount, au_balance := balance, au_executor := executor, au_fee := fee,
           au_mask := squares_mask\<rparr> in
     Inr (set_is_pooled is_pooled (set_claim_and_fund claim_and_fund (set_strategy strategy a))))"

definition process_automate :: "'n host \<Rightarrow> account_info list \<Rightarrow> u64 \<Rightarrow> u64 \<Rightarrow> u64 \<Rightarrow> 64 word \<Rightarrow> 64 word \<Rightarrow> nat \<Rightarrow> nat
    \<Rightarrow> 'n world \<Rightarrow> 'n world result" where
  "process_automate H accounts amount deposit fee squares_mask strategy_arg claim_and_fund_arg is_pooled_arg w =
     and_then (strategy_from_config strategy_arg) (\<lambda>strategy.
     let claim_and_fund = (claim_and_fund_arg = 1); is_pooled = (is_pooled_arg = 1) in
     case accounts of [signer_info, automation_v2_info, executor_info, miner_info, pool_member_info,
         system_program] \<Rightarrow>
       let key = ai_key signer_info;
           automation_seeds = [AUTOMATION_V2, SKey key]; pool_seeds = [POOL_MEMBER, SKey key] in
       and_then (checks H w [(signer_info, IsSigner), (automation_v2_info, IsWritable),
         (automation_v2_info, HasSeeds automation_seeds), (miner_info, IsWritable),
         (miner_info, HasSeeds [MINER, SKey key]), (pool_member_info, IsWritable),
         (pool_member_info, HasSeeds pool_seeds), (system_program, IsProgram SystemProgram)]) (\<lambda>_.
       and_then (open_miner H miner_info system_program signer_info key (Godl NotAuthorized) w) (\<lambda>(miner, w).
       if ai_key executor_info = pubkey_default then
         and_then (as_automation_v2_mut H automation_v2_info w) (\<lambda>a.
         and_then (guard (au_authority a = key) (Godl NotAuthorized)) (\<lambda>_.
         close_account H automation_v2_info signer_info w))
       else
         and_then
           (if is_pooled \<and> data_is_empty pool_member_info w then
              and_then (create_program_account H KPoolMember pool_member_info system_program signer_info pool_seeds w) (\<lambda>w.
              and_then (as_pool_member_mut H pool_member_info w) (\<lambda>_.
              Inr (put pool_member_info (APoolMember (new_pool_member key)) w)))
            else if \<not> data_is_empty pool_member_info w then
              and_then (as_pool_member H pool_member_info w) (\<lambda>p.
              and_then (ensure H (pm_authority p = key)) (\<lambda>_. Inr w))
            else Inr w) (\<lambda>w.
         and_then
           (if data_is_empty automation_v2_info w then
              and_then (create_program_account H KAutomationV2 automation_v2_info system_program signer_info
                          automation_seeds w) (\<lambda>w.
              and_then (as_automation_v2_mut H automation_v2_info w) (\<lambda>a.
              Inr (a\<lparr>au_balance := 0, au_authority := key\<rparr>, w)))
            else
              and_then (as_automation_v2_mut H automation_v2_info w) (\<lambda>a.
              and_then (guard (au_authority a = key) (Godl NotAuthorized)) (\<lambda>_. Inr (a, w)))) (\<lambda>(automation_v2, w).
         and_then (configure_automation (ai_key executor_info) amount deposit fee squares_mask strategy claim_and_fund
                     is_pooled automation_v2) (\<lambda>automation_v2.
         let w = put automation_v2_info (AAutomationV2 automation_v2) w in
         and_then
           (if mn_checkpoint_fee miner = 0 then
              collect H miner_info CHECKPOINT_FEE signer_info
                (put miner_info (AMiner (miner\<lparr>mn_checkpoint_fee := CHECKPOINT_FEE\<rparr>)) w)
            else Inr w) (\<lambda>w.
         collect H automation_v2_info deposit signer_info w))))))
     | _ \<Rightarrow> Inl NotEnoughAccountKeys)"

definition process_fund_automation :: "'n host \<Rightarrow> account_info list \<Rightarrow> u64 \<Rightarrow> 'n world \<Rightarrow> 'n world result" where
  "process_fund_automation H accounts deposit w =
     (case accounts of [signer_info, automation_v2_info, system_program] \<Rightarrow>
       and_then (checks H w [(signer_info, IsSigner), (automation_v2_info, IsWritable),
         (system_program, IsProgram SystemProgram)]) (\<lambda>_.
       and_then (as_automation_v2_mut H automation_v2_info w) (\<lambda>a.
       and_then (ensure H (au_authority a = ai_key signer_info)) (\<lambda>_.
       and_then (checks H w [(automation_v2_info, HasSeeds [AUTOMATION_V2, SKey (au_authority a)])]) (\<lambda>_.
       and_then (add64 (au_balance a) deposit) (\<lambda>balance.
       let w = put automation_v2_info (AAutomationV2 (a\<lparr>au_balance := balance\<rparr>)) w in
       collect H automation_v2_info deposit signer_info w)))))
     | _ \<Rightarrow> Inl NotEnoughAccountKeys)"

definition process_claim_sol_and_fund_automation :: "'n host \<Rightarrow> account_info list \<Rightarrow> 'n world \<Rightarrow> 'n world result" where
  "process_claim_sol_and_fund_automation H accounts w =
     (case accounts of signer_info # miner_info # automation_v2_info # system_program # rest \<Rightarrow>
       and_then (checks H w [(signer_info, IsSigner)]) (\<lambda>_.
       and_then (as_automation_v2_mut H automation_v2_info w) (\<lambda>a.
       and_then (ensure H (au_executor a = ai_key signer_info)) (\<lambda>_.
       and_then (ensure H (get_claim_and_fund a)) (\<lambda>_.
       and_then (checks H w [(automation_v2_info, IsWritable),
         (automation_v2_info, HasSeeds [AUTOMATION_V2, SKey (au_authority a)])]) (\<lambda>_.
       and_then (as_miner_mut H miner_info w) (\<lambda>miner.
       and_then (ensure H (mn_authority miner = au_authority a)) (\<lambda>_.
       and_then (checks H w [(system_program, IsProgram SystemProgram)]) (\<lambda>_.
       let (miner, amount) = mn_claim_sol (w_unix_timestamp w) miner;
           w = put miner_info (AMiner miner) w in
       and_then (referral_split (REFERRAL_BPS div 10) (referrer_account miner) amount) (\<lambda>(referral_amount, miner_amount).
       and_then (pay_referrer_sol H miner_info miner referral_amount rest w) (\<lambda>w.
       if miner_amount > 0 then
         and_then (add64 (au_balance a) miner_amount) (\<lambda>balance.
         let w = put automation_v2_info (AAutomationV2 (a\<lparr>au_balance := balance\<rparr>)) w in
         send H miner_info miner_amount automation_v2_info w)
       else Inr w))))))))))
     | _ \<Rightarrow> Inl NotEnoughAccountKeys)"

end
