(* ===== verification/Round.thy ===== *)
theory Round
  imports State
begin

text \<open>
  The methods of \<open>Round\<close> (\<open>src/api/src/state/round.rs\<close>): the random number read from the slot
  hash and the outcomes derived from it.
\<close>

section \<open>Bytes and bits\<close>

text \<open>\<open>u64::from_le_bytes\<close>: the first byte is the lowest.\<close>

definition u64_from_le :: "byte list \<Rightarrow> 64 word" where
  "u64_from_le bs = foldr (\<lambda>b acc. ucast b + 256 * acc) bs 0"

text \<open>\<open>u64::reverse_bits\<close>: bit \<open>i\<close> of the result is bit \<open>63 - i\<close>.\<close>

definition reverse_bits :: "64 word \<Rightarrow> 64 word" where
  "reverse_bits w = word_reverse w"

text \<open>\<open>u16::from_le_bytes(w.to_le_bytes()[2 * i .. 2 * i + 2])\<close>\<close>

definition u16_of :: "64 word \<Rightarrow> nat \<Rightarrow> 16 word" where
  "u16_of w i = ucast (drop_bit (16 * i) w)"

section \<open>Methods\<close>

unbundle bit_operations_syntax

definition rng :: "round \<Rightarrow> 64 word option" where
  "rng r =
     (let h = rnd_slot_hash r in
      if h = replicate 32 0 \<or> h = replicate 32 255 then None
      else Some (u64_from_le (take 8 h) XOR u64_from_le (take 8 (drop 8 h))
             XOR u64_from_le (take 8 (drop 16 h)) XOR u64_from_le (take 8 (drop 24 h))))"

definition is_split_reward :: "64 word \<Rightarrow> bool" where
  "is_split_reward g =
     (let v = reverse_bits g;
          x = u16_of v 0 XOR u16_of v 1 XOR u16_of v 2 XOR u16_of v 3
      in unat x mod 2 = 0)"

definition winning_square :: "64 word \<Rightarrow> nat" where
  "winning_square g = unat g mod 25"

definition top_miner_sample :: "round \<Rightarrow> 64 word \<Rightarrow> nat \<Rightarrow> u64" where
  "top_miner_sample r g sq =
     (if rnd_deployed r ! sq = 0 then 0 else unat (reverse_bits g) mod (rnd_deployed r ! sq))"

text \<open>The loop of \<open>calculate_total_winnings\<close>; the sum aborts on overflow.\<close>

fun total_winnings_loop :: "nat \<Rightarrow> u64 list \<Rightarrow> nat \<Rightarrow> u64 \<Rightarrow> u64 result" where
  "total_winnings_loop i [] sq acc = Inr acc"
| "total_winnings_loop i (d # ds) sq acc =
     (if i \<noteq> sq then and_then (add64 acc d) (\<lambda>acc. total_winnings_loop (i + 1) ds sq acc)
      else total_winnings_loop (i + 1) ds sq acc)"

definition calculate_total_winnings :: "round \<Rightarrow> nat \<Rightarrow> u64 result" where
  "calculate_total_winnings r sq = total_winnings_loop 0 (rnd_deployed r) sq 0"

definition did_hit_motherlode :: "64 word \<Rightarrow> bool" where
  "did_hit_motherlode g \<longleftrightarrow> unat (reverse_bits g) mod 625 = 0"

section \<open>Facts\<close>

lemma bit_reverse_bits: "i < 64 \<Longrightarrow> bit (reverse_bits w) i = bit w (63 - i)"
  by (simp add: reverse_bits_def bit_word_reverse_iff)

lemma winning_square_less: "winning_square g < 25"
  by (simp add: winning_square_def)

lemma top_miner_sample_less:
  "0 < rnd_deployed r ! sq \<Longrightarrow> top_miner_sample r g sq < rnd_deployed r ! sq"
  by (simp add: top_miner_sample_def)

lemma unat_mod2_eq_bit: "unat (x :: 16 word) mod 2 = 0 \<longleftrightarrow> \<not> bit x 0"
  using bit_unsigned_iff [where ?'a = nat, of x 0] by (simp add: bit_0 flip: even_iff_mod_2_eq_zero)

lemma is_split_reward_parity:
  "is_split_reward g \<longleftrightarrow>
     ((bit g 63 \<noteq> bit g 47) = (bit g 31 \<noteq> bit g 15))"
proof -
  have b: "bit (u16_of (reverse_bits g) i) 0 = bit g (63 - 16 * i)" if "i < 4" for i
    using that by (simp add: u16_of_def bit_ucast_iff bit_drop_bit_eq bit_reverse_bits)
  show ?thesis
    unfolding is_split_reward_def Let_def unat_mod2_eq_bit
    using b [of 0] b [of 1] b [of 2] b [of 3] by (auto simp: bit_xor_iff)
qed

lemma total_winnings_loop_eq:
  assumes "acc + sum_list ds \<le> u64_max"
  shows "total_winnings_loop i ds sq acc =
    Inr (acc + sum_list ds - (if i \<le> sq \<and> sq < i + length ds then ds ! (sq - i) else 0))"
  using assms
proof (induction ds arbitrary: i acc)
  case Nil
  then show ?case by simp
next
  case (Cons d ds)
  show ?case
  proof (cases "i = sq")
    case True
    with Cons.prems Cons.IH [of acc "i + 1"] show ?thesis by simp
  next
    case False
    have le: "ds ! (sq - Suc i) \<le> sum_list ds" if "sq < Suc (i + length ds)" "i < sq"
      using that by (intro elem_le_sum_list) simp
    from False Cons.prems Cons.IH [of "acc + d" "i + 1"] show ?thesis
      by (auto simp: add64_def nth_Cons' Suc_le_eq add.assoc)
  qed
qed

lemma calculate_total_winnings_eq:
  assumes "sum_list (rnd_deployed r) \<le> u64_max" "sq < length (rnd_deployed r)"
  shows "calculate_total_winnings r sq = Inr (sum_list (rnd_deployed r) - rnd_deployed r ! sq)"
  using assms by (simp add: calculate_total_winnings_def total_winnings_loop_eq)

end
