(* ===== verification/Deploy.thy ===== *)
theory Deploy
  imports Automation Round
begin

text \<open>
  Deployments: \<open>process_deploy\<close> and \<open>process_deploy_with_miner_extended\<close>
  (\<open>src/program/src/miner/deploy.rs\<close>, \<open>deploy_with_miner_extended.rs\<close>). The two handlers run the
  same code over different account lists; \<open>deploy_core\<close> is that code, with the gold accounts as
  an option. Its pieces are the blocks of the source, in order.
\<close>

section \<open>Choosing squares\<close>

text \<open>The loop of \<open>generate_random_mask\<close>: index list, bytes, number wanted, number selected, mask.\<close>

fun random_mask_loop :: "nat list \<Rightarrow> byte list \<Rightarrow> u64 \<Rightarrow> u64 \<Rightarrow> bool list \<Rightarrow> bool list result" where
  "random_mask_loop [] r n selected m = Inr m"
| "random_mask_loop (i # is) r n selected m =
     (if i < length r then
        and_then (sub64 n selected) (\<lambda>remaining_needed.
        let remaining_positions = 25 - i in
        if remaining_needed > 0 \<and> unat (r ! i) * remaining_positions < remaining_needed * 256
        then random_mask_loop is r n (selected + 1) (m[i := True])
        else random_mask_loop is r n selected m)
      else Inl Panic)"

definition generate_random_mask :: "u64 \<Rightarrow> byte list \<Rightarrow> bool list result" where
  "generate_random_mask num_squares r = random_mask_loop [0..<25] r num_squares 0 (replicate 25 False)"

definition squares_of_mask :: "64 word \<Rightarrow> bool list" where
  "squares_of_mask m = map (\<lambda>i. and m (push_bit i 1) \<noteq> 0) [0..<25]"

text \<open>Amount and squares of this deployment: the automation's or the arguments'.\<close>

definition select_squares :: "'n host \<Rightarrow> automation_v2 option \<Rightarrow> u64 \<Rightarrow> 64 word \<Rightarrow> round \<Rightarrow> (u64 \<times> bool list) result" where
  "select_squares H automation amount arg_mask r =
     (case automation of
       Some a \<Rightarrow>
         and_then (get_strategy a) (\<lambda>strategy.
         case strategy of
           Preferred \<Rightarrow> Inr (au_amount a, squares_of_mask (au_mask a))
         | Random \<Rightarrow>
             let num_squares = min (unat (and (au_mask a) 255)) 25 in
             and_then (generate_random_mask num_squares (h_hashv H [SKey (au_authority a), SNum (rnd_id r)]))
               (\<lambda>squares. Inr (au_amount a, squares)))
     | None \<Rightarrow> Inr (amount, squares_of_mask arg_mask))"

section \<open>Entering the round\<close>

text \<open>The first deployment starts the round's clock and bumps the entropy var.\<close>

definition start_round :: "'n host \<Rightarrow> account_info \<Rightarrow> account_info \<Rightarrow> config \<Rightarrow> account_info list \<Rightarrow> board \<Rightarrow> round
    \<Rightarrow> 'n world \<Rightarrow> (board \<times> round \<times> 'n world) result" where
  "start_round H board_info round_info config entropy_accounts board r w =
     (if board_end_slot board = u64_max then
        let start = w_slot w in
        and_then (add64 start (config_round_slots config)) (\<lambda>end_slot.
        and_then (add64 end_slot ONE_DAY_SLOTS) (\<lambda>expires_at.
        let board = board\<lparr>board_start_slot := start, board_end_slot := end_slot\<rparr>;
            r = r\<lparr>rnd_expires_at := expires_at\<rparr> in
        case entropy_accounts of [var_info, entropy_program] \<Rightarrow>
          and_then (checks H w [(var_info, HasAddress (cfg_var_address config))]) (\<lambda>_.
          and_then (as_var H var_info w) (\<lambda>v.
          and_then (ensure H (ev_authority v = ai_key board_info)) (\<lambda>_.
          and_then (checks H w [(entropy_program, IsProgram EntropyProgram)]) (\<lambda>_.
          let w = put round_info (ARound r) (put board_info (ABoard board) w) in
          and_then (h_call H (EntropyNext (ai_key board_info) (ai_key var_info) end_slot) w) (\<lambda>w.
          Inr (board, r, w))))))
        | _ \<Rightarrow> Inl NotEnoughAccountKeys))
      else Inr (board, r, w))"

definition load_automation :: "'n host \<Rightarrow> account_info \<Rightarrow> account_info \<Rightarrow> account_info \<Rightarrow> bool \<Rightarrow> 'n world
    \<Rightarrow> (automation_v2 option \<times> bool) result" where
  "load_automation H automation_v2_info signer_info authority_info is_pooled w =
     (if \<not> data_is_empty automation_v2_info w then
        and_then (as_automation_v2_mut H automation_v2_info w) (\<lambda>a.
        and_then (ensure H (au_executor a = ai_key signer_info)) (\<lambda>_.
        and_then (ensure H (au_authority a = ai_key authority_info)) (\<lambda>_.
        Inr (Some a, get_is_pooled a))))
      else if ai_key signer_info \<noteq> ai_key authority_info then Inl (Godl NotAuthorized)
      else Inr (None, is_pooled))"

text \<open>A miner new to the round must have checkpointed its last one; a miner of this round must not
  have deployed yet.\<close>

definition enter_round :: "round \<Rightarrow> 'n miner \<Rightarrow> 'n miner result" where
  "enter_round r m =
     (if mn_round_id m \<noteq> rnd_id r then
        if mn_checkpoint_id m = mn_round_id m
        then Inr (m\<lparr>mn_deployed := zero_squares, mn_cumulative := rnd_deployed r, mn_round_id := rnd_id r\<rparr>)
        else Inl Panic
      else if mn_deployed m \<noteq> zero_squares then Inl (Godl AlreadyDeployedThisRound)
      else Inr m)"

section \<open>Placing the deployment\<close>

fun count_squares :: "nat \<Rightarrow> bool list \<Rightarrow> 'n miner \<Rightarrow> u64" where
  "count_squares sq [] m = 0"
| "count_squares sq (should_deploy # rest) m =
     (if sq > 24 then 0
      else if \<not> should_deploy then count_squares (sq + 1) rest m
      else if mn_deployed m ! sq > 0 then count_squares (sq + 1) rest m
      else 1 + count_squares (sq + 1) rest m)"

text \<open>One square: the miner's interval starts at the square's running total.\<close>

definition place_square :: "u64 \<Rightarrow> nat \<Rightarrow> 'n miner \<Rightarrow> round \<Rightarrow> ('n miner \<times> round) result" where
  "place_square amount sq m r =
     (let m = m\<lparr>mn_cumulative := (mn_cumulative m)[sq := rnd_deployed r ! sq],
                mn_deployed := (mn_deployed m)[sq := amount]\<rparr> in
      and_then (add64 (rnd_deployed r ! sq) amount) (\<lambda>d.
      and_then (add64 (rnd_total_deployed r) amount) (\<lambda>total_deployed.
      and_then (add64 (rnd_count r ! sq) 1) (\<lambda>c.
      Inr (m, r\<lparr>rnd_deployed := (rnd_deployed r)[sq := d], rnd_total_deployed := total_deployed,
                rnd_count := (rnd_count r)[sq := c]\<rparr>)))))"

definition pool_square :: "'n host \<Rightarrow> account_info \<Rightarrow> account_info \<Rightarrow> account_info \<Rightarrow> account_info \<Rightarrow> account_info
    \<Rightarrow> u64 \<Rightarrow> nat \<Rightarrow> round \<Rightarrow> pool_round \<Rightarrow> 'n world \<Rightarrow> (pool_round \<times> 'n world) result" where
  "pool_square H pool_member_info pool_round_info system_program signer_info authority_info amount sq r pool_round w =
     and_then
       (if data_is_empty pool_member_info w then
          and_then (create_program_account H KPoolMember pool_member_info system_program signer_info
                      [POOL_MEMBER, SKey (ai_key authority_info)] w) (\<lambda>w.
          and_then (as_pool_member_mut H pool_member_info w) (\<lambda>_.
          Inr (new_pool_member (ai_key authority_info), w)))
        else
          and_then (as_pool_member_mut H pool_member_info w) (\<lambda>p.
          and_then (ensure H (pm_authority p = ai_key authority_info)) (\<lambda>_.
          Inr (p, w)))) (\<lambda>(pool_member, w).
     let pool_member = (if pm_round_id pool_member \<noteq> rnd_id r then pm_reset_for_round (rnd_id r) pool_member
                        else pool_member);
         was_zero = (pm_deployed pool_member ! sq = 0);
         pool_member = pm_record_deploy sq amount pool_member;
         pool_round = pr_record_deploy sq amount was_zero pool_round in
     Inr (pool_round, put pool_round_info (APoolRound pool_round)
                        (put pool_member_info (APoolMember pool_member) w)))"

record 'n deploy_state =
  ds_miner :: "'n miner"
  ds_round :: round
  ds_pool_round :: pool_round
  ds_total_amount :: u64
  ds_total_squares :: nat
  ds_world :: "'n world"

text \<open>The loop over the squares. \<open>pool\<close> is the pool block (\<open>pool_square\<close> at the accounts of the
  instruction); the automation stops early when its balance does not reach for another square.\<close>

fun deploy_loop :: "(nat \<Rightarrow> round \<Rightarrow> pool_round \<Rightarrow> 'n world \<Rightarrow> (pool_round \<times> 'n world) result) \<Rightarrow> bool
    \<Rightarrow> automation_v2 option \<Rightarrow> u64 \<Rightarrow> nat \<Rightarrow> bool list \<Rightarrow> 'n deploy_state \<Rightarrow> 'n deploy_state result" where
  "deploy_loop pool is_pooled automation amount sq [] ds = Inr ds"
| "deploy_loop pool is_pooled automation amount sq (should_deploy # rest) ds =
     (if sq > 24 then Inr ds
      else if \<not> should_deploy then deploy_loop pool is_pooled automation amount (sq + 1) rest ds
      else if mn_deployed (ds_miner ds) ! sq > 0 then deploy_loop pool is_pooled automation amount (sq + 1) rest ds
      else
        and_then (place_square amount sq (ds_miner ds) (ds_round ds)) (\<lambda>(m, r).
        and_then (if is_pooled then pool sq r (ds_pool_round ds) (ds_world ds)
                  else Inr (ds_pool_round ds, ds_world ds)) (\<lambda>(pool_round, w).
        and_then (add64 (ds_total_amount ds) amount) (\<lambda>total_amount.
        let ds = \<lparr>ds_miner = m, ds_round = r, ds_pool_round = pool_round, ds_total_amount = total_amount,
                  ds_total_squares = ds_total_squares ds + 1, ds_world = w\<rparr> in
        case automation of
          Some a \<Rightarrow>
            and_then (add64 total_amount (au_fee a)) (\<lambda>s.
            and_then (add64 s amount) (\<lambda>needed.
            if needed > au_balance a then Inr ds
            else deploy_loop pool is_pooled automation amount (sq + 1) rest ds))
        | None \<Rightarrow> deploy_loop pool is_pooled automation amount (sq + 1) rest ds))))"

section \<open>Payment\<close>

definition pay_deployment :: "'n host \<Rightarrow> account_info \<Rightarrow> account_info \<Rightarrow> account_info \<Rightarrow> account_info
    \<Rightarrow> automation_v2 option \<Rightarrow> u64 \<Rightarrow> 'n world \<Rightarrow> 'n world result" where
  "pay_deployment H signer_info authority_info automation_v2_info round_info automation total_amount w =
     (case automation of
       Some a \<Rightarrow>
         and_then (add64 total_amount (au_fee a)) (\<lambda>spent.
         and_then (sub64 (au_balance a) spent) (\<lambda>balance.
         let a = a\<lparr>au_balance := balance\<rparr>;
             w = put automation_v2_info (AAutomationV2 a) w in
         and_then (send H automation_v2_info total_amount round_info w) (\<lambda>w.
         and_then (send H automation_v2_info (au_fee a) signer_info w) (\<lambda>w.
         and_then (add64 (au_amount a) (au_fee a)) (\<lambda>next_round.
         if balance < next_round then close_account H automation_v2_info authority_info w else Inr w)))))
     | None \<Rightarrow> collect H round_info total_amount signer_info w)"

definition settle_deployment :: "'n host \<Rightarrow> account_info \<Rightarrow> account_info \<Rightarrow> account_info \<Rightarrow> account_info \<Rightarrow> account_info
    \<Rightarrow> account_info \<Rightarrow> automation_v2 option \<Rightarrow> bool \<Rightarrow> 'n deploy_state \<Rightarrow> 'n world result" where
  "settle_deployment H signer_info authority_info automation_v2_info miner_info round_info pool_member_info
       automation is_pooled ds =
     and_then (add64 (mn_lifetime_deployed (ds_miner ds)) (ds_total_amount ds)) (\<lambda>lifetime.
     let m = (ds_miner ds)\<lparr>mn_lifetime_deployed := lifetime\<rparr>;
         due = (mn_checkpoint_fee m = 0);
         m = (if due then m\<lparr>mn_checkpoint_fee := CHECKPOINT_FEE\<rparr> else m);
         w = put round_info (ARound (ds_round ds)) (put miner_info (AMiner m) (ds_world ds)) in
     and_then (if due then collect H miner_info CHECKPOINT_FEE signer_info w else Inr w) (\<lambda>w.
     and_then (if is_pooled then
         and_then (as_pool_member H pool_member_info w) (\<lambda>p.
         guard (\<not> pm_total_deployed p > LAMPORTS_PER_SOL) InvalidInstructionData)
       else Inr ()) (\<lambda>_.
     pay_deployment H signer_info authority_info automation_v2_info round_info automation (ds_total_amount ds) w)))"

section \<open>The handlers\<close>

definition deploy_core :: "'n host \<Rightarrow> account_info list \<Rightarrow> (account_info \<times> account_info) option \<Rightarrow> account_info list
    \<Rightarrow> u64 \<Rightarrow> 64 word \<Rightarrow> bool \<Rightarrow> 'n world \<Rightarrow> 'n world result" where
  "deploy_core H godl_accounts gold entropy_accounts amount arg_mask is_pooled w =
     (case godl_accounts of [signer_info, authority_info, automation_v2_info, board_info, miner_info, round_info,
         pool_round_info, pool_member_info, config_info, system_program] \<Rightarrow>
       let authority = ai_key authority_info in
       and_then (checks H w [(signer_info, IsSigner), (authority_info, IsWritable), (automation_v2_info, IsWritable),
         (automation_v2_info, HasSeeds [AUTOMATION_V2, SKey authority])]) (\<lambda>_.
       and_then (as_config H config_info w) (\<lambda>config.
       and_then (as_board_mut H board_info w) (\<lambda>board.
       and_then (ensure H (w_slot w \<ge> board_start_slot board \<and> w_slot w < board_end_slot board)) (\<lambda>_.
       and_then (as_round_mut H round_info w) (\<lambda>r.
       and_then (ensure H (rnd_id r = board_round_id board)) (\<lambda>_.
       and_then (as_pool_round_mut H pool_round_info w) (\<lambda>pool_round.
       and_then (ensure H (pr_id pool_round = rnd_id r)) (\<lambda>_.
       and_then (checks H w [(miner_info, IsWritable), (miner_info, HasSeeds [MINER, SKey authority]),
         (pool_member_info, IsWritable), (pool_member_info, HasSeeds [POOL_MEMBER, SKey authority]),
         (system_program, IsProgram SystemProgram)]) (\<lambda>_.
       and_then (case gold of
           Some (gold_vault_info, _) \<Rightarrow>
             and_then (checks H w [(gold_vault_info, HasSeeds [GOLD_VAULT])]) (\<lambda>_.
             and_then (as_gold_vault H gold_vault_info w) (\<lambda>v. Inr (Some v)))
         | None \<Rightarrow> Inr None) (\<lambda>gold_vault.
       and_then (start_round H board_info round_info config entropy_accounts board r w) (\<lambda>(board, r, w).
       and_then (load_automation H automation_v2_info signer_info authority_info is_pooled w) (\<lambda>(automation, is_pooled).
       and_then (select_squares H automation amount arg_mask r) (\<lambda>(amount, squares).
       and_then (open_miner H miner_info system_program signer_info
                   (case automation of Some a \<Rightarrow> au_authority a | None \<Rightarrow> authority) (h_assert_error H) w) (\<lambda>(m, w).
       and_then (case (gold, gold_vault) of
           (Some (_, miner_extended_info), Some v) \<Rightarrow>
             and_then (load_or_create_miner_extended H miner_extended_info v authority signer_info system_program True w)
               (\<lambda>(_, w). Inr w)
         | _ \<Rightarrow> Inr w) (\<lambda>w.
       and_then (enter_round r m) (\<lambda>m.
       let squares_to_deploy = count_squares 0 squares m in
       and_then (case automation of
           Some a \<Rightarrow>
             and_then (ok_or (checked_mul amount squares_to_deploy) InvalidInstructionData) (\<lambda>v.
             and_then (ok_or (checked_add v (au_fee a)) InvalidInstructionData) (\<lambda>required.
             Inr (au_balance a < required)))
         | None \<Rightarrow> Inr False) (\<lambda>short.
       if short then close_account H automation_v2_info authority_info (put miner_info (AMiner m) w)
       else
         and_then (deploy_loop
             (pool_square H pool_member_info pool_round_info system_program signer_info authority_info amount)
             is_pooled automation amount 0 squares
             \<lparr>ds_miner = m, ds_round = r, ds_pool_round = pool_round, ds_total_amount = 0, ds_total_squares = 0,
              ds_world = put miner_info (AMiner m) w\<rparr>) (\<lambda>ds.
         settle_deployment H signer_info authority_info automation_v2_info miner_info round_info pool_member_info
           automation is_pooled ds))))))))))))))))))
     | _ \<Rightarrow> Inl NotEnoughAccountKeys)"

definition process_deploy :: "'n host \<Rightarrow> account_info list \<Rightarrow> u64 \<Rightarrow> 64 word \<Rightarrow> nat \<Rightarrow> 'n world \<Rightarrow> 'n world result" where
  "process_deploy H accounts amount arg_mask is_pooled w =
     and_then (guard (\<not> w_unix_timestamp w \<ge> LEGACY_INSTRUCTION_EXPIRY_TS) (Godl LegacyDeployExpired)) (\<lambda>_.
     and_then (split_at 10 accounts) (\<lambda>(godl_accounts, entropy_accounts).
     deploy_core H godl_accounts None entropy_accounts amount arg_mask (is_pooled \<noteq> 0) w))"

definition process_deploy_with_miner_extended :: "'n host \<Rightarrow> account_info list \<Rightarrow> u64 \<Rightarrow> 64 word \<Rightarrow> nat
    \<Rightarrow> 'n world \<Rightarrow> 'n world result" where
  "process_deploy_with_miner_extended H accounts amount arg_mask is_pooled w =
     and_then (split_at 12 accounts) (\<lambda>(godl_accounts, entropy_accounts).
     deploy_core H (take 10 godl_accounts) (Some (godl_accounts ! 10, godl_accounts ! 11)) entropy_accounts
       amount arg_mask (is_pooled \<noteq> 0) w)"

section \<open>The loop over the squares\<close>

text \<open>Reasoning about the loop of a deployment by an invariant of one square.\<close>

lemma deploy_loop_invariant:
  assumes "deploy_loop pool ip au n sq l ds = Inr ds'" "I ds"
    and step: "\<And>ds sq m r pr w t u. I ds \<Longrightarrow> place_square n sq (ds_miner ds) (ds_round ds) = Inr (m, r) \<Longrightarrow>
      (if ip then pool sq r (ds_pool_round ds) (ds_world ds) else Inr (ds_pool_round ds, ds_world ds)) = Inr (pr, w) \<Longrightarrow>
      I \<lparr>ds_miner = m, ds_round = r, ds_pool_round = pr, ds_total_amount = t, ds_total_squares = u, ds_world = w\<rparr>"
  shows "I ds'"
  using assms(1,2)
proof (induction l arbitrary: sq ds)
  case (Cons dep rest)
  have next_square: "I ds'" if pl: "place_square n sq (ds_miner ds) (ds_round ds) = Inr (m, r)"
      and po: "(if ip then pool sq r (ds_pool_round ds) (ds_world ds) else Inr (ds_pool_round ds, ds_world ds)) = Inr (pr, w)"
      and nx: "\<lparr>ds_miner = m, ds_round = r, ds_pool_round = pr, ds_total_amount = t, ds_total_squares = u, ds_world = w\<rparr> = ds'
        \<or> deploy_loop pool ip au n (sq + 1) rest \<lparr>ds_miner = m, ds_round = r, ds_pool_round = pr, ds_total_amount = t,
            ds_total_squares = u, ds_world = w\<rparr> = Inr ds'" for m r pr w t u
    using nx Cons.IH [OF _ step [OF Cons.prems(2) pl po]] step [OF Cons.prems(2) pl po] by blast
  show ?case
  proof (cases "sq > 24 \<or> \<not> dep \<or> mn_deployed (ds_miner ds) ! sq > 0")
    case True
    then show ?thesis using Cons by (auto split: if_splits)
  next
    case False
    with Cons.prems(1) show ?thesis
      apply simp
      apply (elim and_thenE)
      apply (auto simp: Let_def elim!: and_thenE split: option.splits if_splits)
      apply ((rule step [OF Cons.prems(2)], assumption, (simp; fail))
        | (erule next_square [OF _ _ disjI2], (simp; fail), (simp; fail)))+
      done
  qed
qed simp

end
