(* ===== verification/Admin.thy ===== *)
theory Admin
  imports StakeSystem GoldHandlers
begin

text \<open>
  The handlers of \<open>src/program/src/admin\<close> and \<open>src/program/src/initialize.rs\<close>: configuration,
  compare-and-swap repairs, vault withdrawals, the buy-and-bury cycle and injected rewards.
\<close>

section \<open>Initialization\<close>

definition new_round :: "u64 \<Rightarrow> pubkey \<Rightarrow> round" where
  "new_round i payer = \<lparr>rnd_id = i, rnd_deployed = zero_squares, rnd_slot_hash = zero_bytes 32,
     rnd_count = zero_squares, rnd_expires_at = u64_max, rnd_motherlode = 0, rnd_rent_payer = payer,
     rnd_top_miner = pubkey_default, rnd_top_miner_reward = 0, rnd_total_deployed = 0,
     rnd_total_vaulted = 0, rnd_total_winnings = 0\<rparr>"

definition new_treasury :: "'n numeric_ops \<Rightarrow> 'n treasury" where
  "new_treasury N = \<lparr>tr_balance = 0, tr_motherlode = 0, tr_miner_rewards_factor = n_zero N,
     tr_stake_rewards_factor = n_zero N, tr_total_staked = 0, tr_total_unclaimed = 0, tr_total_refined = 0\<rparr>"

definition process_initialize :: "'n host \<Rightarrow> account_info list \<Rightarrow> pubkey \<Rightarrow> pubkey \<Rightarrow> pubkey \<Rightarrow> u64
    \<Rightarrow> 'n world \<Rightarrow> 'n world result" where
  "process_initialize H accounts admin bury_authority fee_collector godl_per_round w =
     and_then (assert_panic (godl_per_round \<le> MAX_GODL_PER_ROUND)) (\<lambda>_.
     case accounts of [signer_info, config_info, treasury_info, board_info, round_info, system_program] \<Rightarrow>
       let round_seeds = [ROUND, SNum 0] in
       and_then (checks H w [(signer_info, IsSigner), (signer_info, HasAddress DEPLOYER_ADDRESS),
         (system_program, IsProgram SystemProgram),
         (config_info, IsEmpty), (config_info, IsWritable), (config_info, HasSeeds [CONFIG]),
         (treasury_info, IsEmpty), (treasury_info, IsWritable), (treasury_info, HasSeeds [TREASURY]),
         (board_info, IsEmpty), (board_info, IsWritable), (board_info, HasSeeds [BOARD]),
         (round_info, IsEmpty), (round_info, IsWritable), (round_info, HasSeeds round_seeds)]) (\<lambda>_.
       and_then (create_program_account H KConfig config_info system_program signer_info [CONFIG] w) (\<lambda>w.
       and_then (create_program_account H KTreasury treasury_info system_program signer_info [TREASURY] w) (\<lambda>w.
       and_then (create_program_account H KBoard board_info system_program signer_info [BOARD] w) (\<lambda>w.
       and_then (create_program_account H KRound round_info system_program signer_info round_seeds w) (\<lambda>w.
       and_then (as_config_mut H config_info w) (\<lambda>config.
       let config = config\<lparr>cfg_admin := admin, cfg_bury_authority := bury_authority,
             cfg_fee_collector := fee_collector, cfg_swap_program := pubkey_default,
             cfg_var_address := pubkey_default, cfg_godl_per_round := godl_per_round,
             cfg_motherlode_denominator := 5, cfg_round_slots := ROUND_SLOTS,
             cfg_intermission_slots := INTERMISSION_SLOTS\<rparr>;
           w = put config_info (AConfig config) w in
       and_then (as_treasury_mut H treasury_info w) (\<lambda>_.
       let w = put treasury_info (ATreasury (new_treasury (h_num H))) w in
       and_then (as_board_mut H board_info w) (\<lambda>_.
       let w = put board_info (ABoard \<lparr>board_round_id = 0, board_start_slot = 0, board_end_slot = u64_max\<rparr>) w in
       and_then (as_round_mut H round_info w) (\<lambda>_.
       Inr (put round_info (ARound (new_round 0 (ai_key signer_info))) w))))))))))
     | _ \<Rightarrow> Inl NotEnoughAccountKeys)"

definition process_initialize_sol_motherlode :: "'n host \<Rightarrow> account_info list \<Rightarrow> 'n world \<Rightarrow> 'n world result" where
  "process_initialize_sol_motherlode H accounts w =
     (case accounts of [signer_info, sol_motherlode_info, system_program] \<Rightarrow>
       and_then (checks H w [(signer_info, IsSigner), (signer_info, HasAddress DEPLOYER_ADDRESS),
         (system_program, IsProgram SystemProgram), (sol_motherlode_info, IsEmpty),
         (sol_motherlode_info, IsWritable), (sol_motherlode_info, HasSeeds [SOL_MOTHERLODE])]) (\<lambda>_.
       and_then (create_program_account H KSolMotherlode sol_motherlode_info system_program signer_info
                   [SOL_MOTHERLODE] w) (\<lambda>w.
       and_then (as_sol_motherlode_mut H sol_motherlode_info w) (\<lambda>_.
       Inr (put sol_motherlode_info (ASolMotherlode \<lparr>sm_amount = 0\<rparr>) w))))
     | _ \<Rightarrow> Inl NotEnoughAccountKeys)"

section \<open>Configuration\<close>

text \<open>The setters share one shape: the admin signs, one field of the config changes. \<open>pre\<close> is the
  setter's validation between the checks and the write.\<close>

definition config_setter :: "'n host \<Rightarrow> account_info list \<Rightarrow> unit result \<Rightarrow> (config \<Rightarrow> config) \<Rightarrow> 'n world \<Rightarrow> 'n world result" where
  "config_setter H accounts pre update w =
     (case accounts of [signer_info, config_info, system_program] \<Rightarrow>
       and_then (checks H w [(signer_info, IsSigner)]) (\<lambda>_.
       and_then (as_config_mut H config_info w) (\<lambda>config.
       and_then (guard (cfg_admin config = ai_key signer_info) (Godl NotAuthorized)) (\<lambda>_.
       and_then (checks H w [(system_program, IsProgram SystemProgram)]) (\<lambda>_.
       and_then pre (\<lambda>_.
       Inr (put config_info (AConfig (update config)) w))))))
     | _ \<Rightarrow> Inl NotEnoughAccountKeys)"

definition process_set_admin :: "'n host \<Rightarrow> account_info list \<Rightarrow> pubkey \<Rightarrow> 'n world \<Rightarrow> 'n world result" where
  "process_set_admin H accounts new_admin w =
     config_setter H accounts (Inr ()) (\<lambda>c. c\<lparr>cfg_admin := new_admin\<rparr>) w"

definition process_set_fee_collector :: "'n host \<Rightarrow> account_info list \<Rightarrow> pubkey \<Rightarrow> 'n world \<Rightarrow> 'n world result" where
  "process_set_fee_collector H accounts new_fee_collector w =
     config_setter H accounts (Inr ()) (\<lambda>c. c\<lparr>cfg_fee_collector := new_fee_collector\<rparr>) w"

definition process_set_godl_per_round :: "'n host \<Rightarrow> account_info list \<Rightarrow> u64 \<Rightarrow> 'n world \<Rightarrow> 'n world result" where
  "process_set_godl_per_round H accounts v w =
     config_setter H accounts (assert_panic (v \<le> MAX_GODL_PER_ROUND)) (\<lambda>c. c\<lparr>cfg_godl_per_round := v\<rparr>) w"

definition process_set_motherlode_denominator :: "'n host \<Rightarrow> account_info list \<Rightarrow> u64 \<Rightarrow> 'n world \<Rightarrow> 'n world result" where
  "process_set_motherlode_denominator H accounts v w =
     config_setter H accounts (Inr ()) (\<lambda>c. c\<lparr>cfg_motherlode_denominator := v\<rparr>) w"

definition process_set_swap_program :: "'n host \<Rightarrow> account_info list \<Rightarrow> 'n world \<Rightarrow> 'n world result" where
  "process_set_swap_program H accounts w =
     (case accounts of [signer_info, config_info, new_swap_program_info] \<Rightarrow>
       and_then (checks H w [(signer_info, IsSigner)]) (\<lambda>_.
       and_then (as_config_mut H config_info w) (\<lambda>config.
       and_then (guard (cfg_admin config = ai_key signer_info) (Godl NotAuthorized)) (\<lambda>_.
       and_then (checks H w [(new_swap_program_info, IsExecutable)]) (\<lambda>_.
       Inr (put config_info (AConfig (config\<lparr>cfg_swap_program := ai_key new_swap_program_info\<rparr>)) w)))))
     | _ \<Rightarrow> Inl NotEnoughAccountKeys)"

definition process_set_var_address :: "'n host \<Rightarrow> account_info list \<Rightarrow> 'n world \<Rightarrow> 'n world result" where
  "process_set_var_address H accounts w =
     (case accounts of [signer_info, board_info, config_info, new_var_address_info] \<Rightarrow>
       and_then (checks H w [(signer_info, IsSigner)]) (\<lambda>_.
       and_then (as_board H board_info w) (\<lambda>_.
       and_then (as_config_mut H config_info w) (\<lambda>config.
       and_then (guard (cfg_admin config = ai_key signer_info) (Godl NotAuthorized)) (\<lambda>_.
       and_then (as_var H new_var_address_info w) (\<lambda>v.
       and_then (ensure H (ev_authority v = ai_key board_info)) (\<lambda>_.
       and_then (ensure H (ev_samples v > 0)) (\<lambda>_.
       Inr (put config_info (AConfig (config\<lparr>cfg_var_address := ai_key new_var_address_info\<rparr>)) w))))))))
     | _ \<Rightarrow> Inl NotEnoughAccountKeys)"

definition process_new_var :: "'n host \<Rightarrow> account_info list \<Rightarrow> u64 \<Rightarrow> byte list \<Rightarrow> u64 \<Rightarrow> 'n world \<Rightarrow> 'n world result" where
  "process_new_var H accounts vid commit samples w =
     (case accounts of [signer_info, board_info, config_info, provider_info, var_info, system_program,
         entropy_program] \<Rightarrow>
       and_then (checks H w [(signer_info, IsSigner)]) (\<lambda>_.
       and_then (as_config_mut H config_info w) (\<lambda>config.
       and_then (guard (cfg_admin config = ai_key signer_info) (Godl NotAuthorized)) (\<lambda>_.
       and_then (checks H w [(entropy_program, IsProgram EntropyProgram), (system_program, IsProgram SystemProgram)]) (\<lambda>_.
       and_then (add64 (w_slot w) 1) (\<lambda>end_slot.
       h_call H (EntropyOpen (ai_key board_info) (ai_key signer_info) vid (ai_key provider_info) commit samples
         end_slot (ai_key var_info)) w)))))
     | _ \<Rightarrow> Inl NotEnoughAccountKeys)"

text \<open>\<open>process_update_protocol_config\<close>: \<open>h_data_len\<close> is the length of the account data, which
  the account contents do not show; the migration branch grows the account.\<close>

definition process_update_protocol_config :: "'n host \<Rightarrow> (account_info \<Rightarrow> 'n world \<Rightarrow> nat) \<Rightarrow> account_info list \<Rightarrow> u64 \<Rightarrow> u64
    \<Rightarrow> 'n world \<Rightarrow> 'n world result" where
  "process_update_protocol_config H data_len accounts round_slots intermission_slots w =
     (case accounts of [signer_info, config_info, system_program] \<Rightarrow>
       and_then (checks H w [(signer_info, IsSigner), (config_info, IsWritable), (config_info, HasSeeds [CONFIG]),
         (system_program, IsProgram SystemProgram)]) (\<lambda>_.
       let expected_len = 8 + size_of_config in
       and_then (if data_len config_info w < expected_len then
           and_then (checks H w [(config_info, HasOwnerGodl)]) (\<lambda>_.
           let shortfall = saturating_sub (h_minimum_balance H expected_len) (lamports config_info w) in
           and_then (if shortfall > 0 then collect H config_info shortfall signer_info w else Inr w) (\<lambda>w.
           h_call H (ResizeAccount (ai_key config_info) expected_len) w))
         else Inr w) (\<lambda>w.
       and_then (as_config_mut H config_info w) (\<lambda>config.
       and_then (guard (cfg_admin config = ai_key signer_info) (Godl NotAuthorized)) (\<lambda>_.
       and_then (guard (\<not> (round_slots = 0 \<or> round_slots > ONE_DAY_SLOTS \<or> intermission_slots = 0 \<or>
           intermission_slots > ONE_DAY_SLOTS)) (Godl InvalidProtocolConfig)) (\<lambda>_.
       Inr (put config_info (AConfig (config\<lparr>cfg_round_slots := round_slots,
         cfg_intermission_slots := intermission_slots\<rparr>)) w))))))
     | _ \<Rightarrow> Inl NotEnoughAccountKeys)"

section \<open>Repairs\<close>

definition process_rebase_total_staked :: "'n host \<Rightarrow> account_info list \<Rightarrow> u64 \<Rightarrow> u64 \<Rightarrow> 'n world \<Rightarrow> 'n world result" where
  "process_rebase_total_staked H accounts expected new_value w =
     (case accounts of [signer_info, config_info, treasury_info] \<Rightarrow>
       and_then (checks H w [(signer_info, IsSigner)]) (\<lambda>_.
       and_then (as_config H config_info w) (\<lambda>config.
       and_then (guard (cfg_admin config = ai_key signer_info) (Godl NotAuthorized)) (\<lambda>_.
       and_then (checks H w [(treasury_info, IsWritable), (treasury_info, HasSeeds [TREASURY])]) (\<lambda>_.
       and_then (as_treasury_mut H treasury_info w) (\<lambda>treasury.
       and_then (guard (tr_total_staked treasury = expected) (Godl RebaseMismatch)) (\<lambda>_.
       Inr (put treasury_info (ATreasury (treasury\<lparr>tr_total_staked := new_value\<rparr>)) w)))))))
     | _ \<Rightarrow> Inl NotEnoughAccountKeys)"

definition process_rebase_total_unclaimed :: "'n host \<Rightarrow> account_info list \<Rightarrow> u64 \<Rightarrow> u64 \<Rightarrow> 'n world \<Rightarrow> 'n world result" where
  "process_rebase_total_unclaimed H accounts expected new_value w =
     (case accounts of [signer_info, config_info, treasury_info] \<Rightarrow>
       and_then (checks H w [(signer_info, IsSigner)]) (\<lambda>_.
       and_then (as_config H config_info w) (\<lambda>config.
       and_then (guard (cfg_admin config = ai_key signer_info) (Godl NotAuthorized)) (\<lambda>_.
       and_then (checks H w [(treasury_info, IsWritable), (treasury_info, HasSeeds [TREASURY])]) (\<lambda>_.
       and_then (as_treasury_mut H treasury_info w) (\<lambda>treasury.
       and_then (guard (tr_total_unclaimed treasury = expected) (Godl RebaseMismatch)) (\<lambda>_.
       Inr (put treasury_info (ATreasury (treasury\<lparr>tr_total_unclaimed := new_value\<rparr>)) w)))))))
     | _ \<Rightarrow> Inl NotEnoughAccountKeys)"

definition process_transfer_mint_authority :: "'n host \<Rightarrow> account_info list \<Rightarrow> 'n world \<Rightarrow> 'n world result" where
  "process_transfer_mint_authority H accounts w =
     (case accounts of [signer_info, config_info, mint_info, treasury_info, godl_mint_authority_info,
         token_program] \<Rightarrow>
       and_then (checks H w [(signer_info, IsSigner)]) (\<lambda>_.
       and_then (as_config H config_info w) (\<lambda>config.
       and_then (guard (cfg_admin config = ai_key signer_info) (Godl NotAuthorized)) (\<lambda>_.
       and_then (checks H w [(mint_info, HasAddress MINT_ADDRESS), (mint_info, AsMint),
         (treasury_info, IsWritable), (treasury_info, HasSeeds [TREASURY]),
         (godl_mint_authority_info, HasAddress (h_mint_authority H)), (token_program, IsProgram TokenProgram)]) (\<lambda>_.
       h_call H (SetMintAuthoritySigned (ai_key mint_info) (ai_key treasury_info)
         (ai_key godl_mint_authority_info) [TREASURY]) w))))
     | _ \<Rightarrow> Inl NotEnoughAccountKeys)"

section \<open>Vault SOL\<close>

definition process_withdraw_vault :: "'n host \<Rightarrow> account_info list \<Rightarrow> u64 \<Rightarrow> 'n world \<Rightarrow> 'n world result" where
  "process_withdraw_vault H accounts amount w =
     (case accounts of [signer_info, config_info, treasury_info, system_program] \<Rightarrow>
       and_then (checks H w [(signer_info, IsSigner)]) (\<lambda>_.
       and_then (as_config H config_info w) (\<lambda>config.
       and_then (ensure H (cfg_bury_authority config = ai_key signer_info)) (\<lambda>_.
       and_then (as_treasury_mut H treasury_info w) (\<lambda>treasury.
       and_then (checks H w [(system_program, IsProgram SystemProgram)]) (\<lambda>_.
       and_then (assert_panic (amount > 0)) (\<lambda>_.
       and_then (assert_panic (amount \<le> tr_balance treasury)) (\<lambda>_.
       and_then (add64 (h_minimum_balance H size_of_treasury) amount) (\<lambda>needed.
       and_then (assert_panic (lamports treasury_info w \<ge> needed)) (\<lambda>_.
       and_then (send H treasury_info amount signer_info w) (\<lambda>w.
       and_then (sub64 (tr_balance treasury) amount) (\<lambda>balance.
       Inr (put treasury_info (ATreasury (treasury\<lparr>tr_balance := balance\<rparr>)) w))))))))))))
     | _ \<Rightarrow> Inl NotEnoughAccountKeys)"

definition process_pre_bury :: "'n host \<Rightarrow> account_info list \<Rightarrow> u64 \<Rightarrow> u64 \<Rightarrow> u64 \<Rightarrow> 'n world \<Rightarrow> 'n world result" where
  "process_pre_bury H accounts bury_amount chest_amount admin_amount w =
     and_then (add64 bury_amount chest_amount) (\<lambda>part.
     and_then (add64 part admin_amount) (\<lambda>total_amount.
     case accounts of [signer_info, config_info, treasury_info, treasury_sol_info, chest_info, admin_info,
         system_program] \<Rightarrow>
       and_then (checks H w [(signer_info, IsSigner)]) (\<lambda>_.
       and_then (as_config H config_info w) (\<lambda>config.
       and_then (ensure H (cfg_bury_authority config = ai_key signer_info)) (\<lambda>_.
       and_then (as_treasury_mut H treasury_info w) (\<lambda>treasury.
       and_then (checks H w [(treasury_sol_info, IsWritable)]) (\<lambda>_.
       and_then (as_associated_token_account (ai_key treasury_info) SOL_MINT H treasury_sol_info w) (\<lambda>_.
       and_then (checks H w [(system_program, IsProgram SystemProgram), (chest_info, HasAddress CHEST_ADDRESS),
         (admin_info, HasAddress ADMIN_GODL_FEE)]) (\<lambda>_.
       and_then (assert_panic (total_amount > 0)) (\<lambda>_.
       and_then (assert_panic (total_amount \<le> tr_balance treasury)) (\<lambda>_.
       and_then (add64 (h_minimum_balance H size_of_treasury) total_amount) (\<lambda>needed.
       and_then (assert_panic (lamports treasury_info w \<ge> needed)) (\<lambda>_.
       and_then (send H treasury_info bury_amount treasury_sol_info w) (\<lambda>w.
       and_then (send H treasury_info chest_amount chest_info w) (\<lambda>w.
       and_then (send H treasury_info admin_amount admin_info w) (\<lambda>w.
       and_then (sub64 (tr_balance treasury) total_amount) (\<lambda>balance.
       Inr (put treasury_info (ATreasury (treasury\<lparr>tr_balance := balance\<rparr>)) w))))))))))))))))
     | _ \<Rightarrow> Inl NotEnoughAccountKeys))"

section \<open>Bury\<close>

text \<open>The split of bought GODL: the stakers' part raises the stake factor, the admin's part is
  sent, the rest is burnt or goes to the warchest.\<close>

definition share_with_stakers :: "'n numeric_ops \<Rightarrow> u64 \<Rightarrow> 'n treasury \<Rightarrow> ('n treasury \<times> u64) result" where
  "share_with_stakers N total_godl treasury =
     (if tr_total_staked treasury > 0 then
        and_then (mul64 total_godl STAKERS_BPS) (\<lambda>p.
        let shared = p div DENOMINATOR_BPS in
        Inr (raise_stake_factor N shared treasury, shared))
      else Inr (treasury, 0))"

text \<open>\<open>process_bury_tokens\<close> skips the update when the share rounds to zero.\<close>

definition share_tokens_with_stakers :: "'n numeric_ops \<Rightarrow> u64 \<Rightarrow> 'n treasury \<Rightarrow> ('n treasury \<times> u64) result" where
  "share_tokens_with_stakers N amount treasury =
     (if tr_total_staked treasury > 0 then
        and_then (mul64 amount STAKERS_BPS) (\<lambda>p.
        let shared = p div DENOMINATOR_BPS in
        if shared > 0 then Inr (raise_stake_factor N shared treasury, shared) else Inr (treasury, shared))
      else Inr (treasury, 0))"

text \<open>What is left after the stakers' share: admin transfer, then the warchest or the fire. Returns
  the amount that counts as buried.\<close>

definition pay_bury :: "'n host \<Rightarrow> account_info \<Rightarrow> account_info \<Rightarrow> account_info \<Rightarrow> account_info \<Rightarrow> account_info
    \<Rightarrow> bool \<Rightarrow> u64 \<Rightarrow> u64 \<Rightarrow> 'n world \<Rightarrow> (u64 \<times> 'n world) result" where
  "pay_bury H treasury_info treasury_godl_info admin_godl_info warchest_godl_info mint_info warchest_active
       total_godl shared w =
     and_then (mul64 total_godl ADMIN_BPS) (\<lambda>p.
     let admin_amount = p div DENOMINATOR_BPS in
     and_then (if admin_amount > 0
               then transfer_signed H treasury_info treasury_godl_info admin_godl_info admin_amount [TREASURY] w
               else Inr w) (\<lambda>w.
     and_then (sub64 total_godl shared) (\<lambda>rest.
     and_then (sub64 rest admin_amount) (\<lambda>burn_amount.
     if burn_amount > 0 then
       if warchest_active then
         and_then (transfer_signed H treasury_info treasury_godl_info warchest_godl_info burn_amount [TREASURY] w)
           (\<lambda>w. Inr (0, w))
       else
         and_then (burn_signed H treasury_godl_info mint_info treasury_info burn_amount [TREASURY] w)
           (\<lambda>w. Inr (burn_amount, w))
     else Inr (burn_amount, w)))))"

definition warchest_checks :: "'n host \<Rightarrow> account_info \<Rightarrow> account_info \<Rightarrow> 'n world \<Rightarrow> bool result" where
  "warchest_checks H warchest_info warchest_godl_info w =
     and_then (assert_panic ((ai_key warchest_info = pubkey_default) = (ai_key warchest_godl_info = pubkey_default))) (\<lambda>_.
     let warchest_active = (ai_key warchest_info \<noteq> pubkey_default) in
     and_then (if warchest_active then
         and_then (checks H w [(warchest_info, HasAddress CHEST_ADDRESS), (warchest_godl_info, IsWritable)]) (\<lambda>_.
         and_then (as_associated_token_account (ai_key warchest_info) MINT_ADDRESS H warchest_godl_info w) (\<lambda>_. Inr ()))
       else Inr ()) (\<lambda>_.
     Inr warchest_active))"

text \<open>The swap of \<open>process_bury\<close> with its before-and-after checks: the SOL spent and the GODL
  bought.\<close>

definition bury_swap :: "'n host \<Rightarrow> account_info \<Rightarrow> account_info \<Rightarrow> account_info \<Rightarrow> account_info \<Rightarrow> u64 \<Rightarrow> u64 \<Rightarrow> pubkey
    \<Rightarrow> account_info list \<Rightarrow> byte list \<Rightarrow> 'n world \<Rightarrow> (u64 \<times> u64 \<times> 'n world) result" where
  "bury_swap H mint_info treasury_info treasury_godl_info treasury_sol_info pre_godl pre_supply swap_program
       swap_accounts data w =
     and_then (h_call H (SyncNative (ai_key treasury_sol_info)) w) (\<lambda>w.
     and_then (as_associated_token_account (ai_key treasury_info) SOL_MINT H treasury_sol_info w) (\<lambda>pre_sol.
     and_then (assert_panic (tk_amount pre_sol > 0)) (\<lambda>_.
     let pre_lamports = lamports treasury_info w in
     and_then (h_call H (InvokeSwap swap_program (swap_metas treasury_info swap_accounts) data [TREASURY]) w) (\<lambda>w.
     and_then (assert_panic (lamports treasury_info w = pre_lamports)) (\<lambda>_.
     and_then (as_mint H mint_info w) (\<lambda>mint.
     and_then (assert_panic (mt_supply mint = pre_supply)) (\<lambda>_.
     and_then (as_associated_token_account (ai_key treasury_info) MINT_ADDRESS H treasury_godl_info w) (\<lambda>post_godl.
     and_then (as_associated_token_account (ai_key treasury_info) SOL_MINT H treasury_sol_info w) (\<lambda>post_sol.
     and_then (sub64 (tk_amount post_godl) pre_godl) (\<lambda>total_godl.
     and_then (assert_panic (tk_amount post_sol = 0)) (\<lambda>_.
     and_then (assert_panic (tk_amount post_godl \<ge> pre_godl)) (\<lambda>_.
     Inr (tk_amount pre_sol, total_godl, w)))))))))))))"

definition process_bury :: "'n host \<Rightarrow> account_info list \<Rightarrow> byte list \<Rightarrow> 'n world \<Rightarrow> 'n world result" where
  "process_bury H accounts data w =
     and_then (split_at 13 accounts) (\<lambda>(godl_accounts, swap_accounts).
     case godl_accounts of [signer_info, board_info, config_info, mint_info, treasury_info, treasury_godl_info,
         treasury_sol_info, admin_info, admin_godl_info, warchest_info, warchest_godl_info, token_program,
         godl_program] \<Rightarrow>
       and_then (checks H w [(signer_info, IsSigner)]) (\<lambda>_.
       and_then (as_board_mut H board_info w) (\<lambda>_.
       and_then (as_config H config_info w) (\<lambda>config.
       and_then (ensure H (cfg_bury_authority config = ai_key signer_info)) (\<lambda>_.
       and_then (checks H w [(mint_info, HasAddress MINT_ADDRESS)]) (\<lambda>_.
       and_then (as_mint H mint_info w) (\<lambda>godl_mint.
       and_then (as_treasury_mut H treasury_info w) (\<lambda>treasury.
       and_then (as_associated_token_account (ai_key treasury_info) MINT_ADDRESS H treasury_godl_info w) (\<lambda>treasury_godl.
       and_then (as_associated_token_account (ai_key treasury_info) SOL_MINT H treasury_sol_info w) (\<lambda>_.
       and_then (checks H w [(admin_info, HasAddress ADMIN_GODL_FEE)]) (\<lambda>_.
       and_then (as_associated_token_account (ai_key admin_info) MINT_ADDRESS H admin_godl_info w) (\<lambda>_.
       and_then (warchest_checks H warchest_info warchest_godl_info w) (\<lambda>warchest_active.
       and_then (checks H w [(token_program, IsProgram TokenProgram), (godl_program, IsProgram GodlProgram)]) (\<lambda>_.
       and_then (bury_swap H mint_info treasury_info treasury_godl_info treasury_sol_info (tk_amount treasury_godl)
                   (mt_supply godl_mint) (cfg_swap_program config) swap_accounts data w) (\<lambda>(sol_amount, total_godl, w).
       and_then (share_with_stakers (h_num H) total_godl treasury) (\<lambda>(treasury, shared).
       let w = put treasury_info (ATreasury treasury) w in
       and_then (pay_bury H treasury_info treasury_godl_info admin_godl_info warchest_godl_info mint_info
                   warchest_active total_godl shared w) (\<lambda>(buried, w).
       and_then (as_mint H mint_info w) (\<lambda>mint.
       h_call H (ProgramLog (BuryEvent \<lparr>bev_disc = 1, bev_godl_buried = buried, bev_godl_shared = shared,
         bev_sol_amount = sol_amount, bev_new_circulating_supply = mt_supply mint,
         bev_ts = w_unix_timestamp w\<rparr>)) w)))))))))))))))))
     | _ \<Rightarrow> Inl NotEnoughAccountKeys)"

definition process_bury_tokens :: "'n host \<Rightarrow> account_info list \<Rightarrow> u64 \<Rightarrow> 'n world \<Rightarrow> 'n world result" where
  "process_bury_tokens H accounts amount w =
     (case accounts of [signer_info, board_info, config_info, mint_info, treasury_info, treasury_godl_info,
         admin_info, admin_godl_info, warchest_info, warchest_godl_info, token_program, godl_program] \<Rightarrow>
       and_then (checks H w [(signer_info, IsSigner)]) (\<lambda>_.
       and_then (as_board_mut H board_info w) (\<lambda>_.
       and_then (as_config H config_info w) (\<lambda>config.
       and_then (ensure H (cfg_bury_authority config = ai_key signer_info)) (\<lambda>_.
       and_then (checks H w [(mint_info, HasAddress MINT_ADDRESS), (mint_info, AsMint)]) (\<lambda>_.
       and_then (as_treasury_mut H treasury_info w) (\<lambda>treasury.
       and_then (as_associated_token_account (ai_key treasury_info) MINT_ADDRESS H treasury_godl_info w) (\<lambda>treasury_godl.
       and_then (checks H w [(admin_info, HasAddress ADMIN_GODL_FEE)]) (\<lambda>_.
       and_then (as_associated_token_account (ai_key admin_info) MINT_ADDRESS H admin_godl_info w) (\<lambda>_.
       and_then (warchest_checks H warchest_info warchest_godl_info w) (\<lambda>warchest_active.
       and_then (checks H w [(token_program, IsProgram TokenProgram), (godl_program, IsProgram GodlProgram)]) (\<lambda>_.
       and_then (assert_panic (amount > 0)) (\<lambda>_.
       and_then (assert_panic (tk_amount treasury_godl \<ge> amount)) (\<lambda>_.
       and_then (share_tokens_with_stakers (h_num H) amount treasury) (\<lambda>(treasury, shared).
       let w = put treasury_info (ATreasury treasury) w in
       and_then (pay_bury H treasury_info treasury_godl_info admin_godl_info warchest_godl_info mint_info
                   warchest_active amount shared w) (\<lambda>(buried, w).
       and_then (as_mint H mint_info w) (\<lambda>mint.
       h_call H (ProgramLog (BuryEvent \<lparr>bev_disc = 1, bev_godl_buried = buried, bev_godl_shared = shared,
         bev_sol_amount = 0, bev_new_circulating_supply = mt_supply mint,
         bev_ts = w_unix_timestamp w\<rparr>)) w))))))))))))))))
     | _ \<Rightarrow> Inl NotEnoughAccountKeys)"

section \<open>Injected rewards\<close>

definition process_inject_unrefined_rewards :: "'n host \<Rightarrow> account_info list \<Rightarrow> u64 \<Rightarrow> 'n world \<Rightarrow> 'n world result" where
  "process_inject_unrefined_rewards H accounts amount w =
     (case accounts of [signer_info, config_info, miner_info, treasury_info, signer_tokens_info,
         treasury_tokens_info, token_program, gold_vault_info, miner_extended_info, system_program] \<Rightarrow>
       and_then (checks H w [(signer_info, IsSigner)]) (\<lambda>_.
       and_then (as_config H config_info w) (\<lambda>config.
       and_then (ensure H (cfg_bury_authority config = ai_key signer_info)) (\<lambda>_.
       and_then (checks H w [(miner_info, IsWritable)]) (\<lambda>_.
       and_then (as_miner H miner_info w) (\<lambda>m.
       let miner_authority = mn_authority m in
       and_then (checks H w [(miner_info, HasSeeds [MINER, SKey miner_authority])]) (\<lambda>_.
       and_then (as_miner_mut H miner_info w) (\<lambda>miner.
       and_then (checks H w [(treasury_info, IsWritable), (treasury_info, HasSeeds [TREASURY])]) (\<lambda>_.
       and_then (as_treasury_mut H treasury_info w) (\<lambda>treasury.
       and_then (checks H w [(signer_tokens_info, IsWritable)]) (\<lambda>_.
       and_then (as_associated_token_account (ai_key signer_info) MINT_ADDRESS H signer_tokens_info w) (\<lambda>_.
       and_then (checks H w [(treasury_tokens_info, IsWritable)]) (\<lambda>_.
       and_then (as_associated_token_account (ai_key treasury_info) MINT_ADDRESS H treasury_tokens_info w) (\<lambda>_.
       and_then (checks H w [(token_program, IsProgram TokenProgram), (gold_vault_info, HasSeeds [GOLD_VAULT])]) (\<lambda>_.
       and_then (as_gold_vault H gold_vault_info w) (\<lambda>gold_vault.
       and_then (checks H w [(system_program, IsProgram SystemProgram)]) (\<lambda>_.
       and_then (guard (amount \<noteq> 0) (Godl AmountTooSmall)) (\<lambda>_.
       and_then (transfer H signer_info signer_tokens_info treasury_tokens_info amount w) (\<lambda>w.
       and_then (load_or_create_miner_extended H miner_extended_info gold_vault miner_authority signer_info
                   system_program True w) (\<lambda>(extended, w).
       and_then (mn_update_rewards (h_num H) treasury miner) (\<lambda>miner.
       and_then (sync_gold H miner_extended_info extended gold_vault miner w) (\<lambda>w.
       and_then (credit_unrefined InvalidInstructionData amount treasury miner) (\<lambda>(miner, treasury).
       Inr (put treasury_info (ATreasury treasury) (put miner_info (AMiner miner) w))))))))))))))))))))))))
     | _ \<Rightarrow> Inl NotEnoughAccountKeys)"

end
