(* ===== verification/Reset.thy ===== *)
theory Reset
  imports Admin Round
begin

text \<open>
  Closing a round: \<open>process_reset\<close> and \<open>process_reset_permissionless\<close>
  (\<open>src/program/src/miner/reset.rs\<close>, \<open>reset_permissionless.rs\<close>). The two handlers differ in the
  signer check, in the top-miner latch and in the crank reward; \<open>reset_core\<close> is the code they
  share, with the latch and the reward as arguments.
\<close>

section \<open>Amounts\<close>

text \<open>The two fees on the whole deployment: admin and SOL motherlode.\<close>

definition reset_fees :: "u64 \<Rightarrow> (u64 \<times> u64) result" where
  "reset_fees total_deployed =
     and_then (ok_or (checked_mul total_deployed ADMIN_FEE_BPS) InvalidInstructionData) (\<lambda>a.
     and_then (ok_or (checked_mul total_deployed SOL_MOTHERLODE_BPS) InvalidInstructionData) (\<lambda>m.
     Inr (a div DENOMINATOR_BPS, m div DENOMINATOR_BPS)))"

text \<open>Winnings and vault amount of a round with a deployment on the winning square, with the
  sanity check on the outflows.\<close>

definition split_winnings :: "round \<Rightarrow> nat \<Rightarrow> round result" where
  "split_winnings r sq =
     and_then (calculate_total_winnings r sq) (\<lambda>winnings.
     and_then (ok_or (checked_mul winnings (ADMIN_FEE_BPS + SOL_MOTHERLODE_BPS)) InvalidInstructionData) (\<lambda>p.
     let winnings_fees = p div DENOMINATOR_BPS in
     and_then (sub64 winnings winnings_fees) (\<lambda>winnings.
     let vault_amount = winnings div 10 in
     and_then (ok_or (checked_sub winnings vault_amount) InvalidInstructionData) (\<lambda>winnings.
     let r = r\<lparr>rnd_total_winnings := winnings, rnd_total_vaulted := vault_amount\<rparr> in
     and_then (add64 vault_amount winnings) (\<lambda>s.
     and_then (add64 s (rnd_deployed r ! sq)) (\<lambda>s.
     and_then (add64 s winnings_fees) (\<lambda>outflows.
     and_then (assert_panic (rnd_total_deployed r \<ge> outflows)) (\<lambda>_.
     Inr r))))))))"

text \<open>GODL minted for the block reward and for the motherlode, capped by \<open>MAX_SUPPLY\<close>.\<close>

definition mint_amounts :: "u64 \<Rightarrow> u64 \<Rightarrow> u64 \<Rightarrow> (u64 \<times> u64 \<times> u64) result" where
  "mint_amounts mint_supply godl_per_round motherlode_denominator =
     (let mint_amount = min (saturating_sub MAX_SUPPLY mint_supply) godl_per_round in
      and_then (add64 mint_supply mint_amount) (\<lambda>mint_supply.
      and_then (div64 godl_per_round motherlode_denominator) (\<lambda>q.
      let motherlode_mint_amount = min (saturating_sub MAX_SUPPLY mint_supply) q in
      and_then (add64 mint_amount motherlode_mint_amount) (\<lambda>total_mint_amount.
      Inr (mint_amount, motherlode_mint_amount, total_mint_amount)))))"

definition motherlode_hit :: "64 word \<Rightarrow> round \<Rightarrow> 'n treasury \<Rightarrow> (round \<times> 'n treasury) result" where
  "motherlode_hit g r t =
     (if did_hit_motherlode g then
        let rollover_amount = tr_motherlode t div 10 in
        and_then (sub64 (tr_motherlode t) rollover_amount) (\<lambda>m.
        Inr (r\<lparr>rnd_motherlode := m\<rparr>, t\<lparr>tr_motherlode := rollover_amount\<rparr>))
      else Inr (r, t))"

text \<open>The board after the round.\<close>

definition advance_board :: "u64 \<Rightarrow> board \<Rightarrow> board result" where
  "advance_board slot b =
     and_then (add64 (board_round_id b) 1) (\<lambda>i.
     Inr (b\<lparr>board_round_id := i, board_start_slot := slot, board_end_slot := u64_max\<rparr>))"

text \<open>\<open>CRANK_REWARD_LAMPORTS\<close>, and the admin fee split into fee and crank reward;
  \<open>process_reset\<close> pays no reward.\<close>

definition CRANK_REWARD_LAMPORTS :: u64 where "CRANK_REWARD_LAMPORTS = LAMPORTS_PER_SOL div 1000"

definition crank_split :: "u64 \<Rightarrow> (u64 \<times> u64 option) result" where
  "crank_split total_admin_fee =
     (let crank_reward = min CRANK_REWARD_LAMPORTS total_admin_fee in
      and_then (sub64 total_admin_fee crank_reward) (\<lambda>admin_fee. Inr (admin_fee, Some crank_reward)))"

definition no_crank :: "u64 \<Rightarrow> (u64 \<times> u64 option) result" where
  "no_crank total_admin_fee = Inr (total_admin_fee, None)"

definition reset_log :: "round \<Rightarrow> board \<Rightarrow> u64 \<Rightarrow> pubkey \<Rightarrow> u64 \<Rightarrow> u64 \<Rightarrow> u64 \<Rightarrow> i64 \<Rightarrow> event" where
  "reset_log r b winning top_miner num_winners motherlode minted now =
     ResetEvent \<lparr>rev_disc = 0, rev_round_id = rnd_id r, rev_start_slot = board_start_slot b,
       rev_end_slot = board_end_slot b, rev_winning_square = winning, rev_top_miner = top_miner,
       rev_num_winners = num_winners, rev_motherlode = motherlode, rev_total_deployed = rnd_total_deployed r,
       rev_total_vaulted = rnd_total_vaulted r, rev_total_winnings = rnd_total_winnings r,
       rev_total_minted = minted, rev_ts = now\<rparr>"

section \<open>The top-miner latch\<close>

text \<open>The accounts of the instruction, by name.\<close>

record reset_accounts =
  ra_signer :: account_info
  ra_board :: account_info
  ra_config :: account_info
  ra_fee_collector :: account_info
  ra_mint :: account_info
  ra_round :: account_info
  ra_round_next :: account_info
  ra_pool_round_next :: account_info
  ra_top_miner :: account_info
  ra_top_miner_pool_member :: account_info
  ra_sol_motherlode :: account_info
  ra_rush_sol_vault :: account_info
  ra_treasury :: account_info
  ra_treasury_tokens :: account_info
  ra_system_program :: account_info
  ra_token_program :: account_info
  ra_godl_program :: account_info
  ra_slot_hashes :: account_info

definition lenient_latch :: "'n host \<Rightarrow> reset_accounts \<Rightarrow> 64 word \<Rightarrow> nat \<Rightarrow> round \<Rightarrow> 'n world \<Rightarrow> round result" where
  "lenient_latch H A g sq r w =
     (if is_split_reward g then Inr (r\<lparr>rnd_top_miner := SPLIT_ADDRESS\<rparr>)
      else if \<not> data_is_empty (ra_top_miner A) w \<and> \<not> data_is_empty (ra_top_miner_pool_member A) w then
        and_then (as_miner H (ra_top_miner A) w) (\<lambda>candidate.
        and_then (ensure H (mn_round_id candidate = rnd_id r)) (\<lambda>_.
        and_then (as_pool_member H (ra_top_miner_pool_member A) w) (\<lambda>pool_member.
        and_then (ensure H (pm_authority pool_member = mn_authority candidate)) (\<lambda>_.
        and_then (ensure H (pm_round_id pool_member = rnd_id r)) (\<lambda>_.
        if mn_deployed candidate ! sq > 0 \<and> pm_deployed pool_member ! sq > 0 then
          let sample = top_miner_sample r g sq; lower = mn_cumulative candidate ! sq in
          and_then (ok_or (checked_add lower (mn_deployed candidate ! sq)) InvalidInstructionData) (\<lambda>upper.
          Inr (if sample \<ge> lower \<and> sample < upper then r\<lparr>rnd_top_miner := POOL_ADDRESS\<rparr> else r))
        else Inr r)))))
      else Inr r)"

definition strict_latch :: "'n host \<Rightarrow> reset_accounts \<Rightarrow> 64 word \<Rightarrow> nat \<Rightarrow> round \<Rightarrow> 'n world \<Rightarrow> round result" where
  "strict_latch H A g sq r w =
     (if is_split_reward g then Inr (r\<lparr>rnd_top_miner := SPLIT_ADDRESS\<rparr>)
      else
        and_then (as_miner H (ra_top_miner A) w) (\<lambda>candidate.
        and_then (ensure H (mn_round_id candidate = rnd_id r)) (\<lambda>_.
        and_then (checks H w [(ra_top_miner_pool_member A, HasSeeds [POOL_MEMBER, SKey (mn_authority candidate)])]) (\<lambda>_.
        let dep = mn_deployed candidate ! sq; sample = top_miner_sample r g sq;
            lower = mn_cumulative candidate ! sq in
        and_then (ok_or (checked_add lower dep) InvalidInstructionData) (\<lambda>upper.
        and_then (guard (dep > 0 \<and> sample \<ge> lower \<and> sample < upper) InvalidInstructionData) (\<lambda>_.
        if \<not> data_is_empty (ra_top_miner_pool_member A) w then
          and_then (as_pool_member H (ra_top_miner_pool_member A) w) (\<lambda>pool_member.
          and_then (ensure H (pm_authority pool_member = mn_authority candidate)) (\<lambda>_.
          Inr (if pm_round_id pool_member = rnd_id r \<and> pm_deployed pool_member ! sq > 0
               then r\<lparr>rnd_top_miner := POOL_ADDRESS\<rparr> else r)))
        else Inr r))))))"

section \<open>Steps of the handlers\<close>

definition reset_checks :: "'n host \<Rightarrow> reset_accounts \<Rightarrow> 'n world
    \<Rightarrow> (config \<times> board \<times> round \<times> mint_account \<times> sol_motherlode \<times> 'n treasury) result" where
  "reset_checks H A w =
     and_then (as_config H (ra_config A) w) (\<lambda>config.
     and_then (as_board_mut H (ra_board A) w) (\<lambda>board.
     and_then (ensure H (w_slot w \<ge> saturating_add (board_end_slot board) (config_intermission_slots config))) (\<lambda>_.
     and_then (checks H w [(ra_fee_collector A, IsWritable),
       (ra_fee_collector A, HasAddress (cfg_fee_collector config))]) (\<lambda>_.
     and_then (as_round_mut H (ra_round A) w) (\<lambda>r.
     and_then (ensure H (rnd_id r = board_round_id board)) (\<lambda>_.
     and_then (checks H w [(ra_round_next A, IsEmpty), (ra_round_next A, IsWritable)]) (\<lambda>_.
     and_then (add64 (board_round_id board) 1) (\<lambda>next.
     and_then (checks H w [(ra_round_next A, HasSeeds [ROUND, SNum next]),
       (ra_pool_round_next A, IsEmpty), (ra_pool_round_next A, IsWritable),
       (ra_pool_round_next A, HasSeeds [POOL_ROUND, SNum next]),
       (ra_mint A, HasAddress MINT_ADDRESS)]) (\<lambda>_.
     and_then (as_mint H (ra_mint A) w) (\<lambda>mint.
     and_then (checks H w [(ra_sol_motherlode A, IsWritable),
       (ra_sol_motherlode A, HasSeeds [SOL_MOTHERLODE])]) (\<lambda>_.
     and_then (as_sol_motherlode_mut H (ra_sol_motherlode A) w) (\<lambda>sol_motherlode.
     and_then (checks H w [(ra_rush_sol_vault A, IsWritable),
       (ra_rush_sol_vault A, HasAddress RUSH_SOL_VAULT)]) (\<lambda>_.
     and_then (as_treasury_mut H (ra_treasury A) w) (\<lambda>t.
     and_then (checks H w [(ra_treasury_tokens A,
         AsAssociatedTokenAccount (ai_key (ra_treasury A)) (ai_key (ra_mint A))),
       (ra_system_program A, IsProgram SystemProgram), (ra_token_program A, IsProgram TokenProgram),
       (ra_godl_program A, IsProgram GodlProgram), (ra_slot_hashes A, IsSlotHashesSysvar)]) (\<lambda>_.
     Inr (config, board, r, mint, sol_motherlode, t))))))))))))))))"

definition new_pool_round :: "u64 \<Rightarrow> pubkey \<Rightarrow> pool_round" where
  "new_pool_round i payer = \<lparr>pr_id = i, pr_deployed = zero_squares, pr_count = zero_squares,
     pr_total_deployed = 0, pr_rent_payer = payer\<rparr>"

definition open_next_round :: "'n host \<Rightarrow> reset_accounts \<Rightarrow> board \<Rightarrow> 'n world \<Rightarrow> 'n world result" where
  "open_next_round H A board w =
     and_then (add64 (board_round_id board) 1) (\<lambda>next.
     and_then (create_program_account H KRound (ra_round_next A) (ra_godl_program A) (ra_signer A)
                 [ROUND, SNum next] w) (\<lambda>w.
     and_then (as_round_mut H (ra_round_next A) w) (\<lambda>_.
     let w = put (ra_round_next A) (ARound (new_round next (ai_key (ra_signer A)))) w in
     and_then (create_program_account H KPoolRound (ra_pool_round_next A) (ra_godl_program A) (ra_signer A)
                 [POOL_ROUND, SNum next] w) (\<lambda>w.
     and_then (as_pool_round_mut H (ra_pool_round_next A) w) (\<lambda>_.
     Inr (put (ra_pool_round_next A) (APoolRound (new_pool_round next (ai_key (ra_signer A)))) w))))))"

definition finalized_var :: "'n host \<Rightarrow> reset_accounts \<Rightarrow> config \<Rightarrow> account_info list \<Rightarrow> 'n world \<Rightarrow> entropy_var result" where
  "finalized_var H A config entropy_accounts w =
     (case entropy_accounts of [var_info, entropy_program] \<Rightarrow>
       and_then (checks H w [(var_info, HasAddress (cfg_var_address config))]) (\<lambda>_.
       and_then (as_var H var_info w) (\<lambda>v.
       and_then (ensure H (ev_authority v = ai_key (ra_board A))) (\<lambda>_.
       and_then (ensure H (ev_slot_hash v \<noteq> replicate 32 0)) (\<lambda>_.
       and_then (ensure H (ev_seed v \<noteq> replicate 32 0)) (\<lambda>_.
       and_then (ensure H (ev_value v \<noteq> replicate 32 0)) (\<lambda>_.
       and_then (checks H w [(entropy_program, IsProgram EntropyProgram)]) (\<lambda>_.
       Inr v)))))))
     | _ \<Rightarrow> Inl NotEnoughAccountKeys)"

text \<open>The branch without a random number: the round's deployment is zeroed, so that checkpoints
  refund it.\<close>

definition reset_refund :: "'n host \<Rightarrow> reset_accounts \<Rightarrow> board \<Rightarrow> round \<Rightarrow> 'n world \<Rightarrow> 'n world result" where
  "reset_refund H A board r w =
     (let r = r\<lparr>rnd_total_vaulted := 0, rnd_total_winnings := 0, rnd_total_deployed := 0\<rparr>;
          w = put (ra_round A) (ARound r) w in
      and_then (h_call H (ProgramLog (reset_log r board u64_max pubkey_default 0 0 0 (w_unix_timestamp w))) w) (\<lambda>w'.
      and_then (advance_board (w_slot w) board) (\<lambda>board.
      Inr (put (ra_board A) (ABoard board) w'))))"

text \<open>Fee and crank reward at the end of both paying branches.\<close>

definition pay_fees :: "'n host \<Rightarrow> reset_accounts \<Rightarrow> u64 \<times> u64 option \<Rightarrow> 'n world \<Rightarrow> 'n world result" where
  "pay_fees H A fees w =
     and_then (send H (ra_round A) (fst fees) (ra_fee_collector A) w) (\<lambda>w.
     case snd fees of
       Some crank_reward \<Rightarrow> send H (ra_round A) crank_reward (ra_signer A) w
     | None \<Rightarrow> Inr w)"

text \<open>The branch without a deployment on the winning square: everything but the fees is
  vaulted.\<close>

definition reset_vault_all :: "'n host \<Rightarrow> reset_accounts \<Rightarrow> board \<Rightarrow> round \<Rightarrow> nat \<Rightarrow> u64 \<Rightarrow> u64 \<Rightarrow> u64 \<times> u64 option
    \<Rightarrow> sol_motherlode \<Rightarrow> 'n treasury \<Rightarrow> 'n world \<Rightarrow> 'n world result" where
  "reset_vault_all H A board r sq total_admin_fee sol_motherlode_amount fees sol_motherlode t w =
     and_then (sub64 (rnd_total_deployed r) total_admin_fee) (\<lambda>v.
     and_then (sub64 v sol_motherlode_amount) (\<lambda>vaulted.
     let r = r\<lparr>rnd_total_vaulted := vaulted\<rparr> in
     and_then (add64 (tr_balance t) vaulted) (\<lambda>balance.
     and_then (add64 (sm_amount sol_motherlode) sol_motherlode_amount) (\<lambda>sm.
     let w = put (ra_sol_motherlode A) (ASolMotherlode \<lparr>sm_amount = sm\<rparr>)
               (put (ra_treasury A) (ATreasury (t\<lparr>tr_balance := balance\<rparr>)) (put (ra_round A) (ARound r) w)) in
     and_then (h_call H (ProgramLog (reset_log r board sq pubkey_default 0 0 0 (w_unix_timestamp w))) w) (\<lambda>w'.
     and_then (advance_board (w_slot w) board) (\<lambda>board.
     let w' = put (ra_board A) (ABoard board) w' in
     and_then (pay_fees H A fees w') (\<lambda>w'.
     and_then (send H (ra_round A) sol_motherlode_amount (ra_sol_motherlode A) w') (\<lambda>w'.
     send H (ra_round A) vaulted (ra_treasury A) w'))))))))"

definition mint_reward :: "'n host \<Rightarrow> reset_accounts \<Rightarrow> account_info list \<Rightarrow> u64 \<Rightarrow> 'n world \<Rightarrow> 'n world result" where
  "mint_reward H A mint_accounts total_mint_amount w =
     (if total_mint_amount > 0 then
        case mint_accounts of [godl_mint_authority_info, godl_mint_program] \<Rightarrow>
          and_then (checks H w [(godl_mint_authority_info, AsAccount KMintAuthority),
            (godl_mint_program, IsProgram GodlMintProgram)]) (\<lambda>_.
          h_call H (MintGodl (ai_key (ra_treasury A)) (ai_key godl_mint_authority_info) (ai_key (ra_mint A))
                      (ai_key (ra_treasury_tokens A)) total_mint_amount) w)
        | _ \<Rightarrow> Inl NotEnoughAccountKeys
      else Inr w)"

text \<open>The branch with winners.\<close>

definition reset_winners :: "'n host \<Rightarrow> reset_accounts
    \<Rightarrow> ('n host \<Rightarrow> reset_accounts \<Rightarrow> 64 word \<Rightarrow> nat \<Rightarrow> round \<Rightarrow> 'n world \<Rightarrow> round result)
    \<Rightarrow> account_info list \<Rightarrow> config \<Rightarrow> board \<Rightarrow> round \<Rightarrow> 64 word \<Rightarrow> nat \<Rightarrow> u64 \<Rightarrow> u64 \<times> u64 option
    \<Rightarrow> mint_account \<Rightarrow> sol_motherlode \<Rightarrow> 'n treasury \<Rightarrow> 'n world \<Rightarrow> 'n world result" where
  "reset_winners H A latch mint_accounts config board r g sq sol_motherlode_amount fees mint sol_motherlode t w =
     and_then (split_winnings r sq) (\<lambda>r.
     and_then (add64 (tr_balance t) (rnd_total_vaulted r)) (\<lambda>balance.
     let t = t\<lparr>tr_balance := balance\<rparr> in
     and_then (mint_amounts (mt_supply mint) (cfg_godl_per_round config) (cfg_motherlode_denominator config))
       (\<lambda>(mint_amount, motherlode_mint_amount, total_mint_amount).
     let r = r\<lparr>rnd_top_miner_reward := mint_amount\<rparr> in
     and_then (latch H A g sq r w) (\<lambda>r.
     and_then (motherlode_hit g r t) (\<lambda>(r, t).
     and_then (if motherlode_mint_amount > 0 then add64 (tr_motherlode t) motherlode_mint_amount
               else Inr (tr_motherlode t)) (\<lambda>motherlode.
     let t = t\<lparr>tr_motherlode := motherlode\<rparr>;
         w = put (ra_treasury A) (ATreasury t) (put (ra_round A) (ARound r) w);
         slot = w_slot w; now = w_unix_timestamp w in
     and_then (mint_reward H A mint_accounts total_mint_amount w) (\<lambda>w.
     and_then
       (if sol_motherlode_amount > 0 then
          and_then (send H (ra_round A) sol_motherlode_amount (ra_sol_motherlode A) w) (\<lambda>w.
          and_then (add64 (sm_amount sol_motherlode) sol_motherlode_amount) (\<lambda>sm.
          Inr (put (ra_sol_motherlode A) (ASolMotherlode \<lparr>sm_amount = sm\<rparr>) w)))
        else Inr w) (\<lambda>w.
     and_then (h_call H (ProgramLog (reset_log r board sq (rnd_top_miner r) (rnd_count r ! sq)
                 (rnd_motherlode r) total_mint_amount now)) w) (\<lambda>w.
     and_then (advance_board slot board) (\<lambda>board.
     let w = put (ra_board A) (ABoard board) w in
     and_then (pay_fees H A fees w) (\<lambda>w.
     send H (ra_round A) (rnd_total_vaulted r) (ra_treasury A) w)))))))))))"

definition reset_core :: "'n host \<Rightarrow> reset_accounts
    \<Rightarrow> ('n host \<Rightarrow> reset_accounts \<Rightarrow> 64 word \<Rightarrow> nat \<Rightarrow> round \<Rightarrow> 'n world \<Rightarrow> round result)
    \<Rightarrow> (u64 \<Rightarrow> (u64 \<times> u64 option) result) \<Rightarrow> account_info list \<Rightarrow> 'n world \<Rightarrow> 'n world result" where
  "reset_core H A latch crank other_accounts w =
     and_then (reset_checks H A w) (\<lambda>(config, board, r, mint, sol_motherlode, t).
     and_then (open_next_round H A board w) (\<lambda>w.
     and_then (split_at 2 other_accounts) (\<lambda>(entropy_accounts, mint_accounts).
     and_then (finalized_var H A config entropy_accounts w) (\<lambda>v.
     let r = r\<lparr>rnd_slot_hash := ev_value v\<rparr> in
     case rng r of
       None \<Rightarrow> reset_refund H A board r w
     | Some g \<Rightarrow>
         and_then (reset_fees (rnd_total_deployed r)) (\<lambda>(total_admin_fee, sol_motherlode_amount).
         let sq = winning_square g in
         and_then (crank total_admin_fee) (\<lambda>fees.
         if rnd_deployed r ! sq = 0
         then reset_vault_all H A board r sq total_admin_fee sol_motherlode_amount fees sol_motherlode t w
         else reset_winners H A latch mint_accounts config board r g sq sol_motherlode_amount fees
                mint sol_motherlode t w))))))"

definition reset_accounts_of :: "account_info list \<Rightarrow> reset_accounts" where
  "reset_accounts_of a = \<lparr>ra_signer = a ! 0, ra_board = a ! 1, ra_config = a ! 2, ra_fee_collector = a ! 3,
     ra_mint = a ! 4, ra_round = a ! 5, ra_round_next = a ! 6, ra_pool_round_next = a ! 7,
     ra_top_miner = a ! 8, ra_top_miner_pool_member = a ! 9, ra_sol_motherlode = a ! 10,
     ra_rush_sol_vault = a ! 11, ra_treasury = a ! 12, ra_treasury_tokens = a ! 13,
     ra_system_program = a ! 14, ra_token_program = a ! 15, ra_godl_program = a ! 16, ra_slot_hashes = a ! 17\<rparr>"

definition process_reset :: "'n host \<Rightarrow> account_info list \<Rightarrow> 'n world \<Rightarrow> 'n world result" where
  "process_reset H accounts w =
     and_then (split_at 18 accounts) (\<lambda>(godl_accounts, other_accounts).
     let A = reset_accounts_of godl_accounts in
     and_then (checks H w [(ra_signer A, IsSigner), (ra_signer A, HasAddress CRANK_BOT)]) (\<lambda>_.
     reset_core H A lenient_latch no_crank other_accounts w))"

definition process_reset_permissionless :: "'n host \<Rightarrow> account_info list \<Rightarrow> 'n world \<Rightarrow> 'n world result" where
  "process_reset_permissionless H accounts w =
     and_then (split_at 18 accounts) (\<lambda>(godl_accounts, other_accounts).
     let A = reset_accounts_of godl_accounts in
     and_then (checks H w [(ra_signer A, IsSigner)]) (\<lambda>_.
     reset_core H A strict_latch crank_split other_accounts w))"

section \<open>The parts of a closing\<close>

lemma reset_core_cases:
  assumes "reset_core H A latch crank accs w = Inr w'"
  obtains (parts) cfg bd r mt sm t w1 q where "reset_checks H A w = Inr (cfg, bd, r, mt, sm, t)" "open_next_round H A bd w = Inr w1"
    "reset_refund H A bd (r\<lparr>rnd_slot_hash := q\<rparr>) w1 = Inr w'
      \<or> (\<exists>sq fee n fees. reset_vault_all H A bd (r\<lparr>rnd_slot_hash := q\<rparr>) sq fee n fees sm t w1 = Inr w')
      \<or> (\<exists>accs g sq n fees. reset_winners H A latch accs cfg bd (r\<lparr>rnd_slot_hash := q\<rparr>) g sq n fees mt sm t w1 = Inr w')"
  using assms unfolding reset_core_def Let_def
  by (elim and_thenE) (fastforce simp: result_simps elim!: and_thenE split: option.splits if_splits)

lemma reset_checks_data:
  assumes "reset_checks H A w = Inr (cfg, bd, r, mt, sm, t)"
  shows "w_data w (ai_key (ra_round A)) = ARound r" "w_data w (ai_key (ra_treasury A)) = ATreasury t"
    "w_data w (ai_key (ra_sol_motherlode A)) = ASolMotherlode sm" "w_data w (ai_key (ra_board A)) = ABoard bd"
  using assms unfolding reset_checks_def by (auto simp: result_simps)

end
