(* ===== verification/Checkpoint.thy ===== *)
theory Checkpoint
  imports GoldHandlers Round
begin

text \<open>
  Checkpoints: \<open>process_checkpoint\<close> and \<open>process_checkpoint_with_miner_extended\<close>
  (\<open>src/program/src/miner/checkpoint.rs\<close>, \<open>checkpoint_with_miner_extended.rs\<close>), which turn the
  outcome of a finished round into the rewards of one miner. The two handlers run the same code,
  the second with two gold accounts more; \<open>checkpoint_core\<close> is that code, with the gold accounts
  as an option.
\<close>

section \<open>Rewards of a miner in a finished round\<close>

text \<open>\<open>((pot as u128 * part as u128) / whole as u128) as u64\<close>\<close>

definition share_of :: "u64 \<Rightarrow> u64 \<Rightarrow> u64 \<Rightarrow> u64" where
  "share_of pot part whole = as_u64 (pot * part div whole)"

text \<open>SOL of a miner with \<open>deployed\<close> on the winning square: the deployment less its fee (at least
  one lamport) and the share of the winnings.\<close>

definition winner_sol :: "u64 \<Rightarrow> u64 \<Rightarrow> u64 \<Rightarrow> u64 result" where
  "winner_sol total_winnings deployed square_deployed =
     and_then (ok_or (checked_add ADMIN_FEE_BPS SOL_MOTHERLODE_BPS) InvalidInstructionData) (\<lambda>fee_bps.
     and_then (ok_or (checked_mul deployed fee_bps) InvalidInstructionData) (\<lambda>p.
     let fee = max (p div DENOMINATOR_BPS) 1 in
     and_then (ok_or (checked_sub deployed fee) InvalidInstructionData) (\<lambda>rewards_sol.
     add64 rewards_sol (share_of total_winnings deployed square_deployed))))"

definition pool_share :: "'n host \<Rightarrow> account_info \<Rightarrow> pool_member option \<Rightarrow> round \<Rightarrow> 'n miner \<Rightarrow> nat \<Rightarrow> 'n world
    \<Rightarrow> u64 result" where
  "pool_share H pool_round_info pool_member_state r m sq w =
     (case pool_member_state of
       Some pool_member \<Rightarrow>
         if pm_round_id pool_member = mn_round_id m \<and> pm_deployed pool_member ! sq > 0
            \<and> \<not> data_is_empty pool_round_info w
         then
           and_then (checks H w [(pool_round_info, IsWritable),
             (pool_round_info, HasSeeds [POOL_ROUND, SNum (rnd_id r)])]) (\<lambda>_.
           and_then (as_pool_round_mut H pool_round_info w) (\<lambda>pool_round.
           and_then (ensure H (pr_id pool_round = rnd_id r)) (\<lambda>_.
           let pool_deployed = pr_deployed pool_round ! sq in
           Inr (if pool_deployed > 0
                then share_of (rnd_top_miner_reward r) (pm_deployed pool_member ! sq) pool_deployed
                else 0))))
         else Inr 0
     | None \<Rightarrow> Inr 0)"

text \<open>The sample test of a solo round; the sum aborts on overflow and is only evaluated when the
  first comparison holds.\<close>

definition is_top_miner :: "round \<Rightarrow> 64 word \<Rightarrow> 'n miner \<Rightarrow> nat \<Rightarrow> bool result" where
  "is_top_miner r g m sq =
     (let sample = top_miner_sample r g sq in
      if sample \<ge> mn_cumulative m ! sq
      then and_then (add64 (mn_cumulative m ! sq) (mn_deployed m ! sq)) (\<lambda>upper. Inr (sample < upper))
      else Inr False)"

definition block_reward :: "'n host \<Rightarrow> account_info \<Rightarrow> pool_member option \<Rightarrow> round \<Rightarrow> 64 word \<Rightarrow> 'n miner \<Rightarrow> nat
    \<Rightarrow> 'n world \<Rightarrow> (u64 \<times> round) result" where
  "block_reward H pool_round_info pool_member_state r g m sq w =
     (if rnd_top_miner r = SPLIT_ADDRESS then
        Inr (share_of (rnd_top_miner_reward r) (mn_deployed m ! sq) (rnd_deployed r ! sq), r)
      else if rnd_top_miner r = POOL_ADDRESS then
        and_then (pool_share H pool_round_info pool_member_state r m sq w) (\<lambda>g. Inr (g, r))
      else
        and_then (is_top_miner r g m sq) (\<lambda>wins.
        Inr (if wins then (rnd_top_miner_reward r, r\<lparr>rnd_top_miner := mn_authority m\<rparr>) else (0, r))))"

text \<open>SOL, GODL and the round after the payout of a round with a random number.\<close>

definition winner_rewards :: "'n host \<Rightarrow> account_info \<Rightarrow> pool_member option \<Rightarrow> round \<Rightarrow> 64 word \<Rightarrow> 'n miner
    \<Rightarrow> 'n world \<Rightarrow> (u64 \<times> u64 \<times> round) result" where
  "winner_rewards H pool_round_info pool_member_state r g m w =
     (let sq = winning_square g; dep = mn_deployed m ! sq in
      if dep > 0 then
        and_then (assert_panic (rnd_deployed r ! sq \<ge> dep)) (\<lambda>_.
        and_then (winner_sol (rnd_total_winnings r) dep (rnd_deployed r ! sq)) (\<lambda>rewards_sol.
        and_then (block_reward H pool_round_info pool_member_state r g m sq w) (\<lambda>(rewards_godl, r).
        and_then (if rnd_motherlode r > 0
                  then add64 rewards_godl (share_of (rnd_motherlode r) dep (rnd_deployed r ! sq))
                  else Inr rewards_godl) (\<lambda>rewards_godl.
        Inr (rewards_sol, rewards_godl, r)))))
      else Inr (0, 0, r))"

text \<open>\<open>iter().sum::<u64>()\<close>\<close>

definition sum_u64 :: "u64 list \<Rightarrow> u64 result" where
  "sum_u64 ds = foldl (\<lambda>acc d. and_then acc (\<lambda>a. add64 a d)) (Inr 0) ds"

definition miner_rewards :: "'n host \<Rightarrow> account_info \<Rightarrow> pool_member option \<Rightarrow> round \<Rightarrow> 'n miner \<Rightarrow> 'n world
    \<Rightarrow> (u64 \<times> u64 \<times> round) result" where
  "miner_rewards H pool_round_info pool_member_state r m w =
     (case rng r of
       Some g \<Rightarrow> winner_rewards H pool_round_info pool_member_state r g m w
     | None \<Rightarrow>
         and_then (assert_panic (rnd_total_deployed r = 0)) (\<lambda>_.
         and_then (sum_u64 (mn_deployed m)) (\<lambda>refund.
         Inr (refund, 0, r))))"

section \<open>The handlers\<close>

text \<open>\<open>if clock.slot >= round.expires_at - TWELVE_HOURS_SLOTS\<close>\<close>

definition take_bot_fee :: "u64 \<Rightarrow> round \<Rightarrow> 'n miner \<Rightarrow> (u64 \<times> 'n miner) result" where
  "take_bot_fee slot r m =
     and_then (sub64 (rnd_expires_at r) TWELVE_HOURS_SLOTS) (\<lambda>open_at.
     Inr (if slot \<ge> open_at then (mn_checkpoint_fee m, m\<lparr>mn_checkpoint_fee := 0\<rparr>) else (0, m)))"

definition load_pool_member :: "'n host \<Rightarrow> account_info \<Rightarrow> 'n miner \<Rightarrow> 'n world \<Rightarrow> pool_member option result" where
  "load_pool_member H pool_member_info m w =
     (if data_is_empty pool_member_info w then Inr None
      else
        and_then (checks H w [(pool_member_info, IsWritable),
          (pool_member_info, HasSeeds [POOL_MEMBER, SKey (mn_authority m)])]) (\<lambda>_.
        and_then (as_pool_member H pool_member_info w) (\<lambda>p.
        and_then (ensure H (pm_authority p = mn_authority m)) (\<lambda>_.
        Inr (Some p)))))"

text \<open>The fields a checkpoint changes once rewards are known and settled.\<close>

definition credit_checkpoint :: "round \<Rightarrow> u64 \<Rightarrow> u64 \<Rightarrow> 'n miner \<Rightarrow> 'n miner result" where
  "credit_checkpoint r rewards_sol rewards_godl m =
     (let m = m\<lparr>mn_checkpoint_id := rnd_id r\<rparr> in
      and_then (add64 (mn_rewards_godl m) rewards_godl) (\<lambda>g.
      and_then (add64 (mn_lifetime_rewards_godl m) rewards_godl) (\<lambda>lg.
      and_then (add64 (mn_rewards_sol m) rewards_sol) (\<lambda>s.
      and_then (add64 (mn_lifetime_rewards_sol m) rewards_sol) (\<lambda>ls.
      Inr (m\<lparr>mn_rewards_godl := g, mn_lifetime_rewards_godl := lg, mn_rewards_sol := s,
            mn_lifetime_rewards_sol := ls\<rparr>))))))"

definition settle_gold :: "'n host \<Rightarrow> (account_info \<times> 'n gold_vault) option \<Rightarrow> account_info \<Rightarrow> account_info
    \<Rightarrow> u64 \<Rightarrow> 'n miner \<Rightarrow> 'n world \<Rightarrow> 'n world result" where
  "settle_gold H gold signer_info system_program rewards_godl m w =
     (case gold of
       Some (miner_extended_info, gold_vault) \<Rightarrow>
         and_then (load_or_create_miner_extended H miner_extended_info gold_vault (mn_authority m) signer_info
                     system_program False w) (\<lambda>(extended, w).
         and_then (guard (\<not> (extended = None \<and> (mn_rewards_godl m > 0 \<or> rewards_godl > 0)))
                     (Godl MinerExtendedMissing)) (\<lambda>_.
         sync_gold H miner_extended_info extended gold_vault m w))
     | None \<Rightarrow> Inr w)"

definition pay_checkpoint :: "'n host \<Rightarrow> account_info \<Rightarrow> account_info \<Rightarrow> account_info \<Rightarrow> u64 \<Rightarrow> u64 \<Rightarrow> 'n miner
    \<Rightarrow> 'n world \<Rightarrow> 'n world result" where
  "pay_checkpoint H signer_info miner_info round_info rewards_sol bot_fee m w =
     and_then (if rewards_sol > 0 then send H round_info rewards_sol miner_info w else Inr w) (\<lambda>w.
     and_then (if bot_fee > 0 then send H miner_info bot_fee signer_info w else Inr w) (\<lambda>w.
     and_then (add64 (h_minimum_balance H (8 + size_of_miner)) (mn_checkpoint_fee m)) (\<lambda>s.
     and_then (add64 s (mn_rewards_sol m)) (\<lambda>required.
     and_then (assert_panic (lamports miner_info w \<ge> required)) (\<lambda>_.
     Inr w)))))"

text \<open>From the loaded accounts on: the early returns, the rewards and their payment.\<close>

definition checkpoint_round :: "'n host \<Rightarrow> account_info \<Rightarrow> account_info \<Rightarrow> account_info \<Rightarrow> account_info \<Rightarrow> account_info
    \<Rightarrow> account_info \<Rightarrow> account_info \<Rightarrow> (account_info \<times> 'n gold_vault) option \<Rightarrow> board \<Rightarrow> 'n miner \<Rightarrow> 'n treasury
    \<Rightarrow> 'n world \<Rightarrow> 'n world result" where
  "checkpoint_round H signer_info miner_info round_info treasury_info pool_round_info pool_member_info
       system_program gold board m t w =
     (if mn_checkpoint_id m = mn_round_id m then Inr w
      else if data_is_empty round_info w then
        and_then (checks H w [(round_info, HasSeeds [ROUND, SNum (mn_round_id m)])]) (\<lambda>_.
        Inr (put miner_info (AMiner (m\<lparr>mn_checkpoint_id := mn_round_id m\<rparr>)) w))
      else
        and_then (as_round_mut H round_info w) (\<lambda>r.
        if rnd_id r = board_round_id board \<or> rnd_id r \<noteq> mn_round_id m \<or> rnd_slot_hash r = replicate 32 0
        then Inr w
        else
          and_then (load_pool_member H pool_member_info m w) (\<lambda>pool_member_state.
          if w_slot w \<ge> rnd_expires_at r
          then Inr (put miner_info (AMiner (m\<lparr>mn_checkpoint_id := mn_round_id m\<rparr>)) w)
          else
            and_then (take_bot_fee (w_slot w) r m) (\<lambda>(bot_fee, m).
            and_then (miner_rewards H pool_round_info pool_member_state r m w) (\<lambda>(rewards_sol, rewards_godl, r).
            and_then (mn_update_rewards (h_num H) t m) (\<lambda>m.
            and_then (settle_gold H gold signer_info system_program rewards_godl m w) (\<lambda>w.
            and_then (credit_checkpoint r rewards_sol rewards_godl m) (\<lambda>m.
            and_then (add64 (tr_total_unclaimed t) rewards_godl) (\<lambda>unclaimed.
            let w = put treasury_info (ATreasury (t\<lparr>tr_total_unclaimed := unclaimed\<rparr>))
                      (put round_info (ARound r) (put miner_info (AMiner m) w)) in
            pay_checkpoint H signer_info miner_info round_info rewards_sol bot_fee m w)))))))))"

definition checkpoint_core :: "'n host \<Rightarrow> account_info list \<Rightarrow> (account_info \<times> account_info) option \<Rightarrow> 'n world
    \<Rightarrow> 'n world result" where
  "checkpoint_core H accounts gold w =
     (case accounts of [signer_info, board_info, miner_info, round_info, treasury_info, pool_round_info,
         pool_member_info, system_program] \<Rightarrow>
       and_then (checks H w [(signer_info, IsSigner)]) (\<lambda>_.
       and_then (as_board H board_info w) (\<lambda>board.
       and_then (as_miner_mut H miner_info w) (\<lambda>m.
       and_then (as_treasury_mut H treasury_info w) (\<lambda>t.
       and_then (checks H w [(system_program, IsProgram SystemProgram)]) (\<lambda>_.
       and_then (case gold of
           Some (gold_vault_info, miner_extended_info) \<Rightarrow>
             and_then (checks H w [(gold_vault_info, HasSeeds [GOLD_VAULT])]) (\<lambda>_.
             and_then (as_gold_vault H gold_vault_info w) (\<lambda>gold_vault.
             and_then (checks H w [(miner_extended_info, HasSeeds [MINER_EXTENDED, SKey (mn_authority m)])]) (\<lambda>_.
             Inr (Some (miner_extended_info, gold_vault)))))
         | None \<Rightarrow> Inr None) (\<lambda>gold.
       checkpoint_round H signer_info miner_info round_info treasury_info pool_round_info pool_member_info
         system_program gold board m t w))))))
     | _ \<Rightarrow> Inl NotEnoughAccountKeys)"

definition process_checkpoint :: "'n host \<Rightarrow> account_info list \<Rightarrow> 'n world \<Rightarrow> 'n world result" where
  "process_checkpoint H accounts w =
     and_then (guard (\<not> w_unix_timestamp w \<ge> LEGACY_INSTRUCTION_EXPIRY_TS) (Godl LegacyCheckpointExpired)) (\<lambda>_.
     checkpoint_core H accounts None w)"

definition process_checkpoint_with_miner_extended :: "'n host \<Rightarrow> account_info list \<Rightarrow> 'n world \<Rightarrow> 'n world result" where
  "process_checkpoint_with_miner_extended H accounts w =
     (if length accounts = 10
      then checkpoint_core H (take 8 accounts) (Some (accounts ! 8, accounts ! 9)) w
      else Inl NotEnoughAccountKeys)"

section \<open>Facts\<close>

lemma share_of_le:
  assumes "part \<le> whole" "pot \<le> u64_max"
  shows "share_of pot part whole \<le> pot" "share_of pot part whole = pot * part div whole"
proof -
  have "pot * part div whole \<le> pot * whole div whole"
    using assms(1) by (intro div_le_mono mult_le_mono2)
  also have "\<dots> \<le> pot" by (cases "whole = 0") simp_all
  finally have le: "pot * part div whole \<le> pot" .
  with assms(2) show "share_of pot part whole = pot * part div whole"
    unfolding share_of_def by (intro as_u64_id) linarith
  with le show "share_of pot part whole \<le> pot" by simp
qed

lemma winner_sol_spec:
  assumes "winner_sol W d D = Inr s" "d \<le> D" "W \<le> u64_max"
  shows "s = d - max (d * 150 div 10000) 1 + W * d div D" "max (d * 150 div 10000) 1 \<le> d" "s \<le> u64_max"
  using assms share_of_le [OF assms(2,3)]
  by (auto simp: winner_sol_def result_simps Let_def bps_consts)

text \<open>No error of the fee arithmetic is reachable for a deployment below 122 million SOL.\<close>

lemma winner_sol_total:
  assumes "0 < d" "d \<le> D" "d * 150 \<le> u64_max" "W + D \<le> u64_max"
  shows "winner_sol W d D = Inr (d - max (d * 150 div 10000) 1 + W * d div D)"
proof -
  have w: "W \<le> u64_max" using assms(4) by linarith
  have fee: "max (d * 150 div 10000) 1 \<le> d" using assms(1) by simp
  have "share_of W d D \<le> W" by (rule share_of_le [OF assms(2) w])
  then have "d - max (d * 150 div 10000) 1 + share_of W d D \<le> u64_max"
    using assms(2,4) by linarith
  then show ?thesis
    using assms(3) fee share_of_le(2) [OF assms(2) w]
    by (simp add: winner_sol_def bps_consts checked_add_def checked_mul_def checked_sub_def Let_def add64_def)
qed

lemma sum_u64_aux:
  "foldl (\<lambda>acc d. and_then acc (\<lambda>a. add64 a d)) (Inr a) ds = Inr s \<longleftrightarrow>
     s = a + sum_list ds \<and> (ds = [] \<or> a + sum_list ds \<le> u64_max)"
proof (induction ds arbitrary: a)
  case (Cons d ds)
  have e: "foldl (\<lambda>acc d. and_then acc (\<lambda>a. add64 a d)) (Inl x) ds = Inl x" for x
    by (induction ds) simp_all
  show ?case
  proof (cases "a + d \<le> u64_max")
    case True
    then have "add64 a d = Inr (a + d)" by (simp add: add64_def)
    with True show ?thesis by (auto simp: Cons.IH)
  next
    case False
    then have "add64 a d = Inl Panic" by (simp add: add64_def)
    with False show ?thesis by (simp add: e)
  qed
qed auto

lemma sum_u64_eq_Inr [result_simps]:
  "sum_u64 ds = Inr s \<longleftrightarrow> s = sum_list ds \<and> sum_list ds \<le> u64_max"
  by (auto simp: sum_u64_def sum_u64_aux)

text \<open>The outcomes of a checkpoint: nothing to do, marked as done, or paid.\<close>

lemma checkpoint_round_cases:
  assumes "checkpoint_round H s a r b pr pm sys gold bd m t w = Inr w'"
  obtains (same) "w' = w" | (marked) "w' = put a (AMiner (m\<lparr>mn_checkpoint_id := mn_round_id m\<rparr>)) w"
    | (paid) rd ps n g fee m1 rd' m2 w1 m3 u where "w_data w (ai_key r) = ARound rd" "take_bot_fee (w_slot w) rd m = Inr (fee, m1)"
      "miner_rewards H pr ps rd m1 w = Inr (n, g, rd')" "mn_update_rewards (h_num H) t m1 = Inr m2"
      "settle_gold H gold s sys g m2 w = Inr w1" "credit_checkpoint rd' n g m2 = Inr m3" "u = tr_total_unclaimed t + g"
      "pay_checkpoint H s a r n fee m3 (put b (ATreasury (t\<lparr>tr_total_unclaimed := u\<rparr>)) (put r (ARound rd') (put a (AMiner m3) w1))) = Inr w'"
  using assms unfolding checkpoint_round_def
  by (auto simp: result_simps Let_def split: if_splits)

end
