(* ===== verification/RoundSystem.thy ===== *)
theory RoundSystem
  imports Deploy Reset Checkpoint
begin

text \<open>
  A round as a state machine. The state is the round with the miners that deployed in it; a step
  lets a miner enter (\<open>enter_round\<close>) and runs the deployment loop. The invariants say that on
  every square the miners' intervals tile the square's total; the payouts of reset and checkpoint
  then follow for every reachable round.
\<close>

section \<open>What the deployment loop does\<close>

definition arrays_ok :: "'n miner \<Rightarrow> round \<Rightarrow> bool" where
  "arrays_ok m r \<longleftrightarrow> length (mn_deployed m) = 25 \<and> length (mn_cumulative m) = 25 \<and>
     length (rnd_deployed r) = 25 \<and> length (rnd_count r) = 25"

definition untouched :: "nat \<Rightarrow> 'n miner \<Rightarrow> round \<Rightarrow> 'n miner \<Rightarrow> round \<Rightarrow> bool" where
  "untouched j m r m' r' \<longleftrightarrow> mn_deployed m' ! j = mn_deployed m ! j \<and>
     mn_cumulative m' ! j = mn_cumulative m ! j \<and> rnd_deployed r' ! j = rnd_deployed r ! j \<and>
     rnd_count r' ! j = rnd_count r ! j"

definition placed :: "u64 \<Rightarrow> nat \<Rightarrow> 'n miner \<Rightarrow> round \<Rightarrow> 'n miner \<Rightarrow> round \<Rightarrow> bool" where
  "placed amount j m r m' r' \<longleftrightarrow> mn_deployed m ! j = 0 \<and> mn_deployed m' ! j = amount \<and>
     mn_cumulative m' ! j = rnd_deployed r ! j \<and> rnd_deployed r' ! j = rnd_deployed r ! j + amount \<and>
     rnd_count r' ! j = rnd_count r ! j + 1"

lemma untouched_refl [simp]: "untouched j m r m r"
  by (simp add: untouched_def)

lemma place_square_spec:
  assumes "place_square amount sq m r = Inr (m', r')" "arrays_ok m r" "sq < 25" "mn_deployed m ! sq = 0"
  shows "arrays_ok m' r'" "placed amount sq m r m' r'" "j \<noteq> sq \<Longrightarrow> untouched j m r m' r'"
    "rnd_total_deployed r' = rnd_total_deployed r + amount"
    "sum_list (rnd_deployed r') = sum_list (rnd_deployed r) + amount"
    "mn_authority m' = mn_authority m" "rnd_id r' = rnd_id r"
    "rnd_deployed r' ! sq \<le> u64_max" "rnd_total_deployed r' \<le> u64_max"
  using assms sum_list_update_nat [of sq "rnd_deployed r" "\<lambda>x. x" "rnd_deployed r ! sq + amount"]
  by (auto simp: place_square_def arrays_ok_def placed_def untouched_def result_simps Let_def)

text \<open>One turn of the loop on a square that is deployed to.\<close>

lemma deploy_loop_place:
  assumes "deploy_loop pool ip au amount sq (b # rest) ds = Inr ds'"
    "\<not> sq > 24" "b" "\<not> mn_deployed (ds_miner ds) ! sq > 0"
  obtains d where "(\<exists>a. au = Some a \<and> d = ds' \<and> au_balance a < ds_total_amount d + au_fee a + amount)
      \<or> deploy_loop pool ip au amount (sq + 1) rest d = Inr ds'"
    "place_square amount sq (ds_miner ds) (ds_round ds) = Inr (ds_miner d, ds_round d)"
    "ds_total_amount d = ds_total_amount ds + amount"
    "ds_total_squares d = ds_total_squares ds + 1"
proof -
  obtain m r pr w t
    where ps: "place_square amount sq (ds_miner ds) (ds_round ds) = Inr (m, r)"
      and pw: "(if ip then pool sq r (ds_pool_round ds) (ds_world ds) else Inr (ds_pool_round ds, ds_world ds)) = Inr (pr, w)"
      and ta: "add64 (ds_total_amount ds) amount = Inr t"
    using assms by (auto simp: and_then_eq_Inr)
  let ?d = "\<lparr>ds_miner = m, ds_round = r, ds_pool_round = pr, ds_total_amount = t,
             ds_total_squares = ds_total_squares ds + 1, ds_world = w\<rparr>"
  have tv: "t = ds_total_amount ds + amount" using ta by (simp add: result_simps)
  show ?thesis
  proof (rule that [of ?d])
    show "(\<exists>a. au = Some a \<and> ?d = ds' \<and> au_balance a < ds_total_amount ?d + au_fee a + amount)
        \<or> deploy_loop pool ip au amount (sq + 1) rest ?d = Inr ds'"
      using assms ps pw ta by (auto simp: Let_def result_simps split: option.splits if_splits)
  qed (use ps tv in simp_all)
qed

lemma deploy_loop_spec:
  assumes "deploy_loop pool ip au amount sq sqs ds = Inr ds'" "arrays_ok (ds_miner ds) (ds_round ds)"
  shows "arrays_ok (ds_miner ds') (ds_round ds') \<and>
    (\<forall>j<25. untouched j (ds_miner ds) (ds_round ds) (ds_miner ds') (ds_round ds') \<or>
       sq \<le> j \<and> placed amount j (ds_miner ds) (ds_round ds) (ds_miner ds') (ds_round ds')) \<and>
    rnd_total_deployed (ds_round ds') + sum_list (rnd_deployed (ds_round ds)) =
      rnd_total_deployed (ds_round ds) + sum_list (rnd_deployed (ds_round ds')) \<and>
    ds_total_amount ds' + rnd_total_deployed (ds_round ds) = ds_total_amount ds + rnd_total_deployed (ds_round ds') \<and>
    mn_authority (ds_miner ds') = mn_authority (ds_miner ds) \<and> rnd_id (ds_round ds') = rnd_id (ds_round ds) \<and>
    (rnd_total_deployed (ds_round ds) \<le> u64_max \<longrightarrow> rnd_total_deployed (ds_round ds') \<le> u64_max)"
  using assms
proof (induction sqs arbitrary: sq ds)
  case Nil
  then show ?case by simp
next
  case (Cons b rest)
  have skip: ?case if l: "deploy_loop pool ip au amount (sq + 1) rest ds = Inr ds'"
    using Cons.IH [OF l Cons.prems(2)] by (auto intro: Suc_leD)
  consider (stop) "sq > 24" | (over) "\<not> sq > 24" "\<not> b \<or> mn_deployed (ds_miner ds) ! sq > 0"
    | (place) "\<not> sq > 24" "b" "\<not> mn_deployed (ds_miner ds) ! sq > 0"
    by argo
  then show ?case
  proof cases
    case stop
    with Cons.prems show ?thesis by simp
  next
    case over
    with Cons.prems(1) have "deploy_loop pool ip au amount (sq + 1) rest ds = Inr ds'"
      by (auto split: if_splits)
    then show ?thesis by (rule skip)
  next
    case place
    obtain d where res: "(\<exists>a. au = Some a \<and> d = ds' \<and> au_balance a < ds_total_amount d + au_fee a + amount)
        \<or> deploy_loop pool ip au amount (sq + 1) rest d = Inr ds'"
      and ps: "place_square amount sq (ds_miner ds) (ds_round ds) = Inr (ds_miner d, ds_round d)"
      and ta: "ds_total_amount d = ds_total_amount ds + amount"
      by (rule deploy_loop_place [OF Cons.prems(1) place])
    have z: "mn_deployed (ds_miner ds) ! sq = 0" and lt: "sq < 25" using place by auto
    note sp = place_square_spec [OF ps Cons.prems(2) lt z]
    let ?R = "\<lambda>ds sq. arrays_ok (ds_miner ds') (ds_round ds') \<and>
      (\<forall>j<25. untouched j (ds_miner ds) (ds_round ds) (ds_miner ds') (ds_round ds') \<or>
         sq \<le> j \<and> placed amount j (ds_miner ds) (ds_round ds) (ds_miner ds') (ds_round ds')) \<and>
      rnd_total_deployed (ds_round ds') + sum_list (rnd_deployed (ds_round ds)) =
        rnd_total_deployed (ds_round ds) + sum_list (rnd_deployed (ds_round ds')) \<and>
      ds_total_amount ds' + rnd_total_deployed (ds_round ds) = ds_total_amount ds + rnd_total_deployed (ds_round ds') \<and>
      mn_authority (ds_miner ds') = mn_authority (ds_miner ds) \<and> rnd_id (ds_round ds') = rnd_id (ds_round ds) \<and>
      (rnd_total_deployed (ds_round ds) \<le> u64_max \<longrightarrow> rnd_total_deployed (ds_round ds') \<le> u64_max)"
    have ih: "?R d (sq + 1)"
      using res
    proof
      assume "\<exists>a. au = Some a \<and> d = ds' \<and> au_balance a < ds_total_amount d + au_fee a + amount"
      then show ?thesis using sp(1) by auto
    next
      assume "deploy_loop pool ip au amount (sq + 1) rest d = Inr ds'"
      then show ?thesis by (rule Cons.IH [OF _ sp(1)])
    qed
    have "untouched j (ds_miner ds) (ds_round ds) (ds_miner ds') (ds_round ds') \<or>
        sq \<le> j \<and> placed amount j (ds_miner ds) (ds_round ds) (ds_miner ds') (ds_round ds')" if j: "j < 25" for j
    proof (cases "j = sq")
      case True
      with ih j have "untouched j (ds_miner d) (ds_round d) (ds_miner ds') (ds_round ds')" by fastforce
      with sp(2) True show ?thesis by (simp add: untouched_def placed_def)
    next
      case False
      with ih j sp(3) [OF False] show ?thesis by (auto simp: untouched_def placed_def)
    qed
    then show ?thesis using ih sp(4-7,9) ta by auto
  qed
qed

text \<open>With a balance for all the squares it counted, an automation is never stopped early: it
  plays every one of them.\<close>

lemma count_squares_cong:
  assumes "\<And>j. sq \<le> j \<Longrightarrow> j < 25 \<Longrightarrow> mn_deployed m' ! j = mn_deployed m ! j"
  shows "count_squares sq sqs m' = count_squares sq sqs m"
  using assms
proof (induction sqs arbitrary: sq)
  case (Cons b rest)
  have "count_squares (sq + 1) rest m' = count_squares (sq + 1) rest m"
    by (rule Cons.IH) (simp add: Cons.prems)
  with Cons.prems [of sq] show ?case by simp
qed simp

definition funded :: "automation_v2 option \<Rightarrow> u64 \<Rightarrow> nat \<Rightarrow> bool list \<Rightarrow> 'n deploy_state \<Rightarrow> bool" where
  "funded au amount sq sqs ds \<longleftrightarrow> (\<forall>a. au = Some a \<longrightarrow>
     ds_total_amount ds + amount * count_squares sq sqs (ds_miner ds) + au_fee a \<le> au_balance a)"

lemma deploy_loop_funded:
  assumes "deploy_loop pool ip au amount sq (b # rest) ds = Inr ds'" "arrays_ok (ds_miner ds) (ds_round ds)"
    "funded au amount sq (b # rest) ds" "\<not> sq > 24" "b" "\<not> mn_deployed (ds_miner ds) ! sq > 0"
  obtains d where "deploy_loop pool ip au amount (sq + 1) rest d = Inr ds' \<or>
      d = ds' \<and> count_squares (sq + 1) rest (ds_miner d) = 0"
    "place_square amount sq (ds_miner ds) (ds_round ds) = Inr (ds_miner d, ds_round d)"
    "ds_total_amount d = ds_total_amount ds + amount" "ds_total_squares d = ds_total_squares ds + 1"
    "funded au amount (sq + 1) rest d"
    "count_squares sq (b # rest) (ds_miner ds) = 1 + count_squares (sq + 1) rest (ds_miner d)"
proof -
  obtain d where res: "(\<exists>a. au = Some a \<and> d = ds' \<and> au_balance a < ds_total_amount d + au_fee a + amount)
      \<or> deploy_loop pool ip au amount (sq + 1) rest d = Inr ds'"
    and ps: "place_square amount sq (ds_miner ds) (ds_round ds) = Inr (ds_miner d, ds_round d)"
    and t: "ds_total_amount d = ds_total_amount ds + amount" "ds_total_squares d = ds_total_squares ds + 1"
    by (rule deploy_loop_place [OF assms(1,4-6)])
  have z: "mn_deployed (ds_miner ds) ! sq = 0" and lt: "sq < 25" using assms(4,6) by auto
  note sp = place_square_spec [OF ps assms(2) lt z]
  have c: "count_squares sq (b # rest) (ds_miner ds) = 1 + count_squares (sq + 1) rest (ds_miner d)"
    using assms(4-6) sp(3) count_squares_cong [of "sq + 1" "ds_miner d" "ds_miner ds" rest]
    by (simp add: untouched_def)
  have bal: "funded au amount (sq + 1) rest d"
    using assms(3) unfolding funded_def c by (simp add: t algebra_simps)
  have rest: "count_squares (sq + 1) rest (ds_miner d) = 0"
    if "au = Some a" "au_balance a < ds_total_amount d + au_fee a + amount" for a
  proof -
    have "ds_total_amount d + amount * count_squares (sq + 1) rest (ds_miner d) + au_fee a \<le> au_balance a"
      using bal that(1) by (simp add: funded_def)
    with that(2) have "amount * count_squares (sq + 1) rest (ds_miner d) < amount" by linarith
    then show ?thesis by (cases "count_squares (sq + 1) rest (ds_miner d)") simp_all
  qed
  from res have "deploy_loop pool ip au amount (sq + 1) rest d = Inr ds' \<or>
      d = ds' \<and> count_squares (sq + 1) rest (ds_miner d) = 0"
  proof
    assume "\<exists>a. au = Some a \<and> d = ds' \<and> au_balance a < ds_total_amount d + au_fee a + amount"
    then obtain a where "au = Some a" "d = ds'" "au_balance a < ds_total_amount d + au_fee a + amount" by blast
    with rest [OF this(1,3)] show ?thesis by simp
  qed (rule disjI1)
  then show ?thesis using ps t bal c by (rule that)
qed

lemma deploy_loop_skip:
  assumes "deploy_loop pool ip au amount sq (b # rest) ds = Inr ds'" "funded au amount sq (b # rest) ds"
    "\<not> sq > 24" "\<not> b \<or> mn_deployed (ds_miner ds) ! sq > 0"
  shows "deploy_loop pool ip au amount (sq + 1) rest ds = Inr ds'" "funded au amount (sq + 1) rest ds"
    "count_squares sq (b # rest) (ds_miner ds) = count_squares (sq + 1) rest (ds_miner ds)"
proof -
  show c: "count_squares sq (b # rest) (ds_miner ds) = count_squares (sq + 1) rest (ds_miner ds)"
    using assms(3,4) by simp
  show "funded au amount (sq + 1) rest ds" using assms(2) unfolding funded_def c .
  show "deploy_loop pool ip au amount (sq + 1) rest ds = Inr ds'"
    using assms(1,3,4) by (auto split: if_splits)
qed

lemma square_cases:
  obtains (stop) "sq > (24 :: nat)" | (over) "\<not> sq > 24" "\<not> b \<or> n > (0 :: nat)" | (place) "\<not> sq > 24" "b" "\<not> n > 0"
  by argo

lemma deploy_loop_all:
  assumes "deploy_loop pool ip au amount sq sqs ds = Inr ds'" "arrays_ok (ds_miner ds) (ds_round ds)"
    "funded au amount sq sqs ds"
  shows "ds_total_squares ds' = ds_total_squares ds + count_squares sq sqs (ds_miner ds) \<and>
    ds_total_amount ds' = ds_total_amount ds + amount * count_squares sq sqs (ds_miner ds)"
  using assms
proof (induction sqs arbitrary: sq ds)
  case (Cons b rest)
  show ?case
  proof (cases rule: square_cases [where sq = sq and b = b and n = "mn_deployed (ds_miner ds) ! sq"])
    case stop
    with Cons.prems show ?thesis by simp
  next
    case over
    note s = deploy_loop_skip [OF Cons.prems(1,3) over]
    show ?thesis unfolding s(3) by (rule Cons.IH [OF s(1) Cons.prems(2) s(2)])
  next
    case place
    obtain d where res: "deploy_loop pool ip au amount (sq + 1) rest d = Inr ds' \<or>
        d = ds' \<and> count_squares (sq + 1) rest (ds_miner d) = 0"
      and ps: "place_square amount sq (ds_miner ds) (ds_round ds) = Inr (ds_miner d, ds_round d)"
      and t: "ds_total_amount d = ds_total_amount ds + amount" "ds_total_squares d = ds_total_squares ds + 1"
      and bal: "funded au amount (sq + 1) rest d"
      and c: "count_squares sq (b # rest) (ds_miner ds) = 1 + count_squares (sq + 1) rest (ds_miner d)"
      by (rule deploy_loop_funded [OF Cons.prems place])
    have "arrays_ok (ds_miner d) (ds_round d)" using place_square_spec(1) [OF ps Cons.prems(2)] place by simp
    from res Cons.IH [OF _ this bal] t show ?thesis unfolding c by (elim disjE conjE) (simp_all add: algebra_simps)
  qed
qed simp

section \<open>Random masks\<close>

text \<open>A random mask has exactly the number of squares asked for, and the subtraction in the loop
  never aborts.\<close>

definition set_squares :: "bool list \<Rightarrow> nat" where
  "set_squares m = length (filter id m)"

lemma set_squares_update:
  "i < length m \<Longrightarrow> \<not> m ! i \<Longrightarrow> set_squares (m[i := True]) = set_squares m + 1"
  unfolding set_squares_def
proof (induction m arbitrary: i)
  case (Cons b m)
  then show ?case by (cases i) auto
qed simp

lemma random_mask_loop_spec:
  assumes "k \<le> 25" "25 \<le> length r" "length m = 25" "selected \<le> n" "n - selected \<le> 25 - k"
    "\<And>j. k \<le> j \<Longrightarrow> j < 25 \<Longrightarrow> \<not> m ! j" "set_squares m = selected"
  shows "\<exists>m'. random_mask_loop [k..<25] r n selected m = Inr m' \<and> length m' = 25 \<and> set_squares m' = n"
  using assms
proof (induction "25 - k" arbitrary: k selected m)
  case 0
  then have "k = 25" by simp
  with 0 show ?case by simp
next
  case (Suc d)
  then have k: "k < 25" by simp
  have up: "[k..<25] = k # [Suc k..<25]" using k by (rule upt_conv_Cons)
  have d: "d = 25 - Suc k" using Suc.hyps(2) by simp
  have kr: "k < length r" using k Suc.prems(2) by simp
  have sub: "sub64 n selected = Inr (n - selected)" using Suc.prems(4) by (simp add: sub64_def)
  let ?c = "n - selected > 0 \<and> unat (r ! k) * (25 - k) < (n - selected) * 256"
  show ?case
  proof (cases ?c)
    case True
    have "\<exists>m'. random_mask_loop [Suc k..<25] r n (selected + 1) (m[k := True]) = Inr m' \<and>
        length m' = 25 \<and> set_squares m' = n"
    proof (rule Suc.hyps(1) [OF d])
      show "set_squares (m[k := True]) = selected + 1"
        using Suc.prems k by (simp add: set_squares_update)
    qed (use Suc.prems k True in auto)
    with True kr sub show ?thesis by (simp add: up)
  next
    case False
    have "n - selected \<le> 25 - Suc k"
    proof (rule ccontr)
      assume "\<not> n - selected \<le> 25 - Suc k"
      with Suc.prems(5) k have e: "n - selected = 25 - k" by simp
      have "unat (r ! k) < 256" using unsigned_less [where 'a = nat, of "r ! k"] by simp
      then have "unat (r ! k) * (25 - k) < 256 * (25 - k)" using k by simp
      with e k have ?c by (simp add: mult.commute)
      with False show False by contradiction
    qed
    then have "\<exists>m'. random_mask_loop [Suc k..<25] r n selected m = Inr m' \<and>
        length m' = 25 \<and> set_squares m' = n"
      using Suc.prems k by (intro Suc.hyps(1) [OF d]) auto
    with False kr sub show ?thesis by (auto simp: up Let_def)
  qed
qed

lemma generate_random_mask_spec:
  assumes "n \<le> 25" "25 \<le> length r"
  shows "\<exists>m. generate_random_mask n r = Inr m \<and> length m = 25 \<and> set_squares m = n"
  unfolding generate_random_mask_def
  by (rule random_mask_loop_spec) (use assms in \<open>auto simp: set_squares_def\<close>)

section \<open>The round and its miners\<close>

record 'n round_system =
  rs_round :: round
  rs_miners :: "'n miner list"

text \<open>A miner enters the round, new (appended) or again (it deployed nothing yet, in place), and
  the deployment loop runs for it. What the pool block and the balance of an automation do is left
  open.\<close>

inductive round_step :: "'n round_system \<Rightarrow> 'n round_system \<Rightarrow> bool" where
  enter: "enter_round (rs_round S) m = Inr m' \<Longrightarrow> length (mn_cumulative m) = 25 \<Longrightarrow> length (mn_deployed m) = 25 \<Longrightarrow>
    deploy_loop pool is_pooled automation amount 0 squares
      \<lparr>ds_miner = m', ds_round = rs_round S, ds_pool_round = pr, ds_total_amount = 0, ds_total_squares = 0,
       ds_world = w\<rparr> = Inr ds \<Longrightarrow>
    round_step S \<lparr>rs_round = ds_round ds, rs_miners = rs_miners S @ [ds_miner ds]\<rparr>"
| again: "i < length (rs_miners S) \<Longrightarrow> enter_round (rs_round S) (rs_miners S ! i) = Inr m' \<Longrightarrow>
    mn_round_id (rs_miners S ! i) = rnd_id (rs_round S) \<Longrightarrow>
    deploy_loop pool is_pooled automation amount 0 squares
      \<lparr>ds_miner = m', ds_round = rs_round S, ds_pool_round = pr, ds_total_amount = 0, ds_total_squares = 0,
       ds_world = w\<rparr> = Inr ds \<Longrightarrow>
    round_step S \<lparr>rs_round = ds_round ds, rs_miners = (rs_miners S)[i := ds_miner ds]\<rparr>"

inductive round_reachable :: "'n round_system \<Rightarrow> bool" where
  opened: "rs_round S = new_round i payer \<Longrightarrow> rs_miners S = [] \<Longrightarrow> round_reachable S"
| deployed: "round_reachable S \<Longrightarrow> round_step S S' \<Longrightarrow> round_reachable S'"

text \<open>The test of a checkpoint: the sample lies in the miner's interval.\<close>

definition covers :: "nat \<Rightarrow> u64 \<Rightarrow> 'n miner \<Rightarrow> bool" where
  "covers j s m \<longleftrightarrow> mn_cumulative m ! j \<le> s \<and> s < mn_cumulative m ! j + mn_deployed m ! j"

definition holders :: "nat \<Rightarrow> u64 \<Rightarrow> 'n miner list \<Rightarrow> nat" where
  "holders j s ms = sum_list (map (\<lambda>m. if covers j s m then 1 else 0) ms)"

definition stakes_on :: "nat \<Rightarrow> 'n miner list \<Rightarrow> nat" where
  "stakes_on j ms = sum_list (map (\<lambda>m. mn_deployed m ! j) ms)"

definition tiled :: "'n round_system \<Rightarrow> bool" where
  "tiled S \<longleftrightarrow>
     length (rnd_deployed (rs_round S)) = 25 \<and> length (rnd_count (rs_round S)) = 25 \<and>
     (\<forall>m\<in>set (rs_miners S). arrays_ok m (rs_round S)) \<and>
     rnd_total_deployed (rs_round S) = sum_list (rnd_deployed (rs_round S)) \<and>
     rnd_total_deployed (rs_round S) \<le> u64_max \<and>
     (\<forall>j<25. stakes_on j (rs_miners S) = rnd_deployed (rs_round S) ! j \<and>
        (\<forall>s. holders j s (rs_miners S) = (if s < rnd_deployed (rs_round S) ! j then 1 else 0)))"

lemma enter_round_spec:
  assumes "enter_round r m = Inr m'" "length (rnd_deployed r) = 25" "length (rnd_count r) = 25"
    "length (mn_cumulative m) = 25" "length (mn_deployed m) = 25"
  shows "arrays_ok m' r" "mn_deployed m' = zero_squares" "mn_round_id m' = rnd_id r"
    "mn_authority m' = mn_authority m"
    "mn_round_id m = rnd_id r \<Longrightarrow> mn_deployed m = zero_squares"
  using assms by (auto simp: enter_round_def arrays_ok_def split: if_splits)

text \<open>One deployment keeps the tiling: on every square the miner's interval is empty or the next
  one.\<close>

lemma deploy_tile:
  assumes d: "deploy_loop pool ip au amount 0 sqs ds = Inr ds'"
    and ok: "arrays_ok (ds_miner ds) (ds_round ds)" and z: "mn_deployed (ds_miner ds) = zero_squares"
    and j: "j < 25"
  shows "mn_deployed (ds_miner ds') ! j + rnd_deployed (ds_round ds) ! j = rnd_deployed (ds_round ds') ! j \<and>
    (covers j s (ds_miner ds') \<longleftrightarrow> rnd_deployed (ds_round ds) ! j \<le> s \<and> s < rnd_deployed (ds_round ds') ! j)"
proof -
  have "untouched j (ds_miner ds) (ds_round ds) (ds_miner ds') (ds_round ds') \<or>
      placed amount j (ds_miner ds) (ds_round ds) (ds_miner ds') (ds_round ds')"
    using deploy_loop_spec [OF d ok] j by blast
  then show ?thesis using z j by (auto simp: untouched_def placed_def covers_def)
qed

lemma tiled_opened: "rs_round S = new_round i payer \<Longrightarrow> rs_miners S = [] \<Longrightarrow> tiled S"
  by (simp add: tiled_def new_round_def holders_def stakes_on_def zero_squares_def sum_list_replicate)

lemma tiled_step:
  assumes "tiled S" "round_step S S'"
  shows "tiled S'"
  using assms(2)
proof cases
  case (enter m m' pool is_pooled automation amount squares pr w ds)
  let ?ds = "\<lparr>ds_miner = m', ds_round = rs_round S, ds_pool_round = pr, ds_total_amount = 0,
              ds_total_squares = 0, ds_world = w\<rparr>"
  have r: "length (rnd_deployed (rs_round S)) = 25" "length (rnd_count (rs_round S)) = 25"
    using assms(1) by (auto simp: tiled_def)
  note es = enter_round_spec [OF enter(2) r enter(3) enter(4)]
  have ok: "arrays_ok (ds_miner ?ds) (ds_round ?ds)" using es(1) by simp
  have z: "mn_deployed (ds_miner ?ds) = zero_squares" using es(2) by simp
  note sp = deploy_loop_spec [OF enter(5) ok]
  note tile = deploy_tile [OF enter(5) ok z]
  have old: "arrays_ok m (ds_round ds)" if "m \<in> set (rs_miners S)" for m
    using that assms(1) sp by (auto simp: tiled_def arrays_ok_def)
  show ?thesis
    unfolding tiled_def enter(1) round_system.simps
  proof (intro conjI ballI allI impI)
    show "length (rnd_deployed (ds_round ds)) = 25" "length (rnd_count (ds_round ds)) = 25"
      using sp by (auto simp: arrays_ok_def)
    show "arrays_ok x (ds_round ds)" if "x \<in> set (rs_miners S @ [ds_miner ds])" for x
      using that sp old by auto
    show "rnd_total_deployed (ds_round ds) \<le> u64_max"
      using sp assms(1) by (simp add: tiled_def)
    show "rnd_total_deployed (ds_round ds) = sum_list (rnd_deployed (ds_round ds))"
      using sp assms(1) by (simp add: tiled_def)
    fix j s assume j: "j < (25::nat)"
    show "stakes_on j (rs_miners S @ [ds_miner ds]) = rnd_deployed (ds_round ds) ! j"
      using tile [OF j, of 0] assms(1) j by (simp add: tiled_def stakes_on_def)
    have "holders j s (rs_miners S) = (if s < rnd_deployed (rs_round S) ! j then 1 else 0)"
      using assms(1) j by (simp add: tiled_def)
    then show "holders j s (rs_miners S @ [ds_miner ds]) = (if s < rnd_deployed (ds_round ds) ! j then 1 else 0)"
      using tile [OF j, of s] by (auto simp: holders_def)
  qed
next
  case (again i m' pool is_pooled automation amount squares pr w ds)
  let ?m = "rs_miners S ! i"
  let ?ds = "\<lparr>ds_miner = m', ds_round = rs_round S, ds_pool_round = pr, ds_total_amount = 0,
              ds_total_squares = 0, ds_world = w\<rparr>"
  have r: "length (rnd_deployed (rs_round S)) = 25" "length (rnd_count (rs_round S)) = 25"
    using assms(1) by (auto simp: tiled_def)
  have "arrays_ok ?m (rs_round S)" using assms(1) again(2) by (auto simp: tiled_def)
  then have am: "length (mn_cumulative ?m) = 25" "length (mn_deployed ?m) = 25" by (auto simp: arrays_ok_def)
  note es = enter_round_spec [OF again(3) r am]
  have mz: "mn_deployed ?m = zero_squares" by (rule es(5) [OF again(4)])
  have ok: "arrays_ok (ds_miner ?ds) (ds_round ?ds)" using es(1) by simp
  have z: "mn_deployed (ds_miner ?ds) = zero_squares" using es(2) by simp
  note sp = deploy_loop_spec [OF again(5) ok]
  note tile = deploy_tile [OF again(5) ok z]
  have old: "arrays_ok m (ds_round ds)" if "m \<in> set (rs_miners S)" for m
    using that assms(1) sp by (auto simp: tiled_def arrays_ok_def)
  show ?thesis
    unfolding tiled_def again(1) round_system.simps
  proof (intro conjI ballI allI impI)
    show "length (rnd_deployed (ds_round ds)) = 25" "length (rnd_count (ds_round ds)) = 25"
      using sp by (auto simp: arrays_ok_def)
    show "arrays_ok x (ds_round ds)" if "x \<in> set ((rs_miners S)[i := ds_miner ds])" for x
      using that sp old set_update_subset_insert [of "rs_miners S" i] by auto
    show "rnd_total_deployed (ds_round ds) \<le> u64_max"
      using sp assms(1) by (simp add: tiled_def)
    show "rnd_total_deployed (ds_round ds) = sum_list (rnd_deployed (ds_round ds))"
      using sp assms(1) by (simp add: tiled_def)
    fix j s assume j: "j < (25::nat)"
    have "stakes_on j ((rs_miners S)[i := ds_miner ds]) = stakes_on j (rs_miners S) + mn_deployed (ds_miner ds) ! j"
      using sum_list_update_nat [OF again(2), of "\<lambda>m. mn_deployed m ! j" "ds_miner ds"] mz j
      by (simp add: stakes_on_def)
    then show "stakes_on j ((rs_miners S)[i := ds_miner ds]) = rnd_deployed (ds_round ds) ! j"
      using tile [OF j, of 0] assms(1) j by (simp add: tiled_def)
    have "\<not> covers j s ?m" using mz j by (simp add: covers_def)
    then have "holders j s ((rs_miners S)[i := ds_miner ds]) =
        holders j s (rs_miners S) + (if covers j s (ds_miner ds) then 1 else 0)"
      using sum_list_update_nat [OF again(2), of "\<lambda>m. if covers j s m then 1 else 0" "ds_miner ds"]
      by (simp add: holders_def)
    moreover have "holders j s (rs_miners S) = (if s < rnd_deployed (rs_round S) ! j then 1 else 0)"
      using assms(1) j by (simp add: tiled_def)
    ultimately show "holders j s ((rs_miners S)[i := ds_miner ds]) =
        (if s < rnd_deployed (ds_round ds) ! j then 1 else 0)"
      using tile [OF j, of s] by auto
  qed
qed

lemma tiled_reachable: "round_reachable S \<Longrightarrow> tiled S"
  by (induction rule: round_reachable.induct) (auto intro: tiled_opened tiled_step)

end
