(* ===== verification/Payout.thy ===== *)
theory Payout
  imports RoundSystem
begin

text \<open>
  What a round pays out, for every reachable round: the solo reward goes to exactly one miner,
  shares stay below their pots, SOL payouts and fees stay within the deployment up to one lamport
  of rounding per winner, and a refund returns what was deployed.
\<close>

section \<open>Arrays and intervals\<close>

lemma sum_list_nth_25: "length xs = 25 \<Longrightarrow> sum_list xs = (\<Sum>j<25. xs ! j)" for xs :: "nat list"
  by (simp add: sum_list_sum_nth atLeast0LessThan)

lemma tiled_square_le: "tiled S \<Longrightarrow> j < 25 \<Longrightarrow> rnd_deployed (rs_round S) ! j \<le> rnd_total_deployed (rs_round S)"
  unfolding tiled_def by (metis elem_le_sum_list)

lemma stakes_on_ge: "m \<in> set ms \<Longrightarrow> mn_deployed m ! j \<le> stakes_on j ms"
  unfolding stakes_on_def by (rule member_le_sum_list) auto

lemma tiled_deployed_le:
  "tiled S \<Longrightarrow> j < 25 \<Longrightarrow> m \<in> set (rs_miners S) \<Longrightarrow> mn_deployed m ! j \<le> rnd_deployed (rs_round S) ! j"
  using stakes_on_ge unfolding tiled_def by metis

lemma tiled_interval_le:
  assumes t: "tiled S" and j: "j < 25" and m: "m \<in> set (rs_miners S)" and pos: "0 < mn_deployed m ! j"
  shows "mn_cumulative m ! j + mn_deployed m ! j \<le> rnd_deployed (rs_round S) ! j"
proof -
  let ?s = "mn_cumulative m ! j + mn_deployed m ! j - 1"
  have "(if covers j ?s m then 1 else 0) \<le> holders j ?s (rs_miners S)"
    unfolding holders_def using m by (intro member_le_sum_list) auto
  moreover have "covers j ?s m" using pos by (auto simp: covers_def)
  ultimately have "holders j ?s (rs_miners S) \<noteq> 0" by auto
  with t j have "?s < rnd_deployed (rs_round S) ! j" by (auto simp: tiled_def split: if_splits)
  with pos show ?thesis by linarith
qed

lemma is_top_miner_iff:
  assumes "tiled S" "j < 25" "m \<in> set (rs_miners S)"
  shows "is_top_miner r g m j = Inr True \<longleftrightarrow> covers j (top_miner_sample r g j) m"
proof -
  have "mn_cumulative m ! j + mn_deployed m ! j \<le> u64_max" if "covers j s m" for s
  proof -
    have "0 < mn_deployed m ! j" using that by (simp add: covers_def)
    from tiled_interval_le [OF assms this] tiled_square_le [OF assms(1,2)] assms(1)
    show ?thesis by (simp add: tiled_def)
  qed
  then show ?thesis
    by (auto simp: is_top_miner_def covers_def result_simps Let_def)
qed

lemma sum_list_indicator: "sum_list (map (\<lambda>x. if P x then 1 else 0) xs) = length (filter P xs)"
  by (induction xs) auto

lemma one_top_miner:
  assumes t: "tiled S" and j: "j < 25" and d: "0 < rnd_deployed (rs_round S) ! j"
    and r: "rnd_deployed r = rnd_deployed (rs_round S)"
  shows "length (filter (\<lambda>m. is_top_miner r g m j = Inr True) (rs_miners S)) = 1"
proof -
  let ?s = "top_miner_sample r g j"
  have "filter (\<lambda>m. is_top_miner r g m j = Inr True) (rs_miners S) = filter (covers j ?s) (rs_miners S)"
    using is_top_miner_iff [OF t j] by (intro filter_cong) auto
  moreover have "?s < rnd_deployed (rs_round S) ! j"
    using top_miner_sample_less [of r j g] d r by simp
  ultimately show ?thesis
    using t j unfolding tiled_def holders_def sum_list_indicator by auto
qed

section \<open>Shares\<close>

lemma share_sum_le:
  assumes t: "tiled S" and j: "j < 25" and pot: "pot \<le> u64_max"
  shows "sum_list (map (\<lambda>m. share_of pot (mn_deployed m ! j) (rnd_deployed (rs_round S) ! j)) (rs_miners S)) \<le> pot"
proof -
  have "share_of pot (mn_deployed m ! j) (rnd_deployed (rs_round S) ! j) =
      pot * (mn_deployed m ! j) div (rnd_deployed (rs_round S) ! j)" if "m \<in> set (rs_miners S)" for m
    using share_of_le(2) [OF tiled_deployed_le [OF t j that] pot] .
  then have "sum_list (map (\<lambda>m. share_of pot (mn_deployed m ! j) (rnd_deployed (rs_round S) ! j)) (rs_miners S)) =
      sum_list (map (\<lambda>m. pot * (mn_deployed m ! j) div (rnd_deployed (rs_round S) ! j)) (rs_miners S))"
    by (intro arg_cong [where f = sum_list] map_cong) auto
  also have "\<dots> \<le> pot"
    using t j by (intro pro_rata_sum_le) (simp add: tiled_def stakes_on_def)
  finally show ?thesis .
qed

text \<open>The block reward of each mode, summed over the miners of the round.\<close>

lemma split_reward_sum_le:
  assumes t: "tiled S" and j: "j < 25" and d: "rnd_deployed r = rnd_deployed (rs_round S)"
    and a: "rnd_top_miner r = SPLIT_ADDRESS" and pot: "rnd_top_miner_reward r \<le> u64_max"
    and pay: "\<And>m. m \<in> set (rs_miners S) \<Longrightarrow> block_reward H pri (pm m) r g m j w = Inr (f m, r' m)"
  shows "sum_list (map f (rs_miners S)) \<le> rnd_top_miner_reward r"
proof -
  have "f m = share_of (rnd_top_miner_reward r) (mn_deployed m ! j) (rnd_deployed (rs_round S) ! j)"
    if "m \<in> set (rs_miners S)" for m
  proof -
    have "block_reward H pri (pm m) r g m j w =
        Inr (share_of (rnd_top_miner_reward r) (mn_deployed m ! j) (rnd_deployed (rs_round S) ! j), r)"
      by (simp add: block_reward_def a d)
    with pay [OF that] show ?thesis by (metis Pair_inject sum.inject(2))
  qed
  then have "map f (rs_miners S) = map (\<lambda>m. share_of (rnd_top_miner_reward r) (mn_deployed m ! j)
      (rnd_deployed (rs_round S) ! j)) (rs_miners S)"
    by (intro map_cong) auto
  then show ?thesis using share_sum_le [OF t j pot] by (simp only:)
qed

lemma solo_reward_sum:
  assumes t: "tiled S" and j: "j < 25" and d: "rnd_deployed r = rnd_deployed (rs_round S)"
    and pos: "0 < rnd_deployed (rs_round S) ! j"
    and a: "rnd_top_miner r \<noteq> SPLIT_ADDRESS" "rnd_top_miner r \<noteq> POOL_ADDRESS"
    and pay: "\<And>m. m \<in> set (rs_miners S) \<Longrightarrow> block_reward H pri (pm m) r g m j w = Inr (f m, r' m)"
  shows "sum_list (map f (rs_miners S)) = rnd_top_miner_reward r"
proof -
  have "f m = rnd_top_miner_reward r * (if is_top_miner r g m j = Inr True then 1 else 0)"
    if "m \<in> set (rs_miners S)" for m
    using pay [OF that] a by (auto simp: block_reward_def result_simps split: if_splits)
  then have "map f (rs_miners S) = map (\<lambda>m. rnd_top_miner_reward r *
      (if is_top_miner r g m j = Inr True then 1 else 0)) (rs_miners S)"
    by (intro map_cong) auto
  then have "sum_list (map f (rs_miners S)) = rnd_top_miner_reward r *
      sum_list (map (\<lambda>m. if is_top_miner r g m j = Inr True then 1 else 0) (rs_miners S))"
    by (simp only: sum_list_const_mult)
  also have "sum_list (map (\<lambda>m. if is_top_miner r g m j = Inr True then 1 else 0) (rs_miners S)) = (1::nat)"
    unfolding sum_list_indicator by (rule one_top_miner [OF t j pos d])
  finally show ?thesis by simp
qed

section \<open>SOL\<close>

lemma split_winnings_spec:
  assumes "split_winnings r sq = Inr r'" "sum_list (rnd_deployed r) \<le> u64_max" "sq < length (rnd_deployed r)"
  defines "L \<equiv> sum_list (rnd_deployed r) - rnd_deployed r ! sq"
  shows "rnd_total_vaulted r' = (L - L * 150 div 10000) div 10"
    "rnd_total_winnings r' + rnd_total_vaulted r' + L * 150 div 10000 = L"
    "rnd_deployed r' = rnd_deployed r" "rnd_total_deployed r' = rnd_total_deployed r"
    "rnd_top_miner r' = rnd_top_miner r" "rnd_id r' = rnd_id r"
proof -
  let ?F = "L * 150 div 10000"
  have e: "calculate_total_winnings r sq = Inr L"
    unfolding L_def using assms(2,3) by (rule calculate_total_winnings_eq)
  have F: "?F \<le> L" by simp
  from assms(1) have r': "r' = r\<lparr>rnd_total_winnings := (L - ?F) - (L - ?F) div 10,
      rnd_total_vaulted := (L - ?F) div 10\<rparr>"
    by (simp add: split_winnings_def e result_simps Let_def bps_consts)
  show "rnd_total_vaulted r' = (L - ?F) div 10" by (simp add: r')
  have "(L - ?F) div 10 \<le> L - ?F" by simp
  then show "rnd_total_winnings r' + rnd_total_vaulted r' + ?F = L"
    using F unfolding r' by simp
qed (use assms(1) in \<open>auto simp: split_winnings_def result_simps Let_def\<close>)

text \<open>The sanity check on the outflows never fails.\<close>

lemma split_winnings_total:
  assumes "rnd_total_deployed r = sum_list (rnd_deployed r)" "sum_list (rnd_deployed r) * 150 \<le> u64_max"
    "sq < length (rnd_deployed r)"
  shows "\<exists>r'. split_winnings r sq = Inr r'"
proof -
  let ?T = "sum_list (rnd_deployed r)"
  let ?L = "?T - rnd_deployed r ! sq"
  let ?F = "?L * 150 div 10000"
  have T: "?T \<le> u64_max" using assms(2) by linarith
  have le: "rnd_deployed r ! sq \<le> ?T" using assms(3) by (rule elem_le_sum_list)
  have e: "calculate_total_winnings r sq = Inr ?L" using T assms(3) by (rule calculate_total_winnings_eq)
  have m: "?L * 150 \<le> u64_max" using assms(2) le by linarith
  have F: "?F \<le> ?L" by simp
  define W where "W = ?L - ?F"
  define V where "V = W div 10"
  have V: "V \<le> W" by (simp add: V_def)
  have bound: "V + (W - V) + rnd_deployed r ! sq + ?F = ?T"
    using V F le by (simp add: W_def)
  then have n: "V + (W - V) \<le> u64_max" "V + (W - V) + rnd_deployed r ! sq \<le> u64_max"
    "V + (W - V) + rnd_deployed r ! sq + ?F \<le> u64_max"
    using T by linarith+
  have steps: "checked_mul ?L 150 = Some (?L * 150)" "sub64 ?L ?F = Inr W" "checked_sub W V = Some (W - V)"
    "add64 V (W - V) = Inr (V + (W - V))"
    "add64 (V + (W - V)) (rnd_deployed r ! sq) = Inr (V + (W - V) + rnd_deployed r ! sq)"
    "add64 (V + (W - V) + rnd_deployed r ! sq) ?F = Inr (V + (W - V) + rnd_deployed r ! sq + ?F)"
    using m F V n unfolding W_def [symmetric]
    by (simp_all only: checked_mul_def sub64_def checked_sub_def add64_def W_def if_True)
  have b: "150 = ADMIN_FEE_BPS + SOL_MOTHERLODE_BPS" "10000 = DENOMINATOR_BPS" by (simp_all add: bps_consts)
  have "split_winnings r sq = Inr (r\<lparr>rnd_total_winnings := W - V, rnd_total_vaulted := V\<rparr>)"
    unfolding split_winnings_def e and_then_Inr b [symmetric]
    using steps bound assms(1) by (simp add: Let_def V_def [symmetric])
  then show ?thesis by blast
qed

lemma reset_fees_spec:
  assumes "reset_fees T = Inr (a, b)"
  shows "a = T * 50 div 10000" "b = T * 100 div 10000"
  using assms by (auto simp: reset_fees_def result_simps bps_consts)

lemma sum_list_filter_pos:
  fixes f :: "'a \<Rightarrow> nat"
  shows "sum_list (map f (filter (\<lambda>x. 0 < f x) xs)) = sum_list (map f xs)"
  by (induction xs) auto

lemma ceil_bound: "150 * d \<le> 10000 * max (d * 150 div 10000) 1 + (9999::nat)"
proof -
  have "d * 150 = 10000 * (d * 150 div 10000) + d * 150 mod 10000" by (rule mult_div_mod_eq [symmetric])
  moreover have "d * 150 mod 10000 < 10000" by (rule mod_less_divisor) simp
  ultimately show ?thesis by linarith
qed

text \<open>SOL leaving a round with winners: fees, vault and winners' payouts. Every winner's fee and
  the fee on the winnings are rounded down, so the sum may pass the deployment by less than a
  lamport for each of them.\<close>

lemma outflow_le:
  assumes t: "tiled S" and j: "j < 25"
    and w: "split_winnings (rs_round S) j = Inr r"
    and fees: "reset_fees (rnd_total_deployed (rs_round S)) = Inr (a, b)"
    and pay: "\<And>m. m \<in> set (rs_miners S) \<Longrightarrow> 0 < mn_deployed m ! j \<Longrightarrow>
      winner_sol (rnd_total_winnings r) (mn_deployed m ! j) (rnd_deployed (rs_round S) ! j) = Inr (f m)"
  defines "winners \<equiv> filter (\<lambda>m. 0 < mn_deployed m ! j) (rs_miners S)"
  shows "a + b + rnd_total_vaulted r + sum_list (map f winners) \<le> rnd_total_deployed (rs_round S) + length winners"
proof -
  let ?r = "rs_round S"
  let ?D = "rnd_deployed ?r ! j" and ?T = "rnd_total_deployed ?r" and ?W = "rnd_total_winnings r"
  let ?dep = "\<lambda>m :: 'a miner. mn_deployed m ! j"
  let ?fee = "\<lambda>m :: 'a miner. max (?dep m * 150 div 10000) 1"
  let ?share = "\<lambda>m :: 'a miner. ?W * ?dep m div ?D"
  have T: "?T = sum_list (rnd_deployed ?r)" "?T \<le> u64_max" "length (rnd_deployed ?r) = 25"
    using t by (auto simp: tiled_def)
  define L where "L = sum_list (rnd_deployed ?r) - ?D"
  have le: "?D \<le> ?T" using tiled_square_le [OF t j] .
  have L: "?T = ?D + L" using le T(1) by (simp add: L_def)
  have "?D < sum_list (rnd_deployed ?r) + 1" using le T(1) by simp
  note sw = split_winnings_spec [OF w T(2) [unfolded T(1)], unfolded T(3), OF j, folded L_def]
  have W: "?W \<le> u64_max" using sw(2) L T(2) by linarith
  have each: "f m + ?fee m = ?dep m + ?share m" if "m \<in> set winners" for m
  proof -
    have m: "m \<in> set (rs_miners S)" "0 < ?dep m" using that by (auto simp: winners_def)
    note ws = winner_sol_spec [OF pay [OF m] tiled_deployed_le [OF t j m(1)] W]
    show ?thesis using ws(1,2) by simp
  qed
  have dep: "sum_list (map ?dep winners) = ?D"
    using t j sum_list_filter_pos [of ?dep "rs_miners S"] by (simp add: winners_def tiled_def stakes_on_def)
  have "sum_list (map (\<lambda>m. f m + ?fee m) winners) = sum_list (map (\<lambda>m. ?dep m + ?share m) winners)"
    using each by (intro arg_cong [where f = sum_list] map_cong) auto
  then have sums: "sum_list (map f winners) + sum_list (map ?fee winners) = ?D + sum_list (map ?share winners)"
    by (simp only: sum_list_addf dep)
  have share: "sum_list (map ?share winners) \<le> ?W"
    using dep by (intro pro_rata_sum_le) simp
  have "sum_list (map (\<lambda>m. 150 * ?dep m) winners) \<le> sum_list (map (\<lambda>m. 10000 * ?fee m + 9999) winners)"
    by (intro sum_list_mono ceil_bound)
  then have fee: "150 * ?D \<le> 10000 * sum_list (map ?fee winners) + 9999 * length winners"
    by (simp only: sum_list_const_mult sum_list_addf sum_list_triv dep) (simp add: sum_list_const_mult sum_list_triv mult.commute)
  have loser: "150 * L \<le> 10000 * (L * 150 div 10000) + 9999"
  proof -
    have "L * 150 = 10000 * (L * 150 div 10000) + L * 150 mod 10000" by (rule mult_div_mod_eq [symmetric])
    moreover have "L * 150 mod 10000 < 10000" by (rule mod_less_divisor) simp
    ultimately show ?thesis by linarith
  qed
  have ab: "10000 * a \<le> 50 * ?T" "10000 * b \<le> 100 * ?T"
    using reset_fees_spec [OF fees] by simp_all
  show ?thesis
    using sums share fee loser ab sw(2) L by linarith
qed

text \<open>Refunds of a round without a random number.\<close>

lemma sum_list_sum_swap:
  fixes f :: "'a \<Rightarrow> nat \<Rightarrow> nat"
  shows "sum_list (map (\<lambda>x. \<Sum>j<n. f x j) xs) = (\<Sum>j<n. sum_list (map (\<lambda>x. f x j) xs))"
  by (induction xs) (simp_all add: sum.distrib)

lemma refund_sum:
  assumes t: "tiled S"
    and pay: "\<And>m. m \<in> set (rs_miners S) \<Longrightarrow> sum_u64 (mn_deployed m) = Inr (f m)"
  shows "sum_list (map f (rs_miners S)) = rnd_total_deployed (rs_round S)"
proof -
  have "f m = (\<Sum>j<25. mn_deployed m ! j)" if "m \<in> set (rs_miners S)" for m
    using pay [OF that] t that by (auto simp: result_simps tiled_def arrays_ok_def sum_list_nth_25)
  then have "sum_list (map f (rs_miners S)) = sum_list (map (\<lambda>m. \<Sum>j<25. mn_deployed m ! j) (rs_miners S))"
    by (intro arg_cong [where f = sum_list] map_cong) auto
  also have "\<dots> = (\<Sum>j<25. stakes_on j (rs_miners S))"
    by (simp add: sum_list_sum_swap stakes_on_def)
  also have "\<dots> = (\<Sum>j<25. rnd_deployed (rs_round S) ! j)"
    using t by (intro sum.cong) (auto simp: tiled_def)
  also have "\<dots> = rnd_total_deployed (rs_round S)"
    using t by (simp add: tiled_def sum_list_nth_25)
  finally show ?thesis .
qed

section \<open>GODL\<close>

lemma mint_amounts_spec:
  assumes "supply \<le> MAX_SUPPLY" "0 < d"
  shows "\<exists>a b. mint_amounts supply g d = Inr (a, b, a + b) \<and> a = min (MAX_SUPPLY - supply) g \<and>
    b = min (MAX_SUPPLY - supply - a) (g div d) \<and> supply + (a + b) \<le> MAX_SUPPLY"
proof -
  have m: "MAX_SUPPLY \<le> u64_max" by (simp add: amount_consts)
  let ?a = "min (MAX_SUPPLY - supply) g"
  let ?b = "min (MAX_SUPPLY - (supply + ?a)) (g div d)"
  have s: "supply + ?a \<le> MAX_SUPPLY" using assms(1) by linarith
  have t: "supply + (?a + ?b) \<le> MAX_SUPPLY" using s by linarith
  have e: "add64 supply ?a = Inr (supply + ?a)" "add64 ?a ?b = Inr (?a + ?b)" "div64 g d = Inr (g div d)"
    using s t m assms(2) by (auto simp only: add64_def div64_def if_True if_False split: if_splits)
  have "mint_amounts supply g d = Inr (?a, ?b, ?a + ?b)"
    by (simp only: mint_amounts_def saturating_sub_def Let_def e and_then_Inr)
  with t show ?thesis by simp
qed

end
