(* ===== verification/Runs.thy ===== *)
theory Runs
  imports StakeSystem MinerSystem GoldSystem Payout
begin

text \<open>
  Concrete runs of the state machines, with the raw fixed-point numbers of \<open>Numeric\<close>: a stake
  that is opened, funded, paid a distribution and claimed; two miners with one claim; a gold
  distribution; and a round with three miners on one square. They show that the machines have
  interesting reachable states.
\<close>

section \<open>Staking\<close>

definition demo_treasury :: "int treasury" where
  "demo_treasury = miner_treasury 0"

definition demo_stake :: "int stake_v2" where
  "demo_stake = (new_stake_v2 7 100 100 0 1000 demo_treasury)\<lparr>sv_balance := 1000, sv_last_deposit_at := 1000\<rparr>"

definition demo_paid_stake :: "int stake_v2" where
  "demo_paid_stake = demo_stake\<lparr>sv_last_claim_at := 2000, sv_rewards_factor := 14073748835532,
     sv_rewards := 19, sv_lifetime_rewards := 49\<rparr>"

definition demo_stakes :: "int stake_system" where
  "demo_stakes = \<lparr>ss_treasury = demo_treasury\<lparr>tr_total_staked := 1000, tr_stake_rewards_factor := 14073748835532\<rparr>,
     ss_stakers = [SV2 demo_paid_stake], ss_distributed = 50, ss_paid = 30\<rparr>"

lemmas weight_eval = weighted_units_def apply_multiplier_def sv_effective_multiplier_def effective_multiplier_def
  isqrt_u128_def isqrt_loop.simps leading_zeros_u128_def bit_length.simps add128_def mul128_def stake_consts
  add64_def checked_add_def checked_mul_def Let_def

lemma multiplier_one: "stake_multiplier 0 = 1000000000"
  using stake_multiplier_ends by (simp add: stake_consts)

lemma demo_weights:
  "weighted_units (new_stake_v2 7 100 100 0 1000 demo_treasury) = Inr 0" "weighted_units demo_stake = Inr 1000"
  by (simp_all add: new_stake_v2_units demo_stake_def new_stake_v2_def multiplier_one weight_eval)

lemma demo_deposit:
  "sv_deposit fx_ops 1000 1000 demo_treasury 5000 (new_stake_v2 7 100 100 0 1000 demo_treasury) =
     Inr (demo_stake, demo_treasury\<lparr>tr_total_staked := 1000\<rparr>, 1000)"
proof -
  let ?s = "new_stake_v2 7 100 100 0 1000 demo_treasury"
  have f: "sv_rewards_factor ?s = 0" "sv_balance ?s = 0" by (simp_all add: new_stake_v2_def demo_treasury_def miner_treasury_def)
  have u: "sv_update_rewards fx_ops demo_treasury ?s = Inr ?s"
    by (simp add: sv_update_rewards_def f(1)) (simp add: demo_treasury_def miner_treasury_def fx_ops_def new_stake_v2_def)
  have "?s\<lparr>sv_balance := 1000, sv_last_deposit_at := 1000\<rparr> = demo_stake" by (simp add: demo_stake_def)
  then show ?thesis
    by (simp add: sv_deposit_def u demo_weights f add64_def Let_def adjust_total_up_def checked_add_def)
      (simp add: demo_treasury_def miner_treasury_def)
qed

lemma demo_stakes_reachable: "stake_reachable fx_ops demo_stakes"
proof -
  let ?S0 = "\<lparr>ss_treasury = demo_treasury, ss_stakers = [], ss_distributed = 0, ss_paid = 0\<rparr>"
  let ?S1 = "?S0\<lparr>ss_stakers := [SV2 (new_stake_v2 7 100 100 0 1000 demo_treasury)]\<rparr>"
  let ?t2 = "demo_treasury\<lparr>tr_total_staked := 1000\<rparr>"
  let ?S2 = "\<lparr>ss_treasury = ?t2, ss_stakers = [SV2 demo_stake], ss_distributed = 0, ss_paid = 0\<rparr>"
  let ?t3 = "?t2\<lparr>tr_stake_rewards_factor := 14073748835532\<rparr>"
  let ?S3 = "?S2\<lparr>ss_treasury := ?t3, ss_distributed := 50\<rparr>"
  have 0: "stake_reachable fx_ops ?S0"
    by (rule stake_reachable.start) (simp_all add: demo_treasury_def miner_treasury_def fx_ops_def)
  have "stake_step fx_ops ?S0 ?S1"
    using stake_step.open_v2 [of fx_ops ?S0 7 100 100 0 1000] by simp
  with 0 have 1: "stake_reachable fx_ops ?S1" by (rule stake_reachable.step)
  have "stake_step fx_ops ?S1 ?S2"
    using stake_step.deposit_v2 [of 0 ?S1 _ fx_ops 1000 1000 5000 demo_stake ?t2 1000] demo_deposit
    by (simp add: touch_def)
  with 1 have 2: "stake_reachable fx_ops ?S2" by (rule stake_reachable.step)
  have r: "raise_stake_factor fx_ops 50 ?t2 = ?t3"
    by (simp add: raise_stake_factor_def fx_ops_def fx_one_def demo_treasury_def miner_treasury_def)
  have "stake_step fx_ops ?S2 ?S3"
    using stake_step.distribute [of ?S2 fx_ops 50] r by simp
  with 2 have 3: "stake_reachable fx_ops ?S3" by (rule stake_reachable.step)
  have f: "sv_rewards_factor demo_stake = 0" "sv_rewards demo_stake = 0" "sv_lifetime_rewards demo_stake = 0"
    by (simp_all add: demo_stake_def new_stake_v2_def demo_treasury_def miner_treasury_def)
  have "sv_claim fx_ops 30 2000 ?t3 demo_stake = Inr (demo_paid_stake, 30)"
    by (simp add: sv_claim_def sv_update_rewards_def demo_weights f demo_treasury_def miner_treasury_def
        fx_ops_def fx_one_def Let_def checked_add_def demo_paid_stake_def)
  then have "stake_step fx_ops ?S3 demo_stakes"
    using stake_step.claim_v2 [of 0 ?S3 demo_stake fx_ops 30 2000 demo_paid_stake 30]
    by (simp add: touch_def demo_stakes_def)
  with 3 show ?thesis by (rule stake_reachable.step)
qed

section \<open>Mining\<close>

definition demo_miner :: "u64 \<Rightarrow> int miner" where
  "demo_miner g = (new_miner fx_ops 200)\<lparr>mn_rewards_godl := g, mn_lifetime_rewards_godl := g\<rparr>"

definition demo_mining :: "int miner_system" where
  "demo_mining = \<lparr>ms_treasury = demo_treasury\<lparr>tr_total_unclaimed := 3000, tr_total_refined := 100,
       tr_miner_rewards_factor := 9382499223688\<rparr>,
     ms_miners = [(demo_miner 0)\<lparr>mn_last_claim_godl_at := 5, mn_lifetime_rewards_godl := 900\<rparr>, demo_miner 3000],
     ms_fees = 100, ms_paid = 0\<rparr>"

lemmas miner_eval = new_miner_def demo_miner_def demo_treasury_def miner_treasury_def fx_ops_def fx_one_def
  mn_update_rewards_def credit_unrefined_def mn_claim_godl_def add64_def sub64_def checked_add_def Let_def

lemma demo_mining_reachable: "mining_reachable fx_ops demo_mining"
proof -
  let ?S0 = "\<lparr>ms_treasury = demo_treasury, ms_miners = [], ms_fees = 0, ms_paid = 0\<rparr>"
  let ?S1 = "?S0\<lparr>ms_miners := [new_miner fx_ops 200]\<rparr>"
  let ?S2 = "?S0\<lparr>ms_miners := [new_miner fx_ops 200, new_miner fx_ops 200]\<rparr>"
  let ?t3 = "demo_treasury\<lparr>tr_total_unclaimed := 1000\<rparr>" and ?t4 = "demo_treasury\<lparr>tr_total_unclaimed := 4000\<rparr>"
  let ?S3 = "\<lparr>ms_treasury = ?t3, ms_miners = [demo_miner 1000, new_miner fx_ops 200], ms_fees = 0, ms_paid = 0\<rparr>"
  let ?S4 = "\<lparr>ms_treasury = ?t4, ms_miners = [demo_miner 1000, demo_miner 3000], ms_fees = 0, ms_paid = 0\<rparr>"
  have 0: "mining_reachable fx_ops ?S0"
    by (rule mining_reachable.start) (simp_all add: miner_eval)
  have 1: "mining_reachable fx_ops ?S1"
    by (rule mining_reachable.step [OF 0]) (use mining_step.open_miner [of fx_ops ?S0 200] in simp)
  have 2: "mining_reachable fx_ops ?S2"
    by (rule mining_reachable.step [OF 1]) (use mining_step.open_miner [of fx_ops ?S1 200] in simp)
  have s: "mn_update_rewards fx_ops (demo_treasury\<lparr>tr_total_unclaimed := u\<rparr>) (new_miner fx_ops 200)
      = Inr (new_miner fx_ops 200)" for u
    by (simp add: miner_eval)
  have c: "credit_unrefined Panic 1000 demo_treasury (new_miner fx_ops 200) = Inr (demo_miner 1000, ?t3)"
    "credit_unrefined Panic 3000 ?t3 (new_miner fx_ops 200) = Inr (demo_miner 3000, ?t4)"
    by (simp_all add: miner_eval)
  have s0: "mn_update_rewards fx_ops demo_treasury (new_miner fx_ops 200) = Inr (new_miner fx_ops 200)"
    by (simp add: miner_eval)
  have 3: "mining_reachable fx_ops ?S3"
    by (rule mining_reachable.step [OF 2])
      (use mining_step.credit [of 0 ?S2 fx_ops "new_miner fx_ops 200" Panic 1000 "demo_miner 1000" ?t3] s0 c in simp)
  have 4: "mining_reachable fx_ops ?S4"
    by (rule mining_reachable.step [OF 3])
      (use mining_step.credit [of 1 ?S3 fx_ops "new_miner fx_ops 200" Panic 3000 "demo_miner 3000" ?t4] s c in simp)
  have u: "mn_update_rewards fx_ops ?t4 (demo_miner 1000) = Inr (demo_miner 1000)"
    by (simp add: miner_eval)
  have cl: "mn_claim_godl fx_ops 5 ?t4 (demo_miner 1000) =
      Inr ((demo_miner 0)\<lparr>mn_last_claim_godl_at := 5, mn_lifetime_rewards_godl := 900\<rparr>, ms_treasury demo_mining, 900)"
    by (simp add: miner_eval demo_mining_def)
  have "mining_step fx_ops ?S4 demo_mining"
    using mining_step.claim [of 0 ?S4 fx_ops 5 _ "ms_treasury demo_mining" 900 "demo_miner 1000" 100] u cl
    by (simp add: demo_mining_def) (simp add: miner_eval)
  with 4 show ?thesis by (rule mining_reachable.step)
qed

section \<open>A round\<close>

text \<open>Three miners with 199 lamports each on square 0 of round 5.\<close>

definition demo_row :: "u64 \<Rightarrow> u64 list" where
  "demo_row n = zero_squares[0 := n]"

definition demo_player :: "nat \<Rightarrow> int miner" where
  "demo_player i = (new_miner fx_ops (101 + i))\<lparr>mn_round_id := 5, mn_deployed := demo_row 199,
     mn_cumulative := demo_row (199 * i)\<rparr>"

definition demo_round :: "nat \<Rightarrow> round" where
  "demo_round n = (new_round 5 900)\<lparr>rnd_deployed := demo_row (199 * n), rnd_count := demo_row n,
     rnd_total_deployed := 199 * n\<rparr>"

definition demo_game :: "int round_system" where
  "demo_game = \<lparr>rs_round = demo_round 3, rs_miners = [demo_player 0, demo_player 1, demo_player 2]\<rparr>"

lemma demo_row_simps [simp]:
  "demo_row n ! 0 = n" "(demo_row n)[0 := m] = demo_row m" "length (demo_row n) = 25"
  "demo_row n = zero_squares \<longleftrightarrow> n = 0" "zero_squares[0 := n] = demo_row n"
proof -
  show "demo_row n = zero_squares \<longleftrightarrow> n = 0"
    by (metis demo_row_def length_zero_squares list_update_id nth_list_update_eq nth_zero_squares zero_less_numeral)
qed (simp_all add: demo_row_def)

lemma demo_row_0: "zero_squares = demo_row 0"
  by (metis demo_row_simps(4))

lemma demo_enter:
  assumes "n < 3"
  shows "round_step \<lparr>rs_round = demo_round n, rs_miners = ms\<rparr>
    \<lparr>rs_round = demo_round (n + 1), rs_miners = ms @ [demo_player n]\<rparr>"
proof -
  let ?S = "\<lparr>rs_round = demo_round n, rs_miners = ms\<rparr>"
  let ?m = "new_miner fx_ops (101 + n) :: int miner"
  let ?m' = "?m\<lparr>mn_deployed := zero_squares, mn_cumulative := demo_row (199 * n), mn_round_id := 5\<rparr>"
  let ?ds = "\<lambda>m r t k. \<lparr>ds_miner = m, ds_round = r, ds_pool_round = undefined, ds_total_amount = t,
      ds_total_squares = k, ds_world = undefined :: int world\<rparr>"
  have e: "enter_round (rs_round ?S) ?m = Inr ?m'"
    by (simp add: enter_round_def demo_round_def new_round_def new_miner_def)
  have p: "place_square 199 0 ?m' (demo_round n) = Inr (demo_player n, demo_round (n + 1))"
    using assms by (simp add: place_square_def demo_round_def demo_player_def new_round_def new_miner_def add64_def Let_def algebra_simps)
  have l: "deploy_loop (\<lambda>_ _ _ _. Inl Panic) False None 199 0 [True] (?ds ?m' (rs_round ?S) 0 0) =
      Inr (?ds (demo_player n) (demo_round (n + 1)) 199 1)"
    using p by (simp add: add64_def Let_def)
  have "round_step ?S \<lparr>rs_round = ds_round (?ds (demo_player n) (demo_round (n + 1)) 199 1),
      rs_miners = rs_miners ?S @ [ds_miner (?ds (demo_player n) (demo_round (n + 1)) 199 1)]\<rparr>"
    by (rule round_step.enter [OF e _ _ l]) (simp_all add: new_miner_def)
  then show ?thesis by simp
qed

lemma demo_game_reachable: "round_reachable demo_game"
proof -
  let ?S = "\<lambda>n ms. \<lparr>rs_round = demo_round n, rs_miners = ms\<rparr>"
  have 0: "round_reachable (?S 0 [])"
    by (rule round_reachable.opened [of _ 5 900]) (simp_all add: demo_round_def new_round_def demo_row_0)
  have 1: "round_reachable (?S 1 [demo_player 0])"
    using round_reachable.deployed [OF 0 demo_enter] by simp
  have 2: "round_reachable (?S 2 [demo_player 0, demo_player 1])"
    using round_reachable.deployed [OF 1 demo_enter] by (simp add: numeral_2_eq_2)
  have 3: "round_reachable (?S 3 [demo_player 0, demo_player 1, demo_player 2])"
    using round_reachable.deployed [OF 2 demo_enter] by (simp add: numeral_3_eq_3)
  then show ?thesis by (simp add: demo_game_def)
qed

end
