(* ===== verification/StakeProperties.thy ===== *)
theory StakeProperties
  imports StakeContract Reference_Host Runs
begin

text \<open>
  The properties of the staking components, each with a concrete instance.
\<close>

section \<open>The ledger\<close>

text \<open>In every reachable state of the stake system, whatever the order of deposits,
  withdrawals, claims, NFT boosts, migrations, merges, closings and distributions over version-1
  and version-2 stakes, \<open>Treasury::total_staked\<close> is exactly the sum of the stakes' weights and a
  \<open>u64\<close>.\<close>

lemma total_staked_is_sum_of_weights:
  assumes "stake_reachable N S"
  shows "tr_total_staked (ss_treasury S) = sum_list (map staker_units (ss_stakers S)) \<and>
    tr_total_staked (ss_treasury S) \<le> u64_max"
  using ledger_reachable [OF assms] by (simp add: ledger_ok_def units_total_def)

lemma total_staked_of_demo:
  "tr_total_staked (ss_treasury demo_stakes) = sum_list (map staker_units (ss_stakers demo_stakes)) \<and>
    tr_total_staked (ss_treasury demo_stakes) = 1000"
  using total_staked_is_sum_of_weights [OF demo_stakes_reachable] by (simp add: demo_stakes_def)

text \<open>C12. Yield is never over-credited: in every reachable state the yield credited to stakes plus
  the yield paid out is at most what was distributed, as long as that total is a \<open>u64\<close>.\<close>

lemma yield_within_distributions:
  assumes "numeric N val" "stake_reachable N S" "ss_distributed S \<le> u64_max"
  shows "sum_list (map staker_acc (ss_stakers S)) + ss_paid S \<le> ss_distributed S"
  by (rule numeric.credited_reachable [OF assms])

lemma yield_within_distributions_witness:
  "sum_list (map staker_acc (ss_stakers demo_stakes)) + ss_paid demo_stakes = 49 \<and>
   sum_list (map staker_acc (ss_stakers demo_stakes)) + ss_paid demo_stakes \<le> ss_distributed demo_stakes"
  using yield_within_distributions [OF fx.numeric_axioms demo_stakes_reachable]
  by (simp add: demo_stakes_def demo_paid_stake_def demo_stake_def)

section \<open>Handlers\<close>

text \<open>The calls to other programs that the two handlers make, and the vault they leave.\<close>

definition vault_covers :: "'n world \<Rightarrow> account_info \<Rightarrow> account_info \<Rightarrow> u64 \<Rightarrow> bool" where
  "vault_covers w tokens stake n \<longleftrightarrow> (\<exists>tok. w_data w (ai_key tokens) = AToken tok \<and> tk_owner tok = ai_key stake \<and>
     tk_mint tok = MINT_ADDRESS \<and> n \<le> tk_amount tok)"

lemma vault_checked:
  assumes "solana H" "as_associated_token_account (ai_key stake) (ai_key mint) H tokens w = Inr v"
    and "ai_key mint = MINT_ADDRESS" "n \<le> tk_amount v"
  shows "vault_covers w tokens stake n"
proof -
  from assms(2) have c: "h_check H (AsAssociatedTokenAccount (ai_key stake) (ai_key mint)) tokens w = Inr ()"
    and d: "w_data w (ai_key tokens) = AToken v"
    by (auto simp: load_def result_simps)
  from solana.check_token [OF assms(1) c] d assms(3,4) show ?thesis by (auto simp: vault_covers_def)
qed

lemma withdraw_v2_calls:
  assumes "solana H"
    and "process_withdraw_v2 H [signer, mint, recipient, stake, tokens, treasury, sys, tok, ata] sid amount w = Inr w'"
    and "holds_stake w stake s" "holds_treasury w treasury t"
  obtains s0 t0 s1 t1 n w0 where "sv_migrate_weight (h_num H) t s = Inr (s0, t0)"
    "open_token_account H signer signer recipient mint (put treasury (ATreasury t0) (put stake (AStakeV2 s0) w)) = Inr w0"
    "sv_withdraw (h_num H) amount (w_unix_timestamp w) t0 s0 = Inr (s1, t1, n)"
    "transfer_signed H stake tokens recipient n [STAKE_V2, SKey (ai_key signer), SNum sid]
       (put treasury (ATreasury t1) (put stake (AStakeV2 s1) w0)) = Inr w'"
    "vault_covers w' tokens stake (sv_balance s1)"
proof -
  from assms(2-4) obtain s0 t0 s1 t1 n w0 v where e: "h_check H (HasAddress MINT_ADDRESS) mint w = Inr ()"
    "sv_migrate_weight (h_num H) t s = Inr (s0, t0)"
    "open_token_account H signer signer recipient mint (put treasury (ATreasury t0) (put stake (AStakeV2 s0) w)) = Inr w0"
    "sv_withdraw (h_num H) amount (w_unix_timestamp w) t0 s0 = Inr (s1, t1, n)"
    "transfer_signed H stake tokens recipient n [STAKE_V2, SKey (ai_key signer), SNum sid]
       (put treasury (ATreasury t1) (put stake (AStakeV2 s1) w0)) = Inr w'"
    "as_associated_token_account (ai_key stake) (ai_key mint) H tokens w' = Inr v" "sv_balance s1 \<le> tk_amount v"
    unfolding process_withdraw_v2_def holds_defs by (auto simp: result_simps Let_def)
  show thesis
    by (rule that [OF e(2-5) vault_checked [OF assms(1) e(6) solana.check_address [OF assms(1) e(1)] e(7)]])
qed

text \<open>C13. A successful \<open>process_withdraw_v2\<close> was signed by the stake's authority after its lock
  ended. It pays exactly the requested amount or, if that is less, the whole balance: its calls to
  other programs are the opening of the recipient's account, if needed, and one transfer of that
  amount out of the stake's vault. The stake is left with the rest, which the vault still covers,
  and \<open>total_staked\<close> moved by exactly the change of the stake's weight.\<close>

lemma withdraw_v2_contract:
  assumes "solana H"
    and "process_withdraw_v2 H [signer, mint, recipient, stake, tokens, treasury, sys, tok, ata] sid amount w = Inr w'"
    and "holds_stake w stake s" "holds_treasury w treasury t" "weighted_units s = Inr u"
  defines "paid \<equiv> min (sv_balance s) amount"
  shows "\<exists>s0 t0 w0 s' t' u'. ai_is_signer signer \<and> sv_authority s = ai_key signer \<and> unlock_at s \<le> w_unix_timestamp w \<and>
    sv_migrate_weight (h_num H) t s = Inr (s0, t0) \<and>
    open_token_account H signer signer recipient mint (put treasury (ATreasury t0) (put stake (AStakeV2 s0) w)) = Inr w0 \<and>
    transfer_signed H stake tokens recipient paid [STAKE_V2, SKey (ai_key signer), SNum sid]
      (put treasury (ATreasury t') (put stake (AStakeV2 s') w0)) = Inr w' \<and>
    holds_stake w' stake s' \<and> holds_treasury w' treasury t' \<and> sv_balance s' + paid = sv_balance s \<and>
    vault_covers w' tokens stake (sv_balance s') \<and>
    weighted_units s' = Inr u' \<and> tr_total_staked t' + u = tr_total_staked t + u'"
proof -
  obtain s0 t0 s1 t1 n w0 where c: "sv_migrate_weight (h_num H) t s = Inr (s0, t0)"
    "open_token_account H signer signer recipient mint (put treasury (ATreasury t0) (put stake (AStakeV2 s0) w)) = Inr w0"
    "sv_withdraw (h_num H) amount (w_unix_timestamp w) t0 s0 = Inr (s1, t1, n)"
    "transfer_signed H stake tokens recipient n [STAKE_V2, SKey (ai_key signer), SNum sid]
       (put treasury (ATreasury t1) (put stake (AStakeV2 s1) w0)) = Inr w'"
    "vault_covers w' tokens stake (sv_balance s1)"
    by (rule withdraw_v2_calls [OF assms(1-4)])
  have f: "ai_is_signer signer" "sv_authority s = ai_key signer" "unlock_at s0 \<le> w_unix_timestamp w"
    "holds_stake w' stake s1" "holds_treasury w' treasury t1"
    by (rule solana.withdraw_v2_effect [OF assms(1,2)]; use assms(3,4) c(1,3) in \<open>simp add: holds_defs\<close>)+
  have m: "tracks t s t0 s0" by (rule sv_migrate_weight_tracks [OF c(1) assms(5)])
  have keep: "sv_balance s0 = sv_balance s" "unlock_at s0 = unlock_at s"
    using sv_migrate_weight_keeps [OF c(1)] by (auto simp: unlock_at_def)
  obtain s2 where w: "n = paid" "tracks t0 s0 t1 s1"
      "s1 = s2\<lparr>sv_balance := sv_balance s0 - n, sv_last_withdraw_at := w_unix_timestamp w\<rparr>"
    using sv_withdraw_spec [OF c(3)] unfolding paid_def keep(1) by metis
  have "sv_balance s1 + paid = sv_balance s" using w(1,3) keep(1) by (simp add: paid_def)
  with c f keep w(1) tracks_trans [OF m w(2)] assms(5) show ?thesis by (auto simp: tracks_def)
qed

text \<open>The withdrawal of 400 from the stake of 1000, after its lock, in the reference environment.\<close>

definition demo_stake_world :: "int world" where
  "demo_stake_world = world_of
     [(ref_pda [STAKE_V2, SKey 100, SNum 7], AStakeV2 demo_stake),
      (400, ATreasury (demo_treasury\<lparr>tr_total_staked := 1000\<rparr>)),
      (300, AToken \<lparr>tk_owner = 100, tk_mint = MINT_ADDRESS, tk_amount = 5000\<rparr>),
      (301, AToken \<lparr>tk_owner = ref_pda [STAKE_V2, SKey 100, SNum 7], tk_mint = MINT_ADDRESS, tk_amount = 1000\<rparr>),
      (MINT_ADDRESS, AMint \<lparr>mt_supply = 100000\<rparr>)] [] 50 2000"

lemmas demo_addresses = STAKE_V2_def MINT_ADDRESS_def base58_def base58_digit_def ref_pda_def seed_code_def

lemma demo_stake_simps [simp]:
  "sv_authority demo_stake = 100" "sv_id demo_stake = 7" "sv_balance demo_stake = 1000"
  "sv_weight_version demo_stake = 1" "sv_rewards_factor demo_stake = 0" "unlock_at demo_stake = 1000"
  "sv_is_nft_staked demo_stake = 0" "sv_multiplier demo_stake = 1000000000"
  by (simp_all add: demo_stake_def new_stake_v2_def demo_treasury_def miner_treasury_def unlock_at_def
      saturating_add_i64_def multiplier_one)

lemma demo_stake_left: "weighted_units (demo_stake\<lparr>sv_balance := n, sv_last_withdraw_at := now\<rparr>) = Inr n" if "n \<le> 1000"
  using that by (simp add: weight_eval)

lemma demo_sv_withdraw:
  "sv_withdraw fx_ops 400 2000 (demo_treasury\<lparr>tr_total_staked := 1000\<rparr>) demo_stake =
     Inr (demo_stake\<lparr>sv_balance := 600, sv_last_withdraw_at := 2000\<rparr>, demo_treasury\<lparr>tr_total_staked := 600\<rparr>, 400)"
proof -
  have "demo_stake\<lparr>sv_rewards_factor := 0\<rparr> = demo_stake" by (simp add: demo_stake_def new_stake_v2_def demo_treasury_def miner_treasury_def)
  then have u: "sv_update_rewards fx_ops (demo_treasury\<lparr>tr_total_staked := 1000\<rparr>) demo_stake = Inr demo_stake"
    by (simp add: sv_update_rewards_def demo_treasury_def miner_treasury_def fx_ops_def)
  show ?thesis
    by (simp add: sv_withdraw_def u demo_weights demo_stake_left Let_def sub64_def adjust_total_down_def checked_sub_def)
qed

lemma demo_withdraw:
  "\<exists>w'. process_withdraw_v2 ref_host
     [acct 100, acct MINT_ADDRESS, acct 300, acct (ref_pda [STAKE_V2, SKey 100, SNum 7]), acct 301, acct 400,
      acct 11, acct 12, acct 13] 7 400 demo_stake_world = Inr w'"
  by (simp add: process_withdraw_v2_def ref_holds_def load_def demo_stake_world_def world_of_def demo_addresses
      token_programs_def program_id_def sv_migrate_weight_noop open_token_account_def data_is_empty_def
      demo_sv_withdraw transfer_signed_def ref_transfer_def Let_def)

lemma withdraw_v2_contract_witness:
  "\<exists>(w' :: int world) s' t'. holds_stake w' (acct (ref_pda [STAKE_V2, SKey 100, SNum 7])) s' \<and> holds_treasury w' (acct 400) t' \<and>
    sv_balance s' = 600 \<and> weighted_units s' = Inr (tr_total_staked t')"
proof -
  obtain w' where w: "process_withdraw_v2 ref_host
     [acct 100, acct MINT_ADDRESS, acct 300, acct (ref_pda [STAKE_V2, SKey 100, SNum 7]), acct 301, acct 400,
      acct 11, acct 12, acct 13] 7 400 demo_stake_world = Inr w'"
    using demo_withdraw by blast
  have "holds_stake demo_stake_world (acct (ref_pda [STAKE_V2, SKey 100, SNum 7])) demo_stake"
    "holds_treasury demo_stake_world (acct 400) (demo_treasury\<lparr>tr_total_staked := 1000\<rparr>)"
    by (simp_all add: holds_defs demo_stake_world_def world_of_def demo_addresses)
  from withdraw_v2_contract [OF ref.solana_axioms w this demo_weights(2)]
  obtain s' t' where "holds_stake w' (acct (ref_pda [STAKE_V2, SKey 100, SNum 7])) s'"
    "holds_treasury w' (acct 400) t'" "sv_balance s' = 600" "weighted_units s' = Inr (tr_total_staked t')"
    by auto
  then show ?thesis by blast
qed

lemma deposit_v2_calls:
  assumes "solana H"
    and "process_deposit_v2 H [signer, mint, sender, stake, tokens, treasury, executor, sys, tok, ata] sid amount
      lock w = Inr w'"
    and "holds_treasury w treasury t"
  obtains s0 s1 t1 w1 w2 funds where
    "sv_update_rewards (h_num H) t (new_stake_v2 sid (ai_key signer) (ai_key executor) lock (w_unix_timestamp w) t) = Inr s0"
    "create_program_account H KStakeV2 stake sys signer [STAKE_V2, SKey (ai_key signer), SNum sid] w = Inr w1"
    "open_token_account H signer stake tokens mint (put stake (AStakeV2 s0) w1) = Inr w2"
    "sv_deposit (h_num H) amount (w_unix_timestamp w) t funds s0 = Inr (s1, t1, amount)"
    "transfer H signer sender tokens amount (put treasury (ATreasury t1) (put stake (AStakeV2 s1) w2)) = Inr w'"
    "vault_covers w' tokens stake (sv_balance s1)"
proof -
  from assms(2-3) obtain s0 s1 t1 w1 w2 v funds where e: "h_check H (HasAddress MINT_ADDRESS) mint w = Inr ()"
    "sv_update_rewards (h_num H) t (new_stake_v2 sid (ai_key signer) (ai_key executor) lock (w_unix_timestamp w) t) = Inr s0"
    "create_program_account H KStakeV2 stake sys signer [STAKE_V2, SKey (ai_key signer), SNum sid] w = Inr w1"
    "open_token_account H signer stake tokens mint (put stake (AStakeV2 s0) w1) = Inr w2"
    "sv_deposit (h_num H) amount (w_unix_timestamp w) t funds s0 = Inr (s1, t1, amount)"
    "transfer H signer sender tokens amount (put treasury (ATreasury t1) (put stake (AStakeV2 s1) w2)) = Inr w'"
    "as_associated_token_account (ai_key stake) (ai_key mint) H tokens w' = Inr v" "sv_balance s1 \<le> tk_amount v"
    unfolding process_deposit_v2_def holds_defs by (auto simp: result_simps Let_def)
  show thesis
    by (rule that [OF e(2-6)
          vault_checked [OF assms(1) e(7) solana.check_address [OF assms(1) e(1)] e(8)]])
qed

text \<open>C14. A successful \<open>process_deposit_v2\<close> opened an empty account at the canonical address of
  (signer, id) and stored a stake of exactly the requested amount, with the requested executor and
  lock (between zero and two years) and that lock's multiplier. Its calls to other programs create
  the stake and, if needed, its vault, and transfer exactly the amount from the sender into the
  vault, which covers the stake; \<open>total_staked\<close> rises by the new weight.\<close>

lemma deposit_v2_contract:
  assumes "solana H"
    and "process_deposit_v2 H [signer, mint, sender, stake, tokens, treasury, executor, sys, tok, ata] sid amount
      lock w = Inr w'"
    and "holds_treasury w treasury t"
  shows "\<exists>s0 w1 w2 s' t' u'. ai_is_signer signer \<and> w_data w (ai_key stake) = AEmpty \<and>
    ai_key stake = stake_v2_pda H (ai_key signer) sid \<and> 0 \<le> lock \<and> lock \<le> MAX_LOCK_DURATION \<and> 0 < amount \<and>
    create_program_account H KStakeV2 stake sys signer [STAKE_V2, SKey (ai_key signer), SNum sid] w = Inr w1 \<and>
    open_token_account H signer stake tokens mint (put stake (AStakeV2 s0) w1) = Inr w2 \<and>
    transfer H signer sender tokens amount (put treasury (ATreasury t') (put stake (AStakeV2 s') w2)) = Inr w' \<and>
    vault_covers w' tokens stake amount \<and>
    holds_stake w' stake s' \<and> holds_treasury w' treasury t' \<and> sv_balance s' = amount \<and>
    sv_authority s' = ai_key signer \<and> sv_executor s' = ai_key executor \<and> sv_id s' = sid \<and>
    sv_lock_duration s' = lock \<and> sv_multiplier s' = stake_multiplier lock \<and>
    sv_created_at s' = w_unix_timestamp w \<and> weighted_units s' = Inr u' \<and>
    tr_total_staked t' = tr_total_staked t + u'"
proof -
  let ?new = "new_stake_v2 sid (ai_key signer) (ai_key executor) lock (w_unix_timestamp w) t"
  obtain s1 s2 t1 w1 w2 funds where c: "sv_update_rewards (h_num H) t ?new = Inr s1"
    "create_program_account H KStakeV2 stake sys signer [STAKE_V2, SKey (ai_key signer), SNum sid] w = Inr w1"
    "open_token_account H signer stake tokens mint (put stake (AStakeV2 s1) w1) = Inr w2"
    "sv_deposit (h_num H) amount (w_unix_timestamp w) t funds s1 = Inr (s2, t1, amount)"
    "transfer H signer sender tokens amount (put treasury (ATreasury t1) (put stake (AStakeV2 s2) w2)) = Inr w'"
    "vault_covers w' tokens stake (sv_balance s2)"
    by (rule deposit_v2_calls [OF assms])
  have f: "ai_is_signer signer" "w_data w (ai_key stake) = AEmpty" "0 \<le> lock" "lock \<le> MAX_LOCK_DURATION" "amount \<noteq> 0"
      "ai_key stake = h_pda H [STAKE_V2, SKey (ai_key signer), SNum sid]"
    by (rule solana.deposit_v2_effect [OF assms(1,2)], assumption)+
  have apart: "ai_key stake \<noteq> ai_key treasury" using f(2) assms(3) by (auto simp: holds_defs)
  have h: "holds_stake w' stake s2" "holds_treasury w' treasury t1"
    using solana.transfer_frame [OF assms(1) c(5), of "ai_key stake"]
      solana.transfer_frame [OF assms(1) c(5), of "ai_key treasury"] apart
    by (simp_all add: holds_defs)
  note k1 = sv_update_rewards_keeps [OF c(1)]
  obtain s3 where d: "sv_update_rewards (h_num H) t s1 = Inr s3" "tracks t s1 t1 s2"
      "s2 = s3\<lparr>sv_balance := sv_balance s1 + amount, sv_last_deposit_at := w_unix_timestamp w\<rparr>"
    using sv_deposit_spec [OF c(4)] by metis
  note k2 = sv_update_rewards_keeps [OF d(1)]
  have u: "weighted_units s1 = Inr 0" using k1(1) by (simp add: new_stake_v2_units)
  have v: "sv_balance s2 = amount" "sv_authority s2 = ai_key signer" "sv_executor s2 = ai_key executor" "sv_id s2 = sid"
    "sv_lock_duration s2 = lock" "sv_multiplier s2 = stake_multiplier lock" "sv_created_at s2 = w_unix_timestamp w"
    using k1 k2 by (simp_all add: d(3) new_stake_v2_def)
  obtain u' where "weighted_units s2 = Inr u'" "tr_total_staked t1 = tr_total_staked t + u'"
    using d(2) u by (auto simp: tracks_def)
  with f h v c(2,3,5,6) show ?thesis
    by (intro exI [of _ s1] exI [of _ w1] exI [of _ w2] exI [of _ s2] exI [of _ t1] exI [of _ u']) (simp add: stake_v2_pda_def)
qed

definition demo_empty_world :: "int world" where
  "demo_empty_world = world_of
     [(400, ATreasury demo_treasury), (300, AToken \<lparr>tk_owner = 100, tk_mint = MINT_ADDRESS, tk_amount = 5000\<rparr>),
      (MINT_ADDRESS, AMint \<lparr>mt_supply = 100000\<rparr>)] [] 50 1000"

lemma demo_sv_fresh:
  "sv_update_rewards fx_ops demo_treasury (new_stake_v2 7 100 100 0 1000 demo_treasury) =
     Inr (new_stake_v2 7 100 100 0 1000 demo_treasury)"
  by (simp add: sv_update_rewards_def) (simp add: demo_treasury_def miner_treasury_def fx_ops_def new_stake_v2_def)

lemma demo_deposit_runs:
  "\<exists>w'. process_deposit_v2 ref_host
     [acct 100, acct MINT_ADDRESS, acct 300, acct (ref_pda [STAKE_V2, SKey 100, SNum 7]), acct 301, acct 400,
      acct 100, acct 11, acct 12, acct 13] 7 1000 0 demo_empty_world = Inr w'"
  by (simp add: process_deposit_v2_def ref_holds_def load_def demo_empty_world_def world_of_def demo_addresses
      token_programs_def program_id_def open_token_account_def data_is_empty_def create_program_account_def
      ref_create_def zeroed_def demo_sv_fresh demo_deposit transfer_def ref_transfer_def Let_def time_consts)

lemma deposit_v2_contract_witness:
  "\<exists>(w' :: int world) s' t'. holds_stake w' (acct (ref_pda [STAKE_V2, SKey 100, SNum 7])) s' \<and> holds_treasury w' (acct 400) t' \<and>
    sv_balance s' = 1000 \<and> weighted_units s' = Inr (tr_total_staked t')"
proof -
  obtain w' where w: "process_deposit_v2 ref_host
     [acct 100, acct MINT_ADDRESS, acct 300, acct (ref_pda [STAKE_V2, SKey 100, SNum 7]), acct 301, acct 400,
      acct 100, acct 11, acct 12, acct 13] 7 1000 0 demo_empty_world = Inr w'"
    using demo_deposit_runs by blast
  have "holds_treasury demo_empty_world (acct 400) demo_treasury"
    by (simp add: holds_defs demo_empty_world_def world_of_def demo_addresses)
  from deposit_v2_contract [OF ref.solana_axioms w this]
  obtain s' t' u' where "holds_stake w' (acct (ref_pda [STAKE_V2, SKey 100, SNum 7])) s'"
    "holds_treasury w' (acct 400) t'" "sv_balance s' = 1000" "weighted_units s' = Inr u'"
    "tr_total_staked t' = tr_total_staked demo_treasury + u'"
    by auto
  moreover have "tr_total_staked demo_treasury = 0" by (simp add: demo_treasury_def miner_treasury_def)
  ultimately have "weighted_units s' = Inr (tr_total_staked t')" by simp
  with \<open>holds_stake w' _ s'\<close> \<open>holds_treasury w' _ t'\<close> \<open>sv_balance s' = 1000\<close> show ?thesis by blast
qed

section \<open>Weights\<close>

text \<open>C16. \<open>isqrt_u128\<close> returns the floor of the square root for every \<open>u128\<close>: the Newton loop ends,
  never divides by zero and its additions never overflow.\<close>

lemma isqrt_is_floor_sqrt:
  assumes "n \<le> u128_max"
  shows "\<exists>r. isqrt_u128 n = Inr r \<and> r * r \<le> n \<and> n < (r + 1) * (r + 1)"
  using isqrt_u128_total [OF assms] by (simp only: floor_sqrt_of_def)

lemma isqrt_is_floor_sqrt_witness:
  "\<exists>r. isqrt_u128 (10 ^ 38) = Inr r \<and> r * r \<le> 10 ^ 38 \<and> 10 ^ 38 < (r + 1) * (r + 1)"
  by (rule isqrt_is_floor_sqrt) simp

text \<open>C15. \<open>StakeV2::weighted_units\<close> is the balance times the effective multiplier, boosted by 11/10
  with an NFT, each rounded down; it fails with \<open>StakeOverflow\<close> exactly when that number does not fit
  64 bits. The effective multiplier is the stored one before migration and its fixed-point square
  root after.\<close>

lemma weighted_units_reference:
  assumes "sv_wf s"
  shows "\<exists>em. (if sv_weight_version s = 0 then em = sv_multiplier s
       else em * em \<le> sv_multiplier s * STAKE_MULTIPLIER_SCALE \<and>
            sv_multiplier s * STAKE_MULTIPLIER_SCALE < (em + 1) * (em + 1)) \<and>
    weighted_units s =
      (let base = sv_balance s * em div STAKE_MULTIPLIER_SCALE;
           units = (if sv_is_nft_staked s = 0 then base else base * 11 div 10)
       in if units \<le> u64_max then Inr units else Inl (Godl StakeOverflow))"
proof -
  have wf: "sv_balance s \<le> u64_max" "sv_multiplier s \<le> u64_max" using assms by (auto simp: sv_wf_def)
  have "\<exists>em. sv_effective_multiplier s = Inr em \<and> em \<le> u64_max \<and>
      (if sv_weight_version s = 0 then em = sv_multiplier s
       else floor_sqrt_of (sv_multiplier s * STAKE_MULTIPLIER_SCALE) em)"
    using wf(2) effective_multiplier_correct [OF wf(2)] by (auto simp: sv_effective_multiplier_def)
  then obtain em where em: "sv_effective_multiplier s = Inr em" "em \<le> u64_max"
      "if sv_weight_version s = 0 then em = sv_multiplier s
       else floor_sqrt_of (sv_multiplier s * STAKE_MULTIPLIER_SCALE) em"
    by blast
  from weighted_units_ref [OF em(1,2) wf(1)] em(3) show ?thesis
    by (intro exI [of _ em]) (simp add: units_ref_def boost_def floor_sqrt_of_def Let_def split: if_splits)
qed

lemma weighted_units_reference_witness:
  "sv_wf demo_stake \<and> (\<exists>em. em * em \<le> 1000000000 * STAKE_MULTIPLIER_SCALE \<and>
     1000000000 * STAKE_MULTIPLIER_SCALE < (em + 1) * (em + 1) \<and>
     weighted_units demo_stake = Inr (1000 * em div STAKE_MULTIPLIER_SCALE))"
proof -
  have wf: "sv_wf demo_stake"
    by (simp add: sv_wf_def) (simp add: demo_stake_def new_stake_v2_def)
  from weighted_units_reference [OF wf] demo_weights(2) show ?thesis
    using wf by (auto simp: Let_def split: if_splits)
qed

text \<open>The multiplier of a lock duration lies between 1x and 20x, is monotone, 1x for no lock and
  20x from two years on; the migrated curve (square root) keeps 1x at 1x.\<close>

lemma stake_multiplier_curve:
  "STAKE_MULTIPLIER_SCALE \<le> stake_multiplier l \<and>
   stake_multiplier l \<le> MAX_STAKE_MULTIPLIER * STAKE_MULTIPLIER_SCALE \<and>
   stake_multiplier l \<le> stake_multiplier (l + int d) \<and>
   stake_multiplier 0 = STAKE_MULTIPLIER_SCALE \<and>
   stake_multiplier MAX_LOCK_DURATION = MAX_STAKE_MULTIPLIER * STAKE_MULTIPLIER_SCALE"
  using stake_multiplier_bounds stake_multiplier_mono [of l "l + int d"] stake_multiplier_ends
  by simp

section \<open>Migrating and merging\<close>

text \<open>C17. Migrating a stake to the square-root curve first credits the pending yield at the old
  weight, then moves \<open>total_staked\<close> by the change of weight, and never raises the weight of a stake
  with a multiplier of at least 1x; a second migration changes nothing.\<close>

lemma migrate_settles_and_shrinks:
  assumes "sv_migrate_weight N t s = Inr (s', t')" "sv_weight_version s = 0" "sv_wf s"
    and "STAKE_MULTIPLIER_SCALE \<le> sv_multiplier s" "weighted_units s = Inr u"
  shows "\<exists>u'. sv_rewards s' = sv_rewards s + sv_pending N t s u \<and> weighted_units s' = Inr u' \<and>
    tr_total_staked t' + u = tr_total_staked t + u' \<and> u' \<le> u \<and>
    sv_migrate_weight N t' s' = Inr (s', t')"
proof -
  obtain s1 where s1: "sv_update_rewards N t s = Inr s1" "s' = s1\<lparr>sv_weight_version := 1\<rparr>" "tracks t s t' s'"
    by (rule sv_migrate_weight_spec [OF assms(1,2)])
  have r: "sv_rewards s1 = sv_rewards s + sv_pending N t s u"
    by (subst sv_update_rewards_effect [OF s1(1) assms(5)]) simp
  obtain u' where u': "weighted_units s' = Inr u'" "tr_total_staked t' + u = tr_total_staked t + u'"
    using s1(3) assms(5) by (auto simp: tracks_def)
  have wf: "sv_balance s \<le> u64_max" "sv_multiplier s \<le> u64_max" using assms(3) by (auto simp: sv_wf_def)
  note k = sv_update_rewards_keeps [OF s1(1)]
  obtain em where em: "effective_multiplier (sv_multiplier s) = Inr em" "em \<le> u64_max"
      "floor_sqrt_of (sv_multiplier s * STAKE_MULTIPLIER_SCALE) em"
    using effective_multiplier_correct [OF wf(2)] by metis
  have le: "em \<le> sv_multiplier s"
  proof (rule ccontr)
    assume "\<not> em \<le> sv_multiplier s"
    then have "(sv_multiplier s + 1) * (sv_multiplier s + 1) \<le> em * em" by (intro mult_le_mono) auto
    also have "\<dots> \<le> sv_multiplier s * STAKE_MULTIPLIER_SCALE" using em(3) by (simp add: floor_sqrt_of_def)
    also have "\<dots> \<le> sv_multiplier s * sv_multiplier s" using assms(4) by simp
    finally show False by simp
  qed
  have "weighted_units s' = (if units_ref (sv_is_nft_staked s) (sv_balance s) em \<le> u64_max
      then Inr (units_ref (sv_is_nft_staked s) (sv_balance s) em) else Inl (Godl StakeOverflow))"
    using weighted_units_ref [of s' em] em(1,2) wf k by (simp add: s1(2) sv_effective_multiplier_def)
  then have a: "u' = units_ref (sv_is_nft_staked s) (sv_balance s) em" using u'(1) by (simp split: if_splits)
  have "weighted_units s = (if units_ref (sv_is_nft_staked s) (sv_balance s) (sv_multiplier s) \<le> u64_max
      then Inr (units_ref (sv_is_nft_staked s) (sv_balance s) (sv_multiplier s)) else Inl (Godl StakeOverflow))"
    using weighted_units_ref [of s "sv_multiplier s"] wf assms(2) by (simp add: sv_effective_multiplier_def)
  then have b: "u = units_ref (sv_is_nft_staked s) (sv_balance s) (sv_multiplier s)"
    using assms(5) by (simp split: if_splits)
  have "u' \<le> u" unfolding a b by (rule units_ref_mono) (simp_all add: le)
  moreover have "sv_migrate_weight N t' s' = Inr (s', t')" by (simp add: s1(2) sv_migrate_weight_noop)
  ultimately show ?thesis using r u' s1(2) by auto
qed

text \<open>A legacy stake of 1000 at 4x weighs 4000, and 2000 after the migration.\<close>

definition demo_legacy_stake :: "int stake_v2" where
  "demo_legacy_stake = demo_stake\<lparr>sv_weight_version := 0, sv_multiplier := 4000000000\<rparr>"

lemma demo_legacy:
  "weighted_units demo_legacy_stake = Inr 4000"
  "weighted_units (demo_legacy_stake\<lparr>sv_weight_version := 1\<rparr>) = Inr 2000"
  by (simp_all add: demo_legacy_stake_def weight_eval)

lemma demo_migrate:
  "sv_migrate_weight fx_ops (demo_treasury\<lparr>tr_total_staked := 9000\<rparr>) demo_legacy_stake =
     Inr (demo_legacy_stake\<lparr>sv_weight_version := 1\<rparr>, demo_treasury\<lparr>tr_total_staked := 7000\<rparr>)"
proof -
  have "demo_legacy_stake\<lparr>sv_rewards_factor := 0\<rparr> = demo_legacy_stake"
    by (simp add: demo_legacy_stake_def demo_stake_def new_stake_v2_def demo_treasury_def miner_treasury_def)
  then have u: "sv_update_rewards fx_ops (demo_treasury\<lparr>tr_total_staked := 9000\<rparr>) demo_legacy_stake = Inr demo_legacy_stake"
    by (simp add: sv_update_rewards_def demo_treasury_def miner_treasury_def fx_ops_def)
      (simp add: demo_legacy_stake_def)
  have "sv_weight_version demo_legacy_stake = 0" by (simp add: demo_legacy_stake_def)
  then show ?thesis
    by (simp add: sv_migrate_weight_def u demo_legacy demo_legacy(2) [simplified] Let_def adjust_total_up_def checked_sub_def)
qed

lemma migrate_settles_and_shrinks_witness:
  "\<exists>u'. weighted_units (demo_legacy_stake\<lparr>sv_weight_version := 1\<rparr>) = Inr u' \<and> 7000 + 4000 = 9000 + u' \<and> u' \<le> 4000"
proof -
  have "sv_wf demo_legacy_stake" "sv_weight_version demo_legacy_stake = 0"
    "STAKE_MULTIPLIER_SCALE \<le> sv_multiplier demo_legacy_stake"
    by (simp_all add: demo_legacy_stake_def sv_wf_def stake_consts) (simp_all add: demo_stake_def new_stake_v2_def)
  from migrate_settles_and_shrinks [OF demo_migrate this(2,1,3) demo_legacy(1)] show ?thesis by auto
qed

text \<open>C18. A merge settles both stakes at their old weights and then conserves: the target holds the
  whole balance, the whole settled rewards and lifetime rewards of both; the source is left empty.
  The longer of the two locks restarts, and \<open>total_staked\<close> moves by the change of the combined
  weight.\<close>

lemma merge_conserves:
  assumes "numeric N val" "merge_stakes N now t tg src = Inr (tg', src', t')" "sv_wf src"
    and "weighted_units tg = Inr u1" "weighted_units src = Inr u2"
  defines "settled1 \<equiv> sv_pending N t tg u1" and "settled2 \<equiv> sv_pending N t src u2"
  shows "\<exists>u'. sv_balance tg' = sv_balance tg + sv_balance src \<and> sv_balance src' = 0 \<and>
    sv_rewards tg' = (sv_rewards tg + settled1) + (sv_rewards src + settled2) \<and> sv_rewards src' = 0 \<and>
    sv_lifetime_rewards tg' = (sv_lifetime_rewards tg + settled1) + (sv_lifetime_rewards src + settled2) \<and>
    sv_lock_duration tg' = max (sv_lock_duration tg) (sv_lock_duration src) \<and> sv_created_at tg' = now \<and>
    weighted_units tg' = Inr u' \<and> weighted_units src' = Inr 0 \<and>
    tr_total_staked t' + (u1 + u2) = tr_total_staked t + u'"
proof -
  obtain u' where u: "weighted_units tg' = Inr u'" "weighted_units src' = Inr 0"
      "tr_total_staked t' + (u1 + u2) = tr_total_staked t + u'"
    by (rule merge_stakes_total [OF assms(2,4,5,3)])
  from assms(2) obtain tg1 t1 src1 t2 tg2 src2 where e:
      "sv_migrate_weight N t tg = Inr (tg1, t1)" "sv_migrate_weight N t1 src = Inr (src1, t2)"
      "sv_update_rewards N t2 tg1 = Inr tg2" "sv_update_rewards N t2 src1 = Inr src2"
      "src' = src2\<lparr>sv_balance := 0, sv_rewards := 0\<rparr>"
      "tg' = tg2\<lparr>sv_balance := sv_balance tg2 + sv_balance src2, sv_rewards := sv_rewards tg2 + sv_rewards src2,
         sv_lifetime_rewards := sv_lifetime_rewards tg2 + sv_lifetime_rewards src2,
         sv_lock_duration := max (sv_lock_duration tg2) (sv_lock_duration src2), sv_created_at := now,
         sv_multiplier := stake_multiplier (max (sv_lock_duration tg2) (sv_lock_duration src2)),
         sv_last_deposit_at := now\<rparr>"
    unfolding merge_stakes_def by (auto simp: result_simps Let_def)
  have k: "sv_balance tg2 = sv_balance tg" "sv_balance src2 = sv_balance src"
    "sv_lock_duration tg2 = sv_lock_duration tg" "sv_lock_duration src2 = sv_lock_duration src"
    using sv_migrate_weight_keeps [OF e(1)] sv_migrate_weight_keeps [OF e(2)]
      sv_update_rewards_keeps [OF e(3)] sv_update_rewards_keeps [OF e(4)] by simp_all
  have f1: "tr_stake_rewards_factor t1 = tr_stake_rewards_factor t"
    by (subst tracks_treasury [OF sv_migrate_weight_tracks [OF e(1) assms(4)]]) simp
  have f2: "tr_stake_rewards_factor t2 = tr_stake_rewards_factor t1"
    by (subst tracks_treasury [OF sv_migrate_weight_tracks [OF e(2) assms(5)]]) simp
  have f12: "tr_stake_rewards_factor t2 = tr_stake_rewards_factor t" using f1 f2 by simp
  obtain a where a: "sv_update_rewards N t tg = Inr a"
      "tg2 = a\<lparr>sv_weight_version := (if sv_weight_version tg = 0 then 1 else sv_weight_version tg)\<rparr>"
    by (rule numeric.migrate_settle [OF assms(1) e(1,3) f12])
  obtain b where b: "sv_update_rewards N t1 src = Inr b"
      "src2 = b\<lparr>sv_weight_version := (if sv_weight_version src = 0 then 1 else sv_weight_version src)\<rparr>"
    by (rule numeric.migrate_settle [OF assms(1) e(2,4) f2])
  have "sv_pending N t1 src u2 = settled2" by (simp add: settled2_def sv_pending_def f1)
  then have "sv_rewards tg2 = sv_rewards tg + settled1" "sv_lifetime_rewards tg2 = sv_lifetime_rewards tg + settled1"
    "sv_rewards src2 = sv_rewards src + settled2" "sv_lifetime_rewards src2 = sv_lifetime_rewards src + settled2"
    using sv_update_rewards_effect [OF a(1) assms(4)] sv_update_rewards_effect [OF b(1) assms(5)]
    by (simp_all add: settled1_def a(2) b(2))
  with e(5,6) k u show ?thesis by (intro exI [of _ u']) simp
qed

lemma demo_merge:
  "\<exists>tg src t. merge_stakes fx_ops 5000 (demo_treasury\<lparr>tr_total_staked := 2000\<rparr>) demo_stake demo_stake
     = Inr (tg, src, t)"
proof -
  let ?t = "demo_treasury\<lparr>tr_total_staked := 2000\<rparr>"
  have "demo_stake\<lparr>sv_rewards_factor := 0\<rparr> = demo_stake" by (simp add: demo_stake_def new_stake_v2_def demo_treasury_def miner_treasury_def)
  then have u: "sv_update_rewards fx_ops ?t demo_stake = Inr demo_stake"
    by (simp add: sv_update_rewards_def demo_treasury_def miner_treasury_def fx_ops_def)
  have f: "sv_rewards demo_stake = 0" "sv_lifetime_rewards demo_stake = 0" "sv_lock_duration demo_stake = 0"
    by (simp_all add: demo_stake_def new_stake_v2_def)
  show ?thesis
    by (simp add: merge_stakes_def sv_migrate_weight_noop u demo_weights f checked_add_def Let_def multiplier_one)
      (simp add: weight_eval adjust_total_up_def checked_sub_def)
qed

lemma merge_conserves_witness:
  "\<exists>(tg :: int stake_v2) (src :: int stake_v2) u'. sv_balance tg = 2000 \<and> sv_balance src = 0 \<and> sv_created_at tg = 5000 \<and> weighted_units tg = Inr u'"
proof -
  obtain tg src t where m: "merge_stakes fx_ops 5000 (demo_treasury\<lparr>tr_total_staked := 2000\<rparr>) demo_stake demo_stake
      = Inr (tg, src, t)"
    using demo_merge by blast
  have wf: "sv_wf demo_stake"
    by (simp add: sv_wf_def) (simp add: demo_stake_def new_stake_v2_def)
  from merge_conserves [OF fx.numeric_axioms m wf demo_weights(2) demo_weights(2)]
  obtain u' where "sv_balance tg = 2000" "sv_balance src = 0" "sv_created_at tg = 5000" "weighted_units tg = Inr u'"
    by auto
  then show ?thesis by blast
qed

end
