(* ===== verification/Rounds.thy ===== *)
theory Rounds
  imports Reset Checkpoint
begin

text \<open>
  The remaining handlers of \<open>src/program/src/miner\<close>: closing an expired round
  (\<open>close.rs\<close>), the log instruction (\<open>log.rs\<close>) and the injection of GODL into the motherlode
  (\<open>inject_godl_motherlode.rs\<close>).
\<close>

section \<open>Closing a round\<close>

text \<open>The block that vaults what an account holds above its rent.\<close>

definition vault_unclaimed :: "'n host \<Rightarrow> account_info \<Rightarrow> nat \<Rightarrow> account_info \<Rightarrow> 'n treasury \<Rightarrow> 'n world
    \<Rightarrow> ('n treasury \<times> 'n world) result" where
  "vault_unclaimed H info account_size treasury_info t w =
     (let unclaimed = saturating_sub (lamports info w) (h_minimum_balance H account_size) in
      if unclaimed > 0 then
        and_then (send H info unclaimed treasury_info w) (\<lambda>w.
        and_then (add64 (tr_balance t) unclaimed) (\<lambda>balance.
        let t = t\<lparr>tr_balance := balance\<rparr> in
        Inr (t, put treasury_info (ATreasury t) w)))
      else Inr (t, w))"

definition process_close :: "'n host \<Rightarrow> account_info list \<Rightarrow> 'n world \<Rightarrow> 'n world result" where
  "process_close H accounts w =
     (case accounts of [signer_info, board_info, rent_payer_info, round_info, pool_round_info, treasury_info,
         system_program] \<Rightarrow>
       and_then (checks H w [(signer_info, IsSigner), (rent_payer_info, IsWritable),
         (system_program, IsProgram SystemProgram)]) (\<lambda>_.
       and_then (as_board_mut H board_info w) (\<lambda>board.
       and_then (as_treasury_mut H treasury_info w) (\<lambda>t.
       and_then (as_round_mut H round_info w) (\<lambda>r.
       and_then (ensure H (rnd_id r < board_round_id board)) (\<lambda>_.
       and_then (ensure H (rnd_expires_at r < w_slot w)) (\<lambda>_.
       and_then (ensure H (rnd_rent_payer r = ai_key rent_payer_info)) (\<lambda>_.
       and_then (vault_unclaimed H round_info (8 + size_of_round) treasury_info t w) (\<lambda>(t, w).
       and_then (close_account H round_info rent_payer_info w) (\<lambda>w.
       and_then (checks H w [(pool_round_info, IsWritable),
         (pool_round_info, HasSeeds [POOL_ROUND, SNum (rnd_id r)])]) (\<lambda>_.
       if \<not> data_is_empty pool_round_info w then
         and_then (as_pool_round H pool_round_info w) (\<lambda>p.
         and_then (ensure H (pr_rent_payer p = ai_key rent_payer_info)) (\<lambda>_.
         and_then (vault_unclaimed H pool_round_info (8 + size_of_pool_round) treasury_info t w) (\<lambda>(t, w).
         close_account H pool_round_info rent_payer_info w)))
       else Inr w))))))))))
     | _ \<Rightarrow> Inl NotEnoughAccountKeys)"

section \<open>Logging and injection\<close>

definition process_log :: "'n host \<Rightarrow> account_info list \<Rightarrow> 'n world \<Rightarrow> 'n world result" where
  "process_log H accounts w =
     (case accounts of [signer_info] \<Rightarrow>
       and_then (checks H w [(signer_info, IsSigner)]) (\<lambda>_.
       and_then (as_board H signer_info w) (\<lambda>_.
       Inr w))
     | _ \<Rightarrow> Inl NotEnoughAccountKeys)"

definition process_inject_godl_motherlode :: "'n host \<Rightarrow> account_info list \<Rightarrow> u64 \<Rightarrow> 'n world \<Rightarrow> 'n world result" where
  "process_inject_godl_motherlode H accounts amount w =
     (case accounts of [signer_info, treasury_info, signer_tokens_info, treasury_tokens_info, token_program] \<Rightarrow>
       and_then (checks H w [(signer_info, IsSigner), (treasury_info, IsWritable),
         (treasury_info, HasSeeds [TREASURY])]) (\<lambda>_.
       and_then (as_treasury_mut H treasury_info w) (\<lambda>t.
       and_then (checks H w [(signer_tokens_info, IsWritable),
         (signer_tokens_info, AsAssociatedTokenAccount (ai_key signer_info) MINT_ADDRESS),
         (treasury_tokens_info, IsWritable),
         (treasury_tokens_info, AsAssociatedTokenAccount (ai_key treasury_info) MINT_ADDRESS),
         (token_program, IsProgram TokenProgram)]) (\<lambda>_.
       and_then (guard (amount \<noteq> 0) (Godl AmountTooSmall)) (\<lambda>_.
       and_then (transfer H signer_info signer_tokens_info treasury_tokens_info amount w) (\<lambda>w.
       and_then (ok_or (checked_add (tr_motherlode t) amount) ArithmeticOverflow) (\<lambda>motherlode.
       Inr (put treasury_info (ATreasury (t\<lparr>tr_motherlode := motherlode\<rparr>)) w)))))))
     | _ \<Rightarrow> Inl NotEnoughAccountKeys)"

section \<open>The parts of a closed round's clean-up\<close>

lemma process_close_cases:
  assumes "process_close H accounts w = Inr w'"
  obtains (parts) a b rent p t rd t1 w1 w2 where "w_data w (ai_key b) = ATreasury t" "w_data w (ai_key a) = ARound rd"
    "vault_unclaimed H a (8 + size_of_round) b t w = Inr (t1, w1)" "close_account H a rent w1 = Inr w2"
    "w' = w2 \<or> (\<exists>pr t2 w3. w_data w2 (ai_key p) = APoolRound pr
      \<and> vault_unclaimed H p (8 + size_of_pool_round) b t1 w2 = Inr (t2, w3) \<and> close_account H p rent w3 = Inr w')"
  using assms unfolding process_close_def
  by (auto simp: result_simps split: list.splits if_splits) blast+

end
