(* ===== verification/RoundProperties.thy ===== *)
theory RoundProperties
  imports Rounds Reference_Host Runs
begin

text \<open>
  The properties of a round: deployment, reset and checkpoint, each with a concrete instance.
\<close>

section \<open>The round's ledger\<close>

text \<open>C8. In every reachable round the total is the sum over the squares, each square's total is the
  sum of its miners' deployments, and every position below a square's total lies in the interval of
  exactly one miner, no position above it in any.\<close>

lemma round_ledger:
  assumes "round_reachable S"
  shows "rnd_total_deployed (rs_round S) = sum_list (rnd_deployed (rs_round S)) \<and>
    (\<forall>j<25. sum_list (map (\<lambda>m. mn_deployed m ! j) (rs_miners S)) = rnd_deployed (rs_round S) ! j) \<and>
    (\<forall>j<25. \<forall>s. length (filter (covers j s) (rs_miners S)) = (if s < rnd_deployed (rs_round S) ! j then 1 else 0))"
  using tiled_reachable [OF assms] unfolding tiled_def stakes_on_def holders_def sum_list_indicator by blast

lemma round_ledger_witness:
  "rnd_total_deployed (rs_round demo_game) = 597 \<and>
   sum_list (map (\<lambda>m. mn_deployed m ! 0) (rs_miners demo_game)) = 597 \<and>
   length (filter (covers 0 300) (rs_miners demo_game)) = 1"
proof -
  have r: "rnd_total_deployed (rs_round demo_game) = 597" "rnd_deployed (rs_round demo_game) ! 0 = 597"
    by (simp_all add: demo_game_def demo_round_def)
  have z: "(0::nat) < 25" by simp
  from round_ledger [OF demo_game_reachable] r z show ?thesis by simp
qed

text \<open>C9. On every square with a deployment, whatever the random number, exactly one miner of the
  round passes the checkpoint's top-miner test.\<close>

lemma exactly_one_top_miner:
  assumes "round_reachable S" "j < 25" "0 < rnd_deployed (rs_round S) ! j"
    and "rnd_deployed r = rnd_deployed (rs_round S)"
  shows "length (filter (\<lambda>m. is_top_miner r g m j = Inr True) (rs_miners S)) = 1"
  by (rule one_top_miner [OF tiled_reachable [OF assms(1)] assms(2-4)])

lemma exactly_one_top_miner_witness:
  "length (filter (\<lambda>m. is_top_miner (demo_round 3) 12345 m 0 = Inr True) (rs_miners demo_game)) = 1"
  by (rule exactly_one_top_miner [OF demo_game_reachable]) (simp_all add: demo_game_def demo_round_def)

section \<open>Payouts\<close>

lemma winner_rewards_loser:
  "winner_rewards H pri p r g m w = Inr (s, gd, r') \<Longrightarrow> mn_deployed m ! winning_square g = 0 \<Longrightarrow> s = 0 \<and> gd = 0"
  by (auto simp: winner_rewards_def Let_def)

lemma winner_rewards_sol:
  "winner_rewards H pri p r g m w = Inr (s, gd, r') \<Longrightarrow> 0 < mn_deployed m ! winning_square g \<Longrightarrow>
   winner_sol (rnd_total_winnings r) (mn_deployed m ! winning_square g) (rnd_deployed r ! winning_square g) = Inr s"
  by (auto simp: winner_rewards_def Let_def result_simps)

lemma winner_rewards_godl:
  assumes "winner_rewards H pri p r g m w = Inr (s, gd, r')" "0 < mn_deployed m ! winning_square g"
  obtains b r1 where "block_reward H pri p r g m (winning_square g) w = Inr (b, r1)"
    "gd = b + (if rnd_motherlode r1 > 0
       then share_of (rnd_motherlode r1) (mn_deployed m ! winning_square g) (rnd_deployed r1 ! winning_square g) else 0)"
    "rnd_motherlode r1 = rnd_motherlode r" "rnd_deployed r1 = rnd_deployed r"
proof -
  from assms obtain b r1 where e: "block_reward H pri p r g m (winning_square g) w = Inr (b, r1)"
      "gd = b + (if rnd_motherlode r1 > 0
         then share_of (rnd_motherlode r1) (mn_deployed m ! winning_square g) (rnd_deployed r1 ! winning_square g) else 0)"
    by (auto simp: winner_rewards_def Let_def result_simps split: if_splits)
  from e(1) have "rnd_motherlode r1 = rnd_motherlode r" "rnd_deployed r1 = rnd_deployed r"
    by (auto simp: block_reward_def result_simps split: if_splits)
  with e show ?thesis by (rule that)
qed

text \<open>C11. The SOL that leaves a round with winners: the two fees and the vault amount taken at reset,
  and the rewards of all checkpoints, together exceed the deployment by at most one lamport per
  winner (the fees of each checkpoint are rounded down).\<close>

lemma round_sol_outflow:
  assumes "round_reachable S" "split_winnings (rs_round S) (winning_square g) = Inr r0"
    and "reset_fees (rnd_total_deployed (rs_round S)) = Inr (admin, motherlode)"
    and "rnd_deployed r = rnd_deployed r0" "rnd_total_winnings r = rnd_total_winnings r0"
    and "\<forall>m\<in>set (rs_miners S). \<exists>gd r'. winner_rewards H pri (p m) r g m w = Inr (sol m, gd, r')"
  shows "admin + motherlode + rnd_total_vaulted r0 + sum_list (map sol (rs_miners S))
    \<le> rnd_total_deployed (rs_round S) +
       length (filter (\<lambda>m. 0 < mn_deployed m ! winning_square g) (rs_miners S))"
proof -
  let ?j = "winning_square g"
  have t: "tiled S" by (rule tiled_reachable [OF assms(1)])
  have j: "?j < 25" by (rule winning_square_less)
  have len: "length (rnd_deployed (rs_round S)) = 25" "sum_list (rnd_deployed (rs_round S)) \<le> u64_max"
    using t by (auto simp: tiled_def)
  have rd: "rnd_deployed r0 = rnd_deployed (rs_round S)"
    using split_winnings_spec(3) [OF assms(2) len(2)] len(1) j by simp
  have pay: "winner_sol (rnd_total_winnings r0) (mn_deployed m ! ?j) (rnd_deployed (rs_round S) ! ?j) = Inr (sol m)"
    if "m \<in> set (rs_miners S)" "0 < mn_deployed m ! ?j" for m
    using assms(4-6) that winner_rewards_sol rd by metis
  have zero: "sol m = 0" if "m \<in> set (rs_miners S)" "mn_deployed m ! ?j = 0" for m
    using assms(6) that winner_rewards_loser by metis
  have "sum_list (map sol ms) = sum_list (map sol (filter (\<lambda>m. 0 < mn_deployed m ! ?j) ms))"
    if "set ms \<subseteq> set (rs_miners S)" for ms
    using that zero by (induction ms) auto
  from this [OF subset_refl] outflow_le [OF t j assms(2,3) pay] show ?thesis by simp
qed

definition demo_outcome :: round where
  "demo_outcome = (demo_round 3)\<lparr>rnd_top_miner_reward := 100, rnd_motherlode := 50\<rparr>"

lemma demo_row_sum: "sum_list (demo_row n) = n"
  using sum_list_update_nat [of 0 zero_squares "\<lambda>x. x" n]
  by (simp add: demo_row_def zero_squares_def sum_list_replicate)

lemma demo_split_winnings: "split_winnings (demo_round 3) 0 = Inr (demo_round 3)"
proof -
  note z = demo_row_sum
  have d: "rnd_deployed (demo_round 3) = demo_row 597" "rnd_total_deployed (demo_round 3) = 597"
    by (simp_all add: demo_round_def)
  have "calculate_total_winnings (demo_round 3) 0 = Inr 0"
    by (subst calculate_total_winnings_eq) (simp_all add: d z)
  moreover have "(demo_round 3)\<lparr>rnd_total_winnings := 0, rnd_total_vaulted := 0\<rparr> = demo_round 3"
    by (simp add: demo_round_def new_round_def)
  ultimately show ?thesis
    by (simp add: split_winnings_def d checked_mul_def sub64_def checked_sub_def add64_def bps_consts Let_def)
qed

lemma demo_fees: "reset_fees 597 = Inr (2, 5)"
  by (simp add: reset_fees_def checked_mul_def bps_consts)

lemma demo_zero_square: "winning_square 0 = 0"
  by (simp add: winning_square_def)

lemma reverse_bits_0: "reverse_bits 0 = 0"
  by (rule bit_word_eqI) (simp add: bit_reverse_bits)

lemma demo_rewards:
  assumes "i < 3"
  shows "\<exists>r'. winner_rewards H pri p demo_outcome 0 (demo_player i) w = Inr (197, (if i = 0 then 100 else 0) + 16, r')"
proof -
  have s: "winner_sol 0 199 597 = Inr 197"
    by (simp add: winner_sol_def checked_add_def checked_mul_def checked_sub_def bps_consts add64_def share_of_def Let_def)
  have m: "share_of 50 199 597 = 16" by (simp add: share_of_def)
  have o: "rnd_deployed demo_outcome = demo_row 597" "rnd_top_miner demo_outcome = 0" "rnd_motherlode demo_outcome = 50"
    "rnd_top_miner_reward demo_outcome = 100" "rnd_total_winnings demo_outcome = 0"
    by (simp_all add: demo_outcome_def demo_round_def new_round_def pubkey_default_def)
  have p: "mn_deployed (demo_player k) = demo_row 199" "mn_cumulative (demo_player k) = demo_row (199 * k)" for k
    by (simp_all add: demo_player_def)
  have a: "0 \<noteq> SPLIT_ADDRESS" "0 \<noteq> POOL_ADDRESS"
    using special_addresses_distinct by (simp_all add: pubkey_default_def)
  have q: "top_miner_sample demo_outcome 0 0 = 0" by (simp add: top_miner_sample_def o reverse_bits_0)
  show ?thesis using assms a
    by (auto simp: winner_rewards_def demo_zero_square p o s m block_reward_def is_top_miner_def q add64_def Let_def)
qed

lemma demo_sol: "\<forall>m\<in>set (rs_miners demo_game). \<exists>gd r'. winner_rewards H pri p demo_outcome 0 m w = Inr (197, gd, r')"
  using demo_rewards [of 0] demo_rewards [of 1] demo_rewards [of 2] by (fastforce simp: demo_game_def)

lemma round_sol_outflow_witness:
  "2 + 5 + 0 + sum_list (map (\<lambda>_. 197) (rs_miners demo_game)) \<le>
     rnd_total_deployed (rs_round demo_game) + length (filter (\<lambda>m. 0 < mn_deployed m ! winning_square 0) (rs_miners demo_game))"
proof -
  have d: "rs_round demo_game = demo_round 3" "rnd_total_deployed (demo_round 3) = 597"
    "rnd_deployed demo_outcome = rnd_deployed (demo_round 3)"
    "rnd_total_winnings demo_outcome = rnd_total_winnings (demo_round 3)" "rnd_total_vaulted (demo_round 3) = 0"
    by (simp_all add: demo_game_def demo_round_def demo_outcome_def new_round_def)
  from round_sol_outflow [OF demo_game_reachable, of 0 "demo_round 3" 2 5 demo_outcome ref_host "acct 1" "\<lambda>_. None"
      undefined "\<lambda>_. 197"] demo_split_winnings demo_fees demo_sol d
  show ?thesis by (simp add: demo_zero_square)
qed

text \<open>A round in which any number of miners have 133 lamports each on square 0: the checkpoint fee of 1.5
  percent is 1.995 lamports, rounded down to one.\<close>

definition crowd_player :: "nat \<Rightarrow> int miner" where
  "crowd_player i = (new_miner fx_ops (101 + i))\<lparr>mn_round_id := 5, mn_deployed := demo_row 133,
     mn_cumulative := demo_row (133 * i)\<rparr>"

definition crowd_round :: "nat \<Rightarrow> round" where
  "crowd_round n = (new_round 5 900)\<lparr>rnd_deployed := demo_row (133 * n), rnd_count := demo_row n,
     rnd_total_deployed := 133 * n\<rparr>"

definition crowd :: "nat \<Rightarrow> int round_system" where
  "crowd n = \<lparr>rs_round = crowd_round n, rs_miners = map crowd_player [0..<n]\<rparr>"

lemma crowd_enter:
  assumes "133 * (n + 1) \<le> u64_max"
  shows "round_step (crowd n) (crowd (n + 1))"
proof -
  let ?m = "new_miner fx_ops (101 + n) :: int miner"
  let ?m' = "?m\<lparr>mn_deployed := zero_squares, mn_cumulative := demo_row (133 * n), mn_round_id := 5\<rparr>"
  let ?ds = "\<lambda>m r t k. \<lparr>ds_miner = m, ds_round = r, ds_pool_round = undefined, ds_total_amount = t,
      ds_total_squares = k, ds_world = undefined :: int world\<rparr>"
  have e: "enter_round (rs_round (crowd n)) ?m = Inr ?m'"
    by (simp add: crowd_def enter_round_def crowd_round_def new_round_def new_miner_def)
  have p: "place_square 133 0 ?m' (crowd_round n) = Inr (crowd_player n, crowd_round (n + 1))"
    using assms by (simp add: place_square_def crowd_round_def crowd_player_def new_round_def new_miner_def add64_def
        Let_def algebra_simps)
  have l: "deploy_loop (\<lambda>_ _ _ _. Inl Panic) False None 133 0 [True] (?ds ?m' (rs_round (crowd n)) 0 0) =
      Inr (?ds (crowd_player n) (crowd_round (n + 1)) 133 1)"
    using p by (simp add: crowd_def add64_def Let_def)
  have "round_step (crowd n) \<lparr>rs_round = ds_round (?ds (crowd_player n) (crowd_round (n + 1)) 133 1),
      rs_miners = rs_miners (crowd n) @ [ds_miner (?ds (crowd_player n) (crowd_round (n + 1)) 133 1)]\<rparr>"
    by (rule round_step.enter [OF e _ _ l]) (simp_all add: new_miner_def)
  then show ?thesis by (simp add: crowd_def)
qed

lemma crowd_reachable: "133 * n \<le> u64_max \<Longrightarrow> round_reachable (crowd n)"
proof (induction n)
  case 0
  show ?case
    by (rule round_reachable.opened [of _ 5 900]) (simp_all add: crowd_def crowd_round_def new_round_def demo_row_0)
next
  case (Suc n)
  then have "round_reachable (crowd n)" by simp
  from round_reachable.deployed [OF this crowd_enter] Suc.prems show ?case by simp
qed

lemma crowd_split:
  assumes "133 * n \<le> u64_max"
  shows "split_winnings (crowd_round n) 0 = Inr (crowd_round n)"
proof -
  have d: "rnd_deployed (crowd_round n) = demo_row (133 * n)" "rnd_total_deployed (crowd_round n) = 133 * n"
    by (simp_all add: crowd_round_def)
  have "calculate_total_winnings (crowd_round n) 0 = Inr 0"
    using assms by (subst calculate_total_winnings_eq) (simp_all add: d demo_row_sum)
  moreover have "(crowd_round n)\<lparr>rnd_total_winnings := 0, rnd_total_vaulted := 0\<rparr> = crowd_round n"
    by (simp add: crowd_round_def new_round_def)
  ultimately show ?thesis
    using assms by (simp add: split_winnings_def d checked_mul_def sub64_def checked_sub_def add64_def bps_consts Let_def)
qed

lemma crowd_sol: "winner_sol 0 133 whole = Inr 132"
  by (simp add: winner_sol_def checked_add_def checked_mul_def checked_sub_def bps_consts add64_def share_of_def
      as_u64_def Let_def)

text \<open>C19. That bound is close: for every \<open>k\<close> for which the fees can be computed there is a reachable round
  of \<open>200 * k\<close> miners, all on the winning square, whose fees and rewards together exceed the
  deployment by \<open>199 * k\<close> lamports, which the last checkpoints can only take from the rent of the
  round's account.\<close>

lemma round_sol_shortfall:
  assumes "133 * (200 * k) * SOL_MOTHERLODE_BPS \<le> u64_max"
  shows "\<exists>(S :: int round_system) admin motherlode r0 sol. round_reachable S \<and> length (rs_miners S) = 200 * k \<and>
    list_all (\<lambda>m. 0 < mn_deployed m ! 0) (rs_miners S) \<and>
    reset_fees (rnd_total_deployed (rs_round S)) = Inr (admin, motherlode) \<and>
    split_winnings (rs_round S) 0 = Inr r0 \<and>
    list_all (\<lambda>m. winner_sol (rnd_total_winnings r0) (mn_deployed m ! 0) (rnd_deployed r0 ! 0) = Inr (sol m)) (rs_miners S) \<and>
    admin + motherlode + rnd_total_vaulted r0 + sum_list (map sol (rs_miners S))
      = rnd_total_deployed (rs_round S) + 199 * k"
proof -
  let ?n = "200 * k"
  have n: "133 * ?n \<le> u64_max" using assms by (simp add: bps_consts)
  have t: "rnd_total_deployed (crowd_round ?n) = 133 * ?n" "rnd_total_winnings (crowd_round ?n) = 0"
    "rnd_total_vaulted (crowd_round ?n) = 0"
    by (simp_all add: crowd_round_def new_round_def)
  have fees: "reset_fees (133 * ?n) = Inr (133 * k, 266 * k)"
    using assms by (simp add: reset_fees_def checked_mul_def bps_consts)
  have "list_all (\<lambda>m. 0 < mn_deployed m ! 0) (rs_miners (crowd ?n))"
    "list_all (\<lambda>m. winner_sol 0 (mn_deployed m ! 0) (rnd_deployed (crowd_round ?n) ! 0) = Inr 132) (rs_miners (crowd ?n))"
    by (simp_all add: list_all_iff crowd_def crowd_player_def crowd_sol)
  moreover have "rs_round (crowd ?n) = crowd_round ?n" "length (rs_miners (crowd ?n)) = ?n" by (simp_all add: crowd_def)
  moreover have "sum_list (map (\<lambda>_. 132) (rs_miners (crowd ?n))) = 132 * ?n"
    by (simp add: crowd_def comp_def map_replicate_const sum_list_replicate)
  ultimately show ?thesis
    using crowd_reachable [OF n] crowd_split [OF n] fees t
    by (intro exI [of _ "crowd ?n"] exI [of _ "133 * k"] exI [of _ "266 * k"] exI [of _ "crowd_round ?n"]
        exI [of _ "\<lambda>_. 132"]) simp
qed

lemma round_sol_shortfall_witness:
  "\<exists>(S :: int round_system) admin motherlode r0 sol. round_reachable S \<and> length (rs_miners S) = 200 \<and>
    list_all (\<lambda>m. 0 < mn_deployed m ! 0) (rs_miners S) \<and>
    reset_fees (rnd_total_deployed (rs_round S)) = Inr (admin, motherlode) \<and>
    split_winnings (rs_round S) 0 = Inr r0 \<and>
    list_all (\<lambda>m. winner_sol (rnd_total_winnings r0) (mn_deployed m ! 0) (rnd_deployed r0 ! 0) = Inr (sol m)) (rs_miners S) \<and>
    admin + motherlode + rnd_total_vaulted r0 + sum_list (map sol (rs_miners S)) = rnd_total_deployed (rs_round S) + 199"
proof -
  have "133 * (200 * 1) * SOL_MOTHERLODE_BPS \<le> u64_max" by (simp add: bps_consts)
  from round_sol_shortfall [OF this] show ?thesis by (simp only: mult_1_right)
qed

text \<open>C10. In a round that is not pooled, the GODL credited by all checkpoints is at most the block
  reward plus the motherlode the reset set aside; in a solo round without a motherlode it is exactly
  the block reward.\<close>

lemma round_godl_credits:
  assumes "round_reachable S" "rnd_deployed r = rnd_deployed (rs_round S)"
    and "0 < rnd_deployed r ! winning_square g"
    and "rnd_top_miner r \<noteq> POOL_ADDRESS" "rnd_top_miner_reward r \<le> u64_max" "rnd_motherlode r \<le> u64_max"
    and "\<forall>m\<in>set (rs_miners S). \<exists>s r'. winner_rewards H pri (p m) r g m w = Inr (s, godl m, r')"
  shows "sum_list (map godl (rs_miners S)) \<le> rnd_top_miner_reward r + rnd_motherlode r \<and>
    (rnd_top_miner r \<noteq> SPLIT_ADDRESS \<longrightarrow> rnd_motherlode r = 0 \<longrightarrow>
       sum_list (map godl (rs_miners S)) = rnd_top_miner_reward r)"
proof -
  let ?j = "winning_square g"
  have t: "tiled S" by (rule tiled_reachable [OF assms(1)])
  have j: "?j < 25" by (rule winning_square_less)
  define blk where "blk m = (if rnd_top_miner r = SPLIT_ADDRESS
      then share_of (rnd_top_miner_reward r) (mn_deployed m ! ?j) (rnd_deployed r ! ?j)
      else rnd_top_miner_reward r * (if is_top_miner r g m ?j = Inr True then 1 else 0))" for m :: "'a miner"
  define mot where "mot m = share_of (rnd_motherlode r) (mn_deployed m ! ?j) (rnd_deployed r ! ?j)" for m :: "'a miner"
  have each: "godl m = blk m + mot m" if m: "m \<in> set (rs_miners S)" for m
  proof (cases "mn_deployed m ! ?j = 0")
    case True
    then have "\<not> covers ?j s m" for s by (simp add: covers_def)
    then have "is_top_miner r g m ?j \<noteq> Inr True" using is_top_miner_iff [OF t j m] by blast
    with True m assms(7) show ?thesis using winner_rewards_loser
      by (fastforce simp: blk_def mot_def share_of_def as_u64_def)
  next
    case False
    then obtain s r' where "winner_rewards H pri (p m) r g m w = Inr (s, godl m, r')" using assms(7) m by blast
    from winner_rewards_godl [OF this] False obtain b r1 where b: "block_reward H pri (p m) r g m ?j w = Inr (b, r1)"
        "godl m = b + (if rnd_motherlode r1 > 0 then share_of (rnd_motherlode r1) (mn_deployed m ! ?j)
           (rnd_deployed r1 ! ?j) else 0)"
        "rnd_motherlode r1 = rnd_motherlode r" "rnd_deployed r1 = rnd_deployed r"
      by blast
    have "b = blk m" using b(1) assms(4)
      by (auto simp: block_reward_def blk_def result_simps split: if_splits)
    moreover have "share_of 0 x y = 0" for x y by (simp add: share_of_def as_u64_def)
    ultimately show ?thesis using b(2-4) by (auto simp: mot_def)
  qed
  have sums: "sum_list (map godl (rs_miners S)) = sum_list (map blk (rs_miners S)) + sum_list (map mot (rs_miners S))"
    using each by (induction "rs_miners S") (auto simp flip: sum_list_addf cong: map_cong)
  have mo: "sum_list (map mot (rs_miners S)) \<le> rnd_motherlode r"
    unfolding mot_def assms(2) by (rule share_sum_le [OF t j assms(6)])
  have solo: "sum_list (map blk (rs_miners S)) = rnd_top_miner_reward r" if "rnd_top_miner r \<noteq> SPLIT_ADDRESS"
  proof -
    have "blk = (\<lambda>m. rnd_top_miner_reward r * (if is_top_miner r g m ?j = Inr True then 1 else 0))"
      using that by (simp add: blk_def fun_eq_iff)
    then have "sum_list (map blk (rs_miners S)) = rnd_top_miner_reward r *
        sum_list (map (\<lambda>m. if is_top_miner r g m ?j = Inr True then 1 else 0) (rs_miners S))"
      by (simp only: sum_list_const_mult)
    then show ?thesis
      using one_top_miner [OF t j, of r g] assms(2,3) by (simp add: sum_list_indicator)
  qed
  have "sum_list (map blk (rs_miners S)) \<le> rnd_top_miner_reward r"
  proof (cases "rnd_top_miner r = SPLIT_ADDRESS")
    case True
    then have "blk = (\<lambda>m. share_of (rnd_top_miner_reward r) (mn_deployed m ! ?j) (rnd_deployed (rs_round S) ! ?j))"
      by (simp add: blk_def assms(2) fun_eq_iff)
    then show ?thesis using share_sum_le [OF t j assms(5)] by simp
  qed (simp add: solo)
  moreover have "mot m = 0" if "rnd_motherlode r = 0" for m
    using that by (simp add: mot_def share_of_def as_u64_def)
  ultimately show ?thesis using sums mo solo by (auto simp: sum_list_0)
qed

lemma round_godl_credits_witness:
  "sum_list (map (\<lambda>m. (if m = demo_player 0 then 100 else 0) + 16) (rs_miners demo_game)) \<le>
     rnd_top_miner_reward demo_outcome + rnd_motherlode demo_outcome"
proof -
  have o: "rnd_deployed demo_outcome = demo_row 597" "rnd_top_miner demo_outcome = 0" "rnd_motherlode demo_outcome = 50"
    "rnd_top_miner_reward demo_outcome = 100" "rnd_deployed (rs_round demo_game) = demo_row 597"
    by (simp_all add: demo_outcome_def demo_round_def new_round_def pubkey_default_def demo_game_def)
  have z: "demo_row 597 ! 0 = 597" by (simp add: demo_row_def zero_squares_def)
  have "mn_authority (demo_player i) = 101 + of_nat i" for i
    by (simp add: demo_player_def new_miner_def)
  then have "mn_authority (demo_player 1) \<noteq> mn_authority (demo_player 0)"
    "mn_authority (demo_player 2) \<noteq> mn_authority (demo_player 0)" by simp_all
  then have d: "demo_player 1 \<noteq> demo_player 0" "demo_player 2 \<noteq> demo_player 0" by metis+
  have "\<exists>s r'. winner_rewards ref_host (acct 1) None demo_outcome 0 m undefined =
      Inr (s, (if m = demo_player 0 then 100 else 0) + 16, r')" if "m \<in> set (rs_miners demo_game)" for m
    using that demo_rewards [of 0 ref_host "acct 1" None undefined] demo_rewards [of 1 ref_host "acct 1" None undefined]
      demo_rewards [of 2 ref_host "acct 1" None undefined] d
    by (auto simp: demo_game_def)
  with round_godl_credits [OF demo_game_reachable, of demo_outcome 0 ref_host "acct 1" "\<lambda>_. None" undefined
      "\<lambda>m. (if m = demo_player 0 then 100 else 0) + 16"] special_addresses_distinct
  show ?thesis by (simp add: o z demo_zero_square pubkey_default_def)
qed

end
