(* ===== verification/LedgerProperties.thy ===== *)
theory LedgerProperties
  imports Runs Referral Automation
begin

text \<open>
  The properties of the miners' GODL ledger, of the gold ledger, of the referral split and of the
  packed automation configuration, each with a concrete instance.
\<close>

section \<open>Unrefined GODL\<close>

text \<open>C21. In every reachable state of the miners' ledger, \<open>Treasury::total_unclaimed\<close> is the sum of the
  miners' unrefined GODL, and \<open>Treasury::total_refined\<close> is what was taken in refining fees less
  what was paid out of them.\<close>

lemma unclaimed_is_sum_of_rewards:
  assumes "mining_reachable N S"
  shows "tr_total_unclaimed (ms_treasury S) = sum_list (map mn_rewards_godl (ms_miners S)) \<and>
    tr_total_refined (ms_treasury S) + ms_paid S = ms_fees S"
  using miner_ledger_reachable [OF assms] by (simp add: miner_ledger_def)

lemma unclaimed_is_sum_of_rewards_witness:
  "tr_total_unclaimed (ms_treasury demo_mining) = 3000 \<and>
   sum_list (map mn_rewards_godl (ms_miners demo_mining)) = 3000 \<and>
   tr_total_refined (ms_treasury demo_mining) + ms_paid demo_mining = 100"
  using unclaimed_is_sum_of_rewards [OF demo_mining_reachable] by (simp add: demo_mining_def)

text \<open>C20. The refining fees credited to miners never exceed \<open>Treasury::total_refined\<close>: the rounding
  of the index goes against the miners.\<close>

lemma refined_within_fees:
  assumes "numeric N val" "mining_reachable N S"
  shows "sum_list (map mn_refined_godl (ms_miners S)) \<le> tr_total_refined (ms_treasury S)"
  by (rule numeric.refined_credited_reachable [OF assms])

lemma refined_within_fees_witness:
  "sum_list (map mn_refined_godl (ms_miners demo_mining)) \<le> tr_total_refined (ms_treasury demo_mining) \<and>
   tr_total_refined (ms_treasury demo_mining) = 100"
  using refined_within_fees [OF fx.numeric_axioms demo_mining_reachable] by (simp add: demo_mining_def)

text \<open>C22. In a reachable state \<open>Miner::claim_godl\<close> of any miner succeeds, below the bounds of
  \<open>u64\<close>: none of its three subtractions can underflow.\<close>

lemma claim_godl_never_aborts:
  assumes "numeric N val" "mining_reachable N S" "i < length (ms_miners S)"
    and "mn_lifetime_rewards_godl (ms_miners S ! i) + ms_fees S \<le> u64_max"
    and "ms_fees S + tr_total_unclaimed (ms_treasury S) \<le> u64_max"
  shows "\<exists>m' t' amount. mn_claim_godl N now (ms_treasury S) (ms_miners S ! i) = Inr (m', t', amount)"
  by (rule numeric.claim_total [OF assms])

lemma claim_godl_never_aborts_witness:
  "\<exists>(m' :: int miner) t' amount.
     mn_claim_godl fx_ops 9 (ms_treasury demo_mining) (ms_miners demo_mining ! 1) = Inr (m', t', amount)"
  by (rule claim_godl_never_aborts [OF fx.numeric_axioms demo_mining_reachable])
    (simp_all add: demo_mining_def demo_miner_def)

text \<open>C23. A claim pays the miner's unrefined and refined GODL less a tenth of the unrefined part, and
  moves that tenth to the other miners; a miner who holds all unrefined GODL pays no fee. Nothing
  is created: payout plus the treasury's new obligations equals the old ones.\<close>

lemma claim_godl_conserves:
  assumes "mn_update_rewards N t m = Inr m1" "mn_claim_godl N now t m = Inr (m', t', amount)"
  shows "amount = mn_refined_godl m1 + mn_rewards_godl m -
      (if tr_total_unclaimed t = mn_rewards_godl m then 0 else mn_rewards_godl m div 10) \<and>
    amount + tr_total_unclaimed t' + tr_total_refined t' = tr_total_unclaimed t + tr_total_refined t \<and>
    mn_rewards_godl m' = 0 \<and> mn_refined_godl m' = 0"
proof (rule mn_claim_godl_spec [OF assms(2)], goal_cases)
  case (1 m2 fee)
  then have "m2 = m1" using assms(1) by simp
  note e = 1 [unfolded this]
  have "amount + tr_total_unclaimed t' + tr_total_refined t' = tr_total_unclaimed t + tr_total_refined t"
    using e(2,3,5) unfolding e(8) by simp
  moreover have "fee = (if tr_total_unclaimed t = mn_rewards_godl m then 0 else mn_rewards_godl m div 10)"
    using e(2,4) by auto
  ultimately show ?case using e(5) by (auto simp: e(7))
qed

lemma claim_godl_conserves_witness:
  "\<exists>(m' :: int miner) t'. mn_claim_godl fx_ops 9 (demo_treasury\<lparr>tr_total_unclaimed := 4000\<rparr>) (demo_miner 1000) =
       Inr (m', t', 900) \<and> 900 + tr_total_unclaimed t' + tr_total_refined t' = 4000"
proof -
  let ?t = "demo_treasury\<lparr>tr_total_unclaimed := 4000\<rparr>"
  have u: "mn_update_rewards fx_ops ?t (demo_miner 1000) = Inr (demo_miner 1000)"
    by (simp add: miner_eval)
  obtain m' t' where c: "mn_claim_godl fx_ops 9 ?t (demo_miner 1000) = Inr (m', t', 900)"
    by (simp add: miner_eval)
  from claim_godl_conserves [OF u c] c show ?thesis by (simp add: demo_treasury_def miner_treasury_def)
qed

section \<open>Gold\<close>

text \<open>A vault that bought 50 gold for 4000 unrefined GODL, 1000 of it in one extended account that
  has claimed its share of 12.\<close>

definition demo_vault :: "u64 \<Rightarrow> u64 \<Rightarrow> int gold_vault" where
  "demo_vault distributed claimed = \<lparr>gv_xaut_rewards_factor = int distributed * 70368744177664000, gv_pending_xaut = 0,
     gv_total_xaut_distributed = distributed, gv_total_xaut_claimed = claimed, gv_total_sol_swapped = 0,
     gv_buffer = zero_bytes 32\<rparr>"

definition demo_gold :: "int gold_system" where
  "demo_gold = \<lparr>gs_vault = demo_vault 50 12, gs_unclaimed = 4000,
     gs_holders = [((mx_init 200 (demo_vault 50 12))\<lparr>mx_lifetime_xaut := 12\<rparr>, 1000)], gs_rest = 3000, gs_bought = 50\<rparr>"

lemmas gold_eval = demo_vault_def gv_distribute_def mx_init_def mx_update_rewards_def mx_claim_def fx_ops_def
  fx_one_def GOLD_FACTOR_SCALE_def add64_def checked_add_def checked_mul_def Let_def

lemma demo_gold_reachable: "gold_reachable fx_ops demo_gold"
proof -
  let ?S0 = "\<lparr>gs_vault = demo_vault 0 0, gs_unclaimed = 4000, gs_holders = [], gs_rest = 4000, gs_bought = 0\<rparr>"
  let ?x = "mx_init 200 (demo_vault 0 0)"
  let ?S1 = "?S0\<lparr>gs_holders := [(?x, 1000)], gs_rest := 3000\<rparr>"
  let ?S2 = "?S1\<lparr>gs_vault := demo_vault 50 0, gs_bought := 50\<rparr>"
  have 0: "gold_reachable fx_ops ?S0"
    by (rule gold_reachable.start) (simp_all add: demo_vault_def fx_ops_def)
  have 1: "gold_reachable fx_ops ?S1"
    by (rule gold_reachable.step [OF 0]) (use gold_step.open_extended [of 1000 ?S0 fx_ops 200] in simp)
  have "gv_distribute fx_ops 50 4000 (demo_vault 0 0) = Inr (demo_vault 50 0, 50)"
    by (simp add: gold_eval)
  then have 2: "gold_reachable fx_ops ?S2"
    by (intro gold_reachable.step [OF 1])
      (use gold_step.distribute [of fx_ops 50 ?S1 "demo_vault 50 0" 50] in \<open>simp add: demo_vault_def GOLD_FACTOR_SCALE_def\<close>)
  let ?x1 = "(mx_init 200 (demo_vault 50 0))\<lparr>mx_xaut_rewards := 12, mx_lifetime_xaut := 12\<rparr>"
  have u: "mx_update_rewards fx_ops (demo_vault 50 0) 1000 ?x = Inr ?x1"
    by (simp add: gold_eval)
  have c: "mx_claim ?x1 = (?x1\<lparr>mx_xaut_rewards := 0\<rparr>, 12)" by (simp add: mx_claim_def)
  have "gold_step fx_ops ?S2 demo_gold"
    using gold_step.claim [of 0 ?S2 ?x 1000 fx_ops ?x1 "?x1\<lparr>mx_xaut_rewards := 0\<rparr>" 12 12] u c
    by (simp add: demo_gold_def demo_vault_def checked_add_def mx_init_def)
  with 2 show ?thesis by (rule gold_reachable.step)
qed

text \<open>C24. In every reachable state of the gold ledger, the gold credited to extended accounts plus the
  gold paid out is at most the gold distributed, and distributed plus pending gold is exactly
  what was bought; so the vault can always pay.\<close>

lemma gold_never_overpaid:
  assumes "numeric N val" "gold_reachable N S"
  shows "sum_list (map (\<lambda>h. mx_xaut_rewards (fst h)) (gs_holders S)) + gv_total_xaut_claimed (gs_vault S)
      \<le> gv_total_xaut_distributed (gs_vault S) \<and>
    gv_total_xaut_distributed (gs_vault S) + gv_pending_xaut (gs_vault S) = gs_bought S"
  using numeric.gold_credited_reachable [OF assms] gold_ledger_reachable [OF assms(2)]
  by (simp add: gold_ledger_def)

lemma gold_never_overpaid_witness:
  "gv_total_xaut_claimed (gs_vault demo_gold) = 12 \<and> gs_bought demo_gold = 50 \<and>
   sum_list (map (\<lambda>h. mx_xaut_rewards (fst h)) (gs_holders demo_gold)) + 12 \<le> gv_total_xaut_distributed (gs_vault demo_gold)"
  using gold_never_overpaid [OF fx.numeric_axioms demo_gold_reachable] by (simp add: demo_gold_def demo_vault_def)

text \<open>Distributing gold: with unrefined GODL present everything pending is distributed and nothing
  is left pending, without it everything is kept pending; in both cases distributed plus pending
  grows by exactly the gold that came in.\<close>

lemma distribute_conserves:
  assumes "gv_distribute N xaut total_unclaimed v = Inr (v', amount)"
  shows "gv_total_xaut_distributed v' + gv_pending_xaut v' = gv_total_xaut_distributed v + gv_pending_xaut v + xaut \<and>
    gv_total_xaut_distributed v' = gv_total_xaut_distributed v + amount \<and>
    gv_pending_xaut v' = (if total_unclaimed = 0 then gv_pending_xaut v + xaut else 0) \<and>
    gv_total_xaut_claimed v' = gv_total_xaut_claimed v"
  using assms by (auto simp: gv_distribute_def result_simps Let_def split: if_splits)

section \<open>Referral\<close>

text \<open>Every claim is split without loss: the referrer's part is the given basis points of the
  amount, rounded down, the miner gets the rest; without a referrer the miner gets everything.\<close>

lemma referral_split_exact:
  assumes "referral_split bps ref amount = Inr (referral, rest)"
  shows "referral + rest = amount \<and> referral = (if ref = None then 0 else amount * bps div DENOMINATOR_BPS)"
  using assms by (cases ref) (auto simp: referral_split_def result_simps)

section \<open>Automation\<close>

text \<open>The packed configuration of an automation reads back what was written, whatever was there
  before: strategy, claim-and-fund flag and pool flag do not disturb each other or the account's
  other fields.\<close>

lemma automation_config_roundtrip:
  "get_strategy (set_is_pooled p (set_claim_and_fund c (set_strategy s a))) = Inr s \<and>
   (get_claim_and_fund (set_is_pooled p (set_claim_and_fund c (set_strategy s a))) \<longleftrightarrow> c) \<and>
   (get_is_pooled (set_is_pooled p (set_claim_and_fund c (set_strategy s a))) \<longleftrightarrow> p) \<and>
   au_balance (set_is_pooled p (set_claim_and_fund c (set_strategy s a))) = au_balance a"
proof -
  have b: "and v 255 = v" if "v = 0 \<or> v = 1" for v :: "64 word" using that by auto
  have k: "and (strategy_code s) 255 = strategy_code s" by (cases s) (simp_all add: strategy_code_def)
  have r: "and x 255 = config_byte x 0" for x by (simp add: config_byte_def)
  have e: "config_byte (au_config (set_is_pooled p (set_claim_and_fund c (set_strategy s a)))) j =
      (if j = 2 then if p then 1 else 0 else if j = 1 then if c then 1 else 0
       else if j = 0 then strategy_code s else config_byte (au_config a) j)" if "j < 8" for j
    using that unfolding set_is_pooled_def set_claim_and_fund_def set_strategy_def
    by (simp add: config_byte_set b k)
  show ?thesis
    using e [of 0] e [of 1] e [of 2]
    by (cases s) (auto simp: get_strategy_def strategy_from_config_def get_claim_and_fund_def get_is_pooled_def
        strategy_code_def set_is_pooled_def set_claim_and_fund_def set_strategy_def r Let_def)
qed

end
