(* ===== verification/Odds.thy ===== *)
theory Odds
  imports Round
begin

text \<open>
  How often the outcomes of a round occur over all \<open>2^64\<close> random numbers
  (\<open>src/api/src/state/round.rs\<close>): counting lemmas for residues of words, and for the
  bit reversal and the bit flips the outcomes are computed with.
\<close>

lemma card_mod_class:
  assumes "j < m"
  shows "card {n. n < N \<and> n mod m = j} = (N + (m - 1) - j) div (m :: nat)"
proof -
  have m: "0 < m" using assms by simp
  have le: "k < (N + (m - 1) - j) div m \<longleftrightarrow> m * k + j < N" for k
  proof -
    have "k < (N + (m - 1) - j) div m \<longleftrightarrow> Suc k * m \<le> N + (m - 1) - j"
      using m by (simp add: Suc_le_eq [symmetric] less_eq_div_iff_mult_less_eq)
    also have "\<dots> \<longleftrightarrow> m * k + j < N" using assms by (auto simp: algebra_simps)
    finally show ?thesis .
  qed
  define K where "K = (N + (m - 1) - j) div m"
  have le: "k < K \<longleftrightarrow> m * k + j < N" for k unfolding K_def by (rule le)
  have "{n. n < N \<and> n mod m = j} = (\<lambda>k. m * k + j) ` {..<K}" (is "?A = ?f ` ?B")
  proof
    show "?A \<subseteq> ?f ` ?B"
    proof
      fix n assume n: "n \<in> ?A"
      then have "n = ?f (n div m)" by auto
      moreover have "n div m \<in> ?B" using n le [of "n div m"] by auto
      ultimately show "n \<in> ?f ` ?B" by blast
    qed
    show "?f ` ?B \<subseteq> ?A"
    proof
      fix n assume "n \<in> ?f ` ?B"
      then obtain k where k: "n = m * k + j" "k < K" by blast
      then have "n < N" by (simp only: le)
      moreover have "n mod m = j" using k(1) assms by simp
      ultimately show "n \<in> ?A" by simp
    qed
  qed
  moreover have "inj_on ?f X" for X using m by (simp add: inj_on_def)
  ultimately show ?thesis by (simp add: card_image K_def)
qed

lemma card_words: "card {g :: 64 word. P (unat g)} = card {n :: nat. n < 2 ^ 64 \<and> P n}"
proof -
  have "unat ` {g :: 64 word. P (unat g)} = {n. n < 2 ^ 64 \<and> P n}"
  proof
    show "unat ` {g :: 64 word. P (unat g)} \<subseteq> {n. n < 2 ^ 64 \<and> P n}"
      using unsigned_less [where ?'a = nat and ?'b = 64] by auto
    show "{n. n < 2 ^ 64 \<and> P n} \<subseteq> unat ` {g :: 64 word. P (unat g)}"
    proof
      fix n assume n: "n \<in> {n. n < 2 ^ 64 \<and> P n}"
      then have "unat (of_nat n :: 64 word) = n" by (simp add: unsigned_of_nat take_bit_nat_eq_self)
      with n show "n \<in> unat ` {g :: 64 word. P (unat g)}"
        by (intro image_eqI [of _ _ "of_nat n"]) simp_all
    qed
  qed
  moreover have "inj_on unat {g :: 64 word. P (unat g)}"
    by (rule inj_onI) (simp add: word_unat_eq_iff)
  ultimately show ?thesis by (metis card_image)
qed

lemma reverse_bits_reverse_bits [simp]: "reverse_bits (reverse_bits g) = g"
  by (rule bit_word_eqI) (simp add: bit_reverse_bits)

lemma card_reverse_bits: "card {g. P (reverse_bits g)} = card {g. P g}"
proof -
  have "{g. P (reverse_bits g)} = reverse_bits ` {g. P g}"
    by (auto intro: image_eqI [of _ _ "reverse_bits _"])
  moreover have "inj_on reverse_bits {g. P g}"
    by (rule inj_on_inverseI [of _ reverse_bits]) simp
  ultimately show ?thesis by (simp add: card_image)
qed

text \<open>Flipping bit 15 flips the split outcome, so both outcomes occur equally often.\<close>

definition flip :: "64 word \<Rightarrow> 64 word" where
  "flip g = flip_bit 15 g"

lemma bit_flip: "i < 64 \<Longrightarrow> bit (flip g) i \<longleftrightarrow> (if i = 15 then \<not> bit g i else bit g i)"
  by (auto simp: flip_def bit_flip_bit_iff)

lemma flip_flip [simp]: "flip (flip g) = g"
  by (rule bit_word_eqI) (simp add: bit_flip)

lemma is_split_reward_flip [simp]: "is_split_reward (flip g) \<longleftrightarrow> \<not> is_split_reward g"
  unfolding is_split_reward_parity by (auto simp: bit_flip)

lemma card_split: "2 * card {g. is_split_reward g} = 2 ^ 64"
proof -
  let ?A = "{g. is_split_reward g}" and ?B = "{g. \<not> is_split_reward g}"
  have "?B = flip ` ?A"
    by (auto intro: image_eqI [of _ _ "flip _"])
  moreover have "inj_on flip ?A"
    by (rule inj_on_inverseI [of _ flip]) simp
  ultimately have c: "card ?B = card ?A" by (simp add: card_image)
  have "card (?A \<union> ?B) = card ?A + card ?B" by (rule card_Un_disjoint) auto
  moreover have "?A \<union> ?B = UNIV" by auto
  moreover have "card (UNIV :: 64 word set) = 2 ^ 64" by (simp add: card_word)
  ultimately show ?thesis using c by simp
qed

lemma card_winning_square:
  assumes "j < 25"
  shows "card {g. winning_square g = j} = (2 ^ 64 + 24 - j) div 25"
  using card_words [of "\<lambda>n. n mod 25 = j"] card_mod_class [OF assms, of "2 ^ 64"]
  by (simp add: winning_square_def)

lemma card_motherlode: "card {g. did_hit_motherlode g} = (2 ^ 64 + 624) div 625"
  using card_reverse_bits [of "\<lambda>g. unat g mod 625 = 0"] card_words [of "\<lambda>n. n mod 625 = 0"]
    card_mod_class [of 0 625 "2 ^ 64"]
  by (simp add: did_hit_motherlode_def)

end
