(* ===== verification/OutcomeProperties.thy ===== *)
theory OutcomeProperties
  imports RoundProperties Odds
begin

text \<open>
  The properties of a round's outcome: the odds of the random number, refunds, minting, the
  vaulted part of the winnings and the automation's squares, each with a concrete instance.
\<close>

section \<open>Odds\<close>

text \<open>C25. Over all \<open>2^64\<close> random numbers the reward is split for exactly half, the motherlode is hit for
  one in 625 (rounded up), and each of the 25 squares wins equally often up to one: the modulus
  favours the squares 0 to 15 by a single number.\<close>

lemma outcome_odds:
  assumes "j < 25"
  shows "2 * card {g. is_split_reward g} = 2 ^ 64 \<and>
    card {g. did_hit_motherlode g} = (2 ^ 64 + 624) div 625 \<and>
    card {g. winning_square g = j} = 2 ^ 64 div 25 + (if j < 16 then 1 else 0)"
proof -
  define q :: nat where "q = 2 ^ 64 div 25"
  have N: "(2 :: nat) ^ 64 = 25 * q + 16" by (simp add: q_def)
  have "(25 * q + 16 + 24 - j) div 25 = q + (if j < 16 then 1 else 0)"
    using assms by auto
  then have "card {g. winning_square g = j} = 2 ^ 64 div 25 + (if j < 16 then 1 else 0)"
    unfolding card_winning_square [OF assms] N by simp
  with card_split card_motherlode show ?thesis by blast
qed

lemma outcome_odds_witness:
  "card {g. winning_square g = 7} = 2 ^ 64 div 25 + 1 \<and> card {g. winning_square g = 20} = 2 ^ 64 div 25"
  using outcome_odds [of 7] outcome_odds [of 20] by simp

section \<open>Refunds\<close>

text \<open>When the round ends without a random number, the checkpoints of all miners together return
  exactly what was deployed, and no GODL.\<close>

lemma refund_exact:
  assumes "round_reachable S" "rng r = None"
    and "\<forall>m\<in>set (rs_miners S). \<exists>r'. miner_rewards H pri (p m) r m w = Inr (sol m, godl m, r')"
  shows "sum_list (map sol (rs_miners S)) = rnd_total_deployed (rs_round S) \<and>
    sum_list (map godl (rs_miners S)) = 0"
proof -
  have e: "sum_u64 (mn_deployed m) = Inr (sol m) \<and> godl m = 0" if "m \<in> set (rs_miners S)" for m
    using assms(2,3) that by (fastforce simp: miner_rewards_def result_simps)
  then have "sum_list (map sol (rs_miners S)) = rnd_total_deployed (rs_round S)"
    by (intro refund_sum [OF tiled_reachable [OF assms(1)]]) simp
  moreover have "sum_list (map godl ms) = 0" if "set ms \<subseteq> set (rs_miners S)" for ms
    using that e by (induction ms) auto
  ultimately show ?thesis by blast
qed

definition demo_refund :: round where
  "demo_refund = (demo_round 3)\<lparr>rnd_slot_hash := replicate 32 255, rnd_total_deployed := 0\<rparr>"

lemma demo_refunds: "miner_rewards H pri p demo_refund (demo_player i) w = Inr (199, 0, demo_refund)"
proof -
  have z: "rng demo_refund = None" by (simp add: rng_def demo_refund_def)
  have "sum_u64 (mn_deployed (demo_player i)) = Inr 199"
    by (simp add: sum_u64_eq_Inr demo_player_def demo_row_sum)
  with z show ?thesis by (simp add: miner_rewards_def) (simp add: demo_refund_def)
qed

lemma refund_of_demo_round:
  "sum_list (map (\<lambda>_. 199) (rs_miners demo_game)) = rnd_total_deployed (rs_round demo_game)"
proof -
  have z: "rng demo_refund = None" by (simp add: rng_def demo_refund_def)
  have "\<forall>m\<in>set (rs_miners demo_game). \<exists>r'. miner_rewards ref_host (acct 1) None demo_refund m undefined = Inr (199, 0, r')"
    by (simp add: demo_game_def demo_refunds)
  from refund_exact [OF demo_game_reachable z, of ref_host "acct 1" "\<lambda>_. None" undefined "\<lambda>_. 199" "\<lambda>_. 0", OF this]
  show ?thesis by simp
qed

section \<open>Minting\<close>

text \<open>The GODL minted for a round never raises the supply above \<open>MAX_SUPPLY\<close>: the block reward
  comes first, the motherlode gets what the cap leaves of its share.\<close>

lemma mint_respects_cap:
  assumes "supply \<le> MAX_SUPPLY" "mint_amounts supply g d = Inr (reward, motherlode, total_mint)"
  shows "supply + total_mint \<le> MAX_SUPPLY \<and> total_mint = reward + motherlode \<and>
    reward = min (MAX_SUPPLY - supply) g \<and> motherlode = min (MAX_SUPPLY - supply - reward) (g div d) \<and> 0 < d"
proof -
  have d: "0 < d"
    using assms(2) by (auto simp: mint_amounts_def result_simps Let_def div64_def split: if_splits)
  from mint_amounts_spec [OF assms(1) d, of g] assms(2) d show ?thesis by auto
qed

lemma mint_at_the_cap:
  "mint_amounts (MAX_SUPPLY - 10) 9 5 = Inr (9, 1, 10) \<and> MAX_SUPPLY - 10 + 10 \<le> MAX_SUPPLY"
proof -
  have m: "mint_amounts (MAX_SUPPLY - 10) 9 5 = Inr (9, 1, 10)"
  proof -
    have s: "MAX_SUPPLY - (MAX_SUPPLY - 10) = 10" by (simp add: amount_consts)
    have "MAX_SUPPLY - 10 \<le> MAX_SUPPLY" by (rule diff_le_self)
    from mint_amounts_spec [OF this, of 5 9] show ?thesis unfolding s by simp
  qed
  have c: "MAX_SUPPLY - 10 \<le> MAX_SUPPLY" by (rule diff_le_self)
  from mint_respects_cap [OF c m] m show ?thesis by blast
qed

text \<open>With a denominator of 0, which \<open>process_set_motherlode_denominator\<close> accepts, every round with
  winners aborts while it computes the mint amounts.\<close>

lemma zero_denominator_aborts:
  "mint_amounts supply g 0 = Inl Panic"
  by (simp add: mint_amounts_def add64_def div64_def saturating_sub_def Let_def)

section \<open>Winnings\<close>

text \<open>The winnings of a reachable round are split without an abort, the sanity check included: the
  losers' SOL less its fee of 1.5 percent goes to one tenth to the vault, the rest to the
  winners.\<close>

lemma winnings_split:
  assumes "round_reachable S" "sum_list (rnd_deployed (rs_round S)) * 150 \<le> u64_max" "sq < 25"
  shows "\<exists>r'. split_winnings (rs_round S) sq = Inr r' \<and>
    rnd_total_vaulted r' + rnd_total_winnings r' =
      (let L = sum_list (rnd_deployed (rs_round S)) - rnd_deployed (rs_round S) ! sq in L - L * 150 div 10000) \<and>
    rnd_total_vaulted r' = (rnd_total_vaulted r' + rnd_total_winnings r') div 10"
proof -
  have t: "tiled S" by (rule tiled_reachable [OF assms(1)])
  then have len: "length (rnd_deployed (rs_round S)) = 25" "sum_list (rnd_deployed (rs_round S)) \<le> u64_max"
    "rnd_total_deployed (rs_round S) = sum_list (rnd_deployed (rs_round S))"
    by (auto simp: tiled_def)
  then obtain r' where r: "split_winnings (rs_round S) sq = Inr r'"
    using split_winnings_total [of "rs_round S" sq] assms(2,3) by auto
  define L where "L = sum_list (rnd_deployed (rs_round S)) - rnd_deployed (rs_round S) ! sq"
  have sq: "sq < length (rnd_deployed (rs_round S))" using len(1) assms(3) by simp
  note e = split_winnings_spec(1,2) [OF r len(2) sq, folded L_def]
  have v: "rnd_total_vaulted r' + rnd_total_winnings r' = L - L * 150 div 10000" using e(2) by linarith
  have "rnd_total_vaulted r' = (rnd_total_vaulted r' + rnd_total_winnings r') div 10"
    unfolding v by (rule e(1))
  with r v show ?thesis unfolding L_def [symmetric] Let_def by blast
qed

lemma winnings_split_witness:
  "\<exists>r'. split_winnings (rs_round demo_game) 3 = Inr r' \<and> rnd_total_vaulted r' + rnd_total_winnings r' = 589 \<and>
     rnd_total_vaulted r' = 58"
proof -
  have d: "rnd_deployed (rs_round demo_game) = demo_row 597" by (simp add: demo_game_def demo_round_def)
  have "demo_row 597 ! 3 = 0" by (simp add: demo_row_def zero_squares_def)
  with winnings_split [OF demo_game_reachable, of 3] obtain r' where r: "split_winnings (rs_round demo_game) 3 = Inr r'"
      "rnd_total_vaulted r' + rnd_total_winnings r' = 589"
      "rnd_total_vaulted r' = (rnd_total_vaulted r' + rnd_total_winnings r') div 10"
    by (auto simp: d demo_row_sum Let_def)
  then have "rnd_total_vaulted r' = 58" by simp
  with r(1,2) show ?thesis by blast
qed

section \<open>Squares\<close>

text \<open>\<open>generate_random_mask\<close> selects exactly the wanted number of the 25 squares, whatever the
  hash bytes, and never aborts.\<close>

lemma random_mask_exact:
  assumes "n \<le> 25" "25 \<le> length r"
  shows "\<exists>m. generate_random_mask n r = Inr m \<and> length m = 25 \<and> length (filter id m) = n"
  using generate_random_mask_spec [OF assms] by (simp add: set_squares_def)

lemma random_mask_exact_witness:
  "\<exists>m. generate_random_mask 6 (replicate 32 17) = Inr m \<and> length m = 25 \<and> length (filter id m) = 6"
  by (rule random_mask_exact) simp_all

text \<open>A square that the loop, standing at square \<open>sq\<close>, has selected and finds free.\<close>

definition selected_free :: "nat \<Rightarrow> bool list \<Rightarrow> 'n miner \<Rightarrow> nat \<Rightarrow> bool" where
  "selected_free sq sqs m j \<longleftrightarrow> sq \<le> j \<and> j - sq < length sqs \<and> sqs ! (j - sq) \<and> mn_deployed m ! j = 0"

lemma selected_free_Cons:
  "selected_free sq (b # rest) m j \<longleftrightarrow> (j = sq \<and> b \<and> mn_deployed m ! sq = 0) \<or> selected_free (Suc sq) rest m j"
proof (cases "Suc sq \<le> j")
  case True
  then have "j - sq = Suc (j - Suc sq)" by simp
  with True show ?thesis by (auto simp: selected_free_def)
qed (auto simp: selected_free_def le_Suc_eq not_le less_Suc_eq_le)

lemma count_squares_0: "count_squares sq sqs m = 0 \<Longrightarrow> j < 25 \<Longrightarrow> \<not> selected_free sq sqs m j"
proof (induction sqs arbitrary: sq)
  case (Cons b rest)
  show ?case
  proof (cases "sq > 24")
    case True
    with Cons.prems(2) show ?thesis by (simp add: selected_free_def)
  next
    case False
    with Cons.prems(1) have "count_squares (Suc sq) rest m = 0" "\<not> (b \<and> mn_deployed m ! sq = 0)"
      by (auto split: if_splits)
    with Cons.IH [OF _ Cons.prems(2)] show ?thesis by (simp add: selected_free_Cons)
  qed
qed (simp add: selected_free_def)

text \<open>What the loop does to one square.\<close>

definition played :: "u64 \<Rightarrow> bool \<Rightarrow> nat \<Rightarrow> 'n deploy_state \<Rightarrow> 'n deploy_state \<Rightarrow> bool" where
  "played amount chosen j ds ds' \<longleftrightarrow>
     (if chosen then placed amount j (ds_miner ds) (ds_round ds) (ds_miner ds') (ds_round ds')
      else untouched j (ds_miner ds) (ds_round ds) (ds_miner ds') (ds_round ds'))"

lemma deploy_loop_squares:
  assumes "deploy_loop pool ip au amount sq sqs ds = Inr ds'" "arrays_ok (ds_miner ds) (ds_round ds)"
    "funded au amount sq sqs ds" "j < 25"
  shows "played amount (selected_free sq sqs (ds_miner ds) j) j ds ds'"
  using assms
proof (induction sqs arbitrary: sq ds)
  case Nil
  then show ?case by (simp add: played_def selected_free_def)
next
  case (Cons b rest)
  show ?case
  proof (cases rule: square_cases [where sq = sq and b = b and n = "mn_deployed (ds_miner ds) ! sq"])
    case stop
    with Cons.prems show ?thesis by (simp add: played_def selected_free_def)
  next
    case over
    note s = deploy_loop_skip [OF Cons.prems(1,3) over]
    from Cons.IH [OF s(1) Cons.prems(2) s(2) Cons.prems(4)] over show ?thesis
      by (auto simp: selected_free_Cons)
  next
    case place
    obtain d where res: "deploy_loop pool ip au amount (sq + 1) rest d = Inr ds' \<or>
        d = ds' \<and> count_squares (sq + 1) rest (ds_miner d) = 0"
      and ps: "place_square amount sq (ds_miner ds) (ds_round ds) = Inr (ds_miner d, ds_round d)"
      and bal: "funded au amount (sq + 1) rest d"
      by (rule deploy_loop_funded [OF Cons.prems(1-3) place])
    have z: "mn_deployed (ds_miner ds) ! sq = 0" and lt: "sq < 25" using place by auto
    note sp = place_square_spec [OF ps Cons.prems(2) lt z]
    have rest: "played amount (selected_free (sq + 1) rest (ds_miner d) j) j d ds'"
      using res Cons.IH [OF _ sp(1) bal Cons.prems(4)] count_squares_0 [OF _ Cons.prems(4)]
      by (auto simp: played_def)
    show ?thesis
    proof (cases "j = sq")
      case True
      with rest have "untouched sq (ds_miner d) (ds_round d) (ds_miner ds') (ds_round ds')"
        by (simp add: played_def selected_free_def)
      with True sp(2) place z show ?thesis
        by (simp add: played_def selected_free_Cons untouched_def placed_def)
    next
      case False
      then have "selected_free (sq + 1) rest (ds_miner d) j = selected_free sq (b # rest) (ds_miner ds) j"
        using sp(3) [OF False] by (simp add: selected_free_Cons) (simp add: selected_free_def untouched_def)
      with rest sp(3) [OF False] show ?thesis
        by (simp add: played_def untouched_def placed_def split: if_splits)
    qed
  qed
qed

text \<open>C26. An automation whose balance passes the check before the loop is never cut short by the early
  exit inside it: on every selected square that was free the miner's deployment becomes the amount,
  the miner's interval starts at the square's old total, and the square's total and count of miners
  grow by the amount and one; every other square is left as it is; the totals of the run are those
  of the squares counted.\<close>

lemma automation_plays_all_squares:
  assumes "deploy_loop pool pooled (Some a) amount 0 squares ds = Inr ds'"
    and "length (mn_deployed (ds_miner ds)) = 25" "length (mn_cumulative (ds_miner ds)) = 25"
      "length (rnd_deployed (ds_round ds)) = 25" "length (rnd_count (ds_round ds)) = 25"
    and "ds_total_amount ds = 0" "ds_total_squares ds = 0"
    and "amount * count_squares 0 squares (ds_miner ds) + au_fee a \<le> au_balance a"
  shows "ds_total_squares ds' = count_squares 0 squares (ds_miner ds) \<and>
    ds_total_amount ds' = amount * count_squares 0 squares (ds_miner ds) \<and>
    (\<forall>j<25. if j < length squares \<and> squares ! j \<and> mn_deployed (ds_miner ds) ! j = 0
      then mn_deployed (ds_miner ds') ! j = amount \<and>
        mn_cumulative (ds_miner ds') ! j = rnd_deployed (ds_round ds) ! j \<and>
        rnd_deployed (ds_round ds') ! j = rnd_deployed (ds_round ds) ! j + amount \<and>
        rnd_count (ds_round ds') ! j = rnd_count (ds_round ds) ! j + 1
      else mn_deployed (ds_miner ds') ! j = mn_deployed (ds_miner ds) ! j \<and>
        mn_cumulative (ds_miner ds') ! j = mn_cumulative (ds_miner ds) ! j \<and>
        rnd_deployed (ds_round ds') ! j = rnd_deployed (ds_round ds) ! j \<and>
        rnd_count (ds_round ds') ! j = rnd_count (ds_round ds) ! j)"
proof -
  have ok: "arrays_ok (ds_miner ds) (ds_round ds)" using assms(2-5) by (simp add: arrays_ok_def)
  have bal: "funded (Some a) amount 0 squares ds" using assms(6,8) by (simp add: funded_def)
  have sq: "if j < length squares \<and> squares ! j \<and> mn_deployed (ds_miner ds) ! j = 0
      then placed amount j (ds_miner ds) (ds_round ds) (ds_miner ds') (ds_round ds')
      else untouched j (ds_miner ds) (ds_round ds) (ds_miner ds') (ds_round ds')" if "j < 25" for j
    using deploy_loop_squares [OF assms(1) ok bal that] by (simp add: played_def selected_free_def)
  show ?thesis
  proof (intro conjI allI impI)
    fix j :: nat assume "j < 25"
    from sq [OF this] show "if j < length squares \<and> squares ! j \<and> mn_deployed (ds_miner ds) ! j = 0
      then mn_deployed (ds_miner ds') ! j = amount \<and>
        mn_cumulative (ds_miner ds') ! j = rnd_deployed (ds_round ds) ! j \<and>
        rnd_deployed (ds_round ds') ! j = rnd_deployed (ds_round ds) ! j + amount \<and>
        rnd_count (ds_round ds') ! j = rnd_count (ds_round ds) ! j + 1
      else mn_deployed (ds_miner ds') ! j = mn_deployed (ds_miner ds) ! j \<and>
        mn_cumulative (ds_miner ds') ! j = mn_cumulative (ds_miner ds) ! j \<and>
        rnd_deployed (ds_round ds') ! j = rnd_deployed (ds_round ds) ! j \<and>
        rnd_count (ds_round ds') ! j = rnd_count (ds_round ds) ! j"
      by (simp only: placed_def untouched_def split: if_splits) simp_all
  qed (use deploy_loop_all [OF assms(1) ok bal] assms(6,7) in simp_all)
qed

lemma automation_plays_all_squares_witness:
  "\<exists>ds'. deploy_loop (\<lambda>_ _ _ _. Inl Panic) False
      (Some \<lparr>au_amount = 199, au_authority = 101, au_balance = 204, au_executor = 7, au_fee = 5, au_config = 1, au_mask = 1\<rparr>)
      199 0 [True, False]
      \<lparr>ds_miner = new_miner fx_ops 101, ds_round = demo_round 0, ds_pool_round = undefined, ds_total_amount = 0,
       ds_total_squares = 0, ds_world = undefined :: int world\<rparr> = Inr ds' \<and> ds_total_amount ds' = 199 \<and>
      mn_deployed (ds_miner ds') ! 0 = 199 \<and> mn_deployed (ds_miner ds') ! 1 = 0"
proof -
  let ?a = "\<lparr>au_amount = 199, au_authority = 101, au_balance = 204, au_executor = 7, au_fee = 5, au_config = 1, au_mask = 1\<rparr>"
  let ?ds = "\<lparr>ds_miner = new_miner fx_ops 101, ds_round = demo_round 0, ds_pool_round = undefined, ds_total_amount = 0,
       ds_total_squares = 0, ds_world = undefined :: int world\<rparr>"
  have n: "mn_deployed (new_miner fx_ops 101) = demo_row 0" "mn_cumulative (new_miner fx_ops 101) = demo_row 0"
    "rnd_deployed (demo_round 0) = demo_row 0" "rnd_count (demo_round 0) = demo_row 0"
    by (simp_all add: new_miner_def demo_row_0 demo_round_def)
  obtain ds' where d: "deploy_loop (\<lambda>_ _ _ _. Inl Panic) False (Some ?a) 199 0 [True, False] ?ds = Inr ds'"
    by (simp add: place_square_def add64_def Let_def n) (simp add: demo_round_def)
  have c: "count_squares 0 [True, False] (ds_miner ?ds) = 1" by (simp add: n)
  have z: "demo_row 0 ! 0 = 0" "demo_row 0 ! 1 = 0" by (simp_all add: demo_row_def zero_squares_def)
  from automation_plays_all_squares [OF d] c have p: "ds_total_amount ds' = 199"
    "\<forall>j<25. if j < length [True, False] \<and> [True, False] ! j \<and> demo_row 0 ! j = 0
      then mn_deployed (ds_miner ds') ! j = 199 else mn_deployed (ds_miner ds') ! j = demo_row 0 ! j"
    by (simp_all add: n split: if_splits)
  from p(2) [rule_format, of 0] p(2) [rule_format, of 1] p(1) d z show ?thesis by auto
qed

end
