(* ===== verification/Otc.thy ===== *)
theory Otc
  imports Automation StakeV2Handlers
begin

text \<open>The OTC desk: the handlers of \<open>src/program/src/otc\<close>.\<close>

section \<open>The desk\<close>

definition process_initialize_otc_treasury :: "'n host \<Rightarrow> account_info list \<Rightarrow> 'n world \<Rightarrow> 'n world result" where
  "process_initialize_otc_treasury H accounts w =
     (case accounts of [signer_info, mint_info, otc_treasury_info, otc_treasury_tokens_info, system_program,
         token_program, associated_token_program] \<Rightarrow>
       and_then (checks H w ([(signer_info, IsSigner), (signer_info, HasAddress OTC_ORACLE_SIGNER),
         (mint_info, HasAddress MINT_ADDRESS), (mint_info, AsMint), (otc_treasury_info, IsEmpty),
         (otc_treasury_info, IsWritable), (otc_treasury_info, HasSeeds [OTC_TREASURY]),
         (otc_treasury_tokens_info, IsWritable)]
         @ token_programs system_program token_program associated_token_program)) (\<lambda>_.
       and_then (create_program_account H KOtcTreasury otc_treasury_info system_program signer_info [OTC_TREASURY] w) (\<lambda>w.
       and_then (as_otc_treasury_mut H otc_treasury_info w) (\<lambda>_.
       let w = put otc_treasury_info (AOtcTreasury \<lparr>ot_sol_balance = 0, ot_godl_balance = 0,
         ot_buffer = zero_bytes 32\<rparr>) w in
       open_token_account H signer_info otc_treasury_info otc_treasury_tokens_info mint_info w)))
     | _ \<Rightarrow> Inl NotEnoughAccountKeys)"

definition process_fund_godl_otc :: "'n host \<Rightarrow> account_info list \<Rightarrow> u64 \<Rightarrow> 'n world \<Rightarrow> 'n world result" where
  "process_fund_godl_otc H accounts amount w =
     (case accounts of [signer_info, mint_info, signer_tokens_info, otc_treasury_info, otc_treasury_tokens_info,
         token_program] \<Rightarrow>
       and_then (checks H w [(signer_info, IsSigner), (mint_info, HasAddress MINT_ADDRESS), (mint_info, AsMint),
         (signer_tokens_info, IsWritable)]) (\<lambda>_.
       and_then (as_associated_token_account (ai_key signer_info) MINT_ADDRESS H signer_tokens_info w) (\<lambda>_.
       and_then (checks H w [(otc_treasury_info, IsWritable), (otc_treasury_info, HasSeeds [OTC_TREASURY])]) (\<lambda>_.
       and_then (as_otc_treasury_mut H otc_treasury_info w) (\<lambda>otc_treasury.
       and_then (checks H w [(otc_treasury_tokens_info, IsWritable)]) (\<lambda>_.
       and_then (as_associated_token_account (ai_key otc_treasury_info) MINT_ADDRESS H otc_treasury_tokens_info w) (\<lambda>_.
       and_then (checks H w [(token_program, IsProgram TokenProgram)]) (\<lambda>_.
       and_then (guard (amount \<noteq> 0) (Godl AmountTooSmall)) (\<lambda>_.
       and_then (transfer H signer_info signer_tokens_info otc_treasury_tokens_info amount w) (\<lambda>w.
       and_then (ok_or (checked_add (ot_godl_balance otc_treasury) amount) ArithmeticOverflow) (\<lambda>balance.
       Inr (put otc_treasury_info (AOtcTreasury (otc_treasury\<lparr>ot_godl_balance := balance\<rparr>)) w)))))))))))
     | _ \<Rightarrow> Inl NotEnoughAccountKeys)"

definition process_withdraw_sol_otc :: "'n host \<Rightarrow> account_info list \<Rightarrow> 'n world \<Rightarrow> 'n world result" where
  "process_withdraw_sol_otc H accounts w =
     (case accounts of [signer_info, otc_treasury_info, chest_info, system_program] \<Rightarrow>
       and_then (checks H w [(signer_info, IsSigner), (otc_treasury_info, IsWritable),
         (otc_treasury_info, HasSeeds [OTC_TREASURY])]) (\<lambda>_.
       and_then (as_otc_treasury_mut H otc_treasury_info w) (\<lambda>otc_treasury.
       and_then (checks H w [(chest_info, IsWritable), (chest_info, HasAddress CHEST_ADDRESS),
         (system_program, IsProgram SystemProgram)]) (\<lambda>_.
       let amount = ot_sol_balance otc_treasury in
       if amount = 0 then Inr w
       else
         let w = put otc_treasury_info (AOtcTreasury (otc_treasury\<lparr>ot_sol_balance := 0\<rparr>)) w in
         send H otc_treasury_info amount chest_info w)))
     | _ \<Rightarrow> Inl NotEnoughAccountKeys)"

section \<open>Trades\<close>

text \<open>The desk's ledger entry of a trade: it must cover stake and bonus.\<close>

definition otc_book_trade :: "u64 \<Rightarrow> u64 \<Rightarrow> otc_treasury \<Rightarrow> otc_treasury result" where
  "otc_book_trade sol_in required t =
     and_then (guard (\<not> ot_godl_balance t < required) (Godl InsufficientOtcGodlBalance)) (\<lambda>_.
     and_then (ok_or (checked_add (ot_sol_balance t) sol_in) ArithmeticOverflow) (\<lambda>sol.
     and_then (ok_or (checked_sub (ot_godl_balance t) required) (Godl InsufficientOtcGodlBalance)) (\<lambda>godl.
     Inr (t\<lparr>ot_sol_balance := sol, ot_godl_balance := godl\<rparr>))))"

definition otc_user_totals :: "u64 \<Rightarrow> u64 \<Rightarrow> u64 \<Rightarrow> otc_user \<Rightarrow> otc_user result" where
  "otc_user_totals sol_in godl_out godl_bonus u =
     and_then (ok_or (checked_add (ou_total_sol_in u) sol_in) ArithmeticOverflow) (\<lambda>a.
     and_then (ok_or (checked_add (ou_total_godl_out u) godl_out) ArithmeticOverflow) (\<lambda>b.
     and_then (ok_or (checked_add (ou_total_godl_bonus u) godl_bonus) ArithmeticOverflow) (\<lambda>c.
     Inr (u\<lparr>ou_total_sol_in := a, ou_total_godl_out := b, ou_total_godl_bonus := c\<rparr>))))"

definition open_otc_user :: "'n host \<Rightarrow> account_info \<Rightarrow> account_info \<Rightarrow> account_info \<Rightarrow> 'n world \<Rightarrow> (otc_user \<times> 'n world) result" where
  "open_otc_user H otc_user_info system_program buyer_info w =
     (if data_is_empty otc_user_info w then
        and_then (create_program_account H KOtcUser otc_user_info system_program buyer_info
                    [OTC_USER, SKey (ai_key buyer_info)] w) (\<lambda>w.
        and_then (as_otc_user_mut H otc_user_info w) (\<lambda>_.
        let u = \<lparr>ou_authority = ai_key buyer_info, ou_total_sol_in = 0, ou_total_godl_out = 0,
              ou_total_godl_bonus = 0, ou_buffer = zero_bytes 32\<rparr> in
        Inr (u, put otc_user_info (AOtcUser u) w)))
      else
        and_then (as_otc_user_mut H otc_user_info w) (\<lambda>u.
        and_then (ensure H (ou_authority u = ai_key buyer_info)) (\<lambda>_. Inr (u, w))))"

text \<open>The validation of \<open>process_execute_otc_trade\<close> up to the desk's ledger: returns the desk's
  GODL token account, the gold vault and the total GODL the trade needs.\<close>

definition otc_validate :: "'n host \<Rightarrow> account_info list \<Rightarrow> u64 \<Rightarrow> u64 \<Rightarrow> u64 \<Rightarrow> u64 \<Rightarrow> u64 \<Rightarrow> i64 \<Rightarrow> 'n world
    \<Rightarrow> (token_account \<times> 'n gold_vault \<times> u64) result" where
  "otc_validate H accounts stake_id sol_in godl_out godl_bonus expiry_slot lock_duration w =
     (case accounts of [buyer_info, oracle_info, mint_info, miner_info, otc_user_info, otc_treasury_info,
         otc_treasury_tokens_info, treasury_info, treasury_tokens_info, stake_info, stake_tokens_info,
         system_program, token_program, associated_token_program, gold_vault_info, miner_extended_info] \<Rightarrow>
       let buyer = ai_key buyer_info in
       and_then (checks H w [(buyer_info, IsSigner), (oracle_info, IsSigner),
         (oracle_info, HasAddress OTC_ORACLE_SIGNER), (mint_info, HasAddress MINT_ADDRESS), (mint_info, AsMint),
         (miner_info, IsWritable), (miner_info, HasSeeds [MINER, SKey buyer]),
         (otc_user_info, IsWritable), (otc_user_info, HasSeeds [OTC_USER, SKey buyer]),
         (otc_treasury_info, IsWritable), (otc_treasury_info, HasSeeds [OTC_TREASURY]),
         (otc_treasury_tokens_info, IsWritable)]) (\<lambda>_.
       and_then (as_associated_token_account (ai_key otc_treasury_info) MINT_ADDRESS H otc_treasury_tokens_info w) (\<lambda>otc_tokens.
       and_then (checks H w [(treasury_info, IsWritable), (treasury_info, HasSeeds [TREASURY]),
         (treasury_tokens_info, IsWritable)]) (\<lambda>_.
       and_then (as_associated_token_account (ai_key treasury_info) MINT_ADDRESS H treasury_tokens_info w) (\<lambda>_.
       and_then (checks H w ([(stake_info, IsWritable), (stake_info, HasSeeds [STAKE_V2, SKey buyer, SNum stake_id]),
         (stake_tokens_info, IsWritable)] @ token_programs system_program token_program associated_token_program
         @ [(gold_vault_info, HasSeeds [GOLD_VAULT])])) (\<lambda>_.
       and_then (as_gold_vault H gold_vault_info w) (\<lambda>gold_vault.
       and_then (checks H w [(miner_extended_info, HasSeeds [MINER_EXTENDED, SKey buyer])]) (\<lambda>_.
       and_then (guard (\<not> w_slot w > expiry_slot) (Godl OtcQuoteExpired)) (\<lambda>_.
       and_then (guard (\<not> (sol_in = 0 \<or> godl_out = 0)) (Godl AmountTooSmall)) (\<lambda>_.
       and_then (guard (\<not> (lock_duration < ONE_MONTH \<or> lock_duration > MAX_LOCK_DURATION)) (Godl InvalidLockDuration)) (\<lambda>_.
       and_then (guard (data_is_empty stake_info w) (Godl StakeAlreadyExists)) (\<lambda>_.
       and_then (ok_or (checked_add godl_out godl_bonus) ArithmeticOverflow) (\<lambda>required.
       and_then (guard (\<not> tk_amount otc_tokens < required) (Godl InsufficientOtcGodlBalance)) (\<lambda>_.
       Inr (otc_tokens, gold_vault, required))))))))))))))
     | _ \<Rightarrow> Inl NotEnoughAccountKeys)"

text \<open>The bonus leg mirrors \<open>process_inject_unrefined_rewards\<close>.\<close>

definition otc_bonus :: "'n host \<Rightarrow> account_info \<Rightarrow> account_info \<Rightarrow> account_info \<Rightarrow> account_info \<Rightarrow> account_info
    \<Rightarrow> account_info \<Rightarrow> 'n gold_vault \<Rightarrow> u64 \<Rightarrow> 'n treasury \<Rightarrow> 'n miner \<Rightarrow> 'n world
    \<Rightarrow> ('n miner \<times> 'n treasury \<times> 'n world) result" where
  "otc_bonus H buyer_info otc_treasury_info otc_treasury_tokens_info treasury_tokens_info miner_extended_info
       system_program gold_vault godl_bonus treasury miner w =
     (if godl_bonus > 0 then
        and_then (transfer_signed H otc_treasury_info otc_treasury_tokens_info treasury_tokens_info godl_bonus
                    [OTC_TREASURY] w) (\<lambda>w.
        and_then (load_or_create_miner_extended H miner_extended_info gold_vault (ai_key buyer_info) buyer_info
                    system_program True w) (\<lambda>(extended, w).
        and_then (mn_update_rewards (h_num H) treasury miner) (\<lambda>miner.
        and_then (sync_gold H miner_extended_info extended gold_vault miner w) (\<lambda>w.
        and_then (credit_unrefined ArithmeticOverflow godl_bonus treasury miner) (\<lambda>(miner, treasury).
        Inr (miner, treasury, w))))))
      else Inr (miner, treasury, w))"

definition process_execute_otc_trade :: "'n host \<Rightarrow> account_info list \<Rightarrow> u64 \<Rightarrow> u64 \<Rightarrow> u64 \<Rightarrow> u64 \<Rightarrow> u64 \<Rightarrow> i64
    \<Rightarrow> 'n world \<Rightarrow> 'n world result" where
  "process_execute_otc_trade H accounts stake_id sol_in godl_out godl_bonus expiry_slot lock_duration w =
     and_then (otc_validate H accounts stake_id sol_in godl_out godl_bonus expiry_slot lock_duration w)
       (\<lambda>(otc_tokens, gold_vault, required).
     case accounts of [buyer_info, oracle_info, mint_info, miner_info, otc_user_info, otc_treasury_info,
         otc_treasury_tokens_info, treasury_info, treasury_tokens_info, stake_info, stake_tokens_info,
         system_program, token_program, associated_token_program, gold_vault_info, miner_extended_info] \<Rightarrow>
       let now = w_unix_timestamp w; buyer = ai_key buyer_info in
       and_then (as_otc_treasury_mut H otc_treasury_info w) (\<lambda>otc_treasury.
       and_then (otc_book_trade sol_in required otc_treasury) (\<lambda>otc_treasury.
       let w = put otc_treasury_info (AOtcTreasury otc_treasury) w in
       and_then (collect H otc_treasury_info sol_in buyer_info w) (\<lambda>w.
       and_then (open_miner H miner_info system_program buyer_info buyer (h_assert_error H) w) (\<lambda>(miner, w).
       and_then (open_otc_user H otc_user_info system_program buyer_info w) (\<lambda>(otc_user, w).
       and_then (create_program_account H KStakeV2 stake_info system_program buyer_info
                   [STAKE_V2, SKey buyer, SNum stake_id] w) (\<lambda>w.
       and_then (as_treasury_mut H treasury_info w) (\<lambda>treasury.
       and_then (as_stake_v2_mut H stake_info w) (\<lambda>_.
       let stake = new_stake_v2 stake_id buyer buyer lock_duration now treasury in
       and_then (sv_update_rewards (h_num H) treasury stake) (\<lambda>stake.
       let w = put stake_info (AStakeV2 stake) w in
       and_then (open_token_account H buyer_info stake_info stake_tokens_info mint_info w) (\<lambda>w.
       and_then (sv_deposit (h_num H) godl_out now treasury (tk_amount otc_tokens) stake) (\<lambda>(stake, treasury, deposited).
       and_then (guard (deposited = godl_out) (Godl InsufficientOtcGodlBalance)) (\<lambda>_.
       let w = put treasury_info (ATreasury treasury) (put stake_info (AStakeV2 stake) w) in
       and_then (transfer_signed H otc_treasury_info otc_treasury_tokens_info stake_tokens_info deposited
                   [OTC_TREASURY] w) (\<lambda>w.
       and_then (otc_bonus H buyer_info otc_treasury_info otc_treasury_tokens_info treasury_tokens_info
                   miner_extended_info system_program gold_vault godl_bonus treasury miner w) (\<lambda>(miner, treasury, w).
       and_then (otc_user_totals sol_in godl_out godl_bonus otc_user) (\<lambda>otc_user.
       let w = put otc_user_info (AOtcUser otc_user)
                 (put treasury_info (ATreasury treasury) (put miner_info (AMiner miner) w)) in
       and_then (as_associated_token_account (ai_key stake_info) (ai_key mint_info) H stake_tokens_info w) (\<lambda>stake_tokens.
       and_then (as_stake_v2 H stake_info w) (\<lambda>stake.
       and_then (assert_panic (tk_amount stake_tokens \<ge> sv_balance stake)) (\<lambda>_.
       Inr w))))))))))))))))))
     | _ \<Rightarrow> Inl NotEnoughAccountKeys)"

end
