(* ===== verification/Dispatch.thy ===== *)
theory Dispatch
  imports Rounds Deploy Otc Referral StakeV2Handlers
begin

text \<open>
  The instructions of the program (\<open>GodlInstruction\<close> of \<open>src/api/src/instruction.rs\<close>) with
  their decoded arguments, their tags, and the dispatcher \<open>process_instruction\<close>
  (\<open>src/program/src/lib.rs\<close>). Parsing the tag and casting the argument bytes is \<open>steel\<close> and
  \<open>bytemuck\<close> code; an instruction is its decoded form.
\<close>

datatype (plugins only:) godl_instruction =
  Initialize pubkey pubkey pubkey u64
| ClaimSOL | ClaimGODL | InjectUnrefinedRewards u64 | Log
| Deposit "byte list" | Withdraw u64 | ClaimYield u64
| Bury "byte list" | PreBury u64 u64 u64 | SetAdmin pubkey | SetFeeCollector pubkey | SetSwapProgram
| SetVarAddress | NewVar u64 "byte list" u64 | SetMotherlodeDenominator u64 | SetGodlPerRound u64
| WithdrawVault u64
| InitializeReferrer | SetReferrer pubkey | ClaimReferral
| ClaimSOLAndFundAutomation | FundAutomation u64 | BuryTokens u64 | InitializeSolMotherlode
| Deploy u64 "32 word" nat | Checkpoint | Reset | Close
| Automate u64 u64 u64 "64 word" "64 word" nat nat
| DepositV2 u64 u64 i64 | WithdrawV2 u64 u64 | ClaimYieldV2 u64 u64 | CompoundYieldV2 u64
| SetStakeExecutorV2 u64 pubkey | ReconcileStakeV2
| InjectGodlMotherlode u64 | StakeNft u64 | UnstakeNft u64
| InitializeOtcTreasury | FundGodlOtc u64 | ExecuteOtcTrade u64 u64 u64 u64 u64 i64 | WithdrawSolOtc
| ResetPermissionless | TransferMintAuthority
| MigrateStakeWeight | RebaseTotalStaked u64 u64
| CloseStakeV2 u64 | ClosePhantomStakeV2 | TopUpStakeV2 u64 u64 | MergeStakeV2 u64 u64
| InitializeGoldVault | CreateMinerExtended | BuyGold u64 "byte list" | DepositGold u64 | ClaimGold
| RebaseTotalUnclaimed u64 u64 | CheckpointWithMinerExtended | PreBuyGold u64
| DeployWithMinerExtended u64 "32 word" nat | UpdateProtocolConfig u64 u64

primrec instruction_tag :: "godl_instruction \<Rightarrow> nat" where
  "instruction_tag (Initialize _ _ _ _) = 1"
| "instruction_tag ClaimSOL = 3"
| "instruction_tag ClaimGODL = 4"
| "instruction_tag (InjectUnrefinedRewards _) = 41"
| "instruction_tag Log = 8"
| "instruction_tag (Deposit _) = 10"
| "instruction_tag (Withdraw _) = 11"
| "instruction_tag (ClaimYield _) = 12"
| "instruction_tag (Bury _) = 13"
| "instruction_tag (PreBury _ _ _) = 14"
| "instruction_tag (SetAdmin _) = 15"
| "instruction_tag (SetFeeCollector _) = 16"
| "instruction_tag SetSwapProgram = 17"
| "instruction_tag SetVarAddress = 18"
| "instruction_tag (NewVar _ _ _) = 19"
| "instruction_tag (SetMotherlodeDenominator _) = 20"
| "instruction_tag (SetGodlPerRound _) = 21"
| "instruction_tag (WithdrawVault _) = 25"
| "instruction_tag InitializeReferrer = 22"
| "instruction_tag (SetReferrer _) = 23"
| "instruction_tag ClaimReferral = 24"
| "instruction_tag ClaimSOLAndFundAutomation = 27"
| "instruction_tag (FundAutomation _) = 29"
| "instruction_tag (BuryTokens _) = 30"
| "instruction_tag InitializeSolMotherlode = 32"
| "instruction_tag (Deploy _ _ _) = 33"
| "instruction_tag Checkpoint = 34"
| "instruction_tag Reset = 35"
| "instruction_tag Close = 36"
| "instruction_tag (Automate _ _ _ _ _ _ _) = 37"
| "instruction_tag (DepositV2 _ _ _) = 38"
| "instruction_tag (WithdrawV2 _ _) = 39"
| "instruction_tag (ClaimYieldV2 _ _) = 40"
| "instruction_tag (CompoundYieldV2 _) = 42"
| "instruction_tag (SetStakeExecutorV2 _ _) = 43"
| "instruction_tag ReconcileStakeV2 = 53"
| "instruction_tag (InjectGodlMotherlode _) = 44"
| "instruction_tag (StakeNft _) = 45"
| "instruction_tag (UnstakeNft _) = 46"
| "instruction_tag InitializeOtcTreasury = 47"
| "instruction_tag (FundGodlOtc _) = 48"
| "instruction_tag (ExecuteOtcTrade _ _ _ _ _ _) = 49"
| "instruction_tag WithdrawSolOtc = 50"
| "instruction_tag ResetPermissionless = 51"
| "instruction_tag TransferMintAuthority = 52"
| "instruction_tag MigrateStakeWeight = 54"
| "instruction_tag (RebaseTotalStaked _ _) = 55"
| "instruction_tag (CloseStakeV2 _) = 56"
| "instruction_tag ClosePhantomStakeV2 = 57"
| "instruction_tag (TopUpStakeV2 _ _) = 58"
| "instruction_tag (MergeStakeV2 _ _) = 59"
| "instruction_tag InitializeGoldVault = 60"
| "instruction_tag CreateMinerExtended = 61"
| "instruction_tag (BuyGold _ _) = 62"
| "instruction_tag (DepositGold _) = 63"
| "instruction_tag ClaimGold = 64"
| "instruction_tag (RebaseTotalUnclaimed _ _) = 65"
| "instruction_tag CheckpointWithMinerExtended = 66"
| "instruction_tag (PreBuyGold _) = 67"
| "instruction_tag (DeployWithMinerExtended _ _ _) = 68"
| "instruction_tag (UpdateProtocolConfig _ _) = 69"

text \<open>\<open>data_len\<close> is \<open>AccountInfo::data_len\<close>, which only \<open>process_update_protocol_config\<close>
  reads.\<close>

definition process_instruction :: "'n host \<Rightarrow> (account_info \<Rightarrow> 'n world \<Rightarrow> nat) \<Rightarrow> account_info list \<Rightarrow> godl_instruction
    \<Rightarrow> 'n world \<Rightarrow> 'n world result" where
  "process_instruction H data_len accounts ix w = (case ix of
     Initialize admin bury_authority fee_collector godl_per_round \<Rightarrow>
       process_initialize H accounts admin bury_authority fee_collector godl_per_round w
   | Automate amount deposit fee mask_arg strategy claim_and_fund is_pooled \<Rightarrow>
       process_automate H accounts amount deposit fee mask_arg strategy claim_and_fund is_pooled w
   | Checkpoint \<Rightarrow> process_checkpoint H accounts w
   | CheckpointWithMinerExtended \<Rightarrow> process_checkpoint_with_miner_extended H accounts w
   | ClaimSOL \<Rightarrow> process_claim_sol H accounts w
   | ClaimSOLAndFundAutomation \<Rightarrow> process_claim_sol_and_fund_automation H accounts w
   | FundAutomation deposit \<Rightarrow> process_fund_automation H accounts deposit w
   | ClaimGODL \<Rightarrow> process_claim_godl H accounts w
   | InjectUnrefinedRewards amount \<Rightarrow> process_inject_unrefined_rewards H accounts amount w
   | InitializeReferrer \<Rightarrow> process_initialize_referrer H accounts w
   | SetReferrer ref \<Rightarrow> process_set_referrer H accounts ref w
   | ClaimReferral \<Rightarrow> process_claim_referral H accounts w
   | Deploy amount squares is_pooled \<Rightarrow> process_deploy H accounts amount (ucast squares) is_pooled w
   | DeployWithMinerExtended amount squares is_pooled \<Rightarrow>
       process_deploy_with_miner_extended H accounts amount (ucast squares) is_pooled w
   | Log \<Rightarrow> process_log H accounts w
   | Close \<Rightarrow> process_close H accounts w
   | Reset \<Rightarrow> process_reset H accounts w
   | ResetPermissionless \<Rightarrow> process_reset_permissionless H accounts w
   | Deposit data \<Rightarrow> process_deposit H accounts data w
   | Withdraw amount \<Rightarrow> process_withdraw H accounts amount w
   | ClaimYield amount \<Rightarrow> process_claim_yield H accounts amount w
   | DepositV2 sid amount lock_duration \<Rightarrow> process_deposit_v2 H accounts sid amount lock_duration w
   | WithdrawV2 sid amount \<Rightarrow> process_withdraw_v2 H accounts sid amount w
   | ClaimYieldV2 sid amount \<Rightarrow> process_claim_yield_v2 H accounts sid amount w
   | CompoundYieldV2 sid \<Rightarrow> process_compound_yield_v2 H accounts sid w
   | SetStakeExecutorV2 sid executor \<Rightarrow> process_set_stake_executor_v2 H accounts sid executor w
   | ReconcileStakeV2 \<Rightarrow> process_reconcile_stake_v2 H accounts w
   | MigrateStakeWeight \<Rightarrow> process_migrate_stake_weight H accounts w
   | CloseStakeV2 sid \<Rightarrow> process_close_stake_v2 H accounts sid w
   | ClosePhantomStakeV2 \<Rightarrow> process_close_phantom_stake_v2 H accounts w
   | TopUpStakeV2 sid amount \<Rightarrow> process_top_up_stake_v2 H accounts sid amount w
   | MergeStakeV2 target_id source_id \<Rightarrow> process_merge_stake_v2 H accounts target_id source_id w
   | StakeNft sid \<Rightarrow> process_stake_nft H accounts sid w
   | UnstakeNft sid \<Rightarrow> process_unstake_nft H accounts sid w
   | Bury data \<Rightarrow> process_bury H accounts data w
   | BuryTokens amount \<Rightarrow> process_bury_tokens H accounts amount w
   | PreBury bury_amount chest_amount admin_amount \<Rightarrow>
       process_pre_bury H accounts bury_amount chest_amount admin_amount w
   | SetAdmin admin \<Rightarrow> process_set_admin H accounts admin w
   | SetFeeCollector fee_collector \<Rightarrow> process_set_fee_collector H accounts fee_collector w
   | SetSwapProgram \<Rightarrow> process_set_swap_program H accounts w
   | SetVarAddress \<Rightarrow> process_set_var_address H accounts w
   | NewVar vid commit samples \<Rightarrow> process_new_var H accounts vid commit samples w
   | SetMotherlodeDenominator d \<Rightarrow> process_set_motherlode_denominator H accounts d w
   | SetGodlPerRound g \<Rightarrow> process_set_godl_per_round H accounts g w
   | UpdateProtocolConfig round_slots intermission_slots \<Rightarrow>
       process_update_protocol_config H data_len accounts round_slots intermission_slots w
   | WithdrawVault amount \<Rightarrow> process_withdraw_vault H accounts amount w
   | InitializeSolMotherlode \<Rightarrow> process_initialize_sol_motherlode H accounts w
   | InjectGodlMotherlode amount \<Rightarrow> process_inject_godl_motherlode H accounts amount w
   | RebaseTotalStaked expected new_value \<Rightarrow> process_rebase_total_staked H accounts expected new_value w
   | RebaseTotalUnclaimed expected new_value \<Rightarrow> process_rebase_total_unclaimed H accounts expected new_value w
   | InitializeGoldVault \<Rightarrow> process_initialize_gold_vault H accounts w
   | CreateMinerExtended \<Rightarrow> process_create_miner_extended H accounts w
   | PreBuyGold amount \<Rightarrow> process_pre_buy_gold H accounts amount w
   | BuyGold min_xaut_out data \<Rightarrow> process_buy_gold H accounts min_xaut_out data w
   | DepositGold amount \<Rightarrow> process_deposit_gold H accounts amount w
   | ClaimGold \<Rightarrow> process_claim_gold H accounts w
   | InitializeOtcTreasury \<Rightarrow> process_initialize_otc_treasury H accounts w
   | FundGodlOtc amount \<Rightarrow> process_fund_godl_otc H accounts amount w
   | ExecuteOtcTrade stake_id sol_in godl_out godl_bonus expiry_slot lock_duration \<Rightarrow>
       process_execute_otc_trade H accounts stake_id sol_in godl_out godl_bonus expiry_slot lock_duration w
   | WithdrawSolOtc \<Rightarrow> process_withdraw_sol_otc H accounts w
   | TransferMintAuthority \<Rightarrow> process_transfer_mint_authority H accounts w)"

end
