(* ===== verification/Wire.thy ===== *)
theory Wire
  imports Dispatch
begin

text \<open>
  Instructions as bytes. The argument structs of \<open>src/api/src/instruction.rs\<close> are \<open>repr(C)\<close> structs
  of byte arrays, so a struct is its fields one after another; the SDK writes each integer with
  \<open>to_le_bytes\<close> and each handler starts by reading its struct back. The tag byte and the size check
  of the cast are \<open>steel\<close> and \<open>bytemuck\<close> code (\<open>wire\<close>, with the laws of \<open>codec\<close>).
\<close>

section \<open>Numbers and addresses\<close>

definition le_bytes :: "nat \<Rightarrow> nat \<Rightarrow> byte list" where
  "le_bytes k n = map (\<lambda>i. of_nat (n div 256 ^ i)) [0..<k]"

definition nat_of_le :: "byte list \<Rightarrow> nat" where
  "nat_of_le bs = foldr (\<lambda>b acc. unat b + 256 * acc) bs 0"

lemma length_le_bytes [simp]: "length (le_bytes k n) = k"
  by (simp add: le_bytes_def)

lemma nat_of_le_simps [simp]: "nat_of_le [] = 0" "nat_of_le (b # bs) = unat b + 256 * nat_of_le bs"
  by (simp_all add: nat_of_le_def)

lemma le_bytes_Suc: "le_bytes (Suc k) n = of_nat n # le_bytes k (n div 256)"
  by (simp add: le_bytes_def upt_conv_Cons map_Suc_upt [symmetric] div_mult2_eq del: upt_Suc map_Suc_upt)

lemma nat_of_le_le_bytes: "nat_of_le (le_bytes k n) = n mod 256 ^ k"
proof (induction k arbitrary: n)
  case 0
  then show ?case by (simp add: le_bytes_def)
next
  case (Suc k)
  have "unat (of_nat n :: byte) = n mod 256" by (simp add: unsigned_of_nat take_bit_nat_def)
  moreover have "n mod 256 + 256 * (n div 256 mod 256 ^ k) = n mod (256 * 256 ^ k)"
    by (simp add: mod_mult2_eq)
  ultimately show ?case by (simp add: le_bytes_Suc Suc.IH)
qed

lemma nat_of_le_id [simp]: "n < 256 ^ k \<Longrightarrow> nat_of_le (le_bytes k n) = n"
  by (simp add: nat_of_le_le_bytes)

text \<open>\<open>u64::to_le_bytes\<close>\<close>

definition u64_to_le :: "u64 \<Rightarrow> byte list" where
  "u64_to_le n = le_bytes 8 n"

lemma length_u64_to_le [simp]: "length (u64_to_le n) = 8"
  by (simp add: u64_to_le_def)

lemma nat_of_u64_to_le [simp]: "n \<le> u64_max \<Longrightarrow> nat_of_le (u64_to_le n) = n"
  by (simp add: u64_to_le_def)

text \<open>\<open>i64::to_le_bytes\<close>, two's complement; an address is its 32 bytes, the first one the highest.\<close>

definition i64_to_le :: "i64 \<Rightarrow> byte list" where
  "i64_to_le i = le_bytes 8 (nat (i mod 2 ^ 64))"

definition i64_of_le :: "byte list \<Rightarrow> i64" where
  "i64_of_le bs = (let n = int (nat_of_le bs) in if n < 2 ^ 63 then n else n - 2 ^ 64)"

definition key_bytes :: "pubkey \<Rightarrow> byte list" where
  "key_bytes k = rev (le_bytes 32 k)"

definition key_of :: "byte list \<Rightarrow> pubkey" where
  "key_of bs = nat_of_le (rev bs)"

lemma length_key_bytes [simp]: "length (key_bytes k) = 32"
  by (simp add: key_bytes_def)

lemma key_of_bytes [simp]: "k < 256 ^ 32 \<Longrightarrow> key_of (key_bytes k) = k"
  by (simp add: key_of_def key_bytes_def)

lemma length_i64_to_le [simp]: "length (i64_to_le i) = 8"
  by (simp add: i64_to_le_def)

lemma i64_of_to_le [simp]:
  assumes "- (2 ^ 63) \<le> i" "i < 2 ^ 63"
  shows "i64_of_le (i64_to_le i) = i"
proof -
  have "nat_of_le (i64_to_le i) = nat (i mod 2 ^ 64)"
    by (simp add: i64_to_le_def nat_of_le_le_bytes)
  moreover have "i mod 2 ^ 64 = (if i < 0 then i + 2 ^ 64 else i)"
  proof (cases "i < 0")
    case True
    then have "(i + 2 ^ 64) mod 2 ^ 64 = i + 2 ^ 64" using assms by (intro mod_pos_pos_trivial) simp_all
    with True show ?thesis by simp
  qed (use assms in simp)
  ultimately show ?thesis using assms by (simp add: i64_of_le_def Let_def)
qed

section \<open>Structs\<close>

text \<open>Splitting a struct's bytes into its fields.\<close>

fun split_fields :: "nat list \<Rightarrow> byte list \<Rightarrow> byte list list" where
  "split_fields [] bs = []"
| "split_fields (n # ns) bs = take n bs # split_fields ns (drop n bs)"

lemma split_fields_concat: "split_fields (map length fs) (concat fs) = fs"
  by (induction fs) simp_all

text \<open>The field sizes of each struct, in the order of the file, with the tag its \<open>instruction!\<close> line
  gives it. A struct that is not listed (\<open>Mine\<close>, \<open>Swap\<close>, \<open>Uncommit\<close>) has no tag.\<close>

definition structs_game :: "(nat \<times> nat list) list" where
  "structs_game =
     [(37, [8, 8, 8, 8, 1, 1, 1]), (1, [32, 32, 32, 8]), (3, []), (27, []), (29, [8]), (4, []), (41, [8]),
      (33, [8, 4, 1]), (8, []), (35, []), (51, []), (22, []), (23, [32]), (24, [])]"

definition structs_admin_stake :: "(nat \<times> nat list) list" where
  "structs_admin_stake =
     [(15, [32]), (16, [32]), (21, [8]), (69, [8, 8]), (14, [8, 8, 8]), (13, []), (30, [8]),
      (10, [8]), (11, [8]), (12, [8]), (38, [8, 8, 8]), (39, [8, 8]), (40, [8, 8]), (42, [8]), (43, [8, 32]),
      (53, []), (34, []), (36, []), (19, [8, 32, 8]), (20, [8]), (17, []), (18, []), (25, [8]), (32, []),
      (44, [8]), (45, [8]), (46, [8])]"

definition structs_otc_gold :: "(nat \<times> nat list) list" where
  "structs_otc_gold =
     [(47, []), (48, [8]), (49, [8, 8, 8, 8, 8, 8]), (50, []), (52, []), (54, []), (55, [8, 8]), (56, [8]), (57, []),
      (58, [8, 8]), (59, [8, 8]), (60, []), (61, []), (62, [8]), (67, [8]), (68, [8, 4, 1]), (63, [8]), (64, []),
      (66, []), (65, [8, 8])]"

definition fields_of_tag :: "nat \<Rightarrow> nat list" where
  "fields_of_tag t = (case map_of (structs_game @ structs_admin_stake @ structs_otc_gold) t of
     Some ns \<Rightarrow> ns | None \<Rightarrow> [])"

text \<open>\<open>size_of\<close> of the struct\<close>

definition args_len :: "nat \<Rightarrow> nat" where
  "args_len t = sum_list (fields_of_tag t)"

section \<open>Writing\<close>

text \<open>The fields the SDK fills in, and the bytes it appends (\<open>Bury\<close> and \<open>BuyGold\<close> carry the swap's
  instruction data).\<close>

definition arg_fields :: "godl_instruction \<Rightarrow> byte list list" where
  "arg_fields ix = (case ix of
     Initialize admin bury_authority fee_collector godl_per_round \<Rightarrow>
       [key_bytes admin, key_bytes bury_authority, key_bytes fee_collector, u64_to_le godl_per_round]
   | Automate amount deposit fee mask_arg strategy claim_and_fund is_pooled \<Rightarrow>
       [u64_to_le amount, u64_to_le deposit, u64_to_le fee, u64_to_le (unat mask_arg), [ucast strategy],
        [of_nat claim_and_fund], [of_nat is_pooled]]
   | FundAutomation n \<Rightarrow> [u64_to_le n] | InjectUnrefinedRewards n \<Rightarrow> [u64_to_le n]
   | SetReferrer k \<Rightarrow> [key_bytes k]
   | Deploy amount squares is_pooled \<Rightarrow> [u64_to_le amount, le_bytes 4 (unat squares), [of_nat is_pooled]]
   | DeployWithMinerExtended amount squares is_pooled \<Rightarrow>
       [u64_to_le amount, le_bytes 4 (unat squares), [of_nat is_pooled]]
   | Deposit data \<Rightarrow> [data] | Withdraw n \<Rightarrow> [u64_to_le n] | ClaimYield n \<Rightarrow> [u64_to_le n]
   | DepositV2 sid amount lock_duration \<Rightarrow> [u64_to_le sid, u64_to_le amount, i64_to_le lock_duration]
   | WithdrawV2 sid amount \<Rightarrow> [u64_to_le sid, u64_to_le amount]
   | ClaimYieldV2 sid amount \<Rightarrow> [u64_to_le sid, u64_to_le amount]
   | CompoundYieldV2 sid \<Rightarrow> [u64_to_le sid]
   | SetStakeExecutorV2 sid executor \<Rightarrow> [u64_to_le sid, key_bytes executor]
   | CloseStakeV2 sid \<Rightarrow> [u64_to_le sid] | StakeNft sid \<Rightarrow> [u64_to_le sid] | UnstakeNft sid \<Rightarrow> [u64_to_le sid]
   | TopUpStakeV2 sid amount \<Rightarrow> [u64_to_le sid, u64_to_le amount]
   | MergeStakeV2 target_id source_id \<Rightarrow> [u64_to_le target_id, u64_to_le source_id]
   | BuryTokens n \<Rightarrow> [u64_to_le n]
   | PreBury bury_amount chest_amount admin_amount \<Rightarrow>
       [u64_to_le bury_amount, u64_to_le chest_amount, u64_to_le admin_amount]
   | SetAdmin k \<Rightarrow> [key_bytes k] | SetFeeCollector k \<Rightarrow> [key_bytes k]
   | NewVar vid commit samples \<Rightarrow> [u64_to_le vid, commit, u64_to_le samples]
   | SetMotherlodeDenominator n \<Rightarrow> [u64_to_le n] | SetGodlPerRound n \<Rightarrow> [u64_to_le n]
   | UpdateProtocolConfig round_slots intermission_slots \<Rightarrow> [u64_to_le round_slots, u64_to_le intermission_slots]
   | WithdrawVault n \<Rightarrow> [u64_to_le n] | InjectGodlMotherlode n \<Rightarrow> [u64_to_le n]
   | RebaseTotalStaked expected new_value \<Rightarrow> [u64_to_le expected, u64_to_le new_value]
   | RebaseTotalUnclaimed expected new_value \<Rightarrow> [u64_to_le expected, u64_to_le new_value]
   | PreBuyGold n \<Rightarrow> [u64_to_le n] | BuyGold n data \<Rightarrow> [u64_to_le n] | DepositGold n \<Rightarrow> [u64_to_le n]
   | FundGodlOtc n \<Rightarrow> [u64_to_le n]
   | ExecuteOtcTrade stake_id sol_in godl_out godl_bonus expiry_slot lock_duration \<Rightarrow>
       [u64_to_le stake_id, u64_to_le sol_in, u64_to_le godl_out, u64_to_le godl_bonus, u64_to_le expiry_slot,
        i64_to_le lock_duration]
   | _ \<Rightarrow> [])"

definition extra_data :: "godl_instruction \<Rightarrow> byte list" where
  "extra_data ix = (case ix of Bury data \<Rightarrow> data | BuyGold _ data \<Rightarrow> data | _ \<Rightarrow> [])"

record wire =
  w_join :: "nat \<Rightarrow> byte list \<Rightarrow> byte list"
  w_split :: "(nat \<Rightarrow> bool) \<Rightarrow> byte list \<Rightarrow> (nat \<times> byte list) result"
  w_cast :: "nat \<Rightarrow> byte list \<Rightarrow> byte list result"

definition instruction_bytes :: "wire \<Rightarrow> godl_instruction \<Rightarrow> byte list" where
  "instruction_bytes W ix = w_join W (instruction_tag ix) (concat (arg_fields ix)) @ extra_data ix"

section \<open>Reading\<close>

text \<open>\<open>GodlInstruction::try_from\<close>\<close>

definition is_tag :: "nat \<Rightarrow> bool" where
  "is_tag t \<longleftrightarrow> t \<in> set [1, 3, 4, 41, 8, 10, 11, 12, 13, 14, 15, 16, 17, 18, 19, 20, 21, 25, 22, 23, 24, 27, 29, 30,
     32, 33, 34, 35, 36, 37, 38, 39, 40, 42, 43, 53, 44, 45, 46, 47, 48, 49, 50, 51, 52, 54, 55, 56, 57, 58, 59, 60,
     61, 62, 63, 64, 65, 66, 67, 68, 69]"

definition read_args :: "wire \<Rightarrow> nat \<Rightarrow> byte list \<Rightarrow> (byte list list \<Rightarrow> godl_instruction) \<Rightarrow> godl_instruction result" where
  "read_args W t data f =
     and_then (w_cast W (args_len t) data) (\<lambda>bs. Inr (f (split_fields (fields_of_tag t) bs)))"

text \<open>What the handler of each tag reads first; the handlers of the first lines ignore their data.\<close>

definition parse_args :: "wire \<Rightarrow> nat \<Rightarrow> byte list \<Rightarrow> godl_instruction result" where
  "parse_args W t data =
     (let rd = read_args W t data; u = (\<lambda>a i. nat_of_le (a ! i)); k = (\<lambda>a i. key_of (a ! i)) in
      case map_of
       [(3, Inr ClaimSOL), (4, Inr ClaimGODL), (8, Inr Log), (10, Inr (Deposit data)), (13, Inr (Bury data)),
        (17, Inr SetSwapProgram), (18, Inr SetVarAddress), (22, Inr InitializeReferrer), (24, Inr ClaimReferral),
        (27, Inr ClaimSOLAndFundAutomation), (32, Inr InitializeSolMotherlode), (34, Inr Checkpoint),
        (35, Inr Reset), (36, Inr Close), (47, Inr InitializeOtcTreasury), (50, Inr WithdrawSolOtc),
        (51, Inr ResetPermissionless), (52, Inr TransferMintAuthority), (60, Inr InitializeGoldVault),
        (61, Inr CreateMinerExtended), (64, Inr ClaimGold), (66, Inr CheckpointWithMinerExtended),
        (1, rd (\<lambda>a. Initialize (k a 0) (k a 1) (k a 2) (u a 3))),
        (37, rd (\<lambda>a. Automate (u a 0) (u a 1) (u a 2) (of_nat (u a 3)) (of_nat (u a 4)) (u a 5) (u a 6))),
        (29, rd (\<lambda>a. FundAutomation (u a 0))), (41, rd (\<lambda>a. InjectUnrefinedRewards (u a 0))),
        (33, rd (\<lambda>a. Deploy (u a 0) (of_nat (u a 1)) (u a 2))), (23, rd (\<lambda>a. SetReferrer (k a 0))),
        (15, rd (\<lambda>a. SetAdmin (k a 0))), (16, rd (\<lambda>a. SetFeeCollector (k a 0))),
        (21, rd (\<lambda>a. SetGodlPerRound (u a 0))), (69, rd (\<lambda>a. UpdateProtocolConfig (u a 0) (u a 1))),
        (14, rd (\<lambda>a. PreBury (u a 0) (u a 1) (u a 2))), (30, rd (\<lambda>a. BuryTokens (u a 0))),
        (11, rd (\<lambda>a. Withdraw (u a 0))), (12, rd (\<lambda>a. ClaimYield (u a 0))),
        (38, rd (\<lambda>a. DepositV2 (u a 0) (u a 1) (i64_of_le (a ! 2)))), (39, rd (\<lambda>a. WithdrawV2 (u a 0) (u a 1))),
        (40, rd (\<lambda>a. ClaimYieldV2 (u a 0) (u a 1))), (42, rd (\<lambda>a. CompoundYieldV2 (u a 0))),
        (43, rd (\<lambda>a. SetStakeExecutorV2 (u a 0) (k a 1))), (53, rd (\<lambda>a. ReconcileStakeV2)),
        (19, rd (\<lambda>a. NewVar (u a 0) (a ! 1) (u a 2))), (20, rd (\<lambda>a. SetMotherlodeDenominator (u a 0))),
        (25, rd (\<lambda>a. WithdrawVault (u a 0))), (44, rd (\<lambda>a. InjectGodlMotherlode (u a 0))),
        (45, rd (\<lambda>a. StakeNft (u a 0))), (46, rd (\<lambda>a. UnstakeNft (u a 0))), (48, rd (\<lambda>a. FundGodlOtc (u a 0))),
        (49, rd (\<lambda>a. ExecuteOtcTrade (u a 0) (u a 1) (u a 2) (u a 3) (u a 4) (i64_of_le (a ! 5)))),
        (54, rd (\<lambda>a. MigrateStakeWeight)), (55, rd (\<lambda>a. RebaseTotalStaked (u a 0) (u a 1))),
        (56, rd (\<lambda>a. CloseStakeV2 (u a 0))), (57, rd (\<lambda>a. ClosePhantomStakeV2)),
        (58, rd (\<lambda>a. TopUpStakeV2 (u a 0) (u a 1))), (59, rd (\<lambda>a. MergeStakeV2 (u a 0) (u a 1))),
        (62, if length data < args_len t then Inl InvalidInstructionData
             else read_args W t (take (args_len t) data) (\<lambda>a. BuyGold (u a 0) (drop (args_len t) data))),
        (67, rd (\<lambda>a. PreBuyGold (u a 0))), (68, rd (\<lambda>a. DeployWithMinerExtended (u a 0) (of_nat (u a 1)) (u a 2))),
        (63, rd (\<lambda>a. DepositGold (u a 0))), (65, rd (\<lambda>a. RebaseTotalUnclaimed (u a 0) (u a 1)))] t
      of Some r \<Rightarrow> r | None \<Rightarrow> Inl InvalidInstructionData)"

text \<open>The program's entry point: tag, arguments, handler.\<close>

definition process_data :: "wire \<Rightarrow> 'n host \<Rightarrow> (account_info \<Rightarrow> 'n world \<Rightarrow> nat) \<Rightarrow> account_info list \<Rightarrow> byte list
    \<Rightarrow> 'n world \<Rightarrow> 'n world result" where
  "process_data W H data_len accounts data w =
     and_then (w_split W is_tag data) (\<lambda>(t, args).
     and_then (parse_args W t args) (\<lambda>ix. process_instruction H data_len accounts ix w))"

section \<open>Reading back\<close>

locale codec =
  fixes W :: wire
  assumes split_join: "valid t \<Longrightarrow> t < 256 \<Longrightarrow> w_split W valid (w_join W t bs @ extra) = Inr (t, bs @ extra)"
    and cast_size: "length bs = n \<Longrightarrow> w_cast W n bs = Inr bs"
    and cast_other: "length bs \<noteq> n \<Longrightarrow> \<exists>e. w_cast W n bs = Inl e"
begin

lemma read_args_fields:
  assumes "map length fs = fields_of_tag t"
  shows "read_args W t (concat fs) f = Inr (f fs)"
proof -
  have "length (concat fs) = args_len t" by (simp add: length_concat args_len_def assms)
  moreover have "split_fields (fields_of_tag t) (concat fs) = fs"
    by (simp only: assms [symmetric] split_fields_concat)
  ultimately show ?thesis by (simp add: read_args_def cast_size)
qed

lemma read_args_size:
  assumes "length data \<noteq> args_len t"
  shows "\<exists>e. read_args W t data f = Inl e"
  using cast_other [OF assms] by (auto simp: read_args_def)

end

definition ref_wire :: wire where
  "ref_wire = \<lparr>w_join = (\<lambda>t bs. of_nat t # bs),
     w_split = (\<lambda>valid data. case data of [] \<Rightarrow> Inl InvalidInstructionData
       | b # bs \<Rightarrow> if valid (unat b) then Inr (unat b, bs) else Inl InvalidInstructionData),
     w_cast = (\<lambda>n bs. if length bs = n then Inr bs else Inl InvalidInstructionData)\<rparr>"

interpretation ref_codec: codec ref_wire
  by unfold_locales (simp_all add: ref_wire_def unsigned_of_nat take_bit_nat_eq_self)

text \<open>Arguments in range: every field fits its byte array.\<close>

definition is_u64 :: "nat \<Rightarrow> bool" where "is_u64 n \<longleftrightarrow> n \<le> u64_max"
definition is_i64 :: "int \<Rightarrow> bool" where "is_i64 i \<longleftrightarrow> - (2 ^ 63) \<le> i \<and> i < 2 ^ 63"
definition is_key :: "pubkey \<Rightarrow> bool" where "is_key k \<longleftrightarrow> k < 256 ^ 32"
definition is_u8 :: "nat \<Rightarrow> bool" where "is_u8 n \<longleftrightarrow> n < 256"

definition in_range :: "godl_instruction \<Rightarrow> bool" where
  "in_range ix = (case ix of
     Initialize admin bury_authority fee_collector n \<Rightarrow> is_key admin \<and> is_key bury_authority \<and> is_key fee_collector \<and> is_u64 n
   | Automate amount deposit fee _ strategy claim_and_fund is_pooled \<Rightarrow>
       is_u64 amount \<and> is_u64 deposit \<and> is_u64 fee \<and> is_u8 (unat strategy) \<and> is_u8 claim_and_fund \<and> is_u8 is_pooled
   | FundAutomation n \<Rightarrow> is_u64 n | InjectUnrefinedRewards n \<Rightarrow> is_u64 n | SetReferrer k \<Rightarrow> is_key k
   | Deploy amount _ is_pooled \<Rightarrow> is_u64 amount \<and> is_u8 is_pooled
   | DeployWithMinerExtended amount _ is_pooled \<Rightarrow> is_u64 amount \<and> is_u8 is_pooled
   | Deposit data \<Rightarrow> length data = 8 | Withdraw n \<Rightarrow> is_u64 n | ClaimYield n \<Rightarrow> is_u64 n
   | DepositV2 sid amount lock \<Rightarrow> is_u64 sid \<and> is_u64 amount \<and> is_i64 lock
   | WithdrawV2 sid amount \<Rightarrow> is_u64 sid \<and> is_u64 amount | ClaimYieldV2 sid amount \<Rightarrow> is_u64 sid \<and> is_u64 amount
   | CompoundYieldV2 sid \<Rightarrow> is_u64 sid | SetStakeExecutorV2 sid k \<Rightarrow> is_u64 sid \<and> is_key k
   | CloseStakeV2 sid \<Rightarrow> is_u64 sid | StakeNft sid \<Rightarrow> is_u64 sid | UnstakeNft sid \<Rightarrow> is_u64 sid
   | TopUpStakeV2 sid amount \<Rightarrow> is_u64 sid \<and> is_u64 amount | MergeStakeV2 a b \<Rightarrow> is_u64 a \<and> is_u64 b
   | BuryTokens n \<Rightarrow> is_u64 n | PreBury a b c \<Rightarrow> is_u64 a \<and> is_u64 b \<and> is_u64 c
   | SetAdmin k \<Rightarrow> is_key k | SetFeeCollector k \<Rightarrow> is_key k
   | NewVar vid commit samples \<Rightarrow> is_u64 vid \<and> length commit = 32 \<and> is_u64 samples
   | SetMotherlodeDenominator n \<Rightarrow> is_u64 n | SetGodlPerRound n \<Rightarrow> is_u64 n
   | UpdateProtocolConfig a b \<Rightarrow> is_u64 a \<and> is_u64 b | WithdrawVault n \<Rightarrow> is_u64 n | InjectGodlMotherlode n \<Rightarrow> is_u64 n
   | RebaseTotalStaked a b \<Rightarrow> is_u64 a \<and> is_u64 b | RebaseTotalUnclaimed a b \<Rightarrow> is_u64 a \<and> is_u64 b
   | PreBuyGold n \<Rightarrow> is_u64 n | BuyGold n _ \<Rightarrow> is_u64 n | DepositGold n \<Rightarrow> is_u64 n | FundGodlOtc n \<Rightarrow> is_u64 n
   | ExecuteOtcTrade a b c d e lock \<Rightarrow> is_u64 a \<and> is_u64 b \<and> is_u64 c \<and> is_u64 d \<and> is_u64 e \<and> is_i64 lock
   | _ \<Rightarrow> True)"

lemma fields_back [simp]:
  "is_u64 n \<Longrightarrow> nat_of_le (u64_to_le n) = n" "is_key k \<Longrightarrow> key_of (key_bytes k) = k"
  "is_i64 i \<Longrightarrow> i64_of_le (i64_to_le i) = i" "is_u8 m \<Longrightarrow> unat (of_nat m :: byte) = m"
  by (simp_all add: is_u64_def is_key_def is_i64_def is_u8_def unsigned_of_nat take_bit_nat_eq_self)

lemma word_fields_back [simp]:
  "of_nat (nat_of_le (u64_to_le (unat (w :: 64 word)))) = w" "of_nat (nat_of_le (le_bytes 4 (unat (v :: 32 word)))) = v"
  "is_u8 (unat w) \<Longrightarrow> ucast (ucast w :: byte) = w"
proof -
  have "unat w < 2 ^ LENGTH(64)" "unat v < 2 ^ LENGTH(32)" by (rule unsigned_less)+
  then have "unat w < 256 ^ 8" "unat v < 256 ^ 4" by simp_all
  then show "of_nat (nat_of_le (u64_to_le (unat w))) = w" "of_nat (nat_of_le (le_bytes 4 (unat v))) = v"
    by (simp_all only: u64_to_le_def nat_of_le_id) simp_all
  show "is_u8 (unat w) \<Longrightarrow> ucast (ucast w :: byte) = w"
    by (rule word_unat_eq_iff [THEN iffD2]) (simp add: is_u8_def unsigned_ucast_eq unsigned_take_bit_eq take_bit_nat_eq_self)
qed

lemma arg_fields_sizes: "in_range ix \<Longrightarrow> map length (arg_fields ix) = fields_of_tag (instruction_tag ix)"
  by (cases ix) (simp_all add: in_range_def arg_fields_def fields_of_tag_def structs_game_def
      structs_admin_stake_def structs_otc_gold_def)

lemma is_tag_instruction: "is_tag (instruction_tag ix)" "instruction_tag ix < 256"
  by (cases ix; simp add: is_tag_def)+

lemma parse_back:
  assumes "codec W" "in_range ix"
  shows "parse_args W (instruction_tag ix) (concat (arg_fields ix) @ extra_data ix) = Inr ix"
proof -
  have rd: "read_args W (instruction_tag ix) (concat (arg_fields ix)) f = Inr (f (arg_fields ix))" for f
    by (rule codec.read_args_fields [OF assms(1) arg_fields_sizes [OF assms(2)]])
  have "length (concat (arg_fields ix)) = args_len (instruction_tag ix)"
    by (simp add: length_concat args_len_def arg_fields_sizes [OF assms(2)])
  note rd = rd this
  show ?thesis
    using rd assms(2) by (cases ix) (simp_all add: parse_args_def arg_fields_def extra_data_def in_range_def)
qed

section \<open>The program on bytes\<close>

text \<open>C29. Every instruction the client encodes is run by the program as itself: the tag and each field of
  the argument struct are read back at the offsets at which they were written, for all 61
  instructions.\<close>

lemma instruction_roundtrip:
  assumes "codec W" "in_range ix"
  shows "process_data W H data_len accounts (instruction_bytes W ix) w = process_instruction H data_len accounts ix w"
  using codec.split_join [OF assms(1), of is_tag "instruction_tag ix"] is_tag_instruction [of ix] parse_back [OF assms]
  by (simp add: process_data_def instruction_bytes_def)

lemma instruction_roundtrip_witness:
  "\<forall>H data_len accounts w. process_data ref_wire H data_len accounts
     [33, 0, 202, 154, 59, 0, 0, 0, 0, 5, 0, 0, 0, 1] w = process_instruction H data_len accounts (Deploy 1000000000 5 1) w"
proof (intro allI)
  fix H and data_len and accounts and w
  have "instruction_bytes ref_wire (Deploy 1000000000 5 1) = [33, 0, 202, 154, 59, 0, 0, 0, 0, 5, 0, 0, 0, 1]"
    by (simp add: instruction_bytes_def ref_wire_def arg_fields_def extra_data_def u64_to_le_def le_bytes_def upt_rec)
  with instruction_roundtrip [OF ref_codec.codec_axioms, of "Deploy 1000000000 5 1" H data_len accounts w]
  show "process_data ref_wire H data_len accounts
     [33, 0, 202, 154, 59, 0, 0, 0, 0, 5, 0, 0, 0, 1] w = process_instruction H data_len accounts (Deploy 1000000000 5 1) w"
    by (simp add: in_range_def is_u64_def is_u8_def)
qed

text \<open>A handler that reads arguments accepts no other number of bytes than its struct has: anything
  shorter or longer is refused before the handler looks at an account (\<open>BuyGold\<close> refuses only
  shorter data, the rest being the swap's).\<close>

lemma malformed_arguments_refused:
  assumes "codec W"
    and "t \<in> set [1, 37, 29, 41, 33, 23, 15, 16, 21, 69, 14, 30, 11, 12, 38, 39, 40, 42, 43, 53, 19, 20, 25, 44, 45, 46, 48,
           49, 54, 55, 56, 57, 58, 59, 67, 68, 63, 65] \<and> length args \<noteq> args_len t \<or> t = 62 \<and> length args < args_len t"
  shows "\<exists>e. parse_args W t args = Inl e"
proof -
  have size: "\<exists>e. read_args W t args f = Inl e" if "length args \<noteq> args_len t" for f t
    by (rule codec.read_args_size [OF assms(1) that])
  from assms(2) show ?thesis
    by (simp only: list.set insert_iff empty_iff simp_thms, elim disjE conjE)
      (simp_all add: parse_args_def size)
qed

lemma malformed_deploy_refused: "\<exists>e. parse_args ref_wire 33 (replicate 12 0) = Inl e"
  by (rule malformed_arguments_refused [OF ref_codec.codec_axioms])
    (simp add: args_len_def fields_of_tag_def structs_game_def)

end
