(* ===== verification/Sdk.thy ===== *)
theory Sdk
  imports Wire
begin

text \<open>
  The instruction builders of \<open>src/api/src/sdk.rs\<close> and the address functions of
  \<open>src/api/src/state/mod.rs\<close>: which accounts a client passes, in which order and with which flags,
  and the arguments it encodes. Addresses of programs and of other programs' accounts are
  parameters (\<open>client\<close>); an instruction's data is its decoded form, as in \<open>Dispatch\<close>.
\<close>

record client =
  cl_program :: "program \<Rightarrow> pubkey"
  cl_slot_hashes :: pubkey
  cl_var_pda :: "pubkey \<Rightarrow> u64 \<Rightarrow> pubkey"

record instruction =
  ix_program_id :: pubkey
  ix_accounts :: "account_meta list"
  ix_data :: godl_instruction

definition meta_new :: "pubkey \<Rightarrow> bool \<Rightarrow> account_meta" where
  "meta_new k signer = \<lparr>am_pubkey = k, am_is_signer = signer, am_is_writable = True\<rparr>"

definition meta_readonly :: "pubkey \<Rightarrow> bool \<Rightarrow> account_meta" where
  "meta_readonly k signer = \<lparr>am_pubkey = k, am_is_signer = signer, am_is_writable = False\<rparr>"

definition instr :: "client \<Rightarrow> account_meta list \<Rightarrow> godl_instruction \<Rightarrow> instruction" where
  "instr E accounts data = \<lparr>ix_program_id = cl_program E GodlProgram, ix_accounts = accounts, ix_data = data\<rparr>"

section \<open>Addresses\<close>

definition automation_v2_pda :: "'n host \<Rightarrow> pubkey \<Rightarrow> pubkey" where
  "automation_v2_pda H authority = h_pda H [AUTOMATION_V2, SKey authority]"

definition board_pda :: "'n host \<Rightarrow> pubkey" where
  "board_pda H = h_pda H [BOARD]"

definition config_pda :: "'n host \<Rightarrow> pubkey" where
  "config_pda H = h_pda H [CONFIG]"

definition miner_pda :: "'n host \<Rightarrow> pubkey \<Rightarrow> pubkey" where
  "miner_pda H authority = h_pda H [MINER, SKey authority]"

definition referrer_pda :: "'n host \<Rightarrow> pubkey \<Rightarrow> pubkey" where
  "referrer_pda H authority = h_pda H [REFERRER, SKey authority]"

definition round_pda :: "'n host \<Rightarrow> u64 \<Rightarrow> pubkey" where
  "round_pda H i = h_pda H [ROUND, SNum i]"

definition pool_round_pda :: "'n host \<Rightarrow> u64 \<Rightarrow> pubkey" where
  "pool_round_pda H i = h_pda H [POOL_ROUND, SNum i]"

definition stake_pda :: "'n host \<Rightarrow> pubkey \<Rightarrow> pubkey" where
  "stake_pda H authority = h_pda H [STAKE, SKey authority]"

definition pool_member_pda :: "'n host \<Rightarrow> pubkey \<Rightarrow> pubkey" where
  "pool_member_pda H authority = h_pda H [POOL_MEMBER, SKey authority]"

definition treasury_pda :: "'n host \<Rightarrow> pubkey" where
  "treasury_pda H = h_pda H [TREASURY]"

definition sol_motherlode_pda :: "'n host \<Rightarrow> pubkey" where
  "sol_motherlode_pda H = h_pda H [SOL_MOTHERLODE]"

definition treasury_tokens_address :: "'n host \<Rightarrow> pubkey \<Rightarrow> pubkey" where
  "treasury_tokens_address H treasury_address = h_ata H treasury_address MINT_ADDRESS"

definition otc_treasury_pda :: "'n host \<Rightarrow> pubkey" where
  "otc_treasury_pda H = h_pda H [OTC_TREASURY]"

definition otc_treasury_tokens_address :: "'n host \<Rightarrow> pubkey" where
  "otc_treasury_tokens_address H = h_ata H (otc_treasury_pda H) MINT_ADDRESS"

definition otc_user_pda :: "'n host \<Rightarrow> pubkey \<Rightarrow> pubkey" where
  "otc_user_pda H authority = h_pda H [OTC_USER, SKey authority]"

definition gold_vault_pda :: "'n host \<Rightarrow> pubkey" where
  "gold_vault_pda H = h_pda H [GOLD_VAULT]"

definition gold_vault_sol_address :: "'n host \<Rightarrow> pubkey" where
  "gold_vault_sol_address H = h_ata H (gold_vault_pda H) SOL_MINT"

definition gold_vault_xaut_address :: "'n host \<Rightarrow> pubkey" where
  "gold_vault_xaut_address H = h_ata H (gold_vault_pda H) XAUT_MINT"

definition miner_extended_pda :: "'n host \<Rightarrow> pubkey \<Rightarrow> pubkey" where
  "miner_extended_pda H authority = h_pda H [MINER_EXTENDED, SKey authority]"

section \<open>Arguments\<close>

unbundle bit_operations_syntax

text \<open>The bit mask the deploy builders compute from the 25 flags.\<close>

definition mask_of_squares :: "bool list \<Rightarrow> 32 word" where
  "mask_of_squares squares =
     foldl (\<lambda>m i. if squares ! i then m OR push_bit i 1 else m) 0 [0..<length squares]"

section \<open>Builders\<close>

definition log_ix :: "client \<Rightarrow> pubkey \<Rightarrow> instruction" where
  "log_ix E signer = instr E [meta_new signer True] Log"

definition initialize :: "'n host \<Rightarrow> client \<Rightarrow> pubkey \<Rightarrow> pubkey \<Rightarrow> pubkey \<Rightarrow> pubkey \<Rightarrow> u64 \<Rightarrow> instruction" where
  "initialize H E signer admin bury_authority fee_collector godl_per_round =
     (let config_address = config_pda H;
          treasury_address = treasury_pda H;
          board_address = board_pda H;
          round_address = round_pda H 0
      in instr E
           [meta_new signer True,
            meta_new config_address False,
            meta_new treasury_address False,
            meta_new board_address False,
            meta_new round_address False,
            meta_readonly (cl_program E SystemProgram) False]
           (Initialize admin bury_authority fee_collector godl_per_round))"

definition automate :: "'n host \<Rightarrow> client \<Rightarrow> pubkey \<Rightarrow> u64 \<Rightarrow> u64 \<Rightarrow> pubkey \<Rightarrow> u64 \<Rightarrow> 64 word \<Rightarrow> 8 word \<Rightarrow> bool \<Rightarrow> bool
    \<Rightarrow> instruction" where
  "automate H E signer amount deposit executor fee mask_arg strategy claim_and_fund is_pooled =
     (let automation_v2_address = automation_v2_pda H signer;
          miner_address = miner_pda H signer;
          pool_member_address = pool_member_pda H signer
      in instr E
           [meta_new signer True,
            meta_new automation_v2_address False,
            meta_new executor False,
            meta_new miner_address False,
            meta_new pool_member_address False,
            meta_readonly (cl_program E SystemProgram) False]
           (Automate amount deposit fee mask_arg (ucast strategy) (of_bool claim_and_fund) (of_bool is_pooled)))"

definition fund_automation :: "'n host \<Rightarrow> client \<Rightarrow> pubkey \<Rightarrow> u64 \<Rightarrow> instruction" where
  "fund_automation H E signer amount =
     (let automation_v2_address = automation_v2_pda H signer
      in instr E
           [meta_new signer True,
            meta_new automation_v2_address False,
            meta_readonly (cl_program E SystemProgram) False]
           (FundAutomation amount))"

definition initialize_referrer :: "'n host \<Rightarrow> client \<Rightarrow> pubkey \<Rightarrow> instruction" where
  "initialize_referrer H E signer =
     (let referrer_address = referrer_pda H signer;
          referrer_tokens_address = h_ata H referrer_address MINT_ADDRESS
      in instr E
           [meta_new signer True,
            meta_new referrer_address False,
            meta_new referrer_tokens_address False,
            meta_new MINT_ADDRESS False,
            meta_readonly (cl_program E SystemProgram) False,
            meta_readonly (cl_program E TokenProgram) False,
            meta_readonly (cl_program E AssociatedTokenProgram) False]
           InitializeReferrer)"

definition set_referrer :: "'n host \<Rightarrow> client \<Rightarrow> pubkey \<Rightarrow> pubkey option \<Rightarrow> instruction" where
  "set_referrer H E signer ref =
     (let miner_address = miner_pda H signer;
          referrer_key = (case ref of None \<Rightarrow> pubkey_default | Some address \<Rightarrow> address)
      in instr E
           ([meta_new signer True, meta_new miner_address False]
            @ (case ref of None \<Rightarrow> [] | Some address \<Rightarrow> [meta_new address False]))
           (SetReferrer referrer_key))"

definition claim_sol_with_referrer :: "'n host \<Rightarrow> client \<Rightarrow> pubkey \<Rightarrow> pubkey option \<Rightarrow> instruction" where
  "claim_sol_with_referrer H E signer ref =
     (let miner_address = miner_pda H signer
      in instr E
           ([meta_new signer True, meta_new miner_address False,
             meta_readonly (cl_program E SystemProgram) False]
            @ (case ref of None \<Rightarrow> [] | Some referrer_address \<Rightarrow> [meta_new referrer_address False]))
           ClaimSOL)"

definition claim_sol :: "'n host \<Rightarrow> client \<Rightarrow> pubkey \<Rightarrow> instruction" where
  "claim_sol H E signer = claim_sol_with_referrer H E signer None"

definition claim_sol_and_fund_automation_with_referrer :: "'n host \<Rightarrow> client \<Rightarrow> pubkey \<Rightarrow> pubkey \<Rightarrow> pubkey option
    \<Rightarrow> instruction" where
  "claim_sol_and_fund_automation_with_referrer H E signer miner ref =
     (let miner_address = miner_pda H miner;
          automation_v2_address = automation_v2_pda H miner
      in instr E
           ([meta_new signer True, meta_new miner_address False, meta_new automation_v2_address False,
             meta_readonly (cl_program E SystemProgram) False]
            @ (case ref of None \<Rightarrow> [] | Some referrer_address \<Rightarrow> [meta_new referrer_address False]))
           ClaimSOLAndFundAutomation)"

definition claim_sol_and_fund_automation :: "'n host \<Rightarrow> client \<Rightarrow> pubkey \<Rightarrow> pubkey \<Rightarrow> pubkey option \<Rightarrow> instruction" where
  "claim_sol_and_fund_automation H E signer miner ref = claim_sol_and_fund_automation_with_referrer H E signer miner ref"

definition claim_godl_with_referrer :: "'n host \<Rightarrow> client \<Rightarrow> pubkey \<Rightarrow> pubkey option \<Rightarrow> instruction" where
  "claim_godl_with_referrer H E signer ref =
     (let miner_address = miner_pda H signer;
          treasury_address = treasury_pda H;
          treasury_tokens_address = h_ata H treasury_address MINT_ADDRESS;
          recipient_address = h_ata H signer MINT_ADDRESS
      in instr E
           ([meta_new signer True,
             meta_readonly (config_pda H) False,
             meta_new miner_address False,
             meta_new MINT_ADDRESS False,
             meta_new recipient_address False,
             meta_new treasury_address False,
             meta_new treasury_tokens_address False,
             meta_readonly (cl_program E SystemProgram) False,
             meta_readonly (cl_program E TokenProgram) False,
             meta_readonly (cl_program E AssociatedTokenProgram) False,
             meta_readonly (gold_vault_pda H) False,
             meta_new (miner_extended_pda H signer) False]
            @ (case ref of None \<Rightarrow> [] | Some referrer_address \<Rightarrow>
                [meta_new referrer_address False, meta_new (h_ata H referrer_address MINT_ADDRESS) False]))
           ClaimGODL)"

definition claim_godl :: "'n host \<Rightarrow> client \<Rightarrow> pubkey \<Rightarrow> instruction" where
  "claim_godl H E signer = claim_godl_with_referrer H E signer None"

definition inject_unrefined_rewards :: "'n host \<Rightarrow> client \<Rightarrow> pubkey \<Rightarrow> pubkey \<Rightarrow> u64 \<Rightarrow> instruction" where
  "inject_unrefined_rewards H E signer miner amount =
     (let miner_address = miner_pda H miner;
          config_address = config_pda H;
          treasury_address = treasury_pda H;
          signer_tokens_address = h_ata H signer MINT_ADDRESS;
          treasury_tokens_address = h_ata H treasury_address MINT_ADDRESS
      in instr E
           [meta_new signer True,
            meta_readonly config_address False,
            meta_new miner_address False,
            meta_new treasury_address False,
            meta_new signer_tokens_address False,
            meta_new treasury_tokens_address False,
            meta_readonly (cl_program E TokenProgram) False,
            meta_readonly (gold_vault_pda H) False,
            meta_new (miner_extended_pda H miner) False,
            meta_readonly (cl_program E SystemProgram) False]
           (InjectUnrefinedRewards amount))"

definition claim_referral :: "'n host \<Rightarrow> client \<Rightarrow> pubkey \<Rightarrow> instruction" where
  "claim_referral H E signer =
     (let referrer_address = referrer_pda H signer;
          referrer_tokens_address = h_ata H referrer_address MINT_ADDRESS;
          authority_tokens_address = h_ata H signer MINT_ADDRESS
      in instr E
           [meta_new signer True,
            meta_new referrer_address False,
            meta_new referrer_tokens_address False,
            meta_new authority_tokens_address False,
            meta_new MINT_ADDRESS False,
            meta_readonly (cl_program E SystemProgram) False,
            meta_readonly (cl_program E TokenProgram) False,
            meta_readonly (cl_program E AssociatedTokenProgram) False]
           ClaimReferral)"

definition build_deploy :: "'n host \<Rightarrow> client \<Rightarrow> pubkey \<Rightarrow> pubkey \<Rightarrow> pubkey \<Rightarrow> u64 \<Rightarrow> u64 \<Rightarrow> bool list \<Rightarrow> bool
    \<Rightarrow> instruction" where
  "build_deploy H E signer authority var_address amount round_id squares is_pooled =
     (let automation_v2_address = automation_v2_pda H authority;
          config_address = config_pda H;
          board_address = board_pda H;
          miner_address = miner_pda H authority;
          round_address = round_pda H round_id;
          pool_round_address = pool_round_pda H round_id;
          pool_member_address = pool_member_pda H authority
      in instr E
           [meta_new signer True,
            meta_new authority False,
            meta_new automation_v2_address False,
            meta_new board_address False,
            meta_new miner_address False,
            meta_new round_address False,
            meta_new pool_round_address False,
            meta_new pool_member_address False,
            meta_new config_address False,
            meta_readonly (cl_program E SystemProgram) False,
            meta_new var_address False,
            meta_readonly (cl_program E EntropyProgram) False]
           (Deploy amount (mask_of_squares squares) (of_bool is_pooled)))"

definition deploy_with_pool :: "'n host \<Rightarrow> client \<Rightarrow> pubkey \<Rightarrow> pubkey \<Rightarrow> pubkey \<Rightarrow> u64 \<Rightarrow> u64 \<Rightarrow> bool list \<Rightarrow> bool
    \<Rightarrow> instruction" where
  "deploy_with_pool H E signer authority var_address amount round_id squares is_pooled =
     build_deploy H E signer authority var_address amount round_id squares is_pooled"

definition deploy :: "'n host \<Rightarrow> client \<Rightarrow> pubkey \<Rightarrow> pubkey \<Rightarrow> pubkey \<Rightarrow> u64 \<Rightarrow> u64 \<Rightarrow> bool list \<Rightarrow> bool
    \<Rightarrow> instruction" where
  "deploy H E signer authority var_address amount round_id squares is_pooled =
     deploy_with_pool H E signer authority var_address amount round_id squares is_pooled"

definition warchest_metas :: "'n host \<Rightarrow> bool \<Rightarrow> account_meta list" where
  "warchest_metas H no_burn =
     (let warchest_address = (if no_burn then CHEST_ADDRESS else pubkey_default);
          warchest_godl_address = (if no_burn then h_ata H CHEST_ADDRESS MINT_ADDRESS else pubkey_default)
      in [meta_readonly warchest_address False,
          if no_burn then meta_new warchest_godl_address False else meta_readonly warchest_godl_address False])"

definition bury_tokens :: "'n host \<Rightarrow> client \<Rightarrow> pubkey \<Rightarrow> u64 \<Rightarrow> bool \<Rightarrow> instruction" where
  "bury_tokens H E signer amount no_burn =
     (let board_address = board_pda H;
          config_address = config_pda H;
          mint_address = MINT_ADDRESS;
          treasury_address = treasury_pda H;
          treasury_godl_address = h_ata H treasury_address MINT_ADDRESS;
          admin_godl_address = h_ata H ADMIN_GODL_FEE MINT_ADDRESS
      in instr E
           ([meta_new signer True,
             meta_new board_address False,
             meta_readonly config_address False,
             meta_new mint_address False,
             meta_new treasury_address False,
             meta_new treasury_godl_address False,
             meta_new ADMIN_GODL_FEE False,
             meta_new admin_godl_address False]
            @ warchest_metas H no_burn
            @ [meta_readonly (cl_program E TokenProgram) False,
               meta_readonly (cl_program E GodlProgram) False])
           (BuryTokens amount))"

definition bury :: "'n host \<Rightarrow> client \<Rightarrow> pubkey \<Rightarrow> account_meta list \<Rightarrow> byte list \<Rightarrow> bool \<Rightarrow> instruction" where
  "bury H E signer swap_accounts swap_data no_burn =
     (let board_address = board_pda H;
          config_address = config_pda H;
          mint_address = MINT_ADDRESS;
          treasury_address = treasury_pda H;
          treasury_godl_address = h_ata H treasury_address MINT_ADDRESS;
          treasury_sol_address = h_ata H treasury_address SOL_MINT;
          admin_godl_address = h_ata H ADMIN_GODL_FEE MINT_ADDRESS
      in instr E
           ([meta_new signer True,
             meta_new board_address False,
             meta_readonly config_address False,
             meta_new mint_address False,
             meta_new treasury_address False,
             meta_new treasury_godl_address False,
             meta_new treasury_sol_address False,
             meta_new ADMIN_GODL_FEE False,
             meta_new admin_godl_address False]
            @ warchest_metas H no_burn
            @ [meta_readonly (cl_program E TokenProgram) False,
               meta_readonly (cl_program E GodlProgram) False]
            @ map (\<lambda>account. account\<lparr>am_is_signer := False\<rparr>) swap_accounts)
           (Bury swap_data))"

definition pre_bury :: "'n host \<Rightarrow> client \<Rightarrow> pubkey \<Rightarrow> u64 \<Rightarrow> u64 \<Rightarrow> u64 \<Rightarrow> instruction" where
  "pre_bury H E signer bury_amount chest_amount admin_amount =
     (let config_address = config_pda H;
          treasury_address = treasury_pda H;
          treasury_sol_address = h_ata H treasury_address SOL_MINT
      in instr E
           [meta_new signer True,
            meta_readonly config_address False,
            meta_new treasury_address False,
            meta_new treasury_sol_address False,
            meta_new CHEST_ADDRESS False,
            meta_new ADMIN_GODL_FEE False,
            meta_readonly (cl_program E SystemProgram) False]
           (PreBury bury_amount chest_amount admin_amount))"

definition withdraw_vault :: "'n host \<Rightarrow> client \<Rightarrow> pubkey \<Rightarrow> u64 \<Rightarrow> instruction" where
  "withdraw_vault H E signer amount =
     (let config_address = config_pda H;
          treasury_address = treasury_pda H
      in instr E
           [meta_new signer True,
            meta_readonly config_address False,
            meta_new treasury_address False,
            meta_readonly (cl_program E SystemProgram) False]
           (WithdrawVault amount))"

definition reset_accounts_metas :: "'n host \<Rightarrow> client \<Rightarrow> pubkey \<Rightarrow> pubkey \<Rightarrow> u64 \<Rightarrow> pubkey \<Rightarrow> pubkey \<Rightarrow> account_meta list result" where
  "reset_accounts_metas H E signer fee_collector round_id top_miner var_address =
     (let board_address = board_pda H;
          config_address = config_pda H;
          mint_address = MINT_ADDRESS;
          round_address = round_pda H round_id
      in and_then (add64 round_id 1) (\<lambda>next_id.
         let round_next_address = round_pda H next_id;
             pool_round_next_address = pool_round_pda H next_id;
             top_miner_address = miner_pda H top_miner;
             top_miner_pool_member_address = pool_member_pda H top_miner;
             sol_motherlode_address = sol_motherlode_pda H;
             treasury_address = treasury_pda H;
             treasury_tokens = treasury_tokens_address H treasury_address;
             godl_mint_authority_address = h_mint_authority H
         in Inr
           [meta_new signer True,
            meta_new board_address False,
            meta_new config_address False,
            meta_new fee_collector False,
            meta_new mint_address False,
            meta_new round_address False,
            meta_new round_next_address False,
            meta_new pool_round_next_address False,
            meta_new top_miner_address False,
            meta_new top_miner_pool_member_address False,
            meta_new sol_motherlode_address False,
            meta_new RUSH_SOL_VAULT False,
            meta_new treasury_address False,
            meta_new treasury_tokens False,
            meta_readonly (cl_program E SystemProgram) False,
            meta_readonly (cl_program E TokenProgram) False,
            meta_readonly (cl_program E GodlProgram) False,
            meta_readonly (cl_slot_hashes E) False,
            meta_new var_address False,
            meta_readonly (cl_program E EntropyProgram) False,
            meta_new godl_mint_authority_address False,
            meta_readonly (cl_program E GodlMintProgram) False]))"

definition reset :: "'n host \<Rightarrow> client \<Rightarrow> pubkey \<Rightarrow> pubkey \<Rightarrow> u64 \<Rightarrow> pubkey \<Rightarrow> pubkey \<Rightarrow> instruction result" where
  "reset H E signer fee_collector round_id top_miner var_address =
     and_then (reset_accounts_metas H E signer fee_collector round_id top_miner var_address) (\<lambda>accounts.
     Inr (instr E accounts Reset))"

definition reset_permissionless :: "'n host \<Rightarrow> client \<Rightarrow> pubkey \<Rightarrow> pubkey \<Rightarrow> u64 \<Rightarrow> pubkey \<Rightarrow> pubkey \<Rightarrow> instruction result" where
  "reset_permissionless H E signer fee_collector round_id top_miner var_address =
     and_then (reset_accounts_metas H E signer fee_collector round_id top_miner var_address) (\<lambda>accounts.
     Inr (instr E accounts ResetPermissionless))"

definition close :: "'n host \<Rightarrow> client \<Rightarrow> pubkey \<Rightarrow> u64 \<Rightarrow> pubkey \<Rightarrow> instruction" where
  "close H E signer round_id rent_payer =
     (let board_address = board_pda H;
          treasury_address = treasury_pda H;
          round_address = round_pda H round_id;
          pool_round_address = pool_round_pda H round_id
      in instr E
           [meta_new signer True,
            meta_new board_address False,
            meta_new rent_payer False,
            meta_new round_address False,
            meta_new pool_round_address False,
            meta_new treasury_address False,
            meta_readonly (cl_program E SystemProgram) False]
           Close)"

definition checkpoint :: "'n host \<Rightarrow> client \<Rightarrow> pubkey \<Rightarrow> pubkey \<Rightarrow> u64 \<Rightarrow> instruction" where
  "checkpoint H E signer authority round_id =
     (let miner_address = miner_pda H authority;
          board_address = board_pda H;
          round_address = round_pda H round_id;
          treasury_address = treasury_pda H;
          pool_round_address = pool_round_pda H round_id;
          pool_member_address = pool_member_pda H authority
      in instr E
           [meta_new signer True,
            meta_new board_address False,
            meta_new miner_address False,
            meta_new round_address False,
            meta_new treasury_address False,
            meta_new pool_round_address False,
            meta_new pool_member_address False,
            meta_readonly (cl_program E SystemProgram) False]
           Checkpoint)"

definition checkpoint_with_miner_extended :: "'n host \<Rightarrow> client \<Rightarrow> pubkey \<Rightarrow> pubkey \<Rightarrow> u64 \<Rightarrow> instruction" where
  "checkpoint_with_miner_extended H E signer authority round_id =
     (let ix = checkpoint H E signer authority round_id
      in ix\<lparr>ix_accounts := ix_accounts ix
              @ [meta_readonly (gold_vault_pda H) False, meta_new (miner_extended_pda H authority) False],
            ix_data := CheckpointWithMinerExtended\<rparr>)"

definition set_admin :: "'n host \<Rightarrow> client \<Rightarrow> pubkey \<Rightarrow> pubkey \<Rightarrow> instruction" where
  "set_admin H E signer admin =
     (let config_address = config_pda H
      in instr E
           [meta_new signer True,
            meta_new config_address False,
            meta_readonly (cl_program E SystemProgram) False]
           (SetAdmin admin))"

definition set_motherlode_denominator :: "'n host \<Rightarrow> client \<Rightarrow> pubkey \<Rightarrow> u64 \<Rightarrow> instruction" where
  "set_motherlode_denominator H E signer motherlode_denominator =
     (let config_address = config_pda H
      in instr E
           [meta_new signer True,
            meta_new config_address False,
            meta_readonly (cl_program E SystemProgram) False]
           (SetMotherlodeDenominator motherlode_denominator))"

definition set_godl_per_round :: "'n host \<Rightarrow> client \<Rightarrow> pubkey \<Rightarrow> u64 \<Rightarrow> instruction" where
  "set_godl_per_round H E signer godl_per_round =
     (let config_address = config_pda H
      in instr E
           [meta_new signer True,
            meta_new config_address False,
            meta_readonly (cl_program E SystemProgram) False]
           (SetGodlPerRound godl_per_round))"

definition update_protocol_config :: "'n host \<Rightarrow> client \<Rightarrow> pubkey \<Rightarrow> u64 \<Rightarrow> u64 \<Rightarrow> instruction" where
  "update_protocol_config H E signer round_slots intermission_slots =
     (let config_address = config_pda H
      in instr E
           [meta_new signer True,
            meta_new config_address False,
            meta_readonly (cl_program E SystemProgram) False]
           (UpdateProtocolConfig round_slots intermission_slots))"

definition set_fee_collector :: "'n host \<Rightarrow> client \<Rightarrow> pubkey \<Rightarrow> pubkey \<Rightarrow> instruction" where
  "set_fee_collector H E signer fee_collector =
     (let config_address = config_pda H
      in instr E
           [meta_new signer True,
            meta_new config_address False,
            meta_readonly (cl_program E SystemProgram) False]
           (SetFeeCollector fee_collector))"

definition deposit :: "'n host \<Rightarrow> client \<Rightarrow> pubkey \<Rightarrow> u64 \<Rightarrow> instruction" where
  "deposit H E signer amount =
     (let mint_address = MINT_ADDRESS;
          stake_address = stake_pda H signer;
          stake_tokens_address = h_ata H stake_address MINT_ADDRESS;
          sender_address = h_ata H signer MINT_ADDRESS;
          treasury_address = treasury_pda H
      in instr E
           [meta_new signer True,
            meta_new mint_address False,
            meta_new sender_address False,
            meta_new stake_address False,
            meta_new stake_tokens_address False,
            meta_new treasury_address False,
            meta_readonly (cl_program E SystemProgram) False,
            meta_readonly (cl_program E TokenProgram) False,
            meta_readonly (cl_program E AssociatedTokenProgram) False]
           (Deposit (u64_to_le amount)))"

definition withdraw :: "'n host \<Rightarrow> client \<Rightarrow> pubkey \<Rightarrow> u64 \<Rightarrow> instruction" where
  "withdraw H E signer amount =
     (let stake_address = stake_pda H signer;
          stake_tokens_address = h_ata H stake_address MINT_ADDRESS;
          mint_address = MINT_ADDRESS;
          recipient_address = h_ata H signer MINT_ADDRESS;
          treasury_address = treasury_pda H
      in instr E
           [meta_new signer True,
            meta_new mint_address False,
            meta_new recipient_address False,
            meta_new stake_address False,
            meta_new stake_tokens_address False,
            meta_new treasury_address False,
            meta_readonly (cl_program E SystemProgram) False,
            meta_readonly (cl_program E TokenProgram) False,
            meta_readonly (cl_program E AssociatedTokenProgram) False]
           (Withdraw amount))"

definition claim_yield :: "'n host \<Rightarrow> client \<Rightarrow> pubkey \<Rightarrow> u64 \<Rightarrow> instruction" where
  "claim_yield H E signer amount =
     (let stake_address = stake_pda H signer;
          mint_address = MINT_ADDRESS;
          recipient_address = h_ata H signer MINT_ADDRESS;
          treasury_address = treasury_pda H;
          treasury_tokens_address = treasury_tokens_address H treasury_address
      in instr E
           [meta_new signer True,
            meta_new mint_address False,
            meta_new recipient_address False,
            meta_new stake_address False,
            meta_new treasury_address False,
            meta_new treasury_tokens_address False,
            meta_readonly (cl_program E SystemProgram) False,
            meta_readonly (cl_program E TokenProgram) False,
            meta_readonly (cl_program E AssociatedTokenProgram) False]
           (ClaimYield amount))"

definition set_stake_executor_v2 :: "'n host \<Rightarrow> client \<Rightarrow> pubkey \<Rightarrow> u64 \<Rightarrow> pubkey \<Rightarrow> instruction" where
  "set_stake_executor_v2 H E signer sid executor =
     (let stake_address = stake_v2_pda H signer sid
      in instr E
           [meta_new signer True,
            meta_new stake_address False]
           (SetStakeExecutorV2 sid executor))"

definition reconcile_stake_v2 :: "'n host \<Rightarrow> client \<Rightarrow> pubkey \<Rightarrow> pubkey \<Rightarrow> instruction" where
  "reconcile_stake_v2 H E signer stake_address =
     (let stake_tokens_address = h_ata H stake_address MINT_ADDRESS;
          config_address = config_pda H;
          treasury_address = treasury_pda H
      in instr E
           [meta_new signer True,
            meta_readonly config_address False,
            meta_new stake_address False,
            meta_readonly stake_tokens_address False,
            meta_readonly MINT_ADDRESS False,
            meta_new treasury_address False]
           ReconcileStakeV2)"

definition migrate_stake_weight :: "'n host \<Rightarrow> client \<Rightarrow> pubkey \<Rightarrow> pubkey \<Rightarrow> instruction" where
  "migrate_stake_weight H E signer stake_address =
     (let treasury_address = treasury_pda H
      in instr E
           [meta_new signer True,
            meta_new stake_address False,
            meta_new treasury_address False]
           MigrateStakeWeight)"

definition rebase_total_staked :: "'n host \<Rightarrow> client \<Rightarrow> pubkey \<Rightarrow> u64 \<Rightarrow> u64 \<Rightarrow> instruction" where
  "rebase_total_staked H E signer expected new_value =
     (let config_address = config_pda H;
          treasury_address = treasury_pda H
      in instr E
           [meta_new signer True,
            meta_readonly config_address False,
            meta_new treasury_address False]
           (RebaseTotalStaked expected new_value))"

definition compound_yield_v2 :: "'n host \<Rightarrow> client \<Rightarrow> pubkey \<Rightarrow> pubkey \<Rightarrow> u64 \<Rightarrow> instruction" where
  "compound_yield_v2 H E signer authority sid =
     (let stake_address = stake_v2_pda H authority sid;
          stake_tokens_address = h_ata H stake_address MINT_ADDRESS;
          mint_address = MINT_ADDRESS;
          treasury_address = treasury_pda H;
          treasury_tokens_address = treasury_tokens_address H treasury_address
      in instr E
           [meta_new signer True,
            meta_new mint_address False,
            meta_new stake_address False,
            meta_new stake_tokens_address False,
            meta_new treasury_address False,
            meta_new treasury_tokens_address False,
            meta_readonly (cl_program E SystemProgram) False,
            meta_readonly (cl_program E TokenProgram) False,
            meta_readonly (cl_program E AssociatedTokenProgram) False]
           (CompoundYieldV2 sid))"

definition close_stake_v2 :: "'n host \<Rightarrow> client \<Rightarrow> pubkey \<Rightarrow> u64 \<Rightarrow> instruction" where
  "close_stake_v2 H E signer sid =
     (let recipient_address = h_ata H signer MINT_ADDRESS;
          stake_address = stake_v2_pda H signer sid;
          stake_tokens_address = h_ata H stake_address MINT_ADDRESS;
          treasury_address = treasury_pda H;
          treasury_tokens_address = treasury_tokens_address H treasury_address
      in instr E
           [meta_new signer True,
            meta_readonly MINT_ADDRESS False,
            meta_new recipient_address False,
            meta_new stake_address False,
            meta_new stake_tokens_address False,
            meta_readonly treasury_address False,
            meta_new treasury_tokens_address False,
            meta_readonly (cl_program E SystemProgram) False,
            meta_readonly (cl_program E TokenProgram) False,
            meta_readonly (cl_program E AssociatedTokenProgram) False]
           (CloseStakeV2 sid))"

definition close_phantom_stake_v2 :: "'n host \<Rightarrow> client \<Rightarrow> pubkey \<Rightarrow> pubkey \<Rightarrow> instruction" where
  "close_phantom_stake_v2 H E signer stake_address =
     (let config_address = config_pda H;
          treasury_address = treasury_pda H
      in instr E
           [meta_new signer True,
            meta_readonly config_address False,
            meta_new stake_address False,
            meta_new treasury_address False]
           ClosePhantomStakeV2)"

definition top_up_stake_v2 :: "'n host \<Rightarrow> client \<Rightarrow> pubkey \<Rightarrow> u64 \<Rightarrow> u64 \<Rightarrow> instruction" where
  "top_up_stake_v2 H E signer sid amount =
     (let sender_address = h_ata H signer MINT_ADDRESS;
          stake_address = stake_v2_pda H signer sid;
          stake_tokens_address = h_ata H stake_address MINT_ADDRESS;
          treasury_address = treasury_pda H
      in instr E
           [meta_new signer True,
            meta_readonly MINT_ADDRESS False,
            meta_new sender_address False,
            meta_new stake_address False,
            meta_new stake_tokens_address False,
            meta_new treasury_address False,
            meta_readonly (cl_program E SystemProgram) False,
            meta_readonly (cl_program E TokenProgram) False,
            meta_readonly (cl_program E AssociatedTokenProgram) False]
           (TopUpStakeV2 sid amount))"

definition merge_stake_v2 :: "'n host \<Rightarrow> client \<Rightarrow> pubkey \<Rightarrow> u64 \<Rightarrow> u64 \<Rightarrow> instruction" where
  "merge_stake_v2 H E signer target_id source_id =
     (let target_address = stake_v2_pda H signer target_id;
          target_tokens_address = h_ata H target_address MINT_ADDRESS;
          source_address = stake_v2_pda H signer source_id;
          source_tokens_address = h_ata H source_address MINT_ADDRESS;
          treasury_address = treasury_pda H
      in instr E
           [meta_new signer True,
            meta_readonly MINT_ADDRESS False,
            meta_new target_address False,
            meta_new target_tokens_address False,
            meta_new source_address False,
            meta_new source_tokens_address False,
            meta_new treasury_address False,
            meta_readonly (cl_program E SystemProgram) False,
            meta_readonly (cl_program E TokenProgram) False,
            meta_readonly (cl_program E AssociatedTokenProgram) False]
           (MergeStakeV2 target_id source_id))"

definition new_var :: "'n host \<Rightarrow> client \<Rightarrow> pubkey \<Rightarrow> pubkey \<Rightarrow> u64 \<Rightarrow> byte list \<Rightarrow> u64 \<Rightarrow> instruction" where
  "new_var H E signer provider sid commit samples =
     (let board_address = board_pda H;
          config_address = config_pda H;
          var_address = cl_var_pda E board_address sid
      in instr E
           [meta_new signer True,
            meta_new board_address False,
            meta_new config_address False,
            meta_new provider False,
            meta_new var_address False,
            meta_readonly (cl_program E SystemProgram) False,
            meta_readonly (cl_program E EntropyProgram) False]
           (NewVar sid commit samples))"

definition set_swap_program :: "'n host \<Rightarrow> client \<Rightarrow> pubkey \<Rightarrow> pubkey \<Rightarrow> instruction" where
  "set_swap_program H E signer new_program =
     (let config_address = config_pda H
      in instr E
           [meta_new signer True,
            meta_new config_address False,
            meta_readonly new_program False]
           SetSwapProgram)"

definition set_var_address :: "'n host \<Rightarrow> client \<Rightarrow> pubkey \<Rightarrow> pubkey \<Rightarrow> instruction" where
  "set_var_address H E signer new_var_address =
     (let board_address = board_pda H;
          config_address = config_pda H
      in instr E
           [meta_new signer True,
            meta_new board_address False,
            meta_new config_address False,
            meta_new new_var_address False]
           SetVarAddress)"

definition inject_godl_motherlode :: "'n host \<Rightarrow> client \<Rightarrow> pubkey \<Rightarrow> u64 \<Rightarrow> instruction" where
  "inject_godl_motherlode H E signer amount =
     (let treasury_address = treasury_pda H;
          signer_tokens_address = h_ata H signer MINT_ADDRESS;
          treasury_tokens_address = h_ata H treasury_address MINT_ADDRESS
      in instr E
           [meta_new signer True,
            meta_new treasury_address False,
            meta_new signer_tokens_address False,
            meta_new treasury_tokens_address False,
            meta_readonly (cl_program E TokenProgram) False]
           (InjectGodlMotherlode amount))"

definition stake_nft :: "'n host \<Rightarrow> client \<Rightarrow> pubkey \<Rightarrow> u64 \<Rightarrow> pubkey \<Rightarrow> instruction" where
  "stake_nft H E signer sid asset =
     (let stake_address = stake_v2_pda H signer sid
      in instr E
           [meta_new signer True,
            meta_new asset False,
            meta_readonly NFT_BOOST_COLLECTION False,
            meta_new stake_address False,
            meta_new (treasury_pda H) False,
            meta_readonly MPL_CORE_PROGRAM False,
            meta_readonly (cl_program E SystemProgram) False]
           (StakeNft sid))"

definition unstake_nft :: "'n host \<Rightarrow> client \<Rightarrow> pubkey \<Rightarrow> u64 \<Rightarrow> pubkey \<Rightarrow> instruction" where
  "unstake_nft H E signer sid asset =
     (let stake_address = stake_v2_pda H signer sid
      in instr E
           [meta_new signer True,
            meta_new asset False,
            meta_readonly NFT_BOOST_COLLECTION False,
            meta_new stake_address False,
            meta_new (treasury_pda H) False,
            meta_readonly MPL_CORE_PROGRAM False,
            meta_readonly (cl_program E SystemProgram) False]
           (UnstakeNft sid))"

definition initialize_sol_motherlode :: "'n host \<Rightarrow> client \<Rightarrow> pubkey \<Rightarrow> instruction" where
  "initialize_sol_motherlode H E signer =
     (let sol_motherlode_address = sol_motherlode_pda H
      in instr E
           [meta_new signer True,
            meta_new sol_motherlode_address False,
            meta_readonly (cl_program E SystemProgram) False]
           InitializeSolMotherlode)"

definition initialize_otc_treasury :: "'n host \<Rightarrow> client \<Rightarrow> pubkey \<Rightarrow> instruction" where
  "initialize_otc_treasury H E signer =
     (let otc_treasury_address = otc_treasury_pda H;
          otc_treasury_tokens = otc_treasury_tokens_address H
      in instr E
           [meta_new signer True,
            meta_readonly MINT_ADDRESS False,
            meta_new otc_treasury_address False,
            meta_new otc_treasury_tokens False,
            meta_readonly (cl_program E SystemProgram) False,
            meta_readonly (cl_program E TokenProgram) False,
            meta_readonly (cl_program E AssociatedTokenProgram) False]
           InitializeOtcTreasury)"

definition fund_godl_otc :: "'n host \<Rightarrow> client \<Rightarrow> pubkey \<Rightarrow> u64 \<Rightarrow> instruction" where
  "fund_godl_otc H E signer amount =
     (let otc_treasury_address = otc_treasury_pda H;
          otc_treasury_tokens = otc_treasury_tokens_address H;
          signer_tokens = h_ata H signer MINT_ADDRESS
      in instr E
           [meta_new signer True,
            meta_readonly MINT_ADDRESS False,
            meta_new signer_tokens False,
            meta_new otc_treasury_address False,
            meta_new otc_treasury_tokens False,
            meta_readonly (cl_program E TokenProgram) False]
           (FundGodlOtc amount))"

definition execute_otc_trade :: "'n host \<Rightarrow> client \<Rightarrow> pubkey \<Rightarrow> u64 \<Rightarrow> u64 \<Rightarrow> u64 \<Rightarrow> u64 \<Rightarrow> u64 \<Rightarrow> i64 \<Rightarrow> instruction" where
  "execute_otc_trade H E buyer stake_id sol_in godl_out godl_bonus expiry_slot lock_duration =
     (let miner_address = miner_pda H buyer;
          otc_user_address = otc_user_pda H buyer;
          otc_treasury_address = otc_treasury_pda H;
          otc_treasury_tokens = otc_treasury_tokens_address H;
          treasury_address = treasury_pda H;
          treasury_tokens = treasury_tokens_address H treasury_address;
          stake_address = stake_v2_pda H buyer stake_id;
          stake_tokens = h_ata H stake_address MINT_ADDRESS
      in instr E
           [meta_new buyer True,
            meta_readonly OTC_ORACLE_SIGNER True,
            meta_readonly MINT_ADDRESS False,
            meta_new miner_address False,
            meta_new otc_user_address False,
            meta_new otc_treasury_address False,
            meta_new otc_treasury_tokens False,
            meta_new treasury_address False,
            meta_new treasury_tokens False,
            meta_new stake_address False,
            meta_new stake_tokens False,
            meta_readonly (cl_program E SystemProgram) False,
            meta_readonly (cl_program E TokenProgram) False,
            meta_readonly (cl_program E AssociatedTokenProgram) False,
            meta_readonly (gold_vault_pda H) False,
            meta_new (miner_extended_pda H buyer) False]
           (ExecuteOtcTrade stake_id sol_in godl_out godl_bonus expiry_slot lock_duration))"

definition withdraw_sol_otc :: "'n host \<Rightarrow> client \<Rightarrow> pubkey \<Rightarrow> instruction" where
  "withdraw_sol_otc H E signer =
     (let otc_treasury_address = otc_treasury_pda H
      in instr E
           [meta_new signer True,
            meta_new otc_treasury_address False,
            meta_new CHEST_ADDRESS False,
            meta_readonly (cl_program E SystemProgram) False]
           WithdrawSolOtc)"

definition transfer_mint_authority :: "'n host \<Rightarrow> client \<Rightarrow> pubkey \<Rightarrow> instruction" where
  "transfer_mint_authority H E signer =
     (let config_address = config_pda H;
          treasury_address = treasury_pda H;
          godl_mint_authority_address = h_mint_authority H
      in instr E
           [meta_new signer True,
            meta_readonly config_address False,
            meta_new MINT_ADDRESS False,
            meta_new treasury_address False,
            meta_readonly godl_mint_authority_address False,
            meta_readonly (cl_program E TokenProgram) False]
           TransferMintAuthority)"

definition initialize_gold_vault :: "'n host \<Rightarrow> client \<Rightarrow> pubkey \<Rightarrow> instruction" where
  "initialize_gold_vault H E signer =
     (let gold_vault_address = gold_vault_pda H
      in instr E
           [meta_new signer True,
            meta_new gold_vault_address False,
            meta_new (gold_vault_sol_address H) False,
            meta_new (gold_vault_xaut_address H) False,
            meta_readonly SOL_MINT False,
            meta_readonly XAUT_MINT False,
            meta_readonly (cl_program E SystemProgram) False,
            meta_readonly (cl_program E TokenProgram) False,
            meta_readonly (cl_program E AssociatedTokenProgram) False]
           InitializeGoldVault)"

definition create_miner_extended :: "'n host \<Rightarrow> client \<Rightarrow> pubkey \<Rightarrow> pubkey \<Rightarrow> instruction" where
  "create_miner_extended H E signer authority =
     (instr E
        [meta_new signer True,
         meta_readonly (miner_pda H authority) False,
         meta_new (miner_extended_pda H authority) False,
         meta_readonly (gold_vault_pda H) False,
         meta_readonly (cl_program E SystemProgram) False]
        CreateMinerExtended)"

definition pre_buy_gold :: "'n host \<Rightarrow> client \<Rightarrow> pubkey \<Rightarrow> u64 \<Rightarrow> instruction" where
  "pre_buy_gold H E signer amount =
     (instr E
        [meta_new signer True,
         meta_readonly (config_pda H) False,
         meta_new (sol_motherlode_pda H) False,
         meta_readonly (gold_vault_pda H) False,
         meta_new (gold_vault_sol_address H) False,
         meta_readonly (cl_program E SystemProgram) False,
         meta_new RUSH_SOL_VAULT False]
        (PreBuyGold amount))"

definition buy_gold :: "'n host \<Rightarrow> client \<Rightarrow> pubkey \<Rightarrow> u64 \<Rightarrow> account_meta list \<Rightarrow> byte list \<Rightarrow> instruction" where
  "buy_gold H E signer min_xaut_out swap_accounts swap_data =
     instr E
       ([meta_new signer True,
         meta_new (board_pda H) False,
         meta_readonly (config_pda H) False,
         meta_readonly (treasury_pda H) False,
         meta_new (gold_vault_pda H) False,
         meta_new (gold_vault_sol_address H) False,
         meta_new (gold_vault_xaut_address H) False,
         meta_readonly XAUT_MINT False,
         meta_readonly (cl_program E TokenProgram) False,
         meta_readonly (cl_program E GodlProgram) False]
        @ map (\<lambda>account. account\<lparr>am_is_signer := False\<rparr>) swap_accounts)
       (BuyGold min_xaut_out swap_data)"

definition deposit_gold :: "'n host \<Rightarrow> client \<Rightarrow> pubkey \<Rightarrow> u64 \<Rightarrow> instruction" where
  "deposit_gold H E signer amount =
     (instr E
        [meta_new signer True,
         meta_new (board_pda H) False,
         meta_readonly (config_pda H) False,
         meta_readonly (treasury_pda H) False,
         meta_new (gold_vault_pda H) False,
         meta_new (h_ata H signer XAUT_MINT) False,
         meta_new (gold_vault_xaut_address H) False,
         meta_readonly XAUT_MINT False,
         meta_readonly (cl_program E TokenProgram) False,
         meta_readonly (cl_program E GodlProgram) False]
        (DepositGold amount))"

definition claim_gold :: "'n host \<Rightarrow> client \<Rightarrow> pubkey \<Rightarrow> instruction" where
  "claim_gold H E signer =
     (instr E
        [meta_new signer True,
         meta_readonly (miner_pda H signer) False,
         meta_new (miner_extended_pda H signer) False,
         meta_new (gold_vault_pda H) False,
         meta_new (gold_vault_xaut_address H) False,
         meta_new (h_ata H signer XAUT_MINT) False,
         meta_readonly XAUT_MINT False,
         meta_readonly (cl_program E SystemProgram) False,
         meta_readonly (cl_program E TokenProgram) False,
         meta_readonly (cl_program E AssociatedTokenProgram) False]
        ClaimGold)"

definition rebase_total_unclaimed :: "'n host \<Rightarrow> client \<Rightarrow> pubkey \<Rightarrow> u64 \<Rightarrow> u64 \<Rightarrow> instruction" where
  "rebase_total_unclaimed H E signer expected new_value =
     (instr E
        [meta_new signer True,
         meta_readonly (config_pda H) False,
         meta_new (treasury_pda H) False]
        (RebaseTotalUnclaimed expected new_value))"

definition deploy_with_miner_extended :: "'n host \<Rightarrow> client \<Rightarrow> pubkey \<Rightarrow> pubkey \<Rightarrow> pubkey \<Rightarrow> u64 \<Rightarrow> u64 \<Rightarrow> bool list
    \<Rightarrow> bool \<Rightarrow> instruction" where
  "deploy_with_miner_extended H E signer authority var_address amount round_id squares is_pooled =
     (let ix = build_deploy H E signer authority var_address amount round_id squares is_pooled;
          split = length (ix_accounts ix) - 2;
          entropy = drop split (ix_accounts ix)
      in ix\<lparr>ix_accounts := take split (ix_accounts ix)
              @ [meta_readonly (gold_vault_pda H) False, meta_new (miner_extended_pda H authority) False] @ entropy,
            ix_data := DeployWithMinerExtended amount (mask_of_squares squares) (of_bool is_pooled)\<rparr>)"

section \<open>Round trips\<close>

lemma bit_mask_of_squares:
  assumes "length squares \<le> 32" "j < 32"
  shows "bit (mask_of_squares squares) j \<longleftrightarrow> j < length squares \<and> squares ! j"
proof -
  have "bit (foldl (\<lambda>m i. if squares ! i then m OR push_bit i 1 else m) (0 :: 32 word) [0..<n]) j
      \<longleftrightarrow> j < n \<and> squares ! j" if "n \<le> 32" for n
    using that assms(2)
    by (induction n) (auto simp: bit_or_iff bit_push_bit_iff bit_1_iff bit_exp_iff less_Suc_eq)
  from this [OF assms(1)] show ?thesis by (simp add: mask_of_squares_def)
qed

lemma squares_of_mask_of_squares:
  assumes "length squares = 25"
  shows "squares_of_mask (ucast (mask_of_squares squares)) = squares"
proof (rule nth_equalityI)
  fix j assume "j < length (squares_of_mask (ucast (mask_of_squares squares)))"
  then have j: "j < 25" by (simp add: squares_of_mask_def)
  have "and (ucast (mask_of_squares squares)) (push_bit j 1) \<noteq> (0 :: 64 word) \<longleftrightarrow> bit (mask_of_squares squares) j"
    using j by (auto simp: and_exp_eq_0_iff_not_bit push_bit_of_1 bit_ucast_iff)
  then show "squares_of_mask (ucast (mask_of_squares squares)) ! j = squares ! j"
    using j assms by (simp add: squares_of_mask_def bit_mask_of_squares)
qed (simp add: squares_of_mask_def assms)

end
