(* ===== verification/ClientProperties.thy ===== *)
theory ClientProperties
  imports Sdk Reference_Host Mining
begin

text \<open>
  Client and program together: what the instructions of \<open>src/api/src/sdk.rs\<close> do when the program
  runs them. \<open>runtime\<close> adds to the laws of \<open>Solana\<close> that a check whose documented condition holds
  passes, with the addresses the client uses.
\<close>

section \<open>The runtime\<close>

text \<open>The account list the program receives for a list of metas.\<close>

definition info_of :: "account_meta \<Rightarrow> account_info" where
  "info_of m = \<lparr>ai_key = am_pubkey m, ai_is_signer = am_is_signer m, ai_is_writable = am_is_writable m\<rparr>"

definition run_instruction :: "'n host \<Rightarrow> (account_info \<Rightarrow> 'n world \<Rightarrow> nat) \<Rightarrow> instruction \<Rightarrow> 'n world \<Rightarrow> 'n world result" where
  "run_instruction H data_len ix w = process_instruction H data_len (map info_of (ix_accounts ix)) (ix_data ix) w"

lemma info_of_metas [simp]:
  "ai_key (info_of (meta_new k s)) = k" "ai_key (info_of (meta_readonly k s)) = k"
  "ai_is_signer (info_of (meta_new k s)) = s" "ai_is_signer (info_of (meta_readonly k s)) = s"
  "ai_is_writable (info_of (meta_new k s))" "\<not> ai_is_writable (info_of (meta_readonly k s))"
  by (simp_all add: info_of_def meta_new_def meta_readonly_def)

locale runtime = solana H for H :: "'n host" +
  fixes E :: client
  assumes ok_signer: "ai_is_signer a \<Longrightarrow> h_check H IsSigner a w = Inr ()"
    and ok_writable: "ai_is_writable a \<Longrightarrow> h_check H IsWritable a w = Inr ()"
    and ok_address: "ai_key a = p \<Longrightarrow> h_check H (HasAddress p) a w = Inr ()"
    and ok_seeds: "ai_key a = h_pda H ss \<Longrightarrow> h_check H (HasSeeds ss) a w = Inr ()"
    and ok_program: "ai_key a = cl_program E prog \<Longrightarrow> h_check H (IsProgram prog) a w = Inr ()"
    and ok_account: "kind_of (w_data w (ai_key a)) = Some k \<Longrightarrow> h_check H (AsAccount k) a w = Inr ()"
    and ok_account_mut: "kind_of (w_data w (ai_key a)) = Some k \<Longrightarrow> ai_is_writable a \<Longrightarrow>
      h_check H (AsAccountMut k) a w = Inr ()"
begin

lemmas ok_checks = ok_signer ok_writable ok_address ok_seeds ok_program ok_account ok_account_mut

lemma load_config:
  "w_data w (ai_key a) = AConfig c \<Longrightarrow> ai_is_writable a \<Longrightarrow> as_config_mut H a w = Inr c"
  by (simp add: load_def ok_account_mut)

lemma load_miner:
  "w_data w (ai_key a) = AMiner m \<Longrightarrow> ai_is_writable a \<Longrightarrow> as_miner_mut H a w = Inr m"
  by (simp add: load_def ok_account_mut)

text \<open>The shared shape of the config setters, run on the accounts the builders list.\<close>

lemma config_setter_runs:
  assumes "w_data w (config_pda H) = AConfig c"
  shows "config_setter H (map info_of [meta_new signer True, meta_new (config_pda H) False,
      meta_readonly (cl_program E SystemProgram) False]) pre f w =
    (if cfg_admin c = signer
     then and_then pre (\<lambda>_. Inr (w\<lparr>w_data := (w_data w)(config_pda H := AConfig (f c))\<rparr>))
     else Inl (Godl NotAuthorized))"
proof -
  let ?c = "info_of (meta_new (config_pda H) False)"
  have "as_config_mut H ?c w = Inr c" by (rule load_config) (simp_all add: assms)
  then show ?thesis
    by (simp add: config_setter_def ok_signer ok_program guard_def put_def)
qed

end

definition ref_client :: client where
  "ref_client = \<lparr>cl_program = program_id, cl_slot_hashes = 17, cl_var_pda = (\<lambda>b i. ref_pda [SKey b, SNum i])\<rparr>"

interpretation ref_runtime: runtime ref_host ref_client
proof unfold_locales
  fix a w p ss k
  show "ai_is_signer a \<Longrightarrow> h_check ref_host IsSigner a w = Inr ()" by (simp add: ref_holds_def)
  show "ai_is_writable a \<Longrightarrow> h_check ref_host IsWritable a w = Inr ()" by (simp add: ref_holds_def)
  show "ai_key a = p \<Longrightarrow> h_check ref_host (HasAddress p) a w = Inr ()" by (simp add: ref_holds_def)
  show "ai_key a = h_pda ref_host ss \<Longrightarrow> h_check ref_host (HasSeeds ss) a w = Inr ()" by (simp add: ref_holds_def)
  show "kind_of (w_data w (ai_key a)) = Some k \<Longrightarrow> h_check ref_host (AsAccount k) a w = Inr ()"
    by (simp add: ref_holds_def)
  show "kind_of (w_data w (ai_key a)) = Some k \<Longrightarrow> ai_is_writable a \<Longrightarrow> h_check ref_host (AsAccountMut k) a w = Inr ()"
    by (simp add: ref_holds_def)
qed (simp add: ref_holds_def ref_client_def)

section \<open>Configuration\<close>

text \<open>The three configuration instructions that are not plain setters.\<close>

lemma client_sets_swap_program:
  assumes "runtime H E" "w_data w (config_pda H) = AConfig c"
  shows "run_instruction H data_len (set_swap_program H E signer p) w =
    (if cfg_admin c = signer
     then and_then (h_check H IsExecutable (info_of (meta_readonly p False)) w)
       (\<lambda>_. Inr (w\<lparr>w_data := (w_data w)(config_pda H := AConfig (c\<lparr>cfg_swap_program := p\<rparr>))\<rparr>))
     else Inl (Godl NotAuthorized))"
proof -
  note ok = runtime.ok_checks [OF assms(1)]
  have "as_config_mut H (info_of (meta_new (config_pda H) False)) w = Inr c"
    by (rule runtime.load_config [OF assms(1)]) (simp_all add: assms(2))
  then show ?thesis
    by (simp add: run_instruction_def set_swap_program_def instr_def Let_def process_instruction_def
        process_set_swap_program_def ok guard_def put_def and_then_assoc)
qed

lemma client_sets_var_address:
  assumes "runtime H E" "w_data w (config_pda H) = AConfig c" "w_data w (board_pda H) = ABoard b" "w_data w var = AVar v"
  shows "run_instruction H data_len (set_var_address H E signer var) w =
    (if cfg_admin c = signer
     then if ev_authority v = board_pda H \<and> 0 < ev_samples v
       then Inr (w\<lparr>w_data := (w_data w)(config_pda H := AConfig (c\<lparr>cfg_var_address := var\<rparr>))\<rparr>)
       else Inl (h_assert_error H)
     else Inl (Godl NotAuthorized))"
proof -
  note ok = runtime.ok_checks [OF assms(1)]
  have "as_config_mut H (info_of (meta_new (config_pda H) False)) w = Inr c"
    by (rule runtime.load_config [OF assms(1)]) (simp_all add: assms(2))
  moreover have "as_board H (info_of (meta_new (board_pda H) False)) w = Inr b" "as_var H (info_of (meta_new var False)) w = Inr v"
    by (simp_all add: load_def ok assms(3,4))
  ultimately show ?thesis
    by (simp add: run_instruction_def set_var_address_def instr_def Let_def process_instruction_def
        process_set_var_address_def ok guard_def put_def ensure_def)
qed

lemma client_updates_protocol_config:
  assumes "runtime H E" "w_data w (config_pda H) = AConfig c"
    and "8 + size_of_config \<le> data_len (info_of (meta_new (config_pda H) False)) w"
  shows "run_instruction H data_len (update_protocol_config H E signer slots pause) w =
    (if cfg_admin c = signer
     then if slots \<in> {1..ONE_DAY_SLOTS} \<and> pause \<in> {1..ONE_DAY_SLOTS}
       then Inr (w\<lparr>w_data := (w_data w)(config_pda H := AConfig (c\<lparr>cfg_round_slots := slots, cfg_intermission_slots := pause\<rparr>))\<rparr>)
       else Inl (Godl InvalidProtocolConfig)
     else Inl (Godl NotAuthorized))"
proof -
  note ok = runtime.ok_checks [OF assms(1)]
  have "as_config_mut H (info_of (meta_new (config_pda H) False)) w = Inr c"
    by (rule runtime.load_config [OF assms(1)]) (simp_all add: assms(2))
  moreover have "h_check H (HasSeeds [CONFIG]) (info_of (meta_new (config_pda H) False)) w = Inr ()"
    by (rule runtime.ok_seeds [OF assms(1)]) (simp add: config_pda_def)
  ultimately show ?thesis using assms(3)
    by (auto simp add: run_instruction_def update_protocol_config_def instr_def Let_def process_instruction_def
        process_update_protocol_config_def ok guard_def put_def)
qed

text \<open>C28. The seven configuration instructions, as the client builds them: signed by anyone but the
  admin each fails with \<open>NotAuthorized\<close>; signed by the admin each changes exactly its own field of the
  config account and nothing else, where an emission above the cap aborts, the swap program must be
  executable, the entropy account must belong to the board and have samples left, and the slots of a
  round and of the pause must be between one and a day's. The account's layout is the current one
  where the instruction would otherwise first grow it.\<close>

lemma client_configures:
  fixes H :: "'n host" and signer :: pubkey and data_len :: "account_info \<Rightarrow> 'n world \<Rightarrow> nat"
  assumes "runtime H E" "w_data w (config_pda H) = AConfig c"
  defines "run ix \<equiv> run_instruction H data_len ix w"
    and "change f \<equiv> (if cfg_admin c = signer then Inr (w\<lparr>w_data := (w_data w)(config_pda H := AConfig (f c))\<rparr>)
                    else Inl (Godl NotAuthorized))"
  shows "run (set_admin H E signer admin) = change (cfg_admin_update (\<lambda>_. admin)) \<and>
    run (set_fee_collector H E signer collector) = change (cfg_fee_collector_update (\<lambda>_. collector)) \<and>
    run (set_motherlode_denominator H E signer d) = change (cfg_motherlode_denominator_update (\<lambda>_. d)) \<and>
    run (set_godl_per_round H E signer g) =
      (if cfg_admin c = signer \<and> MAX_GODL_PER_ROUND < g then Inl Panic
       else change (cfg_godl_per_round_update (\<lambda>_. g))) \<and>
    run (set_swap_program H E signer p) =
      (case h_check H IsExecutable (info_of (meta_readonly p False)) w of
         Inl e \<Rightarrow> Inl (if cfg_admin c = signer then e else Godl NotAuthorized)
       | Inr _ \<Rightarrow> change (cfg_swap_program_update (\<lambda>_. p))) \<and>
    (\<forall>b v. w_data w (board_pda H) = ABoard b \<and> w_data w var = AVar v \<longrightarrow>
      run (set_var_address H E signer var) =
        (if cfg_admin c = signer \<and> \<not> (ev_authority v = board_pda H \<and> 0 < ev_samples v) then Inl (h_assert_error H)
         else change (cfg_var_address_update (\<lambda>_. var)))) \<and>
    (8 + size_of_config \<le> data_len (info_of (meta_new (config_pda H) False)) w \<longrightarrow>
      run (update_protocol_config H E signer slots pause) =
        (if cfg_admin c = signer \<and> \<not> (slots \<in> {1..ONE_DAY_SLOTS} \<and> pause \<in> {1..ONE_DAY_SLOTS})
         then Inl (Godl InvalidProtocolConfig)
         else change (cfg_intermission_slots_update (\<lambda>_. pause) \<circ> cfg_round_slots_update (\<lambda>_. slots))))"
proof -
  note r = runtime.config_setter_runs [OF assms(1,2), simplified list.map]
  have "run (set_admin H E signer admin) = change (cfg_admin_update (\<lambda>_. admin)) \<and>
    run (set_fee_collector H E signer collector) = change (cfg_fee_collector_update (\<lambda>_. collector)) \<and>
    run (set_motherlode_denominator H E signer d) = change (cfg_motherlode_denominator_update (\<lambda>_. d)) \<and>
    run (set_godl_per_round H E signer g) =
      (if cfg_admin c = signer \<and> MAX_GODL_PER_ROUND < g then Inl Panic
       else change (cfg_godl_per_round_update (\<lambda>_. g)))"
    by (simp add: run_def change_def run_instruction_def instr_def Let_def process_instruction_def r assert_panic_def
        process_set_admin_def process_set_fee_collector_def process_set_motherlode_denominator_def
        process_set_godl_per_round_def set_admin_def set_fee_collector_def set_motherlode_denominator_def
        set_godl_per_round_def)
  moreover have "run (set_swap_program H E signer p) =
      (case h_check H IsExecutable (info_of (meta_readonly p False)) w of
         Inl e \<Rightarrow> Inl (if cfg_admin c = signer then e else Godl NotAuthorized)
       | Inr _ \<Rightarrow> change (cfg_swap_program_update (\<lambda>_. p)))"
    by (simp add: run_def change_def client_sets_swap_program [OF assms(1,2)] split: sum.split)
  ultimately show ?thesis
    using client_sets_var_address [OF assms(1,2)] client_updates_protocol_config [OF assms(1,2), of data_len]
    by (simp add: run_def change_def)
qed

definition demo_config :: config where
  "demo_config = \<lparr>cfg_admin = 7, cfg_godl_per_round = 100, cfg_bury_authority = 7, cfg_fee_collector = 7,
     cfg_swap_program = 0, cfg_var_address = 0, cfg_motherlode_denominator = 5, cfg_round_slots = 0,
     cfg_intermission_slots = 0, cfg_buffer = zero_bytes 32\<rparr>"

definition demo_config_world :: "int world" where
  "demo_config_world = world_of [(config_pda ref_host, AConfig demo_config),
     (board_pda ref_host, ABoard \<lparr>board_round_id = 9, board_start_slot = 0, board_end_slot = 1\<rparr>),
     (55, AVar \<lparr>ev_authority = board_pda ref_host, ev_samples = 3, ev_slot_hash = [], ev_seed = [], ev_value = []\<rparr>)] [] 0 0"

lemma client_configures_witness:
  "run_instruction ref_host (\<lambda>_ _. 232) (set_admin ref_host ref_client 7 9) demo_config_world =
     Inr (demo_config_world\<lparr>w_data := (w_data demo_config_world)(config_pda ref_host := AConfig (demo_config\<lparr>cfg_admin := 9\<rparr>))\<rparr>) \<and>
   run_instruction ref_host (\<lambda>_ _. 232) (set_admin ref_host ref_client 8 9) demo_config_world = Inl (Godl NotAuthorized) \<and>
   run_instruction ref_host (\<lambda>_ _. 232) (set_var_address ref_host ref_client 7 55) demo_config_world =
     Inr (demo_config_world\<lparr>w_data := (w_data demo_config_world)(config_pda ref_host := AConfig (demo_config\<lparr>cfg_var_address := 55\<rparr>))\<rparr>) \<and>
   run_instruction ref_host (\<lambda>_ _. 232) (update_protocol_config ref_host ref_client 7 0 35) demo_config_world =
     Inl (Godl InvalidProtocolConfig)"
proof -
  let ?v = "\<lparr>ev_authority = board_pda ref_host, ev_samples = 3, ev_slot_hash = [], ev_seed = [], ev_value = []\<rparr>"
  let ?b = "\<lparr>board_round_id = 9, board_start_slot = 0, board_end_slot = 1\<rparr>"
  have c: "w_data demo_config_world (config_pda ref_host) = AConfig demo_config"
    "w_data demo_config_world (board_pda ref_host) = ABoard ?b" "w_data demo_config_world 55 = AVar ?v"
    by (simp_all add: demo_config_world_def world_of_def config_pda_def board_pda_def ref_pda_def seed_code_def
        CONFIG_def BOARD_def)
  have d: "cfg_admin demo_config = 7" by (simp add: demo_config_def)
  note run = client_configures [OF ref_runtime.runtime_axioms c(1), of "\<lambda>_ _. 232", unfolded d]
  show ?thesis
    using run [of 7 9, THEN conjunct1] run [of 8 9, THEN conjunct1]
      run [of 7 _ _ _ _ _ 55 0 35, THEN conjunct2, THEN conjunct2, THEN conjunct2, THEN conjunct2, THEN conjunct2] c(2,3)
    by (simp add: size_of_config_224)
qed

section \<open>Deployment\<close>

text \<open>C27. A deployment built by the client reaches the handler's body with every account in its role (the
  gold accounts between the game's and the entropy accounts) and with exactly the squares the
  player chose.\<close>

lemma client_deploys:
  assumes "length squares = 25"
  shows "run_instruction H data_len
      (deploy_with_miner_extended H E signer authority var_address amount round_id squares pooled) w =
    deploy_core H
      (map info_of [meta_new signer True, meta_new authority False, meta_new (automation_v2_pda H authority) False,
        meta_new (board_pda H) False, meta_new (miner_pda H authority) False, meta_new (round_pda H round_id) False,
        meta_new (pool_round_pda H round_id) False, meta_new (pool_member_pda H authority) False,
        meta_new (config_pda H) False, meta_readonly (cl_program E SystemProgram) False])
      (Some (info_of (meta_readonly (gold_vault_pda H) False), info_of (meta_new (miner_extended_pda H authority) False)))
      (map info_of [meta_new var_address False, meta_readonly (cl_program E EntropyProgram) False])
      amount (ucast (mask_of_squares squares)) pooled w \<and>
    squares_of_mask (ucast (mask_of_squares squares)) = squares"
proof -
  have "(of_bool pooled :: nat) \<noteq> 0 \<longleftrightarrow> pooled" by simp
  then show ?thesis
    by (simp add: run_instruction_def deploy_with_miner_extended_def build_deploy_def instr_def Let_def
        process_instruction_def process_deploy_with_miner_extended_def split_at_def
        squares_of_mask_of_squares [OF assms])
qed

lemma client_deploys_witness:
  "squares_of_mask (ucast (mask_of_squares ([True, False, True] @ replicate 22 False))) =
     [True, False, True] @ replicate 22 False"
  using client_deploys [of "[True, False, True] @ replicate 22 False" ref_host "\<lambda>_ _. 0" ref_client 1 1 2 3 4 True
      "world_of [] [] 0 0"] by simp

section \<open>Referrals\<close>

text \<open>A referrer is set once: the client's instruction leaves a miner whose referrer is set or locked
  as it is, locks a miner without one when no referrer is given, and otherwise records the
  referrer's account and counts the referral, unless the account is the miner's own.\<close>

lemma client_sets_referrer:
  fixes H :: "'n host" and w :: "'n world" and a :: pubkey
  assumes "runtime H E" "w_data w (miner_pda H signer) = AMiner m" "mn_authority m = signer"
    and "w_data w (referrer_pda H a) = AReferrer r" "rf_authority r = a" "rf_referrer_count r < u64_max"
    and "referrer_pda H a \<noteq> pubkey_default" "referrer_pda H a \<noteq> REFERRER_LOCKED_SENTINEL"
    and "ref = None \<or> ref = Some (referrer_pda H a)"
  shows "run_instruction H data_len (set_referrer H E signer ref) w =
    (if mn_referrer m \<noteq> pubkey_default then Inr w
     else if ref = None
       then Inr (w\<lparr>w_data := (w_data w)(miner_pda H signer := AMiner (m\<lparr>mn_referrer := REFERRER_LOCKED_SENTINEL\<rparr>))\<rparr>)
     else if a = signer then Inl (Godl InvalidReferrerAccount)
     else Inr (w\<lparr>w_data := (w_data w)(
                 referrer_pda H a := AReferrer (r\<lparr>rf_referrer_count := rf_referrer_count r + 1\<rparr>),
                 miner_pda H signer := AMiner (m\<lparr>mn_referrer := referrer_pda H a\<rparr>))\<rparr>))"
proof -
  let ?m = "info_of (meta_new (miner_pda H signer) False)"
  let ?r = "info_of (meta_new (referrer_pda H a) False)"
  note ok = runtime.ok_checks [OF assms(1)]
  have m: "as_miner_mut H ?m w = Inr m" by (rule runtime.load_miner [OF assms(1)]) (simp_all add: assms)
  have r: "as_referrer_mut H ?r w = Inr r" by (simp add: load_def ok assms)
  have seeds: "h_check H (HasSeeds [REFERRER, SKey a]) ?r w = Inr ()" for w
    by (rule runtime.ok_seeds [OF assms(1)]) (simp add: referrer_pda_def)
  have add: "checked_add (rf_referrer_count r) (Suc 0) = Some (Suc (rf_referrer_count r))"
    using assms(6) by (simp add: checked_add_def)
  note run = run_instruction_def set_referrer_def instr_def Let_def process_instruction_def process_set_referrer_def
  from assms(9) show ?thesis
  proof
    assume "ref = None"
    then show ?thesis by (simp add: run m ok guard_def put_def assms(3))
  next
    assume "ref = Some (referrer_pda H a)"
    then show ?thesis by (simp add: run m r seeds add ok guard_def put_def assms(3,5,7,8))
  qed
qed

text \<open>Miner 7 takes the referrer of 9; a second instruction, for any referrer, changes nothing.\<close>

definition demo_referral_world :: "pubkey \<Rightarrow> u64 \<Rightarrow> int world" where
  "demo_referral_world chosen count = world_of
     [(miner_pda ref_host 7, AMiner ((new_miner fx_ops 7)\<lparr>mn_referrer := chosen\<rparr>)),
      (referrer_pda ref_host 9, AReferrer \<lparr>rf_authority = 9, rf_rewards_sol = 0, rf_rewards_godl = 0,
         rf_cumulative_rewards_sol = 0, rf_cumulative_rewards_godl = 0, rf_referrer_count = count\<rparr>)] [] 0 0"

lemma client_sets_referrer_witness:
  "\<exists>w'. run_instruction ref_host (\<lambda>_ _. 0) (set_referrer ref_host ref_client 7 (Some (referrer_pda ref_host 9)))
     (demo_referral_world pubkey_default 4) = Inr w' \<and>
     (case w_data w' (miner_pda ref_host 7) of AMiner m \<Rightarrow> mn_referrer m = referrer_pda ref_host 9 | _ \<Rightarrow> False) \<and>
     (case w_data w' (referrer_pda ref_host 9) of AReferrer r \<Rightarrow> rf_referrer_count r = 5 | _ \<Rightarrow> False)"
proof -
  define m where "m = (new_miner fx_ops 7)\<lparr>mn_referrer := pubkey_default\<rparr>"
  define r where "r = \<lparr>rf_authority = 9, rf_rewards_sol = 0, rf_rewards_godl = 0,
         rf_cumulative_rewards_sol = 0, rf_cumulative_rewards_godl = 0, rf_referrer_count = (4::u64)\<rparr>"
  define w where "w = demo_referral_world pubkey_default 4"
  have ne: "referrer_pda ref_host 9 \<noteq> miner_pda ref_host 7"
    by (simp add: referrer_pda_def miner_pda_def ref_pda_def seed_code_def REFERRER_def MINER_def)
  have "w_data w (miner_pda ref_host 7) = AMiner m" "w_data w (referrer_pda ref_host 9) = AReferrer r"
    using ne by (simp_all add: w_def demo_referral_world_def world_of_def m_def r_def)
  moreover have "mn_authority m = 7" "rf_authority r = 9" "rf_referrer_count r < u64_max" "mn_referrer m = pubkey_default"
    by (simp_all add: m_def r_def new_miner_def)
  moreover have "referrer_pda ref_host 9 \<noteq> pubkey_default" "referrer_pda ref_host 9 \<noteq> REFERRER_LOCKED_SENTINEL"
    by (simp_all add: referrer_pda_def ref_pda_def seed_code_def base58_def base58_digit_def REFERRER_def pubkey_default_def REFERRER_LOCKED_SENTINEL_def)
  ultimately have "run_instruction ref_host (\<lambda>_ _. 0) (set_referrer ref_host ref_client 7 (Some (referrer_pda ref_host 9))) w =
     Inr (w\<lparr>w_data := (w_data w)(referrer_pda ref_host 9 := AReferrer (r\<lparr>rf_referrer_count := rf_referrer_count r + 1\<rparr>),
       miner_pda ref_host 7 := AMiner (m\<lparr>mn_referrer := referrer_pda ref_host 9\<rparr>))\<rparr>)"
    using client_sets_referrer [OF ref_runtime.runtime_axioms, of w 7 m 9 r "Some (referrer_pda ref_host 9)" "\<lambda>_ _. 0"]
    by simp
  then show ?thesis using ne by (simp add: w_def [symmetric] r_def)
qed

end
