(* ===== verification/Rpc.thy ===== *)
theory Rpc
  imports Sdk
begin

text \<open>
  The command line client's access to the network (\<open>src/cli/src/rpc.rs\<close> and the submission
  functions of \<open>src/cli/src/transaction.rs\<close>). A command is a function on the state of the network,
  which other users change too; what the RPC node answers is a parameter (\<open>rpc\<close>). Printing is left
  out.
\<close>

section \<open>Commands\<close>

datatype cli_error = RpcFailed | AccountUnreadable | TransactionFailed | Overflowed | Aborted | Bailed string

type_synonym ('s, 'a) cmd = "'s \<Rightarrow> (cli_error + 'a) \<times> 's"

definition ret :: "'a \<Rightarrow> ('s, 'a) cmd" where
  "ret x = (\<lambda>s. (Inr x, s))"

definition fail :: "cli_error \<Rightarrow> ('s, 'a) cmd" where
  "fail e = (\<lambda>s. (Inl e, s))"

definition bind_cmd :: "('s, 'a) cmd \<Rightarrow> ('a \<Rightarrow> ('s, 'b) cmd) \<Rightarrow> ('s, 'b) cmd" where
  "bind_cmd m f = (\<lambda>s. case m s of (Inl e, s') \<Rightarrow> (Inl e, s') | (Inr x, s') \<Rightarrow> f x s')"

text \<open>Handling the result of a command instead of propagating its error; an abort (a panic, \<open>Aborted\<close>)
  still ends the program.\<close>

definition attempt :: "('s, 'a) cmd \<Rightarrow> ('s, cli_error + 'a) cmd" where
  "attempt m = (\<lambda>s. case m s of (Inl Aborted, s') \<Rightarrow> (Inl Aborted, s') | (r, s') \<Rightarrow> (Inr r, s'))"

definition answer :: "cli_error \<Rightarrow> ('s \<Rightarrow> 'a option \<times> 's) \<Rightarrow> ('s, 'a) cmd" where
  "answer e q = (\<lambda>s. case q s of (None, s') \<Rightarrow> (Inl e, s') | (Some x, s') \<Rightarrow> (Inr x, s'))"

definition require :: "bool \<Rightarrow> cli_error \<Rightarrow> ('s, unit) cmd" where
  "require b e = (if b then ret () else fail e)"

definition some_or :: "cli_error \<Rightarrow> 'a option \<Rightarrow> ('s, 'a) cmd" where
  "some_or e x = (case x of None \<Rightarrow> fail e | Some y \<Rightarrow> ret y)"

text \<open>An abort of the program's own code in the client.\<close>

definition or_abort :: "'a result \<Rightarrow> ('s, 'a) cmd" where
  "or_abort r = (case r of Inl _ \<Rightarrow> fail Aborted | Inr x \<Rightarrow> ret x)"

named_theorems cmd_simps "how a command runs on a state"

lemma run_ret [cmd_simps]: "ret x s = (Inr x, s)" by (simp add: ret_def)
lemma run_fail [cmd_simps]: "fail e s = (Inl e, s)" by (simp add: fail_def)

lemma run_bind [cmd_simps]:
  "m s = (Inr x, s') \<Longrightarrow> bind_cmd m f s = f x s'" "m s = (Inl e, s') \<Longrightarrow> bind_cmd m f s = (Inl e, s')"
  by (simp_all add: bind_cmd_def)

lemma bind_eq_Inr:
  "bind_cmd m f s = (Inr y, s'') \<longleftrightarrow> (\<exists>x s'. m s = (Inr x, s') \<and> f x s' = (Inr y, s''))"
  by (auto simp: bind_cmd_def split: prod.splits sum.splits)

lemma run_require [cmd_simps]: "b \<Longrightarrow> require b e s = (Inr (), s)" "\<not> b \<Longrightarrow> require b e s = (Inl e, s)"
  by (simp_all add: require_def cmd_simps)

lemma run_some_or [cmd_simps]: "some_or e (Some x) s = (Inr x, s)" "some_or e None s = (Inl e, s)"
  by (simp_all add: some_or_def cmd_simps)

lemma run_attempt [cmd_simps]: "m s = (r, s') \<Longrightarrow> r \<noteq> Inl Aborted \<Longrightarrow> attempt m s = (Inr r, s')"
  by (auto simp: attempt_def split: sum.split cli_error.split)

lemma attempt_answer: "e \<noteq> Aborted \<Longrightarrow> attempt (answer e q) s = (Inr (fst (answer e q s)), snd (answer e q s))"
  by (auto simp: attempt_def answer_def split: prod.split option.split cli_error.split)

lemma bind_ret [simp]: "bind_cmd (ret x) f = f x" "bind_cmd (fail e) f = fail e"
  by (auto simp: bind_cmd_def ret_def fail_def)

lemma require_Inr: "require b e s = (Inr x, s') \<longleftrightarrow> b \<and> s' = s"
  by (auto simp: require_def ret_def fail_def)

lemma some_or_Inr: "some_or e x s = (Inr y, s') \<longleftrightarrow> x = Some y \<and> s' = s"
  by (cases x) (auto simp: some_or_def ret_def fail_def)

lemma answer_Inr: "answer e q s = (Inr x, s') \<longleftrightarrow> q s = (Some x, s')"
  by (auto simp: answer_def split: prod.splits option.splits)

lemmas cmd_Inr = bind_eq_Inr require_Inr some_or_Inr answer_Inr

section \<open>The RPC node\<close>

text \<open>A failed request was answered with an error by the node (\<open>ClientErrorKind::RpcError\<close>, as for an
  account that does not exist) or was not answered.\<close>

datatype node_error = NodeError | TransportError

text \<open>A query for the program's accounts can also be turned down with the HTTP status 410 (\<open>GONE\<close>), by a
  provider that does not serve it.\<close>

datatype query_error = Gone | Refused

record ('s, 'n) rpc =
  r_account :: "pubkey \<Rightarrow> 's \<Rightarrow> (node_error + 'n account_data) \<times> 's"
  r_multiple :: "pubkey list \<Rightarrow> 's \<Rightarrow> 'n account_data option list option \<times> 's"
  r_program_accounts :: "account_kind \<Rightarrow> 's \<Rightarrow> (query_error + (pubkey \<times> 'n account_data) list) \<times> 's"
  r_lamports :: "pubkey \<Rightarrow> 's \<Rightarrow> u64 option \<times> 's"
  r_rent :: "nat \<Rightarrow> 's \<Rightarrow> u64 option \<times> 's"
  r_clock :: "'s \<Rightarrow> (u64 \<times> i64) option \<times> 's"
  r_send :: "instruction list \<Rightarrow> 's \<Rightarrow> unit option \<times> 's"
  r_send_parallel :: "instruction list list \<Rightarrow> 's \<Rightarrow> bool list option \<times> 's"

text \<open>One account of a known type: the node may fail, the data may be of another type.\<close>

definition fetch :: "('s, 'n) rpc \<Rightarrow> ('n account_data \<Rightarrow> 'a option) \<Rightarrow> pubkey \<Rightarrow> ('s, 'a) cmd" where
  "fetch R parse address =
     (\<lambda>s. case r_account R address s of
        (Inl _, s') \<Rightarrow> (Inl RpcFailed, s')
      | (Inr data, s') \<Rightarrow> some_or AccountUnreadable (parse data) s')"

text \<open>\<open>get_program_accounts\<close>: the node filters by discriminator, unreadable accounts are dropped; the
  status \<open>GONE\<close> is a panic, every other failure an error.\<close>

definition get_program_accounts :: "('s, 'n) rpc \<Rightarrow> account_kind \<Rightarrow> ('n account_data \<Rightarrow> 'a option)
    \<Rightarrow> ('s, (pubkey \<times> 'a) list) cmd" where
  "get_program_accounts R kind parse =
     (\<lambda>s. case r_program_accounts R kind s of
        (Inl Gone, s') \<Rightarrow> (Inl Aborted, s')
      | (Inl Refused, s') \<Rightarrow> (Inl RpcFailed, s')
      | (Inr accounts, s') \<Rightarrow>
          (Inr (List.map_filter (\<lambda>(key, data). map_option (Pair key) (parse data)) accounts), s'))"

lemma run_program_accounts [cmd_simps]:
  "r_program_accounts R kind s = (Inr accounts, s') \<Longrightarrow> get_program_accounts R kind parse s =
     (Inr (List.map_filter (\<lambda>(key, data). map_option (Pair key) (parse data)) accounts), s')"
  "r_program_accounts R kind s = (Inl Gone, s') \<Longrightarrow> get_program_accounts R kind parse s = (Inl Aborted, s')"
  "r_program_accounts R kind s = (Inl Refused, s') \<Longrightarrow> get_program_accounts R kind parse s = (Inl RpcFailed, s')"
  by (simp_all add: get_program_accounts_def)

definition rpc_board :: "'n host \<Rightarrow> ('s, 'n) rpc \<Rightarrow> ('s, board) cmd" where
  "rpc_board H R = fetch R get_board (board_pda H)"

definition rpc_round :: "'n host \<Rightarrow> ('s, 'n) rpc \<Rightarrow> u64 \<Rightarrow> ('s, round) cmd" where
  "rpc_round H R rid = fetch R get_round (round_pda H rid)"

definition rpc_rounds :: "('s, 'n) rpc \<Rightarrow> ('s, (pubkey \<times> round) list) cmd" where
  "rpc_rounds R = get_program_accounts R KRound get_round"

definition rpc_treasury :: "'n host \<Rightarrow> ('s, 'n) rpc \<Rightarrow> ('s, 'n treasury) cmd" where
  "rpc_treasury H R = fetch R get_treasury (treasury_pda H)"

definition rpc_config :: "'n host \<Rightarrow> ('s, 'n) rpc \<Rightarrow> ('s, config) cmd" where
  "rpc_config H R = fetch R get_config (config_pda H)"

definition rpc_miner :: "'n host \<Rightarrow> ('s, 'n) rpc \<Rightarrow> pubkey \<Rightarrow> ('s, 'n miner) cmd" where
  "rpc_miner H R authority = fetch R get_miner (miner_pda H authority)"

definition rpc_miners :: "('s, 'n) rpc \<Rightarrow> ('s, (pubkey \<times> 'n miner) list) cmd" where
  "rpc_miners R = get_program_accounts R KMiner get_miner"

definition rpc_referrer_by_address :: "('s, 'n) rpc \<Rightarrow> pubkey \<Rightarrow> ('s, referrer) cmd" where
  "rpc_referrer_by_address R address = fetch R get_referrer address"

definition rpc_referrer :: "'n host \<Rightarrow> ('s, 'n) rpc \<Rightarrow> pubkey \<Rightarrow> ('s, referrer) cmd" where
  "rpc_referrer H R authority = rpc_referrer_by_address R (referrer_pda H authority)"

definition rpc_clock :: "('s, 'n) rpc \<Rightarrow> ('s, u64 \<times> i64) cmd" where
  "rpc_clock R = answer RpcFailed (r_clock R)"

definition rpc_stake :: "'n host \<Rightarrow> ('s, 'n) rpc \<Rightarrow> pubkey \<Rightarrow> ('s, 'n stake) cmd" where
  "rpc_stake H R authority = fetch R get_stake (stake_pda H authority)"

definition rpc_pool_member :: "'n host \<Rightarrow> ('s, 'n) rpc \<Rightarrow> pubkey \<Rightarrow> ('s, pool_member) cmd" where
  "rpc_pool_member H R authority = fetch R get_pool_member (pool_member_pda H authority)"

definition rpc_stakes_v2 :: "('s, 'n) rpc \<Rightarrow> ('s, (pubkey \<times> 'n stake_v2) list) cmd" where
  "rpc_stakes_v2 R = get_program_accounts R KStakeV2 get_stake_v2"

definition rpc_var :: "('s, 'n) rpc \<Rightarrow> pubkey \<Rightarrow> ('s, entropy_var) cmd" where
  "rpc_var R address = fetch R get_var address"

text \<open>The node compares bytes of the account (the round of a miner, the executor of an automation).\<close>

definition rpc_miners_participating :: "('s, 'n) rpc \<Rightarrow> u64 \<Rightarrow> ('s, (pubkey \<times> 'n miner) list) cmd" where
  "rpc_miners_participating R rid = get_program_accounts R KMiner
     (\<lambda>data. Option.bind (get_miner data) (\<lambda>m. if mn_round_id m = rid then Some m else None))"

definition EXECUTOR :: pubkey where
  "EXECUTOR = base58 ''botHfLbBG8oSrohhfCF63xj3LhpBjJrYQkyE27gA4rN''"

definition rpc_automations_v2 :: "('s, 'n) rpc \<Rightarrow> ('s, (pubkey \<times> automation_v2) list) cmd" where
  "rpc_automations_v2 R = get_program_accounts R KAutomationV2
     (\<lambda>data. Option.bind (get_automation_v2 data) (\<lambda>a. if au_executor a = EXECUTOR then Some a else None))"

definition rpc_gold_vault :: "'n host \<Rightarrow> ('s, 'n) rpc \<Rightarrow> ('s, 'n gold_vault) cmd" where
  "rpc_gold_vault H R = fetch R get_gold_vault (gold_vault_pda H)"

definition rpc_sol_motherlode :: "'n host \<Rightarrow> ('s, 'n) rpc \<Rightarrow> ('s, sol_motherlode) cmd" where
  "rpc_sol_motherlode H R = fetch R get_sol_motherlode (sol_motherlode_pda H)"

text \<open>An error answer of the node makes it \<open>None\<close>.\<close>

definition rpc_miner_extended :: "'n host \<Rightarrow> ('s, 'n) rpc \<Rightarrow> pubkey \<Rightarrow> ('s, 'n miner_extended option) cmd" where
  "rpc_miner_extended H R authority =
     (\<lambda>s. case r_account R (miner_extended_pda H authority) s of
        (Inl NodeError, s') \<Rightarrow> (Inr None, s')
      | (Inl TransportError, s') \<Rightarrow> (Inl RpcFailed, s')
      | (Inr data, s') \<Rightarrow> bind_cmd (some_or AccountUnreadable (get_miner_extended data)) (\<lambda>x. ret (Some x)) s')"

definition rpc_miner_extendeds :: "('s, 'n) rpc \<Rightarrow> ('s, (pubkey \<times> 'n miner_extended) list) cmd" where
  "rpc_miner_extendeds R = get_program_accounts R KMinerExtended get_miner_extended"

section \<open>Batches\<close>

text \<open>\<open>slice::chunks\<close>, and the \<open>while !ixs.is_empty() { ixs.drain(..min(n, len)) }\<close> loops.\<close>

function chunks :: "nat \<Rightarrow> 'a list \<Rightarrow> 'a list list" where
  "chunks n xs = (if xs = [] \<or> n = 0 then [] else take n xs # chunks n (drop n xs))"
  by auto
termination by (relation "measure (length \<circ> snd)") auto

declare chunks.simps [simp del]

lemma chunks_simps [simp]:
  "chunks n [] = []" "xs \<noteq> [] \<Longrightarrow> 0 < n \<Longrightarrow> chunks n xs = take n xs # chunks n (drop n xs)"
  by (simp_all add: chunks.simps [of n xs] chunks.simps [of n "[]"])

lemma concat_chunks: "0 < n \<Longrightarrow> concat (chunks n xs) = xs"
proof (induction n xs rule: chunks.induct)
  case (1 n xs)
  then show ?case by (cases "xs = []") simp_all
qed

lemma chunk_size: "c \<in> set (chunks n xs) \<Longrightarrow> c \<noteq> [] \<and> length c \<le> n"
proof (induction n xs rule: chunks.induct)
  case (1 n xs)
  then show ?case by (cases "xs = [] \<or> n = 0") (auto simp: chunks.simps [of n xs] split: if_splits)
qed

lemma length_chunks: "0 < n \<Longrightarrow> length (chunks n xs) = (length xs + n - 1) div n"
proof (induction n xs rule: chunks.induct)
  case (1 n xs)
  show ?case
  proof (cases "length xs \<le> n")
    case True
    have "(length xs + n - 1) div n = 1" if "xs \<noteq> []"
      using True 1(2) that by (cases xs) (simp_all add: div_eq_dividend_iff div_nat_eqI)
    with True 1(2) show ?thesis by (cases "xs = []") simp_all
  next
    case False
    then have "xs \<noteq> []" by auto
    moreover have "(length xs + n - 1) div n = Suc ((length xs - n + n - 1) div n)"
      using False 1(2) by (simp add: le_div_geq)
    ultimately show ?thesis using 1 by simp
  qed
qed

definition get_miners_by_authorities :: "'n host \<Rightarrow> ('s, 'n) rpc \<Rightarrow> pubkey list \<Rightarrow> ('s, 'n miner list) cmd" where
  "get_miners_by_authorities H R authorities =
     foldr (\<lambda>chunk rest. bind_cmd (answer RpcFailed (r_multiple R (map (miner_pda H) chunk))) (\<lambda>accounts.
              bind_cmd (foldr (\<lambda>a more. bind_cmd (some_or AccountUnreadable (Option.bind a get_miner)) (\<lambda>m.
                          bind_cmd more (\<lambda>ms. ret (m # ms)))) (map snd (zip chunk accounts)) (ret [])) (\<lambda>ms.
              bind_cmd rest (\<lambda>more. ret (ms @ more)))))
       (chunks 100 authorities) (ret [])"

section \<open>Submission\<close>

definition submit_transaction :: "('s, 'n) rpc \<Rightarrow> instruction list \<Rightarrow> ('s, unit) cmd" where
  "submit_transaction R ixs = answer TransactionFailed (r_send R ixs)"

definition submit_parallel :: "('s, 'n) rpc \<Rightarrow> instruction list list \<Rightarrow> ('s, bool list) cmd" where
  "submit_parallel R batches = answer TransactionFailed (r_send_parallel R batches)"

text \<open>Submitting batches one after the other, stopping at the first failure.\<close>

fun submit_each :: "('s, 'n) rpc \<Rightarrow> instruction list list \<Rightarrow> ('s, unit) cmd" where
  "submit_each R [] = ret ()"
| "submit_each R (b # bs) = bind_cmd (submit_transaction R b) (\<lambda>_. submit_each R bs)"

end
