(* ===== verification/CliGold.thy ===== *)
theory CliGold
  imports Rpc
begin

text \<open>
  Gold and buy-back commands of the command line client: \<open>src/cli/src/commands/gold.rs\<close> and
  \<open>swap.rs\<close>. Quotes come from a router, here an interface of two operations (\<open>CliJupiter\<close> implements it by the
  requests of \<open>src/cli/src/jupiter.rs\<close>); the conversions of decimal amounts, which are \<open>f64\<close> arithmetic, are
  parameters. Of a polling loop this theory has one turn (\<open>CliMain\<close> has the loop).
\<close>

section \<open>Quotes and conversions\<close>

text \<open>Instructions of other programs are opaque (\<open>'x\<close>).\<close>

datatype 'x tx_instruction = Own instruction | Other 'x

type_synonym lookup_table = "pubkey \<times> pubkey list"

record 'x swap_build =
  sb_setup :: "'x list"
  sb_swap_accounts :: "account_meta list"
  sb_swap_data :: "byte list"
  sb_cleanup :: "'x option"
  sb_lut_accounts :: "lookup_table list"

record ('s, 'x) router =
  j_build :: "pubkey \<Rightarrow> pubkey \<Rightarrow> u64 \<Rightarrow> pubkey \<Rightarrow> string option \<Rightarrow> 's \<Rightarrow> 'x swap_build option \<times> 's"
  j_send :: "lookup_table list \<Rightarrow> 'x tx_instruction list \<Rightarrow> 's \<Rightarrow> unit option \<times> 's"

record 'f floats =
  fl_truncate :: "'f \<Rightarrow> u64 \<Rightarrow> u64"
  fl_round :: "'f \<Rightarrow> nat \<Rightarrow> u64"
  fl_ui_amount :: "'f \<Rightarrow> nat \<Rightarrow> u64"

definition XAUT_DECIMALS :: nat where
  "XAUT_DECIMALS = 6"

definition DEXES_ALLOWLIST :: string where
  "DEXES_ALLOWLIST = ''Meteora DAMM v2''"

definition GODL_MINT :: pubkey where
  "GODL_MINT = base58 ''GodL6KZ9uuUoQwELggtVzQkKmU1LfqmDokPibPeDKkhF''"

definition build_sol_to_godl :: "('s, 'x) router \<Rightarrow> pubkey \<Rightarrow> pubkey \<Rightarrow> u64 \<Rightarrow> ('s, 'x swap_build) cmd" where
  "build_sol_to_godl J taker payer amount =
     answer RpcFailed (j_build J taker payer amount GODL_MINT (Some DEXES_ALLOWLIST))"

text \<open>Setup, the two instructions of the program, cleanup.\<close>

definition swap_transaction :: "'x swap_build \<Rightarrow> instruction \<Rightarrow> instruction \<Rightarrow> 'x tx_instruction list" where
  "swap_transaction swap before main =
     map Other (sb_setup swap) @ [Own before, Own main]
     @ (case sb_cleanup swap of Some c \<Rightarrow> [Other c] | None \<Rightarrow> [])"

section \<open>Extended accounts\<close>

definition initialize_gold_vault_cmd :: "'n host \<Rightarrow> ('s, 'n) rpc \<Rightarrow> client \<Rightarrow> pubkey \<Rightarrow> ('s, unit) cmd" where
  "initialize_gold_vault_cmd H R E payer = submit_transaction R [initialize_gold_vault H E payer]"

definition claimable_xaut :: "'n numeric_ops \<Rightarrow> 'n miner_extended \<Rightarrow> 'n gold_vault \<Rightarrow> u64 \<Rightarrow> u64 result" where
  "claimable_xaut N extended gold_vault unrefined =
     and_then (mx_update_rewards N gold_vault unrefined extended) (\<lambda>e. Inr (mx_xaut_rewards e))"

definition extended_authorities :: "('s, 'n) rpc \<Rightarrow> ('s, pubkey list) cmd" where
  "extended_authorities R = bind_cmd (rpc_miner_extendeds R) (\<lambda>xs. ret (map (mx_authority \<circ> snd) xs))"

definition extension_targets :: "bool \<Rightarrow> pubkey list \<Rightarrow> 'n miner list \<Rightarrow> pubkey list" where
  "extension_targets every existing miners =
     map mn_authority (filter (\<lambda>m. (every \<or> mn_rewards_godl m > 0 \<or> mn_checkpoint_id m < mn_round_id m)
       \<and> mn_authority m \<notin> set existing) miners)"

text \<open>Submitting every batch, counting the accounts of the batches that failed.\<close>

fun create_each :: "('s, 'n) rpc \<Rightarrow> (pubkey \<Rightarrow> instruction) \<Rightarrow> pubkey list list \<Rightarrow> nat \<Rightarrow> ('s, nat) cmd" where
  "create_each R ix [] failed = ret failed"
| "create_each R ix (b # bs) failed =
     bind_cmd (attempt (submit_transaction R (map ix b))) (\<lambda>sent.
     create_each R ix bs (case sent of Inr _ \<Rightarrow> failed | Inl _ \<Rightarrow> failed + length b))"

definition size_of_miner_extended :: nat where
  "size_of_miner_extended = 32 + 16 + 2 * 8 + 32"

definition create_miner_extended_all :: "'n host \<Rightarrow> ('s, 'n) rpc \<Rightarrow> client \<Rightarrow> pubkey \<Rightarrow> bool \<Rightarrow> bool \<Rightarrow> ('s, unit) cmd" where
  "create_miner_extended_all H R E payer dry_run every =
     bind_cmd (rpc_miners R) (\<lambda>miners.
     bind_cmd (extended_authorities R) (\<lambda>existing.
     let targets = extension_targets every existing (map snd miners) in
     bind_cmd (answer RpcFailed (r_rent R (8 + size_of_miner_extended))) (\<lambda>_.
     if targets = [] then ret ()
     else if dry_run then ret ()
     else
       bind_cmd (create_each R (create_miner_extended H E payer) (chunks 10 targets) 0) (\<lambda>failed.
       if failed > 0 then fail (Bailed ''extended accounts were not created'') else ret ()))))"

section \<open>The audit of unrefined GODL\<close>

record unclaimed_audit =
  ua_total_unclaimed :: u64
  ua_true_sum :: u128
  ua_n_miners :: nat
  ua_n_unrefined :: nat
  ua_n_without_extended :: nat

definition weigh_unclaimed :: "'n treasury \<Rightarrow> 'n miner list \<Rightarrow> pubkey list \<Rightarrow> unclaimed_audit" where
  "weigh_unclaimed treasury miners existing =
     (let unrefined = filter (\<lambda>m. mn_rewards_godl m > 0) miners
      in \<lparr>ua_total_unclaimed = tr_total_unclaimed treasury,
          ua_true_sum = sum_list (map mn_rewards_godl unrefined),
          ua_n_miners = length miners, ua_n_unrefined = length unrefined,
          ua_n_without_extended = length (filter (\<lambda>m. mn_authority m \<notin> set existing) unrefined)\<rparr>)"

definition audit_gold :: "'n host \<Rightarrow> ('s, 'n) rpc \<Rightarrow> ('s, unclaimed_audit) cmd" where
  "audit_gold H R =
     bind_cmd (rpc_treasury H R) (\<lambda>treasury.
     bind_cmd (rpc_miners R) (\<lambda>miners.
     bind_cmd (extended_authorities R) (\<lambda>existing.
     ret (weigh_unclaimed treasury (map snd miners) existing))))"

definition audit_unclaimed :: "'n host \<Rightarrow> ('s, 'n) rpc \<Rightarrow> ('s, unit) cmd" where
  "audit_unclaimed H R =
     bind_cmd (audit_gold H R) (\<lambda>a.
     bind_cmd (require (ua_total_unclaimed a = ua_true_sum a) (Bailed ''invariant violated'')) (\<lambda>_.
     require (ua_n_without_extended a = 0) (Bailed ''run create-miner-extended-all before buy-gold'')))"

primrec rebase_unclaimed_attempts :: "'n host \<Rightarrow> ('s, 'n) rpc \<Rightarrow> client \<Rightarrow> pubkey \<Rightarrow> bool \<Rightarrow> nat \<Rightarrow> ('s, unit) cmd" where
  "rebase_unclaimed_attempts H R E payer dry_run 0 = fail (Bailed ''gave up'')"
| "rebase_unclaimed_attempts H R E payer dry_run (Suc left) =
     bind_cmd (audit_gold H R) (\<lambda>a.
     bind_cmd (rpc_treasury H R) (\<lambda>after.
     if ua_total_unclaimed a \<noteq> tr_total_unclaimed after then rebase_unclaimed_attempts H R E payer dry_run left
     else
       let expected = ua_total_unclaimed a in
       bind_cmd (require (ua_true_sum a \<le> u64_max) Overflowed) (\<lambda>_.
       let new_value = ua_true_sum a in
       if expected = new_value then ret ()
       else if dry_run then ret ()
       else
         bind_cmd (attempt (submit_transaction R [rebase_total_unclaimed H E payer expected new_value])) (\<lambda>sent.
         case sent of Inr _ \<Rightarrow> ret () | Inl _ \<Rightarrow> rebase_unclaimed_attempts H R E payer dry_run left))))"

definition rebase_total_unclaimed_cmd :: "'n host \<Rightarrow> ('s, 'n) rpc \<Rightarrow> client \<Rightarrow> pubkey \<Rightarrow> bool \<Rightarrow> ('s, unit) cmd" where
  "rebase_total_unclaimed_cmd H R E payer dry_run = rebase_unclaimed_attempts H R E payer dry_run 5"

section \<open>Buying and claiming gold\<close>

definition deposit_gold_cmd :: "'n host \<Rightarrow> ('s, 'n) rpc \<Rightarrow> client \<Rightarrow> 'f floats \<Rightarrow> pubkey \<Rightarrow> 'f \<Rightarrow> ('s, unit) cmd" where
  "deposit_gold_cmd H R E F payer amount_xaut =
     (let amount = fl_round F amount_xaut XAUT_DECIMALS in
      bind_cmd (require (amount \<noteq> 0) (Bailed ''amount too small'')) (\<lambda>_.
      submit_transaction R [deposit_gold H E payer amount]))"

definition claim_gold_cmd :: "'n host \<Rightarrow> ('s, 'n) rpc \<Rightarrow> client \<Rightarrow> pubkey \<Rightarrow> ('s, unit) cmd" where
  "claim_gold_cmd H R E payer = submit_transaction R [claim_gold H E payer]"

text \<open>Lamports of the vault's wrapped-SOL account above its rent; 0 if it cannot be read.\<close>

definition wsol_dust :: "'n host \<Rightarrow> ('s, 'n) rpc \<Rightarrow> ('s, u64) cmd" where
  "wsol_dust H R =
     bind_cmd (answer RpcFailed (r_rent R 165)) (\<lambda>rent.
     bind_cmd (attempt (answer RpcFailed (r_lamports R (gold_vault_sol_address H)))) (\<lambda>held.
     ret (case held of Inr n \<Rightarrow> saturating_sub n rent | Inl _ \<Rightarrow> 0)))"

definition execute_buy_gold :: "'n host \<Rightarrow> ('s, 'n) rpc \<Rightarrow> ('s, 'x) router \<Rightarrow> client \<Rightarrow> pubkey \<Rightarrow> u64 \<Rightarrow> u64
    \<Rightarrow> string option \<Rightarrow> ('s, unit) cmd" where
  "execute_buy_gold H R J E payer amount min_out dexes =
     bind_cmd (require (amount \<noteq> 0) (Bailed ''amount too small'')) (\<lambda>_.
     bind_cmd (rpc_sol_motherlode H R) (\<lambda>motherlode.
     bind_cmd (require (sm_amount motherlode \<ge> amount) (Bailed ''sol motherlode too small'')) (\<lambda>_.
     bind_cmd (rpc_clock R) (\<lambda>(_, now).
     bind_cmd (require (now \<ge> LEGACY_INSTRUCTION_EXPIRY_TS) (Bailed ''gold distribution is locked'')) (\<lambda>_.
     bind_cmd (audit_gold H R) (\<lambda>a.
     bind_cmd (require (ua_total_unclaimed a = ua_true_sum a) (Bailed ''run rebase-total-unclaimed first'')) (\<lambda>_.
     bind_cmd (require (ua_n_without_extended a = 0) (Bailed ''run create-miner-extended-all first'')) (\<lambda>_.
     bind_cmd (rpc_board H R) (\<lambda>_.
     bind_cmd (some_or Overflowed (split_payout amount)) (\<lambda>(rush_amount, swap_amount).
     bind_cmd (wsol_dust H R) (\<lambda>dust.
     bind_cmd (some_or Overflowed (checked_add swap_amount dust)) (\<lambda>quote_amount.
     bind_cmd (answer RpcFailed (j_build J (gold_vault_pda H) payer quote_amount XAUT_MINT dexes)) (\<lambda>swap.
     answer TransactionFailed (j_send J (sb_lut_accounts swap) (swap_transaction swap (pre_buy_gold H E payer amount)
       (buy_gold H E payer min_out (sb_swap_accounts swap) (sb_swap_data swap)))))))))))))))))"

definition buy_gold_cmd :: "'n host \<Rightarrow> ('s, 'n) rpc \<Rightarrow> ('s, 'x) router \<Rightarrow> client \<Rightarrow> 'f floats \<Rightarrow> pubkey \<Rightarrow> 'f \<Rightarrow> 'f
    \<Rightarrow> string option \<Rightarrow> ('s, unit) cmd" where
  "buy_gold_cmd H R J E F payer amount_sol min_out_xaut dexes =
     execute_buy_gold H R J E payer (fl_truncate F amount_sol LAMPORTS_PER_SOL) (fl_round F min_out_xaut XAUT_DECIMALS) dexes"

text \<open>One turn of \<open>buy_gold_listen\<close>: errors are printed and the loop goes on.\<close>

definition buy_gold_turn :: "'n host \<Rightarrow> ('s, 'n) rpc \<Rightarrow> ('s, 'x) router \<Rightarrow> client \<Rightarrow> pubkey \<Rightarrow> u64 \<Rightarrow> u64
    \<Rightarrow> string option \<Rightarrow> ('s, unit) cmd" where
  "buy_gold_turn H R J E payer amount min_out dexes =
     bind_cmd (attempt (rpc_sol_motherlode H R)) (\<lambda>loaded.
     case loaded of
       Inr motherlode \<Rightarrow>
         if sm_amount motherlode \<ge> amount
         then bind_cmd (attempt (execute_buy_gold H R J E payer amount min_out dexes)) (\<lambda>_. ret ())
         else ret ()
     | Inl _ \<Rightarrow> ret ())"

section \<open>Burying\<close>

definition CHEST_AMOUNT_BPS :: u64 where
  "CHEST_AMOUNT_BPS = 1000"

text \<open>The shares of \<open>execute_bury\<close>, for the warchest and for the swap.\<close>

definition bury_shares :: "u64 \<Rightarrow> (u64 \<times> u64) result" where
  "bury_shares amount_lamports =
     and_then (mul64 amount_lamports CHEST_AMOUNT_BPS) (\<lambda>p.
     let chest_amount = p div 10000 in
     and_then (sub64 amount_lamports chest_amount) (\<lambda>bury_amount. Inr (chest_amount, bury_amount)))"

definition execute_bury :: "'n host \<Rightarrow> ('s, 'x) router \<Rightarrow> client \<Rightarrow> pubkey \<Rightarrow> u64 \<Rightarrow> bool \<Rightarrow> ('s, unit) cmd" where
  "execute_bury H J E payer amount_lamports no_burn =
     bind_cmd (or_abort (bury_shares amount_lamports)) (\<lambda>(chest_amount, bury_amount).
     bind_cmd (build_sol_to_godl J (treasury_pda H) payer bury_amount) (\<lambda>swap.
     answer TransactionFailed (j_send J (sb_lut_accounts swap) (swap_transaction swap (pre_bury H E payer bury_amount chest_amount 0)
       (bury H E payer (sb_swap_accounts swap) (sb_swap_data swap) no_burn)))))"

definition bury_cmd :: "'n host \<Rightarrow> ('s, 'x) router \<Rightarrow> client \<Rightarrow> 'f floats \<Rightarrow> pubkey \<Rightarrow> 'f \<Rightarrow> bool \<Rightarrow> ('s, unit) cmd" where
  "bury_cmd H J E F payer amount_sol no_burn = execute_bury H J E payer (fl_truncate F amount_sol LAMPORTS_PER_SOL) no_burn"

text \<open>One turn of \<open>bury_listen\<close>, with the threshold computed before the loop.\<close>

definition bury_threshold :: "u64 \<Rightarrow> u64 result" where
  "bury_threshold amount = add64 amount (LAMPORTS_PER_SOL div 10)"

definition bury_turn :: "'n host \<Rightarrow> ('s, 'n) rpc \<Rightarrow> ('s, 'x) router \<Rightarrow> client \<Rightarrow> pubkey \<Rightarrow> u64 \<Rightarrow> u64 \<Rightarrow> bool \<Rightarrow> ('s, unit) cmd" where
  "bury_turn H R J E payer amount threshold no_burn =
     bind_cmd (attempt (answer RpcFailed (r_lamports R (treasury_pda H)))) (\<lambda>loaded.
     case loaded of
       Inr balance \<Rightarrow>
         if balance \<ge> threshold
         then bind_cmd (attempt (execute_bury H J E payer amount no_burn)) (\<lambda>_. ret ())
         else ret ()
     | Inl _ \<Rightarrow> ret ())"

definition execute_manual_bury :: "'n host \<Rightarrow> ('s, 'n) rpc \<Rightarrow> client \<Rightarrow> pubkey \<Rightarrow> u64 \<Rightarrow> bool \<Rightarrow> ('s, unit) cmd" where
  "execute_manual_bury H R E payer amount_units no_burn =
     (if amount_units = 0 then ret ()
      else submit_transaction R [bury_tokens H E payer amount_units no_burn])"

definition manual_bury :: "'n host \<Rightarrow> ('s, 'n) rpc \<Rightarrow> client \<Rightarrow> 'f floats \<Rightarrow> pubkey \<Rightarrow> 'f \<Rightarrow> bool \<Rightarrow> ('s, unit) cmd" where
  "manual_bury H R E F payer amount_godl no_burn =
     (let amount_units = fl_truncate F amount_godl ONE_GODL in
      if amount_units = 0 then ret ()
      else submit_transaction R [bury_tokens H E payer amount_units no_burn])"

end
