(* ===== verification/CliTransport.thy ===== *)
theory CliTransport
  imports CliGold
begin

text \<open>
  How the command line client sends transactions (\<open>src/cli/src/transaction.rs\<close>) and asks the swap
  router for a quote (\<open>src/cli/src/jupiter.rs\<close>): the transactions and requests it builds, and how it
  reads the answers. The node, the HTTP client, the encodings of keys and bytes and the compilation
  of a transaction with lookup tables are parameters. Printing is left out.
\<close>

section \<open>Transactions\<close>

text \<open>Compute budget, system transfer, or any other instruction.\<close>

datatype 'x tx_part = UnitLimit nat | UnitPrice u64 | SystemTransfer pubkey pubkey u64 | Part "'x tx_instruction"

record 'x transaction =
  tx_payer :: pubkey
  tx_blockhash :: nat
  tx_parts :: "'x tx_part list"
  tx_tables :: "lookup_table list"

text \<open>The answer to a simulation, as far as it is not only printed.\<close>

record simulation =
  sim_err :: "string option"

type_synonym signature = nat

record ('s, 'x) node =
  nd_blockhash :: "'s \<Rightarrow> nat option \<times> 's"
  nd_send :: "'x transaction \<Rightarrow> 's \<Rightarrow> signature option \<times> 's"
  nd_send_and_confirm :: "'x transaction \<Rightarrow> 's \<Rightarrow> signature option \<times> 's"
  nd_simulate :: "'x transaction \<Rightarrow> 's \<Rightarrow> simulation option \<times> 's"
  nd_compile :: "pubkey \<Rightarrow> 'x tx_part list \<Rightarrow> lookup_table list \<Rightarrow> nat \<Rightarrow> 'x transaction option"
  nd_table :: "pubkey \<Rightarrow> 's \<Rightarrow> pubkey list option option \<times> 's"
  nd_parallel :: "nat option \<Rightarrow> (pubkey \<times> 'x tx_part list) list \<Rightarrow> 's \<Rightarrow> string option list option \<times> 's"

definition legacy_tx :: "pubkey \<Rightarrow> nat \<Rightarrow> 'x tx_part list \<Rightarrow> 'x transaction" where
  "legacy_tx payer blockhash parts = \<lparr>tx_payer = payer, tx_blockhash = blockhash, tx_parts = parts, tx_tables = []\<rparr>"

text \<open>The compute budget in front of the instructions.\<close>

definition compute_budget :: "nat option \<Rightarrow> u64 option \<Rightarrow> 'x tx_part list" where
  "compute_budget limit price =
     (case limit of Some n \<Rightarrow> [UnitLimit n] | None \<Rightarrow> []) @ (case price of Some n \<Rightarrow> [UnitPrice n] | None \<Rightarrow> [])"

definition core_parts :: "'x tx_instruction list \<Rightarrow> nat option \<Rightarrow> u64 option \<Rightarrow> 'x tx_part list" where
  "core_parts ixs limit price = compute_budget limit price @ map Part ixs"

definition submit_transaction_core :: "('s, 'x) node \<Rightarrow> pubkey \<Rightarrow> 'x tx_instruction list \<Rightarrow> nat option \<Rightarrow> u64 option
    \<Rightarrow> bool \<Rightarrow> ('s, signature) cmd" where
  "submit_transaction_core N payer ixs limit price wait_for_confirmation =
     bind_cmd (answer RpcFailed (nd_blockhash N)) (\<lambda>blockhash.
     let tx = legacy_tx payer blockhash (core_parts ixs limit price) in
     if wait_for_confirmation then answer TransactionFailed (nd_send_and_confirm N tx)
     else answer TransactionFailed (nd_send N tx))"

definition submit_confirmed :: "('s, 'x) node \<Rightarrow> pubkey \<Rightarrow> 'x tx_instruction list \<Rightarrow> ('s, signature) cmd" where
  "submit_confirmed N payer ixs = submit_transaction_core N payer ixs None None True"

definition submit_transaction_no_confirm :: "('s, 'x) node \<Rightarrow> pubkey \<Rightarrow> 'x tx_instruction list \<Rightarrow> ('s, signature) cmd" where
  "submit_transaction_no_confirm N payer ixs = submit_transaction_core N payer ixs None None False"

section \<open>The sender service\<close>

definition JITO_TIP_LAMPORTS :: u64 where "JITO_TIP_LAMPORTS = 1000000"
definition SWQOS_TIP_LAMPORTS :: u64 where "SWQOS_TIP_LAMPORTS = 5000"

definition SENDER_ENDPOINT_EWR_FAST :: string where
  "SENDER_ENDPOINT_EWR_FAST = ''http://ewr-sender.helius-rpc.com/fast''"

definition SENDER_ENDPOINT_EWR_PING :: string where
  "SENDER_ENDPOINT_EWR_PING = ''http://ewr-sender.helius-rpc.com/ping''"

definition TIP_ACCOUNTS :: "pubkey list" where
  "TIP_ACCOUNTS = map base58
     [''4ACfpUFoaSD9bfPdeu6DBt89gB6ENTeHBXCAi87NhDEE'', ''D2L6yPZ2FmmmTKPgzaMKdhu6EWZcTpLy1Vhx8uvZe7NZ'',
      ''9bnz4RShgq1hAnLnZbP8kbgBg1kEmcJBYQq3gQbmnSta'', ''5VY91ws6B2hMmBFRsXkoAAdsPHBJwRfBht4DXox3xkwn'',
      ''2nyhqdwKcJZR2vcqCyrYsaPVdAnFoJjiksCXJ7hfEYgD'', ''2q5pghRs6arqVjRvT5gfgWfWcHWmw1ZuCzphgd5KfWGJ'',
      ''wyvPkWjVZz1M8fHQnMMCDTQDbkManefNNhweYk5WkcF'', ''3KCKozbAaF75qEU33jtzozcJ29yJuaLJTy2jFdzUY8bT'',
      ''4vieeGHPYPG2MmyPRcYjdiDmmhN3ww7hsFNap8pVN3Ey'', ''4TQLFNWK8AovT1gFvda5jfw2oJeRMKEmw7aH6MGBJ3or'']"

definition sender_parts :: "pubkey \<Rightarrow> 'x tx_instruction list \<Rightarrow> nat option \<Rightarrow> u64 option \<Rightarrow> bool \<Rightarrow> 'x tx_part list" where
  "sender_parts payer ixs limit price swqos_only =
     core_parts ixs limit price
     @ [SystemTransfer payer (TIP_ACCOUNTS ! 4) (if swqos_only then SWQOS_TIP_LAMPORTS else JITO_TIP_LAMPORTS)]"

text \<open>JSON values as the client builds and reads them, with \<open>Value::get\<close> and \<open>Value::as_str\<close>.\<close>

datatype json = JNull | JBool bool | JNum nat | JString string | JArray "json list" | JObject "(string \<times> json) list"

fun json_get :: "string \<Rightarrow> json \<Rightarrow> json option" where
  "json_get k (JObject kvs) = map_of kvs k"
| "json_get k _ = None"

fun json_str :: "json \<Rightarrow> string option" where
  "json_str (JString s) = Some s"
| "json_str _ = None"

text \<open>\<open>hc_get\<close>: address, headers, query; the answer is the status and the body, which need not be JSON.\<close>

record ('s, 'x) http =
  hc_post :: "string \<Rightarrow> json \<Rightarrow> 's \<Rightarrow> json option \<times> 's"
  hc_get :: "string \<Rightarrow> (string \<times> string) list \<Rightarrow> (string \<times> string) list \<Rightarrow> 's \<Rightarrow> (nat \<times> json option) option \<times> 's"
  hc_encode :: "'x transaction \<Rightarrow> string"
  hc_signature :: "string \<Rightarrow> signature option"

definition sender_endpoint :: "bool \<Rightarrow> string" where
  "sender_endpoint swqos_only =
     (if swqos_only then SENDER_ENDPOINT_EWR_FAST @ ''?swqos_only=true'' else SENDER_ENDPOINT_EWR_FAST)"

definition sender_body :: "string \<Rightarrow> json" where
  "sender_body tx_base64 = JObject
     [(''jsonrpc'', JString ''2.0''), (''id'', JString ''godl-cli-sender''), (''method'', JString ''sendTransaction''),
      (''params'', JArray [JString tx_base64,
         JObject [(''encoding'', JString ''base64''), (''skipPreflight'', JBool True), (''maxRetries'', JNum 0)]])]"

definition sender_answer :: "('s, 'x) http \<Rightarrow> json \<Rightarrow> ('s, signature) cmd" where
  "sender_answer W value =
     (case json_get ''error'' value of
        Some _ \<Rightarrow> fail (Bailed ''Sender error'')
      | None \<Rightarrow>
          bind_cmd (some_or (Bailed ''Missing result in Sender response'') (Option.bind (json_get ''result'' value) json_str))
            (\<lambda>sig_str. some_or (Bailed ''signature'') (hc_signature W sig_str)))"

definition submit_transaction_sender :: "('s, 'x) node \<Rightarrow> ('s, 'x) http \<Rightarrow> pubkey \<Rightarrow> 'x tx_instruction list \<Rightarrow> nat option
    \<Rightarrow> u64 option \<Rightarrow> bool \<Rightarrow> ('s, signature) cmd" where
  "submit_transaction_sender N W payer ixs limit price swqos_only =
     bind_cmd (answer RpcFailed (nd_blockhash N)) (\<lambda>blockhash.
     let tx = legacy_tx payer blockhash (sender_parts payer ixs limit price swqos_only) in
     bind_cmd (answer TransactionFailed (hc_post W (sender_endpoint swqos_only) (sender_body (hc_encode W tx))))
       (sender_answer W))"

definition ping_sender :: "('s, 'x) http \<Rightarrow> ('s, unit) cmd" where
  "ping_sender W = bind_cmd (answer TransactionFailed (hc_get W SENDER_ENDPOINT_EWR_PING [] [])) (\<lambda>_. ret ())"

section \<open>Simulation\<close>

definition simulated :: "('s, 'x) node \<Rightarrow> 'x transaction \<Rightarrow> ('s, unit) cmd" where
  "simulated N tx =
     bind_cmd (answer RpcFailed (nd_simulate N tx)) (\<lambda>r.
     case sim_err r of Some _ \<Rightarrow> fail (Bailed ''Simulation failed'') | None \<Rightarrow> ret ())"

definition simulate_transaction_core :: "('s, 'x) node \<Rightarrow> pubkey \<Rightarrow> 'x tx_instruction list \<Rightarrow> nat option \<Rightarrow> u64 option
    \<Rightarrow> ('s, unit) cmd" where
  "simulate_transaction_core N payer ixs limit price =
     bind_cmd (answer RpcFailed (nd_blockhash N)) (\<lambda>blockhash.
     simulated N (legacy_tx payer blockhash (core_parts ixs limit price)))"

definition simulate_transaction_sender :: "('s, 'x) node \<Rightarrow> pubkey \<Rightarrow> 'x tx_instruction list \<Rightarrow> nat option \<Rightarrow> u64 option
    \<Rightarrow> bool \<Rightarrow> ('s, unit) cmd" where
  "simulate_transaction_sender N payer ixs limit price swqos_only =
     bind_cmd (answer RpcFailed (nd_blockhash N)) (\<lambda>blockhash.
     simulated N (legacy_tx payer blockhash (sender_parts payer ixs limit price swqos_only)))"

text \<open>Unlike the other two, this one prints the error of the simulation and succeeds.\<close>

definition simulate_transaction :: "('s, 'x) node \<Rightarrow> pubkey \<Rightarrow> 'x tx_instruction list \<Rightarrow> ('s, unit) cmd" where
  "simulate_transaction N payer ixs =
     bind_cmd (answer RpcFailed (nd_blockhash N)) (\<lambda>blockhash.
     bind_cmd (answer RpcFailed (nd_simulate N (legacy_tx payer blockhash (map Part ixs)))) (\<lambda>_. ret ()))"

section \<open>Lookup tables and parallel submission\<close>

definition submit_transaction_with_address_lookup_tables :: "('s, 'x) node \<Rightarrow> pubkey \<Rightarrow> 'x tx_instruction list
    \<Rightarrow> lookup_table list \<Rightarrow> ('s, signature) cmd" where
  "submit_transaction_with_address_lookup_tables N payer ixs tables =
     bind_cmd (answer RpcFailed (nd_blockhash N)) (\<lambda>blockhash.
     bind_cmd (some_or (Bailed ''compile'') (nd_compile N payer (map Part ixs) tables blockhash)) (\<lambda>tx.
     answer TransactionFailed (nd_send_and_confirm N tx)))"

text \<open>Tables that cannot be read or parsed are left out.\<close>

fun get_address_lookup_table_accounts :: "('s, 'x) node \<Rightarrow> pubkey list \<Rightarrow> ('s, lookup_table list) cmd" where
  "get_address_lookup_table_accounts N [] = ret []"
| "get_address_lookup_table_accounts N (key # keys) =
     bind_cmd (attempt (answer RpcFailed (nd_table N key))) (\<lambda>account.
     bind_cmd (get_address_lookup_table_accounts N keys) (\<lambda>rest.
     ret (case account of Inr (Some addresses) \<Rightarrow> (key, addresses) # rest | _ \<Rightarrow> rest)))"

definition send_and_confirm_in_parallel :: "('s, 'x) node \<Rightarrow> pubkey \<Rightarrow> 'x tx_instruction list list
    \<Rightarrow> ('s, string option list) cmd" where
  "send_and_confirm_in_parallel N payer batches =
     answer TransactionFailed (nd_parallel N (Some 10) (map (\<lambda>ixs. (payer, map Part ixs)) batches))"

end
