(* ===== verification/CliJupiter.thy ===== *)
theory CliJupiter
  imports CliTransport
begin

text \<open>
  The client of the swap router (\<open>src/cli/src/jupiter.rs\<close>): the request for a quote and the parsing of
  the answer into instructions and lookup tables. The textual forms of keys and of bytes are
  parameters (\<open>codecs\<close>); the keys of a JSON object are distinct. A lookup table map is iterated in the order of the answer; the source
  leaves that order open.
\<close>

section \<open>The request\<close>

record codecs =
  cd_show :: "pubkey \<Rightarrow> string"
  cd_pubkey :: "string \<Rightarrow> pubkey option"
  cd_base64 :: "string \<Rightarrow> byte list option"

record jupiter_client =
  jc_base_url :: string
  jc_api_key :: string

definition DEFAULT_BASE_URL :: string where "DEFAULT_BASE_URL = ''https://proxy.godl.dev/api.jup.ag/swap/v2''"
definition MAX_ACCOUNTS :: nat where "MAX_ACCOUNTS = 55"

definition WSOL_MINT :: pubkey where "WSOL_MINT = base58 ''So11111111111111111111111111111111111111112''"

text \<open>\<open>trim_end_matches('/')\<close>\<close>

definition trim_slashes :: "string \<Rightarrow> string" where
  "trim_slashes s = rev (dropWhile (\<lambda>c. c = CHR ''/'') (rev s))"

definition new_jupiter_client :: "string \<Rightarrow> string \<Rightarrow> jupiter_client" where
  "new_jupiter_client base_url api_key = \<lparr>jc_base_url = trim_slashes base_url, jc_api_key = api_key\<rparr>"

text \<open>Decimal digits, as \<open>to_string\<close> of an unsigned integer.\<close>

fun decimal :: "nat \<Rightarrow> string" where
  "decimal n = (if n < 10 then [] else decimal (n div 10)) @ [char_of (48 + n mod 10)]"

declare decimal.simps [simp del]

definition swap_query :: "codecs \<Rightarrow> pubkey \<Rightarrow> pubkey \<Rightarrow> u64 \<Rightarrow> pubkey \<Rightarrow> string option \<Rightarrow> (string \<times> string) list" where
  "swap_query C taker payer amount output_mint dexes =
     [(''inputMint'', cd_show C WSOL_MINT), (''outputMint'', cd_show C output_mint), (''amount'', decimal amount),
      (''taker'', cd_show C taker), (''payer'', cd_show C payer), (''maxAccounts'', decimal MAX_ACCOUNTS),
      (''slippageBps'', ''rtse''), (''wrapAndUnwrapSol'', ''false'')]
     @ (case dexes of Some d \<Rightarrow> [(''dexes'', d)] | None \<Rightarrow> [])"

section \<open>The answer\<close>

record api_account =
  aa_pubkey :: string
  aa_is_writable :: bool
  aa_is_signer :: bool

record api_instruction =
  ap_program_id :: string
  ap_accounts :: "api_account list"
  ap_data :: string

record build_response =
  br_setup :: "api_instruction list"
  br_swap :: api_instruction
  br_cleanup :: "api_instruction option"
  br_tables :: "(string \<times> string list) list option"

text \<open>Deserialization as \<open>serde\<close> derives it: keys in camel case, unknown keys ignored, a missing
  field an error unless it has a default, and \<open>null\<close> the absence of an optional field.\<close>

fun json_bool :: "json \<Rightarrow> bool option" where
  "json_bool (JBool b) = Some b"
| "json_bool _ = None"

fun json_list :: "(json \<Rightarrow> 'a option) \<Rightarrow> json \<Rightarrow> 'a list option" where
  "json_list f (JArray xs) = those (map f xs)"
| "json_list f _ = None"

fun json_map :: "(json \<Rightarrow> 'a option) \<Rightarrow> json \<Rightarrow> (string \<times> 'a) list option" where
  "json_map f (JObject kvs) = those (map (\<lambda>(k, v). map_option (Pair k) (f v)) kvs)"
| "json_map f _ = None"

fun json_opt :: "(json \<Rightarrow> 'a option) \<Rightarrow> json option \<Rightarrow> 'a option option" where
  "json_opt f None = Some None"
| "json_opt f (Some JNull) = Some None"
| "json_opt f (Some v) = map_option Some (f v)"

definition api_account_of_json :: "json \<Rightarrow> api_account option" where
  "api_account_of_json v =
     Option.bind (Option.bind (json_get ''pubkey'' v) json_str) (\<lambda>p.
     Option.bind (Option.bind (json_get ''isWritable'' v) json_bool) (\<lambda>w.
     Option.bind (Option.bind (json_get ''isSigner'' v) json_bool) (\<lambda>s.
     Some \<lparr>aa_pubkey = p, aa_is_writable = w, aa_is_signer = s\<rparr>)))"

definition api_instruction_of_json :: "json \<Rightarrow> api_instruction option" where
  "api_instruction_of_json v =
     Option.bind (Option.bind (json_get ''programId'' v) json_str) (\<lambda>p.
     Option.bind (Option.bind (json_get ''accounts'' v) (json_list api_account_of_json)) (\<lambda>a.
     Option.bind (Option.bind (json_get ''data'' v) json_str) (\<lambda>d.
     Some \<lparr>ap_program_id = p, ap_accounts = a, ap_data = d\<rparr>)))"

definition build_response_of_json :: "json \<Rightarrow> build_response option" where
  "build_response_of_json v =
     Option.bind (case json_get ''setupInstructions'' v of None \<Rightarrow> Some [] | Some x \<Rightarrow> json_list api_instruction_of_json x) (\<lambda>setup.
     Option.bind (Option.bind (json_get ''swapInstruction'' v) api_instruction_of_json) (\<lambda>swap.
     Option.bind (json_opt api_instruction_of_json (json_get ''cleanupInstruction'' v)) (\<lambda>cleanup.
     Option.bind (json_opt (json_map (json_list json_str)) (json_get ''addressesByLookupTableAddress'' v)) (\<lambda>tables.
     Some \<lparr>br_setup = setup, br_swap = swap, br_cleanup = cleanup, br_tables = tables\<rparr>))))"

text \<open>An instruction of another program.\<close>

record raw_instruction =
  ri_program_id :: pubkey
  ri_accounts :: "account_meta list"
  ri_data :: "byte list"

definition parse_account :: "codecs \<Rightarrow> api_account \<Rightarrow> account_meta option" where
  "parse_account C a = map_option (\<lambda>k. \<lparr>am_pubkey = k, am_is_signer = aa_is_signer a, am_is_writable = aa_is_writable a\<rparr>)
     (cd_pubkey C (aa_pubkey a))"

definition parse_instruction :: "codecs \<Rightarrow> api_instruction \<Rightarrow> raw_instruction option" where
  "parse_instruction C ix =
     Option.bind (cd_pubkey C (ap_program_id ix)) (\<lambda>p.
     Option.bind (those (map (parse_account C) (ap_accounts ix))) (\<lambda>a.
     Option.bind (cd_base64 C (ap_data ix)) (\<lambda>d.
     Some \<lparr>ri_program_id = p, ri_accounts = a, ri_data = d\<rparr>)))"

definition parse_table :: "codecs \<Rightarrow> string \<times> string list \<Rightarrow> lookup_table option" where
  "parse_table C t =
     Option.bind (cd_pubkey C (fst t)) (\<lambda>key.
     Option.bind (those (map (cd_pubkey C) (snd t))) (\<lambda>addresses. Some (key, addresses)))"

definition swap_build_of_response :: "codecs \<Rightarrow> build_response \<Rightarrow> raw_instruction swap_build option" where
  "swap_build_of_response C resp =
     Option.bind (those (map (parse_instruction C) (br_setup resp))) (\<lambda>setup_ixs.
     Option.bind (parse_instruction C (br_swap resp)) (\<lambda>swap_ix.
     Option.bind (case br_cleanup resp of None \<Rightarrow> Some None | Some c \<Rightarrow> map_option Some (parse_instruction C c)) (\<lambda>cleanup_ix.
     Option.bind (those (map (parse_table C) (case br_tables resp of None \<Rightarrow> [] | Some ts \<Rightarrow> ts))) (\<lambda>lut_accounts.
     Some \<lparr>sb_setup = setup_ixs, sb_swap_accounts = ri_accounts swap_ix, sb_swap_data = ri_data swap_ix,
           sb_cleanup = cleanup_ix, sb_lut_accounts = lut_accounts\<rparr>))))"

definition build_sol_swap :: "('s, 'x) http \<Rightarrow> codecs \<Rightarrow> jupiter_client \<Rightarrow> pubkey \<Rightarrow> pubkey \<Rightarrow> u64 \<Rightarrow> pubkey
    \<Rightarrow> string option \<Rightarrow> ('s, raw_instruction swap_build) cmd" where
  "build_sol_swap W C J taker payer amount output_mint dexes =
     bind_cmd (answer RpcFailed (hc_get W (jc_base_url J @ ''/build'') [(''x-api-key'', jc_api_key J)]
         (swap_query C taker payer amount output_mint dexes))) (\<lambda>(status, body).
     bind_cmd (require (200 \<le> status \<and> status < 300) (Bailed ''/build request failed'')) (\<lambda>_.
     bind_cmd (some_or (Bailed ''build response'') (Option.bind body build_response_of_json)) (\<lambda>resp.
     some_or (Bailed ''build response'') (swap_build_of_response C resp))))"

section \<open>The router of the commands\<close>

definition GODL_LUT :: pubkey where "GODL_LUT = base58 ''CWD8mcpi4QFPZfhgG46cmcytShfEMXWF2gHDjVKaYFce''"

definition quiet :: "('s, 'a) cmd \<Rightarrow> 's \<Rightarrow> 'a option \<times> 's" where
  "quiet m s = (case m s of (Inl _, s') \<Rightarrow> (None, s') | (Inr x, s') \<Rightarrow> (Some x, s'))"

text \<open>Sending a swap: the program's own lookup table in front of those of the quote.\<close>

definition submit_swap :: "('s, raw_instruction) node \<Rightarrow> pubkey \<Rightarrow> lookup_table list \<Rightarrow> raw_instruction tx_instruction list
    \<Rightarrow> ('s, signature) cmd" where
  "submit_swap N payer tables ixs =
     bind_cmd (get_address_lookup_table_accounts N [GODL_LUT]) (\<lambda>lut_accounts.
     submit_transaction_with_address_lookup_tables N payer ixs (lut_accounts @ tables))"

definition jupiter_router :: "('s, raw_instruction) node \<Rightarrow> ('s, 'x) http \<Rightarrow> codecs \<Rightarrow> jupiter_client \<Rightarrow> pubkey
    \<Rightarrow> ('s, raw_instruction) router" where
  "jupiter_router N W C J signer = \<lparr>
     j_build = (\<lambda>taker payer amount output_mint dexes. quiet (build_sol_swap W C J taker payer amount output_mint dexes)),
     j_send = (\<lambda>tables ixs. quiet (bind_cmd (submit_swap N signer tables ixs) (\<lambda>_. ret ())))\<rparr>"

end
