(* ===== verification/CliStake.thy ===== *)
theory CliStake
  imports Rpc
begin

text \<open>
  Stake maintenance from the command line: \<open>src/cli/src/commands/stake_weight.rs\<close> (audit of
  \<open>total_staked\<close>, sweep of the weight migration, rebase), \<open>stake_v2.rs\<close>, and the two clean-ups of
  exploit-era stakes in \<open>admin.rs\<close>.
\<close>

section \<open>The weight audit\<close>

record weight_audit =
  wa_total_staked :: u64
  wa_true_sum :: u128
  wa_all_linear :: u128
  wa_all_sqrt :: u128
  wa_n_v0 :: nat
  wa_n_v1 :: nat
  wa_n_legacy :: nat

text \<open>\<open>weight_as\<close>; its \<open>expect\<close> aborts the command.\<close>

definition weight_as :: "'n stake_v2 \<Rightarrow> nat \<Rightarrow> u128 result" where
  "weight_as stake version = weighted_units (stake\<lparr>sv_weight_version := version\<rparr>)"

fun audit_stakes :: "'n stake_v2 list \<Rightarrow> weight_audit \<Rightarrow> weight_audit result" where
  "audit_stakes [] a = Inr a"
| "audit_stakes (s # rest) a =
     and_then (weighted_units s) (\<lambda>w.
     and_then (weight_as s 0) (\<lambda>linear.
     and_then (weight_as s 1) (\<lambda>sqrt_weight.
     audit_stakes rest (a\<lparr>wa_true_sum := wa_true_sum a + w, wa_all_linear := wa_all_linear a + linear,
       wa_all_sqrt := wa_all_sqrt a + sqrt_weight,
       wa_n_v0 := wa_n_v0 a + (if sv_weight_version s = 0 then 1 else 0),
       wa_n_v1 := wa_n_v1 a + (if sv_weight_version s = 0 then 0 else 1)\<rparr>))))"

definition weigh :: "'n treasury \<Rightarrow> 'n stake_v2 list \<Rightarrow> 'n stake list \<Rightarrow> weight_audit result" where
  "weigh treasury stakes legacy =
     (let legacy_balance = sum_list (map st_balance legacy)
      in audit_stakes stakes \<lparr>wa_total_staked = tr_total_staked treasury, wa_true_sum = legacy_balance,
           wa_all_linear = legacy_balance, wa_all_sqrt = legacy_balance, wa_n_v0 = 0, wa_n_v1 = 0,
           wa_n_legacy = length legacy\<rparr>)"

definition audit_weights :: "'n host \<Rightarrow> ('s, 'n) rpc \<Rightarrow> ('s, weight_audit) cmd" where
  "audit_weights H R =
     bind_cmd (rpc_treasury H R) (\<lambda>treasury.
     bind_cmd (get_program_accounts R KStakeV2 get_stake_v2) (\<lambda>stakes.
     bind_cmd (get_program_accounts R KStake get_stake) (\<lambda>legacy.
     or_abort (weigh treasury (map snd stakes) (map snd legacy)))))"

definition weight_drift :: "weight_audit \<Rightarrow> int" where
  "weight_drift a = int (wa_total_staked a) - int (wa_true_sum a)"

definition verify_stake_weights :: "'n host \<Rightarrow> ('s, 'n) rpc \<Rightarrow> ('s, unit) cmd" where
  "verify_stake_weights H R =
     bind_cmd (audit_weights H R) (\<lambda>a.
     if weight_drift a = 0 then ret () else fail (Bailed ''invariant violated''))"

section \<open>The migration sweep\<close>

text \<open>One turn of the loop; \<open>continue\<close> gets the addresses still at weight version 0.\<close>

definition migrate_pass :: "'n host \<Rightarrow> ('s, 'n) rpc \<Rightarrow> bool \<Rightarrow> (pubkey list \<Rightarrow> ('s, unit) cmd) \<Rightarrow> ('s, unit) cmd" where
  "migrate_pass H R dry_run continue =
     bind_cmd (get_program_accounts R KStakeV2 get_stake_v2) (\<lambda>stakes.
     let v0 = map fst (filter (\<lambda>(_, s). sv_weight_version s = 0) stakes) in
     if v0 = [] then verify_stake_weights H R
     else if dry_run then ret ()
     else continue v0)"

definition migrate_batches :: "'n host \<Rightarrow> client \<Rightarrow> pubkey \<Rightarrow> pubkey list \<Rightarrow> instruction list list" where
  "migrate_batches H E payer v0 = map (map (migrate_stake_weight H E payer)) (chunks 10 v0)"

text \<open>The loop, with the number of passes left; a failed submission only starts the next pass.\<close>

primrec migrate_loop :: "'n host \<Rightarrow> ('s, 'n) rpc \<Rightarrow> client \<Rightarrow> pubkey \<Rightarrow> bool \<Rightarrow> nat \<Rightarrow> ('s, unit) cmd" where
  "migrate_loop H R E payer dry_run 0 =
     migrate_pass H R dry_run (\<lambda>v0. fail (Bailed ''accounts still unmigrated''))"
| "migrate_loop H R E payer dry_run (Suc left) =
     migrate_pass H R dry_run (\<lambda>v0.
       bind_cmd (attempt (submit_parallel R (migrate_batches H E payer v0))) (\<lambda>_.
       migrate_loop H R E payer dry_run left))"

definition migrate_stakes :: "'n host \<Rightarrow> ('s, 'n) rpc \<Rightarrow> client \<Rightarrow> pubkey \<Rightarrow> bool \<Rightarrow> ('s, unit) cmd" where
  "migrate_stakes H R E payer dry_run = migrate_loop H R E payer dry_run 10"

section \<open>Rebase\<close>

primrec rebase_attempts :: "'n host \<Rightarrow> ('s, 'n) rpc \<Rightarrow> client \<Rightarrow> pubkey \<Rightarrow> bool \<Rightarrow> nat \<Rightarrow> ('s, unit) cmd" where
  "rebase_attempts H R E payer dry_run 0 = fail (Bailed ''rebase failed'')"
| "rebase_attempts H R E payer dry_run (Suc left) =
     bind_cmd (audit_weights H R) (\<lambda>a.
     bind_cmd (rpc_treasury H R) (\<lambda>after.
     if wa_total_staked a \<noteq> tr_total_staked after then rebase_attempts H R E payer dry_run left
     else
       let expected = wa_total_staked a in
       bind_cmd (require (wa_true_sum a \<le> u64_max) Overflowed) (\<lambda>_.
       let new_value = wa_true_sum a in
       if dry_run then ret ()
       else if wa_n_v0 a > 0 then fail (Bailed ''run migrate-stakes to completion first'')
       else
         bind_cmd (attempt (submit_transaction R [rebase_total_staked H E payer expected new_value])) (\<lambda>sent.
         case sent of Inr _ \<Rightarrow> ret () | Inl _ \<Rightarrow> rebase_attempts H R E payer dry_run left))))"

definition rebase_total_staked_cmd :: "'n host \<Rightarrow> ('s, 'n) rpc \<Rightarrow> client \<Rightarrow> pubkey \<Rightarrow> bool \<Rightarrow> ('s, unit) cmd" where
  "rebase_total_staked_cmd H R E payer dry_run = rebase_attempts H R E payer dry_run 5"

section \<open>Exploit-era stakes\<close>

definition is_phantom :: "'n host \<Rightarrow> pubkey \<times> 'n stake_v2 \<Rightarrow> bool" where
  "is_phantom H a = (fst a \<noteq> stake_v2_pda H (sv_authority (snd a)) (sv_id (snd a)))"

definition reconcile_phantom_stakes :: "'n host \<Rightarrow> ('s, 'n) rpc \<Rightarrow> client \<Rightarrow> pubkey \<Rightarrow> bool \<Rightarrow> ('s, unit) cmd" where
  "reconcile_phantom_stakes H R E payer dry_run =
     bind_cmd (get_program_accounts R KStakeV2 get_stake_v2) (\<lambda>stakes.
     let phantom = map fst (filter (is_phantom H) stakes) in
     if dry_run then ret ()
     else bind_cmd (submit_parallel R (map (map (reconcile_stake_v2 H E payer)) (chunks 10 phantom))) (\<lambda>_. ret ()))"

definition close_phantom_stakes :: "'n host \<Rightarrow> ('s, 'n) rpc \<Rightarrow> client \<Rightarrow> pubkey \<Rightarrow> bool \<Rightarrow> ('s, unit) cmd" where
  "close_phantom_stakes H R E payer dry_run =
     bind_cmd (get_program_accounts R KStakeV2 get_stake_v2) (\<lambda>stakes.
     let closable = map fst (filter (\<lambda>a. is_phantom H a \<and> sv_balance (snd a) = 0) stakes) in
     if dry_run then ret ()
     else bind_cmd (submit_parallel R (map (map (close_phantom_stake_v2 H E payer)) (chunks 10 closable))) (\<lambda>_. ret ()))"

section \<open>Single stakes\<close>

definition close_stake :: "'n host \<Rightarrow> ('s, 'n) rpc \<Rightarrow> client \<Rightarrow> pubkey \<Rightarrow> u64 \<Rightarrow> ('s, unit) cmd" where
  "close_stake H R E payer sid = submit_transaction R [close_stake_v2 H E payer sid]"

definition merge_stake :: "'n host \<Rightarrow> ('s, 'n) rpc \<Rightarrow> client \<Rightarrow> pubkey \<Rightarrow> u64 \<Rightarrow> u64 \<Rightarrow> ('s, unit) cmd" where
  "merge_stake H R E payer target_id source_id = submit_transaction R [merge_stake_v2 H E payer target_id source_id]"

end
