(* ===== verification/CliMining.thy ===== *)
theory CliMining
  imports Rpc
begin

text \<open>
  Mining commands of the command line client: \<open>src/cli/src/commands/mining.rs\<close> (claims, the
  checkpoint and closing bots), \<open>deploy.rs\<close>, \<open>referral.rs\<close>.
\<close>

section \<open>Claims and deployment\<close>

text \<open>A miner account that cannot be loaded counts as one without a referrer.\<close>

definition claim_cmd :: "'n host \<Rightarrow> ('s, 'n) rpc \<Rightarrow> client \<Rightarrow> pubkey \<Rightarrow> ('s, unit) cmd" where
  "claim_cmd H R E payer =
     bind_cmd (attempt (rpc_miner H R payer)) (\<lambda>loaded.
     let chosen = (case loaded of
         Inr miner \<Rightarrow> if mn_referrer miner \<noteq> pubkey_default \<and> mn_referrer miner \<noteq> REFERRER_LOCKED_SENTINEL
                     then Some (mn_referrer miner) else None
       | Inl _ \<Rightarrow> None) in
     submit_transaction R [claim_sol_with_referrer H E payer chosen, claim_godl_with_referrer H E payer chosen])"

text \<open>\<open>checkpoint_with_miner_extended\<close> needs the extended account, so it is created first when missing.\<close>

definition checkpoint_cmd :: "'n host \<Rightarrow> ('s, 'n) rpc \<Rightarrow> client \<Rightarrow> pubkey \<Rightarrow> pubkey option \<Rightarrow> ('s, unit) cmd" where
  "checkpoint_cmd H R E payer chosen =
     (let authority = (case chosen of Some a \<Rightarrow> a | None \<Rightarrow> payer) in
      bind_cmd (rpc_miner H R authority) (\<lambda>miner.
      bind_cmd (rpc_miner_extended H R authority) (\<lambda>extended.
      submit_transaction R
        ((if extended = None then [create_miner_extended H E payer authority] else [])
         @ [checkpoint_with_miner_extended H E payer authority (mn_round_id miner)]))))"

definition checkpoint_before_deploy :: "'n host \<Rightarrow> ('s, 'n) rpc \<Rightarrow> client \<Rightarrow> pubkey \<Rightarrow> ('s, instruction list) cmd" where
  "checkpoint_before_deploy H R E payer =
     bind_cmd (attempt (rpc_miner H R payer)) (\<lambda>loaded.
     case loaded of
       Inl _ \<Rightarrow> ret []
     | Inr miner \<Rightarrow>
         bind_cmd (rpc_miner_extended H R payer) (\<lambda>extended.
         ret ((if extended = None then [create_miner_extended H E payer payer] else [])
              @ [checkpoint_with_miner_extended H E payer payer (mn_round_id miner)])))"

definition deploy_cmd :: "'n host \<Rightarrow> ('s, 'n) rpc \<Rightarrow> client \<Rightarrow> pubkey \<Rightarrow> u64 \<Rightarrow> u64 \<Rightarrow> bool \<Rightarrow> ('s, unit) cmd" where
  "deploy_cmd H R E payer amount square_id pooled =
     (if square_id \<ge> 25 then fail (Bailed ''Square index must be between 0 and 24 inclusive'')
      else
        bind_cmd (rpc_board H R) (\<lambda>board.
        bind_cmd (rpc_config H R) (\<lambda>config.
        bind_cmd (checkpoint_before_deploy H R E payer) (\<lambda>ixs.
        submit_transaction R (ixs @ [deploy_with_miner_extended H E payer payer (cfg_var_address config) amount
          (board_round_id board) ((replicate 25 False)[square_id := True]) pooled])))))"

definition deploy_all_cmd :: "'n host \<Rightarrow> ('s, 'n) rpc \<Rightarrow> client \<Rightarrow> pubkey \<Rightarrow> u64 \<Rightarrow> bool \<Rightarrow> ('s, unit) cmd" where
  "deploy_all_cmd H R E payer amount pooled =
     bind_cmd (rpc_board H R) (\<lambda>board.
     bind_cmd (rpc_config H R) (\<lambda>config.
     bind_cmd (checkpoint_before_deploy H R E payer) (\<lambda>ixs.
     submit_transaction R (ixs @ [deploy_with_miner_extended H E payer payer (cfg_var_address config) amount
       (board_round_id board) (replicate 25 True) pooled]))))"

section \<open>The checkpoint bots\<close>

text \<open>Authorities that already have an extended account.\<close>

definition existing_extended :: "('s, 'n) rpc \<Rightarrow> ('s, pubkey list) cmd" where
  "existing_extended R = bind_cmd (rpc_miner_extendeds R) (\<lambda>xs. ret (map (mx_authority \<circ> snd) xs))"

text \<open>The instructions for one miner whose round expires at \<open>expires_at\<close>: from twelve hours before
  expiry on, a checkpoint.\<close>

definition checkpoint_ixs :: "'n host \<Rightarrow> client \<Rightarrow> pubkey \<Rightarrow> pubkey list \<Rightarrow> u64 \<Rightarrow> u64 \<Rightarrow> 'n miner \<Rightarrow> instruction list" where
  "checkpoint_ixs H E payer extended slot expires_at miner =
     (let fee_start_slot = saturating_sub expires_at TWELVE_HOURS_SLOTS in
      if slot \<ge> fee_start_slot then
        (if mn_authority miner \<notin> set extended then [create_miner_extended H E payer (mn_authority miner)] else [])
        @ [checkpoint_with_miner_extended H E payer (mn_authority miner) (mn_round_id miner)]
      else [])"

text \<open>\<open>checkpoint_all\<close> asks for each round when it first needs it; a round it cannot load is skipped.\<close>

fun checkpoint_all_ixs :: "'n host \<Rightarrow> ('s, 'n) rpc \<Rightarrow> client \<Rightarrow> pubkey \<Rightarrow> pubkey list \<Rightarrow> u64 \<Rightarrow> (u64 \<rightharpoonup> u64)
    \<Rightarrow> 'n miner list \<Rightarrow> ('s, instruction list) cmd" where
  "checkpoint_all_ixs H R E payer extended slot expiry [] = ret []"
| "checkpoint_all_ixs H R E payer extended slot expiry (miner # rest) =
     (if mn_checkpoint_id miner < mn_round_id miner then
        bind_cmd (case expiry (mn_round_id miner) of
            Some _ \<Rightarrow> ret expiry
          | None \<Rightarrow> bind_cmd (attempt (rpc_round H R (mn_round_id miner))) (\<lambda>loaded.
              ret (case loaded of Inr r \<Rightarrow> expiry(mn_round_id miner \<mapsto> rnd_expires_at r) | Inl _ \<Rightarrow> expiry))) (\<lambda>expiry.
        bind_cmd (checkpoint_all_ixs H R E payer extended slot expiry rest) (\<lambda>more.
        ret ((case expiry (mn_round_id miner) of
            None \<Rightarrow> []
          | Some expires_at \<Rightarrow> checkpoint_ixs H E payer extended slot expires_at miner) @ more)))
      else checkpoint_all_ixs H R E payer extended slot expiry rest)"

definition checkpoint_all_cmd :: "'n host \<Rightarrow> ('s, 'n) rpc \<Rightarrow> client \<Rightarrow> pubkey \<Rightarrow> ('s, unit) cmd" where
  "checkpoint_all_cmd H R E payer =
     bind_cmd (rpc_clock R) (\<lambda>(slot, _).
     bind_cmd (rpc_miners R) (\<lambda>miners.
     bind_cmd (existing_extended R) (\<lambda>extended.
     bind_cmd (checkpoint_all_ixs H R E payer extended slot Map.empty (map snd miners)) (\<lambda>ixs.
     submit_each R (chunks 10 ixs)))))"

text \<open>\<open>checkpoint_rounds\<close> loads all rounds at once and sends its batches in parallel.\<close>

definition expiry_of :: "round list \<Rightarrow> u64 \<rightharpoonup> u64" where
  "expiry_of rounds = fold (\<lambda>r m. m(rnd_id r \<mapsto> rnd_expires_at r)) rounds Map.empty"

definition checkpoint_rounds_ixs :: "'n host \<Rightarrow> client \<Rightarrow> pubkey \<Rightarrow> pubkey list \<Rightarrow> u64 \<Rightarrow> round list \<Rightarrow> 'n miner list
    \<Rightarrow> instruction list" where
  "checkpoint_rounds_ixs H E payer extended slot rounds miners =
     concat (map (\<lambda>miner.
       if mn_checkpoint_id miner \<ge> mn_round_id miner then []
       else case expiry_of rounds (mn_round_id miner) of
         None \<Rightarrow> []
       | Some expires_at \<Rightarrow> checkpoint_ixs H E payer extended slot expires_at miner) miners)"

definition submit_all_parallel :: "('s, 'n) rpc \<Rightarrow> instruction list \<Rightarrow> ('s, unit) cmd" where
  "submit_all_parallel R ixs =
     bind_cmd (submit_parallel R (chunks 6 ixs)) (\<lambda>results.
     if \<exists>ok\<in>set results. \<not> ok then fail (Bailed ''some transactions failed'') else ret ())"

definition checkpoint_rounds_cmd :: "'n host \<Rightarrow> ('s, 'n) rpc \<Rightarrow> client \<Rightarrow> pubkey \<Rightarrow> ('s, unit) cmd" where
  "checkpoint_rounds_cmd H R E payer =
     bind_cmd (rpc_clock R) (\<lambda>(slot, _).
     bind_cmd (rpc_miners R) (\<lambda>miners.
     bind_cmd (existing_extended R) (\<lambda>extended.
     bind_cmd (rpc_rounds R) (\<lambda>rounds.
     submit_all_parallel R (checkpoint_rounds_ixs H E payer extended slot (map snd rounds) (map snd miners))))))"

section \<open>The closing bots\<close>

definition close_all_cmd :: "'n host \<Rightarrow> ('s, 'n) rpc \<Rightarrow> client \<Rightarrow> pubkey \<Rightarrow> ('s, unit) cmd" where
  "close_all_cmd H R E payer =
     bind_cmd (rpc_rounds R) (\<lambda>rounds.
     bind_cmd (rpc_clock R) (\<lambda>(slot, _).
     submit_each R (chunks 12 (map (\<lambda>r. close H E payer (rnd_id r) (rnd_rent_payer r))
       (filter (\<lambda>r. slot \<ge> rnd_expires_at r) (map snd rounds))))))"

definition closable :: "pubkey \<Rightarrow> board \<Rightarrow> u64 \<Rightarrow> round \<Rightarrow> bool" where
  "closable payer board slot r \<longleftrightarrow>
     rnd_rent_payer r = payer \<and> rnd_expires_at r < slot \<and> rnd_id r < board_round_id board"

definition close_rounds_cmd :: "'n host \<Rightarrow> ('s, 'n) rpc \<Rightarrow> client \<Rightarrow> pubkey \<Rightarrow> ('s, unit) cmd" where
  "close_rounds_cmd H R E payer =
     bind_cmd (rpc_clock R) (\<lambda>(slot, _).
     bind_cmd (rpc_rounds R) (\<lambda>rounds.
     bind_cmd (rpc_board H R) (\<lambda>board.
     submit_all_parallel R (map (\<lambda>r. close H E payer (rnd_id r) payer)
       (filter (closable payer board slot) (map snd rounds))))))"

section \<open>Referral commands\<close>

definition initialize_referrer_cmd :: "'n host \<Rightarrow> ('s, 'n) rpc \<Rightarrow> client \<Rightarrow> pubkey \<Rightarrow> ('s, unit) cmd" where
  "initialize_referrer_cmd H R E payer = submit_transaction R [initialize_referrer H E payer]"

definition set_referrer_cmd :: "'n host \<Rightarrow> ('s, 'n) rpc \<Rightarrow> client \<Rightarrow> pubkey \<Rightarrow> pubkey option \<Rightarrow> ('s, unit) cmd" where
  "set_referrer_cmd H R E payer referrer_authority =
     (case referrer_authority of
        Some authority \<Rightarrow>
          bind_cmd (rpc_referrer_by_address R (referrer_pda H authority)) (\<lambda>_.
          submit_transaction R [set_referrer H E payer (Some (referrer_pda H authority))])
      | None \<Rightarrow> submit_transaction R [set_referrer H E payer None])"

definition claim_referral_cmd :: "'n host \<Rightarrow> ('s, 'n) rpc \<Rightarrow> client \<Rightarrow> pubkey \<Rightarrow> ('s, unit) cmd" where
  "claim_referral_cmd H R E payer = submit_transaction R [claim_referral H E payer]"

end
