(* ===== verification/CliAdmin.thy ===== *)
theory CliAdmin
  imports CliStake CliMining CliGold
begin

text \<open>
  Administration from the command line (\<open>src/cli/src/commands/admin.rs\<close>).
\<close>

section \<open>Administration\<close>

definition set_admin_cmd :: "'n host \<Rightarrow> ('s, 'n) rpc \<Rightarrow> client \<Rightarrow> pubkey \<Rightarrow> ('s, unit) cmd" where
  "set_admin_cmd H R E payer = submit_transaction R [set_admin H E payer payer]"

definition set_fee_collector_cmd :: "'n host \<Rightarrow> ('s, 'n) rpc \<Rightarrow> client \<Rightarrow> pubkey \<Rightarrow> pubkey \<Rightarrow> ('s, unit) cmd" where
  "set_fee_collector_cmd H R E payer fee_collector = submit_transaction R [set_fee_collector H E payer fee_collector]"

definition set_swap_program_cmd :: "'n host \<Rightarrow> ('s, 'n) rpc \<Rightarrow> client \<Rightarrow> pubkey \<Rightarrow> pubkey \<Rightarrow> ('s, unit) cmd" where
  "set_swap_program_cmd H R E payer swap_program = submit_transaction R [set_swap_program H E payer swap_program]"

definition set_motherlode_denominator_cmd :: "'n host \<Rightarrow> ('s, 'n) rpc \<Rightarrow> client \<Rightarrow> pubkey \<Rightarrow> u64 \<Rightarrow> ('s, unit) cmd" where
  "set_motherlode_denominator_cmd H R E payer d = submit_transaction R [set_motherlode_denominator H E payer d]"

definition set_godl_per_round_cmd :: "'n host \<Rightarrow> ('s, 'n) rpc \<Rightarrow> client \<Rightarrow> pubkey \<Rightarrow> u64 \<Rightarrow> ('s, unit) cmd" where
  "set_godl_per_round_cmd H R E payer g = submit_transaction R [set_godl_per_round H E payer g]"

text \<open>An omitted value keeps the current one; a config that cannot be parsed is on the old layout and
  counts as having the compiled-in defaults.\<close>

definition update_protocol_config_cmd :: "'n host \<Rightarrow> ('s, 'n) rpc \<Rightarrow> client \<Rightarrow> pubkey \<Rightarrow> u64 option \<Rightarrow> u64 option
    \<Rightarrow> ('s, unit) cmd" where
  "update_protocol_config_cmd H R E payer round_slots intermission_slots =
     (\<lambda>s. case r_account R (config_pda H) s of
        (Inl _, s') \<Rightarrow> (Inl RpcFailed, s')
      | (Inr data, s') \<Rightarrow>
          let (current_round_slots, current_intermission_slots) =
            (case get_config data of
               Some config \<Rightarrow> (config_round_slots config, config_intermission_slots config)
             | None \<Rightarrow> (ROUND_SLOTS, INTERMISSION_SLOTS));
            new_round_slots = (case round_slots of Some n \<Rightarrow> n | None \<Rightarrow> current_round_slots);
            new_intermission_slots =
              (case intermission_slots of Some n \<Rightarrow> n | None \<Rightarrow> current_intermission_slots)
          in submit_transaction R [update_protocol_config H E payer new_round_slots new_intermission_slots] s')"

definition set_var_address_cmd :: "'n host \<Rightarrow> ('s, 'n) rpc \<Rightarrow> client \<Rightarrow> pubkey \<Rightarrow> pubkey \<Rightarrow> ('s, unit) cmd" where
  "set_var_address_cmd H R E payer new_var_address = submit_transaction R [set_var_address H E payer new_var_address]"

definition new_var_cmd :: "'n host \<Rightarrow> ('s, 'n) rpc \<Rightarrow> client \<Rightarrow> pubkey \<Rightarrow> pubkey \<Rightarrow> byte list \<Rightarrow> u64 \<Rightarrow> ('s, unit) cmd" where
  "new_var_cmd H R E payer provider commit samples = submit_transaction R [new_var H E payer provider 0 commit samples]"

definition withdraw_vault_cmd :: "'n host \<Rightarrow> ('s, 'n) rpc \<Rightarrow> client \<Rightarrow> pubkey \<Rightarrow> u64 \<Rightarrow> ('s, unit) cmd" where
  "withdraw_vault_cmd H R E payer amount = submit_transaction R [withdraw_vault H E payer amount]"

definition withdraw_sol_otc_cmd :: "'n host \<Rightarrow> ('s, 'n) rpc \<Rightarrow> client \<Rightarrow> pubkey \<Rightarrow> ('s, unit) cmd" where
  "withdraw_sol_otc_cmd H R E payer = submit_transaction R [withdraw_sol_otc H E payer]"

definition inject_godl_motherlode_cmd :: "'n host \<Rightarrow> ('s, 'n) rpc \<Rightarrow> client \<Rightarrow> 'f floats \<Rightarrow> pubkey \<Rightarrow> 'f \<Rightarrow> ('s, unit) cmd" where
  "inject_godl_motherlode_cmd H R E F payer amount =
     submit_transaction R [inject_godl_motherlode H E payer (fl_ui_amount F amount TOKEN_DECIMALS)]"

definition inject_unrefined_rewards_cmd :: "'n host \<Rightarrow> ('s, 'n) rpc \<Rightarrow> client \<Rightarrow> 'f floats \<Rightarrow> pubkey \<Rightarrow> pubkey \<Rightarrow> 'f
    \<Rightarrow> ('s, unit) cmd" where
  "inject_unrefined_rewards_cmd H R E F payer authority amount =
     submit_transaction R [inject_unrefined_rewards H E payer authority (fl_ui_amount F amount TOKEN_DECIMALS)]"

definition initialize_sol_motherlode_cmd :: "'n host \<Rightarrow> ('s, 'n) rpc \<Rightarrow> client \<Rightarrow> pubkey \<Rightarrow> ('s, unit) cmd" where
  "initialize_sol_motherlode_cmd H R E payer = submit_transaction R [initialize_sol_motherlode H E payer]"

definition transfer_mint_authority_cmd :: "'n host \<Rightarrow> ('s, 'n) rpc \<Rightarrow> client \<Rightarrow> pubkey \<Rightarrow> ('s, unit) cmd" where
  "transfer_mint_authority_cmd H R E payer = submit_transaction R [transfer_mint_authority H E payer]"

definition top_up_stake_cmd :: "'n host \<Rightarrow> ('s, 'n) rpc \<Rightarrow> client \<Rightarrow> 'f floats \<Rightarrow> pubkey \<Rightarrow> u64 \<Rightarrow> 'f \<Rightarrow> ('s, unit) cmd" where
  "top_up_stake_cmd H R E F payer sid amount =
     submit_transaction R [top_up_stake_v2 H E payer sid (fl_ui_amount F amount TOKEN_DECIMALS)]"

end
