(* ===== verification/CliTools.thy ===== *)
theory CliTools
  imports CliJupiter CliAdmin
begin

text \<open>
  Operations on accounts of other programs from the command line: lookup tables and token accounts
  (\<open>src/cli/src/commands/lookup_table.rs\<close>), the size of the program's own data account
  (\<open>extend_program.rs\<close>), cranking the entropy service (\<open>automation.rs\<close>) and the simulations of
  \<open>admin.rs\<close>. The instruction builders of those programs, the file system, the clock that a sleep waits for
  and the entropy service are parameters (\<open>tools\<close>); \<open>tl_token_balance\<close> gives a parsed amount if the
  node's answer parses.
\<close>

record ('s, 'f) tools =
  tl_slot :: "'s \<Rightarrow> u64 option \<times> 's"
  tl_create_table :: "pubkey \<Rightarrow> pubkey \<Rightarrow> u64 \<Rightarrow> raw_instruction \<times> pubkey"
  tl_extend_table :: "pubkey \<Rightarrow> pubkey \<Rightarrow> pubkey option \<Rightarrow> pubkey list \<Rightarrow> raw_instruction"
  tl_create_ata :: "pubkey \<Rightarrow> pubkey \<Rightarrow> pubkey \<Rightarrow> pubkey \<Rightarrow> raw_instruction"
  tl_file_len :: "string \<Rightarrow> 's \<Rightarrow> u64 option \<times> 's"
  tl_program_data_address :: "pubkey \<Rightarrow> pubkey"
  tl_account :: "pubkey \<Rightarrow> 's \<Rightarrow> (nat \<times> u64) option \<times> 's"
  tl_extend_program :: "pubkey \<Rightarrow> pubkey option \<Rightarrow> 32 word \<Rightarrow> raw_instruction"
  tl_exceeds :: "u64 \<Rightarrow> 'f \<Rightarrow> bool"
  tl_seed :: "pubkey \<Rightarrow> 's \<Rightarrow> byte list option \<times> 's"
  tl_sample :: "pubkey \<Rightarrow> pubkey \<Rightarrow> raw_instruction"
  tl_reveal :: "pubkey \<Rightarrow> pubkey \<Rightarrow> byte list \<Rightarrow> raw_instruction"
  tl_token_balance :: "pubkey \<Rightarrow> 's \<Rightarrow> u64 option option \<times> 's"
  tl_sleep :: "nat \<Rightarrow> 's \<Rightarrow> 's"

section \<open>Lookup tables and token accounts\<close>

text \<open>The client rebuilds both instructions with \<open>AccountMeta::new\<close>, which marks every account
  writable.\<close>

definition all_writable :: "raw_instruction \<Rightarrow> raw_instruction" where
  "all_writable ix = ix\<lparr>ri_accounts := map (\<lambda>a. meta_new (am_pubkey a) (am_is_signer a)) (ri_accounts ix)\<rparr>"

definition common_addresses :: "'n host \<Rightarrow> client \<Rightarrow> pubkey list" where
  "common_addresses H E =
     [board_pda H, config_pda H, treasury_pda H, treasury_tokens_address H (treasury_pda H),
      h_ata H (treasury_pda H) SOL_MINT, MINT_ADDRESS, cl_program E GodlProgram]"

definition lut :: "'n host \<Rightarrow> client \<Rightarrow> ('s, raw_instruction) node \<Rightarrow> ('s, 'f) tools \<Rightarrow> pubkey \<Rightarrow> ('s, pubkey) cmd" where
  "lut H E N U payer =
     bind_cmd (answer RpcFailed (tl_slot U)) (\<lambda>slot.
     bind_cmd (or_abort (sub64 slot 4)) (\<lambda>recent_slot.
     let (ix, lut_address) = tl_create_table U payer payer recent_slot;
         ex_ix = tl_extend_table U lut_address payer (Some payer) (common_addresses H E) in
     bind_cmd (submit_confirmed N payer [Other (all_writable ix), Other (all_writable ex_ix)]) (\<lambda>_.
     ret lut_address)))"

definition ata_cmd :: "'n host \<Rightarrow> client \<Rightarrow> ('s, raw_instruction) node \<Rightarrow> ('s, 'f) tools \<Rightarrow> pubkey \<Rightarrow> pubkey \<Rightarrow> ('s, pubkey) cmd" where
  "ata_cmd H E N U payer user =
     (let ata = h_ata H user MINT_ADDRESS;
          ix = tl_create_ata U payer user MINT_ADDRESS (cl_program E TokenProgram) in
      bind_cmd (submit_confirmed N payer [Other ix]) (\<lambda>_.
      bind_cmd (answer RpcFailed (tl_account U ata)) (\<lambda>_. ret ata)))"

section \<open>The program's data account\<close>

definition PROGRAMDATA_HEADER_LEN :: nat where "PROGRAMDATA_HEADER_LEN = 45"

record 'f extend_args =
  ea_program_id :: pubkey
  ea_so_path :: string
  ea_headroom :: u64
  ea_max_sol :: 'f
  ea_yes :: bool

text \<open>Bytes to add, or \<open>None\<close> when the account is large enough.\<close>

definition missing_bytes :: "nat \<Rightarrow> u64 \<Rightarrow> u64 option" where
  "missing_bytes data_len required =
     (let capacity = saturating_sub data_len PROGRAMDATA_HEADER_LEN
      in if capacity \<ge> required then None else Some (required - capacity))"

definition extend_program :: "('s, 'n) rpc \<Rightarrow> ('s, raw_instruction) node \<Rightarrow> ('s, 'f) tools \<Rightarrow> pubkey \<Rightarrow> 'f extend_args
    \<Rightarrow> ('s, unit) cmd" where
  "extend_program R N U payer args =
     bind_cmd (answer (Bailed ''cannot stat'') (tl_file_len U (ea_so_path args))) (\<lambda>so_len.
     bind_cmd (or_abort (add64 so_len (ea_headroom args))) (\<lambda>required.
     bind_cmd (answer RpcFailed (tl_account U (tl_program_data_address U (ea_program_id args)))) (\<lambda>(data_len, lamps).
     case missing_bytes data_len required of
       None \<Rightarrow> ret ()
     | Some additional \<Rightarrow>
         bind_cmd (or_abort (add64 data_len additional)) (\<lambda>new_total_len.
         bind_cmd (answer RpcFailed (r_rent R new_total_len)) (\<lambda>new_rent.
         let cost_lamports = saturating_sub new_rent lamps in
         bind_cmd (require (\<not> tl_exceeds U cost_lamports (ea_max_sol args)) (Bailed ''rent cost exceeds --max-sol'')) (\<lambda>_.
         if \<not> ea_yes args then ret ()
         else
           let ix = tl_extend_program U (ea_program_id args) (Some payer) (of_nat additional) in
           bind_cmd (answer RpcFailed (nd_blockhash N)) (\<lambda>blockhash.
           let tx = legacy_tx payer blockhash [Part (Other ix)] in
           bind_cmd (simulated N tx) (\<lambda>_.
           bind_cmd (answer TransactionFailed (nd_send_and_confirm N tx)) (\<lambda>_. ret ())))))))))"

section \<open>The entropy service\<close>

text \<open>\<open>crank\<close> samples and reveals; \<open>reset\<close> closes the round in the same transaction.\<close>

definition entropy_ixs :: "('s, 'f) tools \<Rightarrow> pubkey \<Rightarrow> pubkey \<Rightarrow> byte list \<Rightarrow> raw_instruction tx_instruction list" where
  "entropy_ixs U payer var_address seed =
     [Other (tl_sample U payer var_address), Other (tl_reveal U payer var_address seed)]"

definition crank_cmd :: "'n host \<Rightarrow> ('s, 'n) rpc \<Rightarrow> ('s, raw_instruction) node \<Rightarrow> ('s, 'f) tools \<Rightarrow> pubkey \<Rightarrow> ('s, unit) cmd" where
  "crank_cmd H R N U payer =
     bind_cmd (rpc_config H R) (\<lambda>config.
     bind_cmd (rpc_var R (cfg_var_address config)) (\<lambda>_.
     bind_cmd (answer RpcFailed (tl_seed U (cfg_var_address config))) (\<lambda>seed.
     bind_cmd (submit_confirmed N payer (entropy_ixs U payer (cfg_var_address config) seed)) (\<lambda>_. ret ()))))"

definition reset_cmd :: "'n host \<Rightarrow> ('s, 'n) rpc \<Rightarrow> client \<Rightarrow> ('s, raw_instruction) node \<Rightarrow> ('s, 'f) tools \<Rightarrow> pubkey
    \<Rightarrow> pubkey option \<Rightarrow> ('s, unit) cmd" where
  "reset_cmd H R E N U payer top_miner =
     bind_cmd (rpc_board H R) (\<lambda>board.
     bind_cmd (rpc_config H R) (\<lambda>config.
     bind_cmd (rpc_var R (cfg_var_address config)) (\<lambda>_.
     bind_cmd (answer RpcFailed (tl_seed U (cfg_var_address config))) (\<lambda>seed.
     bind_cmd (or_abort (reset H E payer (cfg_fee_collector config) (board_round_id board)
         (case top_miner of Some m \<Rightarrow> m | None \<Rightarrow> pubkey_default) (cfg_var_address config))) (\<lambda>reset_ix.
     bind_cmd (submit_confirmed N payer (entropy_ixs U payer (cfg_var_address config) seed @ [Own reset_ix])) (\<lambda>_.
     ret ()))))))"

section \<open>The state of the gold vault\<close>

text \<open>The numbers that \<open>gold_info\<close> computes for its report: what is owed to miners, what the vault holds
  beyond that and the gold not yet distributed, and the claim of one miner, if its extended account
  exists.\<close>

record gold_report =
  gr_owed :: u64
  gr_surplus :: u64
  gr_claimable :: "u64 option option"

definition gold_info :: "'n host \<Rightarrow> ('s, 'n) rpc \<Rightarrow> ('s, 'f) tools \<Rightarrow> pubkey option \<Rightarrow> ('s, gold_report) cmd" where
  "gold_info H R U authority =
     bind_cmd (rpc_gold_vault H R) (\<lambda>gold_vault.
     bind_cmd (attempt (answer RpcFailed (tl_token_balance U (gold_vault_xaut_address H)))) (\<lambda>balance.
     bind_cmd (rpc_sol_motherlode H R) (\<lambda>_.
     bind_cmd (answer RpcFailed (r_lamports R (sol_motherlode_pda H))) (\<lambda>_.
     let xaut_balance = (case balance of Inr (Some n) \<Rightarrow> n | _ \<Rightarrow> 0);
         owed = saturating_sub (gv_total_xaut_distributed gold_vault) (gv_total_xaut_claimed gold_vault);
         surplus = saturating_sub (saturating_sub xaut_balance owed) (gv_pending_xaut gold_vault) in
     case authority of
       None \<Rightarrow> ret \<lparr>gr_owed = owed, gr_surplus = surplus, gr_claimable = None\<rparr>
     | Some a \<Rightarrow>
         bind_cmd (rpc_miner H R a) (\<lambda>miner.
         bind_cmd (rpc_miner_extended H R a) (\<lambda>extended.
         bind_cmd (case extended of None \<Rightarrow> ret None
           | Some e \<Rightarrow> bind_cmd (or_abort (claimable_xaut (h_num H) e gold_vault (mn_rewards_godl miner))) (\<lambda>n. ret (Some n))) (\<lambda>claimable.
         ret \<lparr>gr_owed = owed, gr_surplus = surplus, gr_claimable = Some claimable\<rparr>)))))))"

section \<open>Simulations\<close>

definition simulate_withdraw_vault :: "'n host \<Rightarrow> client \<Rightarrow> ('s, 'x) node \<Rightarrow> pubkey \<Rightarrow> u64 \<Rightarrow> ('s, unit) cmd" where
  "simulate_withdraw_vault H E N payer amount = simulate_transaction N payer [Own (withdraw_vault H E payer amount)]"

definition simulate_transfer_mint_authority :: "'n host \<Rightarrow> client \<Rightarrow> ('s, 'x) node \<Rightarrow> pubkey \<Rightarrow> ('s, unit) cmd" where
  "simulate_transfer_mint_authority H E N payer = simulate_transaction N payer [Own (transfer_mint_authority H E payer)]"

end
