(* ===== verification/CliMain.thy ===== *)
theory CliMain
  imports CliTools
begin

text \<open>
  The polling commands (\<open>bury_listen\<close>, \<open>manual_bury_listen\<close> in \<open>src/cli/src/commands/swap.rs\<close>, \<open>buy_gold_listen\<close>
  in \<open>gold.rs\<close>) and the subcommands of \<open>src/cli/src/main.rs\<close> with the command each one runs. An endless loop
  is given by the number of turns watched. Subcommands that only print are not part of the model.
\<close>

section \<open>Polling\<close>

primrec poll :: "('s \<Rightarrow> 's) \<Rightarrow> ('s, unit) cmd \<Rightarrow> nat \<Rightarrow> ('s, unit) cmd" where
  "poll pause turn 0 = ret ()"
| "poll pause turn (Suc n) = bind_cmd turn (\<lambda>_. bind_cmd (\<lambda>s. (Inr (), pause s)) (\<lambda>_. poll pause turn n))"

definition bury_listen :: "'n host \<Rightarrow> ('s, 'n) rpc \<Rightarrow> ('s, 'x) router \<Rightarrow> client \<Rightarrow> ('s, 'f) tools \<Rightarrow> 'f floats \<Rightarrow> pubkey
    \<Rightarrow> 'f \<Rightarrow> bool \<Rightarrow> nat \<Rightarrow> ('s, unit) cmd" where
  "bury_listen H R J E U F payer amount_sol no_burn turns =
     (let amount = fl_truncate F amount_sol LAMPORTS_PER_SOL in
      bind_cmd (or_abort (bury_threshold amount)) (\<lambda>threshold.
      poll (tl_sleep U 30) (bury_turn H R J E payer amount threshold no_burn) turns))"

definition manual_bury_turn :: "'n host \<Rightarrow> ('s, 'n) rpc \<Rightarrow> client \<Rightarrow> ('s, 'f) tools \<Rightarrow> pubkey \<Rightarrow> u64 \<Rightarrow> bool \<Rightarrow> ('s, unit) cmd" where
  "manual_bury_turn H R E U payer threshold_units no_burn =
     bind_cmd (attempt (answer RpcFailed (tl_token_balance U (h_ata H (treasury_pda H) MINT_ADDRESS)))) (\<lambda>loaded.
     case loaded of
       Inr amount \<Rightarrow>
         if (case amount of Some n \<Rightarrow> n | None \<Rightarrow> 0) \<ge> threshold_units
         then bind_cmd (attempt (execute_manual_bury H R E payer threshold_units no_burn)) (\<lambda>_. ret ())
         else ret ()
     | Inl _ \<Rightarrow> ret ())"

definition manual_bury_listen :: "'n host \<Rightarrow> ('s, 'n) rpc \<Rightarrow> client \<Rightarrow> ('s, 'f) tools \<Rightarrow> 'f floats \<Rightarrow> pubkey \<Rightarrow> 'f \<Rightarrow> bool
    \<Rightarrow> nat \<Rightarrow> ('s, unit) cmd" where
  "manual_bury_listen H R E U F payer amount_godl no_burn turns =
     (let threshold_units = fl_truncate F amount_godl ONE_GODL in
      if threshold_units = 0 then ret ()
      else poll (tl_sleep U 60) (manual_bury_turn H R E U payer threshold_units no_burn) turns)"

definition buy_gold_listen :: "'n host \<Rightarrow> ('s, 'n) rpc \<Rightarrow> ('s, 'x) router \<Rightarrow> client \<Rightarrow> ('s, 'f) tools \<Rightarrow> 'f floats \<Rightarrow> pubkey
    \<Rightarrow> 'f \<Rightarrow> 'f \<Rightarrow> string option \<Rightarrow> nat \<Rightarrow> ('s, unit) cmd" where
  "buy_gold_listen H R J E U F payer amount_sol min_out_xaut dexes turns =
     poll (tl_sleep U 60) (buy_gold_turn H R J E payer (fl_truncate F amount_sol LAMPORTS_PER_SOL)
       (fl_round F min_out_xaut XAUT_DECIMALS) dexes) turns"

section \<open>Subcommands\<close>

datatype (plugins only:) 'f command =
  Claim_cmd | InitializeReferrer_cmd | SetReferrer_cmd "pubkey option" | ClaimReferral_cmd
| Bury_cmd 'f bool | BuryListen_cmd 'f bool | ManualBury_cmd 'f bool | ManualBuryListen_cmd 'f bool
| Reset_cmd "pubkey option" | Crank_cmd
| Deploy_cmd u64 u64 bool | DeployAll_cmd u64 bool
| SetAdmin_cmd | SetFeeCollector_cmd pubkey | Ata_cmd pubkey
| Checkpoint_cmd "pubkey option" | CheckpointAll_cmd | CheckpointRounds_cmd | CloseAll_cmd | CloseRounds_cmd
| NewVar_cmd pubkey "byte list" u64 | SetMotherlodeDenominator_cmd u64 | SetGodlPerRound_cmd u64
| UpdateProtocolConfig_cmd "u64 option" "u64 option" | SetSwapProgram_cmd pubkey | SetVarAddress_cmd pubkey
| WithdrawVault_cmd u64 | SimulateWithdrawVault_cmd u64 | WithdrawSolOtc_cmd
| ReconcilePhantomStakes_cmd bool | MigrateStakes_cmd bool | VerifyStakeWeights_cmd | RebaseTotalStaked_cmd bool
| CloseStake_cmd u64 | TopUpStake_cmd u64 'f | MergeStake_cmd u64 u64 | ClosePhantomStakes_cmd bool
| InitializeSolMotherlode_cmd | InjectGodlMotherlode_cmd 'f | InjectUnrefinedRewards_cmd pubkey 'f
| Gold_cmd "pubkey option" | Lut_cmd | TransferMintAuthority_cmd | SimulateTransferMintAuthority_cmd | InitializeGoldVault_cmd
| CreateMinerExtendedAll_cmd bool bool | AuditUnclaimed_cmd | RebaseTotalUnclaimed_cmd bool
| BuyGold_cmd 'f 'f "string option" | BuyGoldListen_cmd 'f 'f "string option" | DepositGold_cmd 'f | ClaimGold_cmd
| ExtendProgram_cmd string u64 'f bool

text \<open>What the commands work with: the network, the swap service, the parameters of this model, the
  number of turns to watch of a polling command, and the two settings of the swap service.\<close>

record ('s, 'n, 'f) session =
  ss_host :: "'n host"
  ss_rpc :: "('s, 'n) rpc"
  ss_node :: "('s, raw_instruction) node"
  ss_http :: "('s, raw_instruction) http"
  ss_codecs :: codecs
  ss_client :: client
  ss_tools :: "('s, 'f) tools"
  ss_floats :: "'f floats"
  ss_turns :: nat
  ss_jup_api_key :: "string option"
  ss_jup_api_base_url :: string

definition build_jupiter_client :: "('s, 'n, 'f) session \<Rightarrow> ('s, jupiter_client) cmd" where
  "build_jupiter_client V = bind_cmd (some_or (Bailed ''JUP_API_KEY is required for bury commands'') (ss_jup_api_key V))
     (\<lambda>api_key. ret (new_jupiter_client (ss_jup_api_base_url V) api_key))"

definition with_router :: "('s, 'n, 'f) session \<Rightarrow> pubkey \<Rightarrow> (('s, raw_instruction) router \<Rightarrow> ('s, unit) cmd) \<Rightarrow> ('s, unit) cmd" where
  "with_router V payer f = bind_cmd (build_jupiter_client V) (\<lambda>jup.
     f (jupiter_router (ss_node V) (ss_http V) (ss_codecs V) jup payer))"

definition ignoring :: "('s, 'a) cmd \<Rightarrow> ('s, unit) cmd" where
  "ignoring m = bind_cmd m (\<lambda>_. ret ())"

text \<open>The second half of the subcommands: staking, injections, gold, the program account.\<close>

definition run_maintenance :: "('s, 'n, 'f) session \<Rightarrow> pubkey \<Rightarrow> 'f command \<Rightarrow> ('s, unit) cmd" where
  "run_maintenance V payer c =
    (let H = ss_host V; R = ss_rpc V; N = ss_node V; E = ss_client V; F = ss_floats V; U = ss_tools V in case c of
     ReconcilePhantomStakes_cmd dry_run \<Rightarrow> reconcile_phantom_stakes H R E payer dry_run
   | MigrateStakes_cmd dry_run \<Rightarrow> migrate_stakes H R E payer dry_run
   | VerifyStakeWeights_cmd \<Rightarrow> verify_stake_weights H R
   | RebaseTotalStaked_cmd dry_run \<Rightarrow> rebase_total_staked_cmd H R E payer dry_run
   | CloseStake_cmd sid \<Rightarrow> close_stake H R E payer sid
   | TopUpStake_cmd sid amount \<Rightarrow> top_up_stake_cmd H R E F payer sid amount
   | MergeStake_cmd target_id source_id \<Rightarrow> merge_stake H R E payer target_id source_id
   | ClosePhantomStakes_cmd dry_run \<Rightarrow> close_phantom_stakes H R E payer dry_run
   | WithdrawSolOtc_cmd \<Rightarrow> withdraw_sol_otc_cmd H R E payer
   | InitializeSolMotherlode_cmd \<Rightarrow> initialize_sol_motherlode_cmd H R E payer
   | InjectGodlMotherlode_cmd amount \<Rightarrow> inject_godl_motherlode_cmd H R E F payer amount
   | InjectUnrefinedRewards_cmd authority amount \<Rightarrow> inject_unrefined_rewards_cmd H R E F payer authority amount
   | Lut_cmd \<Rightarrow> ignoring (lut H E N U payer)
   | TransferMintAuthority_cmd \<Rightarrow> transfer_mint_authority_cmd H R E payer
   | SimulateTransferMintAuthority_cmd \<Rightarrow> simulate_transfer_mint_authority H E N payer
   | InitializeGoldVault_cmd \<Rightarrow> initialize_gold_vault_cmd H R E payer
   | Gold_cmd authority \<Rightarrow> ignoring (gold_info H R U authority)
   | CreateMinerExtendedAll_cmd dry_run every \<Rightarrow> create_miner_extended_all H R E payer dry_run every
   | AuditUnclaimed_cmd \<Rightarrow> audit_unclaimed H R
   | RebaseTotalUnclaimed_cmd dry_run \<Rightarrow> rebase_total_unclaimed_cmd H R E payer dry_run
   | BuyGold_cmd amount min_out dexes \<Rightarrow> with_router V payer (\<lambda>j. buy_gold_cmd H R j E F payer amount min_out dexes)
   | BuyGoldListen_cmd amount min_out dexes \<Rightarrow>
       with_router V payer (\<lambda>j. buy_gold_listen H R j E U F payer amount min_out dexes (ss_turns V))
   | DepositGold_cmd amount \<Rightarrow> deposit_gold_cmd H R E F payer amount
   | ClaimGold_cmd \<Rightarrow> claim_gold_cmd H R E payer
   | ExtendProgram_cmd so_path headroom max_sol yes \<Rightarrow> extend_program R N U payer
       \<lparr>ea_program_id = cl_program E GodlProgram, ea_so_path = so_path, ea_headroom = headroom, ea_max_sol = max_sol,
        ea_yes = yes\<rparr>
   | _ \<Rightarrow> ret ())"

definition run_command :: "('s, 'n, 'f) session \<Rightarrow> pubkey \<Rightarrow> 'f command \<Rightarrow> ('s, unit) cmd" where
  "run_command V payer c =
    (let H = ss_host V; R = ss_rpc V; N = ss_node V; E = ss_client V; F = ss_floats V; U = ss_tools V in case c of
     Claim_cmd \<Rightarrow> claim_cmd H R E payer
   | InitializeReferrer_cmd \<Rightarrow> initialize_referrer_cmd H R E payer
   | SetReferrer_cmd referrer_authority \<Rightarrow> set_referrer_cmd H R E payer referrer_authority
   | ClaimReferral_cmd \<Rightarrow> claim_referral_cmd H R E payer
   | Bury_cmd amount no_burn \<Rightarrow> with_router V payer (\<lambda>j. bury_cmd H j E F payer amount no_burn)
   | BuryListen_cmd amount no_burn \<Rightarrow>
       with_router V payer (\<lambda>j. bury_listen H R j E U F payer amount no_burn (ss_turns V))
   | ManualBury_cmd amount no_burn \<Rightarrow> manual_bury H R E F payer amount no_burn
   | ManualBuryListen_cmd amount no_burn \<Rightarrow> manual_bury_listen H R E U F payer amount no_burn (ss_turns V)
   | Reset_cmd top_miner \<Rightarrow> reset_cmd H R E N U payer top_miner
   | Crank_cmd \<Rightarrow> crank_cmd H R N U payer
   | Deploy_cmd amount square pooled \<Rightarrow> deploy_cmd H R E payer amount square pooled
   | DeployAll_cmd amount pooled \<Rightarrow> deploy_all_cmd H R E payer amount pooled
   | SetAdmin_cmd \<Rightarrow> set_admin_cmd H R E payer
   | SetFeeCollector_cmd fee_collector \<Rightarrow> set_fee_collector_cmd H R E payer fee_collector
   | Ata_cmd user \<Rightarrow> ignoring (ata_cmd H E N U payer user)
   | Checkpoint_cmd authority \<Rightarrow> checkpoint_cmd H R E payer authority
   | CheckpointAll_cmd \<Rightarrow> checkpoint_all_cmd H R E payer
   | CheckpointRounds_cmd \<Rightarrow> checkpoint_rounds_cmd H R E payer
   | CloseAll_cmd \<Rightarrow> close_all_cmd H R E payer
   | CloseRounds_cmd \<Rightarrow> close_rounds_cmd H R E payer
   | NewVar_cmd provider commit samples \<Rightarrow> new_var_cmd H R E payer provider commit samples
   | SetMotherlodeDenominator_cmd d \<Rightarrow> set_motherlode_denominator_cmd H R E payer d
   | SetGodlPerRound_cmd g \<Rightarrow> set_godl_per_round_cmd H R E payer g
   | UpdateProtocolConfig_cmd round_slots intermission_slots \<Rightarrow>
       update_protocol_config_cmd H R E payer round_slots intermission_slots
   | SetSwapProgram_cmd swap_program \<Rightarrow> set_swap_program_cmd H R E payer swap_program
   | SetVarAddress_cmd var \<Rightarrow> set_var_address_cmd H R E payer var
   | WithdrawVault_cmd amount \<Rightarrow> withdraw_vault_cmd H R E payer amount
   | SimulateWithdrawVault_cmd amount \<Rightarrow> simulate_withdraw_vault H E N payer amount
   | _ \<Rightarrow> run_maintenance V payer c)"

end
