(* ===== verification/LocalNode.thy ===== *)
theory LocalNode
  imports Rpc ClientProperties
begin

text \<open>
  A node with a single user, on the program's own handlers: queries read the ledger, a transaction
  runs its instructions in order and takes effect only if all succeed, and parallel transactions
  are executed in some order, here the given one. Commands of the client run on it together with
  the program.
\<close>

fun run_all :: "'n host \<Rightarrow> (account_info \<Rightarrow> 'n world \<Rightarrow> nat) \<Rightarrow> instruction list \<Rightarrow> 'n world \<Rightarrow> 'n world result" where
  "run_all H data_len [] w = Inr w"
| "run_all H data_len (ix # ixs) w = and_then (run_instruction H data_len ix w) (run_all H data_len ixs)"

definition transact :: "'n host \<Rightarrow> (account_info \<Rightarrow> 'n world \<Rightarrow> nat) \<Rightarrow> instruction list \<Rightarrow> 'n world
    \<Rightarrow> unit option \<times> 'n world" where
  "transact H data_len ixs w = (case run_all H data_len ixs w of Inr w' \<Rightarrow> (Some (), w') | Inl _ \<Rightarrow> (None, w))"

fun transact_each :: "'n host \<Rightarrow> (account_info \<Rightarrow> 'n world \<Rightarrow> nat) \<Rightarrow> instruction list list \<Rightarrow> 'n world
    \<Rightarrow> bool list \<times> 'n world" where
  "transact_each H data_len [] w = ([], w)"
| "transact_each H data_len (b # bs) w =
     (case transact H data_len b w of (r, w') \<Rightarrow>
      case transact_each H data_len bs w' of (rs, w'') \<Rightarrow> ((r = Some ()) # rs, w''))"

definition local_node :: "'n host \<Rightarrow> (account_info \<Rightarrow> 'n world \<Rightarrow> nat) \<Rightarrow> pubkey list \<Rightarrow> ('n world, 'n) rpc" where
  "local_node H data_len addresses = \<lparr>
     r_account = (\<lambda>p w. (case w_data w p of AEmpty \<Rightarrow> Inl NodeError | d \<Rightarrow> Inr d, w)),
     r_multiple = (\<lambda>ps w. (Some (map (\<lambda>p. case w_data w p of AEmpty \<Rightarrow> None | d \<Rightarrow> Some d) ps), w)),
     r_program_accounts = (\<lambda>k w. (Inr (filter (\<lambda>(p, d). kind_of d = Some k) (map (\<lambda>p. (p, w_data w p)) addresses)), w)),
     r_lamports = (\<lambda>p w. (Some (w_lamports w p), w)),
     r_rent = (\<lambda>n w. (Some (h_minimum_balance H n), w)),
     r_clock = (\<lambda>w. (Some (w_slot w, w_unix_timestamp w), w)),
     r_send = transact H data_len,
     r_send_parallel = (\<lambda>bs w. case transact_each H data_len bs w of (rs, w') \<Rightarrow> (Some rs, w'))\<rparr>"

lemma local_fetch [cmd_simps]:
  "parse (w_data w p) = Some x \<Longrightarrow> w_data w p \<noteq> AEmpty \<Longrightarrow> fetch (local_node H data_len ps) parse p w = (Inr x, w)"
  by (cases "w_data w p") (simp_all add: fetch_def local_node_def cmd_simps)

text \<open>The accounts of one type among the given addresses.\<close>

definition accounts_at :: "('n account_data \<Rightarrow> 'a option) \<Rightarrow> pubkey list \<Rightarrow> 'n world \<Rightarrow> (pubkey \<times> 'a) list" where
  "accounts_at parse ps w = List.map_filter (\<lambda>p. map_option (Pair p) (parse (w_data w p))) ps"

lemma map_filter_Cons: "List.map_filter f (x # xs) = (case f x of None \<Rightarrow> [] | Some y \<Rightarrow> [y]) @ List.map_filter f xs"
  "List.map_filter f [] = []"
  by (simp_all add: List.map_filter_def split: option.split)

lemma local_accounts:
  assumes "\<And>d x. parse d = Some x \<Longrightarrow> kind_of d = Some k"
  shows "get_program_accounts (local_node H data_len ps) k parse w = (Inr (accounts_at parse ps w), w)"
proof -
  have "List.map_filter (\<lambda>(p, d). map_option (Pair p) (parse d))
      (filter (\<lambda>(p, d). kind_of d = Some k) (map (\<lambda>p. (p, w_data w p)) ps)) = accounts_at parse ps w"
    using assms by (induction ps) (fastforce simp: accounts_at_def map_filter_Cons split: option.splits)+
  then show ?thesis by (simp add: get_program_accounts_def local_node_def)
qed

lemma accounts_at_update:
  assumes "parse d = None" "parse (w_data w p) = None"
  shows "accounts_at parse ps (w\<lparr>w_data := (w_data w)(p := d)\<rparr>) = accounts_at parse ps w"
proof -
  have "parse (((w_data w)(p := d)) q) = parse (w_data w q)" for q using assms by simp
  then show ?thesis by (simp add: accounts_at_def del: fun_upd_apply)
qed

lemma kind_of_parsed:
  "get_stake_v2 d = Some x1 \<Longrightarrow> kind_of d = Some KStakeV2" "get_stake d = Some x2 \<Longrightarrow> kind_of d = Some KStake"
  "get_round d = Some x3 \<Longrightarrow> kind_of d = Some KRound" "get_miner d = Some x4 \<Longrightarrow> kind_of d = Some KMiner"
  "get_miner_extended d = Some x5 \<Longrightarrow> kind_of d = Some KMinerExtended"
  by (auto simp: get_stake_v2_eq_Some get_stake_eq_Some get_round_eq_Some get_miner_eq_Some get_miner_extended_eq_Some)

lemma local_clock [cmd_simps]: "rpc_clock (local_node H data_len ps) w = (Inr (w_slot w, w_unix_timestamp w), w)"
  by (simp add: rpc_clock_def local_node_def answer_def)

lemma local_submit [cmd_simps]:
  "run_all H data_len ixs w = Inr w' \<Longrightarrow> submit_transaction (local_node H data_len ps) ixs w = (Inr (), w')"
  "run_all H data_len ixs w = Inl e \<Longrightarrow> submit_transaction (local_node H data_len ps) ixs w = (Inl TransactionFailed, w)"
  by (simp_all add: submit_transaction_def local_node_def answer_def transact_def)

end
