(* ===== verification/CliStakeProperties.thy ===== *)
theory CliStakeProperties
  imports CliStake LocalNode StakeSystem Runs "HOL-Library.Multiset"
begin

text \<open>
  The stake maintenance commands against the staking system: what the audit computes is the
  invariant of \<open>StakeSystem\<close>, and how far the migration sweep goes.
\<close>

section \<open>Snapshots\<close>

text \<open>What a node answers in state \<open>s\<close>, without the state changing.\<close>

definition shows_stakes :: "'n host \<Rightarrow> ('s, 'n) rpc \<Rightarrow> 'n treasury \<Rightarrow> (pubkey \<times> 'n stake_v2) list
    \<Rightarrow> (pubkey \<times> 'n stake) list \<Rightarrow> 's \<Rightarrow> bool" where
  "shows_stakes H R t stakes legacy s \<longleftrightarrow>
     rpc_treasury H R s = (Inr t, s) \<and>
     get_program_accounts R KStakeV2 get_stake_v2 s = (Inr stakes, s) \<and>
     get_program_accounts R KStake get_stake s = (Inr legacy, s)"

text \<open>The accounts are those of the staking system, in some order.\<close>

definition accounts_of :: "'n stake_system \<Rightarrow> 'n stake_v2 list \<Rightarrow> 'n stake list \<Rightarrow> bool" where
  "accounts_of S stakes legacy \<longleftrightarrow> mset (map SV2 stakes @ map SV1 legacy) = mset (ss_stakers S)"

text \<open>A stake as the program can create it: no more than all GODL, no multiplier above the curve.\<close>

definition within_supply :: "'n stake_v2 \<Rightarrow> bool" where
  "within_supply s \<longleftrightarrow> sv_balance s \<le> MAX_SUPPLY \<and> sv_multiplier s \<le> MAX_STAKE_MULTIPLIER * STAKE_MULTIPLIER_SCALE"

lemma weight_within_supply:
  assumes "within_supply s"
  shows "\<exists>u. weighted_units (s\<lparr>sv_weight_version := v\<rparr>) = Inr u"
proof -
  let ?s = "s\<lparr>sv_weight_version := v\<rparr>"
  have b: "sv_balance s \<le> 210000000000000000" and m: "sv_multiplier s \<le> 20000000000"
    using assms by (simp_all add: within_supply_def amount_consts stake_consts)
  obtain em where em: "sv_effective_multiplier ?s = Inr em" "em \<le> 20000000000"
  proof (cases "v = 0")
    case True
    with m that show ?thesis by (simp add: sv_effective_multiplier_def)
  next
    case False
    obtain e where e: "effective_multiplier (sv_multiplier s) = Inr e" "e * e \<le> sv_multiplier s * 1000000000"
      using effective_multiplier_correct [of "sv_multiplier s"] m by (auto simp: floor_sqrt_of_def stake_consts)
    have "e \<le> 20000000000"
    proof (rule ccontr)
      assume "\<not> ?thesis"
      then have "20000000000 * 20000000000 < e * e" by (intro mult_strict_mono) simp_all
      with e(2) m show False by linarith
    qed
    with e(1) False that show ?thesis by (simp add: sv_effective_multiplier_def)
  qed
  have "sv_balance s * em \<le> 210000000000000000 * 20000000000" by (rule mult_le_mono [OF b em(2)])
  then have "sv_balance s * em div 1000000000 \<le> 4200000000000000000" by linarith
  then have "units_ref (sv_is_nft_staked s) (sv_balance s) em \<le> u64_max"
    by (simp add: units_ref_def boost_def stake_consts) linarith
  with em b show ?thesis by (simp add: weighted_units_ref [of ?s em])
qed

section \<open>The audit\<close>

lemma audit_stakes_sum:
  assumes "\<forall>s\<in>set stakes. within_supply s"
  shows "\<exists>a'. audit_stakes stakes a = Inr a' \<and> wa_total_staked a' = wa_total_staked a \<and>
    wa_true_sum a' = wa_true_sum a + sum_list (map (staker_units \<circ> SV2) stakes) \<and>
    wa_n_v0 a' = wa_n_v0 a + length (filter (\<lambda>s. sv_weight_version s = 0) stakes)"
  using assms
proof (induction stakes arbitrary: a)
  case (Cons s rest)
  have w: "within_supply s" using Cons.prems by simp
  obtain u l q where "weighted_units s = Inr u" "weight_as s 0 = Inr l" "weight_as s 1 = Inr q"
    using weight_within_supply [OF w, of "sv_weight_version s"] weight_within_supply [OF w, of 0]
      weight_within_supply [OF w, of 1] by (auto simp: weight_as_def)
  moreover note Cons.IH [of "a\<lparr>wa_true_sum := wa_true_sum a + u, wa_all_linear := wa_all_linear a + l,
       wa_all_sqrt := wa_all_sqrt a + q, wa_n_v0 := wa_n_v0 a + (if sv_weight_version s = 0 then 1 else 0),
       wa_n_v1 := wa_n_v1 a + (if sv_weight_version s = 0 then 0 else 1)\<rparr>"]
  ultimately show ?case using Cons.prems by (auto simp: add.assoc)
qed simp

definition weight_total :: "'n stake_v2 list \<Rightarrow> 'n stake list \<Rightarrow> nat" where
  "weight_total stakes legacy = sum_list (map (staker_units \<circ> SV2) stakes) + sum_list (map st_balance legacy)"

lemma weigh_total:
  assumes "\<forall>s\<in>set stakes. within_supply s"
  shows "\<exists>a. weigh t stakes legacy = Inr a \<and> wa_total_staked a = tr_total_staked t \<and>
    wa_true_sum a = weight_total stakes legacy \<and>
    wa_n_v0 a = length (filter (\<lambda>s. sv_weight_version s = 0) stakes)"
  using audit_stakes_sum [OF assms] by (fastforce simp: weigh_def Let_def weight_total_def)

lemma weight_total_ledger:
  assumes "ledger_ok S" "accounts_of S stakes legacy"
  shows "weight_total stakes legacy = tr_total_staked (ss_treasury S)"
proof -
  have "sum_list (map staker_units (ss_stakers S)) = sum_mset (image_mset staker_units (mset (map SV2 stakes @ map SV1 legacy)))"
    using assms(2) by (simp add: accounts_of_def flip: sum_mset_sum_list)
  also have "\<dots> = weight_total stakes legacy"
    by (simp add: weight_total_def comp_def image_mset.compositionality flip: sum_mset_sum_list)
  finally show ?thesis using assms(1) by (simp add: ledger_ok_def units_total_def)
qed

lemma audit_weights_shows:
  assumes "shows_stakes H R t stakes legacy s" "\<forall>x\<in>set (map snd stakes). within_supply x"
  shows "\<exists>a. audit_weights H R s = (Inr a, s) \<and> wa_total_staked a = tr_total_staked t \<and>
    wa_true_sum a = weight_total (map snd stakes) (map snd legacy) \<and>
    wa_n_v0 a = length (filter (\<lambda>x. sv_weight_version x = 0) (map snd stakes))"
  using weigh_total [OF assms(2), of t "map snd legacy"] assms(1)
  by (auto simp: audit_weights_def shows_stakes_def bind_cmd_def or_abort_def ret_def)

text \<open>C30. The command-line audit agrees with the program: on the accounts of any reachable state of the
  staking system, in any order, \<open>verify-stake-weights\<close> recomputes exactly the total of the treasury,
  reports drift 0 and does not abort.\<close>

lemma audit_confirms_ledger:
  assumes "stake_reachable N S" "shows_stakes H R (ss_treasury S) stakes legacy s"
    and "accounts_of S (map snd stakes) (map snd legacy)" "\<forall>x\<in>set (map snd stakes). within_supply x"
  shows "verify_stake_weights H R s = (Inr (), s)"
  using audit_weights_shows [OF assms(2,4)] weight_total_ledger [OF ledger_reachable [OF assms(1)] assms(3)]
  by (auto simp: verify_stake_weights_def bind_cmd_def weight_drift_def ret_def)

section \<open>On a local node\<close>

abbreviation "stakes_at \<equiv> accounts_at get_stake_v2"
abbreviation "legacy_at \<equiv> accounts_at get_stake"

lemma local_shows_stakes:
  assumes "w_data w (treasury_pda H) = ATreasury t"
  shows "shows_stakes H (local_node H data_len ps) t (stakes_at ps w) (legacy_at ps w) w"
  using assms by (simp add: shows_stakes_def rpc_treasury_def local_fetch local_accounts kind_of_parsed)

lemma client_rebases:
  assumes "runtime H E" "w_data w (config_pda H) = AConfig c" "w_data w (treasury_pda H) = ATreasury t"
    and "cfg_admin c = signer" "tr_total_staked t = expected"
  shows "run_instruction H data_len (rebase_total_staked H E signer expected n) w =
    Inr (w\<lparr>w_data := (w_data w)(treasury_pda H := ATreasury (t\<lparr>tr_total_staked := n\<rparr>))\<rparr>)"
proof -
  note ok = runtime.ok_checks [OF assms(1)]
  have "h_check H (HasSeeds [TREASURY]) (info_of (meta_new (treasury_pda H) False)) w = Inr ()"
    by (rule runtime.ok_seeds [OF assms(1)]) (simp add: treasury_pda_def)
  then show ?thesis using assms(2-5)
    by (simp add: run_instruction_def rebase_total_staked_def instr_def Let_def process_instruction_def
        process_rebase_total_staked_def load_def ok guard_def put_def)
qed

text \<open>The ledger with one stake of weight 1000.\<close>

definition demo_audit_world :: "u64 \<Rightarrow> int world" where
  "demo_audit_world staked = world_of
     [(treasury_pda ref_host, ATreasury ((ss_treasury demo_stakes)\<lparr>tr_total_staked := staked\<rparr>)),
      (config_pda ref_host, AConfig demo_config), (55, AStakeV2 demo_paid_stake)] [] 0 0"

lemma demo_audit_addresses: "treasury_pda ref_host \<noteq> config_pda ref_host" "treasury_pda ref_host \<noteq> 55" "config_pda ref_host \<noteq> 55"
  by (simp_all add: treasury_pda_def config_pda_def ref_pda_def seed_code_def TREASURY_def CONFIG_def)

lemma demo_audit_data [simp]:
  "w_data (demo_audit_world n) (treasury_pda ref_host) = ATreasury ((ss_treasury demo_stakes)\<lparr>tr_total_staked := n\<rparr>)"
  "w_data (demo_audit_world n) (config_pda ref_host) = AConfig demo_config"
  "stakes_at [55] (demo_audit_world n) = [(55, demo_paid_stake)]" "legacy_at [55] (demo_audit_world n) = []"
  using demo_audit_addresses
  by (simp_all add: demo_audit_world_def world_of_def accounts_at_def map_filter_Cons
      get_stake_v2_def get_stake_def)

lemma demo_paid_weight: "within_supply demo_paid_stake" "sv_weight_version demo_paid_stake = 1" "weighted_units demo_paid_stake = Inr 1000"
  by (simp_all add: within_supply_def demo_paid_stake_def demo_stake_def new_stake_v2_def multiplier_one
      amount_consts stake_consts weight_eval)

lemma audit_confirms_ledger_witness:
  "verify_stake_weights ref_host (local_node ref_host (\<lambda>_ _. 0) [55]) (demo_audit_world 1000) = (Inr (), demo_audit_world 1000)"
proof (rule audit_confirms_ledger [OF demo_stakes_reachable])
  have "ss_treasury demo_stakes\<lparr>tr_total_staked := 1000\<rparr> = ss_treasury demo_stakes" by (simp add: demo_stakes_def)
  then show "shows_stakes ref_host (local_node ref_host (\<lambda>_ _. 0) [55]) (ss_treasury demo_stakes)
      [(55, demo_paid_stake)] [] (demo_audit_world 1000)"
    using local_shows_stakes [of "demo_audit_world 1000" ref_host _ "\<lambda>_ _. 0" "[55]"] by simp
  show "accounts_of demo_stakes (map snd [(55, demo_paid_stake)]) (map snd [])"
    by (simp add: accounts_of_def demo_stakes_def)
  show "\<forall>x\<in>set (map snd [(55, demo_paid_stake)]). within_supply x" by (simp add: demo_paid_weight)
qed

lemma stakes_at_treasury:
  assumes "w_data w p = ATreasury t"
  shows "stakes_at ps (w\<lparr>w_data := (w_data w)(p := ATreasury t')\<rparr>) = stakes_at ps w"
    "legacy_at ps (w\<lparr>w_data := (w_data w)(p := ATreasury t')\<rparr>) = legacy_at ps w"
  by (rule accounts_at_update; simp add: assms get_stake_v2_def get_stake_def)+

text \<open>C31. The rebase repairs any drift: run by the admin on migrated stakes, \<open>rebase-total-staked\<close> sets
  \<open>Treasury::total_staked\<close> to the sum of the weights, changes nothing else, and the audit then
  passes.\<close>

lemma rebase_repairs_total:
  fixes H :: "'n host" and w :: "'n world" and data_len :: "account_info \<Rightarrow> 'n world \<Rightarrow> nat"
  assumes "runtime H E" "w_data w (config_pda H) = AConfig c" "w_data w (treasury_pda H) = ATreasury t"
    and "cfg_admin c = payer" "\<forall>x\<in>set (map snd (stakes_at ps w)). within_supply x \<and> sv_weight_version x \<noteq> 0"
    and "weight_total (map snd (stakes_at ps w)) (map snd (legacy_at ps w)) \<le> u64_max"
  defines "R \<equiv> local_node H data_len ps" and "T \<equiv> weight_total (map snd (stakes_at ps w)) (map snd (legacy_at ps w))"
  defines "w' \<equiv> w\<lparr>w_data := (w_data w)(treasury_pda H := ATreasury (t\<lparr>tr_total_staked := T\<rparr>))\<rparr>"
  shows "rebase_total_staked_cmd H R E payer False w = (Inr (), w') \<and> verify_stake_weights H R w' = (Inr (), w')"
proof -
  note shows_w = local_shows_stakes [OF assms(3), of data_len ps, folded R_def]
  have ok: "\<forall>x\<in>set (map snd (stakes_at ps w)). within_supply x" using assms(5) by blast
  obtain a where a: "audit_weights H R w = (Inr a, w)" "wa_total_staked a = tr_total_staked t" "wa_true_sum a = T"
      "wa_n_v0 a = length (filter (\<lambda>x. sv_weight_version x = 0) (map snd (stakes_at ps w)))"
    using audit_weights_shows [OF shows_w ok] by (auto simp: T_def)
  have v0: "wa_n_v0 a = 0" using a(4) assms(5) by (auto simp: filter_empty_conv)
  have t: "rpc_treasury H R w = (Inr t, w)" using shows_w by (simp add: shows_stakes_def)
  have "run_all H data_len [rebase_total_staked H E payer (tr_total_staked t) T] w = Inr w'"
    using client_rebases [OF assms(1-4) refl] by (simp add: w'_def)
  then have send: "submit_transaction R [rebase_total_staked H E payer (tr_total_staked t) T] w = (Inr (), w')"
    by (simp add: R_def local_submit)
  have "rebase_attempts H R E payer False (Suc n) w = (Inr (), w')" for n
    using a v0 t send assms(6) by (simp add: bind_cmd_def require_def ret_def attempt_def T_def)
  from this [of 4] have "rebase_total_staked_cmd H R E payer False w = (Inr (), w')"
    by (simp add: rebase_total_staked_cmd_def)
  moreover have t': "w_data w' (treasury_pda H) = ATreasury (t\<lparr>tr_total_staked := T\<rparr>)" by (simp add: w'_def)
  have at': "stakes_at ps w' = stakes_at ps w" "legacy_at ps w' = legacy_at ps w"
    unfolding w'_def by (rule stakes_at_treasury [OF assms(3)])+
  have "verify_stake_weights H R w' = (Inr (), w')"
    using audit_weights_shows [OF local_shows_stakes [OF t', of data_len ps, folded R_def], unfolded at', OF ok]
    by (auto simp: verify_stake_weights_def bind_cmd_def weight_drift_def ret_def T_def)
  ultimately show ?thesis by blast
qed

lemma rebase_repairs_total_witness:
  "\<exists>w'. rebase_total_staked_cmd ref_host (local_node ref_host (\<lambda>_ _. 0) [55]) ref_client 7 False (demo_audit_world 900) = (Inr (), w') \<and>
     verify_stake_weights ref_host (local_node ref_host (\<lambda>_ _. 0) [55]) w' = (Inr (), w')"
  using rebase_repairs_total [OF ref_runtime.runtime_axioms, of "demo_audit_world 900" demo_config _ 7 "[55]" "\<lambda>_ _. 0"]
  by (simp add: demo_config_def demo_paid_weight weight_total_def)

section \<open>The sweep\<close>

lemma migrate_pass_Inr:
  assumes "migrate_pass H R False continue s = (Inr (), s')"
  obtains stakes s0 where "get_program_accounts R KStakeV2 get_stake_v2 s = (Inr stakes, s0)"
      "\<forall>x\<in>set stakes. sv_weight_version (snd x) \<noteq> 0" "verify_stake_weights H R s0 = (Inr (), s')"
  | v0 s0 where "continue v0 s0 = (Inr (), s')" "v0 \<noteq> []"
  using assms by (fastforce simp: migrate_pass_def bind_eq_Inr Let_def filter_empty_conv case_prod_beta split: if_splits)

lemma migrate_loop_Inr:
  assumes "migrate_loop H R E payer False n s = (Inr (), s')"
  shows "\<exists>s1 s0 stakes. get_program_accounts R KStakeV2 get_stake_v2 s1 = (Inr stakes, s0) \<and>
    (\<forall>x\<in>set stakes. sv_weight_version (snd x) \<noteq> 0) \<and> verify_stake_weights H R s0 = (Inr (), s')"
  using assms
proof (induction n arbitrary: s)
  case 0
  then show ?case by (auto simp: fail_def elim!: migrate_pass_Inr)
next
  case (Suc n)
  from Suc.prems [simplified] show ?case
  proof (cases rule: migrate_pass_Inr)
    case (2 v0 s0)
    then obtain s2 where "migrate_loop H R E payer False n s2 = (Inr (), s')" by (auto simp: bind_eq_Inr)
    then show ?thesis by (rule Suc.IH)
  qed blast
qed

text \<open>\<open>f\<close> counts submissions: queries keep it, a parallel submission adds one.\<close>

definition counts_submissions :: "('s, 'n) rpc \<Rightarrow> ('s \<Rightarrow> nat) \<Rightarrow> bool" where
  "counts_submissions R f \<longleftrightarrow>
     (\<forall>p s. f (snd (r_account R p s)) = f s) \<and> (\<forall>k s. f (snd (r_program_accounts R k s)) = f s) \<and>
     (\<forall>bs s. f (snd (r_send_parallel R bs s)) = f s + 1)"

definition keeps :: "('s \<Rightarrow> nat) \<Rightarrow> ('s, 'a) cmd \<Rightarrow> bool" where
  "keeps f m \<longleftrightarrow> (\<forall>s. f (snd (m s)) = f s)"

lemma keeps_basic [intro]: "keeps f (ret x)" "keeps f (fail e)" "keeps f (or_abort r)" "keeps f (some_or e y)"
  by (simp_all add: keeps_def ret_def fail_def or_abort_def some_or_def split: sum.split option.split)

lemma keeps_bind [intro]: "keeps f m \<Longrightarrow> (\<And>x. keeps f (g x)) \<Longrightarrow> keeps f (bind_cmd m g)"
  by (auto simp: keeps_def bind_cmd_def split: prod.splits sum.splits) (metis snd_conv)+

lemma keeps_answer: "(\<And>s. f (snd (q s)) = f s) \<Longrightarrow> keeps f (answer e q)"
  by (auto simp: keeps_def answer_def split: prod.splits option.splits) (metis snd_conv)+

lemma counts_queries:
  assumes "counts_submissions R f"
  shows "keeps f (get_program_accounts R k parse)" "keeps f (fetch R parse' p)" "keeps f (verify_stake_weights H R)"
proof -
  show q: "keeps f (get_program_accounts R k g)" for k g
    using assms by (auto simp: keeps_def counts_submissions_def get_program_accounts_def
        split: prod.splits sum.splits query_error.splits) (metis snd_conv)+
  show p: "keeps f (fetch R g p)" for g p
    using assms by (auto simp: keeps_def counts_submissions_def fetch_def some_or_def ret_def fail_def
        split: prod.splits sum.splits option.splits) (metis snd_conv)+
  show "keeps f (verify_stake_weights H R)"
    unfolding verify_stake_weights_def audit_weights_def rpc_treasury_def
    by (intro keeps_bind q p keeps_basic) (simp split: if_split, blast)
qed

lemma counts_submit: "counts_submissions R f \<Longrightarrow> f (snd (submit_parallel R bs s)) = f s + 1"
  by (auto simp: counts_submissions_def submit_parallel_def answer_def split: prod.splits option.splits)
    (metis snd_conv)+

lemma migrate_pass_count:
  assumes "counts_submissions R f" "\<And>v0 s. f (snd (continue v0 s)) \<le> f s + n"
  shows "f (snd (migrate_pass H R dry_run continue s)) \<le> f s + n"
proof -
  obtain r s1 where g: "get_program_accounts R KStakeV2 get_stake_v2 s = (r, s1)" by fastforce
  have k: "f s1 = f s" using counts_queries(1) [OF assms(1)] g by (metis keeps_def snd_conv)
  have v: "f (snd (verify_stake_weights H R s1)) = f s1" using counts_queries(3) [OF assms(1)] by (simp add: keeps_def)
  have c: "f (snd (continue v0 s1)) \<le> f s + n" for v0 using assms(2) [of v0 s1] k by simp
  show ?thesis
    using c v k by (cases r) (simp_all add: migrate_pass_def bind_cmd_def g Let_def ret_def)
qed

lemma migrate_loop_count:
  assumes "counts_submissions R f"
  shows "f (snd (migrate_loop H R E payer dry_run n s)) \<le> f s + n"
proof (induction n arbitrary: s)
  case 0
  show ?case using migrate_pass_count [OF assms, of _ 0] by (simp add: fail_def)
next
  case (Suc n)
  show ?case unfolding migrate_loop.simps
  proof (rule migrate_pass_count [OF assms])
    fix v0 s
    show "f (snd (bind_cmd (attempt (submit_parallel R (migrate_batches H E payer v0)))
        (\<lambda>_. migrate_loop H R E payer dry_run n) s)) \<le> f s + Suc n"
      using counts_submit [OF assms, of "migrate_batches H E payer v0" s] Suc.IH [of "snd (submit_parallel R (migrate_batches H E payer v0) s)"]
      by (simp add: bind_cmd_def attempt_answer submit_parallel_def)
  qed
qed

text \<open>C32. The migration sweep is bounded and checked: in every run, whether it succeeds, gives up or
  fails, and whatever the network answers, at most ten parallel submissions are made; and when it
  reports success, its last look at the stakes found none left at weight version 0 and the audit
  passed on what it read afterwards.\<close>

lemma migrate_sweep_ends:
  assumes "counts_submissions R f" "migrate_stakes H R E payer False s = (r, s')"
  shows "f s' \<le> f s + 10 \<and>
    (r = Inr () \<longrightarrow> (\<exists>s1 s0 stakes. get_program_accounts R KStakeV2 get_stake_v2 s1 = (Inr stakes, s0) \<and>
      list_all (\<lambda>x. sv_weight_version (snd x) \<noteq> 0) stakes \<and> verify_stake_weights H R s0 = (Inr (), s')))"
  using migrate_loop_count [OF assms(1), of H E payer False 10 s] migrate_loop_Inr [of H R E payer 10 s s'] assms(2)
  unfolding migrate_stakes_def list_all_iff by auto

text \<open>A network that migrates its one stake when a batch is submitted; the state is the number of
  submissions.\<close>

definition demo_sweep_node :: "(nat, int) rpc" where
  "demo_sweep_node = \<lparr>
     r_account = (\<lambda>p n. (Inr (ATreasury (demo_treasury\<lparr>tr_total_staked := 1000\<rparr>)), n)),
     r_multiple = (\<lambda>ps n. (None, n)),
     r_program_accounts = (\<lambda>k n. (Inr (if k = KStakeV2
        then [(55, AStakeV2 (demo_paid_stake\<lparr>sv_weight_version := n\<rparr>))] else []), n)),
     r_lamports = (\<lambda>p n. (None, n)), r_rent = (\<lambda>k n. (None, n)), r_clock = (\<lambda>n. (None, n)),
     r_send = (\<lambda>ixs n. (None, n)), r_send_parallel = (\<lambda>bs n. (Some (map (\<lambda>_. True) bs), n + 1))\<rparr>"

lemma demo_sweep_runs: "migrate_stakes ref_host demo_sweep_node ref_client 7 False 0 = (Inr (), 1)"
proof -
  have g: "get_program_accounts demo_sweep_node KStakeV2 get_stake_v2 n = (Inr [(55, demo_paid_stake\<lparr>sv_weight_version := n\<rparr>)], n)"
    "get_program_accounts demo_sweep_node KStake get_stake n = (Inr [], n)"
    "rpc_treasury ref_host demo_sweep_node n = (Inr (demo_treasury\<lparr>tr_total_staked := 1000\<rparr>), n)" for n
    by (simp_all add: get_program_accounts_def answer_def bind_cmd_def ret_def demo_sweep_node_def map_filter_Cons
        get_stake_v2_def rpc_treasury_def fetch_def some_or_def get_treasury_def)
  have one: "demo_paid_stake\<lparr>sv_weight_version := 1\<rparr> = demo_paid_stake" using demo_paid_weight(2)
    by (cases demo_paid_stake) simp
  have "verify_stake_weights ref_host demo_sweep_node 1 = (Inr (), 1)"
    using audit_weights_shows [of ref_host demo_sweep_node _ "[(55, demo_paid_stake)]" "[]" 1] demo_paid_weight
    by (auto simp: shows_stakes_def g one verify_stake_weights_def bind_cmd_def weight_drift_def weight_total_def ret_def)
  then have last: "migrate_loop ref_host demo_sweep_node ref_client 7 False n 1 = (Inr (), 1)" for n
    by (cases n) (simp_all add: migrate_pass_def bind_cmd_def g one demo_paid_weight)
  have "migrate_loop ref_host demo_sweep_node ref_client 7 False (Suc n) 0 = (Inr (), 1)" for n
    using last [of n] by (simp add: migrate_pass_def bind_cmd_def g attempt_def submit_parallel_def answer_def)
      (simp add: demo_sweep_node_def)
  from this [of 9] show ?thesis by (simp add: migrate_stakes_def)
qed

lemma migrate_sweep_ends_witness:
  "migrate_stakes ref_host demo_sweep_node ref_client 7 False 0 = (Inr (), 1) \<and> (1::nat) \<le> 0 + 10 \<and>
   (\<exists>s0. verify_stake_weights ref_host demo_sweep_node s0 = (Inr (), 1))"
  using migrate_sweep_ends [of demo_sweep_node "\<lambda>n. n" ref_host ref_client 7 0 "Inr ()" 1] demo_sweep_runs
  by (auto simp: counts_submissions_def demo_sweep_node_def)

end
