(* ===== verification/CliMiningProperties.thy ===== *)
theory CliMiningProperties
  imports CliMining LocalNode Runs
begin

text \<open>
  The checkpoint and closing bots against the program: what the batches contain, what their
  submission does on a local node, and where the batching and the bots' conditions differ from
  what the program needs.
\<close>

section \<open>Batches\<close>

lemma run_all_append: "run_all H data_len (xs @ ys) w = and_then (run_all H data_len xs w) (run_all H data_len ys)"
proof (induction xs arbitrary: w)
  case (Cons x xs)
  have "run_all H data_len (xs @ ys) = (\<lambda>w. and_then (run_all H data_len xs w) (run_all H data_len ys))"
    by (rule ext) (rule Cons.IH)
  then show ?case by (simp add: and_then_assoc)
qed simp

lemma submit_each_local:
  "run_all H data_len (concat bs) w = Inr w' \<Longrightarrow> submit_each (local_node H data_len ps) bs w = (Inr (), w')"
proof (induction bs arbitrary: w)
  case (Cons b bs)
  then obtain w1 where w1: "run_all H data_len b w = Inr w1" "run_all H data_len (concat bs) w1 = Inr w'"
    by (auto simp: run_all_append result_simps)
  from Cons.IH [OF w1(2)] show ?case by (simp add: bind_cmd_def local_submit(1) [OF w1(1)])
qed (simp add: ret_def)

text \<open>Which miners are due, and what is sent for one.\<close>

definition due :: "u64 \<Rightarrow> round list \<Rightarrow> 'n miner \<Rightarrow> bool" where
  "due slot rounds m \<longleftrightarrow> mn_checkpoint_id m < mn_round_id m \<and>
     (\<exists>r\<in>set rounds. rnd_id r = mn_round_id m \<and> saturating_sub (rnd_expires_at r) TWELVE_HOURS_SLOTS \<le> slot)"

definition sent_for :: "'n host \<Rightarrow> client \<Rightarrow> pubkey \<Rightarrow> pubkey list \<Rightarrow> 'n miner \<Rightarrow> instruction list" where
  "sent_for H E payer extended m =
     (if mn_authority m \<in> set extended then [] else [create_miner_extended H E payer (mn_authority m)])
     @ [checkpoint_with_miner_extended H E payer (mn_authority m) (mn_round_id m)]"

lemma expiry_of_snoc: "expiry_of (rounds @ [r]) = (expiry_of rounds)(rnd_id r \<mapsto> rnd_expires_at r)"
  by (simp add: expiry_of_def)

lemma expiry_of_Some:
  "distinct (map rnd_id rounds) \<Longrightarrow> expiry_of rounds i = Some e \<longleftrightarrow> (\<exists>r\<in>set rounds. rnd_id r = i \<and> rnd_expires_at r = e)"
proof (induction rounds rule: rev_induct)
  case Nil
  show ?case by (simp add: expiry_of_def)
next
  case (snoc r rounds)
  then show ?case by (auto simp: expiry_of_snoc image_iff)
qed

lemma checkpoint_rounds_sent:
  assumes "distinct (map rnd_id rounds)"
  shows "checkpoint_rounds_ixs H E payer extended slot rounds miners =
     concat (map (sent_for H E payer extended) (filter (due slot rounds) miners))"
proof -
  have one: "(if mn_round_id m \<le> mn_checkpoint_id m then []
      else case expiry_of rounds (mn_round_id m) of None \<Rightarrow> []
        | Some expires_at \<Rightarrow> checkpoint_ixs H E payer extended slot expires_at m) =
      (if due slot rounds m then sent_for H E payer extended m else [])" for m :: "'a miner"
  proof (cases "expiry_of rounds (mn_round_id m)")
    case None
    then have "\<not> due slot rounds m" using expiry_of_Some [OF assms, of "mn_round_id m"] by (auto simp: due_def)
    with None show ?thesis by simp
  next
    case (Some e)
    then obtain r where r: "r \<in> set rounds" "rnd_id r = mn_round_id m" "rnd_expires_at r = e"
      using expiry_of_Some [OF assms, of "mn_round_id m" e] by blast
    have "rnd_expires_at r' = e" if "r' \<in> set rounds" "rnd_id r' = mn_round_id m" for r'
      using expiry_of_Some [OF assms, of "mn_round_id m" "rnd_expires_at r'"] Some that by auto
    with r have "due slot rounds m \<longleftrightarrow> mn_checkpoint_id m < mn_round_id m \<and> saturating_sub e TWELVE_HOURS_SLOTS \<le> slot"
      unfolding due_def by metis
    with Some show ?thesis by (simp add: checkpoint_ixs_def sent_for_def Let_def)
  qed
  show ?thesis by (induction miners) (simp_all add: checkpoint_rounds_ixs_def one)
qed

text \<open>The answers the bot gets to its four queries.\<close>

definition bot_reads :: "('s, 'n) rpc \<Rightarrow> 's \<Rightarrow> u64 \<Rightarrow> 'n miner list \<Rightarrow> pubkey list \<Rightarrow> round list \<Rightarrow> 's \<Rightarrow> bool" where
  "bot_reads R s slot miners extended rounds s' \<longleftrightarrow> (\<exists>now s1 s2 s3 ms xs rs.
     rpc_clock R s = (Inr (slot, now), s1) \<and> rpc_miners R s1 = (Inr ms, s2) \<and> rpc_miner_extendeds R s2 = (Inr xs, s3) \<and>
     rpc_rounds R s3 = (Inr rs, s') \<and> miners = map snd ms \<and> extended = map (mx_authority \<circ> snd) xs \<and> rounds = map snd rs)"

text \<open>One parallel submission, and what becomes of it.\<close>

definition submits :: "('s, 'n) rpc \<Rightarrow> instruction list list \<Rightarrow> 's \<Rightarrow> (cli_error + unit) \<times> 's" where
  "submits R batches s =
     (case r_send_parallel R batches s of
        (None, s') \<Rightarrow> (Inl TransactionFailed, s')
      | (Some oks, s') \<Rightarrow> (if list_all id oks then Inr () else Inl (Bailed ''some transactions failed''), s'))"

lemma checkpoint_rounds_submits:
  assumes "bot_reads R s slot miners extended rounds s'" "distinct (map rnd_id rounds)"
  shows "checkpoint_rounds_cmd H R E payer s =
    submits R (chunks 6 (concat (map (sent_for H E payer extended) (filter (due slot rounds) miners)))) s'"
proof -
  from assms(1) obtain now s1 s2 s3 ms xs rs where q: "rpc_clock R s = (Inr (slot, now), s1)"
    "rpc_miners R s1 = (Inr ms, s2)" "rpc_miner_extendeds R s2 = (Inr xs, s3)" "rpc_rounds R s3 = (Inr rs, s')"
    "miners = map snd ms" "extended = map (mx_authority \<circ> snd) xs" "rounds = map snd rs"
    unfolding bot_reads_def by blast
  have "checkpoint_rounds_cmd H R E payer s = submit_all_parallel R (checkpoint_rounds_ixs H E payer extended slot rounds miners) s'"
    by (simp add: checkpoint_rounds_cmd_def existing_extended_def bind_cmd_def q ret_def)
  then show ?thesis
    by (simp add: checkpoint_rounds_sent [OF assms(2)] submit_all_parallel_def submit_parallel_def submits_def bind_cmd_def
        answer_def ret_def fail_def list_all_iff split: prod.split option.split) auto
qed

lemma chunks_full: "0 < n \<Longrightarrow> b \<in> set (butlast (chunks n xs)) \<Longrightarrow> length b = n"
proof (induction n xs rule: chunks.induct)
  case (1 n xs)
  show ?case
  proof (cases "xs = []")
    case False
    from 1 False show ?thesis by (cases "drop n xs = []") (auto split: if_splits)
  qed (use 1 in simp)
qed

text \<open>C33. The checkpoint bot sends exactly what is due. When the node answers its four queries, and no
  two rounds it sees have the same number, \<open>checkpoint_rounds\<close> makes one parallel submission, and
  succeeds exactly if every batch does. The batches, of six instructions each but the last, are
  together, in order: for every miner with an open round in its last twelve hours, and for no other,
  the creation of the extended account if it is missing and then the checkpoint.\<close>

lemma checkpoint_bot_exact:
  assumes "bot_reads R s slot miners extended rounds s1" "distinct (map rnd_id rounds)"
  shows "\<exists>batches. checkpoint_rounds_cmd H R E payer s =
      (case r_send_parallel R batches s1 of
         (None, s') \<Rightarrow> (Inl TransactionFailed, s')
       | (Some oks, s') \<Rightarrow> (if list_all id oks then Inr () else Inl (Bailed ''some transactions failed''), s')) \<and>
    list_all (\<lambda>b. b \<noteq> [] \<and> length b \<le> 6) batches \<and> list_all (\<lambda>b. length b = 6) (butlast batches) \<and>
    concat batches = concat (map (\<lambda>m.
        (if mn_authority m \<in> set extended then [] else [create_miner_extended H E payer (mn_authority m)])
        @ [checkpoint_with_miner_extended H E payer (mn_authority m) (mn_round_id m)])
      (filter (\<lambda>m. mn_checkpoint_id m < mn_round_id m \<and>
        (\<exists>r\<in>set rounds. rnd_id r = mn_round_id m \<and> saturating_sub (rnd_expires_at r) TWELVE_HOURS_SLOTS \<le> slot)) miners))"
proof -
  let ?b = "chunks 6 (concat (map (sent_for H E payer extended) (filter (due slot rounds) miners)))"
  have "list_all (\<lambda>b. b \<noteq> [] \<and> length b \<le> 6) ?b"
    unfolding list_all_iff using chunk_size by blast
  moreover have "list_all (\<lambda>b. length b = 6) (butlast ?b)"
    unfolding list_all_iff by (intro ballI chunks_full) simp_all
  moreover have "concat ?b = concat (map (sent_for H E payer extended) (filter (due slot rounds) miners))"
    by (rule concat_chunks) simp
  ultimately show ?thesis
    using checkpoint_rounds_submits [OF assms, of H E payer]
    unfolding submits_def sent_for_def [abs_def] due_def [abs_def] by blast
qed

definition demo_due :: "pubkey \<Rightarrow> int miner" where
  "demo_due a = (new_miner fx_ops a)\<lparr>mn_round_id := 5\<rparr>"

definition demo_due_round :: round where
  "demo_due_round = (demo_round 0)\<lparr>rnd_id := 5, rnd_expires_at := 1000\<rparr>"

lemma demo_due_simps [simp]:
  "mn_authority (demo_due a) = a" "mn_round_id (demo_due a) = 5" "due 990 [demo_due_round] (demo_due a)"
  by (simp_all add: due_def demo_due_def demo_due_round_def new_miner_def saturating_sub_def time_consts)

text \<open>A node that shows the given miners, of which only 101 has an extended account, and logs what is
  submitted in parallel.\<close>

definition demo_bot_node :: "pubkey list \<Rightarrow> (instruction list list, int) rpc" where
  "demo_bot_node authorities = \<lparr>
     r_account = (\<lambda>p s. (Inl NodeError, s)), r_multiple = (\<lambda>ps s. (None, s)),
     r_program_accounts = (\<lambda>k s. (Inr (case k of
        KMiner \<Rightarrow> map (\<lambda>a. (a, AMiner (demo_due a))) authorities
      | KMinerExtended \<Rightarrow> [(2, AMinerExtended \<lparr>mx_authority = 101, mx_xaut_rewards_factor = 0, mx_xaut_rewards = 0,
          mx_lifetime_xaut = 0, mx_buffer = []\<rparr>)]
      | KRound \<Rightarrow> [(3, ARound demo_due_round)]
      | _ \<Rightarrow> []), s)),
     r_lamports = (\<lambda>p s. (None, s)), r_rent = (\<lambda>k s. (None, s)), r_clock = (\<lambda>s. (Some (990, 0), s)),
     r_send = (\<lambda>ixs s. (None, s)), r_send_parallel = (\<lambda>bs s. (Some (map (\<lambda>_. True) bs), bs))\<rparr>"

lemma demo_bot_reads:
  "bot_reads (demo_bot_node authorities) s 990 (map demo_due authorities) [101] [demo_due_round] s"
proof -
  have "List.map_filter (\<lambda>(key, data). map_option (Pair key) (get_miner data)) (map (\<lambda>a. (a, AMiner (demo_due a))) authorities)
      = map (\<lambda>a. (a, demo_due a)) authorities"
    by (induction authorities) (simp_all add: map_filter_Cons get_miner_def)
  then show ?thesis
    by (simp add: bot_reads_def rpc_clock_def rpc_miners_def rpc_miner_extendeds_def rpc_rounds_def answer_def
        get_program_accounts_def demo_bot_node_def map_filter_Cons get_miner_extended_def get_round_def comp_def)
qed

lemma demo_bot_submits: "submits (demo_bot_node authorities) batches s = (Inr (), batches)"
proof -
  have "list_all id (map (\<lambda>_. True) batches)" by (simp add: list_all_iff)
  then show ?thesis by (simp add: submits_def demo_bot_node_def)
qed

lemma checkpoint_bot_exact_witness:
  "\<exists>log. checkpoint_rounds_cmd ref_host (demo_bot_node [101, 102]) ref_client 7 [] = (Inr (), log) \<and>
     concat log = [checkpoint_with_miner_extended ref_host ref_client 7 101 5,
       create_miner_extended ref_host ref_client 7 102, checkpoint_with_miner_extended ref_host ref_client 7 102 5]"
proof -
  have due: "mn_checkpoint_id (demo_due a) < 5" for a by (simp add: demo_due_def new_miner_def)
  have last: "saturating_sub (rnd_expires_at demo_due_round) TWELVE_HOURS_SLOTS \<le> 990" "rnd_id demo_due_round = 5"
    by (simp_all add: demo_due_round_def saturating_sub_def time_consts)
  have "distinct (map rnd_id [demo_due_round])" by simp
  from checkpoint_bot_exact [OF demo_bot_reads this, of ref_host "[101, 102]" ref_client 7 "[]"] due last
  obtain batches where "checkpoint_rounds_cmd ref_host (demo_bot_node [101, 102]) ref_client 7 [] =
      (case r_send_parallel (demo_bot_node [101, 102]) batches [] of
         (None, s') \<Rightarrow> (Inl TransactionFailed, s')
       | (Some oks, s') \<Rightarrow> (if list_all id oks then Inr () else Inl (Bailed ''some transactions failed''), s'))"
    "concat batches = [checkpoint_with_miner_extended ref_host ref_client 7 101 5,
       create_miner_extended ref_host ref_client 7 102, checkpoint_with_miner_extended ref_host ref_client 7 102 5]"
    by auto
  then show ?thesis unfolding submits_def [symmetric] demo_bot_submits by blast
qed

text \<open>One after the other, batches are transparent: if the instructions of the closing or checkpoint
  bot would all succeed in a row, then submitting them in batches of any size succeeds with the
  same final ledger.\<close>

lemma sequential_batches_transparent:
  assumes "run_all H data_len ixs w = Inr w'" "0 < n"
  shows "submit_each (local_node H data_len ps) (chunks n ixs) w = (Inr (), w')"
  by (rule submit_each_local) (simp add: concat_chunks assms)

lemma sequential_batches_run:
  "submit_each (local_node ref_host (\<lambda>_ _. 0) [])
     (chunks 1 [set_admin ref_host ref_client 7 9, set_fee_collector ref_host ref_client 9 4]) demo_config_world =
   (Inr (), demo_config_world\<lparr>w_data := (w_data demo_config_world)(config_pda ref_host :=
      AConfig (demo_config\<lparr>cfg_admin := 9, cfg_fee_collector := 4\<rparr>))\<rparr>)"
proof -
  have d: "w_data demo_config_world (config_pda ref_host) = AConfig demo_config"
    by (simp add: demo_config_world_def world_of_def)
  let ?w1 = "demo_config_world\<lparr>w_data := (w_data demo_config_world)(config_pda ref_host := AConfig (demo_config\<lparr>cfg_admin := 9\<rparr>))\<rparr>"
  have 1: "run_instruction ref_host (\<lambda>_ _. 0) (set_admin ref_host ref_client 7 9) demo_config_world = Inr ?w1"
    using ref_runtime.config_setter_runs [OF d, simplified list.map]
    by (simp add: run_instruction_def set_admin_def instr_def Let_def process_instruction_def process_set_admin_def demo_config_def)
  have d1: "w_data ?w1 (config_pda ref_host) = AConfig (demo_config\<lparr>cfg_admin := 9\<rparr>)" by simp
  have 2: "run_instruction ref_host (\<lambda>_ _. 0) (set_fee_collector ref_host ref_client 9 4) ?w1 =
      Inr (demo_config_world\<lparr>w_data := (w_data demo_config_world)(config_pda ref_host :=
      AConfig (demo_config\<lparr>cfg_admin := 9, cfg_fee_collector := 4\<rparr>))\<rparr>)"
    using ref_runtime.config_setter_runs [OF d1, simplified list.map]
    by (simp add: run_instruction_def set_fee_collector_def instr_def Let_def process_instruction_def
        process_set_fee_collector_def)
  show ?thesis
    by (rule sequential_batches_transparent) (simp_all add: 1 2)
qed

section \<open>Parallel batches\<close>

lemma chunks_append: "length xs = k * n \<Longrightarrow> 0 < n \<Longrightarrow> chunks n (xs @ ys) = chunks n xs @ chunks n ys"
proof (induction k arbitrary: xs)
  case (Suc k)
  then have "xs \<noteq> []" "n \<le> length xs" "length (drop n xs) = k * n" by auto
  with Suc.IH [of "drop n xs"] Suc.prems(2) show ?case by simp
qed simp

lemma chunks_pair:
  assumes "length pre mod 6 = 5"
  shows "\<exists>before b more after. chunks 6 (pre @ [x, y] @ post) = before @ [b @ [x], y # more] @ after"
proof -
  define k where "k = length pre div 6"
  let ?p = "take (k * 6) pre" and ?q = "drop (k * 6) pre"
  have l: "length pre = k * 6 + 5" using assms div_mult_mod_eq [of "length pre" 6] by (simp add: k_def)
  have "chunks 6 (?p @ (?q @ [x, y] @ post)) = chunks 6 ?p @ chunks 6 (?q @ [x, y] @ post)"
    by (rule chunks_append [of _ k]) (use l in simp_all)
  moreover have "chunks 6 (?q @ [x, y] @ post) = (?q @ [x]) # (y # take 5 post) # chunks 6 (drop 5 post)"
    using l by simp
  ultimately show ?thesis by (metis append_assoc append_take_drop_id append_Cons append_Nil)
qed

text \<open>C34. Sent in parallel, a batch can depend on another. Whenever the instructions of the due miners
  before a due miner without an extended account are five more than a multiple of six, the bot's one
  submission ends a batch with the creation of that miner's account and begins the next with the
  checkpoint that needs it, although batches of a submission are executed in any order.\<close>

lemma parallel_batches_split_pair:
  assumes "bot_reads R s slot miners extended rounds s1" "distinct (map rnd_id rounds)"
    and "filter (due slot rounds) miners = earlier @ m # later" "mn_authority m \<notin> set extended"
    and "length (concat (map (sent_for H E payer extended) earlier)) mod 6 = 5"
  shows "\<exists>before b more after. checkpoint_rounds_cmd H R E payer s = submits R
    (before @ [b @ [create_miner_extended H E payer (mn_authority m)],
       checkpoint_with_miner_extended H E payer (mn_authority m) (mn_round_id m) # more] @ after) s1"
proof -
  let ?c = "create_miner_extended H E payer (mn_authority m)"
  let ?p = "checkpoint_with_miner_extended H E payer (mn_authority m) (mn_round_id m)"
  obtain before b more after where "chunks 6 (concat (map (sent_for H E payer extended) earlier) @ [?c, ?p] @
      concat (map (sent_for H E payer extended) later)) = before @ [b @ [?c], ?p # more] @ after"
    using chunks_pair [OF assms(5)] by blast
  moreover have "concat (map (sent_for H E payer extended) (filter (due slot rounds) miners)) =
      concat (map (sent_for H E payer extended) earlier) @ [?c, ?p] @ concat (map (sent_for H E payer extended) later)"
    using assms(4) by (simp add: assms(3)) (simp add: sent_for_def)
  ultimately show ?thesis using checkpoint_rounds_submits [OF assms(1,2), of H E payer] by metis
qed

text \<open>One miner with an extended account and three without.\<close>

lemma parallel_batches_split_pair_witness:
  "\<exists>before b more after. checkpoint_rounds_cmd ref_host (demo_bot_node [101, 102, 103, 104]) ref_client 7 [] =
     (Inr (), before @ [b @ [create_miner_extended ref_host ref_client 7 104],
        checkpoint_with_miner_extended ref_host ref_client 7 104 5 # more] @ after)"
proof -
  have d: "distinct (map rnd_id [demo_due_round])" by simp
  have f: "filter (due 990 [demo_due_round]) (map demo_due [101, 102, 103, 104]) =
      map demo_due [101, 102, 103] @ demo_due 104 # []" by simp
  have l: "length (concat (map (sent_for ref_host ref_client 7 [101]) (map demo_due [101, 102, 103]))) mod 6 = 5"
    by (simp add: sent_for_def)
  have "mn_authority (demo_due 104) \<notin> set [101]" by simp
  from parallel_batches_split_pair [OF demo_bot_reads d f this l, of "[]"] obtain before b more after where
    "checkpoint_rounds_cmd ref_host (demo_bot_node [101, 102, 103, 104]) ref_client 7 [] =
       submits (demo_bot_node [101, 102, 103, 104]) (before @ [b @ [create_miner_extended ref_host ref_client 7 104],
        checkpoint_with_miner_extended ref_host ref_client 7 104 5 # more] @ after) []"
    by auto
  then show ?thesis unfolding demo_bot_submits by blast
qed

section \<open>Closing\<close>

lemma local_rounds:
  "rpc_rounds (local_node H data_len ps) w = (Inr (accounts_at get_round ps w), w)"
  by (simp add: rpc_rounds_def local_accounts kind_of_parsed)

lemma client_close_guard:
  assumes "runtime H E" "w_data w (board_pda H) = ABoard b" "w_data w (treasury_pda H) = ATreasury t"
    and "w_data w (round_pda H (rnd_id r)) = ARound r"
    and "\<not> (rnd_id r < board_round_id b \<and> rnd_expires_at r < w_slot w)"
  shows "run_instruction H data_len (close H E payer (rnd_id r) (rnd_rent_payer r)) w = Inl (h_assert_error H)"
proof -
  note ok = runtime.ok_checks [OF assms(1)]
  show ?thesis using assms(2-5)
    by (auto simp: run_instruction_def close_def instr_def Let_def process_instruction_def process_close_def
        load_def ok ensure_def)
qed

text \<open>C35. The closing bot \<open>close-all\<close> blocks itself: it selects rounds whose last slot is the current one,
  the program refuses to close those, and when such a round (or one of the current board, of which
  the bot does not check the number) comes first the command fails without closing any round.\<close>

lemma close_all_blocked:
  fixes H :: "'n host" and w :: "'n world"
  assumes "runtime H E" "w_data w (board_pda H) = ABoard b" "w_data w (treasury_pda H) = ATreasury t"
    and "filter (\<lambda>r. rnd_expires_at r \<le> w_slot w) (map snd (accounts_at get_round ps w)) = r # rest"
    and "w_data w (round_pda H (rnd_id r)) = ARound r" "rnd_expires_at r = w_slot w"
  shows "close_all_cmd H (local_node H data_len ps) E payer w = (Inl TransactionFailed, w)"
proof -
  let ?ix = "\<lambda>r. close H E payer (rnd_id r) (rnd_rent_payer r)"
  have "run_instruction H data_len (?ix r) w = Inl (h_assert_error H)"
    by (rule client_close_guard [OF assms(1-3,5)]) (simp add: assms(6))
  then have "run_all H data_len (take 12 (map ?ix (r # rest))) w = Inl (h_assert_error H)" by simp
  from local_submit(2) [OF this] have "submit_each (local_node H data_len ps) (chunks 12 (map ?ix (r # rest))) w =
      (Inl TransactionFailed, w)"
    by (simp add: bind_cmd_def)
  then show ?thesis
    by (simp only: close_all_cmd_def bind_cmd_def local_rounds local_clock prod.case sum.case assms(4))
qed

definition demo_closing_world :: "int world" where
  "demo_closing_world = world_of
     [(board_pda ref_host, ABoard \<lparr>board_round_id = 9, board_start_slot = 0, board_end_slot = 1\<rparr>),
      (treasury_pda ref_host, ATreasury demo_treasury), (round_pda ref_host 5, ARound demo_due_round)] [] 1000 0"

lemma close_all_blocked_witness:
  "close_all_cmd ref_host (local_node ref_host (\<lambda>_ _. 0) [round_pda ref_host 5]) ref_client 7 demo_closing_world =
     (Inl TransactionFailed, demo_closing_world)"
proof (rule close_all_blocked [OF ref_runtime.runtime_axioms])
  have apart: "treasury_pda ref_host \<noteq> board_pda ref_host" "round_pda ref_host 5 \<noteq> board_pda ref_host"
    "round_pda ref_host 5 \<noteq> treasury_pda ref_host"
    by (simp_all add: treasury_pda_def round_pda_def board_pda_def ref_pda_def seed_code_def TREASURY_def ROUND_def BOARD_def)
  note data = demo_closing_world_def world_of_def
  show "w_data demo_closing_world (board_pda ref_host) = ABoard \<lparr>board_round_id = 9, board_start_slot = 0, board_end_slot = 1\<rparr>"
    "w_data demo_closing_world (treasury_pda ref_host) = ATreasury demo_treasury"
    "w_data demo_closing_world (round_pda ref_host (rnd_id demo_due_round)) = ARound demo_due_round"
    "rnd_expires_at demo_due_round = w_slot demo_closing_world"
    "filter (\<lambda>r. rnd_expires_at r \<le> w_slot demo_closing_world)
       (map snd (accounts_at get_round [round_pda ref_host 5] demo_closing_world)) = demo_due_round # []"
    using apart by (simp_all add: data demo_due_round_def accounts_at_def map_filter_Cons get_round_def)
qed

end
