(* ===== verification/CliGoldProperties.thy ===== *)
theory CliGoldProperties
  imports CliGold MinerSystem GoldSystem Runs LocalNode "HOL-Library.Multiset"
begin

text \<open>
  The gold commands against the miners' ledger: the audit before a purchase, the creation of
  extended accounts, and what a purchase that goes through has checked and sends.
\<close>

section \<open>The audit\<close>

definition shows_miners :: "'n host \<Rightarrow> ('s, 'n) rpc \<Rightarrow> 'n treasury \<Rightarrow> (pubkey \<times> 'n miner) list
    \<Rightarrow> (pubkey \<times> 'n miner_extended) list \<Rightarrow> 's \<Rightarrow> bool" where
  "shows_miners H R t miners extended s \<longleftrightarrow>
     rpc_treasury H R s = (Inr t, s) \<and> rpc_miners R s = (Inr miners, s) \<and> rpc_miner_extendeds R s = (Inr extended, s)"

lemma audit_gold_shows:
  assumes "shows_miners H R t miners extended s"
  shows "audit_gold H R s = (Inr (weigh_unclaimed t (map snd miners) (map (mx_authority \<circ> snd) extended)), s)"
  using assms by (simp add: shows_miners_def audit_gold_def extended_authorities_def bind_cmd_def ret_def)

lemma sum_positive: "sum_list (map f (filter (\<lambda>x. f x > 0) xs)) = (sum_list (map f xs) :: nat)"
  by (induction xs) auto

lemma unclaimed_sum:
  "ua_true_sum (weigh_unclaimed t miners existing) = sum_list (map mn_rewards_godl miners)"
  by (simp add: weigh_unclaimed_def Let_def sum_positive)

lemma none_unextended:
  "ua_n_without_extended (weigh_unclaimed t miners existing) = 0 \<longleftrightarrow>
     (\<forall>m\<in>set miners. mn_rewards_godl m > 0 \<longrightarrow> mn_authority m \<in> set existing)"
  by (auto simp: weigh_unclaimed_def Let_def filter_empty_conv)

text \<open>C36. The gold roll-out is safe to start: once \<open>create-miner-extended-all\<close> has created the accounts
  it selects, it selects none again, and \<open>audit-unclaimed\<close> passes on any reachable state of the
  miners' ledger: the recomputed sum is \<open>Treasury::total_unclaimed\<close> and every holder of unrefined
  GODL has an extended account.\<close>

lemma rollout_audit_passes:
  assumes "mining_reachable N S" "shows_miners H R (ms_treasury S) miners extended s"
    and "mset (map snd miners) = mset (ms_miners S)"
    and "set (map (mx_authority \<circ> snd) extended) = set existing \<union> set (extension_targets every existing (map snd miners))"
  shows "extension_targets every (map (mx_authority \<circ> snd) extended) (map snd miners) = [] \<and>
    audit_unclaimed H R s = (Inr (), s)"
proof -
  have "sum_list (map mn_rewards_godl (map snd miners)) = sum_list (map mn_rewards_godl (ms_miners S))"
    by (metis assms(3) mset_map sum_mset_sum_list)
  also have "\<dots> = tr_total_unclaimed (ms_treasury S)"
    using miner_ledger_reachable [OF assms(1)] by (simp add: miner_ledger_def)
  finally have total: "ua_true_sum (weigh_unclaimed (ms_treasury S) (map snd miners) e) = tr_total_unclaimed (ms_treasury S)" for e
    by (simp add: unclaimed_sum)
  have covered: "mn_authority m \<in> set (map (mx_authority \<circ> snd) extended)"
    if "m \<in> set (map snd miners)" "every \<or> mn_rewards_godl m > 0 \<or> mn_checkpoint_id m < mn_round_id m" for m
    unfolding assms(4) using that by (auto simp: extension_targets_def)
  then have "ua_n_without_extended (weigh_unclaimed (ms_treasury S) (map snd miners) (map (mx_authority \<circ> snd) extended)) = 0"
    unfolding none_unextended by blast
  with total have "audit_unclaimed H R s = (Inr (), s)"
    by (simp add: audit_unclaimed_def audit_gold_shows [OF assms(2)] bind_cmd_def require_def ret_def weigh_unclaimed_def Let_def)
  moreover have "extension_targets every (map (mx_authority \<circ> snd) extended) (map snd miners) = []"
    using covered unfolding extension_targets_def map_is_Nil_conv filter_empty_conv by blast
  ultimately show ?thesis by blast
qed

text \<open>The two demo miners share an authority, whose extended account is the one that is missing.\<close>

definition demo_gold_node :: "(unit, int) rpc" where
  "demo_gold_node = \<lparr>
     r_account = (\<lambda>p s. (Inr (ATreasury (ms_treasury demo_mining)), s)), r_multiple = (\<lambda>ps s. (None, s)),
     r_program_accounts = (\<lambda>k s. (Inr (case k of
        KMiner \<Rightarrow> map (\<lambda>m. (1, AMiner m)) (ms_miners demo_mining)
      | KMinerExtended \<Rightarrow> [(2, AMinerExtended \<lparr>mx_authority = 200, mx_xaut_rewards_factor = 0, mx_xaut_rewards = 0,
          mx_lifetime_xaut = 0, mx_buffer = []\<rparr>)]
      | _ \<Rightarrow> []), s)),
     r_lamports = (\<lambda>p s. (None, s)), r_rent = (\<lambda>k s. (None, s)), r_clock = (\<lambda>s. (None, s)),
     r_send = (\<lambda>ixs s. (None, s)), r_send_parallel = (\<lambda>bs s. (None, s))\<rparr>"

lemma rollout_audit_passes_witness:
  "extension_targets False [] (ms_miners demo_mining) = [200] \<and> audit_unclaimed ref_host demo_gold_node () = (Inr (), ())"
proof -
  let ?x = "\<lparr>mx_authority = 200, mx_xaut_rewards_factor = 0, mx_xaut_rewards = 0, mx_lifetime_xaut = 0, mx_buffer = []\<rparr>"
  let ?miners = "map (\<lambda>m. (1, m)) (ms_miners demo_mining)"
  have targets: "extension_targets False [] (ms_miners demo_mining) = [200]"
    by (simp add: extension_targets_def demo_mining_def demo_miner_def new_miner_def)
  have "shows_miners ref_host demo_gold_node (ms_treasury demo_mining) ?miners [(2, ?x)] ()"
    by (simp add: shows_miners_def rpc_treasury_def fetch_def rpc_miners_def rpc_miner_extendeds_def
        get_program_accounts_def answer_def bind_cmd_def ret_def some_or_def demo_gold_node_def get_treasury_def
        map_filter_Cons get_miner_def get_miner_extended_def demo_mining_def)
  from rollout_audit_passes [OF demo_mining_reachable this, of "[]" False] targets show ?thesis
    by (simp add: comp_def)
qed

section \<open>Buying gold\<close>

lemma wsol_dust_Inr:
  "wsol_dust H R s = (Inr dust, s') \<Longrightarrow> \<exists>rent s1. r_rent R 165 s = (Some rent, s1) \<and>
     ((\<exists>n. r_lamports R (gold_vault_sol_address H) s1 = (Some n, s') \<and> dust = saturating_sub n rent) \<or>
      (r_lamports R (gold_vault_sol_address H) s1 = (None, s') \<and> dust = 0))"
  by (auto simp: wsol_dust_def bind_cmd_def answer_def attempt_def ret_def split: prod.splits option.splits sum.splits)

lemma audit_gold_Inr:
  "audit_gold H R s = (Inr a, s') \<Longrightarrow> \<exists>t ms xs s1 s2. rpc_treasury H R s = (Inr t, s1) \<and> rpc_miners R s1 = (Inr ms, s2) \<and>
     rpc_miner_extendeds R s2 = (Inr xs, s') \<and> a = weigh_unclaimed t (map snd ms) (map (mx_authority \<circ> snd) xs)"
  by (auto simp: audit_gold_def extended_authorities_def bind_eq_Inr ret_def)

text \<open>C37. A purchase of gold goes out only when it is safe and complete: on success the ledger had at
  least \<open>amount\<close>, the legacy instructions had expired, \<open>Treasury::total_unclaimed\<close> was the sum of the
  unrefined GODL, every holder had an extended account, and the transaction moves \<open>amount\<close> and
  swaps all of it but the tenth of the rush vault, together with what the swap account already held.\<close>

lemma purchase_is_checked:
  fixes H :: "'n host" and R :: "('s, 'n) rpc"
  assumes "execute_buy_gold H R J E payer amount min_out dexes s = (Inr (), s')"
  shows "\<exists>m now slot t ms xs dust swap s1 s2 s3 s4 s5 s6 s7 s8.
    rpc_sol_motherlode H R s = (Inr m, s1) \<and> amount \<noteq> 0 \<and> amount \<le> sm_amount m \<and>
    rpc_clock R s1 = (Inr (slot, now), s2) \<and> LEGACY_INSTRUCTION_EXPIRY_TS \<le> now \<and>
    rpc_treasury H R s2 = (Inr t, s3) \<and> rpc_miners R s3 = (Inr ms, s4) \<and> rpc_miner_extendeds R s4 = (Inr xs, s5) \<and>
    tr_total_unclaimed t = sum_list (map (mn_rewards_godl \<circ> snd) ms) \<and>
    (\<forall>x\<in>set ms. mn_rewards_godl (snd x) > 0 \<longrightarrow> mn_authority (snd x) \<in> set (map (mx_authority \<circ> snd) xs)) \<and>
    wsol_dust H R s6 = (Inr dust, s7) \<and>
    j_build J (gold_vault_pda H) payer (amount - amount div 10 + dust) XAUT_MINT dexes s7 = (Some swap, s8) \<and>
    j_send J (sb_lut_accounts swap) (swap_transaction swap (pre_buy_gold H E payer amount)
      (buy_gold H E payer min_out (sb_swap_accounts swap) (sb_swap_data swap))) s8 = (Some (), s')"
proof -
  from assms obtain m s1 slot now s2 a s3 b s4 rush gold dust s5 swap s6 where
    f: "amount \<noteq> 0" "rpc_sol_motherlode H R s = (Inr m, s1)" "amount \<le> sm_amount m"
      "rpc_clock R s1 = (Inr (slot, now), s2)" "LEGACY_INSTRUCTION_EXPIRY_TS \<le> now" "audit_gold H R s2 = (Inr a, s3)"
      "ua_total_unclaimed a = ua_true_sum a" "ua_n_without_extended a = 0" "rpc_board H R s3 = (Inr b, s4)"
      "split_payout amount = Some (rush, gold)" "wsol_dust H R s4 = (Inr dust, s5)"
      "\<exists>q. checked_add gold dust = Some q \<and> j_build J (gold_vault_pda H) payer q XAUT_MINT dexes s5 = (Some swap, s6)"
      "j_send J (sb_lut_accounts swap) (swap_transaction swap (pre_buy_gold H E payer amount)
        (buy_gold H E payer min_out (sb_swap_accounts swap) (sb_swap_data swap))) s6 = (Some (), s')"
    unfolding execute_buy_gold_def cmd_Inr case_prod_beta by (metis prod.collapse)
  from audit_gold_Inr [OF f(6)] obtain t ms xs u1 u2 where reads: "rpc_treasury H R s2 = (Inr t, u1)"
      "rpc_miners R u1 = (Inr ms, u2)" "rpc_miner_extendeds R u2 = (Inr xs, s3)"
    and a: "a = weigh_unclaimed t (map snd ms) (map (mx_authority \<circ> snd) xs)"
    by blast
  have "ua_total_unclaimed a = tr_total_unclaimed t" by (simp add: a weigh_unclaimed_def Let_def)
  then have total: "tr_total_unclaimed t = sum_list (map (mn_rewards_godl \<circ> snd) ms)"
    using f(7) by (simp add: a unclaimed_sum)
  have ext: "\<forall>x\<in>set ms. mn_rewards_godl (snd x) > 0 \<longrightarrow> mn_authority (snd x) \<in> set (map (mx_authority \<circ> snd) xs)"
    using f(8) unfolding a none_unextended by simp
  have gold: "gold = amount - amount div 10" using split_payout_spec [OF f(10)] by simp
  show ?thesis
    using f reads total ext unfolding gold by (fastforce simp: result_simps)
qed

definition demo_buy_node :: "(unit, int) rpc" where
  "demo_buy_node = demo_gold_node\<lparr>
     r_account := (\<lambda>p s. (Inr (if p = sol_motherlode_pda ref_host then ASolMotherlode \<lparr>sm_amount = 5000\<rparr>
        else if p = board_pda ref_host then ABoard \<lparr>board_round_id = 9, board_start_slot = 0, board_end_slot = 1\<rparr>
        else ATreasury (ms_treasury demo_mining)), s)),
     r_rent := (\<lambda>k s. (Some 2039280, s)), r_clock := (\<lambda>s. (Some (1, LEGACY_INSTRUCTION_EXPIRY_TS), s))\<rparr>"

definition demo_router :: "(unit, unit) router" where
  "demo_router = \<lparr>j_build = (\<lambda>_ _ _ _ _ s. (Some \<lparr>sb_setup = [], sb_swap_accounts = [], sb_swap_data = [], sb_cleanup = None, sb_lut_accounts = []\<rparr>, s)),
     j_send = (\<lambda>_ _ s. (Some (), s))\<rparr>"

lemma demo_purchase: "execute_buy_gold ref_host demo_buy_node demo_router ref_client 7 1000 5 None () = (Inr (), ())"
proof -
  have apart: "treasury_pda ref_host \<noteq> sol_motherlode_pda ref_host" "treasury_pda ref_host \<noteq> board_pda ref_host"
    "board_pda ref_host \<noteq> sol_motherlode_pda ref_host"
    by (simp_all add: treasury_pda_def sol_motherlode_pda_def board_pda_def ref_pda_def seed_code_def TREASURY_def
        SOL_MOTHERLODE_def BOARD_def)
  have m: "rpc_sol_motherlode ref_host demo_buy_node () = (Inr \<lparr>sm_amount = 5000\<rparr>, ())"
    by (simp add: rpc_sol_motherlode_def fetch_def demo_buy_node_def some_or_def ret_def get_sol_motherlode_def)
  have c: "rpc_clock demo_buy_node () = (Inr (1, LEGACY_INSTRUCTION_EXPIRY_TS), ())"
    by (simp add: rpc_clock_def answer_def demo_buy_node_def)
  have b: "rpc_board ref_host demo_buy_node () = (Inr \<lparr>board_round_id = 9, board_start_slot = 0, board_end_slot = 1\<rparr>, ())"
    using apart by (simp add: rpc_board_def fetch_def demo_buy_node_def some_or_def ret_def get_board_def)
  let ?x = "\<lparr>mx_authority = 200, mx_xaut_rewards_factor = 0, mx_xaut_rewards = 0, mx_lifetime_xaut = 0, mx_buffer = []\<rparr>"
  have "shows_miners ref_host demo_buy_node (ms_treasury demo_mining) (map (\<lambda>m. (1, m)) (ms_miners demo_mining)) [(2, ?x)] ()"
    using apart by (simp add: shows_miners_def rpc_treasury_def fetch_def rpc_miners_def rpc_miner_extendeds_def
        get_program_accounts_def answer_def bind_cmd_def ret_def some_or_def demo_buy_node_def demo_gold_node_def
        get_treasury_def map_filter_Cons get_miner_def get_miner_extended_def demo_mining_def)
  note a = audit_gold_shows [OF this]
  have w: "weigh_unclaimed (ms_treasury demo_mining) (map snd (map (\<lambda>m. (1, m)) (ms_miners demo_mining))) (map (mx_authority \<circ> snd) [(2, ?x)]) =
      \<lparr>ua_total_unclaimed = 3000, ua_true_sum = 3000, ua_n_miners = 2, ua_n_unrefined = 1, ua_n_without_extended = 0\<rparr>"
    by (simp add: weigh_unclaimed_def demo_mining_def demo_miner_def new_miner_def)
  have d: "wsol_dust ref_host demo_buy_node () = (Inr 0, ())"
    by (simp add: wsol_dust_def bind_cmd_def answer_def attempt_def ret_def demo_buy_node_def demo_gold_node_def)
  have p: "split_payout 1000 = Some (100, 900)"
    by (simp add: split_payout_def checked_mul_def bps_consts)
  show ?thesis
    by (simp add: execute_buy_gold_def bind_cmd_def m c b a [unfolded w] d p require_def ret_def some_or_def answer_def
        checked_add_def demo_router_def)
qed

lemma purchase_is_checked_witness:
  "\<exists>m. rpc_sol_motherlode ref_host demo_buy_node () = (Inr m, ()) \<and> 1000 \<le> sm_amount m"
proof -
  from purchase_is_checked [OF demo_purchase] obtain m s1
    where "rpc_sol_motherlode ref_host demo_buy_node () = (Inr m, s1)" "1000 \<le> sm_amount m" by blast
  then show ?thesis by simp
qed

end
