(* ===== verification/CliNetworkProperties.thy ===== *)
theory CliNetworkProperties
  imports CliMain LocalNode
begin

text \<open>
  The client and the services it depends on: what goes out of a buy-back quoted by the swap router,
  what the simulation commands report, and how long the polling commands last.
\<close>

section \<open>A buy-back from the quote to the node\<close>














definition demo_http :: "(unit, raw_instruction) http" where
  "demo_http = \<lparr>hc_post = (\<lambda>_ _ s. (Some (JObject [(''result'', JString ''5'')]), s)),
     hc_get = (\<lambda>_ _ _ s. (Some (200, Some (JObject [(''swapInstruction'', JObject [(''programId'', JString ''p''),
        (''accounts'', JArray [JObject [(''pubkey'', JString ''k''), (''isWritable'', JBool True), (''isSigner'', JBool False)]]),
        (''data'', JString ''d'')])])), s)),
     hc_encode = (\<lambda>_. ''tx''), hc_signature = (\<lambda>_. Some 5)\<rparr>"

definition demo_codecs :: codecs where
  "demo_codecs = \<lparr>cd_show = (\<lambda>_. ''k''), cd_pubkey = (\<lambda>_. Some 77), cd_base64 = (\<lambda>_. Some [9])\<rparr>"

definition demo_chain_node :: "(unit, raw_instruction) node" where
  "demo_chain_node = \<lparr>nd_blockhash = (\<lambda>s. (Some 3, s)), nd_send = (\<lambda>_ s. (Some 5, s)), nd_send_and_confirm = (\<lambda>_ s. (Some 5, s)),
     nd_simulate = (\<lambda>_ s. (Some \<lparr>sim_err = Some ''custom program error''\<rparr>, s)),
     nd_compile = (\<lambda>payer parts tables bh. Some \<lparr>tx_payer = payer, tx_blockhash = bh, tx_parts = parts, tx_tables = tables\<rparr>),
     nd_table = (\<lambda>_ s. (Some (Some [1, 2]), s)), nd_parallel = (\<lambda>_ _ s. (None, s))\<rparr>"




section \<open>Simulations\<close>

text \<open>C39. A simulation that fails is reported as a success: when the node executes the transaction and
  answers with an error, \<open>simulate_transaction\<close> returns \<open>Ok\<close>, where \<open>simulate_transaction_core\<close>, on the
  same transaction, returns an error; so the simulations of the vault withdrawal and of the transfer
  of the mint authority succeed although the real command would be refused.\<close>

lemma failed_simulation_reported_ok:
  fixes V :: "('s, 'n, 'f) session"
  assumes "nd_blockhash (ss_node V) s = (Some blockhash, s1)"
    and "\<And>tx. nd_simulate (ss_node V) tx s1 = (Some \<lparr>sim_err = Some e\<rparr>, s2)"
  shows "simulate_transaction (ss_node V) payer ixs s = (Inr (), s2) \<and>
    simulate_transaction_core (ss_node V) payer ixs None None s = (Inl (Bailed ''Simulation failed''), s2) \<and>
    run_command V payer (SimulateWithdrawVault_cmd amount) s = (Inr (), s2) \<and>
    run_command V payer SimulateTransferMintAuthority_cmd s = (Inr (), s2)"
proof -
  have *: "simulate_transaction (ss_node V) payer ixs s = (Inr (), s2)" for ixs
    by (simp add: simulate_transaction_def bind_cmd_def answer_def assms ret_def)
  moreover have "simulate_transaction_core (ss_node V) payer ixs None None s = (Inl (Bailed ''Simulation failed''), s2)"
    by (simp add: simulate_transaction_core_def simulated_def bind_cmd_def answer_def assms fail_def)
  ultimately show ?thesis
    by (simp add: run_command_def run_maintenance_def simulate_withdraw_vault_def simulate_transfer_mint_authority_def *)
qed

text \<open>A session against a node that refuses every simulation.\<close>

definition demo_raw :: raw_instruction where
  "demo_raw = \<lparr>ri_program_id = 1, ri_accounts = [], ri_data = []\<rparr>"

definition demo_tools :: "(unit, nat) tools" where
  "demo_tools = \<lparr>tl_slot = (\<lambda>s. (Some 9, s)), tl_create_table = (\<lambda>_ _ _. (demo_raw, 2)), tl_extend_table = (\<lambda>_ _ _ _. demo_raw),
     tl_create_ata = (\<lambda>_ _ _ _. demo_raw), tl_file_len = (\<lambda>_ s. (Some 100, s)), tl_program_data_address = (\<lambda>p. p + 1),
     tl_account = (\<lambda>_ s. (Some (145, 5), s)), tl_extend_program = (\<lambda>_ _ _. demo_raw), tl_exceeds = (\<lambda>n m. m < n),
     tl_seed = (\<lambda>_ s. (None, s)), tl_sample = (\<lambda>_ _. demo_raw), tl_reveal = (\<lambda>_ _ _. demo_raw),
     tl_token_balance = (\<lambda>_ s. (None, s)), tl_sleep = (\<lambda>_ s. s)\<rparr>"

definition demo_session :: "(unit, int, nat) session" where
  "demo_session = \<lparr>ss_host = ref_host,
     ss_rpc = \<lparr>r_account = (\<lambda>_ s. (Inl NodeError, s)), r_multiple = (\<lambda>_ s. (None, s)), r_program_accounts = (\<lambda>_ s. (Inl Refused, s)),
       r_lamports = (\<lambda>_ s. (None, s)), r_rent = (\<lambda>_ s. (None, s)), r_clock = (\<lambda>s. (None, s)), r_send = (\<lambda>_ s. (None, s)),
       r_send_parallel = (\<lambda>_ s. (None, s))\<rparr>,
     ss_node = demo_chain_node, ss_http = demo_http, ss_codecs = demo_codecs, ss_client = ref_client,
     ss_tools = demo_tools,
     ss_floats = \<lparr>fl_truncate = (\<lambda>a n. a * n), fl_round = (\<lambda>a n. a), fl_ui_amount = (\<lambda>a n. a)\<rparr>, ss_turns = 0, ss_jup_api_key = None, ss_jup_api_base_url = DEFAULT_BASE_URL\<rparr>"

lemma failed_simulation_reported_ok_witness:
  "run_command demo_session 7 (SimulateWithdrawVault_cmd 1000) () = (Inr (), ())"
proof -
  have "nd_blockhash (ss_node demo_session) () = (Some 3, ())"
    "nd_simulate (ss_node demo_session) tx () = (Some \<lparr>sim_err = Some ''custom program error''\<rparr>, ())" for tx
    by (simp_all add: demo_session_def demo_chain_node_def)
  from failed_simulation_reported_ok [OF this] show ?thesis by blast
qed

section \<open>Polling\<close>

lemma poll_runs:
  assumes "\<And>s. fst (turn s) = Inr ()"
  shows "poll pause turn n s = (Inr (), ((pause \<circ> snd \<circ> turn) ^^ n) s)"
proof (induction n arbitrary: s)
  case (Suc n)
  obtain s1 where "turn s = (Inr (), s1)" using assms [of s] by (metis prod.collapse)
  then have "poll pause turn (Suc n) s = poll pause turn n (pause (snd (turn s)))"
    by (simp add: bind_cmd_def)
  also have "\<dots> = (Inr (), ((pause \<circ> snd \<circ> turn) ^^ Suc n) s)" by (simp add: Suc.IH funpow_Suc_right comp_def del: funpow.simps(2))
  finally show ?case .
qed (simp add: ret_def)

lemma poll_aborts:
  assumes "\<And>s e. fst (turn s) = Inl e \<Longrightarrow> e = Aborted"
  shows "fst (poll pause turn n s) = Inl e \<Longrightarrow> e = Aborted"
proof (induction n arbitrary: s)
  case (Suc n)
  obtain r s' where t: "turn s = (r, s')" by fastforce
  then show ?case
    using Suc.prems Suc.IH [of "pause s'"] assms [of s] by (cases r) (simp_all add: bind_cmd_def)
qed (simp add: ret_def)

text \<open>A command that does not abort, and a turn that handles every error of such commands.\<close>

definition no_abort :: "('s, 'a) cmd \<Rightarrow> bool" where
  "no_abort m \<longleftrightarrow> (\<forall>s. fst (m s) \<noteq> Inl Aborted)"

lemma no_abort_basic [intro]:
  "no_abort (ret x)" "no_abort (some_or Overflowed y)" "no_abort (some_or (Bailed t) y)" "no_abort (some_or AccountUnreadable y)"
  "no_abort (require b (Bailed t))" "no_abort (answer RpcFailed q)" "no_abort (answer TransactionFailed q)"
  by (auto simp: no_abort_def ret_def fail_def some_or_def require_def answer_def split: option.split prod.split)

lemma no_abort_bind [intro]: "no_abort m \<Longrightarrow> (\<And>x. no_abort (f x)) \<Longrightarrow> no_abort (bind_cmd m f)"
  unfolding no_abort_def bind_cmd_def by (simp split: prod.split sum.split) (metis fst_conv)

lemma no_abort_attempt [intro]: "no_abort m \<Longrightarrow> no_abort (attempt m)"
  unfolding no_abort_def attempt_def by (simp split: prod.split sum.split cli_error.split) (metis fst_conv)

lemma no_abort_fetch [intro]: "no_abort (fetch R parse p)"
  by (auto simp: no_abort_def fetch_def some_or_def ret_def fail_def split: prod.split sum.split option.split)

text \<open>A provider that serves the query for the program's accounts.\<close>

definition serves_accounts :: "('s, 'n) rpc \<Rightarrow> bool" where
  "serves_accounts R \<longleftrightarrow> (\<forall>k s. fst (r_program_accounts R k s) \<noteq> Inl Gone)"

lemma no_abort_accounts [intro]: "serves_accounts R \<Longrightarrow> no_abort (get_program_accounts R kind parse)"
  unfolding no_abort_def serves_accounts_def get_program_accounts_def
  by (auto split: prod.split sum.split query_error.split) (metis fst_conv)

lemma no_abort_prod [intro]: "(\<And>x y. no_abort (f x y)) \<Longrightarrow> no_abort (case p of (x, y) \<Rightarrow> f x y)"
  by (cases p) simp

lemma no_abort_audit [intro]: "serves_accounts R \<Longrightarrow> no_abort (audit_gold H R)" "no_abort (rpc_clock R)" "no_abort (rpc_board H R)"
    "no_abort (rpc_sol_motherlode H R)" "no_abort (wsol_dust H R)"
  unfolding audit_gold_def extended_authorities_def rpc_treasury_def rpc_miners_def rpc_miner_extendeds_def rpc_clock_def
    rpc_board_def rpc_sol_motherlode_def wsol_dust_def
  by (auto intro!: no_abort_bind)

lemma no_abort_commands [intro]:
  "serves_accounts R \<Longrightarrow> no_abort (execute_buy_gold H R J E payer amount min_out dexes)"
  "no_abort (execute_manual_bury H R E payer units no_burn)"
  "amount * CHEST_AMOUNT_BPS \<le> u64_max \<Longrightarrow> no_abort (execute_bury H J E payer amount no_burn)"
  by (auto simp: execute_buy_gold_def execute_manual_bury_def submit_transaction_def execute_bury_def build_sol_to_godl_def
      bury_shares_def or_abort_def mul64_def sub64_def Let_def CHEST_AMOUNT_BPS_def split: sum.split intro!: no_abort_bind)

lemma turn_runs:
  assumes "no_abort m" and "\<And>r s1. fst (f r s1) = Inr ()"
  shows "fst (bind_cmd (attempt m) f s) = Inr ()"
proof -
  obtain r s1 where m: "m s = (r, s1)" by fastforce
  with assms(1) have "r \<noteq> Inl Aborted" unfolding no_abort_def by (metis fst_conv)
  with m assms(2) [of r s1] show ?thesis by (simp add: cmd_simps)
qed

lemma attempt_then_ret: "no_abort m \<Longrightarrow> fst (bind_cmd (attempt m) (\<lambda>_. ret ()) s) = Inr ()"
  by (rule turn_runs) (auto simp: run_ret)

lemma turns_run:
  "amount * CHEST_AMOUNT_BPS \<le> u64_max \<Longrightarrow> fst (bury_turn H R J E payer amount threshold no_burn s) = Inr ()"
  "fst (manual_bury_turn H R E U payer threshold no_burn s) = Inr ()"
  "serves_accounts R \<Longrightarrow> fst (buy_gold_turn H R J E payer amount min_out dexes s) = Inr ()"
  unfolding bury_turn_def manual_bury_turn_def buy_gold_turn_def
  by (rule turn_runs, auto simp: run_ret intro: attempt_then_ret split: sum.split)+

lemma attempt_aborts:
  assumes "fst (bind_cmd (attempt m) f s) = Inl e" "\<And>r s1. fst (f r s1) = Inl e \<Longrightarrow> e = Aborted"
  shows "e = Aborted"
  using assms unfolding bind_cmd_def attempt_def by (auto split: prod.splits sum.splits cli_error.splits)

lemma buy_gold_turn_aborts:
  assumes "fst (buy_gold_turn H R J E payer amount min_out dexes s) = Inl e"
  shows "e = Aborted"
  using assms unfolding buy_gold_turn_def
proof (rule attempt_aborts)
  fix r s1
  assume "fst ((case r of Inr motherlode \<Rightarrow>
       if sm_amount motherlode \<ge> amount
       then bind_cmd (attempt (execute_buy_gold H R J E payer amount min_out dexes)) (\<lambda>_. ret ())
       else ret ()
     | Inl _ \<Rightarrow> ret ()) s1) = Inl e"
  then show "e = Aborted" by (auto simp: run_ret split: sum.splits if_splits elim!: attempt_aborts)
qed

text \<open>C40. The polling commands never give up: whatever the node, the swap service and the other users do,
  no error ends their loops. However many turns are watched, all of them run, one pause apart, for
  \<open>manual_bury_listen\<close> with a positive threshold (with none it returns at once); for \<open>bury_listen\<close> if the
  amount times a thousand fits into 64 bits; and for \<open>buy_gold_listen\<close> with a provider that serves the
  query for the program's accounts. The only end of \<open>buy_gold_listen\<close> is the panic at a provider that
  does not; \<open>bury_listen\<close> aborts before the first turn if its threshold, the amount and a tenth of a
  SOL, does not fit.\<close>

lemma polling_never_stops:
  fixes U :: "('s, 'f) tools" and turns :: nat
  defines "runs pause turn s \<equiv> (Inr (), ((tl_sleep U pause \<circ> snd \<circ> turn) ^^ turns) (s :: 's))"
  shows "(let turn = buy_gold_turn H R J E payer (fl_truncate F amount_sol LAMPORTS_PER_SOL)
        (fl_round F min_out_xaut XAUT_DECIMALS) dexes in
     (serves_accounts R \<longrightarrow> buy_gold_listen H R J E U F payer amount_sol min_out_xaut dexes turns s = runs 60 turn s) \<and>
     (\<forall>e. fst (buy_gold_listen H R J E U F payer amount_sol min_out_xaut dexes turns s) = Inl e \<longrightarrow> e = Aborted)) \<and>
   (let threshold = fl_truncate F amount_godl ONE_GODL in
     manual_bury_listen H R E U F payer amount_godl no_burn turns s =
       (if threshold = 0 then (Inr (), s) else runs 60 (manual_bury_turn H R E U payer threshold no_burn) s)) \<and>
   (let amount = fl_truncate F amount_sol LAMPORTS_PER_SOL; threshold = amount + LAMPORTS_PER_SOL div 10 in
     (amount * CHEST_AMOUNT_BPS \<le> u64_max \<longrightarrow>
       bury_listen H R J E U F payer amount_sol no_burn turns s = runs 30 (bury_turn H R J E payer amount threshold no_burn) s) \<and>
     (threshold > u64_max \<longrightarrow> bury_listen H R J E U F payer amount_sol no_burn turns s = (Inl Aborted, s)))"
proof -
  let ?a = "fl_truncate F amount_sol LAMPORTS_PER_SOL"
  let ?t = "fl_truncate F amount_godl ONE_GODL"
  have "serves_accounts R \<Longrightarrow> buy_gold_listen H R J E U F payer amount_sol min_out_xaut dexes turns s =
      runs 60 (buy_gold_turn H R J E payer ?a (fl_round F min_out_xaut XAUT_DECIMALS) dexes) s"
    unfolding buy_gold_listen_def runs_def by (rule poll_runs) (rule turns_run)
  moreover have "fst (buy_gold_listen H R J E U F payer amount_sol min_out_xaut dexes turns s) = Inl e \<Longrightarrow> e = Aborted" for e
    unfolding buy_gold_listen_def by (rule poll_aborts) (rule buy_gold_turn_aborts)
  moreover have "manual_bury_listen H R E U F payer amount_godl no_burn turns s =
      (if ?t = 0 then (Inr (), s) else runs 60 (manual_bury_turn H R E U payer ?t no_burn) s)"
    using poll_runs [of "manual_bury_turn H R E U payer ?t no_burn", OF turns_run(2)]
    by (simp add: manual_bury_listen_def runs_def run_ret)
  moreover have "bury_listen H R J E U F payer amount_sol no_burn turns s =
      runs 30 (bury_turn H R J E payer ?a (?a + LAMPORTS_PER_SOL div 10) no_burn) s" if "?a * CHEST_AMOUNT_BPS \<le> u64_max"
  proof -
    have "?a + LAMPORTS_PER_SOL div 10 \<le> u64_max" using that by (simp add: CHEST_AMOUNT_BPS_def LAMPORTS_PER_SOL_def)
    then show ?thesis
      using poll_runs [of "bury_turn H R J E payer ?a (?a + LAMPORTS_PER_SOL div 10) no_burn", OF turns_run(1) [OF that]]
      by (simp add: bury_listen_def bury_threshold_def add64_def or_abort_def runs_def Let_def)
  qed
  moreover have "?a + LAMPORTS_PER_SOL div 10 > u64_max \<Longrightarrow>
      bury_listen H R J E U F payer amount_sol no_burn turns s = (Inl Aborted, s)"
    by (simp add: bury_listen_def bury_threshold_def add64_def or_abort_def run_fail Let_def)
  ultimately show ?thesis unfolding Let_def by blast
qed

text \<open>A network that answers nothing, on which only the time passes: three turns of each loop.\<close>

definition silent_node :: "(nat, int) rpc" where
  "silent_node = \<lparr>r_account = (\<lambda>_ s. (Inl TransportError, s)), r_multiple = (\<lambda>_ s. (None, s)),
     r_program_accounts = (\<lambda>_ s. (Inl Refused, s)), r_lamports = (\<lambda>_ s. (None, s)), r_rent = (\<lambda>_ s. (None, s)),
     r_clock = (\<lambda>s. (None, s)), r_send = (\<lambda>_ s. (None, s)), r_send_parallel = (\<lambda>_ s. (None, s))\<rparr>"

definition clock_tools :: "(nat, nat) tools" where
  "clock_tools = \<lparr>tl_slot = (\<lambda>s. (None, s)), tl_create_table = (\<lambda>_ _ _. (demo_raw, 2)), tl_extend_table = (\<lambda>_ _ _ _. demo_raw),
     tl_create_ata = (\<lambda>_ _ _ _. demo_raw), tl_file_len = (\<lambda>_ s. (None, s)), tl_program_data_address = (\<lambda>p. p + 1),
     tl_account = (\<lambda>_ s. (None, s)), tl_extend_program = (\<lambda>_ _ _. demo_raw), tl_exceeds = (\<lambda>n m. m < n),
     tl_seed = (\<lambda>_ s. (None, s)), tl_sample = (\<lambda>_ _. demo_raw), tl_reveal = (\<lambda>_ _ _. demo_raw),
     tl_token_balance = (\<lambda>_ s. (None, s)), tl_sleep = (\<lambda>n s. s + n)\<rparr>"

definition silent_router :: "(nat, unit) router" where
  "silent_router = \<lparr>j_build = (\<lambda>_ _ _ _ _ s. (None, s)), j_send = (\<lambda>_ _ s. (None, s))\<rparr>"

lemma polling_never_stops_witness:
  "buy_gold_listen ref_host silent_node silent_router ref_client clock_tools (ss_floats demo_session) 7 1 1 None 3 0 = (Inr (), 180) \<and>
   manual_bury_listen ref_host silent_node ref_client clock_tools (ss_floats demo_session) 7 1 True 3 0 = (Inr (), 180) \<and>
   bury_listen ref_host silent_node silent_router ref_client clock_tools (ss_floats demo_session) 7 1 True 3 0 = (Inr (), 90)"
proof -
  have turn: "snd (buy_gold_turn ref_host silent_node silent_router ref_client 7 a m d s) = s"
    "snd (manual_bury_turn ref_host silent_node ref_client clock_tools 7 a b s) = s"
    "snd (bury_turn ref_host silent_node silent_router ref_client 7 a m b s) = s" for a m d b s
    by (simp_all add: buy_gold_turn_def manual_bury_turn_def bury_turn_def bind_cmd_def attempt_def answer_def ret_def
        rpc_sol_motherlode_def fetch_def silent_node_def clock_tools_def)
  have f: "fl_truncate (ss_floats demo_session) x n = x * n" for x n by (simp add: demo_session_def)
  have pause: "tl_sleep clock_tools n s = s + n" for n s by (simp add: clock_tools_def)
  have "serves_accounts silent_node" by (simp add: serves_accounts_def silent_node_def)
  then show ?thesis
    using polling_never_stops [of ref_host silent_node silent_router ref_client 7 "ss_floats demo_session" 1 1 None clock_tools 3 0 1 True]
    by (simp add: Let_def f pause numeral_3_eq_3 turn ONE_GODL_def LAMPORTS_PER_SOL_def CHEST_AMOUNT_BPS_def)
qed

end
