(* ===== verification/Lamports.thy ===== *)
theory Lamports
  imports Reference_Host
begin

text \<open>
  Lamports and the amounts the program's accounts record. The runtime lets only the owner of an
  account debit it, while anyone may credit it, so no call into another program lowers the lamports
  of an account of this program. The locale states these rules for the host; the rest of the theory
  is a calculus for the question which handlers keep every recorded amount backed.
\<close>

section \<open>Recorded amounts\<close>

text \<open>The lamports an account's content promises: the treasury's vault, the SOL motherlode, the OTC
  desk's takings, a miner's rewards and checkpoint fee, an automation's balance, a referrer's
  rewards.\<close>

definition recorded :: "'n account_data \<Rightarrow> nat" where
  "recorded d = (case d of
     ATreasury t \<Rightarrow> tr_balance t
   | ASolMotherlode s \<Rightarrow> sm_amount s
   | AOtcTreasury t \<Rightarrow> ot_sol_balance t
   | AMiner m \<Rightarrow> mn_rewards_sol m + mn_checkpoint_fee m
   | AAutomationV2 a \<Rightarrow> au_balance a
   | AReferrer r \<Rightarrow> rf_rewards_sol r
   | _ \<Rightarrow> 0)"

lemma recorded_simps [simp]:
  "recorded (ATreasury t) = tr_balance t" "recorded (ASolMotherlode s) = sm_amount s"
  "recorded (AOtcTreasury ot) = ot_sol_balance ot" "recorded (AMiner m) = mn_rewards_sol m + mn_checkpoint_fee m"
  "recorded (AAutomationV2 a) = au_balance a" "recorded (AReferrer r) = rf_rewards_sol r" "recorded AEmpty = 0"
  "recorded (AStakeV2 sv) = 0" "recorded (ABoard b) = 0" "recorded (AConfig c) = 0" "recorded (ARound rd) = 0" "recorded (AStake st) = 0"
  "recorded (AMinerExtended x) = 0" "recorded (APoolMember pm) = 0" "recorded (APoolRound pr) = 0" "recorded (AGoldVault v) = 0"
  "recorded (AOtcUser u) = 0" "recorded (AToken tk) = 0" "recorded (AMint mt) = 0" "recorded (AVar va) = 0"
  by (simp_all add: recorded_def)

lemma recorded_program_owned: "0 < recorded d \<Longrightarrow> program_owned d"
  by (cases d) (simp_all add: recorded_def program_owned_def)

section \<open>Rules of the runtime\<close>

text \<open>The account a call debits by the program's own authority.\<close>

fun debits :: "host_call \<Rightarrow> pubkey set" where
  "debits (Send from to n) = {from}"
| "debits (CloseAccount a to) = {a}"
| "debits _ = {}"

locale solana_lamports = solana +
  assumes call_debit: "h_call H c w = Inr w' \<Longrightarrow> program_owned (w_data w p) \<Longrightarrow> p \<notin> debits c \<Longrightarrow>
      w_lamports w p \<le> w_lamports w' p"
    and call_recorded: "h_call H c w = Inr w' \<Longrightarrow> recorded (w_data w' p) \<le> recorded (w_data w p)"
    and call_collect: "h_call H (Collect to from n) w = Inr w' \<Longrightarrow> program_owned (w_data w to) \<Longrightarrow>
      w_lamports w to + n \<le> w_lamports w' to"
    and call_close_to: "h_call H (CloseAccount a to) w = Inr w' \<Longrightarrow>
      w_lamports w' = moved a to (w_lamports w a) (w_lamports w)"

lemma ref_lamports_quiet:
  "ref_transfer from to n w = Inr w' \<Longrightarrow> w_lamports w' = w_lamports w"
  "ref_burn from n w = Inr w' \<Longrightarrow> w_lamports w' = w_lamports w"
  "ref_mint to n w = Inr w' \<Longrightarrow> w_lamports w' = w_lamports w"
  by (auto simp: ref_transfer_def ref_burn_def ref_mint_def Let_def split: account_data.splits if_splits)

lemma ref_recorded_quiet:
  "ref_transfer from to n w = Inr w' \<Longrightarrow> recorded (w_data w' p) \<le> recorded (w_data w p)"
  "ref_burn from n w = Inr w' \<Longrightarrow> recorded (w_data w' p) \<le> recorded (w_data w p)"
  "ref_mint to n w = Inr w' \<Longrightarrow> recorded (w_data w' p) \<le> recorded (w_data w p)"
  by (auto simp: ref_transfer_def ref_burn_def ref_mint_def Let_def split: account_data.splits if_splits)

lemma recorded_zeroed [simp]: "recorded (zeroed k) = 0"
  by (cases k) (simp_all add: zeroed_def recorded_def)

interpretation ref_lamports: solana_lamports ref_host
proof unfold_locales
  fix c and w w' :: "int world" and p a src dst n
  show "w_lamports w p \<le> w_lamports w' p"
    if "h_call ref_host c w = Inr w'" "program_owned (w_data w p)" "p \<notin> debits c"
    using that by (cases c) (auto simp: ref_move_eq ref_create_eq result_simps ref_lamports_quiet moved_def Let_def
        split: if_splits)
  show "recorded (w_data w' p) \<le> recorded (w_data w p)" if "h_call ref_host c w = Inr w'"
    using that by (cases c) (auto simp: ref_move_eq ref_create_eq result_simps ref_recorded_quiet split: if_splits)
  show "w_lamports w dst + n \<le> w_lamports w' dst"
    if "h_call ref_host (Collect dst src n) w = Inr w'" "program_owned (w_data w dst)"
    using that by (auto simp: ref_move_eq moved_def Let_def split: if_splits)
  show "w_lamports w' = moved a dst (w_lamports w a) (w_lamports w)"
    if "h_call ref_host (CloseAccount a dst) w = Inr w'"
    using that by (auto simp: ref_move_eq result_simps)
qed

end
