(* ===== verification/Solvency.thy ===== *)
theory Solvency
  imports Lamports Dispatch
begin

text \<open>
  Solvency: every lamport amount that an account of the program records is held by that account.
  The invariant is preserved by every instruction of the program (\<open>process_instruction\<close>).
\<close>

section \<open>The invariant\<close>

definition covered :: "'n world \<Rightarrow> bool" where
  "covered w \<longleftrightarrow> (\<forall>p. recorded (w_data w p) \<le> w_lamports w p)"

text \<open>An account of the program with at least \<open>n\<close> lamports.\<close>

definition backs :: "'n world \<Rightarrow> pubkey \<Rightarrow> nat \<Rightarrow> bool" where
  "backs w p n \<longleftrightarrow> program_owned (w_data w p) \<and> n \<le> w_lamports w p"

lemma covered_at: "covered w \<Longrightarrow> recorded (w_data w p) \<le> w_lamports w p"
  by (simp add: covered_def)

lemma covered_put: "covered w \<Longrightarrow> recorded d \<le> w_lamports w (ai_key a) \<Longrightarrow> covered (put a d w)"
  by (simp add: covered_def)

text \<open>Writing an account that records no lamports, and one that does.\<close>

lemma covered_put_plain [simp]:
  "covered w \<Longrightarrow> covered (put a (AStakeV2 s) w)" "covered w \<Longrightarrow> covered (put a (ABoard b) w)"
  "covered w \<Longrightarrow> covered (put a (AConfig c) w)" "covered w \<Longrightarrow> covered (put a (ARound r) w)"
  "covered w \<Longrightarrow> covered (put a (AStake u) w)" "covered w \<Longrightarrow> covered (put a (AMinerExtended x) w)"
  "covered w \<Longrightarrow> covered (put a (APoolMember pm) w)" "covered w \<Longrightarrow> covered (put a (APoolRound pr) w)"
  "covered w \<Longrightarrow> covered (put a (AGoldVault v) w)" "covered w \<Longrightarrow> covered (put a (AOtcUser ou) w)"
  by (simp_all add: covered_put)

lemma covered_put_ledger:
  "covered w \<Longrightarrow> backs w (ai_key a) (tr_balance t) \<Longrightarrow> covered (put a (ATreasury t) w)"
  "covered w \<Longrightarrow> backs w (ai_key a) (mn_rewards_sol m + mn_checkpoint_fee m) \<Longrightarrow> covered (put a (AMiner m) w)"
  "covered w \<Longrightarrow> backs w (ai_key a) (sm_amount l) \<Longrightarrow> covered (put a (ASolMotherlode l) w)"
  "covered w \<Longrightarrow> backs w (ai_key a) (ot_sol_balance ot) \<Longrightarrow> covered (put a (AOtcTreasury ot) w)"
  "covered w \<Longrightarrow> backs w (ai_key a) (au_balance au) \<Longrightarrow> covered (put a (AAutomationV2 au) w)"
  "covered w \<Longrightarrow> backs w (ai_key a) (rf_rewards_sol rf) \<Longrightarrow> covered (put a (AReferrer rf) w)"
  by (simp_all add: covered_put backs_def)

lemma backs_put [simp]: "backs w p n \<Longrightarrow> program_owned d \<Longrightarrow> backs (put a d w) p n"
  by (simp add: backs_def)

lemma backs_data: "covered w \<Longrightarrow> w_data w p = d \<Longrightarrow> program_owned d \<Longrightarrow> n \<le> recorded d \<Longrightarrow> backs w p n"
  using covered_at [of w p] by (simp add: backs_def)

text \<open>All amounts but those of the accounts in \<open>S\<close>, which a handler is about to settle.\<close>

definition covered_but :: "pubkey set \<Rightarrow> 'n world \<Rightarrow> bool" where
  "covered_but S w \<longleftrightarrow> (\<forall>p. p \<notin> S \<longrightarrow> recorded (w_data w p) \<le> w_lamports w p)"

lemma covered_but_open: "covered w \<Longrightarrow> covered_but S w"
  by (simp add: covered_def covered_but_def)

lemma covered_but_put: "ai_key a \<in> S \<or> recorded d = 0 \<Longrightarrow> covered_but S w \<Longrightarrow> covered_but S (put a d w)"
  by (auto simp: covered_but_def)

text \<open>Settling the last such account, with or without a write.\<close>

lemma covered_but_close: "covered_but {p} w \<Longrightarrow> w_data w p = d \<Longrightarrow> recorded d \<le> n \<Longrightarrow> backs w p n \<Longrightarrow> covered w"
  unfolding covered_def covered_but_def backs_def by (metis le_trans singletonD)

lemma covered_but_put_close:
  "covered_but {ai_key a} w \<Longrightarrow> backs w (ai_key a) n \<Longrightarrow> recorded d \<le> n \<Longrightarrow> covered (put a d w)"
  by (auto simp: covered_def covered_but_def backs_def)

lemma covered_but_settle:
  "covered_but (insert p S) w \<Longrightarrow> w_data w p = d \<Longrightarrow> recorded d \<le> n \<Longrightarrow> backs w p n \<Longrightarrow> covered_but S w"
  unfolding covered_but_def backs_def by (metis le_trans insertE)

lemma covered_but_empty: "covered_but {} w = covered w"
  by (simp add: covered_def covered_but_def)

lemma backs_recorded: "covered w \<Longrightarrow> w_data w p = d \<Longrightarrow> program_owned d \<Longrightarrow> backs w p (recorded d)"
  using backs_data [of w p d "recorded d"] by simp

lemma backs_le: "backs w p m \<Longrightarrow> n \<le> m \<Longrightarrow> backs w p n"
  by (simp add: backs_def)

context solana_lamports
begin

lemma covered_but_call: "h_call H c w = Inr w' \<Longrightarrow> debits c = {} \<Longrightarrow> covered_but S w \<Longrightarrow> covered_but S w'"
  unfolding covered_but_def
proof (intro allI impI)
  fix p
  assume c: "h_call H c w = Inr w'" "debits c = {}" "p \<notin> S"
    and a: "\<forall>p. p \<notin> S \<longrightarrow> recorded (w_data w p) \<le> w_lamports w p"
  show "recorded (w_data w' p) \<le> w_lamports w' p"
  proof (cases "recorded (w_data w p) = 0")
    case True
    then show ?thesis using call_recorded [OF c(1), of p] by simp
  next
    case False
    then have "w_lamports w p \<le> w_lamports w' p"
      using call_debit [OF c(1), of p] c(2) recorded_program_owned by force
    then show ?thesis using call_recorded [OF c(1), of p] a c(3) by (meson le_trans)
  qed
qed

lemma covered_call: "h_call H c w = Inr w' \<Longrightarrow> debits c = {} \<Longrightarrow> covered w \<Longrightarrow> covered w'"
  using covered_but_call [where S = "{}"] by (simp add: covered_but_empty)

lemma backs_call:
  "h_call H c w = Inr w' \<Longrightarrow> debits c = {} \<Longrightarrow> p \<notin> touches c \<Longrightarrow> backs w p n \<Longrightarrow> backs w' p n"
  using call_debit [of c w w' p] call_frame [of c w w' p] by (auto simp: backs_def)

text \<open>The same for the shared calls of the handlers.\<close>

lemma covered_calls:
  "transfer H a b c n w = Inr w' \<Longrightarrow> covered w \<Longrightarrow> covered w'"
  "transfer_signed H a b c n ss w = Inr w' \<Longrightarrow> covered w \<Longrightarrow> covered w'"
  "burn_signed H a b c n ss w = Inr w' \<Longrightarrow> covered w \<Longrightarrow> covered w'"
  "create_program_account H k a b c ss w = Inr w' \<Longrightarrow> covered w \<Longrightarrow> covered w'"
  "collect H a n b w = Inr w' \<Longrightarrow> covered w \<Longrightarrow> covered w'"
  by (simp_all add: transfer_def transfer_signed_def burn_signed_def create_program_account_def collect_def covered_call)

lemma backs_calls:
  "transfer H a b c n w = Inr w' \<Longrightarrow> backs w p m \<Longrightarrow> backs w' p m"
  "transfer_signed H a b c n ss w = Inr w' \<Longrightarrow> backs w p m \<Longrightarrow> backs w' p m"
  "burn_signed H a b c n ss w = Inr w' \<Longrightarrow> backs w p m \<Longrightarrow> backs w' p m"
  "collect H a n b w = Inr w' \<Longrightarrow> backs w p m \<Longrightarrow> backs w' p m"
  by (simp_all add: transfer_def transfer_signed_def burn_signed_def collect_def backs_call)

lemma backs_create:
  assumes "create_program_account H k a b c ss w = Inr w'" "backs w p n"
  shows "backs w' p n"
proof -
  have "w_data w (ai_key a) = AEmpty" using call_create assms(1) by (simp add: create_program_account_def)
  then have "p \<noteq> ai_key a" using assms(2) by (auto simp: backs_def program_owned_def)
  then show ?thesis using backs_call assms by (simp add: create_program_account_def)
qed

lemma covered_open_token:
  "open_token_account H a b c d w = Inr w' \<Longrightarrow> covered w \<Longrightarrow> covered w'"
  by (auto simp: open_token_account_def result_simps dest: covered_call split: if_splits)

lemma backs_open_token:
  assumes "open_token_account H a b c d w = Inr w'" "backs w p n"
  shows "backs w' p n"
proof (cases "data_is_empty c w")
  case True
  then have "p \<noteq> ai_key c" using assms(2)
    by (auto simp: backs_def program_owned_def data_is_empty_def split: account_data.splits)
  then show ?thesis using True assms backs_call by (simp add: open_token_account_def)
qed (use assms in \<open>auto simp: open_token_account_def result_simps\<close>)

lemmas keep = covered_calls covered_open_token backs_calls backs_create backs_open_token

end

section \<open>Staking\<close>

text \<open>No stake operation changes the vault.\<close>

lemma adjust_balance:
  "adjust_total_up t a b = Inr t' \<Longrightarrow> tr_balance t' = tr_balance t"
  "adjust_total_down t a b = Inr t' \<Longrightarrow> tr_balance t' = tr_balance t"
  by (auto simp: adjust_total_up_def adjust_total_down_def result_simps Let_def split: if_splits)

lemma balance_kept:
  "sv_deposit N a now t f s = Inr (s', t', n) \<Longrightarrow> tr_balance t' = tr_balance t"
  "sv_withdraw N a now t s = Inr (s', t', n) \<Longrightarrow> tr_balance t' = tr_balance t"
  "sv_stake_nft N t s = Inr (s', t') \<Longrightarrow> tr_balance t' = tr_balance t"
  "sv_unstake_nft N t s = Inr (s', t') \<Longrightarrow> tr_balance t' = tr_balance t"
  "sv_migrate_weight N t s = Inr (s', t') \<Longrightarrow> tr_balance t' = tr_balance t"
  "st_deposit N a now t f v = Inr (v', t', n) \<Longrightarrow> tr_balance t' = tr_balance t"
  "st_withdraw N a now t v = Inr (v', t', n) \<Longrightarrow> tr_balance t' = tr_balance t"
  unfolding sv_deposit_def sv_withdraw_def sv_stake_nft_def sv_unstake_nft_def sv_migrate_weight_def
      st_deposit_def st_withdraw_def Let_def
  by (auto simp: result_simps dest: adjust_balance split: if_splits)

lemma merge_balance:
  "merge_stakes N now t s u = Inr (s', u', t') \<Longrightarrow> tr_balance t' = tr_balance t"
  unfolding merge_stakes_def Let_def
  by (auto simp: result_simps dest!: adjust_balance balance_kept(5) split: if_splits)

lemmas balance_kept' = balance_kept merge_balance

context solana_lamports
begin

lemmas puts = covered_put_plain covered_put_ledger

lemma covered_close:
  assumes "close_account H a b w = Inr w'" "covered w"
  shows "covered w'"
  unfolding covered_def
proof
  fix p
  have c: "h_call H (CloseAccount (ai_key a) (ai_key b)) w = Inr w'" using assms(1) by (simp add: close_account_def)
  show "recorded (w_data w' p) \<le> w_lamports w' p"
  proof (cases "p = ai_key a \<or> recorded (w_data w p) = 0")
    case True
    then show ?thesis using call_close [OF c] call_recorded [OF c, of p] by auto
  next
    case False
    then have "w_lamports w p \<le> w_lamports w' p"
      using call_debit [OF c, of p] recorded_program_owned by force
    then show ?thesis using call_recorded [OF c, of p] covered_at [OF assms(2), of p] by linarith
  qed
qed

lemma covered_stake:
  "process_deposit_v2 H accounts sid amount lock w = Inr w' \<Longrightarrow> covered w \<Longrightarrow> covered w'"
  "process_top_up_stake_v2 H accounts sid amount w = Inr w' \<Longrightarrow> covered w \<Longrightarrow> covered w'"
  "process_withdraw_v2 H accounts sid amount w = Inr w' \<Longrightarrow> covered w \<Longrightarrow> covered w'"
  "process_claim_yield_v2 H accounts sid amount w = Inr w' \<Longrightarrow> covered w \<Longrightarrow> covered w'"
  "process_compound_yield_v2 H accounts sid w = Inr w' \<Longrightarrow> covered w \<Longrightarrow> covered w'"
  unfolding process_deposit_v2_def process_top_up_stake_v2_def process_withdraw_v2_def process_claim_yield_v2_def process_compound_yield_v2_def Let_def
  apply (auto simp: result_simps split: list.splits if_splits)
  apply (erule keep covered_close | (erule covered_call backs_call, (simp; fail)) | rule puts | rule backs_put
      | (rule backs_data, assumption, assumption) | (simp; fail) | (auto dest!: balance_kept'; fail))+
  done

lemma covered_stake_care:
  "process_set_stake_executor_v2 H accounts sid k w = Inr w' \<Longrightarrow> covered w \<Longrightarrow> covered w'"
  "process_stake_nft H accounts sid w = Inr w' \<Longrightarrow> covered w \<Longrightarrow> covered w'"
  "process_unstake_nft H accounts sid w = Inr w' \<Longrightarrow> covered w \<Longrightarrow> covered w'"
  "process_migrate_stake_weight H accounts w = Inr w' \<Longrightarrow> covered w \<Longrightarrow> covered w'"
  "process_merge_stake_v2 H accounts sid sid2 w = Inr w' \<Longrightarrow> covered w \<Longrightarrow> covered w'"
  "process_close_stake_v2 H accounts sid w = Inr w' \<Longrightarrow> covered w \<Longrightarrow> covered w'"
  "process_reconcile_stake_v2 H accounts w = Inr w' \<Longrightarrow> covered w \<Longrightarrow> covered w'"
  unfolding process_set_stake_executor_v2_def process_stake_nft_def process_unstake_nft_def process_migrate_stake_weight_def process_merge_stake_v2_def process_close_stake_v2_def process_reconcile_stake_v2_def Let_def
  apply (auto simp: result_simps split: list.splits if_splits)
  apply (erule keep covered_close | (erule covered_call backs_call, (simp; fail)) | rule puts | rule backs_put
      | (rule backs_data, assumption, assumption) | (simp; fail) | (auto dest!: balance_kept'; fail))+
  done

lemma covered_stake_v1:
  "process_withdraw H accounts amount w = Inr w' \<Longrightarrow> covered w \<Longrightarrow> covered w'"
  "process_claim_yield H accounts amount w = Inr w' \<Longrightarrow> covered w \<Longrightarrow> covered w'"
  "process_deposit H accounts data w = Inr w' \<Longrightarrow> covered w \<Longrightarrow> covered w'"
  unfolding process_withdraw_def process_claim_yield_def process_deposit_def Let_def
  apply (auto simp: result_simps split: list.splits if_splits)
  apply (erule keep covered_close | (erule covered_call backs_call, (simp; fail)) | rule puts | rule backs_put
      | (rule backs_data, assumption, assumption) | (simp; fail) | (auto dest!: balance_kept'; fail))+
  done

end

section \<open>Handlers that move no recorded lamports\<close>

lemma covered_put_zero: "recorded d = 0 \<Longrightarrow> covered w \<Longrightarrow> covered (put a d w)"
  by (simp add: covered_put)

lemma miner_ledger_kept:
  "mn_update_rewards N t m = Inr m' \<Longrightarrow> mn_rewards_sol m' = mn_rewards_sol m \<and> mn_checkpoint_fee m' = mn_checkpoint_fee m"
  "mn_claim_godl N now t m = Inr (m', t', n) \<Longrightarrow> mn_rewards_sol m' = mn_rewards_sol m \<and>
     mn_checkpoint_fee m' = mn_checkpoint_fee m \<and> tr_balance t' = tr_balance t"
  "credit_unrefined e g t m = Inr (m', t') \<Longrightarrow> mn_rewards_sol m' = mn_rewards_sol m \<and>
     mn_checkpoint_fee m' = mn_checkpoint_fee m \<and> tr_balance t' = tr_balance t"
  unfolding mn_claim_godl_def credit_unrefined_def Let_def
  by (auto simp: result_simps mn_update_rewards_keeps split: if_splits)

lemma share_balance:
  "share_with_stakers N g t = Inr (t', s) \<Longrightarrow> tr_balance t' = tr_balance t"
  "share_tokens_with_stakers N g t = Inr (t', s) \<Longrightarrow> tr_balance t' = tr_balance t"
  by (auto simp: share_with_stakers_def share_tokens_with_stakers_def raise_stake_factor_def result_simps Let_def
      split: if_splits)

lemmas ledger_kept = miner_ledger_kept share_balance

lemma new_ledgers [simp]:
  "tr_balance (new_treasury N) = 0" "mn_rewards_sol (new_miner N p) = 0" "mn_checkpoint_fee (new_miner N p) = 0"
  by (simp_all add: new_treasury_def new_miner_def)

lemma covered_sync_gold:
  "sync_gold H a x v m w = Inr w' \<Longrightarrow> covered w \<Longrightarrow> covered w'"
  "sync_gold H a x v m w = Inr w' \<Longrightarrow> backs w p n \<Longrightarrow> backs w' p n"
  by (auto simp: sync_gold_def result_simps split: option.splits)


lemma referrer_owned [simp]: "program_owned (AReferrer r)" "program_owned (AOtcTreasury ot)" "program_owned (AOtcUser u)"
  "program_owned (APoolMember p)"
  by (simp_all add: program_owned_def)

context solana_lamports
begin

lemma keep_extended:
  "load_or_create_miner_extended H a v p payer sys c w = Inr (x, w') \<Longrightarrow> covered w \<Longrightarrow> covered w'"
  "load_or_create_miner_extended H a v p payer sys c w = Inr (x, w') \<Longrightarrow> backs w q n \<Longrightarrow> backs w' q n"
  unfolding load_or_create_miner_extended_def Let_def
  apply (auto simp: result_simps split: list.splits option.splits if_splits)
  apply (erule keep | (erule covered_call backs_call, (simp; fail)) | (rule covered_put_zero, (simp; fail)) | rule puts
      | rule backs_put | (rule backs_data, assumption, assumption) | (simp; fail) | (auto dest!: ledger_kept; fail))+
  done

lemma keep_pay_bury:
  "pay_bury H a b c d e f g h w = Inr (n, w') \<Longrightarrow> covered w \<Longrightarrow> covered w'"
  unfolding pay_bury_def Let_def
  apply (auto simp: result_simps split: list.splits option.splits if_splits)
  apply (erule keep | (erule covered_call backs_call, (simp; fail)) | (rule covered_put_zero, (simp; fail)) | rule puts
      | rule backs_put | (rule backs_data, assumption, assumption) | (simp; fail) | (auto dest!: ledger_kept; fail))+
  done

lemma keep_swap:
  "bury_swap H a b c d e f g h i w = Inr (x, y, w') \<Longrightarrow> covered w \<Longrightarrow> covered w'"
  "bury_swap H a b c d e f g h i w = Inr (x, y, w') \<Longrightarrow> backs w p n \<Longrightarrow> backs w' p n"
  "buy_gold_swap H a b c g h i k w = Inr (x, y, w') \<Longrightarrow> covered w \<Longrightarrow> covered w'"
  unfolding bury_swap_def buy_gold_swap_def Let_def
  apply (auto simp: result_simps split: list.splits option.splits if_splits)
  apply (erule keep | (erule covered_call backs_call, (simp; fail)) | (rule covered_put_zero, (simp; fail)) | rule puts
      | rule backs_put | (rule backs_data, assumption, assumption) | (simp; fail) | (auto dest!: ledger_kept; fail))+
  done

lemma keep_pay_referrer_godl:
  "pay_referrer_godl H a b c m n rest w = Inr w' \<Longrightarrow> covered w \<Longrightarrow> covered w'"
  unfolding pay_referrer_godl_def load_referrer_def Let_def
  apply (auto simp: result_simps split: list.splits option.splits if_splits)
  apply (erule keep | (erule covered_call backs_call, (simp; fail)) | (rule covered_put_zero, (simp; fail)) | rule puts
      | rule backs_put | (rule backs_data, assumption, assumption) | (simp; fail) | (auto dest!: ledger_kept; fail))+
  done

lemmas keep_more = covered_sync_gold keep_extended keep_pay_bury keep_swap keep_pay_referrer_godl

lemma covered_admin:
  "process_initialize H accounts k1 k2 k3 n w = Inr w' \<Longrightarrow> covered w \<Longrightarrow> covered w'"
  "process_initialize_sol_motherlode H accounts w = Inr w' \<Longrightarrow> covered w \<Longrightarrow> covered w'"
  "process_set_admin H accounts k w = Inr w' \<Longrightarrow> covered w \<Longrightarrow> covered w'"
  "process_set_fee_collector H accounts k w = Inr w' \<Longrightarrow> covered w \<Longrightarrow> covered w'"
  "process_set_godl_per_round H accounts n w = Inr w' \<Longrightarrow> covered w \<Longrightarrow> covered w'"
  "process_set_motherlode_denominator H accounts n w = Inr w' \<Longrightarrow> covered w \<Longrightarrow> covered w'"
  "process_set_swap_program H accounts w = Inr w' \<Longrightarrow> covered w \<Longrightarrow> covered w'"
  "process_set_var_address H accounts w = Inr w' \<Longrightarrow> covered w \<Longrightarrow> covered w'"
  "process_new_var H accounts n c m w = Inr w' \<Longrightarrow> covered w \<Longrightarrow> covered w'"
  "process_update_protocol_config H data_len accounts n m w = Inr w' \<Longrightarrow> covered w \<Longrightarrow> covered w'"
  "process_rebase_total_staked H accounts n m w = Inr w' \<Longrightarrow> covered w \<Longrightarrow> covered w'"
  "process_rebase_total_unclaimed H accounts n m w = Inr w' \<Longrightarrow> covered w \<Longrightarrow> covered w'"
  "process_transfer_mint_authority H accounts w = Inr w' \<Longrightarrow> covered w \<Longrightarrow> covered w'"
  unfolding process_initialize_def process_initialize_sol_motherlode_def process_set_admin_def process_set_fee_collector_def process_set_godl_per_round_def process_set_motherlode_denominator_def process_set_swap_program_def process_set_var_address_def process_new_var_def process_update_protocol_config_def process_rebase_total_staked_def process_rebase_total_unclaimed_def process_transfer_mint_authority_def config_setter_def Let_def
  apply (auto simp: result_simps split: list.splits option.splits if_splits)
  apply (erule keep  keep_more | (erule covered_call backs_call, (simp; fail)) | (rule covered_put_zero, (simp; fail)) | rule puts
      | rule backs_put | (rule backs_data, assumption, assumption) | (simp; fail) | (auto dest!: ledger_kept; fail))+
  done

lemma covered_bury:
  "process_bury H accounts data w = Inr w' \<Longrightarrow> covered w \<Longrightarrow> covered w'"
  "process_bury_tokens H accounts amount w = Inr w' \<Longrightarrow> covered w \<Longrightarrow> covered w'"
  "process_inject_unrefined_rewards H accounts amount w = Inr w' \<Longrightarrow> covered w \<Longrightarrow> covered w'"
  "process_inject_godl_motherlode H accounts amount w = Inr w' \<Longrightarrow> covered w \<Longrightarrow> covered w'"
  "process_log H accounts w = Inr w' \<Longrightarrow> covered w \<Longrightarrow> covered w'"
  unfolding process_bury_def process_bury_tokens_def process_inject_unrefined_rewards_def process_inject_godl_motherlode_def process_log_def warchest_checks_def Let_def
  apply (auto simp: result_simps split: list.splits option.splits if_splits)
  apply (erule keep  keep_more | (erule covered_call backs_call, (simp; fail)) | (rule covered_put_zero, (simp; fail)) | rule puts
      | rule backs_put | (rule backs_data, assumption, assumption) | (simp; fail) | (auto dest!: ledger_kept; fail))+
  done

lemma covered_gold:
  "process_create_miner_extended H accounts w = Inr w' \<Longrightarrow> covered w \<Longrightarrow> covered w'"
  "process_initialize_gold_vault H accounts w = Inr w' \<Longrightarrow> covered w \<Longrightarrow> covered w'"
  "process_buy_gold H accounts n data w = Inr w' \<Longrightarrow> covered w \<Longrightarrow> covered w'"
  "process_deposit_gold H accounts amount w = Inr w' \<Longrightarrow> covered w \<Longrightarrow> covered w'"
  "process_claim_gold H accounts w = Inr w' \<Longrightarrow> covered w \<Longrightarrow> covered w'"
  "process_initialize_otc_treasury H accounts w = Inr w' \<Longrightarrow> covered w \<Longrightarrow> covered w'"
  "process_fund_godl_otc H accounts amount w = Inr w' \<Longrightarrow> covered w \<Longrightarrow> covered w'"
  unfolding process_create_miner_extended_def process_initialize_gold_vault_def process_buy_gold_def process_deposit_gold_def process_claim_gold_def mx_claim_def process_initialize_otc_treasury_def process_fund_godl_otc_def Let_def
  apply (auto simp: result_simps split: list.splits option.splits if_splits)
  apply (erule keep  keep_more | (erule covered_call backs_call, (simp; fail)) | (rule covered_put_zero, (simp; fail)) | rule puts
      | rule backs_put | (rule backs_data, assumption, assumption) | (simp; fail) | (auto dest!: ledger_kept; fail))+
  done

lemma covered_referral:
  "process_initialize_referrer H accounts w = Inr w' \<Longrightarrow> covered w \<Longrightarrow> covered w'"
  "process_claim_godl H accounts w = Inr w' \<Longrightarrow> covered w \<Longrightarrow> covered w'"
  unfolding process_initialize_referrer_def process_claim_godl_def Let_def
  apply (auto simp: result_simps split: list.splits option.splits if_splits)
  apply (erule keep  keep_more | (erule covered_call backs_call, (simp; fail)) | (rule covered_put_zero, (simp; fail)) | rule puts
      | rule backs_put | (rule backs_data, assumption, assumption) | (simp; fail) | (auto dest!: ledger_kept; fail))+
  done

lemma covered_set_referrer:
  assumes "process_set_referrer H accounts k w = Inr w'" "covered w"
  shows "covered w'"
  using assms(1)
proof (cases rule: set_referrer_cases)
  case (locked m x)
  show ?thesis unfolding locked(2)
    by (rule covered_put_ledger) (use backs_recorded [OF assms(2) locked(1)] assms(2) in simp_all)
next
  case (chosen m x r rf i)
  show ?thesis unfolding chosen(3)
    by (intro covered_put_ledger backs_put assms(2))
      (use backs_recorded [OF assms(2) chosen(1)] backs_recorded [OF assms(2) chosen(2)] in simp_all)
qed (use assms(2) in simp)

end

end
