(* ===== verification/SolvencyMoves.thy ===== *)
theory SolvencyMoves
  imports Solvency
begin

text \<open>
  The handlers that move recorded lamports: vault withdrawals, claims, automations, deployments,
  checkpoints, trades and the closing of rounds. Each lowers a record and pays, or raises a record
  and collects; in between the account it settles is exempt (\<open>covered_but\<close>).
\<close>

section \<open>Paying and collecting\<close>

context solana_lamports
begin

lemma covered_but_send:
  assumes "send H a n b w = Inr w'" "ai_key a \<in> S \<or> recorded (w_data w (ai_key a)) = 0" "covered_but S w"
  shows "covered_but S w'"
  using send_lamports [OF assms(1)] send_frame [OF assms(1)] assms(2,3)
  by (auto simp: covered_but_def moved_def Let_def trans_le_add1)

lemma backs_send_from:
  assumes "send H a n b w = Inr w'" "backs w (ai_key a) k"
  shows "backs w' (ai_key a) (k - n)"
  using send_lamports [OF assms(1)] send_frame [OF assms(1)] assms(2)
  by (auto simp: backs_def moved_def Let_def)

lemma backs_send_to:
  assumes "send H a n b w = Inr w'" "ai_key a \<noteq> ai_key b" "backs w (ai_key b) k"
  shows "backs w' (ai_key b) (k + n)"
  using send_lamports [OF assms(1)] send_frame [OF assms(1)] assms(2,3)
  by (auto simp: backs_def moved_def Let_def)

lemma backs_send:
  assumes "send H a n b w = Inr w'" "p \<noteq> ai_key a" "backs w p k"
  shows "backs w' p k"
  using send_lamports [OF assms(1)] send_frame [OF assms(1)] assms(2,3)
  by (auto simp: backs_def moved_def Let_def)

lemma backs_collect:
  assumes "collect H a n b w = Inr w'" "backs w (ai_key a) k"
  shows "backs w' (ai_key a) (k + n)"
proof -
  have c: "h_call H (Collect (ai_key a) (ai_key b) n) w = Inr w'" using assms(1) by (simp add: collect_def)
  show ?thesis using call_collect [OF c] call_frame [OF c, of "ai_key a"] assms(2) by (auto simp: backs_def)
qed

text \<open>Paying out of an account and lowering its record, in both orders.\<close>

lemma pay_then_lower:
  assumes "send H a n b w = Inr w'" "covered w" "w_data w (ai_key a) = d" "program_owned d" "recorded d' + n \<le> recorded d"
  shows "covered (put a d' w')"
  by (rule covered_but_put_close [OF covered_but_send [OF assms(1)] backs_send_from [OF assms(1) backs_recorded [OF assms(2,3,4)]]])
     (use assms in \<open>simp_all add: covered_but_open\<close>)

lemma lower_then_pay:
  assumes "send H a n b (put a d' w) = Inr w'" "covered w" "backs w (ai_key a) k" "program_owned d'" "recorded d' + n \<le> k"
  shows "covered w'"
proof (rule covered_but_close)
  have c: "covered_but {ai_key a} (put a d' w)" using assms(2) by (simp add: covered_but_put covered_but_open)
  show "covered_but {ai_key a} w'" by (rule covered_but_send [OF assms(1) _ c]) simp
  show "w_data w' (ai_key a) = d'" using send_frame [OF assms(1)] by simp
  show "backs w' (ai_key a) (k - n)" by (rule backs_send_from [OF assms(1) backs_put [OF assms(3,4)]])
  show "recorded d' \<le> k - n" using assms(5) by linarith
qed

lemma covered_withdraw_vault:
  assumes "process_withdraw_vault H accounts amount w = Inr w'" "covered w"
  shows "covered w'"
  using assms unfolding process_withdraw_vault_def
  by (auto simp: result_simps split: list.splits elim!: pay_then_lower)

lemma covered_withdraw_sol_otc:
  assumes "process_withdraw_sol_otc H accounts w = Inr w'" "covered w"
  shows "covered w'"
  using assms unfolding process_withdraw_sol_otc_def Let_def
  by (auto simp: result_simps split: list.splits if_splits elim!: lower_then_pay dest: backs_recorded)

lemma pay_twice_then_lower:
  assumes "send H a n1 b1 w = Inr w1" "send H a n2 b2 w1 = Inr w2" "covered w" "w_data w (ai_key a) = d"
    "program_owned d" "recorded d' + (n1 + n2) \<le> recorded d"
  shows "covered (put a d' w2)" "covered_but {ai_key a} w2" "backs w2 (ai_key a) (recorded d - n1 - n2)"
proof -
  show c: "covered_but {ai_key a} w2"
    by (rule covered_but_send [OF assms(2) _ covered_but_send [OF assms(1)]]) (use assms(3) in \<open>simp_all add: covered_but_open\<close>)
  show b: "backs w2 (ai_key a) (recorded d - n1 - n2)"
    by (rule backs_send_from [OF assms(2) backs_send_from [OF assms(1) backs_recorded [OF assms(3,4,5)]]])
  show "covered (put a d' w2)" by (rule covered_but_put_close [OF c b]) (use assms(6) in simp)
qed

lemma pay_thrice_then_lower:
  assumes "send H a n1 b1 w = Inr w1" "send H a n2 b2 w1 = Inr w2" "send H a n3 b3 w2 = Inr w3" "covered w"
    "w_data w (ai_key a) = d" "program_owned d" "recorded d' + (n1 + n2 + n3) \<le> recorded d"
  shows "covered (put a d' w3)"
proof -
  have s: "recorded d' + (n1 + n2) \<le> recorded d" using assms(7) by simp
  note two = pay_twice_then_lower [OF assms(1,2,4,5,6) s]
  show ?thesis
    by (rule covered_but_put_close [OF covered_but_send [OF assms(3) _ two(2)] backs_send_from [OF assms(3) two(3)]])
      (use assms(7) in simp_all)
qed

text \<open>Moving lamports from one record to another: the receiver's record is raised first.\<close>

lemma raise_then_move:
  assumes "send H a n b (put b d w) = Inr w'" "ai_key a \<noteq> ai_key b" "covered w" "program_owned d"
    "backs w (ai_key b) k" "recorded d \<le> k + n" "w_data w (ai_key a) = e" "backs w (ai_key a) (recorded e + n + j)"
  shows "covered w'" "backs w' (ai_key a) (recorded e + j)" "w_data w' (ai_key a) = e"
proof -
  let ?S = "{ai_key a, ai_key b}"
  have c: "covered_but ?S w'"
    by (rule covered_but_send [OF assms(1) _ covered_but_put]) (use assms(3) in \<open>simp_all add: covered_but_open\<close>)
  show da: "w_data w' (ai_key a) = e" using send_frame [OF assms(1)] assms(2,7) by simp
  show ba: "backs w' (ai_key a) (recorded e + j)"
    using backs_send_from [OF assms(1) backs_put [OF assms(8,4)]] by simp
  have bb: "backs w' (ai_key b) (k + n)"
    by (rule backs_send_to [OF assms(1,2) backs_put [OF assms(5,4)]])
  have "covered_but {ai_key b} w'" by (rule covered_but_settle [OF c da _ ba]) simp
  then show "covered w'" by (rule covered_but_close [OF _ _ _ bb]) (use send_frame [OF assms(1)] assms(6) in simp_all)
qed

lemma pay_referrer_sol_covered:
  assumes "pay_referrer_sol H a m n rest w = Inr w'" "covered w" "w_data w (ai_key a) = AMiner m"
    "backs w (ai_key a) (recorded (AMiner m) + n + j)"
  shows "covered w'" "backs w' (ai_key a) (recorded (AMiner m) + j)" "w_data w' (ai_key a) = AMiner m"
    "q \<noteq> ai_key a \<Longrightarrow> backs w q i \<Longrightarrow> backs w' q i"
proof -
  have "covered w' \<and> backs w' (ai_key a) (recorded (AMiner m) + j) \<and> w_data w' (ai_key a) = AMiner m \<and>
    (q \<noteq> ai_key a \<longrightarrow> backs w q i \<longrightarrow> backs w' q i)"
  proof (cases "referrer_account m")
    case None
    with assms show ?thesis
      by (auto simp: pay_referrer_sol_def elim: backs_le split: if_splits)
  next
    case (Some p)
    with assms(1) obtain r rf rewards cumulative where r: "w_data w (ai_key r) = AReferrer rf"
        "rewards = rf_rewards_sol rf + n"
        "send H a n r (put r (AReferrer (rf\<lparr>rf_rewards_sol := rewards, rf_cumulative_rewards_sol := cumulative\<rparr>)) w) = Inr w'"
      by (auto simp: pay_referrer_sol_def load_referrer_def result_simps Let_def split: list.splits)
    have ne: "ai_key a \<noteq> ai_key r" using assms(3) r(1) by auto
    have b: "backs w (ai_key r) (rf_rewards_sol rf)" using backs_recorded [OF assms(2) r(1)] by simp
    note m = raise_then_move [OF r(3) ne assms(2) _ b _ assms(3,4)]
    have "backs w' q i" if "q \<noteq> ai_key a" "backs w q i"
      by (rule backs_send [OF r(3) that(1) backs_put [OF that(2)]]) simp
    with m show ?thesis by (simp add: r(2))
  qed
  then show "covered w'" "backs w' (ai_key a) (recorded (AMiner m) + j)" "w_data w' (ai_key a) = AMiner m"
    "q \<noteq> ai_key a \<Longrightarrow> backs w q i \<Longrightarrow> backs w' q i" by blast+
qed

lemma send_covered:
  assumes "send H a n b w = Inr w'" "covered w" "backs w (ai_key a) k" "recorded (w_data w (ai_key a)) + n \<le> k"
  shows "covered w'"
proof (rule covered_but_close)
  show "covered_but {ai_key a} w'"
    by (rule covered_but_send [OF assms(1)]) (use assms(2) in \<open>simp_all add: covered_but_open\<close>)
  show "backs w' (ai_key a) (k - n)" by (rule backs_send_from [OF assms(1,3)])
  show "recorded (w_data w (ai_key a)) \<le> k - n" using assms(4) by linarith
qed (use send_frame [OF assms(1)] in simp)

lemma covered_pre_bury:
  "process_pre_bury H accounts n1 n2 n3 w = Inr w' \<Longrightarrow> covered w \<Longrightarrow> covered w'"
  unfolding process_pre_bury_def
  by (auto simp: result_simps split: list.splits elim!: pay_thrice_then_lower)

lemma covered_pre_buy_gold:
  assumes "process_pre_buy_gold H accounts n w = Inr w'" "covered w"
  shows "covered w'"
  using assms unfolding process_pre_buy_gold_def
  by (auto simp: result_simps split: list.splits elim!: pay_twice_then_lower(1) dest!: split_payout_spec(1))

lemma claim_miner_sol:
  assumes "covered w" "w_data w (ai_key a) = AMiner m" "m' = m\<lparr>mn_rewards_sol := 0, mn_last_claim_sol_at := now\<rparr>" "n = mn_rewards_sol m" "x + y = n"
    "pay_referrer_sol H a m' x rest (put a (AMiner m') w) = Inr w'"
  shows "covered w'" "backs w' (ai_key a) (recorded (AMiner m') + y)" "w_data w' (ai_key a) = AMiner m'"
    "q \<noteq> ai_key a \<Longrightarrow> backs w q i \<Longrightarrow> backs w' q i"
proof -
  let ?w = "put a (AMiner m') w"
  have m': "mn_rewards_sol m' = 0" "mn_checkpoint_fee m' = mn_checkpoint_fee m" "n = mn_rewards_sol m"
    using assms(3,4) by simp_all
  have b: "backs w (ai_key a) (mn_rewards_sol m + mn_checkpoint_fee m)"
    using backs_recorded [OF assms(1,2)] by simp
  have c: "covered ?w" by (rule covered_put) (use assms(1) b m' in \<open>auto simp: backs_def\<close>)
  have b': "backs ?w (ai_key a) (recorded (AMiner m') + x + y)"
    by (rule backs_le [OF backs_put [OF b]]) (use m' assms(5) in simp_all)
  note p = pay_referrer_sol_covered [OF assms(6) c _ b']
  show "covered w'" "backs w' (ai_key a) (recorded (AMiner m') + y)" "w_data w' (ai_key a) = AMiner m'"
    by (rule p; simp)+
  show "backs w' q i" if "q \<noteq> ai_key a" "backs w q i"
    by (rule p(4)) (use that in simp_all)
qed

lemma covered_claim_sol:
  assumes "process_claim_sol H accounts w = Inr w'" "covered w"
  shows "covered w'"
proof -
  obtain s a sys rest m m' n x y w1 where r: "w_data w (ai_key a) = AMiner m"
      "m' = m\<lparr>mn_rewards_sol := 0, mn_last_claim_sol_at := w_unix_timestamp w\<rparr>" "n = mn_rewards_sol m" "referral_split REFERRAL_BPS (referrer_account m') n = Inr (x, y)"
      "pay_referrer_sol H a m' x rest (put a (AMiner m') w) = Inr w1"
      "(if y > 0 then send H a y s w1 else Inr w1) = Inr w'"
    using assms(1) unfolding process_claim_sol_def mn_claim_sol_def Let_def
    by (auto simp: result_simps split: list.splits prod.splits)
  note p = claim_miner_sol [OF assms(2) r(1,2,3) referral_split_conserves [OF r(4)] r(5)]
  show ?thesis using r(6) p(1) send_covered [OF _ p(1,2)] p(3) by (auto split: if_splits)
qed

lemma covered_claim_sol_and_fund:
  assumes "process_claim_sol_and_fund_automation H accounts w = Inr w'" "covered w"
  shows "covered w'"
proof -
  obtain s a b sys rest m m' n x y w1 au where r: "w_data w (ai_key a) = AMiner m" "w_data w (ai_key b) = AAutomationV2 au"
      "m' = m\<lparr>mn_rewards_sol := 0, mn_last_claim_sol_at := w_unix_timestamp w\<rparr>" "n = mn_rewards_sol m" "referral_split (REFERRAL_BPS div 10) (referrer_account m') n = Inr (x, y)"
      "pay_referrer_sol H a m' x rest (put a (AMiner m') w) = Inr w1"
      "(if y > 0 then and_then (add64 (au_balance au) y) (\<lambda>balance.
          send H a y b (put b (AAutomationV2 (au\<lparr>au_balance := balance\<rparr>)) w1)) else Inr w1) = Inr w'"
    using assms(1) unfolding process_claim_sol_and_fund_automation_def mn_claim_sol_def Let_def
    by (auto simp: result_simps split: list.splits prod.splits)
  note p = claim_miner_sol [OF assms(2) r(1,3,4) referral_split_conserves [OF r(5)] r(6)]
  have ne: "ai_key a \<noteq> ai_key b" using r(1,2) by auto
  have "backs w (ai_key b) (au_balance au)" using backs_recorded [OF assms(2) r(2)] by simp
  then have b: "backs w1 (ai_key b) (au_balance au)" using p(4) ne by metis
  show ?thesis
  proof (cases "y > 0")
    case True
    then have "send H a y b (put b (AAutomationV2 (au\<lparr>au_balance := au_balance au + y\<rparr>)) w1) = Inr w'"
      using r(7) by (auto simp: result_simps)
    from raise_then_move(1) [OF this ne p(1) _ b _ p(3), of 0] p(2) show ?thesis by simp
  qed (use r(7) p(1) in simp)
qed

lemma lower_transfer_pay:
  assumes "transfer_signed H x y z i ss (put a d' w) = Inr w1" "send H a n b w1 = Inr w'" "covered w"
    "backs w (ai_key a) k" "program_owned d'" "recorded d' + n \<le> k"
  shows "covered w'"
proof -
  let ?w = "put a d' w"
  have c: "h_call H (TransferSigned (ai_key x) (ai_key y) (ai_key z) i ss) ?w = Inr w1"
    using assms(1) by (simp add: transfer_signed_def)
  have d: "w_data w1 (ai_key a) = d'" using call_frame [OF c, of "ai_key a"] assms(5) by simp
  have cb: "covered_but {ai_key a} w1"
    by (rule covered_but_call [OF c]) (use assms(3) in \<open>simp_all add: covered_but_put covered_but_open\<close>)
  have b: "backs w1 (ai_key a) k" by (rule backs_calls(2) [OF assms(1) backs_put [OF assms(4,5)]])
  show ?thesis
  proof (rule covered_but_close [OF covered_but_send [OF assms(2) _ cb] _ _ backs_send_from [OF assms(2) b]])
    show "recorded d' \<le> k - n" using assms(6) by linarith
  qed (use send_frame [OF assms(2)] d in simp_all)
qed

lemma covered_claim_referral:
  "process_claim_referral H accounts w = Inr w' \<Longrightarrow> covered w \<Longrightarrow> covered w'"
  unfolding process_claim_referral_def Let_def
  apply (auto simp: result_simps split: list.splits if_splits)
  apply (erule keep | (erule lower_transfer_pay, assumption) | erule lower_then_pay | (rule covered_put_zero, (simp; fail))
      | (rule backs_recorded, assumption, assumption) | (simp; fail))+
  done

text \<open>Raising a record and collecting the lamports for it.\<close>

lemma raise_then_collect:
  assumes "collect H a n b (put a d w) = Inr w'" "covered w" "backs w (ai_key a) k" "program_owned d" "recorded d \<le> k + n"
  shows "covered w'"
proof (rule covered_but_close)
  have c: "h_call H (Collect (ai_key a) (ai_key b) n) (put a d w) = Inr w'" using assms(1) by (simp add: collect_def)
  show "covered_but {ai_key a} w'"
    by (rule covered_but_call [OF c]) (use assms(2) in \<open>simp_all add: covered_but_put covered_but_open\<close>)
  show "w_data w' (ai_key a) = d" using call_frame [OF c, of "ai_key a"] assms(4) by simp
  show "backs w' (ai_key a) (k + n)" by (rule backs_collect [OF assms(1) backs_put [OF assms(3,4)]])
qed (rule assms(5))

lemma covered_fund_automation:
  assumes "process_fund_automation H accounts n w = Inr w'" "covered w"
  shows "covered w'"
  using assms unfolding process_fund_automation_def Let_def
  by (auto simp: result_simps split: list.splits elim!: raise_then_collect dest: backs_recorded)

lemma vault_unclaimed_covered:
  assumes "vault_unclaimed H a len b t w = Inr (t', w')" "covered w" "recorded (w_data w (ai_key a)) = 0"
    "ai_key a \<noteq> ai_key b" "w_data w (ai_key b) = ATreasury t"
  shows "covered w'" "w_data w' (ai_key b) = ATreasury t'" "p \<noteq> ai_key b \<Longrightarrow> w_data w' p = w_data w p"
proof -
  let ?n = "saturating_sub (lamports a w) (h_minimum_balance H len)"
  have "covered w' \<and> w_data w' (ai_key b) = ATreasury t' \<and> (p \<noteq> ai_key b \<longrightarrow> w_data w' p = w_data w p)"
  proof (cases "0 < ?n")
    case True
    with assms(1) obtain w1 where s: "send H a ?n b w = Inr w1" "t' = t\<lparr>tr_balance := tr_balance t + ?n\<rparr>"
        "w' = put b (ATreasury t') w1"
      by (auto simp: vault_unclaimed_def Let_def result_simps)
    have b: "backs w1 (ai_key b) (tr_balance t + ?n)"
      by (rule backs_send_to [OF s(1) assms(4)]) (use backs_recorded [OF assms(2,5)] in simp)
    have c: "covered_but {} w1" by (rule covered_but_send [OF s(1)]) (use assms in \<open>simp_all add: covered_but_empty\<close>)
    have "covered w'" unfolding s(3)
      by (rule covered_put_ledger(1)) (use b c s(2) in \<open>simp_all add: covered_but_empty\<close>)
    then show ?thesis using s(3) send_frame [OF s(1)] by simp
  qed (use assms in \<open>simp add: vault_unclaimed_def Let_def\<close>)
  then show "covered w'" "w_data w' (ai_key b) = ATreasury t'" "p \<noteq> ai_key b \<Longrightarrow> w_data w' p = w_data w p"
    by blast+
qed

lemma close_account_frame:
  "close_account H a b w = Inr w' \<Longrightarrow> p \<noteq> ai_key a \<Longrightarrow> program_owned (w_data w p) \<Longrightarrow> w_data w' p = w_data w p"
  unfolding close_account_def by (rule call_frame) auto

lemma covered_close_round:
  assumes "process_close H accounts w = Inr w'" "covered w"
  shows "covered w'"
proof -
  obtain a b rent p t rd t1 w1 w2 where r: "w_data w (ai_key b) = ATreasury t" "w_data w (ai_key a) = ARound rd"
      "vault_unclaimed H a (8 + size_of_round) b t w = Inr (t1, w1)" "close_account H a rent w1 = Inr w2"
      "w' = w2 \<or> (\<exists>pr t2 w3. w_data w2 (ai_key p) = APoolRound pr
        \<and> vault_unclaimed H p (8 + size_of_pool_round) b t1 w2 = Inr (t2, w3) \<and> close_account H p rent w3 = Inr w')"
    by (rule process_close_cases [OF assms(1)])
  have ne: "ai_key a \<noteq> ai_key b" using r(1,2) by auto
  note v = vault_unclaimed_covered [OF r(3) assms(2) _ ne r(1)]
  have c: "covered w2" by (rule covered_close [OF r(4) v(1)]) (simp add: r(2))
  have t: "w_data w2 (ai_key b) = ATreasury t1"
    using close_account_frame [OF r(4), of "ai_key b"] ne v(2) r(2) by auto
  from r(5) show ?thesis
  proof
    assume "\<exists>pr t2 w3. w_data w2 (ai_key p) = APoolRound pr
        \<and> vault_unclaimed H p (8 + size_of_pool_round) b t1 w2 = Inr (t2, w3) \<and> close_account H p rent w3 = Inr w'"
    then obtain pr t2 w3 where q: "w_data w2 (ai_key p) = APoolRound pr"
        "vault_unclaimed H p (8 + size_of_pool_round) b t1 w2 = Inr (t2, w3)" "close_account H p rent w3 = Inr w'"
      by blast
    have n: "ai_key p \<noteq> ai_key b" using q(1) t by auto
    show ?thesis by (rule covered_close [OF q(3) vault_unclaimed_covered(1) [OF q(2) c _ n t]]) (simp add: q(1))
  qed (use c in simp)
qed

lemma covered_close_phantom:
  assumes "process_close_phantom_stake_v2 H accounts w = Inr w'" "covered w"
  shows "covered w'"
proof -
  obtain s a b sv t w1 where r: "w_data w (ai_key a) = AStakeV2 sv" "w_data w (ai_key b) = ATreasury t"
      "close_account H a b w = Inr w1" "w' = put b (ATreasury (t\<lparr>tr_balance := tr_balance t + lamports a w\<rparr>)) w1"
    using assms(1) unfolding process_close_phantom_stake_v2_def Let_def
    by (auto simp: result_simps split: list.splits)
  have ne: "ai_key b \<noteq> ai_key a" using r(1,2) by auto
  have "w_lamports w1 (ai_key b) = w_lamports w (ai_key b) + lamports a w"
    using call_close_to r(3) ne by (simp add: close_account_def lamports_def moved_def Let_def)
  then have "backs w1 (ai_key b) (tr_balance t + lamports a w)"
    using close_account_frame [OF r(3) ne] covered_at [OF assms(2), of "ai_key b"] r(2) by (simp add: backs_def)
  then show ?thesis unfolding r(4)
    by (intro covered_put_ledger(1) covered_close [OF r(3) assms(2)]) simp
qed

end

lemma otc_book_balance: "otc_book_trade x y t = Inr t' \<Longrightarrow> ot_sol_balance t' = ot_sol_balance t + x"
  by (auto simp: otc_book_trade_def result_simps)

lemma enter_round_ledger:
  "enter_round r m = Inr m' \<Longrightarrow> mn_rewards_sol m' = mn_rewards_sol m \<and> mn_checkpoint_fee m' = mn_checkpoint_fee m"
  by (auto simp: enter_round_def split: if_splits)

lemma place_square_ledger:
  "place_square n sq m r = Inr (m', r') \<Longrightarrow> mn_rewards_sol m' = mn_rewards_sol m \<and> mn_checkpoint_fee m' = mn_checkpoint_fee m"
  by (auto simp: place_square_def result_simps Let_def)

text \<open>An upper bound of what an account records.\<close>

definition books :: "'n world \<Rightarrow> pubkey \<Rightarrow> nat \<Rightarrow> bool" where
  "books w p n \<longleftrightarrow> recorded (w_data w p) \<le> n"

lemma books_put: "recorded d \<le> n \<Longrightarrow> p = ai_key a \<or> books w p n \<Longrightarrow> books (put a d w) p n"
  by (auto simp: books_def)

lemma covered_but_books: "covered_but (insert p S) w \<Longrightarrow> books w p n \<Longrightarrow> backs w p n \<Longrightarrow> covered_but S w"
  unfolding covered_but_def backs_def books_def by (metis le_trans insertE)

lemma covered_but_put_ledger: "covered_but S w \<Longrightarrow> backs w (ai_key a) n \<Longrightarrow> recorded d \<le> n \<Longrightarrow> covered_but S (put a d w)"
  by (auto simp: covered_but_def backs_def)

context solana_lamports
begin

lemma books_call: "h_call H c w = Inr w' \<Longrightarrow> books w p n \<Longrightarrow> books w' p n"
  using call_recorded [of c w w' p] by (simp add: books_def)

lemma books_send: "send H a m b w = Inr w' \<Longrightarrow> books w p n \<Longrightarrow> books w' p n"
  by (simp add: books_def send_frame)

lemma send_outside:
  assumes "send H a n b w = Inr w'" "ai_key a \<in> S \<or> books w (ai_key a) 0" "covered_but S w"
  shows "covered_but S w'"
  by (rule covered_but_send [OF assms(1) _ assms(3)]) (use assms(2) in \<open>auto simp: books_def\<close>)

lemma collect_settle:
  assumes "collect H a n b w = Inr w'" "covered_but (insert (ai_key a) S) w" "books w (ai_key a) (k + n)"
    "backs w (ai_key a) k"
  shows "covered_but S w'"
proof -
  have c: "h_call H (Collect (ai_key a) (ai_key b) n) w = Inr w'" using assms(1) by (simp add: collect_def)
  show ?thesis
    by (rule covered_but_books [OF covered_but_call [OF c _ assms(2)] books_call [OF c assms(3)] backs_collect [OF assms(1,4)]]) simp
qed

lemma open_miner_covered:
  assumes "open_miner H a sys b p e w = Inr (m, w')" "covered w"
  shows "covered w'" "w_data w' (ai_key a) = AMiner m" "backs w q n \<Longrightarrow> backs w' q n"
proof -
  have "covered w' \<and> w_data w' (ai_key a) = AMiner m \<and> (backs w q n \<longrightarrow> backs w' q n)"
    using assms unfolding open_miner_def Let_def
    by (auto simp: result_simps intro!: covered_put_zero backs_put elim!: keep split: if_splits)
  then show "covered w'" "w_data w' (ai_key a) = AMiner m" "backs w q n \<Longrightarrow> backs w' q n" by blast+
qed

lemma create_frame:
  assumes "create_program_account H k a b c ss w = Inr w'" "program_owned (w_data w p)"
  shows "w_data w' p = w_data w p"
proof -
  have c: "h_call H (CreateProgramAccount k (ai_key a) (ai_key b) (ai_key c) ss) w = Inr w'"
    using assms(1) by (simp add: create_program_account_def)
  have "p \<noteq> ai_key a" using call_create [OF c] assms(2) by (auto simp: program_owned_def)
  then show ?thesis using call_frame [OF c _ assms(2)] by simp
qed

section \<open>Automations\<close>

lemma automate_payment:
  assumes "covered w" "w_data w (ai_key a) = AMiner m" "w_data w (ai_key b) = AAutomationV2 au0"
    "au_balance au \<le> au_balance au0 + n"
    "(if mn_checkpoint_fee m = 0 then collect H a CHECKPOINT_FEE s (put a (AMiner (m\<lparr>mn_checkpoint_fee := CHECKPOINT_FEE\<rparr>))
        (put b (AAutomationV2 au) w)) else Inr (put b (AAutomationV2 au) w)) = Inr w1"
    "collect H b n s w1 = Inr w'"
  shows "covered w'"
proof -
  let ?w = "put b (AAutomationV2 au) w"
  have ne: "ai_key a \<noteq> ai_key b" using assms(2,3) by auto
  have m: "backs ?w (ai_key a) (mn_rewards_sol m + mn_checkpoint_fee m)"
    using backs_recorded [OF assms(1,2)] by simp
  have b: "backs ?w (ai_key b) (au_balance au0)" using backs_recorded [OF assms(1,3)] by simp
  have c: "covered_but {ai_key b} ?w" using assms(1) by (simp add: covered_but_put covered_but_open)
  have k: "books ?w (ai_key b) (au_balance au0 + n)" by (simp add: books_def assms(4))
  have "covered_but {ai_key b} w1 \<and> books w1 (ai_key b) (au_balance au0 + n) \<and> backs w1 (ai_key b) (au_balance au0)"
  proof (cases "mn_checkpoint_fee m = 0")
    case True
    let ?v = "put a (AMiner (m\<lparr>mn_checkpoint_fee := CHECKPOINT_FEE\<rparr>)) ?w"
    have s: "collect H a CHECKPOINT_FEE s ?v = Inr w1" using assms(5) True by simp
    have "covered_but {ai_key b} w1"
    proof (rule collect_settle [OF s])
      show "covered_but {ai_key a, ai_key b} ?v"
        using assms(1) by (simp add: covered_but_put covered_but_open)
      show "backs ?v (ai_key a) (mn_rewards_sol m + mn_checkpoint_fee m)" using m by simp
    qed (simp add: books_def True)
    moreover have "books w1 (ai_key b) (au_balance au0 + n)"
      using books_call [OF s [unfolded collect_def]] ne by (simp add: books_def assms(4))
    moreover have "backs w1 (ai_key b) (au_balance au0)" using backs_calls(4) [OF s] b by simp
    ultimately show ?thesis by blast
  qed (use assms(5) b c k in simp)
  then show ?thesis using collect_settle [OF assms(6)] covered_but_empty by blast
qed

lemma configure_balance:
  "configure_automation x n d f sm st c i a = Inr a' \<Longrightarrow> au_balance a' = au_balance a + d"
  by (auto simp: configure_automation_def result_simps Let_def set_is_pooled_def set_claim_and_fund_def set_strategy_def)

lemma automate_payments:
  "collect H b n s w1 = Inr w' \<Longrightarrow>
     collect H a CHECKPOINT_FEE s (put a (AMiner (m\<lparr>mn_checkpoint_fee := CHECKPOINT_FEE\<rparr>)) (put b (AAutomationV2 au) w)) = Inr w1 \<Longrightarrow>
     mn_checkpoint_fee m = 0 \<Longrightarrow> covered w \<Longrightarrow> w_data w (ai_key a) = AMiner m \<Longrightarrow>
     w_data w (ai_key b) = AAutomationV2 au0 \<Longrightarrow> au_balance au \<le> au_balance au0 + n \<Longrightarrow> covered w'"
  "collect H b n s (put b (AAutomationV2 au) w) = Inr w' \<Longrightarrow>
     covered w \<Longrightarrow> w_data w (ai_key b) = AAutomationV2 au0 \<Longrightarrow> au_balance au \<le> au_balance au0 + n \<Longrightarrow> covered w'"
  using automate_payment [of w a m b au0 au n s w1 w'] raise_then_collect [of b n s "AAutomationV2 au" w w' "au_balance au0"]
    backs_recorded [of w "ai_key b" "AAutomationV2 au0"] by simp_all

lemma miner_kept:
  "create_program_account H kd k y z ss w = Inr w' \<Longrightarrow> w_data w p = AMiner m \<Longrightarrow> w_data w' p = AMiner m"
  "w_data w (ai_key k) = APoolMember x \<Longrightarrow> w_data w p = AMiner m \<Longrightarrow> w_data (put k d w) p = AMiner m"
  using create_frame [of kd k y z ss w w' p] by (auto simp: put_def)

lemma covered_automate:
  "process_automate H accounts amount deposit fee sm st cf ip w = Inr w' \<Longrightarrow> covered w \<Longrightarrow> covered w'"
  unfolding process_automate_def Let_def
  apply (elim and_thenE list6E)
  apply (auto simp: result_simps split: if_splits)
  apply (erule automate_payments(1), assumption, assumption | erule automate_payments(2) | erule keep covered_close
      | erule (1) open_miner_covered(1,2) | (erule miner_kept, assumption?) | (rule covered_put_zero, (simp; fail)) | assumption
      | (simp; fail) | (auto dest!: configure_balance; fail))+
  done

section \<open>Deployments\<close>

lemma keep_start_round:
  "start_round H a b c e bd r w = Inr (bd', r', w') \<Longrightarrow> covered w \<Longrightarrow> covered w'"
  "start_round H a b c e bd r w = Inr (bd', r', w') \<Longrightarrow> backs w p n \<Longrightarrow> backs w' p n"
  unfolding start_round_def Let_def
  apply (auto simp: result_simps split: list.splits if_splits)
  apply (erule keep | (erule covered_call backs_call, (simp; fail)) | (rule covered_put_zero, (simp; fail))
      | rule backs_put | (simp; fail))+
  done

lemma keep_pool_square:
  "pool_square H a b c d e n sq r pr w = Inr (pr', w') \<Longrightarrow> covered w \<Longrightarrow> covered w'"
  "pool_square H a b c d e n sq r pr w = Inr (pr', w') \<Longrightarrow> backs w p k \<Longrightarrow> backs w' p k"
  unfolding pool_square_def Let_def
  by (auto simp: result_simps intro!: covered_put_zero backs_put elim!: keep split: if_splits)

lemma keep_deploy_loop:
  assumes "deploy_loop (pool_square H a b c d e n) ip au n sq l ds = Inr ds'"
  shows "covered (ds_world ds) \<Longrightarrow> covered (ds_world ds')" "backs (ds_world ds) p k \<Longrightarrow> backs (ds_world ds') p k"
    "mn_rewards_sol (ds_miner ds') = mn_rewards_sol (ds_miner ds)"
    "mn_checkpoint_fee (ds_miner ds') = mn_checkpoint_fee (ds_miner ds)"
proof -
  define I where "I = (\<lambda>x :: 'a deploy_state. (covered (ds_world ds) \<longrightarrow> covered (ds_world x)) \<and> (backs (ds_world ds) p k \<longrightarrow> backs (ds_world x) p k)
    \<and> mn_rewards_sol (ds_miner x) = mn_rewards_sol (ds_miner ds) \<and> mn_checkpoint_fee (ds_miner x) = mn_checkpoint_fee (ds_miner ds))"
  have "I ds'"
    by (rule deploy_loop_invariant [OF assms])
      (use keep_pool_square in \<open>auto simp: I_def dest!: place_square_ledger split: if_splits\<close>)
  then show "covered (ds_world ds) \<Longrightarrow> covered (ds_world ds')" "backs (ds_world ds) p k \<Longrightarrow> backs (ds_world ds') p k"
    "mn_rewards_sol (ds_miner ds') = mn_rewards_sol (ds_miner ds)"
    "mn_checkpoint_fee (ds_miner ds') = mn_checkpoint_fee (ds_miner ds)" unfolding I_def by blast+
qed

lemma pay_deployment_covered:
  assumes "pay_deployment H s au b r x n w = Inr w'" "covered w"
    "case x of Some a \<Rightarrow> backs w (ai_key b) (au_balance a) | None \<Rightarrow> True"
  shows "covered w'"
proof (cases x)
  case None
  then show ?thesis using assms by (auto simp: pay_deployment_def elim: keep)
next
  case (Some a)
  with assms(1) obtain k w1 w2 where p: "n + au_fee a \<le> au_balance a" "k = au_balance a - (n + au_fee a)"
      "send H b n r (put b (AAutomationV2 (a\<lparr>au_balance := k\<rparr>)) w) = Inr w1" "send H b (au_fee a) s w1 = Inr w2"
      "w' = w2 \<or> close_account H b au w2 = Inr w'"
    by (auto simp: pay_deployment_def result_simps Let_def split: if_splits)
  let ?w = "put b (AAutomationV2 (a\<lparr>au_balance := k\<rparr>)) w"
  have c: "covered_but {ai_key b} ?w" using assms(2) by (simp add: covered_but_put covered_but_open)
  have bk: "books ?w (ai_key b) k" by (simp add: books_def)
  have b: "backs ?w (ai_key b) (au_balance a)" using assms(3) Some by simp
  have c2: "covered_but {ai_key b} w2"
    by (rule send_outside [OF p(4) _ send_outside [OF p(3) _ c]]) simp_all
  have k2: "books w2 (ai_key b) k" by (rule books_send [OF p(4) books_send [OF p(3) bk]])
  have b2: "backs w2 (ai_key b) k"
    by (rule backs_le [OF backs_send_from [OF p(4) backs_send_from [OF p(3) b]]]) (use p(2) in simp)
  have "covered w2" using covered_but_books [OF c2 k2 b2] covered_but_empty by blast
  then show ?thesis using p(5) covered_close by blast
qed

lemma settle_deployment_covered:
  assumes "settle_deployment H s au b a r pm x ip ds = Inr w'" "covered (ds_world ds)"
    "backs (ds_world ds) (ai_key a) (recorded (AMiner (ds_miner ds)))"
    "case x of Some y \<Rightarrow> backs (ds_world ds) (ai_key b) (au_balance y) | None \<Rightarrow> True"
  shows "covered w'"
proof -
  let ?m = "ds_miner ds"
  define m' where "m' = (if mn_checkpoint_fee ?m = 0
    then ?m\<lparr>mn_lifetime_deployed := mn_lifetime_deployed ?m + ds_total_amount ds, mn_checkpoint_fee := CHECKPOINT_FEE\<rparr>
    else ?m\<lparr>mn_lifetime_deployed := mn_lifetime_deployed ?m + ds_total_amount ds\<rparr>)"
  have p12: "mn_rewards_sol m' = mn_rewards_sol ?m"
      "mn_checkpoint_fee m' = (if mn_checkpoint_fee ?m = 0 then CHECKPOINT_FEE else mn_checkpoint_fee ?m)"
    by (simp_all add: m'_def)
  have "\<exists>w1. (if mn_checkpoint_fee ?m = 0 then collect H a CHECKPOINT_FEE s (put r (ARound (ds_round ds)) (put a (AMiner m') (ds_world ds)))
        else Inr (put r (ARound (ds_round ds)) (put a (AMiner m') (ds_world ds)))) = Inr w1
      \<and> pay_deployment H s au b r x (ds_total_amount ds) w1 = Inr w'"
    using assms(1) unfolding settle_deployment_def m'_def Let_def
    by (cases "mn_checkpoint_fee ?m = 0") (auto simp: result_simps split: if_splits)
  then obtain w1 where "(if mn_checkpoint_fee ?m = 0 then collect H a CHECKPOINT_FEE s (put r (ARound (ds_round ds)) (put a (AMiner m') (ds_world ds)))
        else Inr (put r (ARound (ds_round ds)) (put a (AMiner m') (ds_world ds)))) = Inr w1"
      "pay_deployment H s au b r x (ds_total_amount ds) w1 = Inr w'" by blast
  note p = p12 this
  let ?w = "put r (ARound (ds_round ds)) (put a (AMiner m') (ds_world ds))"
  have b: "backs ?w (ai_key a) (recorded (AMiner ?m))" using assms(3) by simp
  have "covered w1"
  proof (cases "mn_checkpoint_fee ?m = 0")
    case True
    then have c: "collect H a CHECKPOINT_FEE s ?w = Inr w1" using p(3) by simp
    have "covered_but {} w1"
    proof (rule collect_settle [OF c _ _ b])
      show "covered_but {ai_key a} ?w" using assms(2) by (simp add: covered_but_put covered_but_open)
      show "books ?w (ai_key a) (recorded (AMiner ?m) + CHECKPOINT_FEE)"
        using p(1,2) True by (auto simp: books_def)
    qed
    then show ?thesis by (simp add: covered_but_empty)
  next
    case False
    then have "w1 = ?w" using p(3) by simp
    then show ?thesis using assms(2,3) p(1,2) False by (simp add: covered_put_zero covered_put_ledger(2))
  qed
  moreover have "case x of Some y \<Rightarrow> backs w1 (ai_key b) (au_balance y) | None \<Rightarrow> True"
    using assms(4) p(3) by (auto split: option.splits if_splits elim: backs_calls(4))
  ultimately show ?thesis by (rule pay_deployment_covered [OF p(4)])
qed


lemma load_automation_data:
  "load_automation H b s au ip w = Inr (Some a, ip') \<Longrightarrow> w_data w (ai_key b) = AAutomationV2 a"
  by (auto simp: load_automation_def result_simps split: if_splits)

lemma load_automation_backs:
  "load_automation H b s au ip w = Inr (Some a, ip') \<Longrightarrow> covered w \<Longrightarrow> backs w (ai_key b) (au_balance a)"
  using backs_recorded [of w "ai_key b" "AAutomationV2 a"] load_automation_data [of b s au ip w a ip'] by simp

lemma open_miner_backs:
  assumes "open_miner H a sys b p e w = Inr (m, w')" "covered w"
  shows "backs w' (ai_key a) (mn_rewards_sol m + mn_checkpoint_fee m)"
  using backs_recorded [OF open_miner_covered(1,2) [OF assms]] by simp

lemma deploy_and_settle:
  assumes "deploy_loop (pool_square H c d e f g n) ip x n 0 l
      \<lparr>ds_miner = m, ds_round = rd, ds_pool_round = p, ds_total_amount = 0, ds_total_squares = 0,
       ds_world = put a (AMiner m) w\<rparr> = Inr ds"
    "settle_deployment H s au b a r pm x ip ds = Inr w'" "covered w"
    "backs w (ai_key a) (mn_rewards_sol m0 + mn_checkpoint_fee m0)" "\<And>y. x = Some y \<Longrightarrow> backs w (ai_key b) (au_balance y)"
    "enter_round r0 m0 = Inr m"
  shows "covered w'"
proof (rule settle_deployment_covered [OF assms(2)])
  note k = keep_deploy_loop [OF assms(1)] and e = enter_round_ledger [OF assms(6)]
  show "covered (ds_world ds)" by (rule k(1)) (use assms(3,4) e in \<open>simp add: covered_put_ledger(2)\<close>)
  have "backs (ds_world ds) (ai_key a) (mn_rewards_sol m + mn_checkpoint_fee m)" by (rule k(2)) (use assms(4) e in simp)
  then show "backs (ds_world ds) (ai_key a) (recorded (AMiner (ds_miner ds)))" by (simp add: k(3,4))
  show "case x of Some y \<Rightarrow> backs (ds_world ds) (ai_key b) (au_balance y) | None \<Rightarrow> True"
  proof (cases x)
    case (Some y)
    have "backs (ds_world ds) (ai_key b) (au_balance y)" by (rule k(2)) (simp add: assms(5) [OF Some])
    then show ?thesis using Some by simp
  qed simp
qed

lemmas deploy_paid = deploy_and_settle [where x = None, simplified]
  deploy_and_settle [where x = "Some y" for y, simplified]

lemma covered_entered:
  "enter_round r m0 = Inr m \<Longrightarrow> covered w \<Longrightarrow> backs w (ai_key a) (mn_rewards_sol m0 + mn_checkpoint_fee m0) \<Longrightarrow>
     covered (put a (AMiner m) w)"
  by (simp add: covered_put_ledger(2) enter_round_ledger)

lemma covered_deploy_core:
  "deploy_core H accs gold ent n am ip w = Inr w' \<Longrightarrow> covered w \<Longrightarrow> covered w'"
  unfolding deploy_core_def Let_def
  apply (elim and_thenE list10E)
  apply (auto simp: result_simps elim!: and_thenE split: option.splits if_splits)
  apply (erule deploy_paid, assumption | erule covered_entered open_miner_backs load_automation_backs
      | erule keep keep_more keep_start_round covered_close open_miner_covered(1) open_miner_covered(3)
      | assumption)+
  done

end

context solana_lamports
begin

lemma covered_deploy:
  "process_deploy H accounts n am ip w = Inr w' \<Longrightarrow> covered w \<Longrightarrow> covered w'"
  "process_deploy_with_miner_extended H accounts n am ip w = Inr w' \<Longrightarrow> covered w \<Longrightarrow> covered w'"
  by (auto simp: process_deploy_def process_deploy_with_miner_extended_def result_simps intro: covered_deploy_core)

section \<open>Checkpoints\<close>

lemma keep_settle_gold:
  "settle_gold H gold s sys n m w = Inr w' \<Longrightarrow> covered w \<Longrightarrow> covered w'"
  "settle_gold H gold s sys n m w = Inr w' \<Longrightarrow> backs w p k \<Longrightarrow> backs w' p k"
  unfolding settle_gold_def
  apply (auto simp: result_simps split: option.splits)
  apply (erule keep_more | assumption)+
  done

text \<open>The last assertion of a checkpoint is the coverage of the miner's record.\<close>

lemma pay_checkpoint_covered:
  assumes "pay_checkpoint H s a r n fee m (put b (ATreasury t) (put r (ARound rd) (put a (AMiner m) w))) = Inr w'"
    "covered w" "backs w (ai_key b) (tr_balance t)" "ai_key a \<noteq> ai_key b" "ai_key a \<noteq> ai_key r" "ai_key b \<noteq> ai_key r"
  shows "covered w'"
proof -
  let ?w = "put b (ATreasury t) (put r (ARound rd) (put a (AMiner m) w))"
  obtain w1 where p: "(if n > 0 then send H r n a ?w else Inr ?w) = Inr w1" "(if fee > 0 then send H a fee s w1 else Inr w1) = Inr w'"
      "mn_checkpoint_fee m + mn_rewards_sol m \<le> w_lamports w' (ai_key a)"
    using assms(1) unfolding pay_checkpoint_def by (auto simp: result_simps lamports_def)
  have c: "covered_but {ai_key a} ?w"
    by (rule covered_but_put_ledger [where n = "tr_balance t"]) (use assms(2,3) in \<open>simp_all add: covered_but_put covered_but_open\<close>)
  have d: "w_data w1 = w_data ?w" using p(1) by (auto split: if_splits dest: send_frame)
  have c1: "covered_but {ai_key a} w1"
    using p(1) c assms(6) by (auto simp: books_def split: if_splits elim!: send_outside)
  have d': "w_data w' = w_data w1" using p(2) by (auto split: if_splits dest: send_frame)
  have c': "covered_but {ai_key a} w'"
    using p(2) c1 by (auto split: if_splits elim!: send_outside)
  have m: "w_data w' (ai_key a) = AMiner m" using assms(4,5) by (simp add: d d')
  show ?thesis
    by (rule covered_but_close [OF c' m, of "w_lamports w' (ai_key a)"]) (use p(3) m in \<open>simp_all add: backs_def\<close>)
qed

lemma covered_checkpoint_round:
  assumes "checkpoint_round H s a r b pr pm sys gold bd m t w = Inr w'" "covered w"
    "w_data w (ai_key a) = AMiner m" "w_data w (ai_key b) = ATreasury t"
  shows "covered w'"
proof -
  have bm: "backs w (ai_key a) (mn_rewards_sol m + mn_checkpoint_fee m)" using backs_recorded [OF assms(2,3)] by simp
  have bt: "backs w (ai_key b) (tr_balance t)" using backs_recorded [OF assms(2,4)] by simp
  have marked: "covered (put a (AMiner (m\<lparr>mn_checkpoint_id := i\<rparr>)) w)" for i
    by (rule covered_put_ledger(2)) (use assms(2) bm in simp_all)
  have ab: "ai_key a \<noteq> ai_key b" using assms(3,4) by auto
  show ?thesis
    using assms(1)
  proof (cases rule: checkpoint_round_cases)
    case (paid rd ps n g fee m1 rd' m2 w1 m3 u)
    show ?thesis
      by (rule pay_checkpoint_covered [OF paid(8) keep_settle_gold(1) [OF paid(5) assms(2)]])
        (use keep_settle_gold(2) [OF paid(5) bt] ab paid(1) assms(3,4) in auto)
  qed (use assms(2) marked in simp_all)
qed

lemma covered_checkpoint_core:
  "checkpoint_core H accounts gold w = Inr w' \<Longrightarrow> covered w \<Longrightarrow> covered w'"
  unfolding checkpoint_core_def
  by (elim and_thenE list8E) (auto simp: result_simps elim!: covered_checkpoint_round)

lemma covered_checkpoint:
  "process_checkpoint H accounts w = Inr w' \<Longrightarrow> covered w \<Longrightarrow> covered w'"
  "process_checkpoint_with_miner_extended H accounts w = Inr w' \<Longrightarrow> covered w \<Longrightarrow> covered w'"
  by (auto simp: process_checkpoint_def process_checkpoint_with_miner_extended_def result_simps
      intro: covered_checkpoint_core split: if_splits)

section \<open>The OTC desk\<close>

lemma keep_open_otc_user:
  "open_otc_user H a sys b w = Inr (u, w') \<Longrightarrow> covered w \<Longrightarrow> covered w'"
  "open_otc_user H a sys b w = Inr (u, w') \<Longrightarrow> backs w p n \<Longrightarrow> backs w' p n"
  unfolding open_otc_user_def Let_def
  by (auto simp: result_simps intro!: covered_put_zero backs_put elim!: keep split: if_splits)

lemma keep_otc_bonus:
  "otc_bonus H a b c d e f v g t m w = Inr (m', t', w') \<Longrightarrow> covered w \<Longrightarrow> covered w'"
  "otc_bonus H a b c d e f v g t m w = Inr (m', t', w') \<Longrightarrow> backs w p n \<Longrightarrow> backs w' p n"
  "otc_bonus H a b c d e f v g t m w = Inr (m', t', w') \<Longrightarrow>
     mn_rewards_sol m' = mn_rewards_sol m \<and> mn_checkpoint_fee m' = mn_checkpoint_fee m \<and> tr_balance t' = tr_balance t"
  unfolding otc_bonus_def
  by (auto simp: result_simps elim!: keep keep_more dest!: ledger_kept split: if_splits)


lemma otc_bonus_ledgers:
  "otc_bonus H a b c d e f v g t m w = Inr (m', t', w') \<Longrightarrow> backs w p (mn_rewards_sol m + mn_checkpoint_fee m) \<Longrightarrow>
     backs w' p (mn_rewards_sol m' + mn_checkpoint_fee m')"
  "otc_bonus H a b c d e f v g t m w = Inr (m', t', w') \<Longrightarrow> backs w p (tr_balance t) \<Longrightarrow> backs w' p (tr_balance t')"
  by (simp_all add: keep_otc_bonus(2,3))

lemma otc_paid:
  "collect H a n b (put a (AOtcTreasury t') w) = Inr w' \<Longrightarrow> otc_book_trade n k t = Inr t' \<Longrightarrow> covered w \<Longrightarrow>
     w_data w (ai_key a) = AOtcTreasury t \<Longrightarrow> covered w'"
  by (rule raise_then_collect [of a n b "AOtcTreasury t'" w w' "ot_sol_balance t"])
    (use backs_recorded [of w "ai_key a" "AOtcTreasury t"] otc_book_balance [of n k t t'] in \<open>simp_all\<close>)

lemma backs_treasury: "w_data w p = ATreasury t \<Longrightarrow> covered w \<Longrightarrow> n \<le> tr_balance t \<Longrightarrow> backs w p n"
  using backs_recorded [of w p "ATreasury t"] by (auto elim: backs_le)

lemma covered_otc_trade:
  "process_execute_otc_trade H accounts i n g b e l w = Inr w' \<Longrightarrow> covered w \<Longrightarrow> covered w'"
  unfolding process_execute_otc_trade_def Let_def
  apply (elim and_thenE, simp only: split_beta, elim and_thenE list16E)
  apply (auto simp: result_simps dest!: balance_kept(1))
  apply (erule otc_paid, assumption | erule otc_bonus_ledgers | erule open_miner_backs | erule backs_treasury
      | erule keep keep_open_otc_user keep_otc_bonus open_miner_covered(1) open_miner_covered(3)
      | (rule covered_put_zero, (simp; fail)) | rule puts backs_put | (rule backs_data, assumption, assumption)
      | assumption | (simp; fail))+
  done

section \<open>Closing a round\<close>

lemma keep_open_next_round:
  "open_next_round H A bd w = Inr w' \<Longrightarrow> covered w \<Longrightarrow> covered w'"
  "open_next_round H A bd w = Inr w' \<Longrightarrow> backs w p n \<Longrightarrow> backs w' p n"
  unfolding open_next_round_def Let_def
  apply (auto simp: result_simps)
  apply (erule keep | (rule covered_put_zero, (simp; fail)) | rule backs_put | (simp; fail))+
  done

lemma pay_fees_covered:
  assumes "pay_fees H A fees w = Inr w'" "covered_but S w" "books w (ai_key (ra_round A)) 0"
  shows "covered_but S w'" "books w q m \<Longrightarrow> books w' q m" "p \<noteq> ai_key (ra_round A) \<Longrightarrow> backs w p n \<Longrightarrow> backs w' p n"
proof -
  obtain w1 where p: "send H (ra_round A) (fst fees) (ra_fee_collector A) w = Inr w1"
      "w' = w1 \<or> (\<exists>k. send H (ra_round A) k (ra_signer A) w1 = Inr w')"
    using assms(1) by (auto simp: pay_fees_def result_simps split: option.splits)
  have 1: "covered_but S w1" "books w1 (ai_key (ra_round A)) 0"
    using send_outside [OF p(1) _ assms(2)] books_send [OF p(1)] assms(3) by blast+
  show "covered_but S w'" using p(2) 1 send_outside by blast
  show "books w q m \<Longrightarrow> books w' q m" using p(2) books_send [OF p(1)] books_send by blast
  show "p \<noteq> ai_key (ra_round A) \<Longrightarrow> backs w p n \<Longrightarrow> backs w' p n"
    using p(2) backs_send [OF p(1)] backs_send by blast
qed

lemma send_settle:
  assumes "send H a n b w = Inr w'" "books w (ai_key a) 0" "covered_but (insert (ai_key b) S) w" "ai_key a \<noteq> ai_key b"
    "backs w (ai_key b) k" "books w (ai_key b) (k + n)"
  shows "covered_but S w'"
  by (rule covered_but_books [OF send_outside [OF assms(1) _ assms(3)] books_send [OF assms(1,6)] backs_send_to [OF assms(1,4,5)]])
    (simp add: assms(2))

lemma reset_vault_all_covered:
  assumes "reset_vault_all H A bd r sq fee n fees sm t w = Inr w'" "covered w"
    "backs w (ai_key (ra_treasury A)) (tr_balance t)" "backs w (ai_key (ra_sol_motherlode A)) (sm_amount sm)"
    "ai_key (ra_round A) \<noteq> ai_key (ra_treasury A)" "ai_key (ra_round A) \<noteq> ai_key (ra_sol_motherlode A)"
    "ai_key (ra_treasury A) \<noteq> ai_key (ra_sol_motherlode A)"
  shows "covered w'"
proof -
  let ?R = "ai_key (ra_round A)" and ?T = "ai_key (ra_treasury A)" and ?M = "ai_key (ra_sol_motherlode A)"
  let ?w = "\<lambda>r B C. put (ra_sol_motherlode A) (ASolMotherlode \<lparr>sm_amount = C\<rparr>)
     (put (ra_treasury A) (ATreasury (t\<lparr>tr_balance := B\<rparr>)) (put (ra_round A) (ARound r) w))"
  obtain r' v B C w1 bd' w3 w4 e where s: "add64 (tr_balance t) v = Inr B" "add64 (sm_amount sm) n = Inr C"
    and p: "h_call H (ProgramLog e) (?w r' B C) = Inr w1"
      "pay_fees H A fees (put (ra_board A) (ABoard bd') w1) = Inr w3"
      "send H (ra_round A) n (ra_sol_motherlode A) w3 = Inr w4" "send H (ra_round A) v (ra_treasury A) w4 = Inr w'"
    using assms(1) unfolding reset_vault_all_def Let_def by (auto elim!: and_thenE)
  let ?S = "{?M, ?T}"
  have 0: "covered_but ?S (?w r' B C)" "books (?w r' B C) ?R 0" "books (?w r' B C) ?T (tr_balance t + v)"
      "books (?w r' B C) ?M (sm_amount sm + n)" "backs (?w r' B C) ?T (tr_balance t)" "backs (?w r' B C) ?M (sm_amount sm)"
    using assms s by (simp_all add: covered_but_put covered_but_open books_def result_simps)
  have 1: "covered_but ?S w1" "books w1 ?R 0" "books w1 ?T (tr_balance t + v)"
      "books w1 ?M (sm_amount sm + n)" "backs w1 ?T (tr_balance t)" "backs w1 ?M (sm_amount sm)"
    using covered_but_call [OF p(1) _ 0(1)] books_call [OF p(1)] backs_call [OF p(1)] 0 by simp_all
  let ?b = "put (ra_board A) (ABoard bd') w1"
  have 2: "covered_but ?S ?b" "books ?b ?R 0" "books ?b ?T (tr_balance t + v)"
      "books ?b ?M (sm_amount sm + n)" "backs ?b ?T (tr_balance t)" "backs ?b ?M (sm_amount sm)"
    using 1 by (simp_all add: covered_but_put books_put)
  note f = pay_fees_covered [OF p(2) 2(1,2)]
  have 3: "covered_but ?S w3" "books w3 ?R 0" "books w3 ?T (tr_balance t + v)"
      "books w3 ?M (sm_amount sm + n)" "backs w3 ?T (tr_balance t)" "backs w3 ?M (sm_amount sm)"
    using f 2 assms(5,6) by simp_all
  have 4: "covered_but {?T} w4" by (rule send_settle [OF p(3) 3(2,1) assms(6) 3(6,4)])
  have "covered_but {} w'"
    by (rule send_settle [OF p(4) books_send [OF p(3) 3(2)] 4 assms(5) backs_send [OF p(3) _ 3(5)] books_send [OF p(3) 3(3)]])
      (use assms(5) in simp)
  then show ?thesis by (simp add: covered_but_empty)
qed

end

lemma books_frame: "q \<noteq> ai_key a \<Longrightarrow> books (put a d w) q n = books w q n"
  by (simp add: books_def)

lemma latch_vault:
  "lenient_latch H A g sq r w = Inr r' \<Longrightarrow> rnd_total_vaulted r' = rnd_total_vaulted r"
  "strict_latch H A g sq r w = Inr r' \<Longrightarrow> rnd_total_vaulted r' = rnd_total_vaulted r"
  unfolding lenient_latch_def strict_latch_def Let_def
  by (auto elim!: and_thenE split: if_splits)

lemma motherlode_hit_vault: "motherlode_hit g r t = Inr (r', t') \<Longrightarrow> tr_balance t' = tr_balance t \<and> rnd_total_vaulted r' = rnd_total_vaulted r"
  by (auto simp: motherlode_hit_def result_simps Let_def split: if_splits)

context solana_lamports
begin

lemma keep_mint_reward:
  "mint_reward H A accs n w = Inr w' \<Longrightarrow> covered_but S w \<Longrightarrow> covered_but S w'"
  "mint_reward H A accs n w = Inr w' \<Longrightarrow> books w p k \<Longrightarrow> books w' p k"
  "mint_reward H A accs n w = Inr w' \<Longrightarrow> backs w p k \<Longrightarrow> backs w' p k"
  unfolding mint_reward_def
  by (auto simp: result_simps covered_but_call books_call backs_call split: list.splits if_splits)

lemma fund_motherlode:
  assumes "(if n > 0 then and_then (send H r n m w) (\<lambda>w. and_then (add64 (sm_amount sm) n) (\<lambda>k.
      Inr (put m (ASolMotherlode \<lparr>sm_amount = k\<rparr>) w))) else Inr w) = Inr w'"
    "covered_but S w" "books w (ai_key r) 0" "backs w (ai_key m) (sm_amount sm)" "ai_key r \<noteq> ai_key m"
  shows "covered_but S w'" "books w' (ai_key r) 0"
    "q \<noteq> ai_key m \<Longrightarrow> books w q k \<Longrightarrow> books w' q k" "p \<noteq> ai_key r \<Longrightarrow> backs w p j \<Longrightarrow> backs w' p j"
proof -
  have "covered_but S w' \<and> books w' (ai_key r) 0 \<and> (q \<noteq> ai_key m \<longrightarrow> books w q k \<longrightarrow> books w' q k)
    \<and> (p \<noteq> ai_key r \<longrightarrow> backs w p j \<longrightarrow> backs w' p j)"
  proof (cases "n > 0")
    case True
    with assms(1) obtain w1 where p: "send H r n m w = Inr w1"
        "w' = put m (ASolMotherlode \<lparr>sm_amount = sm_amount sm + n\<rparr>) w1"
      by (auto simp: result_simps)
    have b: "backs w1 (ai_key m) (sm_amount sm + n)" by (rule backs_send_to [OF p(1) assms(5,4)])
    have c: "covered_but S w1" by (rule send_outside [OF p(1) _ assms(2)]) (simp add: assms(3))
    have "covered_but S w'" unfolding p(2) by (rule covered_but_put_ledger [OF c b]) simp
    then show ?thesis
      using books_send [OF p(1)] backs_send [OF p(1)] assms(3,5) by (auto simp: p(2) books_frame)
  qed (use assms in simp)
  then show "covered_but S w'" "books w' (ai_key r) 0"
    "q \<noteq> ai_key m \<Longrightarrow> books w q k \<Longrightarrow> books w' q k" "p \<noteq> ai_key r \<Longrightarrow> backs w p j \<Longrightarrow> backs w' p j" by blast+
qed

lemma reset_winners_covered:
  assumes "reset_winners H A latch accs cfg bd r g sq n fees mt sm t w = Inr w'" "covered w"
    "backs w (ai_key (ra_treasury A)) (tr_balance t)" "backs w (ai_key (ra_sol_motherlode A)) (sm_amount sm)"
    "ai_key (ra_round A) \<noteq> ai_key (ra_treasury A)" "ai_key (ra_round A) \<noteq> ai_key (ra_sol_motherlode A)"
    "ai_key (ra_treasury A) \<noteq> ai_key (ra_sol_motherlode A)"
    "\<And>r r'. latch H A g sq r w = Inr r' \<Longrightarrow> rnd_total_vaulted r' = rnd_total_vaulted r"
  shows "covered w'"
proof -
  let ?R = "ai_key (ra_round A)" and ?T = "ai_key (ra_treasury A)"
  let ?M = "ai_key (ra_sol_motherlode A)"
  let ?w = "\<lambda>r t. put (ra_treasury A) (ATreasury t) (put (ra_round A) (ARound r) w)"
  obtain r' t' v k w1 w2 e w3 bd' w4 where p: "mint_reward H A accs k (?w r' t') = Inr w1"
      "(if n > 0 then and_then (send H (ra_round A) n (ra_sol_motherlode A) w1) (\<lambda>w. and_then (add64 (sm_amount sm) n) (\<lambda>k.
        Inr (put (ra_sol_motherlode A) (ASolMotherlode \<lparr>sm_amount = k\<rparr>) w))) else Inr w1) = Inr w2"
      "h_call H (ProgramLog e) w2 = Inr w3" "pay_fees H A fees (put (ra_board A) (ABoard bd') w3) = Inr w4"
      "send H (ra_round A) v (ra_treasury A) w4 = Inr w'"
    and s: "add64 (tr_balance t) v = Inr (tr_balance t')"
    using assms(1) unfolding reset_winners_def Let_def
    apply (elim and_thenE)
    apply (auto dest!: motherlode_hit_vault elim!: and_thenE split: prod.splits)
    apply (drule assms(8))
    apply (rule that, assumption+)
    apply simp
    done
  have b: "tr_balance t' = tr_balance t + v" using s by (simp add: result_simps)
  have 0: "covered_but {?T} (?w r' t')" "books (?w r' t') ?R 0" "books (?w r' t') ?T (tr_balance t + v)"
      "backs (?w r' t') ?T (tr_balance t)" "backs (?w r' t') ?M (sm_amount sm)"
    using assms b by (simp_all add: covered_but_put covered_but_open books_def)
  note k1 = keep_mint_reward [OF p(1)]
  note f = fund_motherlode [OF p(2) k1(1) [OF 0(1)] k1(2) [OF 0(2)] k1(3) [OF 0(5)] assms(6)]
  have 2: "covered_but {?T} w2" "books w2 ?R 0" "books w2 ?T (tr_balance t + v)" "backs w2 ?T (tr_balance t)"
    using f k1 0 assms(5,7) by auto
  let ?b = "put (ra_board A) (ABoard bd') w3"
  have 3: "covered_but {?T} ?b" "books ?b ?R 0" "books ?b ?T (tr_balance t + v)" "backs ?b ?T (tr_balance t)"
    using covered_but_call [OF p(3) _ 2(1)] books_call [OF p(3)] backs_call [OF p(3)] 2
    by (simp_all add: covered_but_put books_put)
  note g = pay_fees_covered [OF p(4) 3(1,2)]
  have "covered_but {} w'"
    by (rule send_settle [OF p(5) _ g(1) assms(5)]) (use g 3 assms(5) in auto)
  then show ?thesis by (simp add: covered_but_empty)
qed

lemma reset_refund_covered:
  "reset_refund H A bd r w = Inr w' \<Longrightarrow> covered w \<Longrightarrow> covered w'"
  unfolding reset_refund_def Let_def
  by (auto simp: result_simps intro!: covered_put_zero elim!: covered_call)

lemma covered_reset_core:
  assumes "reset_core H A latch crank accs w = Inr w'" "covered w"
    "\<And>g sq r w r'. latch H A g sq r w = Inr r' \<Longrightarrow> rnd_total_vaulted r' = rnd_total_vaulted r"
  shows "covered w'"
proof -
  obtain cfg bd r mt sm t w1 q where c: "reset_checks H A w = Inr (cfg, bd, r, mt, sm, t)" "open_next_round H A bd w = Inr w1"
    and o: "reset_refund H A bd (r\<lparr>rnd_slot_hash := q\<rparr>) w1 = Inr w'
      \<or> (\<exists>sq fee n fees. reset_vault_all H A bd (r\<lparr>rnd_slot_hash := q\<rparr>) sq fee n fees sm t w1 = Inr w')
      \<or> (\<exists>accs g sq n fees. reset_winners H A latch accs cfg bd (r\<lparr>rnd_slot_hash := q\<rparr>) g sq n fees mt sm t w1 = Inr w')"
    by (rule reset_core_cases [OF assms(1)])
  note d = reset_checks_data [OF c(1)]
  then have ne: "ai_key (ra_round A) \<noteq> ai_key (ra_treasury A)" "ai_key (ra_round A) \<noteq> ai_key (ra_sol_motherlode A)"
      "ai_key (ra_treasury A) \<noteq> ai_key (ra_sol_motherlode A)" by auto
  have b: "backs w1 (ai_key (ra_treasury A)) (tr_balance t)" "backs w1 (ai_key (ra_sol_motherlode A)) (sm_amount sm)"
    using keep_open_next_round(2) [OF c(2)] backs_recorded [OF assms(2) d(2)] backs_recorded [OF assms(2) d(3)] by simp_all
  have c1: "covered w1" by (rule keep_open_next_round(1) [OF c(2) assms(2)])
  show ?thesis
    using o
    by (elim disjE exE)
      (erule reset_refund_covered [OF _ c1] reset_vault_all_covered [OF _ c1 b ne]
        | erule reset_winners_covered [OF _ c1 b ne], rule assms(3), assumption)+
qed

lemma covered_reset:
  "process_reset H accounts w = Inr w' \<Longrightarrow> covered w \<Longrightarrow> covered w'"
  "process_reset_permissionless H accounts w = Inr w' \<Longrightarrow> covered w \<Longrightarrow> covered w'"
  by (auto simp: process_reset_def process_reset_permissionless_def result_simps Let_def intro: covered_reset_core latch_vault)

lemmas covered_handlers = covered_stake covered_stake_care covered_stake_v1 covered_admin covered_bury covered_gold covered_referral covered_set_referrer
  covered_withdraw_vault covered_withdraw_sol_otc covered_pre_bury covered_pre_buy_gold covered_claim_sol
  covered_claim_sol_and_fund covered_claim_referral covered_fund_automation covered_automate covered_close_round
  covered_close_phantom covered_deploy covered_checkpoint covered_otc_trade covered_reset

lemma covered_instruction:
  "process_instruction H data_len accounts ix w = Inr w' \<Longrightarrow> covered w \<Longrightarrow> covered w'"
  by (cases ix) (simp_all add: process_instruction_def covered_handlers)

end

end
