(* ===== verification/SolvencyProperties.thy ===== *)
theory SolvencyProperties
  imports SolvencyMoves
begin

text \<open>
  Solvency over whole histories of the ledger, and what it gives the users: a claim never lacks the
  lamports it pays. A history starts before the program has any account and interleaves its
  instructions with arbitrary steps of other programs.
\<close>

section \<open>Histories\<close>

text \<open>What other programs may do between two instructions: credit an account of this program, but
  neither write nor debit it; they do not create accounts of it either. The instructions of a
  history are those that \<open>allowed\<close> admits.\<close>

definition foreign :: "'n world \<Rightarrow> 'n world \<Rightarrow> bool" where
  "foreign w w' \<longleftrightarrow> (\<forall>p. if program_owned (w_data w p)
     then w_data w' p = w_data w p \<and> w_lamports w p \<le> w_lamports w' p
     else \<not> program_owned (w_data w' p))"

inductive history :: "'n host \<Rightarrow> (account_info \<Rightarrow> 'n world \<Rightarrow> nat) \<Rightarrow> (godl_instruction \<Rightarrow> bool) \<Rightarrow> 'n world \<Rightarrow> bool"
  for H data_len allowed where
  genesis: "(\<And>p. \<not> program_owned (w_data w p)) \<Longrightarrow> history H data_len allowed w"
| outside: "history H data_len allowed w \<Longrightarrow> foreign w w' \<Longrightarrow> history H data_len allowed w'"
| instruction: "history H data_len allowed w \<Longrightarrow> process_instruction H data_len accounts ix w = Inr w' \<Longrightarrow> allowed ix \<Longrightarrow>
    history H data_len allowed w'"

lemma recorded_foreign: "\<not> program_owned d \<Longrightarrow> recorded d = 0"
  using recorded_program_owned by blast

lemma covered_foreign: "foreign w w' \<Longrightarrow> covered w \<Longrightarrow> covered w'"
  unfolding foreign_def covered_def by (metis le_trans recorded_foreign zero_le)

lemma history_covered:
  assumes "solana_lamports H" "history H data_len allowed w"
  shows "covered w"
  using assms(2)
proof induction
  case (genesis w)
  then show ?case by (simp add: covered_def recorded_foreign)
next
  case (outside w w')
  then show ?case by (blast intro: covered_foreign)
next
  case (instruction w accounts ix w')
  then show ?case by (blast intro: solana_lamports.covered_instruction [OF assms(1)])
qed

text \<open>C1. Every lamport amount an account of the program records (the vault, the SOL motherlode, the OTC
  desk's takings, a miner's rewards and checkpoint fee, an automation's balance, a referrer's
  rewards) is held by that account, in every state that the instructions of the program, in any
  order and interleaved with any steps of other programs, can reach.\<close>

lemma recorded_lamports_are_held:
  assumes "solana_lamports H" "history H data_len allowed w"
  shows "recorded (w_data w p) \<le> w_lamports w p"
  by (rule covered_at [OF history_covered [OF assms]])

text \<open>A first player sets up an automation with a deposit of 5,000,000 lamports.\<close>

definition demo_player_accounts :: "account_info list" where
  "demo_player_accounts = [acct 5, acct (ref_pda [AUTOMATION_V2, SKey 5]), acct 6, acct (ref_pda [MINER, SKey 5]),
     acct (ref_pda [POOL_MEMBER, SKey 5]), acct 11]"

definition demo_player_world :: "int world" where
  "demo_player_world = world_of [] [(5, 1000000000)] 50 2000"

lemma demo_player_keys [simp]:
  "ref_pda [AUTOMATION_V2, SKey 5] \<noteq> ref_pda [MINER, SKey 5]" "ref_pda [MINER, SKey 5] \<noteq> ref_pda [AUTOMATION_V2, SKey 5]"
  "ref_pda [AUTOMATION_V2, SKey 5] \<noteq> 5" "ref_pda [MINER, SKey 5] \<noteq> 5" "ref_pda [POOL_MEMBER, SKey 5] \<noteq> ref_pda [MINER, SKey 5]"
  by (simp_all add: AUTOMATION_V2_def MINER_def POOL_MEMBER_def ref_pda_def seed_code_def)

lemma demo_automate:
  "\<exists>w' a. process_instruction ref_host (\<lambda>_ _. 0) demo_player_accounts (Automate 1000 5000000 10 3 0 0 0) demo_player_world = Inr w'
     \<and> w_data w' (ref_pda [AUTOMATION_V2, SKey 5]) = AAutomationV2 a \<and> au_balance a = 5000000"
  by (simp add: process_instruction_def process_automate_def demo_player_accounts_def demo_player_world_def strategy_from_config_def
      ref_holds_def load_def world_of_def open_miner_def data_is_empty_def create_program_account_def ref_create_def zeroed_def
      new_miner_def configure_automation_def set_is_pooled_def set_claim_and_fund_def set_strategy_def collect_def ref_move_def
      moved_def Let_def put_def add64_def CHECKPOINT_FEE_def program_id_def program_owned_def pubkey_default_def result_simps)

lemma recorded_lamports_are_held_witness:
  "\<exists>w' a. process_instruction ref_host (\<lambda>_ _. 0) demo_player_accounts (Automate 1000 5000000 10 3 0 0 0) demo_player_world = Inr w'
     \<and> w_data w' (ref_pda [AUTOMATION_V2, SKey 5]) = AAutomationV2 a \<and> 5000000 \<le> w_lamports w' (ref_pda [AUTOMATION_V2, SKey 5])"
proof -
  obtain w' a where r: "process_instruction ref_host (\<lambda>_ _. 0) demo_player_accounts (Automate 1000 5000000 10 3 0 0 0) demo_player_world = Inr w'"
      "w_data w' (ref_pda [AUTOMATION_V2, SKey 5]) = AAutomationV2 a" "au_balance a = 5000000"
    using demo_automate by blast
  have "history ref_host (\<lambda>_ _. 0) (\<lambda>_. True) demo_player_world"
    by (rule genesis) (simp add: demo_player_world_def world_of_def program_owned_def)
  then have "history ref_host (\<lambda>_ _. 0) (\<lambda>_. True) w'" using r(1) by (rule instruction) simp
  from recorded_lamports_are_held [OF ref_lamports.solana_lamports_axioms this, of "ref_pda [AUTOMATION_V2, SKey 5]"] r
  show ?thesis by auto
qed

section \<open>Claims are paid\<close>

text \<open>Nothing but a lack of lamports stops a payment out of \<open>a\<close> to \<open>b\<close>.\<close>

definition can_pay :: "'n host \<Rightarrow> account_info \<Rightarrow> account_info \<Rightarrow> bool" where
  "can_pay H a b \<longleftrightarrow> (\<forall>n w. program_owned (w_data w (ai_key a)) \<longrightarrow> n \<le> lamports a w \<longrightarrow> (\<exists>w'. send H a n b w = Inr w'))"

text \<open>C2. A miner without a referrer can always claim: in every state that covers its records (C1: every
  reachable one) the claim instruction, given the accounts it asks for, succeeds, pays the signer exactly the recorded rewards and zeroes
  the record.\<close>

lemma sol_claim_is_always_paid:
  assumes "solana_lamports H" "covered w" "w_data w (ai_key a) = AMiner m" "referrer_account m = None"
    "mn_authority m = ai_key s" "checks H w [(s, IsSigner), (a, AsAccountMut KMiner), (sys, IsProgram SystemProgram)] = Inr ()"
    "can_pay H a s" "ai_key s \<noteq> ai_key a"
  shows "\<exists>w'. process_claim_sol H [s, a, sys] w = Inr w' \<and>
    w_lamports w' (ai_key s) = w_lamports w (ai_key s) + mn_rewards_sol m \<and>
    w_data w' (ai_key a) = AMiner (m\<lparr>mn_rewards_sol := 0, mn_last_claim_sol_at := w_unix_timestamp w\<rparr>)"
proof -
  note sol = solana_lamports.axioms(1) [OF assms(1)]
  let ?m = "m\<lparr>mn_rewards_sol := 0, mn_last_claim_sol_at := w_unix_timestamp w\<rparr>"
  let ?w = "put a (AMiner ?m) w"
  have "mn_rewards_sol m \<le> w_lamports w (ai_key a)"
    using covered_at [OF assms(2), of "ai_key a"] assms(3) by simp
  then obtain w' where s: "send H a (mn_rewards_sol m) s ?w = Inr w'"
    using assms(7) unfolding can_pay_def lamports_def by (metis put_data put_frame(1) program_owned_simps(3) fun_upd_same)
  have none: "referrer_account ?m = None" using assms(4) by (simp add: referrer_account_def split: if_splits)
  then have r: "referral_split REFERRAL_BPS (referrer_account ?m) n = Inr (0, n)" for n by (simp add: referral_split_none)
  have "process_claim_sol H [s, a, sys] w = (if 0 < mn_rewards_sol m then send H a (mn_rewards_sol m) s ?w else Inr ?w)"
    using assms(3-6) r none by (auto simp: process_claim_sol_def mn_claim_sol_def pay_referrer_sol_def load_def Let_def result_simps)
  then show ?thesis
    using s solana.send_lamports [OF sol s] solana.send_frame [OF sol s] assms(8) by (auto simp: moved_def Let_def)
qed


text \<open>A miner that is owed 7,000 lamports.\<close>

definition demo_owed :: "int miner" where
  "demo_owed = (new_miner fx_ops 5)\<lparr>mn_rewards_sol := 7000, mn_checkpoint_fee := 10000\<rparr>"

definition demo_owed_world :: "int world" where
  "demo_owed_world = world_of [(200, AMiner demo_owed)] [(200, 20000)] 50 2000"

lemma sol_claim_is_always_paid_witness:
  "\<exists>w'. process_claim_sol ref_host [acct 5, acct 200, acct 11] demo_owed_world = Inr w' \<and> w_lamports w' 5 = 7000"
proof -
  have c: "covered demo_owed_world" by (simp add: covered_def demo_owed_world_def world_of_def demo_owed_def)
  have d: "w_data demo_owed_world (ai_key (acct 200)) = AMiner demo_owed" by (simp add: demo_owed_world_def world_of_def)
  have k: "checks ref_host demo_owed_world [(acct 5, IsSigner), (acct 200, AsAccountMut KMiner), (acct 11, IsProgram SystemProgram)] = Inr ()"
    by (simp add: ref_holds_def demo_owed_world_def world_of_def program_id_def)
  have p: "can_pay ref_host (acct 200) (acct 5)" by (simp add: can_pay_def send_def ref_move_def lamports_def)
  have m: "referrer_account demo_owed = None" "mn_authority demo_owed = ai_key (acct 5)"
    by (simp_all add: demo_owed_def new_miner_def referrer_account_def)
  have n: "mn_rewards_sol demo_owed = 7000" "w_lamports demo_owed_world 5 = 0"
    by (simp_all add: demo_owed_def demo_owed_world_def world_of_def)
  show ?thesis
    using sol_claim_is_always_paid [OF ref_lamports.solana_lamports_axioms c d m k p] n by auto
qed

end
