(* ===== verification/Ownership.thy ===== *)
theory Ownership
  imports Reference_Host
begin

text \<open>
  Which accounts belong to the program: the runtime lets only a program write or create its own
  accounts, so a call into another program neither makes an account one of this program nor changes
  the type of one. The locale extends the laws of \<open>Solana\<close>; the reference host obeys it.
\<close>

text \<open>No call makes an account one of this program, except by creating it where it is asked to;
  resizing keeps the type.\<close>

locale solana_owner = solana +
  assumes call_owner: "h_call H c w = Inr w' \<Longrightarrow> p \<notin> touches c \<Longrightarrow> program_owned (w_data w' p) \<Longrightarrow> program_owned (w_data w p)"
    and call_token: "h_call H (CreateAssociatedTokenAccount f own a mint) w = Inr w' \<Longrightarrow> \<not> program_owned (w_data w' a)"
    and call_resize: "h_call H (ResizeAccount a n) w = Inr w' \<Longrightarrow> kind_of (w_data w' a) = kind_of (w_data w a)"

lemma ref_quiet_owner:
  "ref_transfer from to n w = Inr w' \<Longrightarrow> program_owned (w_data w' p) \<Longrightarrow> program_owned (w_data w p)"
  "ref_burn from n w = Inr w' \<Longrightarrow> program_owned (w_data w' p) \<Longrightarrow> program_owned (w_data w p)"
  "ref_mint to n w = Inr w' \<Longrightarrow> program_owned (w_data w' p) \<Longrightarrow> program_owned (w_data w p)"
  by (auto simp: ref_transfer_def ref_burn_def ref_mint_def program_owned_def Let_def split: account_data.splits if_splits)

interpretation ref_owner: solana_owner ref_host
proof unfold_locales
  fix c and w w' :: "int world" and p f own a mint n
  show "program_owned (w_data w p)"
    if "h_call ref_host c w = Inr w'" "p \<notin> touches c" "program_owned (w_data w' p)"
    using that by (cases c) (auto simp: ref_move_eq ref_create_eq result_simps ref_quiet_owner split: if_splits)
  show "\<not> program_owned (w_data w' a)" if "h_call ref_host (CreateAssociatedTokenAccount f own a mint) w = Inr w'"
    using that by (auto simp: ref_create_eq program_owned_def)
  show "kind_of (w_data w' a) = kind_of (w_data w a)" if "h_call ref_host (ResizeAccount a n) w = Inr w'"
    using that by simp
qed

end
