(* ===== verification/Addresses.thy ===== *)
theory Addresses
  imports Ownership Dispatch
begin

text \<open>
  Account types and addresses: which address an account of each type has. Most handlers check only
  the type of an account (\<open>as_treasury_mut\<close> and the like), so what they rely on is that no account
  of a type exists at another address. The invariant says this. This theory shows that the stake and
  administration handlers and the smaller ones of mining, gold and referrals preserve it.
\<close>

section \<open>The invariant\<close>

definition home :: "'n host \<Rightarrow> pubkey \<Rightarrow> 'n account_data \<Rightarrow> bool" where
  "home H p d = (case d of
     ATreasury _ \<Rightarrow> p = h_pda H [TREASURY]
   | ABoard _ \<Rightarrow> p = h_pda H [BOARD]
   | AConfig _ \<Rightarrow> p = h_pda H [CONFIG]
   | ASolMotherlode _ \<Rightarrow> p = h_pda H [SOL_MOTHERLODE]
   | AGoldVault _ \<Rightarrow> p = h_pda H [GOLD_VAULT]
   | AOtcTreasury _ \<Rightarrow> p = h_pda H [OTC_TREASURY]
   | ARound r \<Rightarrow> p = h_pda H [ROUND, SNum (rnd_id r)]
   | APoolRound r \<Rightarrow> p = h_pda H [POOL_ROUND, SNum (pr_id r)]
   | AMiner m \<Rightarrow> p = h_pda H [MINER, SKey (mn_authority m)]
   | AMinerExtended x \<Rightarrow> p = h_pda H [MINER_EXTENDED, SKey (mx_authority x)]
   | AAutomationV2 a \<Rightarrow> p = h_pda H [AUTOMATION_V2, SKey (au_authority a)]
   | APoolMember m \<Rightarrow> p = h_pda H [POOL_MEMBER, SKey (pm_authority m)]
   | AReferrer r \<Rightarrow> p = h_pda H [REFERRER, SKey (rf_authority r)]
   | AOtcUser u \<Rightarrow> p = h_pda H [OTC_USER, SKey (ou_authority u)]
   | AStake s \<Rightarrow> p = h_pda H [STAKE, SKey (st_authority s)]
   | AStakeV2 s \<Rightarrow> p = h_pda H [STAKE_V2, SKey (sv_authority s), SNum (sv_id s)]
   | _ \<Rightarrow> True)"

lemma home_simps [simp]:
  "home H p (ATreasury t) \<longleftrightarrow> p = h_pda H [TREASURY]" "home H p (ABoard b) \<longleftrightarrow> p = h_pda H [BOARD]"
  "home H p (AConfig c) \<longleftrightarrow> p = h_pda H [CONFIG]" "home H p (ASolMotherlode l) \<longleftrightarrow> p = h_pda H [SOL_MOTHERLODE]"
  "home H p (AGoldVault v) \<longleftrightarrow> p = h_pda H [GOLD_VAULT]" "home H p (AOtcTreasury ot) \<longleftrightarrow> p = h_pda H [OTC_TREASURY]"
  "home H p (ARound r) \<longleftrightarrow> p = h_pda H [ROUND, SNum (rnd_id r)]"
  "home H p (APoolRound pr) \<longleftrightarrow> p = h_pda H [POOL_ROUND, SNum (pr_id pr)]"
  "home H p (AMiner m) \<longleftrightarrow> p = h_pda H [MINER, SKey (mn_authority m)]"
  "home H p (AMinerExtended x) \<longleftrightarrow> p = h_pda H [MINER_EXTENDED, SKey (mx_authority x)]"
  "home H p (AAutomationV2 a) \<longleftrightarrow> p = h_pda H [AUTOMATION_V2, SKey (au_authority a)]"
  "home H p (APoolMember pm) \<longleftrightarrow> p = h_pda H [POOL_MEMBER, SKey (pm_authority pm)]"
  "home H p (AReferrer rf) \<longleftrightarrow> p = h_pda H [REFERRER, SKey (rf_authority rf)]"
  "home H p (AOtcUser u) \<longleftrightarrow> p = h_pda H [OTC_USER, SKey (ou_authority u)]"
  "home H p (AStake s) \<longleftrightarrow> p = h_pda H [STAKE, SKey (st_authority s)]"
  "home H p (AStakeV2 sv) \<longleftrightarrow> p = h_pda H [STAKE_V2, SKey (sv_authority sv), SNum (sv_id sv)]"
  "home H p AEmpty" "home H p (AToken tok)" "home H p (AMint mint)" "home H p (AVar va)" "home H p AOther" "home H p AMintAuthority"
  by (simp_all add: home_def)

lemmas home_intro = home_simps(1-16) [THEN iffD2]

lemma home_foreign: "\<not> program_owned d \<Longrightarrow> home H p d"
  by (cases d) (simp_all add: program_owned_def)

text \<open>The accounts in \<open>S\<close> are created but not yet initialised.\<close>

definition addressed :: "'n host \<Rightarrow> pubkey set \<Rightarrow> 'n world \<Rightarrow> bool" where
  "addressed H S w \<longleftrightarrow> (\<forall>p. p \<notin> S \<longrightarrow> home H p (w_data w p))"

lemma addressed_put: "addressed H (insert (ai_key a) S) w \<Longrightarrow> home H (ai_key a) d \<Longrightarrow> addressed H S (put a d w)"
  by (auto simp: addressed_def)

lemma addressed_insert: "addressed H S w \<Longrightarrow> addressed H (insert p S) w"
  by (auto simp: addressed_def)

lemma addressed_weaken: "addressed H {} w \<Longrightarrow> addressed H S w"
  by (simp add: addressed_def)

lemma addressed_shrink: "addressed H (insert p S) w \<Longrightarrow> home H p (w_data w p) \<Longrightarrow> addressed H S w"
  unfolding addressed_def by (metis insertE)

text \<open>The address of a loaded account, and rewriting an account without changing who it belongs to.\<close>

lemma addressed_at: "w_data w p = d \<Longrightarrow> addressed H {} w \<Longrightarrow> home H p d"
  by (auto simp: addressed_def)

lemma home_again:
  "w_data w p = ATreasury t \<Longrightarrow> addressed H {} w \<Longrightarrow> home H p (ATreasury t')"
  "w_data w p = ABoard b \<Longrightarrow> addressed H {} w \<Longrightarrow> home H p (ABoard b')"
  "w_data w p = AConfig c \<Longrightarrow> addressed H {} w \<Longrightarrow> home H p (AConfig c')"
  "w_data w p = ASolMotherlode l \<Longrightarrow> addressed H {} w \<Longrightarrow> home H p (ASolMotherlode l')"
  "w_data w p = AGoldVault v \<Longrightarrow> addressed H {} w \<Longrightarrow> home H p (AGoldVault v')"
  "w_data w p = AOtcTreasury ot \<Longrightarrow> addressed H {} w \<Longrightarrow> home H p (AOtcTreasury ot')"
  "w_data w p = ARound r \<Longrightarrow> addressed H {} w \<Longrightarrow> rnd_id r' = rnd_id r \<Longrightarrow> home H p (ARound r')"
  "w_data w p = APoolRound pr \<Longrightarrow> addressed H {} w \<Longrightarrow> pr_id pr' = pr_id pr \<Longrightarrow> home H p (APoolRound pr')"
  "w_data w p = AMiner m \<Longrightarrow> addressed H {} w \<Longrightarrow> mn_authority m' = mn_authority m \<Longrightarrow> home H p (AMiner m')"
  "w_data w p = AMinerExtended x \<Longrightarrow> addressed H {} w \<Longrightarrow> mx_authority x' = mx_authority x \<Longrightarrow> home H p (AMinerExtended x')"
  "w_data w p = AAutomationV2 a \<Longrightarrow> addressed H {} w \<Longrightarrow> au_authority a' = au_authority a \<Longrightarrow> home H p (AAutomationV2 a')"
  "w_data w p = APoolMember pm \<Longrightarrow> addressed H {} w \<Longrightarrow> pm_authority pm' = pm_authority pm \<Longrightarrow> home H p (APoolMember pm')"
  "w_data w p = AReferrer rf \<Longrightarrow> addressed H {} w \<Longrightarrow> rf_authority rf' = rf_authority rf \<Longrightarrow> home H p (AReferrer rf')"
  "w_data w p = AOtcUser u \<Longrightarrow> addressed H {} w \<Longrightarrow> ou_authority u' = ou_authority u \<Longrightarrow> home H p (AOtcUser u')"
  "w_data w p = AStake st \<Longrightarrow> addressed H {} w \<Longrightarrow> st_authority st' = st_authority st \<Longrightarrow> home H p (AStake st')"
  "w_data w p = AStakeV2 sv \<Longrightarrow> addressed H {} w \<Longrightarrow> sv_authority sv' = sv_authority sv \<Longrightarrow> sv_id sv' = sv_id sv \<Longrightarrow>
    home H p (AStakeV2 sv')"
  by (auto dest: addressed_at)

section \<open>Calls\<close>

context solana_owner
begin

lemma addressed_call:
  assumes "h_call H c w = Inr w'" "touches c \<subseteq> S" "addressed H S w"
  shows "addressed H S w'"
  unfolding addressed_def
proof (intro allI impI)
  fix p assume p: "p \<notin> S"
  then have t: "p \<notin> touches c" using assms(2) by blast
  show "home H p (w_data w' p)"
  proof (cases "program_owned (w_data w' p)")
    case True
    then show ?thesis
      using call_owner [OF assms(1) t True] call_frame [OF assms(1) t] p assms(3) by (simp add: addressed_def)
  qed (rule home_foreign)
qed

lemma addressed_create:
  assumes "create_program_account H k a b c ss w = Inr w'" "ai_key a \<in> S" "addressed H S w"
  shows "addressed H S w'"
  using assms addressed_call by (simp add: create_program_account_def)

lemma addressed_close:
  assumes "close_account H a b w = Inr w'" "addressed H S w"
  shows "addressed H S w'"
proof -
  have c: "h_call H (CloseAccount (ai_key a) (ai_key b)) w = Inr w'" using assms(1) by (simp add: close_account_def)
  have "addressed H (insert (ai_key a) S) w'"
    by (rule addressed_call [OF c _ addressed_insert [OF assms(2)]]) simp
  then show ?thesis by (rule addressed_shrink) (simp add: call_close [OF c])
qed

lemma addressed_open_token:
  assumes "open_token_account H a b c d w = Inr w'" "addressed H S w"
  shows "addressed H S w'"
proof (cases "data_is_empty c w")
  case True
  then have c: "h_call H (CreateAssociatedTokenAccount (ai_key a) (ai_key b) (ai_key c) (ai_key d)) w = Inr w'"
    using assms(1) by (simp add: open_token_account_def)
  have "addressed H (insert (ai_key c) S) w'"
    by (rule addressed_call [OF c _ addressed_insert [OF assms(2)]]) simp
  then show ?thesis by (rule addressed_shrink) (rule home_foreign [OF call_token [OF c]])
qed (use assms in \<open>auto simp: open_token_account_def result_simps\<close>)

lemma addressed_calls:
  "transfer H a b c n w = Inr w' \<Longrightarrow> addressed H S w \<Longrightarrow> addressed H S w'"
  "transfer_signed H a b c n ss w = Inr w' \<Longrightarrow> addressed H S w \<Longrightarrow> addressed H S w'"
  "burn_signed H a b c n ss w = Inr w' \<Longrightarrow> addressed H S w \<Longrightarrow> addressed H S w'"
  "collect H a n b w = Inr w' \<Longrightarrow> addressed H S w \<Longrightarrow> addressed H S w'"
  "send H a n b w = Inr w' \<Longrightarrow> addressed H S w \<Longrightarrow> addressed H S w'"
  by (simp_all add: transfer_def transfer_signed_def burn_signed_def collect_def send_def addressed_call)

lemmas stay = addressed_calls addressed_open_token addressed_close

end

section \<open>Staking\<close>

text \<open>No operation on a stake changes whose it is.\<close>

lemma stake_kept:
  "sv_update_rewards N t s = Inr s' \<Longrightarrow> sv_authority s' = sv_authority s \<and> sv_id s' = sv_id s"
  "sv_claim N a now t s = Inr (s', n) \<Longrightarrow> sv_authority s' = sv_authority s \<and> sv_id s' = sv_id s"
  "sv_migrate_weight N t s = Inr (s', t') \<Longrightarrow> sv_authority s' = sv_authority s \<and> sv_id s' = sv_id s"
  "sv_deposit N a now t f s = Inr (s', t', n) \<Longrightarrow> sv_authority s' = sv_authority s \<and> sv_id s' = sv_id s"
  "sv_withdraw N a now t s = Inr (s', t', n) \<Longrightarrow> sv_authority s' = sv_authority s \<and> sv_id s' = sv_id s"
  "sv_stake_nft N t s = Inr (s', t') \<Longrightarrow> sv_authority s' = sv_authority s \<and> sv_id s' = sv_id s"
  "sv_unstake_nft N t s = Inr (s', t') \<Longrightarrow> sv_authority s' = sv_authority s \<and> sv_id s' = sv_id s"
  unfolding sv_claim_def sv_deposit_def sv_withdraw_def sv_stake_nft_def sv_unstake_nft_def sv_migrate_weight_def
    sv_update_rewards_def Let_def
  by (auto simp: result_simps split: if_splits)

lemma stake_v1_kept:
  "st_update_rewards N t s = Inr v \<Longrightarrow> st_authority v = st_authority s"
  "st_claim N a now t s = Inr (v, n) \<Longrightarrow> st_authority v = st_authority s"
  "st_deposit N a now t f s = Inr (v, t', n) \<Longrightarrow> st_authority v = st_authority s"
  "st_withdraw N a now t s = Inr (v, t', n) \<Longrightarrow> st_authority v = st_authority s"
  unfolding st_claim_def st_deposit_def st_withdraw_def st_update_rewards_def Let_def
  by (auto simp: result_simps split: if_splits)

lemma merge_kept:
  "merge_stakes N now t s u = Inr (s', u', t') \<Longrightarrow> sv_authority s' = sv_authority s \<and> sv_id s' = sv_id s \<and>
    sv_authority u' = sv_authority u \<and> sv_id u' = sv_id u"
  unfolding merge_stakes_def Let_def
  by (auto simp: result_simps dest!: stake_kept split: if_splits)

lemma new_stake_home [simp]: "sv_authority (new_stake_v2 i a e l now t) = a" "sv_id (new_stake_v2 i a e l now t) = i"
  by (simp_all add: new_stake_v2_def)

context solana_owner
begin

lemma addressed_stake:
  "process_deposit_v2 H accounts sid amount lock w = Inr w' \<Longrightarrow> addressed H {} w \<Longrightarrow> addressed H {} w'"
  "process_top_up_stake_v2 H accounts sid amount w = Inr w' \<Longrightarrow> addressed H {} w \<Longrightarrow> addressed H {} w'"
  "process_withdraw_v2 H accounts sid amount w = Inr w' \<Longrightarrow> addressed H {} w \<Longrightarrow> addressed H {} w'"
  "process_claim_yield_v2 H accounts sid amount w = Inr w' \<Longrightarrow> addressed H {} w \<Longrightarrow> addressed H {} w'"
  "process_compound_yield_v2 H accounts sid w = Inr w' \<Longrightarrow> addressed H {} w \<Longrightarrow> addressed H {} w'"
  unfolding process_deposit_v2_def process_top_up_stake_v2_def process_withdraw_v2_def process_claim_yield_v2_def process_compound_yield_v2_def Let_def
  apply (auto simp: result_simps split: list.splits if_splits dest!: stake_kept)
  apply (erule stay | (erule addressed_create, (simp; fail)) | rule addressed_put | (rule addressed_weaken, assumption)
      | (simp add: check_seeds; fail) | (rule home_again, assumption))+
  done

lemma addressed_stake_care:
  "process_set_stake_executor_v2 H accounts sid k w = Inr w' \<Longrightarrow> addressed H {} w \<Longrightarrow> addressed H {} w'"
  "process_stake_nft H accounts sid w = Inr w' \<Longrightarrow> addressed H {} w \<Longrightarrow> addressed H {} w'"
  "process_unstake_nft H accounts sid w = Inr w' \<Longrightarrow> addressed H {} w \<Longrightarrow> addressed H {} w'"
  "process_migrate_stake_weight H accounts w = Inr w' \<Longrightarrow> addressed H {} w \<Longrightarrow> addressed H {} w'"
  "process_merge_stake_v2 H accounts sid sid2 w = Inr w' \<Longrightarrow> addressed H {} w \<Longrightarrow> addressed H {} w'"
  "process_close_stake_v2 H accounts sid w = Inr w' \<Longrightarrow> addressed H {} w \<Longrightarrow> addressed H {} w'"
  "process_reconcile_stake_v2 H accounts w = Inr w' \<Longrightarrow> addressed H {} w \<Longrightarrow> addressed H {} w'"
  "process_close_phantom_stake_v2 H accounts w = Inr w' \<Longrightarrow> addressed H {} w \<Longrightarrow> addressed H {} w'"
  unfolding process_set_stake_executor_v2_def process_stake_nft_def process_unstake_nft_def process_migrate_stake_weight_def process_merge_stake_v2_def process_close_stake_v2_def process_reconcile_stake_v2_def process_close_phantom_stake_v2_def Let_def
  apply (auto simp: result_simps split: list.splits if_splits dest!: stake_kept merge_kept)
  apply (erule stay | (erule addressed_create, (simp; fail)) | (erule addressed_call, (simp; fail)) | rule addressed_put | (rule addressed_weaken, assumption)
      | (simp add: check_seeds; fail) | (rule home_again, assumption))+
  done

lemma addressed_stake_v1:
  "process_withdraw H accounts amount w = Inr w' \<Longrightarrow> addressed H {} w \<Longrightarrow> addressed H {} w'"
  "process_claim_yield H accounts amount w = Inr w' \<Longrightarrow> addressed H {} w \<Longrightarrow> addressed H {} w'"
  "process_deposit H accounts data w = Inr w' \<Longrightarrow> addressed H {} w \<Longrightarrow> addressed H {} w'"
  unfolding process_withdraw_def process_claim_yield_def process_deposit_def Let_def
  apply (auto simp: result_simps split: list.splits if_splits dest!: stake_v1_kept)
  apply (erule stay | (erule addressed_create, (simp; fail)) | (erule addressed_call, (simp; fail)) | rule addressed_put | (rule addressed_weaken, assumption)
      | (simp add: check_seeds; fail) | (rule home_again, assumption))+
  done

end

section \<open>Mining, referrals, automations and the desk\<close>

lemma miner_home_kept:
  "mn_update_rewards N t m = Inr m' \<Longrightarrow> mn_authority m' = mn_authority m"
  "mn_claim_godl N now t m = Inr (m', t', n) \<Longrightarrow> mn_authority m' = mn_authority m"
  "credit_unrefined e g t m = Inr (m', t') \<Longrightarrow> mn_authority m' = mn_authority m"
  "enter_round r m = Inr m' \<Longrightarrow> mn_authority m' = mn_authority m"
  "place_square n sq m r = Inr (m', r') \<Longrightarrow> mn_authority m' = mn_authority m \<and> rnd_id r' = rnd_id r"
  "configure_automation x n d f sm st c i a = Inr a' \<Longrightarrow> au_authority a' = au_authority a"
  "otc_user_totals x y z u = Inr u' \<Longrightarrow> ou_authority u' = ou_authority u"
  unfolding mn_update_rewards_def mn_claim_godl_def credit_unrefined_def enter_round_def place_square_def otc_user_totals_def
    configure_automation_def set_is_pooled_def set_claim_and_fund_def set_strategy_def Let_def
  by (auto simp: result_simps split: if_splits)

lemma extended_kept:
  "mx_update_rewards N v t x = Inr x' \<Longrightarrow> mx_authority x' = mx_authority x"
  "mx_claim x = (x', n) \<Longrightarrow> mx_authority x' = mx_authority x"
  "sync_gold_rewards N (Some x) v m = Inr (Some x') \<Longrightarrow> mx_authority x' = mx_authority x"
  unfolding mx_update_rewards_def mx_claim_def sync_gold_rewards_def Let_def
  by (auto simp: result_simps split: if_splits)

lemma new_homes [simp]:
  "mn_authority (new_miner N p) = p" "pm_authority (new_pool_member p) = p" "mx_authority (mx_init p v) = p"
  "pr_id (new_pool_round i q) = i" "pm_authority (pm_reset_for_round i m) = pm_authority m"
  "pm_authority (pm_record_deploy sq n m) = pm_authority m" "pr_id (pr_record_deploy sq n z r) = pr_id r"
  "rnd_id (new_round i q) = i"
  by (simp_all add: new_miner_def new_pool_member_def mx_init_def new_pool_round_def pm_reset_for_round_def
      pm_record_deploy_def pr_record_deploy_def new_round_def Let_def)

context solana_owner
begin

lemma addressed_extended:
  "load_or_create_miner_extended H a v p payer sys c w = Inr (x, w') \<Longrightarrow> addressed H S w \<Longrightarrow> addressed H S w'"
  "load_or_create_miner_extended H a v p payer sys c w = Inr (Some y, w') \<Longrightarrow> home H (ai_key a) (AMinerExtended y)"
  unfolding load_or_create_miner_extended_def Let_def
  by (auto simp: result_simps dest: check_seeds intro!: addressed_put elim!: addressed_create addressed_insert split: if_splits)

lemma home_extended:
  "load_or_create_miner_extended H a v p payer sys c w = Inr (Some y, w') \<Longrightarrow> mx_authority y' = mx_authority y \<Longrightarrow>
     home H (ai_key a) (AMinerExtended y')"
  using addressed_extended(2) by fastforce

lemma addressed_sync:
  "sync_gold H a x v m w = Inr w' \<Longrightarrow> load_or_create_miner_extended H a v' p payer sys c w0 = Inr (x, w1) \<Longrightarrow>
     addressed H S w \<Longrightarrow> addressed H S w'"
  unfolding sync_gold_def
  apply (cases x)
   apply (auto simp: result_simps sync_gold_rewards_def split: if_splits)[1]
  apply (auto simp: result_simps dest!: addressed_extended(2) extended_kept split: option.splits
      intro!: addressed_put addressed_insert)
  done

lemma addressed_open_miner:
  assumes "open_miner H a sys b p e w = Inr (m, w')" "ai_key a = h_pda H [MINER, SKey p]"
  shows "addressed H S w \<Longrightarrow> addressed H S w'" "mn_authority m' = mn_authority m \<Longrightarrow> home H (ai_key a) (AMiner m')"
  using assms unfolding open_miner_def Let_def
  by (auto simp: result_simps intro!: addressed_put elim!: addressed_create addressed_insert split: if_splits)

lemma addressed_otc_user:
  assumes "open_otc_user H a sys b w = Inr (u, w')" "ai_key a = h_pda H [OTC_USER, SKey (ai_key b)]"
  shows "addressed H S w \<Longrightarrow> addressed H S w'" "ou_authority u' = ou_authority u \<Longrightarrow> home H (ai_key a) (AOtcUser u')"
  using assms unfolding open_otc_user_def Let_def
  by (auto simp: result_simps intro!: addressed_put elim!: addressed_create addressed_insert split: if_splits)

lemma addressed_pay_bury: "pay_bury H a b c d e f g h w = Inr (n, w') \<Longrightarrow> addressed H S w \<Longrightarrow> addressed H S w'"
  unfolding pay_bury_def Let_def by (auto simp: result_simps elim!: stay split: if_splits)

lemma addressed_swap:
  "bury_swap H a b c d e f g h i w = Inr (x, y, w') \<Longrightarrow> addressed H S w \<Longrightarrow> addressed H S w'"
  "buy_gold_swap H a b c g h i k w = Inr (x, y, w') \<Longrightarrow> addressed H S w \<Longrightarrow> addressed H S w'"
  unfolding bury_swap_def buy_gold_swap_def Let_def
  by (auto simp: result_simps elim!: addressed_call)

lemma load_referrer_home: "load_referrer H a p w = Inr r \<Longrightarrow> rf_authority r' = rf_authority r \<Longrightarrow> home H (ai_key a) (AReferrer r')"
  by (auto simp: load_referrer_def result_simps dest: check_seeds)

lemma addressed_pay_referrer:
  "pay_referrer_godl H a b c m n rest w = Inr w' \<Longrightarrow> addressed H S w \<Longrightarrow> addressed H S w'"
  "pay_referrer_sol H a m n rest w = Inr w' \<Longrightarrow> addressed H S w \<Longrightarrow> addressed H S w'"
  unfolding pay_referrer_godl_def pay_referrer_sol_def Let_def
  by (auto simp: result_simps simp del: home_simps elim!: stay load_referrer_home intro!: addressed_put addressed_insert
      split: option.splits list.splits if_splits)

lemmas more = addressed_extended(1) addressed_pay_bury addressed_swap addressed_pay_referrer

lemma addressed_admin:
  "process_initialize H accounts k1 k2 k3 n w = Inr w' \<Longrightarrow> addressed H {} w \<Longrightarrow> addressed H {} w'"
  "process_initialize_sol_motherlode H accounts w = Inr w' \<Longrightarrow> addressed H {} w \<Longrightarrow> addressed H {} w'"
  "process_set_admin H accounts k w = Inr w' \<Longrightarrow> addressed H {} w \<Longrightarrow> addressed H {} w'"
  "process_set_fee_collector H accounts k w = Inr w' \<Longrightarrow> addressed H {} w \<Longrightarrow> addressed H {} w'"
  "process_set_godl_per_round H accounts n w = Inr w' \<Longrightarrow> addressed H {} w \<Longrightarrow> addressed H {} w'"
  "process_set_motherlode_denominator H accounts n w = Inr w' \<Longrightarrow> addressed H {} w \<Longrightarrow> addressed H {} w'"
  "process_set_swap_program H accounts w = Inr w' \<Longrightarrow> addressed H {} w \<Longrightarrow> addressed H {} w'"
  "process_set_var_address H accounts w = Inr w' \<Longrightarrow> addressed H {} w \<Longrightarrow> addressed H {} w'"
  "process_new_var H accounts n c m w = Inr w' \<Longrightarrow> addressed H {} w \<Longrightarrow> addressed H {} w'"
  "process_rebase_total_staked H accounts n m w = Inr w' \<Longrightarrow> addressed H {} w \<Longrightarrow> addressed H {} w'"
  "process_rebase_total_unclaimed H accounts n m w = Inr w' \<Longrightarrow> addressed H {} w \<Longrightarrow> addressed H {} w'"
  "process_transfer_mint_authority H accounts w = Inr w' \<Longrightarrow> addressed H {} w \<Longrightarrow> addressed H {} w'"
  "process_withdraw_vault H accounts n w = Inr w' \<Longrightarrow> addressed H {} w \<Longrightarrow> addressed H {} w'"
  "process_pre_bury H accounts n1 n2 n3 w = Inr w' \<Longrightarrow> addressed H {} w \<Longrightarrow> addressed H {} w'"
  unfolding process_initialize_def process_initialize_sol_motherlode_def process_set_admin_def process_set_fee_collector_def process_set_godl_per_round_def process_set_motherlode_denominator_def process_set_swap_program_def process_set_var_address_def process_new_var_def process_rebase_total_staked_def process_rebase_total_unclaimed_def process_transfer_mint_authority_def process_withdraw_vault_def process_pre_bury_def config_setter_def token_programs_def Let_def
  apply (auto simp: result_simps dest!: miner_home_kept extended_kept split: list.splits option.splits if_splits)
  apply (erule addressed_sync, assumption | erule stay more | (erule addressed_create, (simp; fail)) | (erule addressed_call, (simp; fail))
      | rule addressed_put | (rule addressed_weaken, assumption) | (rule addressed_insert, assumption)
      | (simp add: check_seeds; fail) | (rule home_again, assumption))+
  done

lemma addressed_bury:
  "process_bury H accounts data w = Inr w' \<Longrightarrow> addressed H {} w \<Longrightarrow> addressed H {} w'"
  "process_bury_tokens H accounts amount w = Inr w' \<Longrightarrow> addressed H {} w \<Longrightarrow> addressed H {} w'"
  "process_inject_unrefined_rewards H accounts amount w = Inr w' \<Longrightarrow> addressed H {} w \<Longrightarrow> addressed H {} w'"
  "process_inject_godl_motherlode H accounts amount w = Inr w' \<Longrightarrow> addressed H {} w \<Longrightarrow> addressed H {} w'"
  "process_log H accounts w = Inr w' \<Longrightarrow> addressed H {} w \<Longrightarrow> addressed H {} w'"
  unfolding process_bury_def process_bury_tokens_def process_inject_unrefined_rewards_def process_inject_godl_motherlode_def process_log_def warchest_checks_def token_programs_def Let_def
  apply (auto simp: result_simps dest!: miner_home_kept extended_kept split: list.splits option.splits if_splits)
  apply (erule addressed_sync, assumption | erule stay more | (erule addressed_create, (simp; fail)) | (erule addressed_call, (simp; fail))
      | rule addressed_put | (rule addressed_weaken, assumption) | (rule addressed_insert, assumption)
      | (simp add: check_seeds; fail) | (rule home_again, assumption))+
  done

lemma addressed_gold:
  "process_create_miner_extended H accounts w = Inr w' \<Longrightarrow> addressed H {} w \<Longrightarrow> addressed H {} w'"
  "process_initialize_gold_vault H accounts w = Inr w' \<Longrightarrow> addressed H {} w \<Longrightarrow> addressed H {} w'"
  "process_pre_buy_gold H accounts n w = Inr w' \<Longrightarrow> addressed H {} w \<Longrightarrow> addressed H {} w'"
  "process_buy_gold H accounts n data w = Inr w' \<Longrightarrow> addressed H {} w \<Longrightarrow> addressed H {} w'"
  "process_deposit_gold H accounts amount w = Inr w' \<Longrightarrow> addressed H {} w \<Longrightarrow> addressed H {} w'"
  "process_claim_gold H accounts w = Inr w' \<Longrightarrow> addressed H {} w \<Longrightarrow> addressed H {} w'"
  "process_initialize_otc_treasury H accounts w = Inr w' \<Longrightarrow> addressed H {} w \<Longrightarrow> addressed H {} w'"
  "process_fund_godl_otc H accounts amount w = Inr w' \<Longrightarrow> addressed H {} w \<Longrightarrow> addressed H {} w'"
  "process_withdraw_sol_otc H accounts w = Inr w' \<Longrightarrow> addressed H {} w \<Longrightarrow> addressed H {} w'"
  unfolding process_create_miner_extended_def process_initialize_gold_vault_def process_pre_buy_gold_def process_buy_gold_def process_deposit_gold_def process_claim_gold_def process_initialize_otc_treasury_def process_fund_godl_otc_def process_withdraw_sol_otc_def mx_claim_def token_programs_def Let_def
  apply (auto simp: result_simps dest!: miner_home_kept extended_kept split: list.splits option.splits if_splits)
  apply (erule addressed_sync, assumption | erule stay more | (erule addressed_create, (simp; fail)) | (erule addressed_call, (simp; fail))
      | (erule home_extended, (simp; fail)) | rule addressed_put | (rule addressed_weaken, assumption) | (rule addressed_insert, assumption)
      | (simp add: check_seeds; fail) | (rule home_again, assumption))+
  done

lemma addressed_referral:
  "process_initialize_referrer H accounts w = Inr w' \<Longrightarrow> addressed H {} w \<Longrightarrow> addressed H {} w'"
  "process_claim_referral H accounts w = Inr w' \<Longrightarrow> addressed H {} w \<Longrightarrow> addressed H {} w'"
  "process_claim_godl H accounts w = Inr w' \<Longrightarrow> addressed H {} w \<Longrightarrow> addressed H {} w'"
  "process_claim_sol H accounts w = Inr w' \<Longrightarrow> addressed H {} w \<Longrightarrow> addressed H {} w'"
  "process_claim_sol_and_fund_automation H accounts w = Inr w' \<Longrightarrow> addressed H {} w \<Longrightarrow> addressed H {} w'"
  "process_fund_automation H accounts n w = Inr w' \<Longrightarrow> addressed H {} w \<Longrightarrow> addressed H {} w'"
  unfolding process_initialize_referrer_def process_claim_referral_def process_claim_godl_def process_claim_sol_def process_claim_sol_and_fund_automation_def process_fund_automation_def mn_claim_sol_def token_programs_def Let_def
  apply (auto simp: result_simps dest!: miner_home_kept extended_kept split: list.splits option.splits if_splits)
  apply (erule addressed_sync, assumption | erule stay more | (erule addressed_create, (simp; fail)) | (erule addressed_call, (simp; fail))
      | rule addressed_put | (rule addressed_weaken, assumption) | (rule addressed_insert, assumption)
      | (simp add: check_seeds; fail) | (rule home_again, assumption))+
  done

end

end
