(* ===== verification/AddressMoves.thy ===== *)
theory AddressMoves
  imports Addresses
begin

text \<open>
  Account types and addresses, continued: automations, deployments, checkpoints, trades and the
  closing of rounds, and with them every instruction of the program (\<open>addressed_instruction\<close>).
\<close>

section \<open>Small handlers\<close>

context solana_owner
begin

lemma addressed_set_referrer:
  assumes "process_set_referrer H accounts k w = Inr w'" "addressed H {} w"
  shows "addressed H {} w'"
  using assms(1)
proof (cases rule: set_referrer_cases)
  case (locked m x)
  then show ?thesis
    by (auto simp del: home_simps intro!: addressed_put home_again(9) [OF locked(1) assms(2)] addressed_weaken [OF assms(2)])
next
  case (chosen m x r rf i)
  then show ?thesis
    by (auto simp del: home_simps intro!: addressed_put home_again(9) [OF chosen(1) assms(2)] home_again(13) [OF chosen(2) assms(2)]
        addressed_weaken [OF assms(2)])
qed (use assms(2) in simp)

lemma addressed_config:
  assumes "process_update_protocol_config H data_len accounts n m w = Inr w'" "addressed H {} w"
  shows "addressed H {} w'"
  using assms unfolding process_update_protocol_config_def Let_def
  apply (auto simp: result_simps simp del: home_simps split: list.splits if_splits)
  apply (erule stay | (erule addressed_call, (simp; fail)) | rule addressed_put | (rule addressed_weaken, assumption)
      | (simp add: check_seeds; fail) | (rule home_again, assumption) | assumption)+
  done

lemma addressed_vault_unclaimed:
  "vault_unclaimed H a len b t w = Inr (t', w') \<Longrightarrow> ai_key b = h_pda H [TREASURY] \<Longrightarrow> addressed H S w \<Longrightarrow> addressed H S w'"
  by (auto simp: vault_unclaimed_def Let_def result_simps intro!: addressed_put elim!: stay addressed_insert split: if_splits)

lemma addressed_close_round:
  assumes "process_close H accounts w = Inr w'" "addressed H {} w"
  shows "addressed H {} w'"
proof -
  obtain a b rent p t rd t1 w1 w2 where r: "w_data w (ai_key b) = ATreasury t" "w_data w (ai_key a) = ARound rd"
      "vault_unclaimed H a (8 + size_of_round) b t w = Inr (t1, w1)" "close_account H a rent w1 = Inr w2"
      "w' = w2 \<or> (\<exists>pr t2 w3. w_data w2 (ai_key p) = APoolRound pr
        \<and> vault_unclaimed H p (8 + size_of_pool_round) b t1 w2 = Inr (t2, w3) \<and> close_account H p rent w3 = Inr w')"
    by (rule process_close_cases [OF assms(1)])
  have b: "ai_key b = h_pda H [TREASURY]" using addressed_at [OF r(1) assms(2)] by simp
  have "addressed H {} w2" by (rule addressed_close [OF r(4) addressed_vault_unclaimed [OF r(3) b assms(2)]])
  then show ?thesis using r(5) addressed_vault_unclaimed [OF _ b] addressed_close by blast
qed

lemma addressed_automate:
  "process_automate H accounts amount deposit fee sm st cf ip w = Inr w' \<Longrightarrow> addressed H {} w \<Longrightarrow> addressed H {} w'"
  unfolding process_automate_def Let_def
  apply (elim and_thenE list6E)
  apply (auto simp: result_simps simp del: home_simps dest!: miner_home_kept split: if_splits)
  apply (erule stay | (erule addressed_create, (simp; fail)) | (erule addressed_open_miner(1), (simp add: check_seeds; fail))
      | rule addressed_put | (rule addressed_weaken, assumption) | (rule addressed_insert, assumption)
      | (erule addressed_open_miner(2), (simp add: check_seeds; fail), (simp; fail))
      | (simp add: check_seeds; fail) | (rule home_again, assumption))+
  done

section \<open>Deployments\<close>

lemma addressed_pool_square:
  assumes "pool_square H a b c d e n sq r pr w = Inr (pr', w')" "ai_key a = h_pda H [POOL_MEMBER, SKey (ai_key e)]"
    "ai_key b = h_pda H [POOL_ROUND, SNum (pr_id pr)]"
  shows "addressed H S w \<Longrightarrow> addressed H S w'" "pr_id pr' = pr_id pr"
proof -
  obtain pm w1 where p: "w' = put b (APoolRound pr') (put a (APoolMember pm) w1)" "pm_authority pm = ai_key e" "pr_id pr' = pr_id pr"
      "w1 = w \<or> create_program_account H KPoolMember a c d [POOL_MEMBER, SKey (ai_key e)] w = Inr w1"
    using assms(1) unfolding pool_square_def Let_def by (auto simp: result_simps split: if_splits)
  show "pr_id pr' = pr_id pr" by (rule p(3))
  assume w: "addressed H S w"
  have "addressed H (insert (ai_key a) (insert (ai_key b) S)) w1"
    using p(4) w by (auto intro: addressed_create [where S = "insert (ai_key a) (insert (ai_key b) S)"] addressed_insert)
  then show "addressed H S w'" unfolding p(1) using assms(2,3) p(2,3) by (intro addressed_put) simp_all
qed

lemma addressed_deploy_loop:
  assumes "deploy_loop (pool_square H a b c d e n) ip au n sq l ds = Inr ds'" "ai_key a = h_pda H [POOL_MEMBER, SKey (ai_key e)]"
    "ai_key b = h_pda H [POOL_ROUND, SNum (pr_id (ds_pool_round ds))]"
  shows "addressed H S (ds_world ds) \<Longrightarrow> addressed H S (ds_world ds')"
    "mn_authority (ds_miner ds') = mn_authority (ds_miner ds)" "rnd_id (ds_round ds') = rnd_id (ds_round ds)"
proof -
  let ?I = "\<lambda>x. pr_id (ds_pool_round x) = pr_id (ds_pool_round ds) \<and> (addressed H S (ds_world ds) \<longrightarrow> addressed H S (ds_world x))
    \<and> mn_authority (ds_miner x) = mn_authority (ds_miner ds) \<and> rnd_id (ds_round x) = rnd_id (ds_round ds)"
  have "?I ds'"
  proof (rule deploy_loop_invariant [OF assms(1), where I = ?I], goal_cases)
    case (2 ds1 sq1 m r pr w t u)
    have b: "ai_key b = h_pda H [POOL_ROUND, SNum (pr_id (ds_pool_round ds1))]" using 2(1) assms(3) by simp
    show ?case using 2(1,3) addressed_pool_square [OF _ assms(2) b] miner_home_kept(5) [OF 2(2)] by (auto split: if_splits)
  qed simp
  then show "addressed H S (ds_world ds) \<Longrightarrow> addressed H S (ds_world ds')"
    "mn_authority (ds_miner ds') = mn_authority (ds_miner ds)" "rnd_id (ds_round ds') = rnd_id (ds_round ds)"
    by blast+
qed

lemma addressed_start_round:
  assumes "start_round H a b c e bd r w = Inr (bd', r', w')" "ai_key a = h_pda H [BOARD]" "ai_key b = h_pda H [ROUND, SNum (rnd_id r)]"
  shows "addressed H S w \<Longrightarrow> addressed H S w'" "rnd_id r' = rnd_id r"
  using assms unfolding start_round_def Let_def
  by (auto simp: result_simps intro!: addressed_put addressed_insert elim!: addressed_call split: list.splits if_splits)

lemma addressed_pay_deployment:
  assumes "pay_deployment H s au b r x n w = Inr w'" "addressed H S w"
    "\<And>a. x = Some a \<Longrightarrow> ai_key b = h_pda H [AUTOMATION_V2, SKey (au_authority a)]"
  shows "addressed H S w'"
  using assms unfolding pay_deployment_def Let_def
  by (auto simp: result_simps intro!: addressed_put addressed_insert elim!: stay split: option.splits if_splits)

lemma addressed_settle_deployment:
  assumes "settle_deployment H s au b a r pm x ip ds = Inr w'" "addressed H S (ds_world ds)"
    "ai_key a = h_pda H [MINER, SKey (mn_authority (ds_miner ds))]" "ai_key r = h_pda H [ROUND, SNum (rnd_id (ds_round ds))]"
    "\<And>a. x = Some a \<Longrightarrow> ai_key b = h_pda H [AUTOMATION_V2, SKey (au_authority a)]"
  shows "addressed H S w'"
  using assms(1-4) unfolding settle_deployment_def Let_def
  by (auto simp: result_simps elim!: addressed_pay_deployment [OF _ _ assms(5)] stay
      intro!: addressed_put addressed_insert split: if_splits)

lemma load_automation_authority:
  "load_automation H b s au ip w = Inr (Some a, ip') \<Longrightarrow> au_authority a = ai_key au"
  by (auto simp: load_automation_def result_simps split: if_splits)

lemma addressed_deploy_rest:
  assumes "deploy_loop (pool_square H c d e f g n) ip x n 0 l
      \<lparr>ds_miner = m, ds_round = rd, ds_pool_round = p, ds_total_amount = 0, ds_total_squares = 0,
       ds_world = put a (AMiner m) w\<rparr> = Inr ds"
    "settle_deployment H s au b a r pm x ip ds = Inr w'" "addressed H {} w"
    "ai_key c = h_pda H [POOL_MEMBER, SKey (ai_key g)]" "ai_key d = h_pda H [POOL_ROUND, SNum (pr_id p)]"
    "ai_key a = h_pda H [MINER, SKey (mn_authority m)]" "ai_key r = h_pda H [ROUND, SNum (rnd_id rd)]"
    "\<And>y. x = Some y \<Longrightarrow> ai_key b = h_pda H [AUTOMATION_V2, SKey (au_authority y)]"
  shows "addressed H {} w'"
proof -
  note l = addressed_deploy_loop [OF assms(1,4), simplified, OF assms(5)]
  have "addressed H {} (put a (AMiner m) w)"
    by (intro addressed_put addressed_insert assms(3)) (simp add: assms(6))
  then have "addressed H {} (ds_world ds)" by (rule l(1))
  then show ?thesis by (rule addressed_settle_deployment [OF assms(2)]) (use assms(6-8) l(2,3) in simp_all)
qed

lemmas deploy_done = addressed_deploy_rest [where x = None, simplified]
  addressed_deploy_rest [where x = "Some y" for y, simplified]

lemma open_miner_authority:
  "open_miner H a sys b p e w = Inr (m, w') \<Longrightarrow> mn_authority m = p"
  unfolding open_miner_def Let_def by (auto simp: result_simps split: if_splits)

text \<open>The seeds of the accounts of a deployment, in the forms the handler needs.\<close>

lemma deploy_seeds:
  "load_automation H b s au ip w = Inr (Some y, ip') \<Longrightarrow> k = h_pda H [t, SKey (ai_key au)] \<Longrightarrow> k = h_pda H [t, SKey (au_authority y)]"
  "enter_round r m0 = Inr m \<Longrightarrow> open_miner H a sys b p e w = Inr (m0, w') \<Longrightarrow> k = h_pda H [t, SKey p] \<Longrightarrow>
     k = h_pda H [t, SKey (mn_authority m)]"
  "start_round H a b c e' bd rd w = Inr (bd', r', w') \<Longrightarrow> ai_key a = h_pda H [BOARD] \<Longrightarrow>
     ai_key b = h_pda H [ROUND, SNum (rnd_id rd)] \<Longrightarrow> ai_key b = h_pda H [ROUND, SNum (rnd_id r')]"
  by (simp_all add: load_automation_authority miner_home_kept(4) open_miner_authority addressed_start_round(2))

lemma addressed_deploy_core:
  assumes "deploy_core H accs gold ent n am ip w = Inr w'" "addressed H {} w"
  shows "addressed H {} w'"
proof -
  obtain s au b bd m r p pm cfg sys bd0 r0 p0 where
    a: "accs = [s, au, b, bd, m, r, p, pm, cfg, sys]"
    and c: "ai_key b = h_pda H [AUTOMATION_V2, SKey (ai_key au)]" "ai_key m = h_pda H [MINER, SKey (ai_key au)]"
      "ai_key pm = h_pda H [POOL_MEMBER, SKey (ai_key au)]"
    and d: "w_data w (ai_key bd) = ABoard bd0" "w_data w (ai_key r) = ARound r0" "w_data w (ai_key p) = APoolRound p0"
    using assms(1) unfolding deploy_core_def Let_def
    by (elim and_thenE list10E) (auto simp: result_simps dest!: check_seeds)
  have h: "ai_key bd = h_pda H [BOARD]" "ai_key r = h_pda H [ROUND, SNum (rnd_id r0)]" "ai_key p = h_pda H [POOL_ROUND, SNum (pr_id p0)]"
    using d [THEN addressed_at, OF assms(2)] by simp_all
  show ?thesis
    using assms unfolding deploy_core_def Let_def a
    apply (simp only: list.case)
    apply (elim and_thenE)
    apply (auto simp: d load_eq_Inr ensure_eq_Inr elim!: and_thenE split: option.splits if_splits)
    apply ((rule deploy_done, assumption, assumption) | erule stay more
        | (erule addressed_start_round(1), rule h, rule h) | (erule addressed_open_miner(1))
        | (erule deploy_seeds(3), rule h, rule h) | (erule (1) deploy_seeds(2)) | (erule deploy_seeds(1))
        | rule c h home_intro(9) addressed_put addressed_insert | assumption | (simp; fail))+
    done
qed

lemma addressed_deploy:
  "process_deploy H accounts n am ip w = Inr w' \<Longrightarrow> addressed H {} w \<Longrightarrow> addressed H {} w'"
  "process_deploy_with_miner_extended H accounts n am ip w = Inr w' \<Longrightarrow> addressed H {} w \<Longrightarrow> addressed H {} w'"
  by (auto simp: process_deploy_def process_deploy_with_miner_extended_def result_simps intro: addressed_deploy_core)

section \<open>Checkpoints\<close>

lemma addressed_settle_gold:
  "settle_gold H gold s sys n m w = Inr w' \<Longrightarrow> addressed H S w \<Longrightarrow> addressed H S w'"
  unfolding settle_gold_def
  apply (auto simp: result_simps split: option.splits)
  apply (erule addressed_sync, assumption, erule more, assumption)+
  done

lemma addressed_pay_checkpoint:
  "pay_checkpoint H s a r n fee m w = Inr w' \<Longrightarrow> addressed H S w \<Longrightarrow> addressed H S w'"
  unfolding pay_checkpoint_def by (auto simp: result_simps elim!: stay split: if_splits)

lemma block_reward_kept: "block_reward H b pm r g m sq w = Inr (x, r') \<Longrightarrow> rnd_id r' = rnd_id r"
  unfolding block_reward_def by (auto elim!: and_thenE split: if_splits)

lemma winner_rewards_kept: "winner_rewards H b pm r g m w = Inr (x, y, r') \<Longrightarrow> rnd_id r' = rnd_id r"
  unfolding winner_rewards_def Let_def by (auto elim!: and_thenE dest!: block_reward_kept split: if_splits)

lemma checkpoint_kept:
  "take_bot_fee sl r m = Inr (fee, m') \<Longrightarrow> mn_authority m' = mn_authority m"
  "credit_checkpoint r x y m = Inr m' \<Longrightarrow> mn_authority m' = mn_authority m"
  "miner_rewards H b pm r m w = Inr (x, y, r') \<Longrightarrow> rnd_id r' = rnd_id r"
  unfolding take_bot_fee_def credit_checkpoint_def miner_rewards_def Let_def
  by (auto elim!: and_thenE dest: winner_rewards_kept split: option.splits if_splits)

lemma addressed_checkpoint_round:
  assumes "checkpoint_round H s a r b pr pm sys gold bd m t w = Inr w'" "addressed H {} w"
    "w_data w (ai_key a) = AMiner m" "w_data w (ai_key b) = ATreasury t"
  shows "addressed H {} w'"
proof -
  have ha: "home H (ai_key a) (AMiner m')" if "mn_authority m' = mn_authority m" for m'
    by (rule home_again(9) [OF assms(3,2) that])
  have hb: "home H (ai_key b) (ATreasury t')" for t' by (rule home_again(1) [OF assms(4,2)])
  have marked: "addressed H {} (put a (AMiner (m\<lparr>mn_checkpoint_id := i\<rparr>)) w)" for i
    by (rule addressed_put [OF addressed_weaken [OF assms(2)]]) (simp add: ha del: home_simps)
  show ?thesis
    using assms(1)
  proof (cases rule: checkpoint_round_cases)
    case (paid rd ps n g fee m1 rd' m2 w1 m3 u)
    have m: "mn_authority m3 = mn_authority m"
      using checkpoint_kept(1) [OF paid(2)] miner_home_kept(1) [OF paid(4)] checkpoint_kept(2) [OF paid(6)] by simp
    have "home H (ai_key r) (ARound rd')" by (rule home_again(7) [OF paid(1) assms(2) checkpoint_kept(3) [OF paid(3)]])
    then show ?thesis
      by (intro addressed_pay_checkpoint [OF paid(8)] addressed_put hb ha [OF m]
          addressed_settle_gold [OF paid(5)] addressed_weaken [OF assms(2)])
  qed (use assms(2) marked in simp_all)
qed

lemma addressed_checkpoint_core:
  "checkpoint_core H accounts gold w = Inr w' \<Longrightarrow> addressed H {} w \<Longrightarrow> addressed H {} w'"
  unfolding checkpoint_core_def
  by (elim and_thenE list8E) (auto simp: result_simps elim!: addressed_checkpoint_round)

lemma addressed_checkpoint:
  "process_checkpoint H accounts w = Inr w' \<Longrightarrow> addressed H {} w \<Longrightarrow> addressed H {} w'"
  "process_checkpoint_with_miner_extended H accounts w = Inr w' \<Longrightarrow> addressed H {} w \<Longrightarrow> addressed H {} w'"
  by (auto simp: process_checkpoint_def process_checkpoint_with_miner_extended_def result_simps
      intro: addressed_checkpoint_core split: if_splits)

section \<open>The OTC desk\<close>

lemma addressed_otc_bonus:
  "otc_bonus H a b c d e f v g t m w = Inr (m', t', w') \<Longrightarrow> addressed H S w \<Longrightarrow> addressed H S w'"
  "otc_bonus H a b c d e f v g t m w = Inr (m', t', w') \<Longrightarrow> mn_authority m' = mn_authority m"
  unfolding otc_bonus_def
   apply (auto simp: result_simps dest!: miner_home_kept split: if_splits)
  apply (erule addressed_sync, assumption, erule more, erule stay, assumption)+
  done

lemma otc_seeds:
  assumes "otc_validate H [a1, a2, a3, a4, a5, a6, a7, a8, a9, a10, a11, a12, a13, a14, a15, a16] i n g b e l w = Inr r"
  shows "ai_key a4 = h_pda H [MINER, SKey (ai_key a1)]" "ai_key a5 = h_pda H [OTC_USER, SKey (ai_key a1)]"
    "ai_key a6 = h_pda H [OTC_TREASURY]" "ai_key a8 = h_pda H [TREASURY]"
    "ai_key a10 = h_pda H [STAKE_V2, SKey (ai_key a1), SNum i]"
  using assms unfolding otc_validate_def Let_def
  by (auto elim!: and_thenE dest!: check_seeds)

lemma addressed_otc_trade:
  "process_execute_otc_trade H accounts i n g b e l w = Inr w' \<Longrightarrow> addressed H {} w \<Longrightarrow> addressed H {} w'"
  unfolding process_execute_otc_trade_def Let_def
  apply (elim and_thenE, simp only: split_beta, elim and_thenE list16E)
  apply (auto simp: result_simps new_stake_home simp del: home_simps fun_upd_apply dest!: stake_kept)
  apply (erule stay | (erule addressed_create, (simp; fail)) | erule addressed_otc_bonus(1)
      | (erule addressed_open_miner(1) addressed_otc_user(1), erule otc_seeds) | rule addressed_put
      | (rule addressed_weaken, assumption) | (rule home_intro, erule otc_seeds)
      | (erule addressed_open_miner(2), erule otc_seeds, erule addressed_otc_bonus(2))
      | (erule addressed_otc_user(2), erule otc_seeds, erule miner_home_kept)
      | (frule otc_seeds(5), (simp; fail)))+
  done

end

section \<open>Closing a round\<close>

lemma reset_kept:
  "split_winnings r sq = Inr r' \<Longrightarrow> rnd_id r' = rnd_id r"
  "motherlode_hit g r t = Inr (r', t') \<Longrightarrow> rnd_id r' = rnd_id r"
  "lenient_latch H A g sq r w = Inr r' \<Longrightarrow> rnd_id r' = rnd_id r"
  "strict_latch H A g sq r w = Inr r' \<Longrightarrow> rnd_id r' = rnd_id r"
  unfolding split_winnings_def motherlode_hit_def lenient_latch_def strict_latch_def Let_def
  by (auto elim!: and_thenE split: if_splits)

text \<open>The accounts a closing writes besides the next round's.\<close>

definition reset_at :: "'n host \<Rightarrow> reset_accounts \<Rightarrow> round \<Rightarrow> bool" where
  "reset_at H A r \<longleftrightarrow> ai_key (ra_round A) = h_pda H [ROUND, SNum (rnd_id r)] \<and> ai_key (ra_board A) = h_pda H [BOARD] \<and>
     ai_key (ra_treasury A) = h_pda H [TREASURY] \<and> ai_key (ra_sol_motherlode A) = h_pda H [SOL_MOTHERLODE]"

lemma reset_at_home:
  assumes "reset_at H A r"
  shows "rnd_id r' = rnd_id r \<Longrightarrow> home H (ai_key (ra_round A)) (ARound r')" "home H (ai_key (ra_board A)) (ABoard b)"
    "home H (ai_key (ra_treasury A)) (ATreasury t)" "home H (ai_key (ra_sol_motherlode A)) (ASolMotherlode l)"
  using assms by (simp_all add: reset_at_def)

context solana_owner
begin

lemma addressed_pay_fees: "pay_fees H A fees w = Inr w' \<Longrightarrow> addressed H S w \<Longrightarrow> addressed H S w'"
  by (auto simp: pay_fees_def elim!: and_thenE stay split: option.splits)

lemma addressed_mint_reward: "mint_reward H A accs n w = Inr w' \<Longrightarrow> addressed H S w \<Longrightarrow> addressed H S w'"
  unfolding mint_reward_def by (auto simp: result_simps elim!: addressed_call split: list.splits if_splits)

lemma addressed_open_next_round:
  assumes "open_next_round H A bd w = Inr w'" "ai_key (ra_round_next A) = h_pda H [ROUND, SNum (board_round_id bd + 1)]"
    "ai_key (ra_pool_round_next A) = h_pda H [POOL_ROUND, SNum (board_round_id bd + 1)]" "addressed H {} w"
  shows "addressed H {} w'"
  using assms unfolding open_next_round_def Let_def
  apply (auto simp: result_simps simp del: home_simps)
  apply ((erule addressed_create, (simp; fail)) | rule addressed_put | (rule addressed_weaken, assumption) | (simp; fail))+
  done

lemma addressed_reset_refund:
  "reset_refund H A bd r w = Inr w' \<Longrightarrow> reset_at H A r \<Longrightarrow> addressed H {} w \<Longrightarrow> addressed H {} w'"
  unfolding reset_refund_def Let_def
  by (auto simp: result_simps simp del: home_simps intro!: addressed_put reset_at_home elim!: addressed_call addressed_weaken)

lemma addressed_reset_vault_all:
  "reset_vault_all H A bd r sq fee n fees sm t w = Inr w' \<Longrightarrow> reset_at H A r \<Longrightarrow> addressed H {} w \<Longrightarrow> addressed H {} w'"
  unfolding reset_vault_all_def Let_def
  apply (elim and_thenE)
  apply (erule stay addressed_pay_fees | (erule addressed_call, (simp; fail)) | rule addressed_put | (erule reset_at_home, (simp; fail)) | erule reset_at_home
      | (rule addressed_weaken, assumption))+
  done

lemma addressed_reset_winners:
  assumes "reset_winners H A latch accs cfg bd r g sq n fees mt sm t w = Inr w'" "reset_at H A r" "addressed H {} w"
    "\<And>r r'. latch H A g sq r w = Inr r' \<Longrightarrow> rnd_id r' = rnd_id r"
  shows "addressed H {} w'"
  using assms(1-3) unfolding reset_winners_def Let_def
  apply (elim and_thenE)
  apply (simp only: split_beta)
  apply (elim and_thenE)
  apply (auto simp: result_simps simp del: home_simps dest!: reset_kept assms(4) split: if_splits)
  apply (erule stay addressed_pay_fees addressed_mint_reward | (erule addressed_call, (simp; fail)) | rule addressed_put | (erule reset_at_home, (simp; fail))
      | erule reset_at_home | (rule addressed_weaken, assumption))+
  done

lemma addressed_reset_core:
  assumes "reset_core H A latch crank accs w = Inr w'" "addressed H {} w"
    "\<And>g sq r w r'. latch H A g sq r w = Inr r' \<Longrightarrow> rnd_id r' = rnd_id r"
  shows "addressed H {} w'"
proof -
  obtain cfg bd r mt sm t w1 v where c: "reset_checks H A w = Inr (cfg, bd, r, mt, sm, t)" "open_next_round H A bd w = Inr w1"
    and o: "reset_refund H A bd (r\<lparr>rnd_slot_hash := v\<rparr>) w1 = Inr w'
      \<or> (\<exists>sq fee n fees. reset_vault_all H A bd (r\<lparr>rnd_slot_hash := v\<rparr>) sq fee n fees sm t w1 = Inr w')
      \<or> (\<exists>accs g sq n fees. reset_winners H A latch accs cfg bd (r\<lparr>rnd_slot_hash := v\<rparr>) g sq n fees mt sm t w1 = Inr w')"
    by (rule reset_core_cases [OF assms(1)])
  note d = reset_checks_data [OF c(1)]
  have k: "ai_key (ra_round_next A) = h_pda H [ROUND, SNum (board_round_id bd + 1)]"
      "ai_key (ra_pool_round_next A) = h_pda H [POOL_ROUND, SNum (board_round_id bd + 1)]"
    using c(1) unfolding reset_checks_def by (auto simp: result_simps dest!: check_seeds)
  have r: "reset_at H A (r\<lparr>rnd_slot_hash := v\<rparr>)"
    using d [THEN addressed_at, OF assms(2)] by (simp add: reset_at_def)
  have w1: "addressed H {} w1" by (rule addressed_open_next_round [OF c(2) k assms(2)])
  show ?thesis
    using o
    by (elim disjE exE)
      (erule addressed_reset_refund [OF _ r w1] addressed_reset_vault_all [OF _ r w1]
        | erule addressed_reset_winners [OF _ r w1], rule assms(3), assumption)+
qed

lemma addressed_reset:
  "process_reset H accounts w = Inr w' \<Longrightarrow> addressed H {} w \<Longrightarrow> addressed H {} w'"
  "process_reset_permissionless H accounts w = Inr w' \<Longrightarrow> addressed H {} w \<Longrightarrow> addressed H {} w'"
  by (auto simp: process_reset_def process_reset_permissionless_def result_simps Let_def intro: addressed_reset_core reset_kept)

section \<open>Every instruction\<close>

lemmas addressed_handlers = addressed_stake addressed_stake_care addressed_stake_v1 addressed_admin addressed_bury addressed_gold
  addressed_referral addressed_set_referrer addressed_config addressed_close_round addressed_automate addressed_deploy
  addressed_checkpoint addressed_otc_trade addressed_reset

lemma addressed_instruction:
  "process_instruction H data_len accounts ix w = Inr w' \<Longrightarrow> addressed H {} w \<Longrightarrow> addressed H {} w'"
  by (cases ix) (simp_all add: process_instruction_def addressed_handlers)

end

end
