(* ===== verification/AddressProperties.thy ===== *)
theory AddressProperties
  imports AddressMoves SolvencyProperties
begin

text \<open>
  What the handlers may assume about types and addresses: in every history each account of the
  program is at the address of its type and owner. So there is one treasury, one miner per player
  and one stake per player and id, although most handlers check nothing but an account's type.
\<close>

section \<open>Types and addresses\<close>

lemma addressed_foreign: "foreign w w' \<Longrightarrow> addressed H {} w \<Longrightarrow> addressed H {} w'"
  unfolding foreign_def addressed_def by (metis home_foreign)

lemma history_addressed:
  assumes "solana_owner H" "history H data_len allowed w"
  shows "addressed H {} w"
  using assms(2)
proof induction
  case (genesis w)
  then show ?case by (simp add: addressed_def home_foreign)
next
  case (outside w w')
  then show ?case by (blast intro: addressed_foreign)
next
  case (instruction w accounts ix w')
  then show ?case by (blast intro: solana_owner.addressed_instruction [OF assms(1)])
qed

text \<open>C6. In every state that the instructions of the program can reach, interleaved with any steps of
  other programs, an account that is typed as one of the program's is at the one address derived for
  its type and the owner, round or id it records: the singletons (treasury, board, config, vaults) at
  theirs, a miner at its authority's, a stake at that of its authority and id, and so on.\<close>

lemma accounts_are_at_home:
  assumes "solana_owner H" "history H data_len allowed w"
  shows "home H p (w_data w p)"
  by (rule addressed_at [OF refl history_addressed [OF assms]])

lemma demo_history: "history ref_host (\<lambda>_ _. 0) allowed demo_player_world"
  by (rule genesis) (simp add: demo_player_world_def world_of_def program_owned_def)

lemma accounts_are_at_home_witness:
  "\<exists>w' a. process_instruction ref_host (\<lambda>_ _. 0) demo_player_accounts (Automate 1000 5000000 10 3 0 0 0) demo_player_world = Inr w'
     \<and> w_data w' (ref_pda [AUTOMATION_V2, SKey 5]) = AAutomationV2 a
     \<and> ref_pda [AUTOMATION_V2, SKey 5] = h_pda ref_host [AUTOMATION_V2, SKey (au_authority a)]"
proof -
  obtain w' a where r: "process_instruction ref_host (\<lambda>_ _. 0) demo_player_accounts (Automate 1000 5000000 10 3 0 0 0) demo_player_world = Inr w'"
      "w_data w' (ref_pda [AUTOMATION_V2, SKey 5]) = AAutomationV2 a"
    using demo_automate by blast
  have "history ref_host (\<lambda>_ _. 0) (\<lambda>_. True) w'" by (rule instruction [OF demo_history r(1)]) simp
  from accounts_are_at_home [OF ref_owner.solana_owner_axioms this, of "ref_pda [AUTOMATION_V2, SKey 5]"] r
  show ?thesis by auto
qed

text \<open>C7. The clean-up of phantom stakes has nothing left to do: in every reachable state
  \<open>process_close_phantom_stake_v2\<close> refuses every account list, because no stake is away from its
  address.\<close>

lemma phantom_stakes_cannot_arise:
  assumes "solana_owner H" "history H data_len allowed w"
  shows "process_close_phantom_stake_v2 H accounts w \<noteq> Inr w'"
proof
  assume "process_close_phantom_stake_v2 H accounts w = Inr w'"
  then obtain k s where "w_data w k = AStakeV2 s" "k \<noteq> stake_v2_pda H (sv_authority s) (sv_id s)"
    unfolding process_close_phantom_stake_v2_def by (auto simp: result_simps split: list.splits)
  then show False
    using addressed_at [OF _ history_addressed [OF assms]] by (fastforce simp: stake_v2_pda_def)
qed

lemma phantom_stakes_cannot_arise_witness:
  "\<exists>w'. process_instruction ref_host (\<lambda>_ _. 0) demo_player_accounts (Automate 1000 5000000 10 3 0 0 0) demo_player_world = Inr w'
     \<and> (\<forall>accounts x. process_close_phantom_stake_v2 ref_host accounts w' \<noteq> Inr x)"
proof -
  obtain w' where r: "process_instruction ref_host (\<lambda>_ _. 0) demo_player_accounts (Automate 1000 5000000 10 3 0 0 0) demo_player_world = Inr w'"
    using demo_automate by blast
  have h: "history ref_host (\<lambda>_ _. 0) (\<lambda>_. True) w'" by (rule instruction [OF demo_history r]) simp
  show ?thesis using r phantom_stakes_cannot_arise [OF ref_owner.solana_owner_axioms h] by blast
qed

end
