(* ===== verification/StakeView.thy ===== *)
theory StakeView
  imports Ownership Dispatch StakeSystem
begin

text \<open>
  What the staking ledger sees of the store: the stakes of both versions and the two staking fields
  of the treasury (\<open>tr_total_staked\<close>, \<open>tr_stake_rewards_factor\<close>). Every instruction outside
  staking, yield distribution and the repair of the total leaves this view as it is.
\<close>

section \<open>The view\<close>

definition staking_of :: "'n treasury \<Rightarrow> nat \<times> 'n" where
  "staking_of t = (tr_total_staked t, tr_stake_rewards_factor t)"

definition sight :: "'n account_data \<Rightarrow> ('n staker + nat \<times> 'n) option" where
  "sight d = (case d of AStake s \<Rightarrow> Some (Inl (SV1 s)) | AStakeV2 s \<Rightarrow> Some (Inl (SV2 s))
     | ATreasury t \<Rightarrow> Some (Inr (staking_of t)) | _ \<Rightarrow> None)"

definition sees :: "'n world \<Rightarrow> pubkey \<Rightarrow> ('n staker + nat \<times> 'n) option" where
  "sees w p = sight (w_data w p)"

lemma sight_simps [simp]:
  "sight (AStake s) = Some (Inl (SV1 s))" "sight (AStakeV2 sv) = Some (Inl (SV2 sv))" "sight (ATreasury t) = Some (Inr (staking_of t))"
  "sight (AMiner m) = None" "sight (ASolMotherlode l) = None" "sight (AOtcTreasury ot) = None" "sight (AAutomationV2 au) = None"
  "sight (AReferrer rf) = None" "sight AEmpty = None" "sight (ABoard b) = None" "sight (AConfig c) = None" "sight (ARound r) = None"
  "sight (AMinerExtended x) = None" "sight (APoolMember pm) = None" "sight (APoolRound pr) = None" "sight (AGoldVault v) = None"
  "sight (AOtcUser u) = None" "sight (AToken tk) = None" "sight (AMint mt) = None" "sight (AVar va) = None" "sight AOther = None"
  "sight AMintAuthority = None"
  by (simp_all add: sight_def)

lemma sight_foreign: "\<not> program_owned d \<Longrightarrow> sight d = None"
  by (cases d) (simp_all add: program_owned_def)

lemma sight_kind: "kind_of d = Some k \<Longrightarrow> k \<notin> {KStake, KStakeV2, KTreasury} \<Longrightarrow> sight d = None"
  by (cases d) simp_all

section \<open>Rules\<close>

text \<open>\<open>views w v\<close>: the view of \<open>w\<close> is \<open>v\<close>. \<open>fits v p d\<close>: content \<open>d\<close> at \<open>p\<close> leaves it so.\<close>

definition views :: "'n world \<Rightarrow> (pubkey \<Rightarrow> ('n staker + nat \<times> 'n) option) \<Rightarrow> bool" where
  "views w v \<longleftrightarrow> sees w = v"

definition fits :: "(pubkey \<Rightarrow> ('n staker + nat \<times> 'n) option) \<Rightarrow> pubkey \<Rightarrow> 'n account_data \<Rightarrow> bool" where
  "fits v p d \<longleftrightarrow> v p = sight d"

lemma views_put: "views w v \<Longrightarrow> fits v (ai_key a) d \<Longrightarrow> views (put a d w) v"
  by (auto simp: sees_def views_def fits_def)

lemma fits_known: "w_data w p = d0 \<Longrightarrow> views w v \<Longrightarrow> sight d0 = sight d \<Longrightarrow> fits v p d"
  by (auto simp: sees_def views_def fits_def)

lemma sees_put: "sees (put a d w) = (sees w)(ai_key a := sight d)"
  by (auto simp: sees_def)

context solana_owner
begin

lemma sees_at_call:
  assumes "h_call H c w = Inr w'" "p \<notin> touches c"
  shows "sees w' p = sees w p"
proof (cases "program_owned (w_data w p)")
  case True
  then show ?thesis using call_frame [OF assms] by (simp add: sees_def)
next
  case False
  then have "\<not> program_owned (w_data w' p)" using call_owner [OF assms] by blast
  with False show ?thesis by (simp add: sees_def sight_foreign)
qed

lemma views_call: "h_call H c w = Inr w' \<Longrightarrow> touches c = {} \<Longrightarrow> views w v \<Longrightarrow> views w' v"
  using sees_at_call unfolding views_def by (intro ext) auto

lemma views_create:
  assumes "create_program_account H k a b c ss w = Inr w'" "k \<notin> {KStake, KStakeV2, KTreasury}" "views w v"
  shows "views w' v"
  unfolding views_def
proof
  fix p
  have h: "h_call H (CreateProgramAccount k (ai_key a) (ai_key b) (ai_key c) ss) w = Inr w'"
    using assms(1) by (simp add: create_program_account_def)
  show "sees w' p = v p"
  proof (cases "p = ai_key a")
    case True
    then show ?thesis using call_create [OF h] sight_kind [OF _ assms(2)] assms(3) by (auto simp: sees_def views_def)
  qed (use sees_at_call [OF h] assms(3) in \<open>auto simp: views_def\<close>)
qed

lemma sees_close:
  assumes "close_account H a b w = Inr w'"
  shows "sees w' = (sees w)(ai_key a := None)"
proof
  fix p
  have h: "h_call H (CloseAccount (ai_key a) (ai_key b)) w = Inr w'" using assms(1) by (simp add: close_account_def)
  show "sees w' p = ((sees w)(ai_key a := None)) p"
    using sees_at_call [OF h, of p] call_close [OF h] by (auto simp: sees_def)
qed

lemma views_close: "close_account H a b w = Inr w' \<Longrightarrow> views w v \<Longrightarrow> fits v (ai_key a) AEmpty \<Longrightarrow> views w' v"
  by (auto simp: views_def fits_def dest!: sees_close)

lemma views_open_token:
  assumes "open_token_account H a b c d w = Inr w'" "views w v"
  shows "views w' v"
proof (cases "data_is_empty c w")
  case True
  then have h: "h_call H (CreateAssociatedTokenAccount (ai_key a) (ai_key b) (ai_key c) (ai_key d)) w = Inr w'"
    using assms(1) by (simp add: open_token_account_def)
  have "sees w (ai_key c) = None" "sees w' (ai_key c) = None"
    using True sight_foreign [OF call_token [OF h]] by (auto simp: sees_def data_is_empty_def split: account_data.splits)
  then have "sees w' p = sees w p" for p
    using sees_at_call [OF h, of p] by (cases "p = ai_key c") auto
  then show ?thesis using assms(2) by (auto simp: views_def)
qed (use assms in \<open>auto simp: open_token_account_def result_simps\<close>)

lemma views_resize:
  assumes "h_call H (ResizeAccount a n) w = Inr w'" "w_data w' a = AConfig c" "views w v"
  shows "views w' v"
proof -
  have "kind_of (w_data w a) = Some KConfig" using call_resize [OF assms(1)] assms(2) by simp
  then have "sees w a = None" "sees w' a = None" using assms(2) by (simp_all add: sees_def sight_kind)
  then have "sees w' p = sees w p" for p
    using sees_at_call [OF assms(1), of p] by (cases "p = a") auto
  then show ?thesis using assms(3) by (auto simp: views_def)
qed

lemma views_calls:
  "transfer H a b c n w = Inr w' \<Longrightarrow> views w v \<Longrightarrow> views w' v"
  "transfer_signed H a b c n ss w = Inr w' \<Longrightarrow> views w v \<Longrightarrow> views w' v"
  "burn_signed H a b c n ss w = Inr w' \<Longrightarrow> views w v \<Longrightarrow> views w' v"
  "collect H a n b w = Inr w' \<Longrightarrow> views w v \<Longrightarrow> views w' v"
  "send H a n b w = Inr w' \<Longrightarrow> views w v \<Longrightarrow> views w' v"
  by (simp_all add: transfer_def transfer_signed_def burn_signed_def collect_def send_def views_call)

lemmas same = views_calls views_open_token

end

section \<open>Handlers outside staking\<close>

lemma staking_kept:
  "mn_claim_godl N now t m = Inr (m', t', n) \<Longrightarrow> staking_of t' = staking_of t"
  "credit_unrefined e g t m = Inr (m', t') \<Longrightarrow> staking_of t' = staking_of t"
  unfolding mn_claim_godl_def credit_unrefined_def staking_of_def Let_def
  by (auto simp: result_simps split: if_splits)

lemma motherlode_hit_staking: "motherlode_hit g r t = Inr (r', t') \<Longrightarrow> staking_of t' = staking_of t"
  unfolding motherlode_hit_def staking_of_def Let_def by (auto simp: result_simps split: if_splits)

lemma staking_of_simps [simp]:
  "staking_of (t\<lparr>tr_balance := b\<rparr>) = staking_of t" "staking_of (t\<lparr>tr_motherlode := b\<rparr>) = staking_of t"
  "staking_of (t\<lparr>tr_total_unclaimed := b\<rparr>) = staking_of t" "staking_of (t\<lparr>tr_total_refined := b\<rparr>) = staking_of t"
  by (simp_all add: staking_of_def)

context solana_owner
begin

lemma views_extended:
  "load_or_create_miner_extended H a b p payer sys c w = Inr (x, w') \<Longrightarrow> views w v \<Longrightarrow> views w' v"
  unfolding load_or_create_miner_extended_def Let_def
  apply (auto simp: result_simps split: if_splits)
  apply (rule views_put | (erule views_create, (simp; fail)) | erule same | (rule fits_known, assumption) | assumption | (simp; fail))+
  done

lemma fits_extended:
  assumes "load_or_create_miner_extended H a b p payer sys c w = Inr (Some y, w')" "views w v"
  shows "fits v (ai_key a) (AMinerExtended z)"
proof -
  have "\<exists>y. w_data w' (ai_key a) = AMinerExtended y"
    using assms(1) unfolding load_or_create_miner_extended_def Let_def by (auto simp: result_simps split: if_splits)
  then show ?thesis using fits_known [OF _ views_extended [OF assms]] by auto
qed

lemma views_sync:
  "sync_gold H a x b m w = Inr w' \<Longrightarrow> load_or_create_miner_extended H a b' p payer sys c w0 = Inr (x, w1) \<Longrightarrow>
     views w v \<Longrightarrow> views w0 v \<Longrightarrow> views w' v"
  unfolding sync_gold_def
  by (cases x) (auto simp: result_simps sync_gold_rewards_def split: option.splits if_splits intro!: views_put elim!: fits_extended)

lemma views_open_miner: "open_miner H a sys b p e w = Inr (m, w') \<Longrightarrow> views w v \<Longrightarrow> views w' v"
  unfolding open_miner_def Let_def
  apply (auto simp: result_simps split: if_splits)
  apply (rule views_put | (erule views_create, (simp; fail)) | erule same | (rule fits_known, assumption) | assumption | (simp; fail))+
  done

lemma open_miner_data: "open_miner H a sys b p e w = Inr (m, w') \<Longrightarrow> w_data w' (ai_key a) = AMiner m"
  unfolding open_miner_def Let_def by (auto simp: result_simps split: if_splits)

lemma views_pay_bury: "pay_bury H a b c d e f g h w = Inr (n, w') \<Longrightarrow> views w v \<Longrightarrow> views w' v"
  unfolding pay_bury_def Let_def by (auto simp: result_simps elim!: same split: if_splits)

lemma views_swap:
  "bury_swap H a b c d e f g h i w = Inr (x, y, w') \<Longrightarrow> views w v \<Longrightarrow> views w' v"
  "buy_gold_swap H a b c g h i k w = Inr (x, y, w') \<Longrightarrow> views w v \<Longrightarrow> views w' v"
  unfolding bury_swap_def buy_gold_swap_def Let_def
  by (auto simp: result_simps elim!: views_call)

lemma fits_referrer: "load_referrer H a p w = Inr r \<Longrightarrow> views w v \<Longrightarrow> fits v (ai_key a) (AReferrer r')"
  by (auto simp: load_referrer_def result_simps elim: fits_known)

lemma views_pay_referrer:
  "pay_referrer_godl H a b c m n rest w = Inr w' \<Longrightarrow> views w v \<Longrightarrow> views w' v"
  "pay_referrer_sol H a m n rest w = Inr w' \<Longrightarrow> views w v \<Longrightarrow> views w' v"
  unfolding pay_referrer_godl_def pay_referrer_sol_def Let_def
  by (auto simp: result_simps elim!: same fits_referrer intro!: views_put split: option.splits list.splits if_splits)

lemmas also_same = views_extended views_pay_bury views_swap views_pay_referrer views_open_miner

lemma views_admin:
  "process_initialize_sol_motherlode H accounts w = Inr w' \<Longrightarrow> views w v \<Longrightarrow> views w' v"
  "process_set_admin H accounts k w = Inr w' \<Longrightarrow> views w v \<Longrightarrow> views w' v"
  "process_set_fee_collector H accounts k w = Inr w' \<Longrightarrow> views w v \<Longrightarrow> views w' v"
  "process_set_godl_per_round H accounts n w = Inr w' \<Longrightarrow> views w v \<Longrightarrow> views w' v"
  "process_set_motherlode_denominator H accounts n w = Inr w' \<Longrightarrow> views w v \<Longrightarrow> views w' v"
  "process_set_swap_program H accounts w = Inr w' \<Longrightarrow> views w v \<Longrightarrow> views w' v"
  "process_set_var_address H accounts w = Inr w' \<Longrightarrow> views w v \<Longrightarrow> views w' v"
  "process_new_var H accounts n c m w = Inr w' \<Longrightarrow> views w v \<Longrightarrow> views w' v"
  "process_rebase_total_unclaimed H accounts n m w = Inr w' \<Longrightarrow> views w v \<Longrightarrow> views w' v"
  "process_transfer_mint_authority H accounts w = Inr w' \<Longrightarrow> views w v \<Longrightarrow> views w' v"
  "process_withdraw_vault H accounts n w = Inr w' \<Longrightarrow> views w v \<Longrightarrow> views w' v"
  "process_pre_bury H accounts n1 n2 n3 w = Inr w' \<Longrightarrow> views w v \<Longrightarrow> views w' v"
  unfolding process_initialize_sol_motherlode_def process_set_admin_def process_set_fee_collector_def process_set_godl_per_round_def process_set_motherlode_denominator_def process_set_swap_program_def process_set_var_address_def process_new_var_def process_rebase_total_unclaimed_def process_transfer_mint_authority_def process_withdraw_vault_def process_pre_bury_def config_setter_def token_programs_def Let_def
  apply (auto simp: result_simps dest!: staking_kept split: list.splits option.splits if_splits)
  apply (erule same also_same | (erule views_create, (simp; fail)) | (erule views_call, (simp; fail)) | rule views_put
      | (rule fits_known, assumption) | assumption | (simp; fail))+
  done

lemma views_inject:
  "process_inject_unrefined_rewards H accounts amount w = Inr w' \<Longrightarrow> views w v \<Longrightarrow> views w' v"
  "process_inject_godl_motherlode H accounts amount w = Inr w' \<Longrightarrow> views w v \<Longrightarrow> views w' v"
  "process_log H accounts w = Inr w' \<Longrightarrow> views w v \<Longrightarrow> views w' v"
  unfolding process_inject_unrefined_rewards_def process_inject_godl_motherlode_def process_log_def token_programs_def Let_def
  apply (auto simp: result_simps dest!: staking_kept split: list.splits option.splits if_splits)
  apply (erule views_sync, assumption | erule same also_same | (erule views_create, (simp; fail)) | (erule views_call, (simp; fail)) | rule views_put
      | (rule fits_known, assumption) | assumption | (simp; fail))+
  done

lemma views_gold:
  "process_create_miner_extended H accounts w = Inr w' \<Longrightarrow> views w v \<Longrightarrow> views w' v"
  "process_initialize_gold_vault H accounts w = Inr w' \<Longrightarrow> views w v \<Longrightarrow> views w' v"
  "process_pre_buy_gold H accounts n w = Inr w' \<Longrightarrow> views w v \<Longrightarrow> views w' v"
  "process_buy_gold H accounts n data w = Inr w' \<Longrightarrow> views w v \<Longrightarrow> views w' v"
  "process_deposit_gold H accounts amount w = Inr w' \<Longrightarrow> views w v \<Longrightarrow> views w' v"
  "process_claim_gold H accounts w = Inr w' \<Longrightarrow> views w v \<Longrightarrow> views w' v"
  "process_initialize_otc_treasury H accounts w = Inr w' \<Longrightarrow> views w v \<Longrightarrow> views w' v"
  "process_fund_godl_otc H accounts amount w = Inr w' \<Longrightarrow> views w v \<Longrightarrow> views w' v"
  "process_withdraw_sol_otc H accounts w = Inr w' \<Longrightarrow> views w v \<Longrightarrow> views w' v"
  unfolding process_create_miner_extended_def process_initialize_gold_vault_def process_pre_buy_gold_def process_buy_gold_def process_deposit_gold_def process_claim_gold_def process_initialize_otc_treasury_def process_fund_godl_otc_def process_withdraw_sol_otc_def mx_claim_def token_programs_def Let_def
  apply (auto simp: result_simps dest!: staking_kept split: list.splits option.splits if_splits)
  apply (erule same also_same | (erule views_create, (simp; fail)) | (erule views_call, (simp; fail)) | rule views_put
      | erule fits_extended | (rule fits_known, assumption) | assumption | (simp; fail))+
  done

lemma views_referral:
  "process_initialize_referrer H accounts w = Inr w' \<Longrightarrow> views w v \<Longrightarrow> views w' v"
  "process_claim_referral H accounts w = Inr w' \<Longrightarrow> views w v \<Longrightarrow> views w' v"
  "process_claim_godl H accounts w = Inr w' \<Longrightarrow> views w v \<Longrightarrow> views w' v"
  "process_claim_sol H accounts w = Inr w' \<Longrightarrow> views w v \<Longrightarrow> views w' v"
  "process_claim_sol_and_fund_automation H accounts w = Inr w' \<Longrightarrow> views w v \<Longrightarrow> views w' v"
  "process_fund_automation H accounts n w = Inr w' \<Longrightarrow> views w v \<Longrightarrow> views w' v"
  unfolding process_initialize_referrer_def process_claim_referral_def process_claim_godl_def process_claim_sol_def process_claim_sol_and_fund_automation_def process_fund_automation_def mn_claim_sol_def token_programs_def Let_def
  apply (auto simp: result_simps dest!: staking_kept split: list.splits option.splits if_splits)
  apply (erule views_sync, assumption | erule same also_same | (erule views_create, (simp; fail)) | (erule views_call, (simp; fail)) | rule views_put
      | (rule fits_known, assumption) | assumption | (simp; fail))+
  done

end

end
