(* ===== verification/StakeViewMoves.thy ===== *)
theory StakeViewMoves
  imports StakeView
begin

text \<open>
  The staking view, continued: automations, deployments, checkpoints and the closing of rounds do
  not touch it.
\<close>

context solana_owner
begin

lemma views_set_referrer:
  assumes "process_set_referrer H accounts k w = Inr w'" "views w v"
  shows "views w' v"
  using assms(1)
  by (cases rule: set_referrer_cases) (auto intro!: views_put elim: fits_known simp: assms(2) fits_known [OF _ assms(2)])

lemma views_config:
  "process_update_protocol_config H data_len accounts n m w = Inr w' \<Longrightarrow> views w v \<Longrightarrow> views w' v"
  unfolding process_update_protocol_config_def Let_def
  apply (auto simp: result_simps split: list.splits if_splits)
  apply ((erule views_resize, assumption) | erule same | rule views_put | (rule fits_known, assumption) | assumption | (simp; fail))+
  done

lemma views_vault_unclaimed:
  assumes "vault_unclaimed H a len b t w = Inr (t', w')" "fits v (ai_key b) (ATreasury t)" "views w v"
  shows "views w' v \<and> fits v (ai_key b) (ATreasury t')"
  using assms by (auto simp: vault_unclaimed_def Let_def result_simps fits_def intro!: views_put elim!: same split: if_splits)

lemma views_close_round:
  assumes "process_close H accounts w = Inr w'" "views w v"
  shows "views w' v"
proof -
  obtain a b rent p t rd t1 w1 w2 where r: "w_data w (ai_key b) = ATreasury t" "w_data w (ai_key a) = ARound rd"
      "vault_unclaimed H a (8 + size_of_round) b t w = Inr (t1, w1)" "close_account H a rent w1 = Inr w2"
      "w' = w2 \<or> (\<exists>pr t2 w3. w_data w2 (ai_key p) = APoolRound pr
        \<and> vault_unclaimed H p (8 + size_of_pool_round) b t1 w2 = Inr (t2, w3) \<and> close_account H p rent w3 = Inr w')"
    by (rule process_close_cases [OF assms(1)])
  have t: "fits v (ai_key b) (ATreasury t)" by (rule fits_known [OF r(1) assms(2)]) simp
  note 1 = views_vault_unclaimed [OF r(3) t assms(2)]
  have a: "fits v (ai_key a) AEmpty" by (rule fits_known [OF r(2) assms(2)]) simp
  have 2: "views w2 v" using views_close [OF r(4) _ a] 1 by blast
  from r(5) show ?thesis
  proof (elim disjE exE conjE)
    fix pr t2 w3
    assume q: "w_data w2 (ai_key p) = APoolRound pr" "vault_unclaimed H p (8 + size_of_pool_round) b t1 w2 = Inr (t2, w3)"
      "close_account H p rent w3 = Inr w'"
    have "fits v (ai_key p) AEmpty" by (rule fits_known [OF q(1) 2]) simp
    then show ?thesis using views_close [OF q(3)] views_vault_unclaimed [OF q(2) _ 2] 1 by blast
  qed (use 2 in simp)
qed

lemma views_automate:
  "process_automate H accounts amount deposit fee sm st cf ip w = Inr w' \<Longrightarrow> views w v \<Longrightarrow> views w' v"
  unfolding process_automate_def Let_def
  apply (elim and_thenE list6E)
  apply (auto simp: result_simps split: if_splits)
  apply (erule same also_same | (erule views_create, (simp; fail)) | (erule views_close) | rule views_put | (rule fits_known, erule open_miner_data)
      | (rule fits_known, assumption) | assumption | (simp; fail))+
  done

section \<open>Deployments\<close>

lemma views_pool_square:
  assumes "pool_square H a b c d e n sq r pr w = Inr (pr', w')" "views w v" "fits v (ai_key b) (APoolRound pr)"
  shows "views w' v"
proof -
  have b: "fits v (ai_key b) (APoolRound x)" for x using assms(3) by (simp add: fits_def)
  show ?thesis
    using assms(1,2) unfolding pool_square_def Let_def
    apply (auto simp: result_simps split: if_splits)
    apply (rule views_put b | (erule views_create, (simp; fail)) | (rule fits_known, assumption) | assumption | (simp; fail))+
    done
qed

lemma views_deploy_loop:
  assumes "deploy_loop (pool_square H a b c d e n) ip au n sq l ds = Inr ds'" "fits v (ai_key b) AEmpty" "views (ds_world ds) v"
  shows "views (ds_world ds') v"
proof -
  have b: "fits v (ai_key b) (APoolRound x)" for x using assms(2) by (simp add: fits_def)
  show ?thesis
    by (rule deploy_loop_invariant [OF assms(1), where I = "\<lambda>ds. views (ds_world ds) v"])
      (use assms(3) views_pool_square [OF _ _ b] in \<open>auto split: if_splits\<close>)
qed

lemma views_start_round:
  assumes "start_round H a b c e bd r w = Inr (bd', r', w')" "views w v" "fits v (ai_key a) (ABoard bd)" "fits v (ai_key b) (ARound r)"
  shows "views w' v"
proof -
  have f: "fits v (ai_key a) (ABoard x)" "fits v (ai_key b) (ARound y)" for x y using assms(3,4) by (simp_all add: fits_def)
  show ?thesis using assms(1,2) f unfolding start_round_def Let_def
    by (auto simp: result_simps intro!: views_put elim!: views_call split: list.splits if_splits)
qed

lemma views_pay_deployment:
  assumes "pay_deployment H s au b r x n w = Inr w'" "views w v" "x \<noteq> None \<Longrightarrow> fits v (ai_key b) AEmpty"
  shows "views w' v"
proof (cases x)
  case None
  then show ?thesis using assms by (auto simp: pay_deployment_def elim: same)
next
  case (Some a)
  have f: "fits v (ai_key b) (AAutomationV2 y)" "fits v (ai_key b) AEmpty" for y using assms(3) Some by (simp_all add: fits_def)
  show ?thesis using assms(1,2) f Some unfolding pay_deployment_def Let_def
    by (auto simp: result_simps intro!: views_put elim!: same views_close split: if_splits)
qed

lemma views_settle_deployment:
  assumes "settle_deployment H s au b a r pm x ip ds = Inr w'" "views (ds_world ds) v" "fits v (ai_key a) AEmpty" "fits v (ai_key r) AEmpty"
    "x \<noteq> None \<Longrightarrow> fits v (ai_key b) AEmpty"
  shows "views w' v"
proof -
  have f: "fits v (ai_key a) (AMiner x)" "fits v (ai_key r) (ARound y)" for x y using assms(3,4) by (simp_all add: fits_def)
  show ?thesis using assms(1,2) f unfolding settle_deployment_def Let_def
    by (auto simp: result_simps intro!: views_put elim!: views_pay_deployment [OF _ _ assms(5)] same split: if_splits)
qed

lemma load_automation_fits:
  "load_automation H b s au ip w = Inr (Some a, ip') \<Longrightarrow> views w v \<Longrightarrow> fits v (ai_key b) AEmpty"
  by (auto simp: load_automation_def result_simps elim: fits_known split: if_splits)

lemma views_deploy_rest:
  assumes "deploy_loop (pool_square H c d e f g n) ip x n 0 l
      \<lparr>ds_miner = m, ds_round = rd, ds_pool_round = p, ds_total_amount = 0, ds_total_squares = 0,
       ds_world = put a (AMiner m) w\<rparr> = Inr ds"
    "settle_deployment H s au b a r pm x ip ds = Inr w'" "views w v" "fits v (ai_key d) AEmpty"
    "fits v (ai_key a) AEmpty" "fits v (ai_key r) AEmpty" "x \<noteq> None \<Longrightarrow> fits v (ai_key b) AEmpty"
  shows "views w' v"
proof -
  have f: "fits v (ai_key d) (APoolRound p)" "fits v (ai_key a) (AMiner m)" using assms(4,5) by (simp_all add: fits_def)
  have "views (ds_world ds) v" by (rule views_deploy_loop [OF assms(1,4)]) (simp add: views_put assms(3) f)
  then show ?thesis by (rule views_settle_deployment [OF assms(2) _ assms(5-7)])
qed

lemmas view_done = views_deploy_rest [where x = None, simplified]
  views_deploy_rest [where x = "Some y" for y, simplified]

lemma views_deploy_core:
  assumes "deploy_core H accs gold ent n am ip w = Inr w'" "views w v"
  shows "views w' v"
proof -
  obtain s au b bd m r p pm cfg sys bd0 r0 p0 where
    a: "accs = [s, au, b, bd, m, r, p, pm, cfg, sys]"
    and d: "w_data w (ai_key bd) = ABoard bd0" "w_data w (ai_key r) = ARound r0" "w_data w (ai_key p) = APoolRound p0"
    using assms(1) unfolding deploy_core_def Let_def
    by (elim and_thenE list10E) (auto simp: result_simps)
  have h: "fits v (ai_key bd) (ABoard bd0)" "fits v (ai_key r) (ARound r0)" "fits v (ai_key r) AEmpty" "fits v (ai_key p) AEmpty"
    by (rule fits_known [OF d(1) assms(2)] fits_known [OF d(2) assms(2)] fits_known [OF d(3) assms(2)], simp)+
  show ?thesis
    using assms unfolding deploy_core_def Let_def a
    apply (simp only: list.case)
    apply (elim and_thenE)
    apply (auto simp: d load_eq_Inr ensure_eq_Inr elim!: and_thenE split: option.splits if_splits)
    apply ((rule view_done, assumption, assumption) | erule same also_same
        | (erule views_start_round) | erule load_automation_fits views_close
        | rule h views_put | (rule fits_known, erule open_miner_data) | assumption | (simp; fail))+
    done
qed

lemma views_deploy:
  "process_deploy H accounts n am ip w = Inr w' \<Longrightarrow> views w v \<Longrightarrow> views w' v"
  "process_deploy_with_miner_extended H accounts n am ip w = Inr w' \<Longrightarrow> views w v \<Longrightarrow> views w' v"
  by (auto simp: process_deploy_def process_deploy_with_miner_extended_def result_simps intro: views_deploy_core)

section \<open>Checkpoints\<close>

lemma views_settle_gold: "settle_gold H gold s sys n m w = Inr w' \<Longrightarrow> views w v \<Longrightarrow> views w' v"
  unfolding settle_gold_def
  apply (auto simp: result_simps split: option.splits)
  apply (erule views_sync, assumption, erule also_same, assumption+)+
  done

lemma views_pay_checkpoint: "pay_checkpoint H s a r n fee m w = Inr w' \<Longrightarrow> views w v \<Longrightarrow> views w' v"
  unfolding pay_checkpoint_def by (auto simp: result_simps elim!: same split: if_splits)

lemma views_checkpoint_round:
  assumes "checkpoint_round H s a r b pr pm sys gold bd m t w = Inr w'" "views w v"
    "w_data w (ai_key a) = AMiner m" "w_data w (ai_key b) = ATreasury t"
  shows "views w' v"
proof -
  have ha: "fits v (ai_key a) (AMiner m')" for m' by (rule fits_known [OF assms(3,2)]) simp
  have hb: "fits v (ai_key b) (ATreasury (t\<lparr>tr_total_unclaimed := u\<rparr>))" for u by (rule fits_known [OF assms(4,2)]) simp
  show ?thesis
    using assms(1)
  proof (cases rule: checkpoint_round_cases)
    case (paid rd ps n g fee m1 rd' m2 w1 m3 u)
    have "fits v (ai_key r) (ARound rd')" by (rule fits_known [OF paid(1) assms(2)]) simp
    then show ?thesis
      by (intro views_pay_checkpoint [OF paid(8)] views_put hb ha views_settle_gold [OF paid(5) assms(2)])
  qed (use assms(2) ha in \<open>auto intro: views_put\<close>)
qed

lemma views_checkpoint_core: "checkpoint_core H accounts gold w = Inr w' \<Longrightarrow> views w v \<Longrightarrow> views w' v"
  unfolding checkpoint_core_def
  by (elim and_thenE list8E) (auto simp: result_simps elim!: views_checkpoint_round)

lemma views_checkpoint:
  "process_checkpoint H accounts w = Inr w' \<Longrightarrow> views w v \<Longrightarrow> views w' v"
  "process_checkpoint_with_miner_extended H accounts w = Inr w' \<Longrightarrow> views w v \<Longrightarrow> views w' v"
  by (auto simp: process_checkpoint_def process_checkpoint_with_miner_extended_def result_simps
      intro: views_checkpoint_core split: if_splits)

section \<open>Closing a round\<close>

lemma views_pay_fees: "pay_fees H A fees w = Inr w' \<Longrightarrow> views w v \<Longrightarrow> views w' v"
  by (auto simp: pay_fees_def elim!: and_thenE same split: option.splits)

lemma views_mint_reward: "mint_reward H A accs n w = Inr w' \<Longrightarrow> views w v \<Longrightarrow> views w' v"
  unfolding mint_reward_def by (auto simp: result_simps elim!: views_call split: list.splits if_splits)

lemma views_open_next_round: "open_next_round H A bd w = Inr w' \<Longrightarrow> views w v \<Longrightarrow> views w' v"
  unfolding open_next_round_def Let_def
  apply (auto simp: result_simps)
  apply ((erule views_create, (simp; fail)) | rule views_put | (rule fits_known, assumption) | assumption | (simp; fail))+
  done

lemma views_reset_refund:
  assumes "reset_refund H A bd r w = Inr w'" "views w v" "\<And>x. fits v (ai_key (ra_round A)) (ARound x)" "\<And>x. fits v (ai_key (ra_board A)) (ABoard x)"
  shows "views w' v"
  using assms unfolding reset_refund_def Let_def by (auto simp: result_simps intro!: views_put elim!: views_call)

lemma views_reset_vault_all:
  assumes "reset_vault_all H A bd r sq fee n fees sm t w = Inr w'" "views w v"
    "\<And>x. fits v (ai_key (ra_round A)) (ARound x)" "\<And>x. fits v (ai_key (ra_board A)) (ABoard x)"
    "\<And>x. fits v (ai_key (ra_sol_motherlode A)) (ASolMotherlode x)" "fits v (ai_key (ra_treasury A)) (ATreasury t)"
  shows "views w' v"
proof -
  have t: "fits v (ai_key (ra_treasury A)) (ATreasury (t\<lparr>tr_balance := x\<rparr>))" for x using assms(6) by (simp add: fits_def)
  show ?thesis
    using assms(1,2) unfolding reset_vault_all_def Let_def
    apply (elim and_thenE)
    apply (erule same views_pay_fees | (erule views_call, (simp; fail)) | rule views_put assms t | assumption)+
    done
qed

lemma views_reset_winners:
  assumes "reset_winners H A latch accs cfg bd r g sq n fees mt sm t w = Inr w'" "views w v"
    "\<And>x. fits v (ai_key (ra_round A)) (ARound x)" "\<And>x. fits v (ai_key (ra_board A)) (ABoard x)"
    "\<And>x. fits v (ai_key (ra_sol_motherlode A)) (ASolMotherlode x)" "fits v (ai_key (ra_treasury A)) (ATreasury t)"
  shows "views w' v"
proof -
  have t: "fits v (ai_key (ra_treasury A)) (ATreasury x)" if "staking_of x = staking_of t" for x
    using assms(6) that by (simp add: fits_def)
  show ?thesis
    using assms(1,2) unfolding reset_winners_def Let_def
    apply (elim and_thenE)
    apply (simp only: split_beta)
    apply (elim and_thenE)
    apply (auto simp: result_simps dest!: motherlode_hit_staking split: if_splits)
    apply (erule same views_pay_fees views_mint_reward | (erule views_call, (simp; fail)) | rule views_put assms t | assumption | (simp; fail))+
    done
qed

lemma views_reset_core:
  assumes "reset_core H A latch crank accs w = Inr w'" "views w v"
  shows "views w' v"
proof -
  obtain cfg bd r mt sm t w1 q where c: "reset_checks H A w = Inr (cfg, bd, r, mt, sm, t)" "open_next_round H A bd w = Inr w1"
    and o: "reset_refund H A bd (r\<lparr>rnd_slot_hash := q\<rparr>) w1 = Inr w'
      \<or> (\<exists>sq fee n fees. reset_vault_all H A bd (r\<lparr>rnd_slot_hash := q\<rparr>) sq fee n fees sm t w1 = Inr w')
      \<or> (\<exists>accs g sq n fees. reset_winners H A latch accs cfg bd (r\<lparr>rnd_slot_hash := q\<rparr>) g sq n fees mt sm t w1 = Inr w')"
    by (rule reset_core_cases [OF assms(1)])
  note d = reset_checks_data [OF c(1)]
  have f: "fits v (ai_key (ra_round A)) (ARound x1)" "fits v (ai_key (ra_treasury A)) (ATreasury t)"
      "fits v (ai_key (ra_sol_motherlode A)) (ASolMotherlode x2)" "fits v (ai_key (ra_board A)) (ABoard x3)" for x1 x2 x3
    using d [THEN fits_known, OF assms(2)] by simp_all
  have w1: "views w1 v" by (rule views_open_next_round [OF c(2) assms(2)])
  show ?thesis
    using o
    by (elim disjE exE) (erule views_reset_refund [OF _ w1] views_reset_vault_all [OF _ w1] views_reset_winners [OF _ w1]; rule f)+
qed

lemma views_reset:
  "process_reset H accounts w = Inr w' \<Longrightarrow> views w v \<Longrightarrow> views w' v"
  "process_reset_permissionless H accounts w = Inr w' \<Longrightarrow> views w v \<Longrightarrow> views w' v"
  by (auto simp: process_reset_def process_reset_permissionless_def result_simps Let_def intro: views_reset_core)

lemmas views_handlers = views_admin views_inject views_gold views_referral views_set_referrer views_config views_close_round views_automate
  views_deploy views_checkpoint views_reset

end

end
