(* ===== verification/StakeRefinement.thy ===== *)
theory StakeRefinement
  imports StakeViewMoves AddressMoves StakeContract
begin

text \<open>
  The store refines the stake machine of \<open>StakeSystem\<close>. A store shows a state of the machine when
  its stake accounts are the machine's stakers and its treasury has the machine's total and reward
  factor; \<open>moves\<close> says that a change of the view is a sequence of machine steps. This theory holds
  the relation and one rule per machine step.
\<close>

section \<open>The relation\<close>

type_synonym 'n stake_view = "pubkey \<Rightarrow> ('n staker + nat \<times> 'n) option"

definition booked :: "'n numeric_ops \<Rightarrow> pubkey \<Rightarrow> 'n stake_view \<Rightarrow> nat \<times> 'n" where
  "booked N T v = (case v T of Some (Inr y) \<Rightarrow> y | _ \<Rightarrow> (0, n_zero N))"

definition shown :: "'n numeric_ops \<Rightarrow> pubkey \<Rightarrow> 'n stake_view \<Rightarrow> pubkey list \<Rightarrow> 'n stake_system \<Rightarrow> bool" where
  "shown N T v ps S \<longleftrightarrow> distinct ps \<and> length ps = length (ss_stakers S)
     \<and> (\<forall>p x. v p = Some (Inl x) \<longleftrightarrow> (p, x) \<in> set (zip ps (ss_stakers S)))
     \<and> staking_of (ss_treasury S) = booked N T v"

definition moves :: "'n numeric_ops \<Rightarrow> pubkey \<Rightarrow> 'n stake_view \<Rightarrow> 'n stake_view \<Rightarrow> bool" where
  "moves N T v v' \<longleftrightarrow> (\<forall>ps S. shown N T v ps S \<longrightarrow>
     (\<exists>ps' S'. (stake_step N)\<^sup>*\<^sup>* S S' \<and> shown N T v' ps' S'))"

lemma moves_refl [simp, intro]: "moves N T v v"
  unfolding moves_def by blast

lemma moves_trans: "moves N T v v' \<Longrightarrow> moves N T v' v'' \<Longrightarrow> moves N T v v''"
  unfolding moves_def by (meson rtranclp_trans)

lemma same_view: "(\<And>v. views w v \<Longrightarrow> views w' v) \<Longrightarrow> moves N T (sees w) (sees w')"
  by (simp add: views_def)

lemma by_view: "views w' v \<Longrightarrow> moves N T (sees w) v \<Longrightarrow> moves N T (sees w) (sees w')"
  by (simp add: views_def)

lemma views_self: "views w (sees w)"
  by (simp add: views_def)

lemma views_put_upd: "views w v \<Longrightarrow> views (put a d w) (v(ai_key a := sight d))"
  by (simp add: views_def sees_put)

section \<open>Replacing, adding and dropping a staker\<close>

lemma shown_touch:
  assumes "shown N T v ps S" "i < length ps" "v' (ps ! i) = Some (Inl x)"
    "\<And>p y. p \<noteq> ps ! i \<Longrightarrow> v' p = Some (Inl y) \<longleftrightarrow> v p = Some (Inl y)" "staking_of t = booked N T v'"
  shows "shown N T v' ps (touch i x t n S)"
proof -
  let ?xs = "ss_stakers S"
  have l: "length ps = length ?xs" "distinct ps" using assms(1) by (simp_all add: shown_def)
  have p: "ps = take i ps @ ps ! i # drop (Suc i) ps" by (rule id_take_nth_drop [OF assms(2)])
  have x: "?xs = take i ?xs @ ?xs ! i # drop (Suc i) ?xs" "?xs[i := x] = take i ?xs @ x # drop (Suc i) ?xs"
    using assms(2) l by (simp_all add: id_take_nth_drop upd_conv_take_nth_drop)
  have z: "set (zip ps ?xs) = insert (ps ! i, ?xs ! i) (set (zip (take i ps) (take i ?xs)) \<union> set (zip (drop (Suc i) ps) (drop (Suc i) ?xs)))"
    "set (zip ps (?xs[i := x])) = insert (ps ! i, x) (set (zip (take i ps) (take i ?xs)) \<union> set (zip (drop (Suc i) ps) (drop (Suc i) ?xs)))"
    by (subst p, subst x, subst zip_append, simp_all add: l)+
  have o: "(ps ! i, y) \<notin> set (zip (take i ps) (take i ?xs))" "(ps ! i, y) \<notin> set (zip (drop (Suc i) ps) (drop (Suc i) ?xs))" for y
    using l(2) p by (metis distinct_append distinct.simps(2) Int_iff list.set_intros(1) set_zip_leftD empty_iff)+
  have "v' q = Some (Inl y) \<longleftrightarrow> (q, y) \<in> set (zip ps (?xs[i := x]))" for q y
  proof (cases "q = ps ! i")
    case True
    then show ?thesis using assms(3) o by (auto simp: z(2))
  next
    case False
    then show ?thesis using assms(1,4) by (auto simp: shown_def z)
  qed
  then show ?thesis using assms(5) l by (simp add: shown_def)
qed

lemma shown_add:
  assumes "shown N T v ps S" "\<And>x. v k \<noteq> Some (Inl x)" "v' k = Some (Inl x)"
    "\<And>p y. p \<noteq> k \<Longrightarrow> v' p = Some (Inl y) \<longleftrightarrow> v p = Some (Inl y)" "booked N T v' = booked N T v"
  shows "shown N T v' (ps @ [k]) (S\<lparr>ss_stakers := ss_stakers S @ [x]\<rparr>)"
proof -
  have l: "length ps = length (ss_stakers S)" "distinct ps" using assms(1) by (simp_all add: shown_def)
  have k: "k \<notin> set ps"
  proof
    assume "k \<in> set ps"
    then obtain y where "(k, y) \<in> set (zip ps (ss_stakers S))" using l(1) by (metis in_set_impl_in_set_zip1)
    then show False using assms(1,2) by (auto simp: shown_def)
  qed
  have "v' q = Some (Inl y) \<longleftrightarrow> (q, y) \<in> set (zip (ps @ [k]) (ss_stakers S @ [x]))" for q y
  proof (cases "q = k")
    case True
    then show ?thesis using assms(3) k l by (auto dest: set_zip_leftD)
  next
    case False
    then show ?thesis using assms(1,4) l by (auto simp: shown_def)
  qed
  then show ?thesis using assms(1,5) l k by (simp add: shown_def)
qed

lemma shown_drop:
  assumes "shown N T v ps S" "i < length ps" "\<And>x. v' (ps ! i) \<noteq> Some (Inl x)"
    "\<And>p y. p \<noteq> ps ! i \<Longrightarrow> v' p = Some (Inl y) \<longleftrightarrow> v p = Some (Inl y)" "booked N T v' = booked N T v"
  shows "shown N T v' (take i ps @ drop (Suc i) ps) (drop_staker i S)"
proof -
  let ?xs = "ss_stakers S"
  have l: "length ps = length ?xs" "distinct ps" using assms(1) by (simp_all add: shown_def)
  have p: "ps = take i ps @ ps ! i # drop (Suc i) ps" by (rule id_take_nth_drop [OF assms(2)])
  have x: "?xs = take i ?xs @ ?xs ! i # drop (Suc i) ?xs"
    using assms(2) l by (simp add: id_take_nth_drop)
  let ?z = "set (zip (take i ps) (take i ?xs)) \<union> set (zip (drop (Suc i) ps) (drop (Suc i) ?xs))"
  have z: "set (zip ps ?xs) = insert (ps ! i, ?xs ! i) ?z"
    by (subst p, subst x, subst zip_append, simp_all add: l)
  have z': "set (zip (take i ps @ drop (Suc i) ps) (take i ?xs @ drop (Suc i) ?xs)) = ?z"
    by (subst zip_append) (simp_all add: l)
  have o: "(ps ! i, y) \<notin> ?z" for y
    using l(2) p by (metis Un_iff distinct_append distinct.simps(2) Int_iff list.set_intros(1) set_zip_leftD empty_iff)
  have "v' q = Some (Inl y) \<longleftrightarrow> (q, y) \<in> ?z" for q y
  proof (cases "q = ps ! i")
    case True
    then show ?thesis using assms(3) o by auto
  next
    case False
    then show ?thesis using assms(1,4) by (auto simp: shown_def z)
  qed
  moreover have "distinct (take i ps @ drop (Suc i) ps)"
    using l(2) p by (metis distinct_append distinct.simps(2) Int_insert_right disjoint_insert(1) list.set(2))
  ultimately show ?thesis
    using assms(1,5) l unfolding shown_def drop_staker_def by (simp add: z' [simplified])
qed

lemma shown_treasury:
  assumes "shown N T v ps S" "\<And>p y. v' p = Some (Inl y) \<longleftrightarrow> v p = Some (Inl y)" "staking_of (ss_treasury S') = booked N T v'"
    "ss_stakers S' = ss_stakers S"
  shows "shown N T v' ps S'"
  using assms by (simp add: shown_def)

lemma shown_index:
  assumes "shown N T v ps S" "v k = Some (Inl x)"
  obtains i where "i < length ps" "i < length (ss_stakers S)" "ps ! i = k" "ss_stakers S ! i = x"
proof -
  have "(k, x) \<in> set (zip ps (ss_stakers S))" using assms by (simp add: shown_def)
  then show ?thesis using that by (auto simp: set_zip)
qed

text \<open>The machine's treasury can be taken to be the one in the store.\<close>

lemma shown_actual:
  assumes "shown N T v ps S" "v T = Some (Inr (staking_of t))"
  shows "stake_step N S (S\<lparr>ss_treasury := t\<rparr>)" "shown N T v ps (S\<lparr>ss_treasury := t\<rparr>)"
proof -
  have s: "staking_of (ss_treasury S) = staking_of t" using assms by (simp add: shown_def booked_def)
  then show "stake_step N S (S\<lparr>ss_treasury := t\<rparr>)" by (intro stake_step.elsewhere) (simp_all add: staking_of_def)
  show "shown N T v ps (S\<lparr>ss_treasury := t\<rparr>)"
    by (rule shown_treasury [OF assms(1)]) (simp_all add: booked_def assms(2))
qed

section \<open>Edits of one stake\<close>

text \<open>\<open>edits x t x' t'\<close>: machine steps on one staker turn \<open>x\<close> and treasury \<open>t\<close> into \<open>x'\<close> and \<open>t'\<close>.\<close>

definition edits :: "'n numeric_ops \<Rightarrow> 'n staker \<Rightarrow> 'n treasury \<Rightarrow> 'n staker \<Rightarrow> 'n treasury \<Rightarrow> bool" where
  "edits N x t x' t' \<longleftrightarrow> (\<forall>S i. i < length (ss_stakers S) \<longrightarrow> ss_stakers S ! i = x \<longrightarrow> ss_treasury S = t \<longrightarrow>
     (\<exists>p. (stake_step N)\<^sup>*\<^sup>* S (touch i x' t' p S)))"

lemma edits_trans:
  assumes "edits N x t x1 t1" "edits N x1 t1 x2 t2"
  shows "edits N x t x2 t2"
  unfolding edits_def
proof (intro allI impI)
  fix S :: "'a stake_system" and i assume S: "i < length (ss_stakers S)" "ss_stakers S ! i = x" "ss_treasury S = t"
  then obtain p where p: "(stake_step N)\<^sup>*\<^sup>* S (touch i x1 t1 p S)" using assms(1) unfolding edits_def by blast
  have "\<exists>q. (stake_step N)\<^sup>*\<^sup>* (touch i x1 t1 p S) (touch i x2 t2 q (touch i x1 t1 p S))"
    using assms(2) S(1) unfolding edits_def by (elim allE [where x = "touch i x1 t1 p S"] allE [where x = i]) auto
  then obtain q where q: "(stake_step N)\<^sup>*\<^sup>* (touch i x1 t1 p S) (touch i x2 t2 q (touch i x1 t1 p S))" ..
  have "touch i x2 t2 q (touch i x1 t1 p S) = touch i x2 t2 (p + q) S" by (simp add: touch_def add.assoc)
  with p q show "\<exists>p. (stake_step N)\<^sup>*\<^sup>* S (touch i x2 t2 p S)" by (metis rtranclp_trans)
qed

lemma edit_intros:
  "sv_deposit N a now t f s = Inr (s', t', g) \<Longrightarrow> edits N (SV2 s) t (SV2 s') t'"
  "sv_withdraw N a now t s = Inr (s', t', g) \<Longrightarrow> edits N (SV2 s) t (SV2 s') t'"
  "sv_claim N a now t s = Inr (s', g) \<Longrightarrow> edits N (SV2 s) t (SV2 s') t"
  "sv_stake_nft N t s = Inr (s', t') \<Longrightarrow> edits N (SV2 s) t (SV2 s') t'"
  "sv_unstake_nft N t s = Inr (s', t') \<Longrightarrow> edits N (SV2 s) t (SV2 s') t'"
  "sv_migrate_weight N t s = Inr (s', t') \<Longrightarrow> edits N (SV2 s) t (SV2 s') t'"
  "sv_update_rewards N t s = Inr s' \<Longrightarrow> edits N (SV2 s) t (SV2 s') t"
  "st_withdraw N a now t u = Inr (u', t', g) \<Longrightarrow> edits N (SV1 u) t (SV1 u') t'"
  "st_claim N a now t u = Inr (u', g) \<Longrightarrow> edits N (SV1 u) t (SV1 u') t"
  unfolding edits_def by (blast intro: stake_step.intros)+

lemma edit_note: "edits N (SV2 s) t (SV2 (s\<lparr>sv_executor := ex, sv_created_at := c\<rparr>)) t"
  unfolding edits_def by (blast intro: stake_step.note_v2)

lemma edit_date: "edits N (SV2 s) t (SV2 (s\<lparr>sv_created_at := c\<rparr>)) t"
  using edit_note [where s = s and ex = "sv_executor s" and c = c] by simp

lemma edit_executor: "edits N (SV2 s) t (SV2 (s\<lparr>sv_executor := ex\<rparr>)) t"
  using edit_note [where s = s and ex = ex and c = "sv_created_at s"] by simp

section \<open>Moves of the view\<close>

lemma moves_edit:
  assumes "v k = Some (Inl x)" "v T = Some (Inr (staking_of t))" "edits N x t x' t'"
  shows "moves N T v (v(k := Some (Inl x'), T := Some (Inr (staking_of t'))))"
  unfolding moves_def
proof (intro allI impI)
  fix ps S assume S: "shown N T v ps S"
  have kT: "k \<noteq> T" using assms(1,2) by auto
  let ?S = "S\<lparr>ss_treasury := t\<rparr>"
  note a = shown_actual [OF S assms(2)]
  obtain i where i: "i < length ps" "i < length (ss_stakers ?S)" "ps ! i = k" "ss_stakers ?S ! i = x"
    by (rule shown_index [OF a(2) assms(1)])
  then obtain p where p: "(stake_step N)\<^sup>*\<^sup>* ?S (touch i x' t' p ?S)" using assms(3) unfolding edits_def by fastforce
  have "shown N T (v(k := Some (Inl x'), T := Some (Inr (staking_of t')))) ps (touch i x' t' p ?S)"
    by (rule shown_touch [OF a(2) i(1)]) (use i(3) kT assms(2) in \<open>auto simp: booked_def\<close>)
  with p a(1) show "\<exists>ps' S'. (stake_step N)\<^sup>*\<^sup>* S S' \<and> shown N T (v(k := Some (Inl x'), T := Some (Inr (staking_of t')))) ps' S'"
    by (blast intro: converse_rtranclp_into_rtranclp)
qed

lemma moves_edit_only:
  assumes "v k = Some (Inl x)" "v T = Some (Inr (staking_of t))" "edits N x t x' t"
  shows "moves N T v (v(k := Some (Inl x')))"
proof -
  have "v(k := Some (Inl x'), T := Some (Inr (staking_of t))) = v(k := Some (Inl x'))"
    using assms(1,2) by (auto simp: fun_eq_iff)
  then show ?thesis using moves_edit [OF assms] by simp
qed

lemma moves_executor:
  assumes "v k = Some (Inl (SV2 s))"
  shows "moves N T v (v(k := Some (Inl (SV2 (s\<lparr>sv_executor := ex\<rparr>)))))"
  unfolding moves_def
proof (intro allI impI)
  fix ps S assume S: "shown N T v ps S"
  let ?v = "v(k := Some (Inl (SV2 (s\<lparr>sv_executor := ex\<rparr>))))"
  obtain i where i: "i < length ps" "i < length (ss_stakers S)" "ps ! i = k" "ss_stakers S ! i = SV2 s"
    by (rule shown_index [OF S assms])
  then obtain p where p: "(stake_step N)\<^sup>*\<^sup>* S (touch i (SV2 (s\<lparr>sv_executor := ex\<rparr>)) (ss_treasury S) p S)"
    using edit_executor unfolding edits_def by blast
  have "booked N T ?v = booked N T v" using assms by (simp add: booked_def)
  then have "shown N T ?v ps (touch i (SV2 (s\<lparr>sv_executor := ex\<rparr>)) (ss_treasury S) p S)"
    by (intro shown_touch [OF S i(1)]) (use i(3) S in \<open>auto simp: shown_def\<close>)
  with p show "\<exists>ps' S'. (stake_step N)\<^sup>*\<^sup>* S S' \<and> shown N T ?v ps' S'" by blast
qed

lemma moves_open:
  assumes "v k = None" "v T = Some (Inr (staking_of t))"
  shows "moves N T v (v(k := Some (Inl (SV2 (new_stake_v2 sid auth ex lock now t)))))"
  unfolding moves_def
proof (intro allI impI)
  fix ps S assume S: "shown N T v ps S"
  let ?x = "SV2 (new_stake_v2 sid auth ex lock now t)"
  let ?v = "v(k := Some (Inl ?x))" and ?S = "S\<lparr>ss_treasury := t\<rparr>"
  note a = shown_actual [OF S assms(2)]
  have o: "stake_step N ?S (?S\<lparr>ss_stakers := ss_stakers ?S @ [?x]\<rparr>)"
    using stake_step.open_v2 [of N ?S sid auth ex lock now] by simp
  have "booked N T ?v = booked N T v" using assms by (auto simp: booked_def)
  then have "shown N T ?v (ps @ [k]) (?S\<lparr>ss_stakers := ss_stakers ?S @ [?x]\<rparr>)"
    by (intro shown_add [OF a(2)]) (use assms(1) in auto)
  with o a(1) show "\<exists>ps' S'. (stake_step N)\<^sup>*\<^sup>* S S' \<and> shown N T ?v ps' S'"
    by (meson converse_rtranclp_into_rtranclp r_into_rtranclp)
qed

lemma moves_close:
  assumes "v k = Some (Inl (SV2 s))" "sv_balance s = 0"
  shows "moves N T v (v(k := None))"
  unfolding moves_def
proof (intro allI impI)
  fix ps S assume S: "shown N T v ps S"
  let ?v = "v(k := None)"
  obtain i where i: "i < length ps" "i < length (ss_stakers S)" "ps ! i = k" "ss_stakers S ! i = SV2 s"
    by (rule shown_index [OF S assms(1)])
  have "booked N T ?v = booked N T v" using assms(1) by (auto simp: booked_def)
  then have "shown N T ?v (take i ps @ drop (Suc i) ps) (drop_staker i S)"
    by (intro shown_drop [OF S i(1)]) (use i(3) in auto)
  with stake_step.close_v2 [OF i(2,4) assms(2)] show "\<exists>ps' S'. (stake_step N)\<^sup>*\<^sup>* S S' \<and> shown N T ?v ps' S'" by blast
qed

lemma moves_distribute:
  assumes "v T = Some (Inr (staking_of t))" "0 < tr_total_staked t"
  shows "moves N T v (v(T := Some (Inr (staking_of (raise_stake_factor N amount t)))))"
  unfolding moves_def
proof (intro allI impI)
  fix ps S assume S: "shown N T v ps S"
  let ?v = "v(T := Some (Inr (staking_of (raise_stake_factor N amount t))))" and ?S = "S\<lparr>ss_treasury := t\<rparr>"
  let ?S' = "?S\<lparr>ss_treasury := raise_stake_factor N amount t, ss_distributed := ss_distributed S + amount\<rparr>"
  note a = shown_actual [OF S assms(1)]
  have o: "stake_step N ?S ?S'" using stake_step.distribute [of ?S N amount] assms(2) by simp
  have "shown N T ?v ps ?S'"
    by (rule shown_treasury [OF a(2)]) (use assms(1) in \<open>auto simp: booked_def\<close>)
  with o a(1) show "\<exists>ps' S'. (stake_step N)\<^sup>*\<^sup>* S S' \<and> shown N T ?v ps' S'"
    by (meson converse_rtranclp_into_rtranclp r_into_rtranclp)
qed

lemma moves_merge:
  assumes "v k = Some (Inl (SV2 s))" "v j = Some (Inl (SV2 r))" "k \<noteq> j" "v T = Some (Inr (staking_of t))"
    "merge_stakes N now t s r = Inr (s', r', t')"
  shows "moves N T v (v(k := Some (Inl (SV2 s')), j := Some (Inl (SV2 r')), T := Some (Inr (staking_of t'))))"
  unfolding moves_def
proof (intro allI impI)
  fix ps S assume S: "shown N T v ps S"
  have T: "k \<noteq> T" "j \<noteq> T" using assms(1,2,4) by auto
  let ?v1 = "v(j := Some (Inl (SV2 r')), T := Some (Inr (staking_of t')))" and ?S = "S\<lparr>ss_treasury := t\<rparr>"
  let ?v = "v(k := Some (Inl (SV2 s')), j := Some (Inl (SV2 r')), T := Some (Inr (staking_of t')))"
  note a = shown_actual [OF S assms(4)]
  obtain i where i: "i < length ps" "i < length (ss_stakers ?S)" "ps ! i = k" "ss_stakers ?S ! i = SV2 s"
    by (rule shown_index [OF a(2) assms(1)])
  obtain l where l: "l < length ps" "l < length (ss_stakers ?S)" "ps ! l = j" "ss_stakers ?S ! l = SV2 r"
    by (rule shown_index [OF a(2) assms(2)])
  have il: "i \<noteq> l" using i(3) l(3) assms(3) by auto
  have m: "merge_stakes N now (ss_treasury ?S) s r = Inr (s', r', t')" using assms(5) by simp
  have o: "stake_step N ?S (touch i (SV2 s') t' 0 (touch l (SV2 r') t' 0 ?S))"
    by (rule stake_step.merge [OF i(2) l(2) il i(4) l(4) m])
  have 1: "shown N T ?v1 ps (touch l (SV2 r') t' 0 ?S)"
    by (rule shown_touch [OF a(2) l(1)]) (use l(3) T assms(4) in \<open>auto simp: booked_def\<close>)
  have "shown N T ?v ps (touch i (SV2 s') t' 0 (touch l (SV2 r') t' 0 ?S))"
    by (rule shown_touch [OF 1 i(1)]) (use i(3) T assms(3) in \<open>auto simp: booked_def\<close>)
  with o a(1) show "\<exists>ps' S'. (stake_step N)\<^sup>*\<^sup>* S S' \<and> shown N T ?v ps' S'"
    by (meson converse_rtranclp_into_rtranclp r_into_rtranclp)
qed

end
