(* ===== verification/StakeSimulation.thy ===== *)
theory StakeSimulation
  imports StakeRefinement
begin

text \<open>
  Every instruction is a sequence of steps of the stake machine on the view of the store
  (\<open>moves\<close>), \<open>RebaseTotalStaked\<close> apart, which sets the total by hand. Handlers outside staking
  leave the view alone.
\<close>

text \<open>The instruction that sets the total by hand.\<close>

definition repairs_total :: "godl_instruction \<Rightarrow> bool" where
  "repairs_total ix = (case ix of RebaseTotalStaked _ _ \<Rightarrow> True | _ \<Rightarrow> False)"

section \<open>What calls do to the view\<close>

lemma seen:
  "w_data w k = AStakeV2 s \<Longrightarrow> sees w k = Some (Inl (SV2 s))" "w_data w k = AStake u \<Longrightarrow> sees w k = Some (Inl (SV1 u))"
  "w_data w k = ATreasury t \<Longrightarrow> sees w k = Some (Inr (staking_of t))" "w_data w k = AEmpty \<Longrightarrow> sees w k = None"
  by (simp_all add: sees_def)

lemma sees_if: "(if b then m else Inr w) = Inr w' \<Longrightarrow> (m = Inr w' \<Longrightarrow> sees w' = sees w) \<Longrightarrow> sees w' = sees w"
  by (auto split: if_splits)

context solana_owner
begin

lemma sees_calls:
  "transfer H a b c n w = Inr w' \<Longrightarrow> sees w' = sees w"
  "transfer_signed H a b c n ss w = Inr w' \<Longrightarrow> sees w' = sees w"
  "burn_signed H a b c n ss w = Inr w' \<Longrightarrow> sees w' = sees w"
  "open_token_account H x y z m w = Inr w' \<Longrightarrow> sees w' = sees w"
  "h_call H call w = Inr w' \<Longrightarrow> touches call = {} \<Longrightarrow> sees w' = sees w"
  by (erule same [OF _ views_self, unfolded views_def]
      | (erule views_call [OF _ _ views_self, unfolded views_def], assumption))+

lemma sees_create:
  assumes "create_program_account H k a b c ss w = Inr w'"
  obtains y where "sees w' = (sees w)(ai_key a := y)" "w_data w (ai_key a) = AEmpty"
proof -
  have h: "h_call H (CreateProgramAccount k (ai_key a) (ai_key b) (ai_key c) ss) w = Inr w'"
    using assms(1) by (simp add: create_program_account_def)
  then have "sees w' p = ((sees w)(ai_key a := sees w' (ai_key a))) p" for p
    using sees_at_call [OF h, of p] by simp
  then show ?thesis using that call_create [OF h] by blast
qed

section \<open>One stake and the treasury\<close>

text \<open>The treasury that a handler loads is the one the machine has, as accounts are at their
  addresses.\<close>

lemma treasury_home: "addressed H {} w \<Longrightarrow> w_data w b = ATreasury t \<Longrightarrow> b = h_pda H [TREASURY]"
  using addressed_at by fastforce

lemma simulate_seen:
  assumes "addressed H {} w" "sees w k = Some (Inl x)" "w_data w b = ATreasury t" "edits (h_num H) x t x' t'"
    and "sees w' = (sees w)(k := Some (Inl x'), b := Some (Inr (staking_of t')))"
  shows "moves (h_num H) (h_pda H [TREASURY]) (sees w) (sees w')"
  unfolding assms(5) treasury_home [OF assms(1,3), symmetric]
  by (intro moves_edit [where t = t and x = x] assms(2) seen(3) [OF assms(3)] assms(4))

lemmas simulate_edit = simulate_seen [OF _ seen(1)]

lemma simulate_seen_only:
  assumes "addressed H {} w" "sees w k = Some (Inl x)" "w_data w b = ATreasury t" "edits (h_num H) x t x' t"
    and "sees w' = (sees w)(k := Some (Inl x'))"
  shows "moves (h_num H) (h_pda H [TREASURY]) (sees w) (sees w')"
  unfolding assms(5) treasury_home [OF assms(1,3), symmetric]
  by (intro moves_edit_only [where t = t and x = x] assms(2) seen(3) [OF assms(3)] assms(4))

lemmas simulate_edit_only = simulate_seen_only [OF _ seen(1)]

lemma moves_open_edit:
  assumes "v k = None" "v b = Some (Inr (staking_of t))" "edits N (SV2 (new_stake_v2 sid auth ex lock now t)) t (SV2 s') t'"
  shows "moves N b v (v(k := Some (Inl (SV2 s')), b := Some (Inr (staking_of t'))))"
proof -
  have kb: "b \<noteq> k" using assms(1,2) by auto
  let ?v = "v(k := Some (Inl (SV2 (new_stake_v2 sid auth ex lock now t))))"
  have 1: "moves N b v ?v" by (rule moves_open [OF assms(1,2)])
  have "moves N b ?v (?v(k := Some (Inl (SV2 s')), b := Some (Inr (staking_of t'))))"
    by (rule moves_edit [OF _ _ assms(3)]) (simp_all add: kb assms(2))
  with 1 show ?thesis by simp (rule moves_trans)
qed

lemma simulate_open:
  assumes "addressed H {} w" "w_data w k = AEmpty" "w_data w b = ATreasury t"
    "edits (h_num H) (SV2 (new_stake_v2 sid auth ex lock now t)) t (SV2 s') t'"
    and "sees w' = (sees w)(k := Some (Inl (SV2 s')), b := Some (Inr (staking_of t')))"
  shows "moves (h_num H) (h_pda H [TREASURY]) (sees w) (sees w')"
  unfolding assms(5) treasury_home [OF assms(1,3), symmetric]
  by (rule moves_open_edit [OF seen(4) [OF assms(2)] seen(3) [OF assms(3)] assms(4)])

section \<open>The stake handlers\<close>

lemma simulate_deposit_v2:
  assumes "process_deposit_v2 H accounts sid amount lock w = Inr w'" "addressed H {} w"
  shows "moves (h_num H) (h_pda H [TREASURY]) (sees w) (sees w')"
proof -
  obtain k b s t w1 w2 w3 s1 t1 n x f a1 a2 a3 a4 a5 a6 a7 a8 a9 ss ex auth where
    d: "w_data w (ai_key k) = AEmpty" "w_data w (ai_key b) = ATreasury t"
    and e: "sv_update_rewards (h_num H) t (new_stake_v2 sid auth ex lock (w_unix_timestamp w) t) = Inr s"
      "sv_deposit (h_num H) x (w_unix_timestamp w) t f s = Inr (s1, t1, n)"
    and c: "create_program_account H KStakeV2 k a1 a2 ss w = Inr w1"
      "open_token_account H a3 a4 a5 a6 (put k (AStakeV2 s) w1) = Inr w2"
      "transfer H a7 a8 a9 n (put b (ATreasury t1) (put k (AStakeV2 s1) w2)) = Inr w'"
    using assms(1) unfolding process_deposit_v2_def
    by (auto simp: result_simps Let_def data_empty_iff split: list.splits)
  obtain y where y: "sees w1 = (sees w)(ai_key k := y)" by (rule sees_create [OF c(1)])
  have "sees w' = (sees w)(ai_key k := Some (Inl (SV2 s1)), ai_key b := Some (Inr (staking_of t1)))"
    by (simp add: sees_calls(1) [OF c(3)] sees_calls(4) [OF c(2)] sees_put y)
  then show ?thesis
    by (rule simulate_open [OF assms(2) d edits_trans [OF edit_intros(7) [OF e(1)] edit_intros(1) [OF e(2)]]])
qed

lemma simulate_top_up:
  assumes "process_top_up_stake_v2 H accounts sid amount w = Inr w'" "addressed H {} w"
  shows "moves (h_num H) (h_pda H [TREASURY]) (sees w) (sees w')"
proof -
  obtain k b s t s0 t0 s1 t1 n f a1 a2 a3 c0 where
    d: "w_data w (ai_key k) = AStakeV2 s" "w_data w (ai_key b) = ATreasury t"
    and e: "sv_migrate_weight (h_num H) t s = Inr (s0, t0)" "sv_deposit (h_num H) n c0 t0 f s0 = Inr (s1, t1, n)"
    and c: "transfer H a1 a2 a3 n (put b (ATreasury t1) (put k (AStakeV2 (s1\<lparr>sv_created_at := c0\<rparr>)) w)) = Inr w'"
    using assms(1) unfolding process_top_up_stake_v2_def
    by (auto simp: result_simps Let_def split: list.splits)
  show ?thesis
    by (rule simulate_edit [OF assms(2) d edits_trans [OF edit_intros(6) [OF e(1)] edits_trans [OF edit_intros(1) [OF e(2)] edit_date]]])
      (simp add: sees_calls(1) [OF c] sees_put)
qed

lemma simulate_withdraw_v2:
  assumes "process_withdraw_v2 H accounts sid amount w = Inr w'" "addressed H {} w"
  shows "moves (h_num H) (h_pda H [TREASURY]) (sees w) (sees w')"
proof -
  obtain k b s t s0 t0 s1 t1 n x w1 a1 a2 a3 a4 a5 a6 a7 ss now where
    d: "w_data w (ai_key k) = AStakeV2 s" "w_data w (ai_key b) = ATreasury t"
    and e: "sv_migrate_weight (h_num H) t s = Inr (s0, t0)" "sv_withdraw (h_num H) x now t0 s0 = Inr (s1, t1, n)"
    and c: "open_token_account H a1 a2 a3 a4 (put b (ATreasury t0) (put k (AStakeV2 s0) w)) = Inr w1"
      "transfer_signed H a5 a6 a7 n ss (put b (ATreasury t1) (put k (AStakeV2 s1) w1)) = Inr w'"
    using assms(1) unfolding process_withdraw_v2_def
    by (auto simp: result_simps Let_def split: list.splits)
  have "ai_key k \<noteq> ai_key b" using d by auto
  then show ?thesis
    by (intro simulate_edit [OF assms(2) d edits_trans [OF edit_intros(6) [OF e(1)] edit_intros(2) [OF e(2)]]])
      (auto simp: sees_calls(2) [OF c(2)] sees_calls(4) [OF c(1)] sees_put fun_eq_iff)
qed

lemma simulate_claim_v2:
  assumes "process_claim_yield_v2 H accounts sid amount w = Inr w'" "addressed H {} w"
  shows "moves (h_num H) (h_pda H [TREASURY]) (sees w) (sees w')"
proof -
  obtain k s t s1 n x w1 a1 a2 a3 a4 a5 a6 a7 ss now and b :: account_info where
    d: "w_data w (ai_key k) = AStakeV2 s" "w_data w (ai_key b) = ATreasury t"
    and e: "sv_claim (h_num H) x now t s = Inr (s1, n)"
    and c: "open_token_account H a1 a2 a3 a4 w = Inr w1" "transfer_signed H a5 a6 a7 n ss (put k (AStakeV2 s1) w1) = Inr w'"
    using assms(1) unfolding process_claim_yield_v2_def
    by (auto simp: result_simps Let_def split: list.splits)
  show ?thesis
    by (rule simulate_edit_only [OF assms(2) d edit_intros(3) [OF e]])
      (simp add: sees_calls(2) [OF c(2)] sees_calls(4) [OF c(1)] sees_put)
qed

lemma simulate_compound:
  assumes "process_compound_yield_v2 H accounts sid w = Inr w'" "addressed H {} w"
  shows "moves (h_num H) (h_pda H [TREASURY]) (sees w) (sees w')"
proof -
  obtain k b s t s0 t0 s1 s2 t2 n m d0 q f w1 w2 a1 a2 a3 a4 a5 a6 ss c1 c2 now where
    d: "w_data w (ai_key k) = AStakeV2 s" "w_data w (ai_key b) = ATreasury t"
    and e: "sv_migrate_weight (h_num H) t s = Inr (s0, t0)" "sv_claim (h_num H) u64_max now t0 s0 = Inr (s1, n)"
      "sv_deposit (h_num H) m now t0 f s1 = Inr (s2, t2, d0)"
    and c: "(if c1 then burn_signed H a1 a2 a3 c2 ss (put b (ATreasury t0) (put k (AStakeV2 s1) w))
        else Inr (put b (ATreasury t0) (put k (AStakeV2 s1) w))) = Inr w1"
      "transfer_signed H a4 a5 a6 q ss w1 = Inr w2" "w' = put b (ATreasury t2) (put k (AStakeV2 s2) w2)"
    using assms(1) unfolding process_compound_yield_v2_def
    by (auto simp: result_simps Let_def split: list.splits)
  have w1: "sees w1 = sees (put b (ATreasury t0) (put k (AStakeV2 s1) w))" by (rule sees_if [OF c(1)]) (rule sees_calls(3))
  have "ai_key k \<noteq> ai_key b" using d by auto
  then show ?thesis
    by (intro simulate_edit [OF assms(2) d edits_trans [OF edit_intros(6) [OF e(1)]
          edits_trans [OF edit_intros(3) [OF e(2)] edit_intros(1) [OF e(3)]]]])
      (auto simp: c(3) sees_calls(2) [OF c(2)] w1 sees_put fun_eq_iff)
qed

lemma simulate_executor:
  assumes "process_set_stake_executor_v2 H accounts sid executor w = Inr w'"
  shows "moves (h_num H) T (sees w) (sees w')"
proof -
  obtain k s where "w_data w (ai_key k) = AStakeV2 s" "w' = put k (AStakeV2 (s\<lparr>sv_executor := executor\<rparr>)) w"
    using assms(1) unfolding process_set_stake_executor_v2_def
    by (auto simp: result_simps Let_def split: list.splits)
  then show ?thesis using moves_executor [OF seen(1)] by (simp add: sees_put)
qed

lemma simulate_nft:
  assumes "process_stake_nft H accounts sid w = Inr w' \<or> process_unstake_nft H accounts sid w = Inr w'" "addressed H {} w"
  shows "moves (h_num H) (h_pda H [TREASURY]) (sees w) (sees w')"
proof -
  obtain k b s t s0 t0 s1 t1 call where
    d: "w_data w (ai_key k) = AStakeV2 s" "w_data w (ai_key b) = ATreasury t"
    and e: "sv_migrate_weight (h_num H) t s = Inr (s0, t0)"
      "sv_stake_nft (h_num H) t0 s0 = Inr (s1, t1) \<or> sv_unstake_nft (h_num H) t0 s0 = Inr (s1, t1)"
    and c: "h_call H call (put b (ATreasury t1) (put k (AStakeV2 s1) w)) = Inr w'" "touches call = {}"
    using assms(1) unfolding process_stake_nft_def process_unstake_nft_def
    by (elim disjE) (force simp: result_simps Let_def split: list.splits)+
  have "edits (h_num H) (SV2 s0) t0 (SV2 s1) t1" using e(2) edit_intros(4,5) by blast
  then show ?thesis
    by (intro simulate_edit [OF assms(2) d edits_trans [OF edit_intros(6) [OF e(1)]]])
      (auto simp: sees_calls(5) [OF c] sees_put)
qed

lemma simulate_migrate:
  assumes "process_migrate_stake_weight H accounts w = Inr w'" "addressed H {} w"
  shows "moves (h_num H) (h_pda H [TREASURY]) (sees w) (sees w')"
proof (cases "w' = w")
  case False
  then obtain k b s t s0 t0 where
    d: "w_data w (ai_key k) = AStakeV2 s" "w_data w (ai_key b) = ATreasury t"
    and e: "sv_migrate_weight (h_num H) t s = Inr (s0, t0)"
    and c: "w' = put b (ATreasury t0) (put k (AStakeV2 s0) w)"
    using assms(1) unfolding process_migrate_stake_weight_def
    by (auto simp: result_simps Let_def split: list.splits if_splits)
  show ?thesis by (rule simulate_edit [OF assms(2) d edit_intros(6) [OF e]]) (simp add: c sees_put)
qed simp

lemma simulate_merge:
  assumes "process_merge_stake_v2 H accounts i j w = Inr w'" "addressed H {} w"
  shows "moves (h_num H) (h_pda H [TREASURY]) (sees w) (sees w')"
proof -
  obtain k l b s r t s1 r1 t1 w1 w2 now a1 a2 a3 a4 n ss c1 call where
    d: "w_data w (ai_key k) = AStakeV2 s" "w_data w (ai_key l) = AStakeV2 r" "w_data w (ai_key b) = ATreasury t" "sv_id s \<noteq> sv_id r"
    and e: "merge_stakes (h_num H) now t s r = Inr (s1, r1, t1)"
    and c: "(if c1 then transfer_signed H a1 a2 a3 n ss (put b (ATreasury t1) (put l (AStakeV2 r1) (put k (AStakeV2 s1) w)))
        else Inr (put b (ATreasury t1) (put l (AStakeV2 r1) (put k (AStakeV2 s1) w)))) = Inr w1"
      "h_call H call w1 = Inr w2" "touches call = {}" "close_account H l a4 w2 = Inr w'"
    using assms(1) unfolding process_merge_stake_v2_def
    by (fastforce simp: result_simps Let_def split: list.splits)
  let ?T = "h_pda H [TREASURY]"
  have b: "ai_key b = ?T" by (rule treasury_home [OF assms(2) d(3)])
  have n: "ai_key k \<noteq> ai_key l" "ai_key k \<noteq> ai_key b" "ai_key l \<noteq> ai_key b" using d by auto
  let ?v = "(sees w)(ai_key k := Some (Inl (SV2 s1)), ai_key l := Some (Inl (SV2 r1)), ai_key b := Some (Inr (staking_of t1)))"
  have "sees w1 = ?v"
    using n by (subst sees_if [OF c(1) sees_calls(2)]) (auto simp: sees_put fun_eq_iff)
  then have w': "sees w' = ?v(ai_key l := None)" by (simp add: sees_close [OF c(4)] sees_calls(5) [OF c(2,3)])
  have 1: "moves (h_num H) (ai_key b) (sees w) ?v"
    by (rule moves_merge [OF seen(1) [OF d(1)] seen(1) [OF d(2)] n(1) seen(3) [OF d(3)] e])
  have "sv_balance r1 = 0" using e unfolding merge_stakes_def by (auto simp: result_simps Let_def)
  then have "moves (h_num H) (ai_key b) ?v (?v(ai_key l := None))"
    by (intro moves_close [where s = r1]) (use n in simp_all)
  with 1 show ?thesis unfolding w' b [symmetric] by (rule moves_trans)
qed

lemma simulate_close:
  assumes "process_close_stake_v2 H accounts sid w = Inr w'" "addressed H {} w"
  shows "moves (h_num H) (h_pda H [TREASURY]) (sees w) (sees w')"
proof -
  obtain k s t s1 n now w1 w2 w3 w4 a1 a2 a3 a4 a5 a6 a7 a8 a9 ss ss' x y c1 c2 c3 call and b :: account_info where
    d: "w_data w (ai_key k) = AStakeV2 s" "w_data w (ai_key b) = ATreasury t" "sv_balance s = 0"
    and e: "sv_claim (h_num H) u64_max now t s = Inr (s1, n)"
    and c: "(if c1 then open_token_account H a1 a1 a2 a3 (put k (AStakeV2 s1) w) else Inr (put k (AStakeV2 s1) w)) = Inr w1"
      "(if c2 then transfer_signed H a4 a5 a2 x ss w1 else Inr w1) = Inr w2"
      "(if c3 then transfer_signed H k a7 a2 y ss' w2 else Inr w2) = Inr w3"
      "h_call H call w3 = Inr w4" "touches call = {}" "close_account H k a9 w4 = Inr w'"
    using assms(1) unfolding process_close_stake_v2_def
    by (fastforce simp: result_simps Let_def split: list.splits)
  let ?v = "(sees w)(ai_key k := Some (Inl (SV2 s1)))"
  have "sees w4 = ?v"
    by (simp add: sees_calls(5) [OF c(4,5)] sees_if [OF c(3) sees_calls(2)] sees_if [OF c(2) sees_calls(2)]
        sees_if [OF c(1) sees_calls(4)] sees_put)
  then have w': "sees w' = ?v(ai_key k := None)" by (simp add: sees_close [OF c(6)])
  have 1: "moves (h_num H) (ai_key b) (sees w) ?v"
    by (rule moves_edit_only [OF seen(1) [OF d(1)] seen(3) [OF d(2)] edit_intros(3) [OF e]])
  have "sv_balance s1 = 0"
    using e d(3) unfolding sv_claim_def by (auto simp: result_simps Let_def sv_update_rewards_keeps)
  then have "moves (h_num H) (ai_key b) ?v (?v(ai_key k := None))" by (intro moves_close [where s = s1]) simp_all
  with 1 show ?thesis unfolding w' treasury_home [OF assms(2) d(2), symmetric] by (rule moves_trans)
qed

lemma simulate_phantom:
  assumes "process_close_phantom_stake_v2 H accounts w = Inr w'" "addressed H {} w"
  shows "moves N T (sees w) (sees w')"
proof -
  obtain k s where "w_data w k = AStakeV2 s" "k \<noteq> stake_v2_pda H (sv_authority s) (sv_id s)"
    using assms(1) unfolding process_close_phantom_stake_v2_def by (auto simp: result_simps split: list.splits)
  then show ?thesis using addressed_at [OF _ assms(2)] by (fastforce simp: stake_v2_pda_def)
qed

lemma simulate_reconcile:
  assumes "process_reconcile_stake_v2 H accounts w = Inr w'" "addressed H {} w"
  shows "moves (h_num H) (h_pda H [TREASURY]) (sees w) (sees w')"
proof -
  obtain k b s t s1 t1 n x now where
    d: "w_data w (ai_key k) = AStakeV2 s" "w_data w (ai_key b) = ATreasury t"
    and e: "sv_withdraw (h_num H) x now t s = Inr (s1, t1, n)"
    and c: "w' = put b (ATreasury t1) (put k (AStakeV2 s1) w)"
    using assms(1) unfolding process_reconcile_stake_v2_def
    by (auto simp: result_simps Let_def split: list.splits)
  show ?thesis by (rule simulate_edit [OF assms(2) d edit_intros(2) [OF e]]) (simp add: c sees_put)
qed

lemma simulate_withdraw_v1:
  assumes "process_withdraw H accounts amount w = Inr w'" "addressed H {} w"
  shows "moves (h_num H) (h_pda H [TREASURY]) (sees w) (sees w')"
proof -
  obtain k b u t u1 t1 n x w1 a1 a2 a3 a4 a5 a6 a7 ss now where
    d: "w_data w (ai_key k) = AStake u" "w_data w b = ATreasury t" "b = ai_key (a7 :: account_info)"
    and e: "st_withdraw (h_num H) x now t u = Inr (u1, t1, n)"
    and c: "open_token_account H a1 a2 a3 a4 w = Inr w1"
      "transfer_signed H k a5 a6 n ss (put a7 (ATreasury t1) (put k (AStake u1) w1)) = Inr w'"
    using assms(1) unfolding process_withdraw_def
    by (auto simp: result_simps Let_def split: list.splits)
  show ?thesis
    by (rule simulate_seen [OF assms(2) seen(2) [OF d(1)] d(2) edit_intros(8) [OF e]])
      (simp add: sees_calls(2) [OF c(2)] sees_calls(4) [OF c(1)] sees_put d(3))
qed

lemma simulate_claim_v1:
  assumes "process_claim_yield H accounts amount w = Inr w'" "addressed H {} w"
  shows "moves (h_num H) (h_pda H [TREASURY]) (sees w) (sees w')"
proof -
  obtain k u t u1 n x w1 a1 a2 a3 a4 a5 a6 a7 ss now and b :: account_info where
    d: "w_data w (ai_key k) = AStake u" "w_data w (ai_key b) = ATreasury t"
    and e: "st_claim (h_num H) x now t u = Inr (u1, n)"
    and c: "open_token_account H a1 a2 a3 a4 w = Inr w1" "transfer_signed H a5 a6 a7 n ss (put k (AStake u1) w1) = Inr w'"
    using assms(1) unfolding process_claim_yield_def
    by (auto simp: result_simps Let_def split: list.splits)
  show ?thesis
    by (rule simulate_seen_only [OF assms(2) seen(2) [OF d(1)] d(2) edit_intros(9) [OF e]])
      (simp add: sees_calls(2) [OF c(2)] sees_calls(4) [OF c(1)] sees_put)
qed

lemmas simulate_stake = simulate_deposit_v2 simulate_top_up simulate_withdraw_v2 simulate_claim_v2 simulate_compound
  simulate_nft [OF disjI1] simulate_nft [OF disjI2] simulate_migrate simulate_merge simulate_close simulate_phantom simulate_reconcile simulate_withdraw_v1 simulate_claim_v1

section \<open>Yield distribution and the first treasury\<close>

lemma simulate_distribute:
  assumes "addressed H {} w" "w_data w b = ATreasury t" "t' = t \<or> (0 < tr_total_staked t \<and> t' = raise_stake_factor (h_num H) n t)"
    "sees w' = (sees w)(b := Some (Inr (staking_of t')))"
  shows "moves (h_num H) (h_pda H [TREASURY]) (sees w) (sees w')"
  using assms(3)
proof
  assume "t' = t"
  then have "sees w' = sees w" using seen(3) [OF assms(2)] assms(4) by (simp add: fun_upd_idem)
  then show ?thesis by simp
next
  assume d: "0 < tr_total_staked t \<and> t' = raise_stake_factor (h_num H) n t"
  show ?thesis unfolding assms(4) treasury_home [OF assms(1,2), symmetric] conjunct2 [OF d]
    by (rule moves_distribute [where v = "sees w", OF seen(3) [OF assms(2)] conjunct1 [OF d]])
qed

lemma shares:
  "share_with_stakers N n t = Inr (t', m) \<Longrightarrow> t' = t \<or> (0 < tr_total_staked t \<and> t' = raise_stake_factor N m t)"
  "share_tokens_with_stakers N n t = Inr (t', m) \<Longrightarrow> t' = t \<or> (0 < tr_total_staked t \<and> t' = raise_stake_factor N m t)"
  unfolding share_with_stakers_def share_tokens_with_stakers_def by (auto simp: result_simps Let_def split: if_splits)

lemma sees_bury:
  "pay_bury H a b c d e f g h w = Inr (n, w') \<Longrightarrow> sees w' = sees w"
  "bury_swap H a b c d m n p l i w = Inr (x, y, w') \<Longrightarrow> sees w' = sees w"
  by (erule views_pay_bury [OF _ views_self, unfolded views_def] views_swap(1) [OF _ views_self, unfolded views_def])+

lemma simulate_bury:
  assumes "process_bury H accounts data w = Inr w'" "addressed H {} w"
  shows "moves (h_num H) (h_pda H [TREASURY]) (sees w) (sees w')"
proof -
  obtain b t x y z w1 t1 m w2 call a1 a2 a3 a4 a5 a6 a7 a8 a9 n1 n2 n3 where
    d: "w_data w (ai_key b) = ATreasury t"
    and e: "share_with_stakers (h_num H) z t = Inr (t1, m)"
    and c: "bury_swap H a1 b a2 a3 n1 n2 n3 a4 a5 w = Inr (x, z, w1)"
      "pay_bury H b a2 a6 a7 a1 a8 z m (put b (ATreasury t1) w1) = Inr (a9, w2)"
      "h_call H (ProgramLog call) w2 = Inr w'"
    using assms(1) unfolding process_bury_def
    by (fastforce simp: result_simps Let_def split: list.splits)
  show ?thesis
    by (rule simulate_distribute [OF assms(2) d shares(1) [OF e]])
      (simp add: sees_calls(5) [OF c(3)] sees_bury(1) [OF c(2)] sees_bury(2) [OF c(1)] sees_put)
qed

lemma simulate_bury_tokens:
  assumes "process_bury_tokens H accounts n w = Inr w'" "addressed H {} w"
  shows "moves (h_num H) (h_pda H [TREASURY]) (sees w) (sees w')"
proof -
  obtain b t t1 m w2 call a1 a2 a6 a7 a8 a9 where
    d: "w_data w (ai_key b) = ATreasury t"
    and e: "share_tokens_with_stakers (h_num H) n t = Inr (t1, m)"
    and c: "pay_bury H b a2 a6 a7 a1 a8 n m (put b (ATreasury t1) w) = Inr (a9, w2)"
      "h_call H (ProgramLog call) w2 = Inr w'"
    using assms(1) unfolding process_bury_tokens_def
    by (fastforce simp: result_simps Let_def split: list.splits)
  show ?thesis
    by (rule simulate_distribute [OF assms(2) d shares(2) [OF e]])
      (simp add: sees_calls(5) [OF c(2)] sees_bury(1) [OF c(1)] sees_put)
qed

lemma shown_absent: "v T = None \<Longrightarrow> moves N T v (v(T := Some (Inr (0, n_zero N))))"
  unfolding moves_def shown_def booked_def by (force intro: exI [of _ S for S])

lemma simulate_initialize:
  assumes "process_initialize H accounts admin ba fc g w = Inr w'"
  shows "moves (h_num H) (h_pda H [TREASURY]) (sees w) (sees w')"
proof -
  obtain c b bd r s sys w1 w2 w3 w4 cfg t x bx rx a1 a2 a3 a4 cfg' bd' rd' where
    t: "ai_key b = h_pda H [TREASURY]" "w_data w (ai_key b) = AEmpty"
    and w: "create_program_account H KConfig c sys s a1 w = Inr w1" "create_program_account H KTreasury b sys s a2 w1 = Inr w2"
      "create_program_account H KBoard bd sys s a3 w2 = Inr w3" "create_program_account H KRound r sys s a4 w3 = Inr w4"
    and d: "w_data w4 (ai_key c) = AConfig cfg" "w_data (put c (AConfig cfg') w4) (ai_key b) = ATreasury t"
      "w_data (put b (ATreasury (new_treasury (h_num H))) (put c (AConfig cfg') w4)) (ai_key bd) = ABoard bx"
      "w_data (put bd (ABoard bd') (put b (ATreasury (new_treasury (h_num H))) (put c (AConfig cfg') w4))) (ai_key r) = ARound rx"
    and w': "w' = put r (ARound rd') (put bd (ABoard bd') (put b (ATreasury (new_treasury (h_num H))) (put c (AConfig cfg') w4)))"
    using assms unfolding process_initialize_def
    by (fastforce simp: result_simps Let_def dest: check_seeds check_empty split: list.splits simp del: put_data)
  let ?v = "(sees w)(h_pda H [TREASURY] := Some (Inr (0, n_zero (h_num H))))"
  have n: "staking_of (new_treasury (h_num H)) = (0, n_zero (h_num H))" by (simp add: staking_of_def new_treasury_def)
  obtain y where y: "sees w2 = (sees w1)(ai_key b := y)" by (rule sees_create [OF w(2)])
  have 1: "views w1 (sees w)" by (rule views_create [OF w(1) _ views_self]) simp
  have 2: "views w2 ((sees w)(ai_key b := y))" using 1 y by (simp add: views_def)
  have 4: "views w4 ((sees w)(ai_key b := y))"
    by (rule views_create [OF w(4) _ views_create [OF w(3) _ 2]]) simp_all
  have 5: "views (put c (AConfig cfg') w4) ((sees w)(ai_key b := y))"
    by (rule views_put [OF 4 fits_known [OF d(1) 4]]) simp
  have 6: "views (put b (ATreasury (new_treasury (h_num H))) (put c (AConfig cfg') w4)) ?v"
    using views_put_upd [OF 5, of b "ATreasury (new_treasury (h_num H))"] by (simp add: n t(1))
  have 7: "views (put bd (ABoard bd') (put b (ATreasury (new_treasury (h_num H))) (put c (AConfig cfg') w4))) ?v"
    by (rule views_put [OF 6 fits_known [OF d(3) 6]]) simp
  have "views w' ?v" unfolding w' by (rule views_put [OF 7 fits_known [OF d(4) 7]]) simp
  moreover have "moves (h_num H) (h_pda H [TREASURY]) (sees w) ?v"
    by (rule shown_absent) (use t in \<open>simp add: sees_def\<close>)
  ultimately show ?thesis by (rule by_view)
qed

section \<open>The OTC desk\<close>

lemma otc_user_frame:
  assumes "open_otc_user H a sys b w = Inr (u, w')" "program_owned (w_data w p)"
  shows "w_data w' p = w_data w p"
proof (cases "data_is_empty a w")
  case True
  then have "w_data w (ai_key a) = AEmpty" by (simp add: data_empty_iff)
  then have "p \<noteq> ai_key a" using assms(2) by (auto simp: program_owned_def)
  then show ?thesis using assms True unfolding open_otc_user_def create_program_account_def
    by (auto simp: result_simps Let_def dest!: call_frame [where p = p])
qed (use assms in \<open>auto simp: open_otc_user_def result_simps\<close>)

lemma views_otc_user:
  "open_otc_user H a sys b w = Inr (u, w') \<Longrightarrow> views w v \<Longrightarrow> views w' v"
  "open_otc_user H a sys b w = Inr (u, w') \<Longrightarrow> w_data w' (ai_key a) = AOtcUser u"
  unfolding open_otc_user_def Let_def
   apply (auto simp: result_simps split: if_splits)
  apply (rule views_put | (erule views_create, (simp; fail)) | (rule fits_known, assumption) | assumption | (simp; fail))+
  done

lemma views_otc_bonus:
  "otc_bonus H a b c d e f v g t m w = Inr (m', t', w') \<Longrightarrow> views w x \<Longrightarrow> views w' x"
  "otc_bonus H a b c d e f v g t m w = Inr (m', t', w') \<Longrightarrow> staking_of t' = staking_of t"
  unfolding otc_bonus_def
   apply (auto simp: result_simps dest: staking_kept split: if_splits)
  apply (erule views_sync, assumption, erule also_same, erule same, assumption, erule same, assumption)
  done

lemma otc_trade_parts:
  assumes "process_execute_otc_trade H accounts i n g f e l w = Inr w'"
  obtains (parts) oi o0 o1 mi m ui u k b w1 w2 w3 w4 w5 w6 w7 t s t1 s1 d0 t2 m2 u2 bi mint ti tt sk ext sys gv ss tokens funds where
    "w_data w (ai_key oi) = AOtcTreasury o0" "ai_key b = h_pda H [TREASURY]"
    "collect H oi n bi (put oi (AOtcTreasury o1) w) = Inr w1" "open_miner H mi sys bi (ai_key bi) (h_assert_error H) w1 = Inr (m, w2)"
    "open_otc_user H ui sys bi w2 = Inr (u, w3)" "create_program_account H KStakeV2 k sys bi ss w3 = Inr w4"
    "w_data w4 (ai_key b) = ATreasury t"
    "sv_update_rewards (h_num H) t (new_stake_v2 i (ai_key bi) (ai_key bi) l (w_unix_timestamp w) t) = Inr s"
    "sv_deposit (h_num H) g (w_unix_timestamp w) t funds s = Inr (s1, t1, d0)"
    "open_token_account H bi k sk mint (put k (AStakeV2 s) w4) = Inr w5"
    "transfer_signed H ti tt sk d0 [OTC_TREASURY] (put b (ATreasury t1) (put k (AStakeV2 s1) w5)) = Inr w6"
    "otc_bonus H bi ti tt tokens ext sys gv f t1 m w6 = Inr (m2, t2, w7)"
    "w' = put ui (AOtcUser u2) (put b (ATreasury t2) (put mi (AMiner m2) w7))"
proof -
  from assms show thesis
    unfolding process_execute_otc_trade_def Let_def
    apply (elim and_thenE, simp only: split_beta, elim and_thenE list16E)
    apply (clarsimp simp: result_simps)
    apply (frule otc_seeds(4))
    apply (rule parts)
    apply (assumption | (rule refl))+
    done
qed

lemma simulate_otc:
  assumes "process_execute_otc_trade H accounts i n g f e l w = Inr w'" "addressed H {} w"
  shows "moves (h_num H) (h_pda H [TREASURY]) (sees w) (sees w')"
  using assms(1)
proof (cases rule: otc_trade_parts)
  case (parts oi o0 o1 mi m ui u k b w1 w2 w3 w4 w5 w6 w7 t s t1 s1 d0 t2 m2 u2 bi mint ti tt sk ext sys gv ss tokens funds)
  let ?v = "sees w" and ?new = "new_stake_v2 i (ai_key bi) (ai_key bi) l (w_unix_timestamp w) t"
  have 1: "views w1 ?v"
    by (rule views_calls(4) [OF parts(3) views_put [OF views_self fits_known [OF parts(1) views_self]]]) simp
  have 2: "views w2 ?v" by (rule views_open_miner [OF parts(4) 1])
  have 3: "views w3 ?v" by (rule views_otc_user(1) [OF parts(5) 2])
  have mi: "w_data w3 (ai_key mi) = AMiner m"
    using otc_user_frame [OF parts(5), of "ai_key mi"] open_miner_data [OF parts(4)] by simp
  note ui = views_otc_user(2) [OF parts(5)]
  obtain y where y: "sees w4 = (sees w3)(ai_key k := y)" "w_data w3 (ai_key k) = AEmpty" by (rule sees_create [OF parts(6)])
  have s3: "sees w3 = ?v" using 3 by (simp add: views_def)
  have none: "?v (ai_key mi) = None" "?v (ai_key ui) = None" "?v (ai_key k) = None"
    using mi ui y(2) unfolding s3 [symmetric] by (simp_all add: sees_def)
  have kind: "sees w4 (ai_key k) \<noteq> Some (Inr z)" for z
  proof -
    have "kind_of (w_data w4 (ai_key k)) = Some KStakeV2"
      using call_create parts(6) unfolding create_program_account_def by blast
    then show ?thesis by (cases "w_data w4 (ai_key k)") (simp_all add: sees_def)
  qed
  have kb: "ai_key k \<noteq> ai_key b" using kind [of "staking_of t"] seen(3) [OF parts(7)] by auto
  have t: "?v (ai_key b) = Some (Inr (staking_of t))"
    using seen(3) [OF parts(7)] y(1) kb by (simp add: s3)
  have "w_data w3 (ai_key mi) \<noteq> w_data w3 (ai_key k)" "w_data w3 (ai_key ui) \<noteq> w_data w3 (ai_key k)"
    by (simp_all add: mi ui y(2))
  then have apart: "ai_key mi \<noteq> ai_key k" "ai_key ui \<noteq> ai_key k" "ai_key mi \<noteq> ai_key b" "ai_key ui \<noteq> ai_key b"
    using none t by (metis option.distinct(1))+
  let ?v7 = "?v(ai_key k := Some (Inl (SV2 s1)), ai_key b := Some (Inr (staking_of t1)))"
  have "sees w6 = ?v7"
    by (simp add: sees_calls(2) [OF parts(11)] sees_calls(4) [OF parts(10)] sees_put y(1) s3)
  then have w7: "sees w7 = ?v7" using views_otc_bonus(1) [OF parts(12), of "sees w6"] by (simp add: views_def)
  have w': "sees w' = ?v7"
    unfolding parts(13) by (auto simp: sees_put w7 views_otc_bonus(2) [OF parts(12)] fun_eq_iff none apart apart [symmetric])
  have a: "edits (h_num H) (SV2 ?new) t (SV2 s1) t1"
    by (rule edits_trans [OF edit_intros(7) [OF parts(8)] edit_intros(1) [OF parts(9)]])
  show ?thesis
    unfolding w' parts(2) [symmetric] by (rule moves_open_edit [OF none(3) t a])
qed

section \<open>Every instruction\<close>

lemmas view_kept = views_handlers [OF _ views_self, unfolded views_def]

lemma simulate_instruction:
  assumes "process_instruction H data_len accounts ix w = Inr w'" "addressed H {} w" "\<not> repairs_total ix"
  shows "moves (h_num H) (h_pda H [TREASURY]) (sees w) (sees w')"
  using assms(1,3)
  by (cases ix)
    (simp_all add: process_instruction_def repairs_total_def view_kept process_deposit_def simulate_initialize simulate_otc [OF _ assms(2)]
      simulate_bury [OF _ assms(2)] simulate_bury_tokens [OF _ assms(2)] simulate_stake [OF _ assms(2)] simulate_executor)

end

end
