(* ===== verification/StoreLedgerProperties.thy ===== *)
theory StoreLedgerProperties
  imports StakeSimulation AddressProperties StakeProperties
begin

text \<open>
  The staking ledger of the store. Every history of the program shows a run of the stake machine, so
  the machine's invariants hold of the accounts themselves: \<open>total_staked\<close> of the treasury is the
  sum of the weights of all stake accounts, and no withdrawal can underflow it.
\<close>

section \<open>Runs\<close>

lemma stake_run:
  assumes "(stake_step N)\<^sup>*\<^sup>* S S'" "stake_reachable N S"
  shows "stake_reachable N S'"
  using assms by (induction rule: rtranclp_induct) (auto intro: stake_reachable.step)

lemma foreign_sees: "foreign w w' \<Longrightarrow> sees w' = sees w"
  unfolding foreign_def sees_def by (rule ext) (metis sight_foreign)

lemma history_shows:
  assumes "solana_owner H" "history H data_len (\<lambda>ix. \<not> repairs_total ix) w"
  shows "\<exists>ps S. stake_reachable (h_num H) S \<and> shown (h_num H) (h_pda H [TREASURY]) (sees w) ps S"
  using assms(2)
proof induction
  case (genesis w)
  then have v: "sees w = (\<lambda>p. None)" by (auto simp: sees_def sight_foreign)
  let ?S = "\<lparr>ss_treasury = new_treasury (h_num H), ss_stakers = [], ss_distributed = 0, ss_paid = 0\<rparr>"
  have "stake_reachable (h_num H) ?S" by (rule stake_reachable.start) (simp_all add: new_treasury_def)
  moreover have "shown (h_num H) (h_pda H [TREASURY]) (sees w) [] ?S"
    by (simp add: shown_def v booked_def staking_of_def new_treasury_def)
  ultimately show ?case by blast
next
  case (outside w w')
  then show ?case by (simp add: foreign_sees)
next
  case (instruction w accounts ix w')
  then obtain ps S where S: "stake_reachable (h_num H) S" "shown (h_num H) (h_pda H [TREASURY]) (sees w) ps S" by blast
  have "moves (h_num H) (h_pda H [TREASURY]) (sees w) (sees w')"
    by (rule solana_owner.simulate_instruction [OF assms(1) instruction.hyps(2)
          history_addressed [OF assms(1) instruction.hyps(1)] instruction.hyps(3)])
  with S show ?case unfolding moves_def by (meson stake_run)
qed

section \<open>The accounts\<close>

definition is_stake :: "'n account_data \<Rightarrow> bool" where
  "is_stake d = (case d of AStake _ \<Rightarrow> True | AStakeV2 _ \<Rightarrow> True | _ \<Rightarrow> False)"

definition stake_weight :: "'n account_data \<Rightarrow> nat" where
  "stake_weight d = (case d of AStake s \<Rightarrow> st_balance s
     | AStakeV2 s \<Rightarrow> (case weighted_units s of Inr u \<Rightarrow> u | Inl _ \<Rightarrow> 0) | _ \<Rightarrow> 0)"

lemma stake_sight:
  "is_stake d \<longleftrightarrow> (\<exists>x. sight d = Some (Inl x))" "sight d = Some (Inl x) \<Longrightarrow> stake_weight d = staker_units x"
  by (cases d; auto simp: is_stake_def stake_weight_def)+

lemma shown_keys:
  assumes "shown N T (sees w) ps S"
  shows "{p. is_stake (w_data w p)} = set ps" "sum_list (map staker_units (ss_stakers S)) = (\<Sum>p\<in>set ps. stake_weight (w_data w p))"
proof -
  have l: "length ps = length (ss_stakers S)" "distinct ps" using assms by (simp_all add: shown_def)
  have z: "sight (w_data w p) = Some (Inl x) \<longleftrightarrow> (p, x) \<in> set (zip ps (ss_stakers S))" for p x
    using assms by (simp add: shown_def sees_def)
  show "{p. is_stake (w_data w p)} = set ps"
    using l(1) by (auto simp: stake_sight(1) z dest: set_zip_leftD) (metis in_set_impl_in_set_zip1)
  have "map staker_units (ss_stakers S) = map (\<lambda>p. stake_weight (w_data w p)) ps"
  proof (rule nth_equalityI)
    fix i assume "i < length (map staker_units (ss_stakers S))"
    then have "(ps ! i, ss_stakers S ! i) \<in> set (zip ps (ss_stakers S))" using l(1) by (auto simp: set_zip)
    then show "map staker_units (ss_stakers S) ! i = map (\<lambda>p. stake_weight (w_data w p)) ps ! i"
      using stake_sight(2) z l(1) \<open>i < length (map staker_units (ss_stakers S))\<close> by force
  qed (simp add: l(1))
  then show "sum_list (map staker_units (ss_stakers S)) = (\<Sum>p\<in>set ps. stake_weight (w_data w p))"
    using l(2) by (simp add: sum_list_distinct_conv_sum_set)
qed

lemma store_ledger:
  assumes "solana_owner H" "history H data_len (\<lambda>ix. \<not> repairs_total ix) w" "w_data w p = ATreasury t"
  shows "finite {q. is_stake (w_data w q)}" "tr_total_staked t = (\<Sum>q | is_stake (w_data w q). stake_weight (w_data w q))"
    "tr_total_staked t \<le> u64_max" "w_data w k = AStakeV2 s \<Longrightarrow> \<exists>u. weighted_units s = Inr u"
proof -
  let ?T = "h_pda H [TREASURY]"
  obtain ps S where S: "stake_reachable (h_num H) S" "shown (h_num H) ?T (sees w) ps S"
    using history_shows [OF assms(1,2)] by blast
  have p: "p = ?T" by (rule solana_owner.treasury_home [OF assms(1) history_addressed [OF assms(1,2)] assms(3)])
  then have "booked (h_num H) ?T (sees w) = staking_of t" using seen(3) [OF assms(3)] by (simp add: booked_def)
  then have t: "tr_total_staked t = tr_total_staked (ss_treasury S)" using S(2) by (simp add: shown_def staking_of_def)
  have L: "ledger_ok S" by (rule ledger_reachable [OF S(1)])
  show "finite {q. is_stake (w_data w q)}" by (simp add: shown_keys(1) [OF S(2)])
  show "tr_total_staked t = (\<Sum>q | is_stake (w_data w q). stake_weight (w_data w q))"
    using L t shown_keys [OF S(2)] by (simp add: ledger_ok_def units_total_def)
  show "tr_total_staked t \<le> u64_max" using L t by (simp add: ledger_ok_def)
  assume "w_data w k = AStakeV2 s"
  then have "(k, SV2 s) \<in> set (zip ps (ss_stakers S))" using S(2) seen(1) by (fastforce simp: shown_def)
  then show "\<exists>u. weighted_units s = Inr u" using weighed_reachable [OF S(1)] by (fastforce dest: set_zip_rightD)
qed

lemma sum_at_most:
  fixes f :: "'a \<Rightarrow> nat"
  assumes "finite A" "B \<subseteq> A"
  shows "sum f B \<le> sum f A"
  using assms by (simp add: sum_mono2)

section \<open>Properties\<close>

text \<open>C3. The treasury's \<open>total_staked\<close> is the sum of the weights of all stake accounts in the store,
  of both versions, in every state that instructions in any order and steps of other programs can
  reach, as long as no administrator overwrites the total with \<open>RebaseTotalStaked\<close>; it is a
  \<open>u64\<close>.\<close>

lemma total_staked_counts_every_stake:
  assumes "solana_owner H" "history H data_len (\<lambda>ix. \<not> repairs_total ix) w" "w_data w p = ATreasury t"
  shows "finite {q. is_stake (w_data w q)} \<and> tr_total_staked t = (\<Sum>q | is_stake (w_data w q). stake_weight (w_data w q))
    \<and> tr_total_staked t \<le> u64_max"
  using store_ledger [OF assms] by blast

text \<open>A history of the reference environment: the deployer initialises the program, player 100
  stakes 1000.\<close>

definition demo_start :: "int world" where
  "demo_start = world_of [(300, AToken \<lparr>tk_owner = 100, tk_mint = MINT_ADDRESS, tk_amount = 5000\<rparr>),
     (MINT_ADDRESS, AMint \<lparr>mt_supply = 100000\<rparr>)] [] 50 1000"

definition demo_init_accounts :: "account_info list" where
  "demo_init_accounts = [acct DEPLOYER_ADDRESS, acct (ref_pda [CONFIG]), acct (ref_pda [TREASURY]), acct (ref_pda [BOARD]),
     acct (ref_pda [ROUND, SNum 0]), acct 11]"

definition demo_stake_accounts :: "account_info list" where
  "demo_stake_accounts = [acct 100, acct MINT_ADDRESS, acct 300, acct (ref_pda [STAKE_V2, SKey 100, SNum 7]), acct 301,
     acct (ref_pda [TREASURY]), acct 100, acct 11, acct 12, acct 13]"

lemma new_is_demo_treasury: "new_treasury fx_ops = demo_treasury"
  by (simp add: new_treasury_def demo_treasury_def miner_treasury_def fx_ops_def)

lemma demo_keys:
  "distinct [ref_pda [CONFIG], ref_pda [TREASURY], ref_pda [BOARD], ref_pda [ROUND, SNum 0],
     ref_pda [STAKE_V2, SKey 100, SNum 7], 300, 301, MINT_ADDRESS]"
  by (simp add: demo_addresses CONFIG_def TREASURY_def BOARD_def ROUND_def)

lemma demo_keys_rev:
  "distinct [MINT_ADDRESS, 301, 300, ref_pda [STAKE_V2, SKey 100, SNum 7], ref_pda [ROUND, SNum 0], ref_pda [BOARD],
     ref_pda [TREASURY], ref_pda [CONFIG]]"
  using demo_keys by auto

lemma demo_init_runs:
  "\<exists>w. process_initialize ref_host demo_init_accounts 1 2 3 100 demo_start = Inr w
     \<and> w_data w (ref_pda [TREASURY]) = ATreasury demo_treasury
     \<and> w_data w 300 = AToken \<lparr>tk_owner = 100, tk_mint = MINT_ADDRESS, tk_amount = 5000\<rparr>
     \<and> w_data w MINT_ADDRESS = AMint \<lparr>mt_supply = 100000\<rparr> \<and> w_data w 301 = AEmpty
     \<and> w_data w (ref_pda [STAKE_V2, SKey 100, SNum 7]) = AEmpty \<and> w_unix_timestamp w = 1000"
  using demo_keys demo_keys_rev
  by (simp add: process_initialize_def assert_panic_def amount_consts demo_init_accounts_def demo_start_def world_of_def ref_holds_def load_def
      program_id_def create_program_account_def ref_create_def zeroed_def Let_def new_is_demo_treasury)

lemma demo_stake_runs:
  assumes "w_data w (ref_pda [TREASURY]) = ATreasury demo_treasury"
    "w_data w 300 = AToken \<lparr>tk_owner = 100, tk_mint = MINT_ADDRESS, tk_amount = 5000\<rparr>"
    "w_data w MINT_ADDRESS = AMint \<lparr>mt_supply = 100000\<rparr>" "w_data w 301 = AEmpty"
    "w_data w (ref_pda [STAKE_V2, SKey 100, SNum 7]) = AEmpty" "w_unix_timestamp w = 1000"
  shows "\<exists>w'. process_deposit_v2 ref_host demo_stake_accounts 7 1000 0 w = Inr w'
     \<and> w_data w' (ref_pda [TREASURY]) = ATreasury (demo_treasury\<lparr>tr_total_staked := 1000\<rparr>)
     \<and> w_data w' (ref_pda [STAKE_V2, SKey 100, SNum 7]) = AStakeV2 demo_stake"
  using demo_keys demo_keys_rev
  by (simp add: process_deposit_v2_def demo_stake_accounts_def assms ref_holds_def load_def
      token_programs_def program_id_def open_token_account_def data_is_empty_def create_program_account_def
      ref_create_def zeroed_def demo_sv_fresh demo_deposit transfer_def ref_transfer_def Let_def time_consts set_data_def)

lemma demo_staked:
  obtains w1 w2 where "history ref_host (\<lambda>_ _. 0) (\<lambda>ix. \<not> repairs_total ix) w1"
    "process_instruction ref_host (\<lambda>_ _. 0) demo_stake_accounts (DepositV2 7 1000 0) w1 = Inr w2"
    "history ref_host (\<lambda>_ _. 0) (\<lambda>ix. \<not> repairs_total ix) w2"
    "w_data w2 (ref_pda [TREASURY]) = ATreasury (demo_treasury\<lparr>tr_total_staked := 1000\<rparr>)"
    "w_data w2 (ref_pda [STAKE_V2, SKey 100, SNum 7]) = AStakeV2 demo_stake"
proof -
  obtain w1 where r1: "process_initialize ref_host demo_init_accounts 1 2 3 100 demo_start = Inr w1"
    and d: "w_data w1 (ref_pda [TREASURY]) = ATreasury demo_treasury"
      "w_data w1 300 = AToken \<lparr>tk_owner = 100, tk_mint = MINT_ADDRESS, tk_amount = 5000\<rparr>"
      "w_data w1 MINT_ADDRESS = AMint \<lparr>mt_supply = 100000\<rparr>" "w_data w1 301 = AEmpty"
      "w_data w1 (ref_pda [STAKE_V2, SKey 100, SNum 7]) = AEmpty" "w_unix_timestamp w1 = 1000"
    using demo_init_runs by blast
  obtain w2 where r2: "process_deposit_v2 ref_host demo_stake_accounts 7 1000 0 w1 = Inr w2"
      "w_data w2 (ref_pda [TREASURY]) = ATreasury (demo_treasury\<lparr>tr_total_staked := 1000\<rparr>)"
      "w_data w2 (ref_pda [STAKE_V2, SKey 100, SNum 7]) = AStakeV2 demo_stake"
    using demo_stake_runs [OF d] by blast
  have h0: "history ref_host (\<lambda>_ _. 0) (\<lambda>ix. \<not> repairs_total ix) demo_start"
    by (rule genesis) (simp add: demo_start_def world_of_def program_owned_def)
  have i1: "process_instruction ref_host (\<lambda>_ _. 0) demo_init_accounts (Initialize 1 2 3 100) demo_start = Inr w1"
    using r1 by (simp add: process_instruction_def)
  have h1: "history ref_host (\<lambda>_ _. 0) (\<lambda>ix. \<not> repairs_total ix) w1"
    by (rule instruction [OF h0 i1]) (simp add: repairs_total_def)
  have i2: "process_instruction ref_host (\<lambda>_ _. 0) demo_stake_accounts (DepositV2 7 1000 0) w1 = Inr w2"
    using r2(1) by (simp add: process_instruction_def)
  have h2: "history ref_host (\<lambda>_ _. 0) (\<lambda>ix. \<not> repairs_total ix) w2"
    by (rule instruction [OF h1 i2]) (simp add: repairs_total_def)
  show ?thesis by (rule that [OF h1 i2 h2 r2(2,3)])
qed

lemma total_staked_counts_every_stake_witness:
  "\<exists>w' :: int world. w_data w' (ref_pda [STAKE_V2, SKey 100, SNum 7]) = AStakeV2 demo_stake
     \<and> (\<Sum>q | is_stake (w_data w' q). stake_weight (w_data w' q)) = 1000"
proof -
  obtain w1 w2 where w: "history ref_host (\<lambda>_ _. 0) (\<lambda>ix. \<not> repairs_total ix) w2"
      "w_data w2 (ref_pda [TREASURY]) = ATreasury (demo_treasury\<lparr>tr_total_staked := 1000\<rparr>)"
      "w_data w2 (ref_pda [STAKE_V2, SKey 100, SNum 7]) = AStakeV2 demo_stake"
    by (rule demo_staked)
  show ?thesis using total_staked_counts_every_stake [OF ref_owner.solana_owner_axioms w(1,2)] w(3) by auto
qed

text \<open>C4. The program refines the stake machine: whatever the state of the machine that the store shows, an
  instruction that succeeds (\<open>RebaseTotalStaked\<close> apart) takes it, by steps of the machine, to a state
  that the new store shows. Most instructions take no step; a top-up takes three.\<close>

lemma instructions_refine_stake_machine:
  assumes "solana_owner H" "history H data_len allowed w" "process_instruction H data_len accounts ix w = Inr w'"
    "\<not> repairs_total ix" "shown (h_num H) (h_pda H [TREASURY]) (sees w) ps S"
  shows "\<exists>ps' S'. (stake_step (h_num H))\<^sup>*\<^sup>* S S' \<and> shown (h_num H) (h_pda H [TREASURY]) (sees w') ps' S'"
  using solana_owner.simulate_instruction [OF assms(1,3) history_addressed [OF assms(1,2)] assms(4)] assms(5)
  unfolding moves_def by blast

lemma instructions_refine_stake_machine_witness:
  "\<exists>ps S ps' S'. (stake_step fx_ops)\<^sup>*\<^sup>* S S' \<and> tr_total_staked (ss_treasury S') = 1000 \<and>
     (\<exists>w' :: int world. shown fx_ops (ref_pda [TREASURY]) (sees w') ps' S' \<and>
        w_data w' (ref_pda [STAKE_V2, SKey 100, SNum 7]) = AStakeV2 demo_stake) \<and>
     (\<exists>w :: int world. shown fx_ops (ref_pda [TREASURY]) (sees w) ps S)"
proof -
  obtain w1 w2 where w: "history ref_host (\<lambda>_ _. 0) (\<lambda>ix. \<not> repairs_total ix) w1"
      "process_instruction ref_host (\<lambda>_ _. 0) demo_stake_accounts (DepositV2 7 1000 0) w1 = Inr w2"
      "w_data w2 (ref_pda [TREASURY]) = ATreasury (demo_treasury\<lparr>tr_total_staked := 1000\<rparr>)"
      "w_data w2 (ref_pda [STAKE_V2, SKey 100, SNum 7]) = AStakeV2 demo_stake"
    by (rule demo_staked)
  obtain ps S where S: "shown fx_ops (ref_pda [TREASURY]) (sees w1) ps S"
    using history_shows [OF ref_owner.solana_owner_axioms w(1)] by auto
  obtain ps' S' where "(stake_step fx_ops)\<^sup>*\<^sup>* S S'" "shown fx_ops (ref_pda [TREASURY]) (sees w2) ps' S'"
    using instructions_refine_stake_machine [OF ref_owner.solana_owner_axioms w(1,2) _, of ps S] S
    by (auto simp: repairs_total_def)
  moreover from this(2) have "tr_total_staked (ss_treasury S') = 1000"
    using seen(3) [OF w(3)] by (simp add: shown_def booked_def staking_of_def)
  ultimately show ?thesis using S w(4) by blast
qed

text \<open>C5. As long as no administrator overwrites the total, every stake's weight can be taken out of
  \<open>total_staked\<close> in every reachable state: a version-2 stake has a weight, and replacing it by a
  smaller one (a withdrawal, the removal of the NFT boost, a migration: the two spellings of the
  adjustment) or the weights of two stakes by one no larger than their sum (a merge) succeeds with
  the exact difference; a version-1 stake whose rewards can be settled can be withdrawn from, by
  any amount.\<close>

lemma stake_weight_can_leave:
  assumes "solana_owner H" "history H data_len (\<lambda>ix. \<not> repairs_total ix) w" "w_data w p = ATreasury t"
  shows "(\<forall>k s. w_data w k = AStakeV2 s \<longrightarrow> (\<exists>u. weighted_units s = Inr u \<and>
      (\<forall>v\<le>u. adjust_total_down t u v = Inr (t\<lparr>tr_total_staked := tr_total_staked t - (u - v)\<rparr>) \<and>
        adjust_total_up t u v = Inr (t\<lparr>tr_total_staked := tr_total_staked t - (u - v)\<rparr>)))) \<and>
    (\<forall>j k s1 s2 u1 u2. j \<noteq> k \<and> w_data w j = AStakeV2 s1 \<and> w_data w k = AStakeV2 s2 \<and>
      weighted_units s1 = Inr u1 \<and> weighted_units s2 = Inr u2 \<longrightarrow>
      (\<forall>v\<le>u1 + u2. adjust_total_up t (u1 + u2) v = Inr (t\<lparr>tr_total_staked := tr_total_staked t - (u1 + u2 - v)\<rparr>))) \<and>
    (\<forall>k s s1 amount now. w_data w k = AStake s \<and> st_update_rewards N t s = Inr s1 \<longrightarrow>
      (\<exists>s'. st_withdraw N amount now t s = Inr (s',
         t\<lparr>tr_total_staked := tr_total_staked t - min (st_balance s) amount\<rparr>, min (st_balance s) amount)))"
proof (intro conjI allI impI)
  note l = store_ledger [OF assms]
  fix k s assume s: "w_data w k = AStakeV2 s"
  obtain u where u: "weighted_units s = Inr u" using l(4) [OF s] ..
  have "u \<le> tr_total_staked t"
    using sum_at_most [OF l(1), of "{k}" "\<lambda>q. stake_weight (w_data w q)"] l(2) s u by (simp add: is_stake_def stake_weight_def)
  then show "\<exists>u. weighted_units s = Inr u \<and>
      (\<forall>v\<le>u. adjust_total_down t u v = Inr (t\<lparr>tr_total_staked := tr_total_staked t - (u - v)\<rparr>) \<and>
        adjust_total_up t u v = Inr (t\<lparr>tr_total_staked := tr_total_staked t - (u - v)\<rparr>))"
    using u l(3) by (auto simp: adjust_total_down_eq adjust_total_up_eq)
next
  note l = store_ledger [OF assms(1-3)]
  fix j k s1 s2 u1 u2 v
  assume s: "j \<noteq> k \<and> w_data w j = AStakeV2 s1 \<and> w_data w k = AStakeV2 s2 \<and>
      weighted_units s1 = Inr u1 \<and> weighted_units s2 = Inr u2" and v: "v \<le> u1 + u2"
  have "u1 + u2 \<le> tr_total_staked t"
    using sum_at_most [OF l(1), of "{j, k}" "\<lambda>q. stake_weight (w_data w q)"] l(2) s by (simp add: is_stake_def stake_weight_def)
  then show "adjust_total_up t (u1 + u2) v = Inr (t\<lparr>tr_total_staked := tr_total_staked t - (u1 + u2 - v)\<rparr>)"
    using v l(3) by (auto simp: adjust_total_up_eq)
next
  note l = store_ledger [OF assms(1-3)]
  fix k s s1 amount now assume s: "w_data w k = AStake s \<and> st_update_rewards N t s = Inr s1"
  have "st_balance s \<le> tr_total_staked t"
    using sum_at_most [OF l(1), of "{k}" "\<lambda>q. stake_weight (w_data w q)"] l(2) s by (simp add: is_stake_def stake_weight_def)
  moreover have "st_balance s1 = st_balance s" using s by (auto simp: st_update_rewards_keeps)
  ultimately show "\<exists>s'. st_withdraw N amount now t s = Inr (s',
      t\<lparr>tr_total_staked := tr_total_staked t - min (st_balance s) amount\<rparr>, min (st_balance s) amount)"
    using s by (simp add: st_withdraw_def sub64_def Let_def min.coboundedI1)
qed

lemma stake_weight_can_leave_witness:
  "adjust_total_down (demo_treasury\<lparr>tr_total_staked := 1000\<rparr>) 1000 600 = Inr (demo_treasury\<lparr>tr_total_staked := 600\<rparr>) \<and>
   adjust_total_up (demo_treasury\<lparr>tr_total_staked := 1000\<rparr>) 1000 0 = Inr (demo_treasury\<lparr>tr_total_staked := 0\<rparr>)"
proof -
  obtain w1 w2 where w: "history ref_host (\<lambda>_ _. 0) (\<lambda>ix. \<not> repairs_total ix) w2"
      "w_data w2 (ref_pda [TREASURY]) = ATreasury (demo_treasury\<lparr>tr_total_staked := 1000\<rparr>)"
      "w_data w2 (ref_pda [STAKE_V2, SKey 100, SNum 7]) = AStakeV2 demo_stake"
    by (rule demo_staked)
  from stake_weight_can_leave [OF ref_owner.solana_owner_axioms w(1,2), THEN conjunct1] w(3) demo_weights(2)
  have "\<forall>v\<le>1000. adjust_total_down (demo_treasury\<lparr>tr_total_staked := 1000\<rparr>) 1000 v = Inr (demo_treasury\<lparr>tr_total_staked := 1000 - (1000 - v)\<rparr>) \<and>
      adjust_total_up (demo_treasury\<lparr>tr_total_staked := 1000\<rparr>) 1000 v = Inr (demo_treasury\<lparr>tr_total_staked := 1000 - (1000 - v)\<rparr>)"
    by fastforce
  from this [rule_format, of 600] this [rule_format, of 0] show ?thesis by simp
qed

end
