(* ===== verification/Spec2Isabelle.thy ===== *)
theory Spec2Isabelle
  imports StakeProperties RoundProperties LedgerProperties OutcomeProperties ClientProperties
    CliMain CliStakeProperties CliMiningProperties CliGoldProperties CliNetworkProperties SolvencyProperties AddressProperties
    StoreLedgerProperties
begin

text \<open>
  A verification development for the GODL program, a Solana mining game with staking: miners place
  SOL on the 25 squares of a round, the round is closed with a random number, winners are paid in
  SOL and in newly minted GODL, unclaimed (``unrefined'') GODL earns a share of other miners'
  refining fees and of gold bought by the protocol, and GODL can be staked with a lock for a share
  of the GODL that the protocol buys back.

  \<^bold>\<open>Parts of the program and where they are modelled.\<close>

  \<^item> Shared prelude (\<open>Prelude\<close>): results \<open>err + 'a\<close> with \<open>and_then\<close> for the \<open>?\<close> operator, machine
    arithmetic. The workspace builds with overflow checks, so a plain \<open>+\<close> of the source is
    \<open>add64\<close>, which aborts, and a \<open>checked_add\<close> is an option.
  \<^item> Parameters (\<open>Numeric\<close>, \<open>Host\<close>): the fixed-point type of the \<open>steel\<close> crate, as a locale of the
    laws the program relies on with an implementation; and everything the runtime and the other
    programs do (account checks, token transfers, account creation, swaps), as a record \<open>'n host\<close>
    of functions. \<open>Solana\<close> states the documented laws of those functions as a locale,
    \<open>Reference_Host\<close> defines a ledger that satisfies them.
  \<^item> Constants, errors, events and account data (\<open>Consts\<close>, \<open>State\<close>, \<open>Host\<close>):
    \<open>src/api/src/consts.rs\<close>, \<open>error.rs\<close>, \<open>event.rs\<close>, \<open>state/*.rs\<close>; a struct is a record, an
    account's content the datatype \<open>account_data\<close>, the ledger the record \<open>world\<close>.
  \<^item> Staking: the weight curve (\<open>StakeMath\<close>), the methods of \<open>StakeV2\<close> and \<open>Stake\<close> (\<open>StakeV2\<close>,
    \<open>StakeV1\<close>), the handlers of \<open>src/program/src/stake_v2\<close> and \<open>stake\<close> (\<open>StakeV2Handlers\<close>).
  \<^item> Rewards per unit (\<open>RewardIndex\<close>): the pattern the program uses three times (stake yield,
    refining fees, gold), as a locale interpreted for stakers (\<open>StakeSystem\<close>), miners (\<open>Mining\<close>)
    and gold holders (\<open>Gold\<close>).
  \<^item> Miners' ledger, claims, referral (\<open>Mining\<close>, \<open>Referral\<close>), gold (\<open>Gold\<close>, \<open>GoldHandlers\<close>).
  \<^item> The round: random outcome (\<open>Round\<close>), automation and pool state (\<open>Automation\<close>), deployment
    (\<open>Deploy\<close>), closing (\<open>Reset\<close>), payout (\<open>Checkpoint\<close>), account closing (\<open>Rounds\<close>).
  \<^item> Administration, buy-and-bury (\<open>Admin\<close>), OTC desk (\<open>Otc\<close>), dispatcher (\<open>Dispatch\<close>).
  \<^item> Instructions as bytes (\<open>Wire\<close>): the argument structs of \<open>src/api/src/instruction.rs\<close>, what the
    client writes and what each handler reads back. The tag byte and the size check of the cast are
    a parameter (\<open>wire\<close>), its laws the locale \<open>codec\<close>.
  \<^item> Addresses and instruction builders (\<open>Sdk\<close>): \<open>src/api/src/state/mod.rs\<close> and \<open>sdk.rs\<close>.
  \<^item> The command line client \<open>src/cli/src\<close>: reading accounts, batches and submission (\<open>Rpc\<close>), stake
    maintenance (\<open>CliStake\<close>), mining and closing bots (\<open>CliMining\<close>), gold and buy-back (\<open>CliGold\<close>),
    administration (\<open>CliAdmin\<close>). A command is a function on the state of the network; what the RPC node
    answers is a parameter, and \<open>LocalNode\<close> is the node of a single user, which runs the handlers. An
    error can be handled by the caller, an abort ends the program.
  \<^item> The client's transport: transactions, the relay, simulation and lookup tables (\<open>CliTransport\<close>, for
    \<open>transaction.rs\<close>), the swap router's request and answer (\<open>CliJupiter\<close>, for \<open>jupiter.rs\<close>; \<open>jupiter_router\<close>
    implements the interface that \<open>CliGold\<close> uses), other programs' accounts (\<open>CliTools\<close>, for
    \<open>lookup_table.rs\<close>, \<open>extend_program.rs\<close>, \<open>automation.rs\<close>), polling and the subcommands (\<open>CliMain\<close>, for
    \<open>main.rs\<close>). Keys and bytes as text, HTTP, the file system and those programs' instruction builders
    are parameters.

  \<^bold>\<open>What the lemmas show.\<close> \<open>StakeSystem\<close>, \<open>MinerSystem\<close>, \<open>GoldSystem\<close> and \<open>RoundSystem\<close> define the
  reachable states of the four ledgers, as inductive relations whose steps are the modelled
  operations on the accounts of all participants, and prove their invariants; \<open>Payout\<close> adds up what
  a closed round pays. \<open>StakeContract\<close> reads what the stake handlers do to the token accounts off
  the host's laws. \<open>Lamports\<close> adds the runtime's rule that only its owner debits an account;
  \<open>Solvency\<close> and \<open>SolvencyMoves\<close> show handler by handler that every recorded lamport amount stays
  backed, \<open>SolvencyProperties\<close> states it for all histories.
  \<open>Ownership\<close> adds that only the program creates or types its accounts; \<open>Addresses\<close>,
  \<open>AddressMoves\<close> and \<open>AddressProperties\<close> show in the same way that every account stays at the
  address of its type and owner. \<open>StakeView\<close>, \<open>StakeViewMoves\<close>, \<open>StakeRefinement\<close> and
  \<open>StakeSimulation\<close> show that every instruction, on the stake accounts and the treasury of the store,
  is a sequence of steps of the machine of \<open>StakeSystem\<close> (a forward simulation), so that
  \<open>StoreLedgerProperties\<close> can state the ledger's invariants for the store itself; \<open>RebaseTotalStaked\<close>, with
  which an administrator overwrites the total, is excluded there. \<open>Runs\<close> builds concrete reachable states. The theories ending in \<open>Properties\<close>
  hold the main statements, each followed by a concrete instance; those of the client relate its audits,
  repairs and bots to the invariants of the program.

  \<^bold>\<open>Recursion.\<close> The Newton iteration of \<open>isqrt_u128\<close> is a total function, its measure the current
  estimate, and so is the cutting into batches (measure: the remaining instructions); every other
  loop of the program runs over a list. The retry loops of the client recurse on the attempts left,
  ten passes of the migration sweep and five attempts of a rebase, as in the code. An endless polling
  loop takes the number of turns to watch, and what is proved holds for every number.

  \<^bold>\<open>Not modelled.\<close> The byte layout of accounts (the \<open>bytemuck\<close> crate); log messages and everything
  the client only prints (\<open>display.rs\<close>, \<open>info.rs\<close>, \<open>explore.rs\<close>, dry-run listings); \<open>f64\<close> arithmetic, which
  is a parameter; the parsing of the command line; the retired account \<open>state/automation.rs\<close>, tests and fuzz targets. A Solana transaction that fails is rolled back
  by the runtime, so an error result carries no state.
\<close>

end
